(* ===== verification/Prelude.thy ===== *)
theory Prelude
  imports Main "HOL-Library.AList" "HOL-Library.Char_ord" "HOL-Library.List_Lexorder"
    "HOL-Library.Sublist" "HOL-Library.Multiset"
begin

text \<open>
  Shared vocabulary of the development.  Go strings are byte strings, so they are
  HOL's \<open>string\<close> (lists of 8-bit characters), ordered bytewise as Go's \<open><\<close> does
  (\<open>List_Lexorder\<close> over \<open>Char_ord\<close>).  The operations of Go's package \<open>strings\<close> that
  the code uses are defined on the ASCII fragment: a byte above 127 is neither a space
  nor cased.  A Go map is an association list: its order stands for one of the
  iteration orders the language leaves open, and every statement about a \<open>range\<close> over
  a map is proved for all of them.  Instants are nanoseconds counted from Go's
  zero \<open>time.Time\<close>, and durations are nanoseconds, so \<open>IsZero\<close> is \<open>t = 0\<close>.
\<close>

named_theorems go_defs \<open>definitions of the Go string operations, for evaluation\<close>
named_theorems alist_simps \<open>lookup and update laws of association lists\<close>

type_synonym time = int
type_synonym 'v gomap = "(string \<times> 'v) list"

text \<open>\<open>time.Second\<close>.\<close>

definition Second :: int where
  "Second = 1000000000"

section \<open>Characters and strings\<close>

definition is_space :: "char \<Rightarrow> bool" where
  [go_defs]: "is_space c \<longleftrightarrow> c = CHR '' '' \<or> c = CHR 0x09 \<or> c = CHR 0x0A \<or> c = CHR 0x0B
     \<or> c = CHR 0x0C \<or> c = CHR 0x0D"

definition is_digit :: "char \<Rightarrow> bool" where
  [go_defs]: "is_digit c \<longleftrightarrow> CHR ''0'' \<le> c \<and> c \<le> CHR ''9''"

definition is_upper :: "char \<Rightarrow> bool" where
  [go_defs]: "is_upper c \<longleftrightarrow> CHR ''A'' \<le> c \<and> c \<le> CHR ''Z''"

definition is_lower :: "char \<Rightarrow> bool" where
  [go_defs]: "is_lower c \<longleftrightarrow> CHR ''a'' \<le> c \<and> c \<le> CHR ''z''"

definition lower_char :: "char \<Rightarrow> char" where
  [go_defs]: "lower_char c = (if is_upper c then char_of ((of_char c :: nat) + 32) else c)"

definition upper_char :: "char \<Rightarrow> char" where
  [go_defs]: "upper_char c = (if is_lower c then char_of ((of_char c :: nat) - 32) else c)"

text \<open>\<open>strings.TrimSpace\<close>, \<open>ToLower\<close>, \<open>ToUpper\<close>, \<open>EqualFold\<close>.\<close>

definition trim_space :: "string \<Rightarrow> string" where
  [go_defs]: "trim_space s = rev (dropWhile is_space (rev (dropWhile is_space s)))"

definition to_lower :: "string \<Rightarrow> string" where
  [go_defs]: "to_lower s = map lower_char s"

definition to_upper :: "string \<Rightarrow> string" where
  [go_defs]: "to_upper s = map upper_char s"

definition equal_fold :: "string \<Rightarrow> string \<Rightarrow> bool" where
  [go_defs]: "equal_fold s t \<longleftrightarrow> to_lower s = to_lower t"

text \<open>\<open>strings.HasPrefix\<close>, \<open>HasSuffix\<close>, \<open>TrimPrefix\<close>, \<open>TrimSuffix\<close>, \<open>Contains\<close>.\<close>

definition has_prefix :: "string \<Rightarrow> string \<Rightarrow> bool" where
  [go_defs]: "has_prefix s p \<longleftrightarrow> take (length p) s = p"

definition has_suffix :: "string \<Rightarrow> string \<Rightarrow> bool" where
  [go_defs]: "has_suffix s p \<longleftrightarrow> has_prefix (rev s) (rev p)"

definition trim_prefix :: "string \<Rightarrow> string \<Rightarrow> string" where
  [go_defs]: "trim_prefix s p = (if has_prefix s p then drop (length p) s else s)"

definition trim_suffix :: "string \<Rightarrow> string \<Rightarrow> string" where
  [go_defs]: "trim_suffix s p = (if has_suffix s p then take (length s - length p) s else s)"

fun contains_str :: "string \<Rightarrow> string \<Rightarrow> bool" where
  "contains_str [] p \<longleftrightarrow> p = []"
| "contains_str (c # s) p \<longleftrightarrow> has_prefix (c # s) p \<or> contains_str s p"

text \<open>\<open>strings.Join\<close> and \<open>strings.Fields\<close>.\<close>

fun join_with :: "string \<Rightarrow> string list \<Rightarrow> string" where
  "join_with sep [] = []"
| "join_with sep [x] = x"
| "join_with sep (x # y # zs) = x @ sep @ join_with sep (y # zs)"

fun fields_acc :: "string \<Rightarrow> string \<Rightarrow> string list" where
  "fields_acc cur [] = (if cur = [] then [] else [rev cur])"
| "fields_acc cur (c # s) =
     (if is_space c then (if cur = [] then fields_acc [] s else rev cur # fields_acc [] s)
      else fields_acc (c # cur) s)"

definition split_fields :: "string \<Rightarrow> string list" where
  [go_defs]: "split_fields s = fields_acc [] s"

text \<open>The part before the first occurrence of a character (all of it when there is none).\<close>

definition before_char :: "char \<Rightarrow> string \<Rightarrow> string" where
  [go_defs]: "before_char c s = takeWhile (\<lambda>d. d \<noteq> c) s"

lemma trim_space_Nil [simp]: "trim_space [] = []"
  by (simp add: trim_space_def)

lemma dropWhile_idem: "dropWhile P (dropWhile P xs) = dropWhile P xs"
  by (induction xs) auto

lemma hd_trim_space: "trim_space s \<noteq> [] \<Longrightarrow> \<not> is_space (hd (trim_space s))"
proof -
  assume ne: "trim_space s \<noteq> []"
  let ?u = "dropWhile is_space s"
  have suf: "suffix (dropWhile is_space (rev ?u)) (rev ?u)"
    by (rule suffix_dropWhile)
  then obtain w where w: "rev ?u = w @ dropWhile is_space (rev ?u)"
    by (auto simp: suffix_def)
  then have "?u = trim_space s @ rev w"
    by (metis rev_append rev_rev_ident trim_space_def)
  then have "hd ?u = hd (trim_space s)" "?u \<noteq> []" using ne by auto
  then show ?thesis using hd_dropWhile [of is_space s] by simp
qed

lemma trim_space_idem [simp]: "trim_space (trim_space s) = trim_space s"
proof (cases "trim_space s")
  case Nil
  then show ?thesis by simp
next
  case (Cons c cs)
  have "\<not> is_space c" using hd_trim_space [of s] Cons by simp
  then have "dropWhile is_space (trim_space s) = trim_space s" using Cons by simp
  moreover have "dropWhile is_space (rev (trim_space s)) = rev (trim_space s)"
    by (simp add: trim_space_def dropWhile_idem)
  ultimately show ?thesis by (simp add: trim_space_def [of "trim_space s"])
qed

lemma lower_char_idem [simp]: "lower_char (lower_char c) = lower_char c"
proof (cases "is_upper c")
  case True
  then have "65 \<le> (of_char c :: nat)" "(of_char c :: nat) \<le> 90"
    by (auto simp: is_upper_def less_eq_char_def)
  then have "(of_char (char_of ((of_char c :: nat) + 32)) :: nat) = of_char c + 32"
    by (simp add: of_char_of)
  then have "\<not> is_upper (lower_char c)"
    using True \<open>65 \<le> of_char c\<close> by (simp add: lower_char_def is_upper_def less_eq_char_def)
  then show ?thesis by (simp add: lower_char_def)
qed (simp add: lower_char_def)

lemma to_lower_idem [simp]: "to_lower (to_lower s) = to_lower s"
  by (simp add: to_lower_def)

lemma equal_fold_refl [simp]: "equal_fold s s"
  by (simp add: equal_fold_def)

lemma equal_fold_sym: "equal_fold s t \<longleftrightarrow> equal_fold t s"
  by (auto simp: equal_fold_def)

lemma has_prefix_iff: "has_prefix s p \<longleftrightarrow> prefix p s"
  unfolding has_prefix_def prefix_def
  by (metis append_eq_conv_conj append_take_drop_id)

lemma contains_str_iff: "contains_str s p \<longleftrightarrow> sublist p s"
  by (induction s) (auto simp: has_prefix_iff sublist_Cons_right)

section \<open>Go maps as association lists\<close>

text \<open>\<open>gomap_all P m\<close>: every entry of the map satisfies \<open>P\<close>.\<close>

definition gomap_all :: "('k \<Rightarrow> 'v \<Rightarrow> bool) \<Rightarrow> ('k \<times> 'v) list \<Rightarrow> bool" where
  "gomap_all P m \<longleftrightarrow> list_all (\<lambda>(k, v). P k v) m"

lemma gomap_all_Nil [simp]: "gomap_all P []"
  by (simp add: gomap_all_def)

lemma gomap_all_Cons [simp]: "gomap_all P ((k, v) # m) \<longleftrightarrow> P k v \<and> gomap_all P m"
  by (simp add: gomap_all_def)

lemma gomap_allD: "gomap_all P m \<Longrightarrow> map_of m k = Some v \<Longrightarrow> P k v"
  by (auto simp: gomap_all_def list_all_iff dest: map_of_SomeD)

lemma gomap_all_set: "gomap_all P m \<longleftrightarrow> (\<forall>(k, v) \<in> set m. P k v)"
  by (simp add: gomap_all_def list_all_iff)

lemma gomap_all_mono: "gomap_all P m \<Longrightarrow> (\<And>k v. P k v \<Longrightarrow> Q k v) \<Longrightarrow> gomap_all Q m"
  by (auto simp: gomap_all_set)

lemma gomap_all_update [intro]:
  "gomap_all P m \<Longrightarrow> P k v \<Longrightarrow> gomap_all P (AList.update k v m)"
  by (induction m) (auto simp: gomap_all_def)

lemma gomap_all_delete [intro]: "gomap_all P m \<Longrightarrow> gomap_all P (AList.delete k m)"
  by (auto simp: gomap_all_set AList.delete_eq)

declare update_conv' [alist_simps] delete_conv' [alist_simps]

lemma distinct_fst_update [simp]:
  "distinct (map fst m) \<Longrightarrow> distinct (map fst (AList.update k v m))"
  by (rule distinct_update)

lemma distinct_fst_delete [simp]:
  "distinct (map fst m) \<Longrightarrow> distinct (map fst (AList.delete k m))"
  by (rule distinct_delete)

lemma fst_set_update [simp]: "fst ` set (AList.update k v m) = insert k (fst ` set m)"
  by (metis dom_map_of_conv_image_fst dom_fun_upd option.distinct(1) update_conv')

lemma map_of_fst_mem: "map_of m k = Some v \<Longrightarrow> k \<in> fst ` set m"
  by (force dest: map_of_SomeD)

lemma fst_mem_map_of: "k \<in> fst ` set m \<longleftrightarrow> (\<exists>v. map_of m k = Some v)"
  by (metis domD domI dom_map_of_conv_image_fst)

section \<open>Loops that may return early\<close>

text \<open>A \<open>for\<close> loop over a list whose body may leave the function with an error.\<close>

primrec foldM :: "('a \<Rightarrow> 's \<Rightarrow> 's option) \<Rightarrow> 'a list \<Rightarrow> 's \<Rightarrow> 's option" where
  "foldM f [] s = Some s"
| "foldM f (x # xs) s = (case f x s of None \<Rightarrow> None | Some s' \<Rightarrow> foldM f xs s')"

lemma foldM_append [simp]:
  "foldM f (xs @ ys) s = (case foldM f xs s of None \<Rightarrow> None | Some s' \<Rightarrow> foldM f ys s')"
  by (induction xs arbitrary: s) (auto split: option.splits)

lemma foldM_invariant:
  "foldM f xs s = Some s' \<Longrightarrow> P s \<Longrightarrow> (\<And>x t t'. x \<in> set xs \<Longrightarrow> f x t = Some t' \<Longrightarrow> P t \<Longrightarrow> P t') \<Longrightarrow> P s'"
  by (induction xs arbitrary: s) (auto split: option.splits, metis)

section \<open>First hits\<close>

lemma find_append: "find P (xs @ ys) = (case find P xs of None \<Rightarrow> find P ys | Some x \<Rightarrow> Some x)"
  by (induction xs) auto

lemma find_sat: "find P xs = Some x \<Longrightarrow> P x"
  by (induction xs) (auto split: if_splits)

section \<open>Sorted keys\<close>

text \<open>Ranging over a Go map in the order of its sorted keys.\<close>

definition by_key :: "(string \<times> 'v) list \<Rightarrow> (string \<times> 'v) list" where
  "by_key m = sort_key fst m"

lemma by_key_set [simp]: "set (by_key m) = set m"
  by (simp add: by_key_def)

lemma by_key_fst_set [simp]: "fst ` set (by_key m) = fst ` set m"
  by simp

lemma by_key_sorted [simp]: "sorted (map fst (by_key m))"
  by (simp add: by_key_def)

lemma by_key_length [simp]: "length (by_key m) = length m"
  by (simp add: by_key_def)

lemma by_key_Nil [simp]: "by_key [] = []"
  by (simp add: by_key_def)

lemma by_key_distinct [simp]: "distinct (map fst (by_key m)) \<longleftrightarrow> distinct (map fst m)"
proof -
  have "mset (map fst (by_key m)) = mset (map fst m)" by (simp add: by_key_def)
  then show ?thesis by (metis mset_eq_imp_distinct_iff)
qed

lemma by_key_map_of [simp]:
  assumes "distinct (map fst m)"
  shows "map_of (by_key m) = map_of m"
proof -
  have "distinct (map fst (by_key m))" using assms by simp
  then show ?thesis using assms by (metis map_of_inject_set by_key_set)
qed

lemma by_key_id: "sorted (map fst m) \<Longrightarrow> by_key m = m"
  by (simp add: by_key_def sorted_sort_id sort_key_id_if_sorted)

lemma by_key_idem [simp]: "by_key (by_key m) = by_key m"
  by (simp add: by_key_id)

lemma gomap_all_by_key [simp]: "gomap_all P (by_key m) = gomap_all P m"
  by (simp add: gomap_all_set)

text \<open>Mapping the values of a Go map.\<close>

definition map_vals :: "('v \<Rightarrow> 'w) \<Rightarrow> ('k \<times> 'v) list \<Rightarrow> ('k \<times> 'w) list" where
  "map_vals f m = map (\<lambda>(k, v). (k, f v)) m"

lemma map_vals_simps [simp]:
  "map_vals f [] = []" "map_vals f ((k, v) # m) = (k, f v) # map_vals f m"
  "map fst (map_vals f m) = map fst m" "map_of (map_vals f m) k = map_option f (map_of m k)"
  "fst ` set (map_vals f m) = fst ` set m"
  by (auto simp: map_vals_def comp_def case_prod_beta image_image map_of_map)

lemma gomap_all_map_vals [simp]: "gomap_all P (map_vals f m) = gomap_all (\<lambda>k v. P k (f v)) m"
  by (auto simp: gomap_all_set map_vals_def)

lemma map_vals_comp [simp]: "map_vals f (map_vals g m) = map_vals (f \<circ> g) m"
  by (induction m) auto

lemma map_vals_cong: "(\<And>k v. (k, v) \<in> set m \<Longrightarrow> f v = g v) \<Longrightarrow> map_vals f m = map_vals g m"
  by (auto simp: map_vals_def)

lemma insort_key_map: "insort_key g (h x) (map h xs) = map h (insort_key (g \<circ> h) x xs)"
  by (induction xs) auto

lemma sort_key_map: "sort_key g (map h xs) = map h (sort_key (g \<circ> h) xs)"
  by (induction xs) (auto simp: insort_key_map comp_def)

lemma by_key_map_vals: "by_key (map_vals f m) = map_vals f (by_key m)"
  by (simp add: by_key_def map_vals_def sort_key_map comp_def case_prod_beta)

lemma update_new: "k \<notin> fst ` set m \<Longrightarrow> AList.update k v m = m @ [(k, v)]"
  by (induction m) auto

lemma update_mid:
  "k \<notin> fst ` set xs \<Longrightarrow> AList.update k v (xs @ (k, w) # ys) = xs @ (k, v) # ys"
  by (induction xs) auto

lemma map_of_mid: "k \<notin> fst ` set xs \<Longrightarrow> map_of (xs @ (k, w) # ys) k = Some w"
  by (induction xs) auto

end
