(* ===== verification/Versions.thy ===== *)
theory Versions
  imports Prelude "HOL-Library.Product_Lexorder" "HOL-Library.Multiset"
begin

text \<open>
  Release versions (\<open>ohmf/services/apps/registry.go\<close>): the semantic-version pattern,
  \<open>versionGreater\<close> with its \<open>fmt.Sscanf\<close> parse, and the choice of a greatest element
  while ranging over a Go map.  The choice is stated once, as a locale over the key that
  is compared, and is independent of the map's iteration order.
\<close>

section \<open>fmt.Sscanf with "%d.%d.%d"\<close>

definition digits_val :: "string \<Rightarrow> int" where
  "digits_val ds = foldl (\<lambda>n c. n * 10 + (of_char c - 48)) 0 ds"

text \<open>
  One \<open>%d\<close> verb: spaces but no newline are skipped, an optional sign and at least one
  decimal digit are read, and a value outside the 64-bit range is an error.
\<close>

definition scan_int :: "string \<Rightarrow> (int \<times> string) option" where
  "scan_int s =
     (let s1 = dropWhile (\<lambda>c. is_space c \<and> c \<noteq> CHR 0x0A) s;
          neg = (take 1 s1 = ''-'');
          s2 = (if neg \<or> take 1 s1 = ''+'' then drop 1 s1 else s1);
          ds = takeWhile is_digit s2;
          v = (if neg then - digits_val ds else digits_val ds)
      in if ds = [] \<or> v < - (2 ^ 63) \<or> 2 ^ 63 \<le> v then None
         else Some (v, dropWhile is_digit s2))"

text \<open>The literal dot of the format: the scan goes on only when the input has it.\<close>

definition scan_dot_int :: "string \<Rightarrow> (int \<times> string) option" where
  "scan_dot_int s = (if take 1 s = ''.'' then scan_int (drop 1 s) else None)"

text \<open>A slot that the scan did not reach keeps its zero value.\<close>

definition parse_version :: "string \<Rightarrow> int \<times> int \<times> int" where
  "parse_version value =
     (case scan_int (before_char (CHR ''-'') value) of
        None \<Rightarrow> (0, 0, 0)
      | Some (a, r1) \<Rightarrow>
          (case scan_dot_int r1 of
             None \<Rightarrow> (a, 0, 0)
           | Some (b, r2) \<Rightarrow>
               (case scan_dot_int r2 of
                  None \<Rightarrow> (a, b, 0)
                | Some (c, _) \<Rightarrow> (a, b, c))))"

definition versionGreater :: "string \<Rightarrow> string \<Rightarrow> bool" where
  "versionGreater a b =
     (if b = [] then True
      else case (parse_version a, parse_version b) of ((a0, a1, a2), (b0, b1, b2)) \<Rightarrow>
        if a0 > b0 then True else if a0 < b0 then False
        else if a1 > b1 then True else if a1 < b1 then False
        else if a2 > b2 then True else if a2 < b2 then False
        else a > b)"

text \<open>\<open>semverPattern\<close>: \<open>^\d+\.\d+\.\d+(-[A-Za-z0-9.-]+)?$\<close>, matched left to right.\<close>

definition prerelease_char :: "char \<Rightarrow> bool" where
  "prerelease_char c \<longleftrightarrow> is_upper c \<or> is_lower c \<or> is_digit c \<or> c = CHR ''.'' \<or> c = CHR ''-''"

definition semverPattern :: "string \<Rightarrow> bool" where
  "semverPattern s =
     (let a = takeWhile is_digit s; r1 = dropWhile is_digit s;
          b = takeWhile is_digit (drop 1 r1); r2 = dropWhile is_digit (drop 1 r1);
          c = takeWhile is_digit (drop 1 r2); r3 = dropWhile is_digit (drop 1 r2)
      in a \<noteq> [] \<and> take 1 r1 = ''.'' \<and> b \<noteq> [] \<and> take 1 r2 = ''.'' \<and> c \<noteq> [] \<and>
         (r3 = [] \<or> (take 1 r3 = ''-'' \<and> drop 1 r3 \<noteq> [] \<and> list_all prerelease_char (drop 1 r3))))"

section \<open>The order of versions\<close>

text \<open>The key that \<open>versionGreater\<close> compares, in the lexicographic order of tuples.\<close>

definition version_key :: "string \<Rightarrow> int \<times> int \<times> int \<times> string" where
  "version_key v = (case parse_version v of (a, b, c) \<Rightarrow> (a, b, c, v))"

lemma version_key_inject [simp]: "version_key a = version_key b \<longleftrightarrow> a = b"
  by (auto simp: version_key_def split: prod.splits)

lemma versionGreater_key:
  assumes "b \<noteq> []"
  shows "versionGreater a b \<longleftrightarrow> version_key b < version_key a"
proof -
  obtain a0 a1 a2 where pa: "parse_version a = (a0, a1, a2)" by (cases "parse_version a") auto
  obtain b0 b1 b2 where pb: "parse_version b = (b0, b1, b2)" by (cases "parse_version b") auto
  show ?thesis
    using assms unfolding versionGreater_def version_key_def pa pb
    by (cases b0 a0 rule: linorder_cases; cases b1 a1 rule: linorder_cases;
        cases b2 a2 rule: linorder_cases) simp_all
qed

lemma digits_val_nonneg: "list_all is_digit ds \<Longrightarrow> 0 \<le> digits_val ds"
proof -
  have "0 \<le> foldl (\<lambda>n c. n * 10 + (of_char c - 48)) n ds"
    if "list_all is_digit ds" "0 \<le> n" for n :: int
    using that
  proof (induction ds arbitrary: n)
    case (Cons c ds)
    have "48 \<le> (of_char c :: nat)" using Cons.prems(1) by (simp add: is_digit_def less_eq_char_def)
    then have "48 \<le> (of_char c :: int)"
      by (metis of_nat_le_iff of_nat_numeral of_nat_of_char)
    then show ?case using Cons by simp
  qed simp
  then show "list_all is_digit ds \<Longrightarrow> 0 \<le> digits_val ds" by (simp add: digits_val_def)
qed

section \<open>Ranging over a map for the greatest element\<close>

text \<open>
  The loop \<open>if best == nil || better(x, best) { best = x }\<close>, run over the values of a map in
  one of its iteration orders.
\<close>

definition pick_step :: "('a \<Rightarrow> 'a \<Rightarrow> bool) \<Rightarrow> 'a option \<Rightarrow> 'a \<Rightarrow> 'a option" where
  "pick_step better best x =
     (case best of None \<Rightarrow> Some x | Some b \<Rightarrow> if better x b then Some x else Some b)"

definition pick_latest :: "('a \<Rightarrow> 'a \<Rightarrow> bool) \<Rightarrow> 'a list \<Rightarrow> 'a option" where
  "pick_latest better xs = foldl (pick_step better) None xs"

lemma pick_latest_Nil [simp]: "pick_latest better [] = None"
  by (simp add: pick_latest_def)

lemma pick_latest_snoc:
  "pick_latest better (xs @ [x]) = pick_step better (pick_latest better xs) x"
  by (simp add: pick_latest_def)

lemma pick_latest_None [simp]: "pick_latest better xs = None \<longleftrightarrow> xs = []"
  by (cases xs rule: rev_cases)
     (auto simp: pick_latest_snoc pick_step_def split: option.splits)

lemma pick_latest_mem: "pick_latest better xs = Some x \<Longrightarrow> x \<in> set xs"
  by (induction xs arbitrary: x rule: rev_induct)
     (auto simp: pick_latest_snoc pick_step_def split: option.splits if_splits)

text \<open>
  What the comparison has to promise: on the elements that are \<open>ok\<close> it is the strict order
  of a linearly ordered key.
\<close>

locale latest_choice =
  fixes better :: "'a \<Rightarrow> 'a \<Rightarrow> bool"
    and ok :: "'a \<Rightarrow> bool"
    and key :: "'a \<Rightarrow> 'k :: linorder"
  assumes better_key: "ok a \<Longrightarrow> ok b \<Longrightarrow> better a b \<longleftrightarrow> key b < key a"
begin

lemma pick_greatest:
  assumes "list_all ok xs" and "pick_latest better xs = Some x" and "y \<in> set xs"
  shows "key y \<le> key x"
  using assms
proof (induction xs arbitrary: x y rule: rev_induct)
  case (snoc z xs)
  show ?case
  proof (cases "pick_latest better xs")
    case None
    then have "xs = []" by simp
    then show ?thesis using snoc.prems by (auto simp: pick_latest_def pick_step_def)
  next
    case (Some b)
    have okb: "ok b" "ok z" using snoc.prems(1) pick_latest_mem [OF Some]
      by (auto simp: list_all_iff)
    have le: "key w \<le> key b" if "w \<in> set xs" for w
      using snoc.IH [OF _ Some that] snoc.prems(1) by simp
    show ?thesis
    proof (cases "better z b")
      case True
      then have "x = z" using snoc.prems(2) Some by (simp add: pick_latest_snoc pick_step_def)
      then show ?thesis using True better_key [OF okb(2,1)] le snoc.prems(3) by fastforce
    next
      case False
      then have "x = b" using snoc.prems(2) Some by (simp add: pick_latest_snoc pick_step_def)
      then show ?thesis using False better_key [OF okb(2,1)] le snoc.prems(3) by fastforce
    qed
  qed
qed simp

lemma pick_unique:
  assumes "list_all ok xs" and "inj_on key (set xs)"
    and "x \<in> set xs" and "\<And>y. y \<in> set xs \<Longrightarrow> key y \<le> key x"
  shows "pick_latest better xs = Some x"
proof -
  obtain b where b: "pick_latest better xs = Some b"
    using assms(3) by (cases "pick_latest better xs") auto
  have "key x \<le> key b" by (rule pick_greatest [OF assms(1) b assms(3)])
  moreover have "key b \<le> key x" using assms(4) pick_latest_mem [OF b] by blast
  ultimately have "b = x"
    using inj_onD [OF assms(2)] pick_latest_mem [OF b] assms(3) by (meson antisym)
  then show ?thesis using b by simp
qed

lemma pick_order_independent:
  assumes "list_all ok xs" and "inj_on key (set xs)" and "set xs = set ys"
  shows "pick_latest better xs = pick_latest better ys"
proof (cases "pick_latest better xs")
  case None
  then show ?thesis using assms(3) by simp
next
  case (Some x)
  have "pick_latest better ys = Some x"
  proof (rule pick_unique)
    show "list_all ok ys" using assms by (simp add: list_all_iff)
    show "inj_on key (set ys)" using assms by simp
    show "x \<in> set ys" using pick_latest_mem [OF Some] assms by simp
    show "key y \<le> key x" if "y \<in> set ys" for y
      using pick_greatest [OF assms(1) Some] assms(3) that by simp
  qed
  then show ?thesis using Some by simp
qed

end

text \<open>\<open>versionGreater\<close> provides the interface on non-empty versions.\<close>

interpretation ver: latest_choice versionGreater "\<lambda>v. v \<noteq> []" version_key
  by unfold_locales (simp add: versionGreater_key)

lemma inj_version_key [simp]: "inj_on version_key A"
  by (simp add: inj_on_def)

text \<open>C13. \<open>versionGreater\<close> is a strict total order on non-empty version strings: irreflexive,
  transitive, and of two different versions exactly one is greater.\<close>

theorem versionGreater_strict_total:
  assumes "a \<noteq> []" and "b \<noteq> []" and "c \<noteq> []"
  shows "\<not> versionGreater a a
    \<and> (versionGreater a b \<and> versionGreater b c \<longrightarrow> versionGreater a c)
    \<and> (a \<noteq> b \<longrightarrow> versionGreater a b \<noteq> versionGreater b a)"
proof -
  have "version_key a < version_key b \<or> version_key b < version_key a" if "a \<noteq> b"
    using that by (metis neqE version_key_inject)
  then show ?thesis using assms by (auto simp: versionGreater_key)
qed

theorem versionGreater_strict_total_witness:
  "versionGreater ''1.10.0'' ''1.9.0'' \<and> \<not> versionGreater ''1.9.0'' ''1.10.0''"
proof -
  have g: "versionGreater ''1.10.0'' ''1.9.0''" by code_simp
  show ?thesis
    using g versionGreater_strict_total [of "''1.10.0''" "''1.9.0''" "''1.9.0''"] by simp
qed

end
