(* ===== verification/Json.thy ===== *)
theory Json
  imports Prelude
begin

text \<open>
  The values of \<open>encoding/json\<close> as the code handles them: Go's \<open>any\<close> holding decoded
  JSON.  A number is a \<open>float64\<close>; it is kept as the decimal text \<open>encoding/json\<close>
  prints for it.  An object is a Go map; \<open>json.Marshal\<close> prints its keys in sorted order.
\<close>

datatype json =
    JNull
  | JBool bool
  | JNum string
  | JStr string
  | JArr "json list"
  | JObj "(string \<times> json) list"

text \<open>Type assertions \<open>v.(T)\<close>, with \<open>None\<close> for the failed assertion.\<close>

fun as_obj :: "json option \<Rightarrow> json gomap option" where
  "as_obj (Some (JObj m)) = Some m"
| "as_obj _ = None"

fun as_arr :: "json option \<Rightarrow> json list option" where
  "as_arr (Some (JArr xs)) = Some xs"
| "as_arr _ = None"

fun as_str :: "json option \<Rightarrow> string option" where
  "as_str (Some (JStr s)) = Some s"
| "as_str _ = None"

text \<open>An assertion whose failure is ignored (\<open>m, _ := v.(map[string]any)\<close>) yields the nil map.\<close>

definition obj_or_nil :: "json option \<Rightarrow> json gomap" where
  "obj_or_nil v = (case as_obj v of None \<Rightarrow> [] | Some m \<Rightarrow> m)"

section \<open>json.Marshal\<close>

definition hex_digit :: "nat \<Rightarrow> char" where
  "hex_digit n = (if n < 10 then char_of (48 + n) else char_of (87 + n))"

definition hex_byte :: "char \<Rightarrow> string" where
  "hex_byte c = [hex_digit ((of_char c :: nat) div 16), hex_digit ((of_char c :: nat) mod 16)]"

text \<open>The \<open>%x\<close> verb and \<open>hex.EncodeToString\<close> on a byte string.\<close>

definition hex_encode :: "string \<Rightarrow> string" where
  "hex_encode s = concat (map hex_byte s)"

definition escape_char :: "char \<Rightarrow> string" where
  "escape_char c =
     (if c = CHR 0x22 \<or> c = CHR 0x5C then [CHR 0x5C, c]
      else if c = CHR 0x08 then [CHR 0x5C, CHR ''b'']
      else if c = CHR 0x0C then [CHR 0x5C, CHR ''f'']
      else if c = CHR 0x0A then [CHR 0x5C, CHR ''n'']
      else if c = CHR 0x0D then [CHR 0x5C, CHR ''r'']
      else if c = CHR 0x09 then [CHR 0x5C, CHR ''t'']
      else if (of_char c :: nat) < 32 \<or> c = CHR ''<'' \<or> c = CHR ''>'' \<or> c = CHR ''&''
        then [CHR 0x5C] @ ''u00'' @ hex_byte c
      else [c])"

definition quote_json :: "string \<Rightarrow> string" where
  "quote_json s = [CHR 0x22] @ concat (map escape_char s) @ [CHR 0x22]"

text \<open>
  Object members are printed in key order.  The members are marshalled first and then
  sorted by key, so that the recursion stays structural.
\<close>

fun marshal :: "json \<Rightarrow> string" where
  "marshal JNull = ''null''"
| "marshal (JBool b) = (if b then ''true'' else ''false'')"
| "marshal (JNum n) = n"
| "marshal (JStr s) = quote_json s"
| "marshal (JArr xs) = ''['' @ join_with '','' (map marshal xs) @ '']''"
| "marshal (JObj m) = ''{'' @ join_with '',''
     (map (\<lambda>(k, v). quote_json k @ '':'' @ v) (sort_key fst (map (\<lambda>(k, v). (k, marshal v)) m))) @ ''}''"

text \<open>Two association lists that hold the same members print the same text: the map's order is
  not observable through \<open>json.Marshal\<close>.\<close>

lemma filter_key_short: "distinct (map f zs) \<Longrightarrow> length (filter (\<lambda>x. f k = f x) zs) \<le> 1"
proof (induction zs)
  case (Cons z zs)
  have "filter (\<lambda>x. f z = f x) zs = []" using Cons.prems by (auto simp: filter_empty_conv image_iff)
  then show ?case using Cons by (cases "f k = f z") simp_all
qed simp

lemma mset_short_eq: "mset as = mset bs \<Longrightarrow> length as \<le> 1 \<Longrightarrow> as = bs"
  by (cases as) auto

lemma sort_key_distinct_mset:
  assumes "mset xs = mset ys" and "distinct (map f xs)"
  shows "sort_key f xs = sort_key f ys"
proof (rule properties_for_sort_key)
  show "mset (sort_key f ys) = mset xs" using assms(1) by simp
  show "sorted (map f (sort_key f ys))" by simp
  fix k
  have "mset (filter (\<lambda>x. f k = f x) xs) = mset (filter (\<lambda>x. f k = f x) (sort_key f ys))"
    using assms(1) by simp
  then show "filter (\<lambda>x. f k = f x) (sort_key f ys) = filter (\<lambda>x. f k = f x) xs"
    using mset_short_eq filter_key_short [OF assms(2)] by metis
qed

lemma marshal_obj_perm:
  assumes "mset m = mset m'" and "distinct (map fst m)"
  shows "marshal (JObj m) = marshal (JObj m')"
proof -
  let ?g = "\<lambda>(k :: string, v). (k, marshal v)"
  have "mset (map ?g m) = mset (map ?g m')" using assms(1) by simp
  moreover have "distinct (map fst (map ?g m))"
    using assms(2) by (simp add: case_prod_beta comp_def)
  ultimately have "sort_key fst (map ?g m) = sort_key fst (map ?g m')"
    by (rule sort_key_distinct_mset)
  then show ?thesis by (simp only: marshal.simps)
qed

declare marshal.simps [simp del]

end
