(* ===== verification/Url.thy ===== *)
theory Url
  imports Prelude
begin

text \<open>
  The part of \<open>net/url.Parse\<close> the code reads: scheme and host of a URL, or the parse error.
  Percent escapes are checked where Go checks them (host, user info, path, fragment) and
  decoded in the host.  IPv6 zone identifiers are the one form left out: a \<open>%25\<close> in a
  bracketed host is refused.
\<close>

record url =
  Scheme :: string
  Host :: string

definition is_letter :: "char \<Rightarrow> bool" where
  "is_letter c \<longleftrightarrow> is_upper c \<or> is_lower c"

definition hex_val :: "char \<Rightarrow> nat option" where
  "hex_val c =
     (if is_digit c then Some (of_char c - 48)
      else if CHR ''a'' \<le> c \<and> c \<le> CHR ''f'' then Some (of_char c - 87)
      else if CHR ''A'' \<le> c \<and> c \<le> CHR ''F'' then Some (of_char c - 55)
      else None)"

text \<open>Every percent sign starts an escape of two hexadecimal digits.\<close>

fun valid_escapes :: "string \<Rightarrow> bool" where
  "valid_escapes [] = True"
| "valid_escapes (c # s) =
     (if c = CHR ''%''
      then length s \<ge> 2 \<and> hex_val (s ! 0) \<noteq> None \<and> hex_val (s ! 1) \<noteq> None \<and> valid_escapes (tl (tl s))
      else valid_escapes s)"

text \<open>
  \<open>unescape(host, encodeHost)\<close>: only escapes of bytes above 127 are allowed, and an ASCII
  byte has to be one that a host may hold.
\<close>

definition host_char :: "char \<Rightarrow> bool" where
  "host_char c \<longleftrightarrow> 128 \<le> (of_char c :: nat) \<or> is_letter c \<or> is_digit c
     \<or> c \<in> set ''-_.~!$&()*+,;=:[]<>'' \<or> c = CHR 0x22 \<or> c = CHR 0x27"

fun unescape_host :: "string \<Rightarrow> string option" where
  "unescape_host [] = Some []"
| "unescape_host (c # s) =
     (if c = CHR ''%'' then
        (case s of
           a # b # r \<Rightarrow>
             (case (hex_val a, hex_val b) of
                (Some x, Some y) \<Rightarrow>
                  if x < 8 then None
                  else map_option (\<lambda>t. char_of (16 * x + y) # t) (unescape_host r)
              | _ \<Rightarrow> None)
         | _ \<Rightarrow> None)
      else if host_char c then map_option (\<lambda>t. c # t) (unescape_host s)
      else None)"

text \<open>\<open>getScheme\<close>: \<open>None\<close> is the error, an empty scheme means the URL has none.\<close>

definition scheme_char :: "char \<Rightarrow> bool" where
  "scheme_char c \<longleftrightarrow> is_letter c \<or> is_digit c \<or> c \<in> set ''+-.''"

definition get_scheme :: "string \<Rightarrow> (string \<times> string) option" where
  "get_scheme s =
     (let p = takeWhile scheme_char s; r = dropWhile scheme_char s
      in if p = [] then (if take 1 r = '':'' then None else Some ([], s))
         else if \<not> is_letter (hd p) then Some ([], s)
         else if take 1 r = '':'' then Some (p, drop 1 r)
         else Some ([], s))"

definition after_last :: "char \<Rightarrow> string \<Rightarrow> string" where
  "after_last c s = rev (takeWhile (\<lambda>d. d \<noteq> c) (rev s))"

text \<open>\<open>validOptionalPort\<close> on what follows the last colon, and \<open>parseHost\<close>.\<close>

definition valid_optional_port :: "string \<Rightarrow> bool" where
  "valid_optional_port p \<longleftrightarrow> p = [] \<or> (take 1 p = '':'' \<and> list_all is_digit (drop 1 p))"

definition parse_host :: "string \<Rightarrow> string option" where
  "parse_host h =
     (if take 1 h = ''['' then
        (if CHR '']'' \<notin> set h then None
         else if valid_optional_port (after_last (CHR '']'') h) then unescape_host h else None)
      else if CHR '':'' \<in> set h \<and> \<not> list_all is_digit (after_last (CHR '':'') h) then None
      else unescape_host h)"

definition userinfo_char :: "char \<Rightarrow> bool" where
  "userinfo_char c \<longleftrightarrow> is_letter c \<or> is_digit c \<or> c \<in> set ''-._:~!$&()*+,;=%@'' \<or> c = CHR 0x27"

text \<open>\<open>parseAuthority\<close>: the user information ends at the last at-sign.\<close>

definition parse_authority :: "string \<Rightarrow> string option" where
  "parse_authority a =
     (if CHR ''@'' \<in> set a then
        (let h = after_last (CHR ''@'') a; ui = take (length a - length h - 1) a
         in case parse_host h of
              None \<Rightarrow> None
            | Some host \<Rightarrow> if list_all userinfo_char ui \<and> valid_escapes ui then Some host else None)
      else parse_host a)"

definition is_ctl :: "char \<Rightarrow> bool" where
  "is_ctl c \<longleftrightarrow> (of_char c :: nat) < 32 \<or> c = CHR 0x7F"

definition url_parse :: "string \<Rightarrow> url option" where
  "url_parse raw =
     (let u = before_char (CHR ''#'') raw; frag = drop (length u + 1) raw
      in if list_ex is_ctl u \<or> \<not> valid_escapes frag then None
         else if u = ''*'' then Some \<lparr>Scheme = [], Host = []\<rparr>
         else case get_scheme u of
           None \<Rightarrow> None
         | Some (sch, r0) \<Rightarrow>
             (let sch = to_lower sch; rest = before_char (CHR ''?'') r0
              in if \<not> has_prefix rest ''/'' \<and> sch \<noteq> [] then Some \<lparr>Scheme = sch, Host = []\<rparr>
                 else if \<not> has_prefix rest ''/'' \<and> CHR '':'' \<in> set (before_char (CHR ''/'') rest)
                   then None
                 else if (sch \<noteq> [] \<or> \<not> has_prefix rest ''///'') \<and> has_prefix rest ''//'' then
                   (let auth = before_char (CHR ''/'') (drop 2 rest)
                    in case parse_authority auth of
                         None \<Rightarrow> None
                       | Some h \<Rightarrow> if valid_escapes (drop (2 + length auth) rest)
                                  then Some \<lparr>Scheme = sch, Host = h\<rparr> else None)
                 else if valid_escapes rest then Some \<lparr>Scheme = sch, Host = []\<rparr> else None))"

text \<open>\<open>URL.Hostname\<close>: the host without a valid port and without the brackets.\<close>

definition url_hostname :: "url \<Rightarrow> string" where
  "url_hostname u =
     (let h = Host u;
          p = after_last (CHR '':'') h;
          h' = (if CHR '':'' \<in> set h \<and> list_all is_digit p then take (length h - length p - 1) h else h)
      in if has_prefix h' ''['' \<and> has_suffix h' '']'' then drop 1 (butlast h') else h')"

end
