(* ===== verification/Manifest.thy ===== *)
theory Manifest
  imports Versions Json Url
begin

text \<open>
  Manifests of the apps service (\<open>ohmf/services/apps/registry.go\<close>): validation, the values
  derived from a manifest when a release is created, and permission differences.  A manifest
  is a decoded JSON object.  SHA-256 is the parameter \<open>sha256\<close> of the definitions that hash.
\<close>

type_synonym manifest = "json gomap"

text \<open>\<open>stringField\<close>: a missing or non-string value reads as the empty string.\<close>

definition stringField :: "manifest \<Rightarrow> string \<Rightarrow> string" where
  "stringField m key = (case as_str (map_of m key) of None \<Rightarrow> [] | Some v \<Rightarrow> trim_space v)"

text \<open>The error of \<open>validateManifest\<close>, \<open>None\<close> for \<open>nil\<close>.  A decoded manifest holds arrays as
  \<open>[]any\<close> only, so the \<open>[]string\<close> alternative of the source coincides with it.\<close>

definition validateManifest :: "manifest \<Rightarrow> string option" where
  "validateManifest raw =
     (if raw = [] then Some ''manifest_required''
      else if stringField raw ''app_id'' = [] then Some ''app_id required''
      else if stringField raw ''name'' = [] then Some ''name required''
      else if \<not> semverPattern (stringField raw ''version'') then Some ''version must be semver''
      else case as_obj (map_of raw ''entrypoint'') of
        None \<Rightarrow> Some ''entrypoint object required''
      | Some entrypoint \<Rightarrow>
          (let entryType = stringField entrypoint ''type''
           in if entryType \<noteq> ''url'' \<and> entryType \<noteq> ''inline'' \<and> entryType \<noteq> ''web_bundle''
              then Some ''entrypoint.type invalid''
              else if stringField entrypoint ''url'' = [] then Some ''entrypoint.url required''
              else case as_obj (map_of raw ''message_preview'') of
                None \<Rightarrow> Some ''message_preview object required''
              | Some preview \<Rightarrow>
                  (let previewType = stringField preview ''type''
                   in if previewType \<noteq> ''static_image'' \<and> previewType \<noteq> ''live''
                      then Some ''message_preview.type invalid''
                      else if stringField preview ''url'' = [] then Some ''message_preview.url required''
                      else if as_arr (map_of raw ''permissions'') = None
                        then Some ''permissions array required''
                      else if as_obj (map_of raw ''capabilities'') = None
                        then Some ''capabilities object required''
                      else case map_of raw ''signature'' of
                        None \<Rightarrow> None
                      | Some sig \<Rightarrow>
                          (if sig = JNull then None
                           else case as_obj (Some sig) of
                             None \<Rightarrow> Some ''signature.alg, signature.kid, and signature.sig are required''
                           | Some sigMap \<Rightarrow>
                               if stringField sigMap ''alg'' = [] \<or> stringField sigMap ''kid'' = []
                                  \<or> stringField sigMap ''sig'' = []
                               then Some ''signature.alg, signature.kid, and signature.sig are required''
                               else None))))"

definition manifestHash :: "(string \<Rightarrow> string) \<Rightarrow> string \<Rightarrow> string" where
  "manifestHash sha256 raw = hex_encode (sha256 raw)"

definition computeManifestContentHash :: "(string \<Rightarrow> string) \<Rightarrow> string \<Rightarrow> string" where
  "computeManifestContentHash sha256 manifestBytes = ''sha256:'' @ hex_encode (sha256 manifestBytes)"

definition computeAssetSetHash :: "(string \<Rightarrow> string) \<Rightarrow> string list \<Rightarrow> string" where
  "computeAssetSetHash sha256 assetHashes = ''sha256:'' @ hex_encode (sha256 (concat assetHashes))"

definition manifestOrigin :: "string \<Rightarrow> string" where
  "manifestOrigin raw =
     (case url_parse (trim_space raw) of
        None \<Rightarrow> []
      | Some parsed \<Rightarrow> if Scheme parsed = [] \<or> Host parsed = [] then []
                      else Scheme parsed @ ''://'' @ Host parsed)"

definition manifestSourceType :: "manifest \<Rightarrow> string" where
  "manifestSourceType raw =
     (let entrypoint = obj_or_nil (map_of raw ''entrypoint'');
          origin = manifestOrigin (stringField entrypoint ''url'')
      in if has_prefix origin ''http://localhost:'' \<or> has_prefix origin ''https://localhost:''
            \<or> has_prefix origin ''http://127.0.0.1:'' \<or> has_prefix origin ''https://127.0.0.1:''
         then ''dev''
         else if origin \<noteq> [] then ''external''
         else ''registry'')"

definition manifestVisibility :: "manifest \<Rightarrow> string" where
  "manifestVisibility raw =
     (if to_lower (stringField (obj_or_nil (map_of raw ''metadata'')) ''visibility'') = ''private''
      then ''private'' else ''public'')"

definition manifestSummary :: "manifest \<Rightarrow> string" where
  "manifestSummary raw = stringField (obj_or_nil (map_of raw ''metadata'')) ''summary''"

text \<open>\<open>slices.Sort\<close> followed by \<open>slices.Compact\<close>.\<close>

definition sort_compact :: "string list \<Rightarrow> string list" where
  "sort_compact xs = remdups_adj (sort xs)"

lemma sorted_remdups_adj_distinct: "sorted (xs :: string list) \<Longrightarrow> distinct (remdups_adj xs)"
  by (induction xs rule: remdups_adj.induct) (auto simp: order.antisym)

lemma sort_compact_props [simp]:
  "set (sort_compact xs) = set xs" "sorted (sort_compact xs)" "distinct (sort_compact xs)"
  by (simp_all add: sort_compact_def sorted_remdups_adj_distinct)

lemma sort_compact_Nil [simp]: "sort_compact xs = [] \<longleftrightarrow> xs = []"
  by (metis set_empty2 sort_compact_props(1) set_empty)

text \<open>The trimmed, non-empty strings of a JSON array.\<close>

definition trimmed_strings :: "json list \<Rightarrow> string list" where
  "trimmed_strings vs =
     filter (\<lambda>s. s \<noteq> []) (map (\<lambda>v. trim_space (case as_str (Some v) of None \<Rightarrow> [] | Some s \<Rightarrow> s)) vs)"

definition manifestPlatforms :: "manifest \<Rightarrow> string list" where
  "manifestPlatforms raw =
     (let metadata = obj_or_nil (map_of raw ''metadata'');
          values = (case as_arr (map_of metadata ''supported_platforms'') of None \<Rightarrow> [] | Some vs \<Rightarrow> vs);
          out = trimmed_strings values
      in sort_compact (if out = [] then [''web''] else out))"

definition manifestPermissions :: "manifest \<Rightarrow> string list" where
  "manifestPermissions raw =
     (case as_arr (map_of raw ''permissions'') of
        None \<Rightarrow> []
      | Some values \<Rightarrow> sort_compact (trimmed_strings values))"

text \<open>The second reader of the same field (\<open>handlers.go\<close>): untrimmed, unsorted, duplicates kept.\<close>

definition extractPermissions :: "manifest \<Rightarrow> string list" where
  "extractPermissions manifest =
     (case as_arr (map_of manifest ''permissions'') of
        None \<Rightarrow> []
      | Some perms \<Rightarrow>
          filter (\<lambda>s. s \<noteq> []) (map (\<lambda>p. case as_str (Some p) of None \<Rightarrow> [] | Some s \<Rightarrow> s) perms))"

definition isPermissionExpansion :: "string list \<Rightarrow> string list \<Rightarrow> bool" where
  "isPermissionExpansion previousPerms currentPerms =
     (if length currentPerms \<le> length previousPerms then False
      else list_ex (\<lambda>p. p \<notin> set previousPerms) currentPerms)"

text \<open>The set-building loops of \<open>permissionDelta\<close>, on the two permission lists.\<close>

definition permission_delta :: "string list \<Rightarrow> string list \<Rightarrow> string list \<times> string list" where
  "permission_delta current nxt =
     (sort_compact (filter (\<lambda>v. v \<notin> set current) nxt),
      sort_compact (filter (\<lambda>v. v \<notin> set nxt) current))"

end
