(* ===== verification/Registry.thy ===== *)
theory Registry
  imports Manifest
begin

text \<open>
  The state of the apps registry (\<open>ohmf/services/apps/registry.go\<close>): apps with their releases,
  per-user installs, the version pointers of an app, and the values computed from them.
  A field of a Go struct keeps its name behind \<open>a_\<close> (app), \<open>r_\<close> (release), \<open>i_\<close> (install) or
  \<open>e_\<close> (audit entry); a pointer to a time is an option.
\<close>

abbreviation "statusDraft \<equiv> ''draft''"
abbreviation "statusSubmitted \<equiv> ''submitted''"
abbreviation "statusUnderReview \<equiv> ''under_review''"
abbreviation "statusNeedsChanges \<equiv> ''needs_changes''"
abbreviation "statusApproved \<equiv> ''approved''"
abbreviation "statusRejected \<equiv> ''rejected''"
abbreviation "statusSuspended \<equiv> ''suspended''"
abbreviation "statusRevoked \<equiv> ''revoked''"

record appRelease =
  r_Version :: string
  r_Manifest :: manifest
  r_ManifestHash :: string
  r_ReviewStatus :: string
  r_ReviewNote :: string
  r_SourceType :: string
  r_Visibility :: string
  r_PublisherUserID :: string
  r_SupportedPlatforms :: "string list"
  r_EntrypointOrigin :: string
  r_PreviewOrigin :: string
  r_CreatedAt :: time
  r_SubmittedAt :: "time option"
  r_ReviewedAt :: "time option"
  r_PublishedAt :: "time option"
  r_RevokedAt :: "time option"
  r_SuspendedAt :: "time option"
  r_SuspensionReason :: string
  r_ManifestContentHash :: string
  r_AssetSetHash :: string
  r_ImmutableAt :: "time option"
  r_RequiresReconsent :: bool
  r_PreviousPermissions :: "string list"

record registeredApp =
  a_AppID :: string
  a_Name :: string
  a_OwnerUserID :: string
  a_Visibility :: string
  a_Summary :: string
  a_CreatedAt :: time
  a_UpdatedAt :: time
  a_LatestVersion :: string
  a_LatestApproved :: string
  a_Releases :: "appRelease gomap"

record installedAppRef =
  i_AppID :: string
  i_InstalledVersion :: string
  i_AutoUpdate :: bool
  i_Enabled :: bool
  i_InstalledAt :: time
  i_UpdatedAt :: time

record registryState =
  Apps :: "registeredApp gomap"
  Installs :: "installedAppRef gomap gomap"

record auditEntry =
  e_AppID :: string
  e_Version :: string
  e_ActorUserID :: string
  e_Action :: string
  e_Note :: string
  e_Metadata :: "json gomap"
  e_CreatedAt :: time

text \<open>An \<open>apiError\<close>, or the run-time panic of an unchecked type assertion.\<close>

datatype apiError = ApiError (Status: nat) (Code: string) (Message: string) | Panic

definition emptyRegistryState :: registryState where
  "emptyRegistryState = \<lparr>Apps = [], Installs = []\<rparr>"

section \<open>Version pointers\<close>

text \<open>One iteration of the loop in \<open>refreshLatestPointers\<close>, on the two pointers.\<close>

definition refresh_step :: "string \<times> string \<Rightarrow> string \<times> appRelease \<Rightarrow> string \<times> string" where
  "refresh_step ptrs vr = (case (ptrs, vr) of ((latest, approved), (version, release)) \<Rightarrow>
     (if latest = [] \<or> versionGreater version latest then version else latest,
      if r_ReviewStatus release = statusApproved \<and> (approved = [] \<or> versionGreater version approved)
      then version else approved))"

definition refreshLatestPointers :: "registeredApp \<Rightarrow> registeredApp" where
  "refreshLatestPointers app =
     (case foldl refresh_step ([], []) (a_Releases app) of (latest, approved) \<Rightarrow>
        app\<lparr>a_LatestVersion := latest, a_LatestApproved := approved\<rparr>)"

text \<open>\<open>latestApprovedRelease\<close> (\<open>handlers.go\<close>): the approved release published last.\<close>

definition published_after :: "appRelease \<Rightarrow> appRelease \<Rightarrow> bool" where
  "published_after rel latest =
     (case (r_PublishedAt rel, r_PublishedAt latest) of
        (Some p, Some q) \<Rightarrow> q < p
      | _ \<Rightarrow> False)"

definition latestApprovedRelease :: "registeredApp \<Rightarrow> appRelease option" where
  "latestApprovedRelease app =
     pick_latest published_after
       (filter (\<lambda>rel. r_ReviewStatus rel = statusApproved) (map snd (a_Releases app)))"

section \<open>Immutability and permission differences\<close>

definition validateManifestImmutability :: "(string \<Rightarrow> string) \<Rightarrow> appRelease \<Rightarrow> string option" where
  "validateManifestImmutability sha256 release =
     (if r_ManifestContentHash release = [] then None
      else let currentHash = computeManifestContentHash sha256 (marshal (JObj (r_Manifest release)))
           in if currentHash \<noteq> r_ManifestContentHash release
              then Some (''manifest_has_changed_after_creation: stored='' @ r_ManifestContentHash release
                         @ '' current='' @ currentHash)
              else None)"

definition permissionDelta :: "appRelease option \<Rightarrow> appRelease option \<Rightarrow> string list \<times> string list" where
  "permissionDelta installed candidate =
     (case (installed, candidate) of
        (Some i, Some c) \<Rightarrow>
          permission_delta (manifestPermissions (r_Manifest i)) (manifestPermissions (r_Manifest c))
      | _ \<Rightarrow> ([], []))"

definition initialReviewStatus :: "string \<Rightarrow> string" where
  "initialReviewStatus sourceType = (if sourceType = ''dev'' then statusApproved else statusDraft)"

text \<open>\<open>userInstalls\<close> reads a user's installs; the empty map it stores for a user without any is
  written as the missing entry, which every reader treats alike.\<close>

definition userInstalls :: "registryState \<Rightarrow> string \<Rightarrow> installedAppRef gomap" where
  "userInstalls state userID =
     (if trim_space userID = [] then []
      else case map_of (Installs state) userID of None \<Rightarrow> [] | Some m \<Rightarrow> m)"

section \<open>The view of an app that is sent to clients\<close>

definition installState ::
  "installedAppRef option \<Rightarrow> bool \<Rightarrow> bool \<Rightarrow> appRelease option \<Rightarrow> string" where
  "installState install updateAvailable updateRequiresConsent release =
     (if (case release of None \<Rightarrow> False
          | Some r \<Rightarrow> r_ReviewStatus r \<noteq> statusApproved \<and> r_SourceType r \<noteq> ''dev'') then ''blocked''
      else case install of
        None \<Rightarrow> ''not_installed''
      | Some i \<Rightarrow>
          if \<not> i_Enabled i then ''disabled''
          else if updateAvailable then
            (if updateRequiresConsent then ''update_requires_consent'' else ''update_available'')
          else ''installed'')"

record app_view =
  v_app_id :: string
  v_title :: string
  v_summary :: string
  v_version :: string
  v_visibility :: string
  v_review_status :: string
  v_source_type :: string
  v_publisher_user_id :: string
  v_manifest_hash :: string
  v_entrypoint_origin :: string
  v_preview_origin :: string
  v_supported_platforms :: "string list"
  v_manifest :: manifest
  v_created_at :: time
  v_published_at :: "time option"
  v_latest_version :: string
  v_latest_approved_version :: string
  v_permission_delta :: "string list \<times> string list"
  v_update_requires_consent :: bool
  v_install :: "installedAppRef option"
  v_update_available :: bool
  v_install_state :: string

definition appResponse :: "registeredApp \<Rightarrow> appRelease \<Rightarrow> installedAppRef option \<Rightarrow> app_view" where
  "appResponse app release install =
     (let latestApproved =
            (if a_LatestApproved app \<noteq> [] then map_of (a_Releases app) (a_LatestApproved app) else None);
          installedRelease =
            (case install of None \<Rightarrow> None
             | Some i \<Rightarrow> if i_InstalledVersion i \<noteq> [] then map_of (a_Releases app) (i_InstalledVersion i)
                        else None);
          delta = permissionDelta installedRelease latestApproved;
          updateRequiresConsent = (install \<noteq> None \<and> fst delta \<noteq> []);
          updateAvailable =
            (case install of None \<Rightarrow> False
             | Some i \<Rightarrow> a_LatestApproved app \<noteq> [] \<and> i_InstalledVersion i \<noteq> []
                 \<and> i_InstalledVersion i \<noteq> a_LatestApproved app)
      in \<lparr>v_app_id = a_AppID app, v_title = a_Name app, v_summary = a_Summary app,
          v_version = r_Version release, v_visibility = r_Visibility release,
          v_review_status = r_ReviewStatus release, v_source_type = r_SourceType release,
          v_publisher_user_id = r_PublisherUserID release, v_manifest_hash = r_ManifestHash release,
          v_entrypoint_origin = r_EntrypointOrigin release, v_preview_origin = r_PreviewOrigin release,
          v_supported_platforms = r_SupportedPlatforms release, v_manifest = r_Manifest release,
          v_created_at = r_CreatedAt release, v_published_at = r_PublishedAt release,
          v_latest_version = a_LatestVersion app, v_latest_approved_version = a_LatestApproved app,
          v_permission_delta = delta, v_update_requires_consent = updateRequiresConsent,
          v_install = install,
          v_update_available = (install \<noteq> None \<and> updateAvailable),
          v_install_state =
            (if install = None then installState install False False (Some release)
             else installState install updateAvailable updateRequiresConsent (Some release))\<rparr>)"

section \<open>Lemmas on the version pointers\<close>

definition version_or_empty :: "string option \<Rightarrow> string" where
  "version_or_empty v = (case v of None \<Rightarrow> [] | Some x \<Rightarrow> x)"

definition approved_versions :: "appRelease gomap \<Rightarrow> string list" where
  "approved_versions rels = map fst (filter (\<lambda>(v, r). r_ReviewStatus r = statusApproved) rels)"

lemma set_approved_versions:
  "set (approved_versions rels) = {v. \<exists>r. (v, r) \<in> set rels \<and> r_ReviewStatus r = statusApproved}"
  by (force simp: approved_versions_def)

lemma approved_version_nonempty:
  "[] \<notin> set (map fst rels) \<Longrightarrow> [] \<notin> set (approved_versions rels)"
proof -
  have "set (approved_versions rels) \<subseteq> set (map fst rels)"
    by (force simp: approved_versions_def)
  then show "[] \<notin> set (map fst rels) \<Longrightarrow> ?thesis" by blast
qed

lemma refresh_step_pick:
  assumes "v \<noteq> []"
    and "[] \<notin> set vs" and "[] \<notin> set as"
  shows "refresh_step (version_or_empty (pick_latest versionGreater vs),
                       version_or_empty (pick_latest versionGreater as)) (v, r) =
    (version_or_empty (pick_latest versionGreater (vs @ [v])),
     version_or_empty (pick_latest versionGreater
       (as @ (if r_ReviewStatus r = statusApproved then [v] else []))))"
proof -
  have ne: "x \<noteq> []" if "pick_latest versionGreater us = Some x" "[] \<notin> set us" for us x
    using pick_latest_mem [OF that(1)] that(2) by auto
  show ?thesis
    using ne assms
    by (auto simp: refresh_step_def version_or_empty_def pick_latest_snoc pick_step_def
        split: option.splits)
qed

lemma foldl_refresh_pick:
  "[] \<notin> set (map fst rels) \<Longrightarrow> foldl refresh_step ([], []) rels =
     (version_or_empty (pick_latest versionGreater (map fst rels)),
      version_or_empty (pick_latest versionGreater (approved_versions rels)))"
proof (induction rels rule: rev_induct)
  case Nil
  then show ?case by (simp add: version_or_empty_def approved_versions_def)
next
  case (snoc vr rels)
  obtain v r where vr: "vr = (v, r)" by (cases vr)
  have a: "approved_versions (rels @ [vr]) =
      approved_versions rels @ (if r_ReviewStatus r = statusApproved then [v] else [])"
    by (simp add: approved_versions_def vr)
  have v: "v \<noteq> []" "[] \<notin> set (map fst rels)" using snoc.prems by (auto simp: vr)
  show ?case
    using snoc.IH [OF v(2)] refresh_step_pick [OF v(1) v(2) approved_version_nonempty [OF v(2)], of r]
    by (simp add: a) (simp add: vr)
qed

text \<open>The pointers do not depend on the order in which Go ranges over the releases.\<close>

lemma refresh_order_independent:
  assumes "[] \<notin> set (map fst rels)" and "set rels = set rels'"
  shows "foldl refresh_step ([], []) rels = foldl refresh_step ([], []) rels'"
proof -
  have f: "set (map fst rels) = set (map fst rels')" using assms(2) by simp
  have a: "set (approved_versions rels) = set (approved_versions rels')"
    using assms(2) by (simp add: set_approved_versions)
  have ne: "list_all (\<lambda>v. v \<noteq> []) vs" if "[] \<notin> set vs" for vs :: "string list"
    using that by (auto simp: list_all_iff)
  note nv = ne [OF assms(1)] and na = ne [OF approved_version_nonempty [OF assms(1)]]
  have n': "[] \<notin> set (map fst rels')" using assms(1) f by metis
  show ?thesis
    using ver.pick_order_independent [OF nv inj_version_key f]
      ver.pick_order_independent [OF na inj_version_key a]
    by (simp only: foldl_refresh_pick [OF assms(1)] foldl_refresh_pick [OF n'])
qed

lemma refreshLatestPointers_simps [simp]:
  "a_AppID (refreshLatestPointers app) = a_AppID app"
  "a_Releases (refreshLatestPointers app) = a_Releases app"
  "a_OwnerUserID (refreshLatestPointers app) = a_OwnerUserID app"
  "a_Name (refreshLatestPointers app) = a_Name app"
  "a_Visibility (refreshLatestPointers app) = a_Visibility app"
  "a_Summary (refreshLatestPointers app) = a_Summary app"
  "a_CreatedAt (refreshLatestPointers app) = a_CreatedAt app"
  "a_UpdatedAt (refreshLatestPointers app) = a_UpdatedAt app"
  by (simp_all add: refreshLatestPointers_def split: prod.splits)

lemma refreshLatestPointers_idem [simp]:
  "refreshLatestPointers (refreshLatestPointers app) = refreshLatestPointers app"
  by (simp add: refreshLatestPointers_def split: prod.splits)

lemma refreshLatestPointers_pick:
  assumes "[] \<notin> set (map fst (a_Releases app))"
  shows "a_LatestVersion (refreshLatestPointers app) =
      version_or_empty (pick_latest versionGreater (map fst (a_Releases app)))"
    and "a_LatestApproved (refreshLatestPointers app) =
      version_or_empty (pick_latest versionGreater (approved_versions (a_Releases app)))"
  using assms by (simp_all add: refreshLatestPointers_def foldl_refresh_pick)

lemma pick_version_facts:
  assumes "[] \<notin> set vs"
  shows "(v \<in> set vs \<longrightarrow> \<not> versionGreater v (version_or_empty (pick_latest versionGreater vs)))
    \<and> (vs \<noteq> [] \<longrightarrow> version_or_empty (pick_latest versionGreater vs) \<in> set vs)"
proof (cases "pick_latest versionGreater vs")
  case None
  then show ?thesis by simp
next
  case (Some m)
  have m: "m \<in> set vs" "m \<noteq> []" using pick_latest_mem [OF Some] assms by auto
  have "list_all (\<lambda>v. v \<noteq> []) vs" using assms by (auto simp: list_all_iff)
  from ver.pick_greatest [OF this Some, of v] m show ?thesis
    by (auto simp: Some version_or_empty_def versionGreater_key)
qed

text \<open>\<open>refreshLatestPointers\<close> points at the greatest version and the greatest approved version,
  whatever order Go ranges over the releases in: no release has a greater version than
  \<open>LatestVersion\<close>, no approved one a greater version than \<open>LatestApproved\<close>, both name releases of
  the app (or are empty when there is none), and a permutation of the releases changes nothing.\<close>

theorem refreshLatestPointers_greatest:
  assumes "[] \<notin> set (map fst (a_Releases app))"
  shows "(\<forall>(v, r) \<in> set (a_Releases app). \<not> versionGreater v (a_LatestVersion (refreshLatestPointers app)))
    \<and> (\<forall>(v, r) \<in> set (a_Releases app). r_ReviewStatus r = statusApproved \<longrightarrow>
         \<not> versionGreater v (a_LatestApproved (refreshLatestPointers app)))
    \<and> (a_Releases app \<noteq> [] \<longrightarrow>
         a_LatestVersion (refreshLatestPointers app) \<in> fst ` set (a_Releases app))
    \<and> (a_LatestApproved (refreshLatestPointers app) \<noteq> [] \<longrightarrow>
         (\<exists>r. (a_LatestApproved (refreshLatestPointers app), r) \<in> set (a_Releases app)
              \<and> r_ReviewStatus r = statusApproved))
    \<and> (\<forall>rels. mset rels = mset (a_Releases app) \<longrightarrow>
         refreshLatestPointers (app\<lparr>a_Releases := rels\<rparr>) = (refreshLatestPointers app)\<lparr>a_Releases := rels\<rparr>)"
proof -
  let ?vs = "map fst (a_Releases app)" and ?as = "approved_versions (a_Releases app)"
  note na = approved_version_nonempty [OF assms]
  note pv = pick_version_facts [OF assms] and pa = pick_version_facts [OF na]
  note ptr = refreshLatestPointers_pick [OF assms]
  have 1: "\<not> versionGreater v (a_LatestVersion (refreshLatestPointers app))"
    if "(v, r) \<in> set (a_Releases app)" for v r
    using pv [of v] that by (force simp: ptr)
  have 2: "\<not> versionGreater v (a_LatestApproved (refreshLatestPointers app))"
    if "(v, r) \<in> set (a_Releases app)" "r_ReviewStatus r = statusApproved" for v r
    using pa [of v] that by (force simp: ptr set_approved_versions)
  have 3: "a_LatestVersion (refreshLatestPointers app) \<in> set ?vs" if "a_Releases app \<noteq> []"
    using pv [of "[]"] that by (simp add: ptr)
  have 4: "a_LatestApproved (refreshLatestPointers app) \<in> set ?as"
    if "a_LatestApproved (refreshLatestPointers app) \<noteq> []"
    using pa [of "[]"] that by (cases "?as = []") (simp_all add: ptr version_or_empty_def)
  have 5: "refreshLatestPointers (app\<lparr>a_Releases := rels\<rparr>)
      = (refreshLatestPointers app)\<lparr>a_Releases := rels\<rparr>"
    if "mset rels = mset (a_Releases app)" for rels
  proof -
    have "foldl refresh_step ([], []) (a_Releases app) = foldl refresh_step ([], []) rels"
      by (rule refresh_order_independent [OF assms]) (metis that set_mset_mset)
    then show ?thesis by (simp add: refreshLatestPointers_def split: prod.splits)
  qed
  show ?thesis using 1 2 3 4 5 by (auto simp: set_approved_versions)
qed

end
