(* ===== verification/RegistryOps.thy ===== *)
theory RegistryOps
  imports Registry
begin

text \<open>
  The state changes of the apps registry (\<open>ohmf/services/apps/handlers.go\<close>): the closures the
  handlers pass to \<open>mutateState\<close>.  Each reads the loaded state and returns the error that
  aborts the mutation or the new state with its audit entries and the values the closure
  captured.  The time \<open>now\<close> is the closure's \<open>time.Now()\<close>.
\<close>

type_synonym 'x mutation = "registryState \<Rightarrow> apiError + (registryState \<times> auditEntry list \<times> 'x)"

definition audit_entry ::
  "string \<Rightarrow> string \<Rightarrow> string \<Rightarrow> string \<Rightarrow> string \<Rightarrow> json gomap \<Rightarrow> time \<Rightarrow> auditEntry" where
  "audit_entry appID version actor action note metadata now =
     \<lparr>e_AppID = appID, e_Version = version, e_ActorUserID = actor, e_Action = action,
      e_Note = note, e_Metadata = metadata, e_CreatedAt = now\<rparr>"

text \<open>A Go struct literal leaves the fields it does not name at their zero values.\<close>

definition new_release ::
  "string \<Rightarrow> manifest \<Rightarrow> string \<Rightarrow> string \<Rightarrow> string \<Rightarrow> string \<Rightarrow> string \<Rightarrow> string \<Rightarrow> string \<Rightarrow> string \<Rightarrow> time
   \<Rightarrow> appRelease" where
  "new_release version man hash contentHash status sourceType visibility publisher entry preview now =
     \<lparr>r_Version = version, r_Manifest = man, r_ManifestHash = hash, r_ReviewStatus = status,
      r_ReviewNote = [], r_SourceType = sourceType, r_Visibility = visibility,
      r_PublisherUserID = publisher, r_SupportedPlatforms = manifestPlatforms man,
      r_EntrypointOrigin = entry, r_PreviewOrigin = preview, r_CreatedAt = now,
      r_SubmittedAt = None, r_ReviewedAt = None, r_PublishedAt = None, r_RevokedAt = None,
      r_SuspendedAt = None, r_SuspensionReason = [], r_ManifestContentHash = contentHash,
      r_AssetSetHash = [], r_ImmutableAt = None, r_RequiresReconsent = False,
      r_PreviousPermissions = []\<rparr>"

definition new_app :: "string \<Rightarrow> string \<Rightarrow> string \<Rightarrow> string \<Rightarrow> string \<Rightarrow> time \<Rightarrow> registeredApp" where
  "new_app appID name owner visibility summary now =
     \<lparr>a_AppID = appID, a_Name = name, a_OwnerUserID = owner, a_Visibility = visibility,
      a_Summary = summary, a_CreatedAt = now, a_UpdatedAt = now, a_LatestVersion = [],
      a_LatestApproved = [], a_Releases = []\<rparr>"

definition put_app :: "string \<Rightarrow> registeredApp \<Rightarrow> registryState \<Rightarrow> registryState" where
  "put_app appID app state = state\<lparr>Apps := AList.update appID app (Apps state)\<rparr>"

definition put_install ::
  "string \<Rightarrow> installedAppRef gomap \<Rightarrow> registryState \<Rightarrow> registryState" where
  "put_install userID installs state = state\<lparr>Installs := AList.update userID installs (Installs state)\<rparr>"

text \<open>The closure of \<open>registerHandler\<close>; its extra result is the captured \<open>createdStatus\<close>.\<close>

definition registerMutate ::
  "(string \<Rightarrow> string) \<Rightarrow> string \<Rightarrow> bool \<Rightarrow> manifest \<Rightarrow> time \<Rightarrow> nat mutation" where
  "registerMutate sha256 userID admin man now state =
     (let appID = stringField man ''app_id'';
          version = stringField man ''version'';
          manifestBytes = marshal (JObj man);
          hash = manifestHash sha256 manifestBytes;
          sourceType = manifestSourceType man;
          (app, audit) =
            (case map_of (Apps state) appID of
               Some app \<Rightarrow> (app, [])
             | None \<Rightarrow> (new_app appID (stringField man ''name'') userID (manifestVisibility man)
                          (manifestSummary man) now,
                       [audit_entry appID [] userID ''app.created'' [] [] now]))
      in if a_OwnerUserID app \<noteq> userID \<and> \<not> admin
         then Inl (ApiError 403 ''forbidden'' ''publisher does not own app'')
         else case map_of (a_Releases app) version of
           Some existing \<Rightarrow>
             if r_ManifestHash existing \<noteq> hash
             then Inl (ApiError 409 ''version_conflict'' ''app_id/version already exists with different content'')
             else Inr (put_app appID app state, audit, 200)
         | None \<Rightarrow>
             (case (as_obj (map_of man ''entrypoint''), as_obj (map_of man ''message_preview'')) of
                (Some entry, Some preview) \<Rightarrow>
                  let status = initialReviewStatus sourceType;
                      rel0 = new_release version man hash (computeManifestContentHash sha256 manifestBytes)
                        status sourceType (a_Visibility app) userID
                        (manifestOrigin (stringField entry ''url''))
                        (manifestOrigin (stringField preview ''url'')) now;
                      release = (if status = statusApproved
                        then rel0\<lparr>r_PublishedAt := Some now, r_ReviewedAt := Some now\<rparr> else rel0);
                      app' = refreshLatestPointers
                        (app\<lparr>a_Releases := AList.update version release (a_Releases app),
                             a_Name := stringField man ''name'', a_Summary := manifestSummary man,
                             a_UpdatedAt := now\<rparr>)
                  in Inr (put_app appID app' state,
                          audit @ [audit_entry appID version userID ''release.created'' []
                            [(''source_type'', JStr sourceType), (''review_status'', JStr status)] now],
                          201)
              | _ \<Rightarrow> Inl Panic))"

text \<open>The closure of \<open>publisherCreateAppHandler\<close>.\<close>

definition createAppMutate ::
  "string \<Rightarrow> string \<Rightarrow> string \<Rightarrow> string \<Rightarrow> string \<Rightarrow> time \<Rightarrow> unit mutation" where
  "createAppMutate userID appID name summary reqVisibility now state =
     (if map_of (Apps state) appID \<noteq> None
      then Inl (ApiError 409 ''conflict'' ''app already exists'')
      else let visibility = (if to_lower (trim_space reqVisibility) = ''private'' then ''private'' else ''public'')
           in Inr (put_app appID (new_app appID (trim_space name) userID visibility (trim_space summary) now) state,
                   [audit_entry appID [] userID ''app.created'' [] [(''visibility'', JStr visibility)] now], ()))"

text \<open>The closure of \<open>publisherCreateReleaseHandler\<close>: it leaves \<open>ManifestContentHash\<close> empty.\<close>

definition createReleaseMutate ::
  "(string \<Rightarrow> string) \<Rightarrow> string \<Rightarrow> bool \<Rightarrow> string \<Rightarrow> manifest \<Rightarrow> time \<Rightarrow> unit mutation" where
  "createReleaseMutate sha256 userID admin appID man now state =
     (let version = stringField man ''version'' in
      case map_of (Apps state) appID of
        None \<Rightarrow> Inl (ApiError 404 ''not_found'' ''app not found'')
      | Some app \<Rightarrow>
          if a_OwnerUserID app \<noteq> userID \<and> \<not> admin
          then Inl (ApiError 403 ''forbidden'' ''publisher does not own app'')
          else if map_of (a_Releases app) version \<noteq> None
          then Inl (ApiError 409 ''conflict'' ''release already exists'')
          else case (as_obj (map_of man ''entrypoint''), as_obj (map_of man ''message_preview'')) of
            (Some entry, Some preview) \<Rightarrow>
              let payload = marshal (JObj man);
                  release = new_release version man (manifestHash sha256 payload) [] statusDraft
                    (manifestSourceType man) (a_Visibility app) userID
                    (manifestOrigin (stringField entry ''url''))
                    (manifestOrigin (stringField preview ''url'')) now;
                  app' = refreshLatestPointers
                    (app\<lparr>a_Releases := AList.update version release (a_Releases app), a_UpdatedAt := now\<rparr>)
              in Inr (put_app appID app' state,
                      [audit_entry appID version userID ''release.created'' []
                        [(''source_type'', JStr (manifestSourceType man))] now], ())
          | _ \<Rightarrow> Inl Panic)"

text \<open>
  The approval branch of \<open>transitionRelease\<close>.  The release is updated in place, so the search for
  the previously approved release runs over the app with the new status already in it.
\<close>

definition approve_fields :: "(string \<Rightarrow> string) \<Rightarrow> appRelease \<Rightarrow> time \<Rightarrow> appRelease" where
  "approve_fields sha256 release now =
     (let assetHashes = sort ([r_ManifestContentHash release]
            @ (if r_EntrypointOrigin release \<noteq> [] then [r_EntrypointOrigin release] else [])
            @ (if r_PreviewOrigin release \<noteq> [] then [r_PreviewOrigin release] else []))
      in release\<lparr>r_ReviewStatus := statusApproved, r_ReviewedAt := Some now,
           r_PublishedAt := Some now, r_RevokedAt := None, r_ImmutableAt := Some now,
           r_AssetSetHash := computeAssetSetHash sha256 assetHashes\<rparr>)"

definition mark_reconsent :: "appRelease option \<Rightarrow> string \<Rightarrow> appRelease \<Rightarrow> appRelease" where
  "mark_reconsent previous version release =
     (case previous of
        None \<Rightarrow> release
      | Some previousApproved \<Rightarrow>
          if r_Version previousApproved \<noteq> version \<and>
             isPermissionExpansion (extractPermissions (r_Manifest previousApproved))
               (extractPermissions (r_Manifest release))
          then release\<lparr>r_RequiresReconsent := True,
                 r_PreviousPermissions := extractPermissions (r_Manifest previousApproved)\<rparr>
          else release)"

definition approve_release ::
  "(string \<Rightarrow> string) \<Rightarrow> registeredApp \<Rightarrow> string \<Rightarrow> appRelease \<Rightarrow> time \<Rightarrow> apiError + appRelease" where
  "approve_release sha256 app version release now =
     (case validateManifestImmutability sha256 release of
        Some msg \<Rightarrow> Inl (ApiError 400 ''immutability_violation'' msg)
      | None \<Rightarrow>
          let release1 = approve_fields sha256 release now;
              app1 = app\<lparr>a_Releases := AList.update version release1 (a_Releases app)\<rparr>
          in Inr (mark_reconsent (latestApprovedRelease app1) version release1))"

text \<open>The switch over \<open>nextStatus\<close>.\<close>

definition next_release ::
  "(string \<Rightarrow> string) \<Rightarrow> registeredApp \<Rightarrow> string \<Rightarrow> appRelease \<Rightarrow> string \<Rightarrow> string \<Rightarrow> time
   \<Rightarrow> apiError + appRelease" where
  "next_release sha256 app version release nextStatus reviewNote now =
     (if nextStatus = statusSubmitted
      then Inr (release\<lparr>r_ReviewStatus := statusSubmitted, r_SubmittedAt := Some now\<rparr>)
      else if nextStatus = statusUnderReview
      then Inr (release\<lparr>r_ReviewStatus := statusUnderReview, r_ReviewedAt := Some now,
                        r_ReviewNote := trim_space reviewNote\<rparr>)
      else if nextStatus = statusNeedsChanges
      then Inr (release\<lparr>r_ReviewStatus := statusNeedsChanges, r_ReviewedAt := Some now,
                        r_ReviewNote := trim_space reviewNote\<rparr>)
      else if nextStatus = statusApproved then approve_release sha256 app version release now
      else if nextStatus = statusRejected
      then Inr (release\<lparr>r_ReviewStatus := statusRejected, r_ReviewedAt := Some now,
                        r_ReviewNote := trim_space reviewNote\<rparr>)
      else if nextStatus = statusRevoked
      then Inr (release\<lparr>r_ReviewStatus := statusRevoked, r_RevokedAt := Some now\<rparr>)
      else if nextStatus = statusSuspended
      then Inr (release\<lparr>r_ReviewStatus := statusSuspended, r_ReviewedAt := Some now,
                        r_ReviewNote := trim_space reviewNote\<rparr>)
      else Inl (ApiError 400 ''invalid_transition'' ''unsupported review transition''))"

definition transitionMutate ::
  "(string \<Rightarrow> string) \<Rightarrow> string \<Rightarrow> bool \<Rightarrow> string \<Rightarrow> string \<Rightarrow> string \<Rightarrow> string \<Rightarrow> bool \<Rightarrow> time \<Rightarrow> unit mutation" where
  "transitionMutate sha256 userID admin appID version nextStatus reviewNote adminOnly now state =
     (case map_of (Apps state) appID of
        None \<Rightarrow> Inl (ApiError 404 ''not_found'' ''app not found'')
      | Some app \<Rightarrow>
          if \<not> adminOnly \<and> a_OwnerUserID app \<noteq> userID \<and> \<not> admin
          then Inl (ApiError 403 ''forbidden'' ''publisher does not own app'')
          else case map_of (a_Releases app) version of
            None \<Rightarrow> Inl (ApiError 404 ''not_found'' ''release not found'')
          | Some release \<Rightarrow>
              (case next_release sha256 app version release nextStatus reviewNote now of
                 Inl e \<Rightarrow> Inl e
               | Inr release' \<Rightarrow>
                   Inr (put_app appID (refreshLatestPointers
                          (app\<lparr>a_Releases := AList.update version release' (a_Releases app),
                               a_UpdatedAt := now\<rparr>)) state,
                        [audit_entry appID version userID ''release.transition'' (trim_space reviewNote)
                          [(''next_status'', JStr nextStatus)] now], ())))"

text \<open>An update of an existing install needs the user's consent when it adds permissions.\<close>

definition consent_required ::
  "registeredApp \<Rightarrow> appRelease \<Rightarrow> installedAppRef option \<Rightarrow> bool \<Rightarrow> bool" where
  "consent_required app release existing acceptPermissionChanges =
     (case existing of
        None \<Rightarrow> False
      | Some ref \<Rightarrow>
          (case map_of (a_Releases app) (i_InstalledVersion ref) of
             None \<Rightarrow> False
           | Some installedRelease \<Rightarrow>
               i_InstalledVersion ref \<noteq> r_Version release \<and>
               fst (permissionDelta (Some installedRelease) (Some release)) \<noteq> [] \<and>
               \<not> acceptPermissionChanges))"

definition install_ref :: "string \<Rightarrow> appRelease \<Rightarrow> installedAppRef option \<Rightarrow> time \<Rightarrow> installedAppRef" where
  "install_ref appID release existing now =
     \<lparr>i_AppID = appID, i_InstalledVersion = r_Version release, i_AutoUpdate = True, i_Enabled = True,
      i_InstalledAt = (case existing of
          Some ref \<Rightarrow> if i_InstalledAt ref \<noteq> 0 then i_InstalledAt ref else now
        | None \<Rightarrow> now),
      i_UpdatedAt = now\<rparr>"

text \<open>The closure of \<open>installAppHandler\<close>; its extra result is the captured \<open>consentRequired\<close>.\<close>

definition installMutate :: "string \<Rightarrow> string \<Rightarrow> bool \<Rightarrow> time \<Rightarrow> bool mutation" where
  "installMutate userID appID acceptPermissionChanges now state =
     (case map_of (Apps state) appID of
        None \<Rightarrow> Inl (ApiError 404 ''not_found'' ''app not found'')
      | Some app \<Rightarrow>
          (case latestApprovedRelease app of
             None \<Rightarrow> Inl (ApiError 409 ''not_installable'' ''app has no approved release'')
           | Some release \<Rightarrow>
               let installs = userInstalls state userID;
                   existing = map_of installs appID
               in if consent_required app release existing acceptPermissionChanges
                  then Inr (state, [], True)
                  else Inr (put_install userID
                              (AList.update appID (install_ref appID release existing now) installs) state,
                            [audit_entry appID (r_Version release) userID ''install.updated'' []
                              [(''auto_update'', JBool True), (''enabled'', JBool True)] now],
                            False)))"

text \<open>The closure of \<open>uninstallAppHandler\<close>.\<close>

definition uninstallMutate :: "string \<Rightarrow> string \<Rightarrow> time \<Rightarrow> unit mutation" where
  "uninstallMutate userID appID now state =
     (let installs = userInstalls state userID in
      if map_of installs appID = None then Inl (ApiError 404 ''not_found'' ''install not found'')
      else Inr (put_install userID (AList.delete appID installs) state,
                [audit_entry appID [] userID ''install.removed'' [] [] now], ()))"

end
