(* ===== verification/RegistrySteps.thy ===== *)
theory RegistrySteps
  imports RegistryOps
begin

text \<open>
  The apps registry as a state machine: one labelled step per state-changing request, with the
  checks the handler makes before its closure runs.  Well-formed states, their preservation by
  every step, and what a step may and may not change.
\<close>

datatype registry_request =
    Register (rq_user: string) (rq_admin: bool) manifest time
  | CreateApp (rq_user: string) string string string string time
  | CreateRelease (rq_user: string) (rq_admin: bool) string manifest time
  | Transition (rq_user: string) (rq_admin: bool) string string string string bool time
  | Install (rq_user: string) string bool time
  | Uninstall (rq_user: string) string time

inductive registry_step ::
  "(string \<Rightarrow> string) \<Rightarrow> registry_request \<Rightarrow> registryState \<Rightarrow> registryState \<Rightarrow> bool" for sha256 where
  register: "validateManifest man = None \<Longrightarrow>
     registerMutate sha256 user admin man now st = Inr (st', audit, status) \<Longrightarrow>
     registry_step sha256 (Register user admin man now) st st'"
| create_app: "trim_space appID \<noteq> [] \<Longrightarrow> trim_space name \<noteq> [] \<Longrightarrow> user \<noteq> [] \<Longrightarrow>
     createAppMutate user (trim_space appID) name summary visibility now st = Inr (st', audit, u) \<Longrightarrow>
     registry_step sha256 (CreateApp user appID name summary visibility now) st st'"
| create_release: "validateManifest man = None \<Longrightarrow> stringField man ''app_id'' = appID \<Longrightarrow> user \<noteq> [] \<Longrightarrow>
     createReleaseMutate sha256 user admin appID man now st = Inr (st', audit, u) \<Longrightarrow>
     registry_step sha256 (CreateRelease user admin appID man now) st st'"
| transition: "user \<noteq> [] \<Longrightarrow> (adminOnly \<longrightarrow> admin) \<Longrightarrow>
     transitionMutate sha256 user admin appID version nextStatus note adminOnly now st = Inr (st', audit, u) \<Longrightarrow>
     registry_step sha256 (Transition user admin appID version nextStatus note adminOnly now) st st'"
| install: "trim_space user \<noteq> [] \<Longrightarrow>
     installMutate user appID accept now st = Inr (st', audit, consent) \<Longrightarrow>
     registry_step sha256 (Install user appID accept now) st st'"
| uninstall: "trim_space user \<noteq> [] \<Longrightarrow>
     uninstallMutate user appID now st = Inr (st', audit, u) \<Longrightarrow>
     registry_step sha256 (Uninstall user appID now) st st'"

inductive_cases step_InstallE: "registry_step sha256 (Install user appID accept now) st st'"
inductive_cases step_TransitionE:
  "registry_step sha256 (Transition user admin appID version nextStatus note adminOnly now) st st'"

section \<open>Well-formed states\<close>

definition wf_release :: "(string \<Rightarrow> string) \<Rightarrow> string \<Rightarrow> appRelease \<Rightarrow> bool" where
  "wf_release sha256 v r \<longleftrightarrow> r_Version r = v \<and> semverPattern v
     \<and> r_ManifestHash r = manifestHash sha256 (marshal (JObj (r_Manifest r)))
     \<and> (r_ManifestContentHash r = [] \<or>
        r_ManifestContentHash r = computeManifestContentHash sha256 (marshal (JObj (r_Manifest r))))
     \<and> (r_ReviewStatus r = statusApproved \<longrightarrow> r_PublishedAt r \<noteq> None)"

definition wf_app :: "(string \<Rightarrow> string) \<Rightarrow> string \<Rightarrow> registeredApp \<Rightarrow> bool" where
  "wf_app sha256 k app \<longleftrightarrow> a_AppID app = k \<and> distinct (map fst (a_Releases app))
     \<and> gomap_all (wf_release sha256) (a_Releases app) \<and> refreshLatestPointers app = app"

definition wf_installs :: "registeredApp gomap \<Rightarrow> string \<Rightarrow> installedAppRef gomap \<Rightarrow> bool" where
  "wf_installs apps user m \<longleftrightarrow> distinct (map fst m)
     \<and> gomap_all (\<lambda>a i. i_AppID i = a \<and>
         (case map_of apps a of None \<Rightarrow> False
          | Some app \<Rightarrow> i_InstalledVersion i \<in> set (map fst (a_Releases app)))) m"

definition wf_registry :: "(string \<Rightarrow> string) \<Rightarrow> registryState \<Rightarrow> bool" where
  "wf_registry sha256 st \<longleftrightarrow> distinct (map fst (Apps st)) \<and> gomap_all (wf_app sha256) (Apps st)
     \<and> distinct (map fst (Installs st)) \<and> gomap_all (wf_installs (Apps st)) (Installs st)"

lemma wf_empty [simp]: "wf_registry sha256 emptyRegistryState"
  by (simp add: wf_registry_def emptyRegistryState_def)

lemma semver_nonempty: "semverPattern v \<Longrightarrow> v \<noteq> []"
  by (auto simp: semverPattern_def Let_def)

lemma wf_appD: "wf_registry sha256 st \<Longrightarrow> map_of (Apps st) a = Some app \<Longrightarrow> wf_app sha256 a app"
  by (auto simp: wf_registry_def dest: gomap_allD)

lemma wf_releaseD:
  "wf_app sha256 a app \<Longrightarrow> map_of (a_Releases app) v = Some r \<Longrightarrow> wf_release sha256 v r"
  by (auto simp: wf_app_def dest: gomap_allD)

lemma wf_app_versions: "wf_app sha256 a app \<Longrightarrow> [] \<notin> set (map fst (a_Releases app))"
  by (auto simp: wf_app_def gomap_all_set wf_release_def dest!: semver_nonempty)

text \<open>An app may be replaced by one that keeps its releases' versions.\<close>

lemma wf_put_app:
  assumes st: "wf_registry sha256 st" and app: "wf_app sha256 k app"
    and keep: "\<And>old. map_of (Apps st) k = Some old \<Longrightarrow>
      set (map fst (a_Releases old)) \<subseteq> set (map fst (a_Releases app))"
  shows "wf_registry sha256 (put_app k app st)"
proof -
  have "wf_installs (AList.update k app (Apps st)) u m" if "wf_installs (Apps st) u m" for u m
  proof -
    have "gomap_all (\<lambda>a i. i_AppID i = a \<and>
         (case map_of (AList.update k app (Apps st)) a of None \<Rightarrow> False
          | Some app \<Rightarrow> i_InstalledVersion i \<in> set (map fst (a_Releases app)))) m"
      using that unfolding wf_installs_def
      by (elim conjE gomap_all_mono) (use keep in \<open>auto simp: alist_simps split: option.splits\<close>)
    then show ?thesis using that by (simp add: wf_installs_def)
  qed
  then show ?thesis using st app
    by (auto simp: wf_registry_def put_app_def intro: gomap_all_mono)
qed

lemma wf_put_install:
  assumes "wf_registry sha256 st" and "wf_installs (Apps st) u m"
  shows "wf_registry sha256 (put_install u m st)"
  using assms by (auto simp: wf_registry_def put_install_def)

lemma wf_userInstalls:
  "wf_registry sha256 st \<Longrightarrow> wf_installs (Apps st) u (userInstalls st u)"
  by (auto simp: userInstalls_def wf_registry_def wf_installs_def
      dest: gomap_allD split: option.splits)

lemma wf_app_refresh:
  assumes "a_AppID app = k" and "distinct (map fst (a_Releases app))"
    and "gomap_all (wf_release sha256) (a_Releases app)"
  shows "wf_app sha256 k (refreshLatestPointers app)"
  using assms by (simp add: wf_app_def)

lemma validate_semver: "validateManifest man = None \<Longrightarrow> semverPattern (stringField man ''version'')"
  by (auto simp: validateManifest_def split: if_splits)

text \<open>The manifest fields whose type assertions are unchecked are objects in a valid manifest.\<close>

lemma validate_objects:
  assumes "validateManifest man = None"
  shows "\<exists>e p. as_obj (map_of man ''entrypoint'') = Some e \<and> as_obj (map_of man ''message_preview'') = Some p"
  using assms by (auto simp: validateManifest_def Let_def split: if_splits option.splits)

lemma wf_new_release:
  assumes "semverPattern v" and "ch = [] \<or> ch = computeManifestContentHash sha256 (marshal (JObj man))"
    and "status \<noteq> statusApproved"
  shows "wf_release sha256 v
    (new_release v man (manifestHash sha256 (marshal (JObj man))) ch status src vis pub e p now)"
  using assms by (auto simp: wf_release_def new_release_def)

section \<open>Every operation keeps the state well-formed\<close>

lemma new_app_wf [simp]: "wf_app sha256 k (new_app k name owner vis summary now)"
  by (simp add: wf_app_def new_app_def refreshLatestPointers_def)

lemma new_release_fields [simp]:
  "r_PublishedAt (new_release v man h ch status src vis pub e p now) = None"
  "r_Version (new_release v man h ch status src vis pub e p now) = v"
  "r_Manifest (new_release v man h ch status src vis pub e p now) = man"
  "r_ManifestHash (new_release v man h ch status src vis pub e p now) = h"
  "r_ManifestContentHash (new_release v man h ch status src vis pub e p now) = ch"
  "r_ReviewStatus (new_release v man h ch status src vis pub e p now) = status"
  by (simp_all add: new_release_def)

lemma put_app_sel [simp]:
  "map_of (Apps (put_app k app st)) = (map_of (Apps st))(k \<mapsto> app)"
  "Installs (put_app k app st) = Installs st"
  by (simp_all add: put_app_def alist_simps)

lemma put_install_sel [simp]:
  "Apps (put_install u m st) = Apps st"
  "map_of (Installs (put_install u m st)) = (map_of (Installs st))(u \<mapsto> m)"
  by (simp_all add: put_install_def alist_simps)

text \<open>Adding or replacing a well-formed release keeps the app well-formed.\<close>

lemma wf_app_update_release:
  assumes "wf_app sha256 k app" and "wf_release sha256 v r"
    and "a_AppID app' = k" and "a_Releases app' = AList.update v r (a_Releases app)"
  shows "wf_app sha256 k (refreshLatestPointers app')"
  using assms by (intro wf_app_refresh) (auto simp: wf_app_def)

lemma wf_put_updated:
  assumes wf: "wf_registry sha256 st" and app: "wf_app sha256 k app" and r: "wf_release sha256 v r"
    and old: "\<And>old. map_of (Apps st) k = Some old \<Longrightarrow> old = app"
    and app': "a_AppID app' = k" "a_Releases app' = AList.update v r (a_Releases app)"
  shows "wf_registry sha256 (put_app k (refreshLatestPointers app') st)"
proof (rule wf_put_app [OF wf wf_app_update_release [OF app r app']])
  fix o' assume "map_of (Apps st) k = Some o'"
  then show "set (map fst (a_Releases o')) \<subseteq> set (map fst (a_Releases (refreshLatestPointers app')))"
    using old app'(2) by auto
qed

lemma registerMutate_cases:
  assumes reg: "registerMutate sha256 user admin man now st = Inr (st', audit, status)"
  obtains (existing) app where "map_of (Apps st) (stringField man ''app_id'') = Some app"
      and "st' = put_app (stringField man ''app_id'') app st"
    | (created) app e p rel where
      "app = (case map_of (Apps st) (stringField man ''app_id'') of Some app \<Rightarrow> app
         | None \<Rightarrow> new_app (stringField man ''app_id'') (stringField man ''name'') user
             (manifestVisibility man) (manifestSummary man) now)"
      and "a_OwnerUserID app = user \<or> admin"
      and "map_of (a_Releases app) (stringField man ''version'') = None"
      and "rel = new_release (stringField man ''version'') man
          (manifestHash sha256 (marshal (JObj man)))
          (computeManifestContentHash sha256 (marshal (JObj man)))
          (initialReviewStatus (manifestSourceType man)) (manifestSourceType man)
          (a_Visibility app) user e p now"
      and "st' = put_app (stringField man ''app_id'') (refreshLatestPointers
          (app\<lparr>a_Releases := AList.update (stringField man ''version'')
                 (if initialReviewStatus (manifestSourceType man) = statusApproved
                  then rel\<lparr>r_PublishedAt := Some now, r_ReviewedAt := Some now\<rparr> else rel)
                 (a_Releases app),
               a_Name := stringField man ''name'', a_Summary := manifestSummary man,
               a_UpdatedAt := now\<rparr>)) st"
proof (cases "map_of (Apps st) (stringField man ''app_id'')")
  case None
  then show ?thesis using reg created
    by (auto simp: registerMutate_def Let_def new_app_def split: if_splits option.splits)
next
  case (Some app)
  then show ?thesis using reg existing created
    by (auto simp: registerMutate_def Let_def split: if_splits option.splits)
qed

lemma registerMutate_wf:
  assumes wf: "wf_registry sha256 st" and v: "validateManifest man = None"
    and reg: "registerMutate sha256 user admin man now st = Inr (st', audit, status)"
  shows "wf_registry sha256 st'"
  using reg
proof (cases rule: registerMutate_cases)
  case (existing app)
  then show ?thesis using wf wf_appD [OF wf] by (auto intro: wf_put_app)
next
  case (created app e p rel)
  let ?k = "stringField man ''app_id''" and ?v = "stringField man ''version''"
  have app: "wf_app sha256 ?k app" using created(1) wf_appD [OF wf] by (auto split: option.splits)
  have "wf_release sha256 ?v (if initialReviewStatus (manifestSourceType man) = statusApproved
      then rel\<lparr>r_PublishedAt := Some now, r_ReviewedAt := Some now\<rparr> else rel)"
    using validate_semver [OF v] by (auto simp: created(4) wf_release_def)
  from wf_put_updated [OF wf app this] show ?thesis
    using app created(1) by (auto simp: created(5) wf_app_def split: option.splits)
qed

lemma createAppMutate_wf:
  assumes "wf_registry sha256 st" and "createAppMutate user appID name summary vis now st = Inr (st', audit, u)"
  shows "wf_registry sha256 st'"
  using assms by (auto simp: createAppMutate_def Let_def split: if_splits intro!: wf_put_app)

lemma createReleaseMutate_wf:
  assumes wf: "wf_registry sha256 st" and v: "validateManifest man = None"
    and op: "createReleaseMutate sha256 user admin appID man now st = Inr (st', audit, u)"
  shows "wf_registry sha256 st'"
proof -
  let ?v = "stringField man ''version''"
  from op obtain app e p where app: "map_of (Apps st) appID = Some app"
    and st': "st' = put_app appID (refreshLatestPointers (app\<lparr>a_Releases := AList.update ?v
          (new_release ?v man (manifestHash sha256 (marshal (JObj man))) [] statusDraft
             (manifestSourceType man) (a_Visibility app) user e p now) (a_Releases app),
          a_UpdatedAt := now\<rparr>)) st"
    by (auto simp: createReleaseMutate_def Let_def split: option.splits if_splits)
  note wa = wf_appD [OF wf app]
  have "wf_release sha256 ?v (new_release ?v man (manifestHash sha256 (marshal (JObj man))) [] statusDraft
             (manifestSourceType man) (a_Visibility app) user e p now)"
    by (rule wf_new_release [OF validate_semver [OF v]]) simp_all
  from wf_put_updated [OF wf wa this] show ?thesis
    unfolding st' using wa app by (simp add: wf_app_def)
qed

text \<open>What a status change does to a release: its contents stay, and approval publishes it.\<close>

definition same_content :: "appRelease \<Rightarrow> appRelease \<Rightarrow> bool" where
  "same_content r r' \<longleftrightarrow> r_Version r' = r_Version r \<and> r_Manifest r' = r_Manifest r
     \<and> r_ManifestHash r' = r_ManifestHash r \<and> r_ManifestContentHash r' = r_ManifestContentHash r
     \<and> r_SourceType r' = r_SourceType r \<and> r_Visibility r' = r_Visibility r
     \<and> r_PublisherUserID r' = r_PublisherUserID r \<and> r_SupportedPlatforms r' = r_SupportedPlatforms r
     \<and> r_EntrypointOrigin r' = r_EntrypointOrigin r \<and> r_PreviewOrigin r' = r_PreviewOrigin r
     \<and> r_CreatedAt r' = r_CreatedAt r"

lemma same_content_refl [simp]: "same_content r r"
  by (simp add: same_content_def)

lemma approve_fields_content:
  "same_content r (approve_fields sha256 r now) \<and> r_ReviewStatus (approve_fields sha256 r now) = statusApproved
    \<and> r_PublishedAt (approve_fields sha256 r now) = Some now \<and> r_RevokedAt (approve_fields sha256 r now) = None
    \<and> r_ImmutableAt (approve_fields sha256 r now) = Some now
    \<and> r_RequiresReconsent (approve_fields sha256 r now) = r_RequiresReconsent r"
  by (simp add: approve_fields_def same_content_def Let_def)

lemma mark_reconsent_content:
  "same_content r (mark_reconsent prev v r) \<and> r_ReviewStatus (mark_reconsent prev v r) = r_ReviewStatus r
    \<and> r_PublishedAt (mark_reconsent prev v r) = r_PublishedAt r
    \<and> r_RevokedAt (mark_reconsent prev v r) = r_RevokedAt r
    \<and> r_ImmutableAt (mark_reconsent prev v r) = r_ImmutableAt r"
  by (simp add: mark_reconsent_def same_content_def split: option.splits)

lemma same_content_trans: "same_content a b \<Longrightarrow> same_content b c \<Longrightarrow> same_content a c"
  by (simp add: same_content_def)

lemma approve_release_cases:
  assumes "approve_release sha256 app version release now = Inr release'"
  shows "same_content release release' \<and> r_ReviewStatus release' = statusApproved
    \<and> r_PublishedAt release' = Some now \<and> r_RevokedAt release' = None \<and> r_ImmutableAt release' = Some now"
proof -
  obtain prev where "release' = mark_reconsent prev version (approve_fields sha256 release now)"
    using assms by (auto simp: approve_release_def Let_def split: option.splits)
  then show ?thesis
    using approve_fields_content [of release sha256 now]
      mark_reconsent_content [of "approve_fields sha256 release now" prev version]
    by (simp add: same_content_def)
qed

lemma next_release_content:
  assumes "next_release sha256 app version release nextStatus note now = Inr release'"
  shows "same_content release release' \<and> r_ReviewStatus release' = nextStatus
    \<and> (nextStatus = statusApproved \<longrightarrow> r_PublishedAt release' = Some now)"
proof (cases "nextStatus = statusApproved")
  case True
  then show ?thesis using assms approve_release_cases by (auto simp: next_release_def)
next
  case False
  then show ?thesis using assms unfolding next_release_def
    by (simp_all add: same_content_def split: if_split_asm) (drule sym [where t = release'], simp)+
qed

lemma wf_next_release:
  assumes "wf_release sha256 v release"
    and "next_release sha256 app version release nextStatus note now = Inr release'"
  shows "wf_release sha256 v release'"
  using assms(1) next_release_content [OF assms(2)] by (auto simp: wf_release_def same_content_def)

lemma transitionMutate_cases:
  assumes "transitionMutate sha256 user admin appID version nextStatus note adminOnly now st = Inr (st', audit, u)"
  obtains app release release' where "map_of (Apps st) appID = Some app"
    and "adminOnly \<or> a_OwnerUserID app = user \<or> admin"
    and "map_of (a_Releases app) version = Some release"
    and "next_release sha256 app version release nextStatus note now = Inr release'"
    and "st' = put_app appID (refreshLatestPointers (app\<lparr>a_Releases :=
           AList.update version release' (a_Releases app), a_UpdatedAt := now\<rparr>)) st"
  using assms by (auto simp: transitionMutate_def split: option.splits if_splits sum.splits)

lemma transitionMutate_wf:
  assumes wf: "wf_registry sha256 st"
    and op: "transitionMutate sha256 user admin appID version nextStatus note adminOnly now st = Inr (st', audit, u)"
  shows "wf_registry sha256 st'"
  using op
proof (cases rule: transitionMutate_cases)
  case (1 app release release')
  note wa = wf_appD [OF wf 1(1)]
  have "wf_release sha256 version release'"
    by (rule wf_next_release [OF wf_releaseD [OF wa 1(3)] 1(4)])
  from wf_put_updated [OF wf wa this] show ?thesis
    unfolding 1(5) using wa 1(1) by (simp add: wf_app_def)
qed

lemma latestApproved_mem:
  assumes "latestApprovedRelease app = Some rel"
  shows "r_ReviewStatus rel = statusApproved \<and> (\<exists>v. (v, rel) \<in> set (a_Releases app))"
  using pick_latest_mem [OF assms [unfolded latestApprovedRelease_def]] by auto

lemma latestApproved_version:
  assumes "wf_app sha256 k app" and "latestApprovedRelease app = Some rel"
  shows "map_of (a_Releases app) (r_Version rel) = Some rel"
proof -
  obtain v where "(v, rel) \<in> set (a_Releases app)" using latestApproved_mem [OF assms(2)] by auto
  then show ?thesis using assms(1)
    by (auto simp: wf_app_def gomap_all_set wf_release_def)
qed

lemma install_ref_sel [simp]:
  "i_AppID (install_ref a rel ex now) = a"
  "i_InstalledVersion (install_ref a rel ex now) = r_Version rel"
  by (simp_all add: install_ref_def)

lemma installMutate_cases:
  assumes "installMutate user appID accept now st = Inr (st', audit, consent)"
  obtains (kept) "st' = st" and "consent"
    | (installed) app rel where "map_of (Apps st) appID = Some app"
      and "latestApprovedRelease app = Some rel" and "\<not> consent"
      and "\<not> consent_required app rel (map_of (userInstalls st user) appID) accept"
      and "st' = put_install user (AList.update appID
             (install_ref appID rel (map_of (userInstalls st user) appID) now) (userInstalls st user)) st"
proof -
  from assms obtain app rel where ar: "map_of (Apps st) appID = Some app"
      "latestApprovedRelease app = Some rel"
    by (auto simp: installMutate_def split: option.splits)
  show ?thesis
  proof (cases "consent_required app rel (map_of (userInstalls st user) appID) accept")
    case True
    then show ?thesis using assms ar kept by (simp add: installMutate_def Let_def)
  next
    case False
    then show ?thesis using assms ar installed by (simp add: installMutate_def Let_def)
  qed
qed

lemma installMutate_wf:
  assumes wf: "wf_registry sha256 st"
    and op: "installMutate user appID accept now st = Inr (st', audit, consent)"
  shows "wf_registry sha256 st'"
  using op
proof (cases rule: installMutate_cases)
  case kept
  then show ?thesis using wf by simp
next
  case (installed app rel)
  have "r_Version rel \<in> set (map fst (a_Releases app))"
    using latestApproved_version [OF wf_appD [OF wf installed(1)] installed(2)]
    by (simp add: map_of_fst_mem)
  then have "wf_installs (Apps st) user (AList.update appID
      (install_ref appID rel (map_of (userInstalls st user) appID) now) (userInstalls st user))"
    using wf_userInstalls [OF wf, of user] installed(1) unfolding wf_installs_def
    by (intro conjI gomap_all_update) simp_all
  then show ?thesis unfolding installed(5) by (rule wf_put_install [OF wf])
qed

lemma uninstallMutate_wf:
  assumes wf: "wf_registry sha256 st" and op: "uninstallMutate user appID now st = Inr (st', audit, u)"
  shows "wf_registry sha256 st'"
proof -
  have "wf_installs (Apps st) user (AList.delete appID (userInstalls st user))"
    using wf_userInstalls [OF wf, of user] by (auto simp: wf_installs_def)
  then show ?thesis using op wf
    by (auto simp: uninstallMutate_def Let_def intro: wf_put_install split: if_splits)
qed

lemma registry_step_wf:
  "registry_step sha256 rq st st' \<Longrightarrow> wf_registry sha256 st \<Longrightarrow> wf_registry sha256 st'"
  by (induction rule: registry_step.induct)
     (blast intro: registerMutate_wf createAppMutate_wf createReleaseMutate_wf transitionMutate_wf
        installMutate_wf uninstallMutate_wf)+

section \<open>Runs of the registry\<close>

inductive registry_reachable :: "(string \<Rightarrow> string) \<Rightarrow> registryState \<Rightarrow> bool" for sha256 where
  start: "registry_reachable sha256 emptyRegistryState"
| step: "registry_reachable sha256 st \<Longrightarrow> registry_step sha256 rq st st' \<Longrightarrow> registry_reachable sha256 st'"

lemma reachable_wf: "registry_reachable sha256 st \<Longrightarrow> wf_registry sha256 st"
  by (induction rule: registry_reachable.induct) (auto intro: registry_step_wf)

inductive registry_run :: "(string \<Rightarrow> string) \<Rightarrow> registryState \<Rightarrow> registryState \<Rightarrow> bool" for sha256 where
  run_refl: "registry_run sha256 st st"
| run_step: "registry_run sha256 st st' \<Longrightarrow> registry_step sha256 rq st' st'' \<Longrightarrow> registry_run sha256 st st''"

definition lookup_release :: "registryState \<Rightarrow> string \<Rightarrow> string \<Rightarrow> appRelease option" where
  "lookup_release st a v = Option.bind (map_of (Apps st) a) (\<lambda>app. map_of (a_Releases app) v)"

text \<open>An app's owner and the contents of its releases survive from one state to another.\<close>

definition keeps_releases :: "registryState \<Rightarrow> registryState \<Rightarrow> bool" where
  "keeps_releases st st' \<longleftrightarrow>
     (\<forall>a app. map_of (Apps st) a = Some app \<longrightarrow>
        (\<exists>app'. map_of (Apps st') a = Some app' \<and> a_OwnerUserID app' = a_OwnerUserID app
           \<and> a_Visibility app' = a_Visibility app \<and> a_CreatedAt app' = a_CreatedAt app
           \<and> (\<forall>v r. map_of (a_Releases app) v = Some r \<longrightarrow>
                (\<exists>r'. map_of (a_Releases app') v = Some r' \<and> same_content r r'))))"

lemma keeps_releases_refl [simp]: "keeps_releases st st"
  by (auto simp: keeps_releases_def)

lemma keeps_releases_trans:
  assumes ab: "keeps_releases a b" and bc: "keeps_releases b c"
  shows "keeps_releases a c"
  unfolding keeps_releases_def
proof (intro allI impI)
  fix k app assume "map_of (Apps a) k = Some app"
  with ab obtain app1 where 1: "map_of (Apps b) k = Some app1" "a_OwnerUserID app1 = a_OwnerUserID app"
    "a_Visibility app1 = a_Visibility app" "a_CreatedAt app1 = a_CreatedAt app"
    "\<And>v r. map_of (a_Releases app) v = Some r \<Longrightarrow> \<exists>r'. map_of (a_Releases app1) v = Some r' \<and> same_content r r'"
    unfolding keeps_releases_def by meson
  with bc obtain app2 where 2: "map_of (Apps c) k = Some app2" "a_OwnerUserID app2 = a_OwnerUserID app1"
    "a_Visibility app2 = a_Visibility app1" "a_CreatedAt app2 = a_CreatedAt app1"
    "\<And>v r. map_of (a_Releases app1) v = Some r \<Longrightarrow> \<exists>r'. map_of (a_Releases app2) v = Some r' \<and> same_content r r'"
    unfolding keeps_releases_def by meson
  show "\<exists>app'. map_of (Apps c) k = Some app' \<and> a_OwnerUserID app' = a_OwnerUserID app
           \<and> a_Visibility app' = a_Visibility app \<and> a_CreatedAt app' = a_CreatedAt app
           \<and> (\<forall>v r. map_of (a_Releases app) v = Some r \<longrightarrow>
                (\<exists>r'. map_of (a_Releases app') v = Some r' \<and> same_content r r'))"
    using 1(2-4) 2(1-4) by (auto intro: same_content_trans dest!: 1(5) 2(5))
qed

text \<open>Replacing one app by one that keeps owner, visibility and release contents.\<close>

lemma keeps_put_app:
  assumes "\<And>old. map_of (Apps st) k = Some old \<Longrightarrow> a_OwnerUserID app = a_OwnerUserID old
      \<and> a_Visibility app = a_Visibility old \<and> a_CreatedAt app = a_CreatedAt old
      \<and> (\<forall>v r. map_of (a_Releases old) v = Some r \<longrightarrow>
           (\<exists>r'. map_of (a_Releases app) v = Some r' \<and> same_content r r'))"
  shows "keeps_releases st (put_app k app st)"
  using assms by (auto simp: keeps_releases_def)

lemma keeps_put_install [simp]: "keeps_releases st (put_install u m st)"
  by (auto simp: keeps_releases_def)

lemma registerMutate_keeps:
  assumes "registerMutate sha256 user admin man now st = Inr (st', audit, status)"
  shows "keeps_releases st st'"
  using assms
proof (cases rule: registerMutate_cases)
  case (existing app)
  then show ?thesis by (auto intro: keeps_put_app)
next
  case (created app e p rel)
  then show ?thesis by (auto simp: alist_simps intro!: keeps_put_app)
qed

lemma createReleaseMutate_keeps:
  assumes "createReleaseMutate sha256 user admin appID man now st = Inr (st', audit, u)"
  shows "keeps_releases st st'"
  using assms unfolding createReleaseMutate_def
  by (auto simp: Let_def alist_simps intro!: keeps_put_app split: option.splits if_splits)

lemma transitionMutate_keeps:
  assumes "transitionMutate sha256 user admin appID version nextStatus note adminOnly now st = Inr (st', audit, u)"
  shows "keeps_releases st st'"
  using assms
proof (cases rule: transitionMutate_cases)
  case (1 app release release')
  then show ?thesis using next_release_content [OF 1(4)]
    by (auto simp: alist_simps intro!: keeps_put_app)
qed

lemma registry_step_keeps: "registry_step sha256 rq st st' \<Longrightarrow> keeps_releases st st'"
proof (induction rule: registry_step.induct)
  case (register man user admin now st st' audit status)
  then show ?case by (blast intro: registerMutate_keeps)
next
  case (create_app appID name user visibility now st st' audit u)
  then show ?case
    by (auto simp: createAppMutate_def Let_def intro!: keeps_put_app split: if_splits)
next
  case (create_release man appID user admin now st st' audit u)
  then show ?case by (blast intro: createReleaseMutate_keeps)
next
  case (transition user adminOnly admin appID version nextStatus nt now st st' audit u)
  then show ?case by (blast intro: transitionMutate_keeps)
next
  case (install user appID accept now st st' audit consent)
  from install(2) show ?case by (cases rule: installMutate_cases) simp_all
next
  case (uninstall user appID now st st' audit u)
  then show ?case by (auto simp: uninstallMutate_def Let_def split: if_splits)
qed

end
