(* ===== verification/RegistryProps.thy ===== *)
theory RegistryProps
  imports RegistrySteps
begin

text \<open>
  What the apps registry guarantees, over all of its state-changing requests: well-formedness of
  every reachable state, immutable releases, ownership, installation of approved releases only,
  and consent to added permissions.  Two properties record what approval does not do.
\<close>

section \<open>A concrete registry for the witnesses\<close>

definition demo_manifest :: "string \<Rightarrow> string \<Rightarrow> string list \<Rightarrow> manifest" where
  "demo_manifest version url perms =
     [(''app_id'', JStr ''app.demo''), (''name'', JStr ''Demo''), (''version'', JStr version),
      (''entrypoint'', JObj [(''type'', JStr ''url''), (''url'', JStr url)]),
      (''message_preview'', JObj [(''type'', JStr ''live''), (''url'', JStr url)]),
      (''permissions'', JArr (map JStr perms)), (''capabilities'', JObj [])]"

definition demo_hash :: "string \<Rightarrow> string" where
  "demo_hash s = take 1 (rev s)"

definition state_of :: "apiError + (registryState \<times> auditEntry list \<times> 'x) \<Rightarrow> registryState" where
  "state_of res = (case res of Inl e \<Rightarrow> emptyRegistryState | Inr (st, _) \<Rightarrow> st)"

text \<open>Alice registers version 1.0.0 of a development app: it is approved at once.\<close>

definition demo1 :: registryState where
  "demo1 = state_of (registerMutate demo_hash ''alice'' False
     (demo_manifest ''1.0.0'' ''http://localhost:1/x'' [''read'']) 10 emptyRegistryState)"

text \<open>Bob installs it, then Alice registers a version with one more permission.\<close>

definition demo2 :: registryState where
  "demo2 = state_of (installMutate ''bob'' ''app.demo'' False 20 demo1)"

definition demo3 :: registryState where
  "demo3 = state_of (registerMutate demo_hash ''alice'' False
     (demo_manifest ''1.1.0'' ''http://localhost:1/x'' [''read'', ''send'']) 30 demo2)"

definition is_ok :: "'e + 'a \<Rightarrow> bool" where
  "is_ok res = (case res of Inl e \<Rightarrow> False | Inr x \<Rightarrow> True)"

lemma is_ok_state_of: "is_ok res \<Longrightarrow> \<exists>audit x. res = Inr (state_of res, audit, x)"
  by (auto simp: is_ok_def state_of_def split: sum.splits prod.splits)

lemma demo_ok:
  "validateManifest (demo_manifest ''1.0.0'' ''http://localhost:1/x'' [''read'']) = None"
  "validateManifest (demo_manifest ''1.1.0'' ''http://localhost:1/x'' [''read'', ''send'']) = None"
  "is_ok (registerMutate demo_hash ''alice'' False
     (demo_manifest ''1.0.0'' ''http://localhost:1/x'' [''read'']) 10 emptyRegistryState)"
  "is_ok (installMutate ''bob'' ''app.demo'' False 20 demo1)"
  "is_ok (registerMutate demo_hash ''alice'' False
     (demo_manifest ''1.1.0'' ''http://localhost:1/x'' [''read'', ''send'']) 30 demo2)"
  by code_simp+

lemma demo1_step: "registry_step demo_hash
    (Register ''alice'' False (demo_manifest ''1.0.0'' ''http://localhost:1/x'' [''read'']) 10)
    emptyRegistryState demo1"
  using is_ok_state_of [OF demo_ok(3)] demo_ok(1)
  by (auto simp: demo1_def intro: registry_step.register)

lemma demo2_step: "registry_step demo_hash (Install ''bob'' ''app.demo'' False 20) demo1 demo2"
proof -
  have "trim_space ''bob'' \<noteq> []" by code_simp
  then show ?thesis using is_ok_state_of [OF demo_ok(4)]
    by (auto simp: demo2_def intro: registry_step.install)
qed

lemma demo3_step: "registry_step demo_hash
    (Register ''alice'' False (demo_manifest ''1.1.0'' ''http://localhost:1/x'' [''read'', ''send'']) 30)
    demo2 demo3"
  using is_ok_state_of [OF demo_ok(5)] demo_ok(2)
  by (auto simp: demo3_def intro: registry_step.register)

lemma demo_reachable:
  "registry_reachable demo_hash demo1" "registry_reachable demo_hash demo2" "registry_reachable demo_hash demo3"
  using registry_reachable.intros demo1_step demo2_step demo3_step by metis+

lemma demo_facts:
  "lookup_release demo1 ''app.demo'' ''1.0.0'' \<noteq> None"
  "map_of (Apps demo1) ''app.demo'' \<noteq> None"
  "map_of (userInstalls demo2 ''bob'') ''app.demo'' \<noteq> None"
  by code_simp+

theorem refreshLatestPointers_greatest_witness:
  "a_LatestVersion (refreshLatestPointers ((new_app ''a'' ''n'' ''u'' ''public'' [] 1)\<lparr>a_Releases :=
      [(''1.10.0'', new_release ''1.10.0'' [] [] [] statusDraft ''registry'' ''public'' ''u'' [] [] 1)]\<rparr>)) = ''1.10.0''"
  using refreshLatestPointers_greatest [of "(new_app ''a'' ''n'' ''u'' ''public'' [] 1)\<lparr>a_Releases :=
      [(''1.10.0'', new_release ''1.10.0'' [] [] [] statusDraft ''registry'' ''public'' ''u'' [] [] 1)]\<rparr>"]
  by simp

section \<open>Invariants and safety\<close>

text \<open>C6. In every state the registry can reach, keys match the records they lead to, versions are
  semantic, stored hashes are the hashes of the stored manifests, approved releases have a
  publication time, version pointers are up to date, and every install names a release of a
  registered app.\<close>

theorem registry_reachable_wf:
  assumes "registry_reachable sha256 st"
  shows "wf_registry sha256 st"
  by (rule reachable_wf [OF assms])

theorem registry_reachable_wf_witness: "wf_registry demo_hash demo3"
  by (rule registry_reachable_wf [OF demo_reachable(3)])

text \<open>C8. Releases are immutable: over any run of the registry an app keeps its owner and
  visibility, and each of its releases keeps its version, manifest, hashes, source type,
  publisher, platforms and origins.\<close>

theorem releases_immutable:
  assumes "registry_run sha256 st st'"
  shows "keeps_releases st st'"
  using assms
  by (induction rule: registry_run.induct) (auto intro: keeps_releases_trans registry_step_keeps)

theorem releases_immutable_witness: "keeps_releases demo1 demo3"
proof -
  have "registry_run demo_hash demo1 demo3"
    by (meson registry_run.intros demo2_step demo3_step)
  then show ?thesis by (rule releases_immutable)
qed

text \<open>The immutability check at approval never fails on a state the registry can reach: an
  existing release of an existing app can always be approved by an administrator.\<close>

theorem approval_never_violates_immutability:
  assumes "wf_registry sha256 st" and "map_of (Apps st) appID = Some app"
    and "map_of (a_Releases app) version = Some release"
  shows "validateManifestImmutability sha256 release = None
    \<and> (\<exists>st' audit. transitionMutate sha256 admin True appID version statusApproved [] True now st
          = Inr (st', audit, ()) \<and> (\<exists>release'. lookup_release st' appID version = Some release'
              \<and> r_ReviewStatus release' = statusApproved))"
proof -
  have "wf_release sha256 version release"
    using wf_releaseD [OF wf_appD [OF assms(1,2)] assms(3)] .
  then have v: "validateManifestImmutability sha256 release = None"
    by (auto simp: validateManifestImmutability_def wf_release_def)
  obtain release' where r: "approve_release sha256 app version release now = Inr release'"
    using v by (simp add: approve_release_def Let_def)
  then show ?thesis
    using v assms approve_release_cases [OF r]
    by (auto simp: transitionMutate_def next_release_def lookup_release_def alist_simps)
qed

theorem approval_never_violates_immutability_witness:
  "\<exists>st' audit. transitionMutate demo_hash ''root'' True ''app.demo'' ''1.0.0'' statusApproved [] True 40 demo1
     = Inr (st', audit, ())"
proof -
  obtain app release where
    "map_of (Apps demo1) ''app.demo'' = Some app" "map_of (a_Releases app) ''1.0.0'' = Some release"
    using demo_facts(1) by (auto simp: lookup_release_def bind_eq_Some_conv)
  from approval_never_violates_immutability [OF reachable_wf [OF demo_reachable(1)] this]
  show ?thesis by blast
qed

text \<open>C7. Installing gives the user an approved release of the app, and never moves an existing
  install to a release with permissions the user has not got yet, unless the request accepts
  permission changes.  Other users' installs and all apps stay as they are.\<close>

theorem install_approved_with_consent:
  assumes "wf_registry sha256 st" and "registry_step sha256 (Install user appID accept now) st st'"
  shows "Apps st' = Apps st
    \<and> (\<forall>u. u \<noteq> user \<longrightarrow> map_of (Installs st') u = map_of (Installs st) u)
    \<and> (st' \<noteq> st \<longrightarrow> (\<exists>ref rel. map_of (userInstalls st' user) appID = Some ref
          \<and> lookup_release st appID (i_InstalledVersion ref) = Some rel
          \<and> r_ReviewStatus rel = statusApproved
          \<and> (\<forall>old_ref old. map_of (userInstalls st user) appID = Some old_ref
               \<and> lookup_release st appID (i_InstalledVersion old_ref) = Some old \<longrightarrow>
               accept \<or> fst (permissionDelta (Some old) (Some rel)) = [] \<or> old = rel)))"
proof -
  from assms(2) obtain audit consent where tu: "trim_space user \<noteq> []"
    and op: "installMutate user appID accept now st = Inr (st', audit, consent)"
    by (rule step_InstallE)
  from op show ?thesis
  proof (cases rule: installMutate_cases)
    case kept
    then show ?thesis by simp
  next
    case (installed app rel)
    note lv = latestApproved_version [OF wf_appD [OF assms(1) installed(1)] installed(2)]
    have u: "map_of (userInstalls st' user) appID =
        Some (install_ref appID rel (map_of (userInstalls st user) appID) now)"
      using tu by (simp add: installed(5) userInstalls_def alist_simps put_install_def)
    have c: "accept \<or> fst (permissionDelta (Some old) (Some rel)) = [] \<or> old = rel"
      if "map_of (userInstalls st user) appID = Some old_ref"
        "lookup_release st appID (i_InstalledVersion old_ref) = Some old" for old_ref old
      using that installed(1,4) lv
      by (auto simp: consent_required_def lookup_release_def split: option.splits)
    have "lookup_release st appID (r_Version rel) = Some rel"
      using lv installed(1) by (simp add: lookup_release_def)
    then show ?thesis using u c latestApproved_mem [OF installed(2)]
      by (auto simp: installed(5))
  qed
qed

theorem install_approved_with_consent_witness: "Apps demo2 = Apps demo1"
  using install_approved_with_consent [OF reachable_wf [OF demo_reachable(1)] demo2_step] by blast

text \<open>Without the administrator role a request changes no app of another owner; only
  administrative review requests reach the apps of others.\<close>

theorem non_owner_changes_nothing:
  assumes "registry_step sha256 rq st st'" and "map_of (Apps st) a = Some app"
    and "a_OwnerUserID app \<noteq> rq_user rq"
    and "case rq of Register _ admin _ _ \<Rightarrow> \<not> admin | CreateRelease _ admin _ _ _ \<Rightarrow> \<not> admin
         | Transition _ admin _ _ _ _ _ _ \<Rightarrow> \<not> admin | _ \<Rightarrow> True"
  shows "map_of (Apps st') a = Some app"
  using assms
proof (induction rule: registry_step.induct)
  case (register man user admin now st st' audit status)
  from register(2) show ?case
  proof (cases rule: registerMutate_cases)
    case (existing app')
    then show ?thesis using register.prems by auto
  next
    case (created app' e p rel)
    then have "a \<noteq> stringField man ''app_id''" using register.prems by auto
    then show ?thesis using created(5) register.prems by simp
  qed
next
  case (create_app appID name user visibility now st st' audit u)
  then show ?case by (auto simp: createAppMutate_def Let_def split: if_splits)
next
  case (create_release man appID user admin now st st' audit u)
  then show ?case
    by (auto simp: createReleaseMutate_def Let_def split: option.splits if_splits)
next
  case (transition user adminOnly admin appID version nextStatus nt now st st' audit u)
  from transition(3) show ?case
    by (cases rule: transitionMutate_cases) (use transition in auto)
next
  case (install user appID accept now st st' audit consent)
  from install(2) show ?case
    by (cases rule: installMutate_cases) (use install.prems in auto)
next
  case (uninstall user appID now st st' audit u)
  then show ?case by (auto simp: uninstallMutate_def Let_def split: if_splits)
qed

theorem non_owner_changes_nothing_witness:
  "map_of (Apps demo2) ''app.demo'' = map_of (Apps demo1) ''app.demo''"
proof -
  obtain app where app: "map_of (Apps demo1) ''app.demo'' = Some app" using demo_facts(2) by blast
  have "map_option a_OwnerUserID (map_of (Apps demo1) ''app.demo'') = Some ''alice''"
    by code_simp
  then have "a_OwnerUserID app \<noteq> rq_user (Install ''bob'' ''app.demo'' False 20)" using app by simp
  from non_owner_changes_nothing [OF demo2_step app this] show ?thesis by (simp add: app)
qed

end
