(* ===== verification/RegistryReview.thy ===== *)
theory RegistryReview
  imports RegistryProps
begin

text \<open>
  The review workflow: the outcome of every status change, what approval does to the
  re-consent marker, and the permission differences users are asked about.
\<close>

section \<open>Permission lists\<close>

text \<open>The permission difference shown to users is exact: \<open>added\<close> holds the permissions of the
  candidate that the installed release lacks, \<open>removed\<close> the converse, both sorted and without
  duplicates; two releases with the same permissions differ in nothing.\<close>

theorem permissionDelta_exact:
  "set (fst (permissionDelta (Some i) (Some c))) =
      set (manifestPermissions (r_Manifest c)) - set (manifestPermissions (r_Manifest i))
   \<and> set (snd (permissionDelta (Some i) (Some c))) =
      set (manifestPermissions (r_Manifest i)) - set (manifestPermissions (r_Manifest c))
   \<and> sorted (fst (permissionDelta (Some i) (Some c))) \<and> distinct (fst (permissionDelta (Some i) (Some c)))
   \<and> sorted (snd (permissionDelta (Some i) (Some c))) \<and> distinct (snd (permissionDelta (Some i) (Some c)))
   \<and> permissionDelta (Some i) (Some i) = ([], [])"
  by (auto simp: permissionDelta_def permission_delta_def simp flip: set_empty)

text \<open>\<open>isPermissionExpansion\<close> reports an expansion exactly when the list got longer and holds a
  permission that was not there before; replacing permissions without adding entries is not
  reported, so a new permission can enter unnoticed.\<close>

theorem isPermissionExpansion_iff:
  "(isPermissionExpansion prev cur \<longleftrightarrow> length prev < length cur \<and> \<not> set cur \<subseteq> set prev)
   \<and> \<not> isPermissionExpansion [''read''] [''send'']"
  by (auto simp: isPermissionExpansion_def list_ex_iff)

section \<open>Approval and re-consent\<close>

text \<open>\<open>latestApprovedRelease\<close> compares publication times, where they are present.\<close>

interpretation pub: latest_choice published_after "\<lambda>r. r_PublishedAt r \<noteq> None" "\<lambda>r. the (r_PublishedAt r)"
  by unfold_locales (auto simp: published_after_def)

lemma wf_approved_published:
  assumes "wf_app sha256 k app"
  shows "list_all (\<lambda>r. r_PublishedAt r \<noteq> None)
    (filter (\<lambda>rel. r_ReviewStatus rel = statusApproved) (map snd (a_Releases app)))"
  using assms by (auto simp: wf_app_def gomap_all_set wf_release_def list_all_iff)

text \<open>An approved release published after all the others is the one that is found.\<close>

lemma latestApproved_newest:
  assumes wf: "wf_app sha256 k app" and v: "map_of (a_Releases app) v = Some r"
    and r: "r_ReviewStatus r = statusApproved" "r_PublishedAt r = Some now"
    and others: "\<And>v' r'. map_of (a_Releases app) v' = Some r' \<Longrightarrow> v' \<noteq> v \<Longrightarrow>
      r_ReviewStatus r' = statusApproved \<Longrightarrow> \<forall>p. r_PublishedAt r' = Some p \<longrightarrow> p < now"
  shows "latestApprovedRelease app = Some r"
proof -
  let ?rs = "filter (\<lambda>rel. r_ReviewStatus rel = statusApproved) (map snd (a_Releases app))"
  have d: "distinct (map fst (a_Releases app))" using wf by (simp add: wf_app_def)
  have mem: "r \<in> set ?rs" using map_of_SomeD [OF v] r(1) by force
  then have "?rs \<noteq> []" by force
  then obtain x where x: "pick_latest published_after ?rs = Some x"
    using pick_latest_None [of published_after ?rs] by (cases "pick_latest published_after ?rs") auto
  have le: "now \<le> the (r_PublishedAt x)"
    using pub.pick_greatest [OF wf_approved_published [OF wf] x mem] r(2) by simp
  obtain v' where v': "map_of (a_Releases app) v' = Some x" "r_ReviewStatus x = statusApproved"
    using pick_latest_mem [OF x] d by auto
  have "v' = v"
  proof (rule ccontr)
    assume "v' \<noteq> v"
    then have "\<forall>p. r_PublishedAt x = Some p \<longrightarrow> p < now" using others v' by blast
    moreover have "r_PublishedAt x \<noteq> None"
      using wf_releaseD [OF wf v'(1)] v'(2) by (simp add: wf_release_def)
    ultimately show False using le by auto
  qed
  then show ?thesis using v v' x by (simp add: latestApprovedRelease_def)
qed

text \<open>Approval looks for the previously approved release after it has marked the release
  itself as approved and published now.  Whenever the other approved releases were published
  earlier, the search finds the release under approval, so the re-consent marker is never
  raised, whatever permissions the new release adds.\<close>

theorem approval_never_marks_reconsent:
  assumes "wf_app sha256 k app" and "map_of (a_Releases app) version = Some release"
    and "\<forall>v r p. map_of (a_Releases app) v = Some r \<and> v \<noteq> version \<and> r_ReviewStatus r = statusApproved
           \<and> r_PublishedAt r = Some p \<longrightarrow> p < now"
    and "approve_release sha256 app version release now = Inr release'"
  shows "r_RequiresReconsent release' = r_RequiresReconsent release
    \<and> r_PreviousPermissions release' = r_PreviousPermissions release"
proof -
  let ?r1 = "approve_fields sha256 release now"
  let ?app1 = "app\<lparr>a_Releases := AList.update version ?r1 (a_Releases app)\<rparr>"
  have r1: "r_ReviewStatus ?r1 = statusApproved" "r_PublishedAt ?r1 = Some now" "r_Version ?r1 = version"
      "wf_release sha256 version ?r1"
    using approve_fields_content [of release sha256 now] wf_releaseD [OF assms(1,2)]
    by (auto simp: wf_release_def same_content_def)
  have wf1: "wf_app sha256 k (refreshLatestPointers ?app1)"
    by (rule wf_app_update_release [OF assms(1) r1(4)]) (use assms(1) in \<open>simp_all add: wf_app_def\<close>)
  have "latestApprovedRelease (refreshLatestPointers ?app1) = Some ?r1"
    by (rule latestApproved_newest [OF wf1 _ r1(1,2)])
       (use assms(3) in \<open>auto simp: alist_simps split: if_splits\<close>)
  then have "latestApprovedRelease ?app1 = Some ?r1"
    by (simp add: latestApprovedRelease_def)
  then have "release' = ?r1"
    using assms(4) r1(3)
    by (auto simp: approve_release_def Let_def mark_reconsent_def split: option.splits)
  then show ?thesis by (simp add: approve_fields_def Let_def)
qed

theorem approval_never_marks_reconsent_witness:
  "\<exists>app release. map_of (Apps demo3) ''app.demo'' = Some app \<and> map_of (a_Releases app) ''1.1.0'' = Some release
     \<and> (\<forall>release'. approve_release demo_hash app ''1.1.0'' release 40 = Inr release' \<longrightarrow>
          r_RequiresReconsent release' = r_RequiresReconsent release)"
proof -
  have f: "map_option (\<lambda>app. (gomap_all (\<lambda>v r. case r_PublishedAt r of None \<Rightarrow> True | Some p \<Rightarrow> p < 40) (a_Releases app),
      ''1.1.0'' \<in> set (map fst (a_Releases app)))) (map_of (Apps demo3) ''app.demo'') = Some (True, True)"
    by code_simp
  then obtain app where app: "map_of (Apps demo3) ''app.demo'' = Some app"
    and old: "gomap_all (\<lambda>v r. case r_PublishedAt r of None \<Rightarrow> True | Some p \<Rightarrow> p < 40) (a_Releases app)"
    and mem: "''1.1.0'' \<in> set (map fst (a_Releases app))" by auto
  obtain release where rel: "map_of (a_Releases app) ''1.1.0'' = Some release"
    using mem by (auto simp: fst_mem_map_of)
  have "\<forall>v r p. map_of (a_Releases app) v = Some r \<and> v \<noteq> ''1.1.0'' \<and> r_ReviewStatus r = statusApproved
           \<and> r_PublishedAt r = Some p \<longrightarrow> p < 40"
    using gomap_allD [OF old] by fastforce
  note h = approval_never_marks_reconsent [OF wf_appD [OF reachable_wf [OF demo_reachable(3)] app] rel this]
  show ?thesis using app rel h by blast
qed

section \<open>Status changes\<close>

definition review_statuses :: "string list" where
  "review_statuses = [statusSubmitted, statusUnderReview, statusNeedsChanges, statusApproved,
     statusRejected, statusRevoked, statusSuspended]"

lemma next_release_invalid:
  "nextStatus \<notin> set review_statuses \<Longrightarrow> next_release sha256 app version release nextStatus note now =
     Inl (ApiError 400 ''invalid_transition'' ''unsupported review transition'')"
  by (simp add: next_release_def review_statuses_def)

lemma next_release_valid:
  assumes "wf_release sha256 version release" and "nextStatus \<in> set review_statuses"
  shows "\<exists>release'. next_release sha256 app version release nextStatus note now = Inr release'"
proof (cases "nextStatus = statusApproved")
  case True
  have "validateManifestImmutability sha256 release = None"
    using assms(1) by (auto simp: validateManifestImmutability_def wf_release_def)
  then show ?thesis using True by (simp add: next_release_def approve_release_def Let_def)
next
  case False
  then show ?thesis using assms(2) by (auto simp: next_release_def review_statuses_def)
qed

text \<open>The outcome of a review request on every branch: a missing app or release is 404, a
  publisher that does not own the app is refused with 403, an unknown status with 400; every
  other request succeeds whatever status the release has had before (a revoked release can be
  submitted again), sets the requested status, and leaves every other release as it was.\<close>

theorem transition_outcome:
  assumes "wf_registry sha256 st"
  shows "(map_of (Apps st) appID = None \<longrightarrow>
            transitionMutate sha256 user admin appID version nextStatus note adminOnly now st
              = Inl (ApiError 404 ''not_found'' ''app not found''))
    \<and> (\<forall>app. map_of (Apps st) appID = Some app \<longrightarrow>
        (if \<not> adminOnly \<and> a_OwnerUserID app \<noteq> user \<and> \<not> admin
         then transitionMutate sha256 user admin appID version nextStatus note adminOnly now st
              = Inl (ApiError 403 ''forbidden'' ''publisher does not own app'')
         else case map_of (a_Releases app) version of
           None \<Rightarrow> transitionMutate sha256 user admin appID version nextStatus note adminOnly now st
              = Inl (ApiError 404 ''not_found'' ''release not found'')
         | Some release \<Rightarrow>
             if nextStatus \<notin> set review_statuses
             then transitionMutate sha256 user admin appID version nextStatus note adminOnly now st
               = Inl (ApiError 400 ''invalid_transition'' ''unsupported review transition'')
             else \<exists>st' audit release'.
               transitionMutate sha256 user admin appID version nextStatus note adminOnly now st = Inr (st', audit, ())
               \<and> lookup_release st' appID version = Some release' \<and> r_ReviewStatus release' = nextStatus
               \<and> same_content release release'
               \<and> (\<forall>a v. (a, v) \<noteq> (appID, version) \<longrightarrow> lookup_release st' a v = lookup_release st a v)))"
proof -
  have ok: "\<exists>st' audit release'.
       transitionMutate sha256 user admin appID version nextStatus note adminOnly now st = Inr (st', audit, ())
       \<and> lookup_release st' appID version = Some release' \<and> r_ReviewStatus release' = nextStatus
       \<and> same_content release release'
       \<and> (\<forall>a v. (a, v) \<noteq> (appID, version) \<longrightarrow> lookup_release st' a v = lookup_release st a v)"
    if app: "map_of (Apps st) appID = Some app" and auth: "adminOnly \<or> a_OwnerUserID app = user \<or> admin"
      and rel: "map_of (a_Releases app) version = Some release" and n: "nextStatus \<in> set review_statuses"
    for app release
  proof -
    obtain release' where r: "next_release sha256 app version release nextStatus note now = Inr release'"
      using next_release_valid [OF wf_releaseD [OF wf_appD [OF assms app] rel] n] by blast
    show ?thesis using app auth rel next_release_content [OF r]
      by (auto simp: transitionMutate_def r lookup_release_def alist_simps split: option.splits)
  qed
  show ?thesis
    using ok by (auto simp: transitionMutate_def next_release_invalid split: option.splits)
qed

theorem transition_outcome_witness:
  "transitionMutate demo_hash ''eve'' False ''app.none'' ''1.0.0'' statusSubmitted [] False 40 demo1
     = Inl (ApiError 404 ''not_found'' ''app not found'')"
proof -
  have "map_of (Apps demo1) ''app.none'' = None" by code_simp
  then show ?thesis
    using transition_outcome [OF reachable_wf [OF demo_reachable(1)]] by blast
qed

end
