(* ===== verification/RegistryStore.thy ===== *)
theory RegistryStore
  imports RegistrySteps
begin

text \<open>
  Where the apps registry keeps its state (\<open>ohmf/services/apps/registry.go\<close>): a JSON file, or
  the Postgres tables of \<open>migrations/000001_registry_postgres.up.sql\<close>.  \<open>mutateState\<close> loads the
  state, runs a handler's closure on it and writes everything back, in one critical section (a
  mutex) or one transaction under an advisory lock; both are one step here.

  Postgres itself is a parameter: \<open>pg_time\<close> is the precision of a \<open>timestamptz\<close> column,
  \<open>pg_json\<close> the value that decoding returns for a document written to a \<open>jsonb\<close> column.
\<close>

section \<open>Tables and rows\<close>

record pg =
  pg_time :: "time \<Rightarrow> time"
  pg_json :: "string \<Rightarrow> json option"

record appRow =
  ar_app_id :: string
  ar_name :: string
  ar_owner_user_id :: string
  ar_visibility :: string
  ar_summary :: string
  ar_created_at :: time
  ar_updated_at :: time
  ar_latest_version :: string
  ar_latest_approved_version :: string

record releaseRow =
  rr_app_id :: string
  rr_version :: string
  rr_manifest_json :: string
  rr_manifest_hash :: string
  rr_review_status :: string
  rr_review_note :: string
  rr_source_type :: string
  rr_visibility :: string
  rr_publisher_user_id :: string
  rr_supported_platforms :: string
  rr_entrypoint_origin :: string
  rr_preview_origin :: string
  rr_created_at :: time
  rr_submitted_at :: "time option"
  rr_reviewed_at :: "time option"
  rr_published_at :: "time option"
  rr_revoked_at :: "time option"
  rr_suspended_at :: "time option"
  rr_suspension_reason :: string
  rr_manifest_content_hash :: string
  rr_asset_set_hash :: string
  rr_immutable_at :: "time option"

record installRow =
  ir_user_id :: string
  ir_app_id :: string
  ir_installed_version :: string
  ir_auto_update :: bool
  ir_enabled :: bool
  ir_installed_at :: time
  ir_updated_at :: time

record auditRow =
  au_app_id :: string
  au_version :: "string option"
  au_actor_user_id :: string
  au_action :: string
  au_note :: string
  au_metadata_json :: string
  au_created_at :: time

record registryDb =
  t_apps :: "appRow list"
  t_releases :: "releaseRow list"
  t_installs :: "installRow list"
  t_audit :: "auditRow list"

definition emptyDb :: registryDb where
  "emptyDb = \<lparr>t_apps = [], t_releases = [], t_installs = [], t_audit = []\<rparr>"

section \<open>saveStateToTx\<close>

text \<open>The argument lists of the \<open>INSERT\<close> statements; a \<open>timestamptz\<close> keeps \<open>pg_time\<close> of a time.\<close>

definition app_row :: "pg \<Rightarrow> registeredApp \<Rightarrow> appRow" where
  "app_row d app =
     \<lparr>ar_app_id = a_AppID app, ar_name = a_Name app, ar_owner_user_id = a_OwnerUserID app,
      ar_visibility = a_Visibility app, ar_summary = a_Summary app,
      ar_created_at = pg_time d (a_CreatedAt app), ar_updated_at = pg_time d (a_UpdatedAt app),
      ar_latest_version = a_LatestVersion app, ar_latest_approved_version = a_LatestApproved app\<rparr>"

definition release_row :: "pg \<Rightarrow> string \<Rightarrow> appRelease \<Rightarrow> releaseRow" where
  "release_row d appID r =
     \<lparr>rr_app_id = appID, rr_version = r_Version r,
      rr_manifest_json = marshal (JObj (r_Manifest r)), rr_manifest_hash = r_ManifestHash r,
      rr_review_status = r_ReviewStatus r, rr_review_note = r_ReviewNote r,
      rr_source_type = r_SourceType r, rr_visibility = r_Visibility r,
      rr_publisher_user_id = r_PublisherUserID r,
      rr_supported_platforms = marshal (JArr (map JStr (r_SupportedPlatforms r))),
      rr_entrypoint_origin = r_EntrypointOrigin r, rr_preview_origin = r_PreviewOrigin r,
      rr_created_at = pg_time d (r_CreatedAt r),
      rr_submitted_at = map_option (pg_time d) (r_SubmittedAt r),
      rr_reviewed_at = map_option (pg_time d) (r_ReviewedAt r),
      rr_published_at = map_option (pg_time d) (r_PublishedAt r),
      rr_revoked_at = map_option (pg_time d) (r_RevokedAt r),
      rr_suspended_at = map_option (pg_time d) (r_SuspendedAt r),
      rr_suspension_reason = r_SuspensionReason r,
      rr_manifest_content_hash = r_ManifestContentHash r, rr_asset_set_hash = r_AssetSetHash r,
      rr_immutable_at = map_option (pg_time d) (r_ImmutableAt r)\<rparr>"

definition install_row :: "pg \<Rightarrow> string \<Rightarrow> installedAppRef \<Rightarrow> installRow" where
  "install_row d userID i =
     \<lparr>ir_user_id = userID, ir_app_id = i_AppID i, ir_installed_version = i_InstalledVersion i,
      ir_auto_update = i_AutoUpdate i, ir_enabled = i_Enabled i,
      ir_installed_at = pg_time d (i_InstalledAt i), ir_updated_at = pg_time d (i_UpdatedAt i)\<rparr>"

text \<open>
  An \<open>INSERT\<close> fails when it breaks a primary key or a foreign key of the schema, or (\<open>::jsonb\<close>)
  when the text is no document Postgres accepts.
\<close>

definition insert_app :: "appRow \<Rightarrow> registryDb \<Rightarrow> registryDb option" where
  "insert_app row db =
     (if ar_app_id row \<in> ar_app_id ` set (t_apps db) then None
      else Some (db\<lparr>t_apps := t_apps db @ [row]\<rparr>))"

definition insert_release :: "pg \<Rightarrow> releaseRow \<Rightarrow> registryDb \<Rightarrow> registryDb option" where
  "insert_release d row db =
     (if (rr_app_id row, rr_version row) \<in> (\<lambda>r. (rr_app_id r, rr_version r)) ` set (t_releases db)
         \<or> rr_app_id row \<notin> ar_app_id ` set (t_apps db)
         \<or> pg_json d (rr_manifest_json row) = None \<or> pg_json d (rr_supported_platforms row) = None
      then None else Some (db\<lparr>t_releases := t_releases db @ [row]\<rparr>))"

definition insert_install :: "installRow \<Rightarrow> registryDb \<Rightarrow> registryDb option" where
  "insert_install row db =
     (if (ir_user_id row, ir_app_id row) \<in> (\<lambda>r. (ir_user_id r, ir_app_id r)) ` set (t_installs db)
         \<or> ir_app_id row \<notin> ar_app_id ` set (t_apps db)
      then None else Some (db\<lparr>t_installs := t_installs db @ [row]\<rparr>))"

definition save_app :: "pg \<Rightarrow> string \<times> registeredApp \<Rightarrow> registryDb \<Rightarrow> registryDb option" where
  "save_app d entry db = (case entry of (_, app) \<Rightarrow>
     (case insert_app (app_row d app) db of
        None \<Rightarrow> None
      | Some db' \<Rightarrow> foldM (\<lambda>(_, release). insert_release d (release_row d (a_AppID app) release))
                     (by_key (a_Releases app)) db'))"

definition save_installs ::
  "pg \<Rightarrow> string \<times> installedAppRef gomap \<Rightarrow> registryDb \<Rightarrow> registryDb option" where
  "save_installs d entry db = (case entry of (userID, appInstalls) \<Rightarrow>
     foldM (\<lambda>(_, install). insert_install (install_row d userID install)) (by_key appInstalls) db)"

definition saveStateToTx :: "pg \<Rightarrow> registryState \<Rightarrow> registryDb \<Rightarrow> registryDb option" where
  "saveStateToTx d state db =
     (case foldM (save_app d) (by_key (Apps state))
             (db\<lparr>t_installs := [], t_releases := [], t_apps := []\<rparr>) of
        None \<Rightarrow> None
      | Some db' \<Rightarrow> foldM (save_installs d) (by_key (Installs state)) db')"

section \<open>appendAuditEntriesTx\<close>

definition zeroToNil :: "string \<Rightarrow> string option" where
  "zeroToNil value = (if trim_space value = [] then None else Some value)"

text \<open>\<open>now\<close> is the time used for an entry without one.\<close>

definition audit_row :: "pg \<Rightarrow> time \<Rightarrow> auditEntry \<Rightarrow> auditRow" where
  "audit_row d now e =
     \<lparr>au_app_id = e_AppID e, au_version = zeroToNil (e_Version e), au_actor_user_id = e_ActorUserID e,
      au_action = e_Action e, au_note = e_Note e,
      au_metadata_json = (if e_Metadata e = [] then ''{}'' else marshal (JObj (e_Metadata e))),
      au_created_at = pg_time d (if e_CreatedAt e = 0 then now else e_CreatedAt e)\<rparr>"

definition insert_audit :: "pg \<Rightarrow> time \<Rightarrow> auditEntry \<Rightarrow> registryDb \<Rightarrow> registryDb option" where
  "insert_audit d now e db =
     (if pg_json d (au_metadata_json (audit_row d now e)) = None then None
      else Some (db\<lparr>t_audit := t_audit db @ [audit_row d now e]\<rparr>))"

definition appendAuditEntriesTx ::
  "pg \<Rightarrow> time \<Rightarrow> auditEntry list \<Rightarrow> registryDb \<Rightarrow> registryDb option" where
  "appendAuditEntriesTx d now entries db = foldM (insert_audit d now) entries db"

section \<open>loadStateFromQuerier\<close>

definition load_app :: "appRow \<Rightarrow> registeredApp gomap \<Rightarrow> registeredApp gomap" where
  "load_app row apps = AList.update (ar_app_id row)
     \<lparr>a_AppID = ar_app_id row, a_Name = ar_name row, a_OwnerUserID = ar_owner_user_id row,
      a_Visibility = ar_visibility row, a_Summary = ar_summary row, a_CreatedAt = ar_created_at row,
      a_UpdatedAt = ar_updated_at row, a_LatestVersion = ar_latest_version row,
      a_LatestApproved = ar_latest_approved_version row, a_Releases = []\<rparr> apps"

text \<open>\<open>json.Unmarshal\<close> into a \<open>map[string]any\<close> and into a \<open>[]string\<close>.\<close>

definition json_object :: "json option \<Rightarrow> json gomap option" where
  "json_object v = (case v of Some (JObj m) \<Rightarrow> Some m | Some JNull \<Rightarrow> Some [] | _ \<Rightarrow> None)"

fun json_text :: "json \<Rightarrow> string option" where
  "json_text (JStr s) = Some s"
| "json_text JNull = Some []"
| "json_text _ = None"

fun json_texts :: "json list \<Rightarrow> string list option" where
  "json_texts [] = Some []"
| "json_texts (x # xs) =
     (case (json_text x, json_texts xs) of (Some s, Some ss) \<Rightarrow> Some (s # ss) | _ \<Rightarrow> None)"

definition json_strings :: "json option \<Rightarrow> string list option" where
  "json_strings v = (case v of Some (JArr xs) \<Rightarrow> json_texts xs | Some JNull \<Rightarrow> Some [] | _ \<Rightarrow> None)"

definition release_of_row :: "releaseRow \<Rightarrow> manifest \<Rightarrow> string list \<Rightarrow> appRelease" where
  "release_of_row row man platforms =
     \<lparr>r_Version = rr_version row, r_Manifest = man, r_ManifestHash = rr_manifest_hash row,
      r_ReviewStatus = rr_review_status row, r_ReviewNote = rr_review_note row,
      r_SourceType = rr_source_type row, r_Visibility = rr_visibility row,
      r_PublisherUserID = rr_publisher_user_id row, r_SupportedPlatforms = platforms,
      r_EntrypointOrigin = rr_entrypoint_origin row, r_PreviewOrigin = rr_preview_origin row,
      r_CreatedAt = rr_created_at row, r_SubmittedAt = rr_submitted_at row,
      r_ReviewedAt = rr_reviewed_at row, r_PublishedAt = rr_published_at row,
      r_RevokedAt = rr_revoked_at row, r_SuspendedAt = rr_suspended_at row,
      r_SuspensionReason = rr_suspension_reason row,
      r_ManifestContentHash = rr_manifest_content_hash row, r_AssetSetHash = rr_asset_set_hash row,
      r_ImmutableAt = rr_immutable_at row, r_RequiresReconsent = False, r_PreviousPermissions = []\<rparr>"

definition load_release ::
  "pg \<Rightarrow> releaseRow \<Rightarrow> registeredApp gomap \<Rightarrow> registeredApp gomap option" where
  "load_release d row apps =
     (case (json_object (pg_json d (rr_manifest_json row)),
            json_strings (pg_json d (rr_supported_platforms row))) of
        (Some man, Some platforms) \<Rightarrow>
          Some (case map_of apps (rr_app_id row) of
                  None \<Rightarrow> apps
                | Some app \<Rightarrow> AList.update (rr_app_id row)
                    (app\<lparr>a_Releases := AList.update (rr_version row) (release_of_row row man platforms)
                       (a_Releases app)\<rparr>) apps)
      | _ \<Rightarrow> None)"

definition load_install ::
  "installRow \<Rightarrow> installedAppRef gomap gomap \<Rightarrow> installedAppRef gomap gomap" where
  "load_install row installs = AList.update (ir_user_id row)
     (AList.update (ir_app_id row)
        \<lparr>i_AppID = ir_app_id row, i_InstalledVersion = ir_installed_version row,
         i_AutoUpdate = ir_auto_update row, i_Enabled = ir_enabled row,
         i_InstalledAt = ir_installed_at row, i_UpdatedAt = ir_updated_at row\<rparr>
        (case map_of installs (ir_user_id row) of None \<Rightarrow> [] | Some m \<Rightarrow> m)) installs"

definition loadStateFromQuerier :: "pg \<Rightarrow> registryDb \<Rightarrow> registryState option" where
  "loadStateFromQuerier d db =
     (case foldM (load_release d) (sort_key rr_app_id (sort_key rr_version (t_releases db)))
             (fold load_app (sort_key ar_app_id (t_apps db)) []) of
        None \<Rightarrow> None
      | Some apps \<Rightarrow> Some \<lparr>Apps = map_vals refreshLatestPointers apps,
          Installs = fold load_install (sort_key ir_user_id (sort_key ir_app_id (t_installs db))) []\<rparr>)"

section \<open>The registry file\<close>

text \<open>The file does not exist, does not decode, or holds an encoded state.  Every field of the state
  has a JSON tag, so decoding an encoded state gives the state back.\<close>

datatype registryFile = NoFile | Undecodable | Encoded registryState

definition loadStateFileLocked :: "registryFile \<Rightarrow> registryState option" where
  "loadStateFileLocked f =
     (case f of
        NoFile \<Rightarrow> Some emptyRegistryState
      | Undecodable \<Rightarrow> None
      | Encoded st \<Rightarrow> Some (st\<lparr>Apps := map_vals refreshLatestPointers (Apps st)\<rparr>))"

definition saveStateFileLocked :: "registryState \<Rightarrow> registryFile \<Rightarrow> registryFile option" where
  "saveStateFileLocked state f = Some (Encoded state)"

section \<open>mutateState\<close>

text \<open>The error of a mutation: the closure's, or one of the store's.\<close>

datatype mutateError = Rejected apiError | StoreError

text \<open>\<open>mutateState\<close> over a way to load and to save.  The store stays as it was when the mutation
  fails: the file is replaced by a rename, the transaction is rolled back.\<close>

definition mutateState ::
  "('s \<Rightarrow> registryState option) \<Rightarrow> (registryState \<Rightarrow> auditEntry list \<Rightarrow> 's \<Rightarrow> 's option)
   \<Rightarrow> 'x mutation \<Rightarrow> 's \<Rightarrow> (mutateError + (registryState \<times> 'x)) \<times> 's" where
  "mutateState load save mutate s =
     (case load s of
        None \<Rightarrow> (Inl StoreError, s)
      | Some state \<Rightarrow>
          (case mutate state of
             Inl e \<Rightarrow> (Inl (Rejected e), s)
           | Inr (state', audit, x) \<Rightarrow>
               (case save state' audit s of
                  None \<Rightarrow> (Inl StoreError, s)
                | Some s' \<Rightarrow> (Inr (state', x), s'))))"

text \<open>Its two branches: without a pool the audit entries are dropped, with one they are written in
  the same transaction.\<close>

definition mutateStateFile ::
  "'x mutation \<Rightarrow> registryFile \<Rightarrow> (mutateError + (registryState \<times> 'x)) \<times> registryFile" where
  "mutateStateFile = mutateState loadStateFileLocked (\<lambda>state audit. saveStateFileLocked state)"

definition saveDb :: "pg \<Rightarrow> time \<Rightarrow> registryState \<Rightarrow> auditEntry list \<Rightarrow> registryDb \<Rightarrow> registryDb option" where
  "saveDb d now state audit db =
     Option.bind (saveStateToTx d state db) (appendAuditEntriesTx d now audit)"

definition mutateStateDb ::
  "pg \<Rightarrow> time \<Rightarrow> 'x mutation \<Rightarrow> registryDb \<Rightarrow> (mutateError + (registryState \<times> 'x)) \<times> registryDb" where
  "mutateStateDb d now = mutateState (loadStateFromQuerier d) (saveDb d now)"

end
