(* ===== verification/RegistryPersist.thy ===== *)
theory RegistryPersist
  imports RegistryStore
begin

text \<open>
  Persistence of the apps registry: writing a well-formed state to the tables succeeds, reading it
  back gives the state up to what the schema cannot hold, and \<open>mutateState\<close> over either store
  behaves like the closure on the loaded state.
\<close>

section \<open>Rows grouped by key\<close>

lemma sort_by_two_keys_id:
  assumes "sorted (map f xs)" and "\<And>k. sorted (map g (filter (\<lambda>x. f x = k) xs))"
  shows "sort_key f (sort_key g xs) = xs"
proof (rule properties_for_sort_key)
  show "mset xs = mset (sort_key g xs)" by simp
  show "sorted (map f xs)" by (rule assms(1))
  fix x assume "x \<in> set xs"
  have "filter (\<lambda>y. f y = f x) (sort_key g xs) = sort_key g (filter (\<lambda>y. f y = f x) xs)"
    by (simp add: filter_sort)
  then have "filter (\<lambda>y. f y = f x) (sort_key g xs) = filter (\<lambda>y. f y = f x) xs"
    by (simp add: sort_key_id_if_sorted [OF assms(2)])
  then show "filter (\<lambda>y. f x = f y) xs = filter (\<lambda>y. f x = f y) (sort_key g xs)"
    by (simp add: eq_commute)
qed

definition grouped :: "(string \<Rightarrow> string \<times> 'v \<Rightarrow> 'r) \<Rightarrow> (string \<times> (string \<times> 'v) list) list \<Rightarrow> 'r list" where
  "grouped h G = concat (map (\<lambda>(k, m). map (h k) m) G)"

lemma grouped_simps [simp]:
  "grouped h [] = []" "grouped h ((k, m) # G) = map (h k) m @ grouped h G"
  by (simp_all add: grouped_def)

definition row_keys :: "('r \<Rightarrow> string) \<Rightarrow> ('r \<Rightarrow> string) \<Rightarrow> (string \<Rightarrow> string \<times> 'v \<Rightarrow> 'r)
    \<Rightarrow> (string \<times> (string \<times> 'v) list) list \<Rightarrow> bool" where
  "row_keys f g h G \<longleftrightarrow> (\<forall>(k, m) \<in> set G. \<forall>e \<in> set m. f (h k e) = k \<and> g (h k e) = fst e)"

lemma grouped_key: "row_keys f g h G \<Longrightarrow> r \<in> set (grouped h G) \<Longrightarrow> f r \<in> fst ` set G"
  by (force simp: row_keys_def grouped_def)

lemma grouped_sorted:
  assumes "row_keys f g h G" and "sorted (map fst G)"
  shows "sorted (map f (grouped h G))"
  using assms
proof (induction G)
  case (Cons km G)
  obtain k m where km: "km = (k, m)" by (cases km)
  have G: "row_keys f g h G" using Cons.prems(1) by (simp add: row_keys_def)
  have m: "map f (map (h k) m) = replicate (length m) k"
    using Cons.prems(1) by (auto simp: row_keys_def km map_replicate_const [symmetric] comp_def)
  have "k \<le> f r" if "r \<in> set (grouped h G)" for r
    using grouped_key [OF G that] Cons.prems(2) by (auto simp: km)
  then show ?case using Cons.IH [OF G] Cons.prems(2)
    by (simp add: km sorted_append m [simplified] sorted_replicate)
qed simp

lemma grouped_filter:
  assumes "row_keys f g h G" and "distinct (map fst G)"
  shows "filter (\<lambda>r. f r = k) (grouped h G) =
    (case map_of G k of None \<Rightarrow> [] | Some m \<Rightarrow> map (h k) m)"
  using assms
proof (induction G)
  case (Cons km G)
  obtain k' m where km: "km = (k', m)" by (cases km)
  have G: "row_keys f g h G" using Cons.prems(1) by (simp add: row_keys_def)
  have m: "filter (\<lambda>r. f r = k) (map (h k') m) = (if k' = k then map (h k') m else [])"
    using Cons.prems(1) by (auto simp: row_keys_def km filter_empty_conv intro!: filter_True)
  have "map_of G k = None" if "k' = k" using Cons.prems(2) that by (auto simp: km map_of_eq_None_iff)
  then show ?case using Cons.IH [OF G] Cons.prems(2) by (auto simp: km m)
qed simp

lemma grouped_sort_id:
  assumes "row_keys f g h G" and "sorted (map fst G)" and "distinct (map fst G)"
    and "\<And>k m. (k, m) \<in> set G \<Longrightarrow> sorted (map fst m)"
  shows "sort_key f (sort_key g (grouped h G)) = grouped h G"
proof (rule sort_by_two_keys_id)
  show "sorted (map f (grouped h G))" by (rule grouped_sorted [OF assms(1,2)])
  fix k
  show "sorted (map g (filter (\<lambda>r. f r = k) (grouped h G)))"
  proof (cases "map_of G k")
    case None
    then show ?thesis by (simp add: grouped_filter [OF assms(1,3)])
  next
    case (Some m)
    then have km: "(k, m) \<in> set G" by (rule map_of_SomeD)
    have "map g (map (h k) m) = map fst m"
      using assms(1) km by (force simp: row_keys_def)
    then show ?thesis using assms(4) [OF km]
      by (simp add: grouped_filter [OF assms(1,3)] Some del: map_map)
  qed
qed

lemma fold_update_new:
  "distinct (map f xs) \<Longrightarrow> f ` set xs \<inter> fst ` set acc = {} \<Longrightarrow>
   fold (\<lambda>x m. AList.update (f x) (g x) m) xs acc = acc @ map (\<lambda>x. (f x, g x)) xs"
  by (induction xs arbitrary: acc) (auto simp: update_new)

section \<open>What a state becomes in the tables\<close>

definition normal_release :: "pg \<Rightarrow> appRelease \<Rightarrow> appRelease" where
  "normal_release d r = r\<lparr>r_CreatedAt := pg_time d (r_CreatedAt r),
     r_SubmittedAt := map_option (pg_time d) (r_SubmittedAt r),
     r_ReviewedAt := map_option (pg_time d) (r_ReviewedAt r),
     r_PublishedAt := map_option (pg_time d) (r_PublishedAt r),
     r_RevokedAt := map_option (pg_time d) (r_RevokedAt r),
     r_SuspendedAt := map_option (pg_time d) (r_SuspendedAt r),
     r_ImmutableAt := map_option (pg_time d) (r_ImmutableAt r),
     r_RequiresReconsent := False, r_PreviousPermissions := []\<rparr>"

definition normal_app :: "pg \<Rightarrow> registeredApp \<Rightarrow> registeredApp" where
  "normal_app d app = app\<lparr>a_CreatedAt := pg_time d (a_CreatedAt app),
     a_UpdatedAt := pg_time d (a_UpdatedAt app),
     a_Releases := map_vals (normal_release d) (by_key (a_Releases app))\<rparr>"

definition normal_install :: "pg \<Rightarrow> installedAppRef \<Rightarrow> installedAppRef" where
  "normal_install d i = i\<lparr>i_InstalledAt := pg_time d (i_InstalledAt i),
     i_UpdatedAt := pg_time d (i_UpdatedAt i)\<rparr>"

definition some_installs :: "registryState \<Rightarrow> installedAppRef gomap gomap" where
  "some_installs st = filter (\<lambda>(u, m). m \<noteq> []) (by_key (Installs st))"

definition normal_state :: "pg \<Rightarrow> registryState \<Rightarrow> registryState" where
  "normal_state d st = \<lparr>Apps = map_vals (normal_app d) (by_key (Apps st)),
     Installs = map_vals (\<lambda>m. map_vals (normal_install d) (by_key m)) (some_installs st)\<rparr>"

text \<open>Postgres and the JSON decoder keep the documents of the state's releases.\<close>

definition storable_release :: "pg \<Rightarrow> appRelease \<Rightarrow> bool" where
  "storable_release d r \<longleftrightarrow> pg_json d (marshal (JObj (r_Manifest r))) = Some (JObj (r_Manifest r))
     \<and> pg_json d (marshal (JArr (map JStr (r_SupportedPlatforms r)))) =
         Some (JArr (map JStr (r_SupportedPlatforms r)))"

definition storable :: "pg \<Rightarrow> registryState \<Rightarrow> bool" where
  "storable d st \<longleftrightarrow> gomap_all (\<lambda>_ app. gomap_all (\<lambda>_. storable_release d) (a_Releases app)) (Apps st)"

definition app_groups :: "registryState \<Rightarrow> (string \<times> appRelease gomap) list" where
  "app_groups st = map (\<lambda>(k, app). (k, by_key (a_Releases app))) (by_key (Apps st))"

definition install_groups :: "registryState \<Rightarrow> (string \<times> installedAppRef gomap) list" where
  "install_groups st = map (\<lambda>(u, m). (u, by_key m)) (by_key (Installs st))"

definition saved_db :: "pg \<Rightarrow> registryState \<Rightarrow> registryDb \<Rightarrow> registryDb" where
  "saved_db d st db = db\<lparr>t_apps := map (\<lambda>(k, app). app_row d app) (by_key (Apps st)),
     t_releases := grouped (\<lambda>k (v, r). release_row d k r) (app_groups st),
     t_installs := grouped (\<lambda>u (a, i). install_row d u i) (install_groups st)\<rparr>"

lemma row_sel [simp]:
  "ar_app_id (app_row d app) = a_AppID app"
  "rr_app_id (release_row d k r) = k" "rr_version (release_row d k r) = r_Version r"
  "ir_user_id (install_row d u i) = u" "ir_app_id (install_row d u i) = i_AppID i"
  by (simp_all add: app_row_def release_row_def install_row_def)

lemma db_eqI: "t_apps a = t_apps b \<Longrightarrow> t_releases a = t_releases b \<Longrightarrow> t_installs a = t_installs b
  \<Longrightarrow> t_audit a = t_audit b \<Longrightarrow> (a :: registryDb) = b"
  by simp

section \<open>Saving succeeds\<close>

lemma save_releases:
  assumes "distinct (map fst rels)" and "gomap_all (\<lambda>v r. r_Version r = v \<and> storable_release d r) rels"
    and "k \<in> ar_app_id ` set (t_apps db)"
    and "\<And>v. v \<in> fst ` set rels \<Longrightarrow> (k, v) \<notin> (\<lambda>r. (rr_app_id r, rr_version r)) ` set (t_releases db)"
  shows "foldM (\<lambda>(_, release). insert_release d (release_row d k release)) rels db =
    Some (db\<lparr>t_releases := t_releases db @ map (\<lambda>(v, r). release_row d k r) rels\<rparr>)"
  using assms
proof (induction rels arbitrary: db)
  case (Cons e rels)
  obtain v r where e: "e = (v, r)" by (cases e)
  let ?db = "db\<lparr>t_releases := t_releases db @ [release_row d k r]\<rparr>"
  have r: "r_Version r = v" "storable_release d r" using Cons.prems(2) by (auto simp: e)
  have 1: "insert_release d (release_row d k r) db = Some ?db"
    using Cons.prems(3,4) r
    by (auto simp: e insert_release_def storable_release_def release_row_def)
  have 2: "foldM (\<lambda>(_, release). insert_release d (release_row d k release)) rels ?db =
    Some (?db\<lparr>t_releases := t_releases ?db @ map (\<lambda>(v, r). release_row d k r) rels\<rparr>)"
  proof (rule Cons.IH)
    fix w assume w: "w \<in> fst ` set rels"
    then have "w \<noteq> v" using Cons.prems(1) by (auto simp: e)
    then show "(k, w) \<notin> (\<lambda>r. (rr_app_id r, rr_version r)) ` set (t_releases ?db)"
      using Cons.prems(4) [of w] w r by (auto simp: e)
  qed (use Cons.prems in \<open>auto simp: e\<close>)
  show ?case unfolding e by (simp add: 1 2)
qed simp

lemma save_apps:
  assumes "distinct (map fst apps)"
    and "gomap_all (\<lambda>k app. a_AppID app = k \<and> distinct (map fst (a_Releases app))
           \<and> gomap_all (\<lambda>v r. r_Version r = v \<and> storable_release d r) (a_Releases app)) apps"
    and "fst ` set apps \<inter> ar_app_id ` set (t_apps db) = {}"
    and "rr_app_id ` set (t_releases db) \<subseteq> ar_app_id ` set (t_apps db)"
  shows "foldM (save_app d) apps db = Some (db\<lparr>
     t_apps := t_apps db @ map (\<lambda>(k, app). app_row d app) apps,
     t_releases := t_releases db @ grouped (\<lambda>k (v, r). release_row d k r)
        (map (\<lambda>(k, app). (k, by_key (a_Releases app))) apps)\<rparr>)"
  using assms
proof (induction apps arbitrary: db)
  case (Cons e apps)
  obtain k app where e: "e = (k, app)" by (cases e)
  let ?db1 = "db\<lparr>t_apps := t_apps db @ [app_row d app]\<rparr>"
  let ?db2 = "?db1\<lparr>t_releases := t_releases db @ map (\<lambda>(v, r). release_row d k r) (by_key (a_Releases app))\<rparr>"
  have app: "a_AppID app = k" "distinct (map fst (a_Releases app))"
    "gomap_all (\<lambda>v r. r_Version r = v \<and> storable_release d r) (a_Releases app)"
    using Cons.prems(2) by (auto simp: e)
  have 1: "insert_app (app_row d app) db = Some ?db1"
    using Cons.prems(3) app by (auto simp: insert_app_def e)
  have 2: "foldM (\<lambda>(_, release). insert_release d (release_row d k release)) (by_key (a_Releases app)) ?db1 =
      Some (?db1\<lparr>t_releases := t_releases ?db1 @ map (\<lambda>(v, r). release_row d k r) (by_key (a_Releases app))\<rparr>)"
    by (rule save_releases) (use app Cons.prems(3,4) in \<open>auto simp: e\<close>)
  have s: "save_app d e db = Some ?db2"
    using 1 2 app(1) by (simp add: save_app_def e)
  have 3: "foldM (save_app d) apps ?db2 = Some (?db2\<lparr>
     t_apps := t_apps ?db2 @ map (\<lambda>(k, app). app_row d app) apps,
     t_releases := t_releases ?db2 @ grouped (\<lambda>k (v, r). release_row d k r)
        (map (\<lambda>(k, app). (k, by_key (a_Releases app))) apps)\<rparr>)"
    by (rule Cons.IH) (use Cons.prems app in \<open>auto simp: e\<close>)
  show ?case by (simp only: foldM.simps s option.case 3) (simp add: e)
qed simp

lemma save_user_installs:
  assumes "distinct (map fst m)" and "gomap_all (\<lambda>a i. i_AppID i = a \<and> a \<in> ar_app_id ` set (t_apps db)) m"
    and "\<And>a. a \<in> fst ` set m \<Longrightarrow> (u, a) \<notin> (\<lambda>r. (ir_user_id r, ir_app_id r)) ` set (t_installs db)"
  shows "foldM (\<lambda>(_, install). insert_install (install_row d u install)) m db =
    Some (db\<lparr>t_installs := t_installs db @ map (\<lambda>(a, i). install_row d u i) m\<rparr>)"
  using assms
proof (induction m arbitrary: db)
  case (Cons e m)
  obtain a i where e: "e = (a, i)" by (cases e)
  let ?db = "db\<lparr>t_installs := t_installs db @ [install_row d u i]\<rparr>"
  have 1: "insert_install (install_row d u i) db = Some ?db"
    using Cons.prems(2,3) by (auto simp: e insert_install_def)
  have 2: "foldM (\<lambda>(_, install). insert_install (install_row d u install)) m ?db =
    Some (?db\<lparr>t_installs := t_installs ?db @ map (\<lambda>(a, i). install_row d u i) m\<rparr>)"
  proof (rule Cons.IH)
    fix b assume b: "b \<in> fst ` set m"
    then have "b \<noteq> a" using Cons.prems(1) by (auto simp: e)
    then show "(u, b) \<notin> (\<lambda>r. (ir_user_id r, ir_app_id r)) ` set (t_installs ?db)"
      using Cons.prems(2) Cons.prems(3) [of b] b by (auto simp: e)
  qed (use Cons.prems in \<open>auto simp: e\<close>)
  show ?case unfolding e by (simp add: 1 2)
qed simp

lemma save_all_installs:
  assumes "distinct (map fst ins)"
    and "gomap_all (\<lambda>u m. distinct (map fst m)
           \<and> gomap_all (\<lambda>a i. i_AppID i = a \<and> a \<in> ar_app_id ` set (t_apps db)) m) ins"
    and "fst ` set ins \<inter> ir_user_id ` set (t_installs db) = {}"
  shows "foldM (save_installs d) ins db = Some (db\<lparr>t_installs := t_installs db @
     grouped (\<lambda>u (a, i). install_row d u i) (map (\<lambda>(u, m). (u, by_key m)) ins)\<rparr>)"
  using assms
proof (induction ins arbitrary: db)
  case (Cons e ins)
  obtain u m where e: "e = (u, m)" by (cases e)
  let ?db = "db\<lparr>t_installs := t_installs db @ map (\<lambda>(a, i). install_row d u i) (by_key m)\<rparr>"
  have new: "(u, b) \<notin> set ins" for b using Cons.prems(1) by (force simp: e)
  have s: "save_installs d e db = Some ?db"
    unfolding save_installs_def e prod.case
    by (rule save_user_installs) (use Cons.prems in \<open>auto simp: e\<close>)
  have 2: "foldM (save_installs d) ins ?db = Some (?db\<lparr>t_installs := t_installs ?db @
     grouped (\<lambda>u (a, i). install_row d u i) (map (\<lambda>(u, m). (u, by_key m)) ins)\<rparr>)"
    by (rule Cons.IH) (use Cons.prems new in \<open>auto simp: e\<close>)
  show ?case by (simp only: foldM.simps s option.case 2) (simp add: e)
qed simp

lemma gomap_all_conj: "gomap_all P m \<Longrightarrow> gomap_all Q m \<Longrightarrow> gomap_all (\<lambda>k v. P k v \<and> Q k v) m"
  by (auto simp: gomap_all_set)

lemma wf_app_releases_storable:
  assumes "wf_app sha256 k app \<and> gomap_all (\<lambda>_. storable_release d) (a_Releases app)"
  shows "gomap_all (\<lambda>v r. r_Version r = v \<and> storable_release d r) (a_Releases app)"
proof -
  have "gomap_all (wf_release sha256) (a_Releases app)" using assms by (simp add: wf_app_def)
  with assms have "gomap_all (\<lambda>v r. wf_release sha256 v r \<and> storable_release d r) (a_Releases app)"
    by (intro gomap_all_conj) simp_all
  then show ?thesis by (rule gomap_all_mono) (simp add: wf_release_def)
qed

lemma wf_registry_and:
  "wf_registry sha256 st \<Longrightarrow> gomap_all Q (Apps st) \<Longrightarrow> gomap_all (\<lambda>k app. wf_app sha256 k app \<and> Q k app) (Apps st)"
  by (simp add: wf_registry_def gomap_all_conj)

lemma saveStateToTx_eq:
  assumes wf: "wf_registry sha256 st" and ok: "storable d st"
  shows "saveStateToTx d st db = Some (saved_db d st db)"
proof -
  let ?db0 = "db\<lparr>t_installs := [], t_releases := [], t_apps := []\<rparr>"
  have apps: "gomap_all (\<lambda>k app. a_AppID app = k \<and> distinct (map fst (a_Releases app))
           \<and> gomap_all (\<lambda>v r. r_Version r = v \<and> storable_release d r) (a_Releases app)) (by_key (Apps st))"
    unfolding gomap_all_by_key using wf_registry_and [OF wf ok [unfolded storable_def]]
    by (rule gomap_all_mono)
       (rule conjI, simp add: wf_app_def, rule conjI, simp add: wf_app_def,
        rule wf_app_releases_storable)
  let ?db1 = "?db0\<lparr>t_apps := map (\<lambda>(k, app). app_row d app) (by_key (Apps st)),
     t_releases := grouped (\<lambda>k (v, r). release_row d k r) (app_groups st)\<rparr>"
  have 1: "foldM (save_app d) (by_key (Apps st)) ?db0 = Some ?db1"
    using save_apps [OF _ apps, of ?db0] wf by (simp add: wf_registry_def app_groups_def)
  have ids: "ar_app_id ` set (t_apps ?db1) = fst ` set (Apps st)"
  proof -
    have "map ar_app_id (t_apps ?db1) = map fst (by_key (Apps st))"
      using apps by (auto simp: gomap_all_set)
    then have "set (map ar_app_id (t_apps ?db1)) = set (map fst (by_key (Apps st)))" by (rule arg_cong)
    then show ?thesis by (simp only: set_map by_key_set)
  qed
  have ins: "gomap_all (\<lambda>u m. distinct (map fst m)
           \<and> gomap_all (\<lambda>a i. i_AppID i = a \<and> a \<in> ar_app_id ` set (t_apps ?db1)) m) (by_key (Installs st))"
    unfolding ids gomap_all_by_key using wf
    by (auto simp: wf_registry_def wf_installs_def fst_mem_map_of split: option.splits
        elim!: gomap_all_mono)
  have A: "foldM (save_installs d) (by_key (Installs st)) ?db1 = Some (?db1\<lparr>t_installs := t_installs ?db1 @
     grouped (\<lambda>u (a, i). install_row d u i) (map (\<lambda>(u, m). (u, by_key m)) (by_key (Installs st)))\<rparr>)"
    by (rule save_all_installs [OF _ ins]) (use wf in \<open>simp_all add: wf_registry_def\<close>)
  have B: "(?db1\<lparr>t_installs := t_installs ?db1 @
     grouped (\<lambda>u (a, i). install_row d u i) (map (\<lambda>(u, m). (u, by_key m)) (by_key (Installs st)))\<rparr>) = saved_db d st db"
    by (rule db_eqI) (simp_all add: install_groups_def saved_db_def)
  have 2: "foldM (save_installs d) (by_key (Installs st)) ?db1 = Some (saved_db d st db)"
    by (rule trans [OF A arg_cong [OF B, of Some]])
  show ?thesis unfolding saveStateToTx_def 1 option.case 2 ..
qed

section \<open>Loading what was saved\<close>

lemma json_texts_strings [simp]: "json_texts (map JStr ss) = Some ss"
  by (induction ss) simp_all

lemma release_of_row_normal:
  "release_of_row (release_row d k r) (r_Manifest r) (r_SupportedPlatforms r) = normal_release d r"
  by (simp add: release_of_row_def release_row_def normal_release_def)

lemma load_release_row:
  assumes "storable_release d r" and "r_Version r = v" and "k \<notin> fst ` set xs"
  shows "load_release d (release_row d k r) (xs @ (k, app) # ys) =
    Some (xs @ (k, app\<lparr>a_Releases := AList.update v (normal_release d r) (a_Releases app)\<rparr>) # ys)"
proof -
  have row: "rr_manifest_json (release_row d k r) = marshal (JObj (r_Manifest r))"
    "rr_supported_platforms (release_row d k r) = marshal (JArr (map JStr (r_SupportedPlatforms r)))"
    by (simp_all add: release_row_def)
  show ?thesis
    using assms unfolding load_release_def row storable_release_def
    by (simp add: json_object_def json_strings_def release_of_row_normal update_mid map_of_mid
        del: map_of_append)
qed

lemma load_release_group:
  assumes "gomap_all (\<lambda>v r. r_Version r = v \<and> storable_release d r) rels"
    and "distinct (map fst rels)" and "fst ` set rels \<inter> fst ` set (a_Releases app) = {}"
    and "k \<notin> fst ` set xs"
  shows "foldM (load_release d) (map (\<lambda>(v, r). release_row d k r) rels) (xs @ (k, app) # ys) =
    Some (xs @ (k, app\<lparr>a_Releases := a_Releases app @ map_vals (normal_release d) rels\<rparr>) # ys)"
  using assms
proof (induction rels arbitrary: app)
  case (Cons e rels)
  obtain v r where e: "e = (v, r)" by (cases e)
  let ?app = "app\<lparr>a_Releases := a_Releases app @ [(v, normal_release d r)]\<rparr>"
  have "load_release d (release_row d k r) (xs @ (k, app) # ys) = Some (xs @ (k, ?app) # ys)"
    using load_release_row [of d r v k xs app ys] Cons.prems by (simp add: e update_new)
  moreover have "foldM (load_release d) (map (\<lambda>(v, r). release_row d k r) rels) (xs @ (k, ?app) # ys) =
    Some (xs @ (k, ?app\<lparr>a_Releases := a_Releases ?app @ map_vals (normal_release d) rels\<rparr>) # ys)"
    by (rule Cons.IH) (use Cons.prems in \<open>auto simp: e\<close>)
  ultimately show ?case by (simp add: e)
qed simp

definition bare_app :: "pg \<Rightarrow> registeredApp \<Rightarrow> registeredApp" where
  "bare_app d app = (normal_app d app)\<lparr>a_Releases := []\<rparr>"

lemma load_release_groups:
  assumes "gomap_all (\<lambda>k app. distinct (map fst (a_Releases app))
      \<and> gomap_all (\<lambda>v r. r_Version r = v \<and> storable_release d r) (a_Releases app)) apps"
    and "distinct (map fst apps)" and "fst ` set apps \<inter> fst ` set xs = {}"
  shows "foldM (load_release d) (grouped (\<lambda>k (v, r). release_row d k r)
       (map (\<lambda>(k, app). (k, by_key (a_Releases app))) apps)) (xs @ map_vals (bare_app d) apps) =
    Some (xs @ map_vals (normal_app d) apps)"
  using assms
proof (induction apps arbitrary: xs)
  case (Cons e apps)
  obtain k app where e: "e = (k, app)" by (cases e)
  have full: "bare_app d app\<lparr>a_Releases := map_vals (normal_release d) (by_key (a_Releases app))\<rparr> = normal_app d app"
    by (simp add: bare_app_def normal_app_def)
  have g: "foldM (load_release d) (map (\<lambda>(v, r). release_row d k r) (by_key (a_Releases app)))
      (xs @ (k, bare_app d app) # map_vals (bare_app d) apps) =
     Some (xs @ (k, normal_app d app) # map_vals (bare_app d) apps)"
    using load_release_group [of d "by_key (a_Releases app)" "bare_app d app" k xs] Cons.prems full
    by (simp add: e bare_app_def)
  have "foldM (load_release d) (grouped (\<lambda>k (v, r). release_row d k r)
       (map (\<lambda>(k, app). (k, by_key (a_Releases app))) apps))
      ((xs @ [(k, normal_app d app)]) @ map_vals (bare_app d) apps) =
    Some ((xs @ [(k, normal_app d app)]) @ map_vals (normal_app d) apps)"
    by (rule Cons.IH) (use Cons.prems in \<open>auto simp: e\<close>)
  then show ?case by (simp add: e g)
qed simp

lemma load_apps:
  assumes "distinct (map fst apps)" and "gomap_all (\<lambda>k app. a_AppID app = k) apps"
  shows "fold load_app (map (\<lambda>(k, app). app_row d app) apps) [] = map_vals (bare_app d) apps"
proof -
  have ids: "map ar_app_id (map (\<lambda>(k, app). app_row d app) apps) = map fst apps"
    using assms(2) by (auto simp: gomap_all_set)
  have "fold load_app (map (\<lambda>(k, app). app_row d app) apps) [] =
     [] @ map (\<lambda>row. (ar_app_id row, \<lparr>a_AppID = ar_app_id row, a_Name = ar_name row, a_OwnerUserID = ar_owner_user_id row,
      a_Visibility = ar_visibility row, a_Summary = ar_summary row, a_CreatedAt = ar_created_at row,
      a_UpdatedAt = ar_updated_at row, a_LatestVersion = ar_latest_version row,
      a_LatestApproved = ar_latest_approved_version row, a_Releases = []\<rparr>)) (map (\<lambda>(k, app). app_row d app) apps)"
    unfolding load_app_def
    by (rule fold_update_new) (use ids assms(1) in \<open>simp_all del: map_map\<close>)
  then show ?thesis using assms(2)
    by (auto simp: map_vals_def gomap_all_set bare_app_def normal_app_def app_row_def)
qed

text \<open>The pointers of a normalised app are those of the app.\<close>

lemma foldl_refresh_normal:
  "foldl refresh_step ptrs (map_vals (normal_release d) rels) = foldl refresh_step ptrs rels"
proof -
  have step: "refresh_step p (v, normal_release d r) = refresh_step p (v, r)" for p v r
    by (simp add: refresh_step_def normal_release_def split: prod.splits)
  show ?thesis
  proof (induction rels arbitrary: ptrs)
    case (Cons e rels)
    then show ?case by (cases e) (simp only: map_vals_simps foldl_Cons step)
  qed simp
qed

lemma refresh_pointers:
  "a_LatestVersion (refreshLatestPointers app) = fst (foldl refresh_step ([], []) (a_Releases app))"
  "a_LatestApproved (refreshLatestPointers app) = snd (foldl refresh_step ([], []) (a_Releases app))"
  by (simp_all add: refreshLatestPointers_def case_prod_beta)

lemma refresh_normal:
  assumes "wf_app sha256 k app"
  shows "refreshLatestPointers (normal_app d app) = normal_app d app"
proof -
  have "foldl refresh_step ([], []) (by_key (a_Releases app)) = foldl refresh_step ([], []) (a_Releases app)"
    by (rule refresh_order_independent [symmetric]) (use wf_app_versions [OF assms] in auto)
  moreover have "refreshLatestPointers app = app" using assms by (simp add: wf_app_def)
  then have "a_LatestVersion app = fst (foldl refresh_step ([], []) (a_Releases app))"
    "a_LatestApproved app = snd (foldl refresh_step ([], []) (a_Releases app))"
    using refresh_pointers [of app] by simp_all
  ultimately show ?thesis
    by (simp add: refreshLatestPointers_def normal_app_def foldl_refresh_normal case_prod_beta)
qed

lemma load_install_row:
  "i_AppID i = a \<Longrightarrow> load_install (install_row d u i) ins = AList.update u
     (AList.update a (normal_install d i) (case map_of ins u of None \<Rightarrow> [] | Some m \<Rightarrow> m)) ins"
  by (cases i) (simp add: load_install_def install_row_def normal_install_def)

lemma load_install_more:
  assumes "gomap_all (\<lambda>a i. i_AppID i = a) m" and "distinct (map fst m)"
    and "fst ` set m \<inter> fst ` set m0 = {}" and "u \<notin> fst ` set xs"
  shows "fold load_install (map (\<lambda>(a, i). install_row d u i) m) (xs @ [(u, m0)]) =
     xs @ [(u, m0 @ map_vals (normal_install d) m)]"
  using assms
proof (induction m arbitrary: m0)
  case (Cons e m)
  obtain a i where e: "e = (a, i)" by (cases e)
  have "load_install (install_row d u i) (xs @ [(u, m0)]) = xs @ [(u, m0 @ [(a, normal_install d i)])]"
    using Cons.prems by (simp add: e load_install_row update_mid map_of_mid update_new del: map_of_append)
  moreover have "fold load_install (map (\<lambda>(a, i). install_row d u i) m) (xs @ [(u, m0 @ [(a, normal_install d i)])]) =
     xs @ [(u, (m0 @ [(a, normal_install d i)]) @ map_vals (normal_install d) m)]"
    by (rule Cons.IH) (use Cons.prems in \<open>auto simp: e\<close>)
  ultimately show ?case by (simp add: e)
qed simp

lemma load_install_group:
  assumes "gomap_all (\<lambda>a i. i_AppID i = a) m" and "distinct (map fst m)" and "u \<notin> fst ` set xs"
  shows "fold load_install (map (\<lambda>(a, i). install_row d u i) m) xs =
     (if m = [] then xs else xs @ [(u, map_vals (normal_install d) m)])"
proof (cases m)
  case (Cons e m')
  obtain a i where e: "e = (a, i)" by (cases e)
  have "map_of xs u = None" using assms(3) by (simp add: map_of_eq_None_iff)
  then have "load_install (install_row d u i) xs = xs @ [(u, [(a, normal_install d i)])]"
    using assms(1,3) by (simp add: Cons e load_install_row update_new)
  then show ?thesis
    using load_install_more [of m' "[(a, normal_install d i)]" u xs d] assms by (auto simp: Cons e)
qed simp

lemma load_install_groups:
  assumes "gomap_all (\<lambda>u m. distinct (map fst m) \<and> gomap_all (\<lambda>a i. i_AppID i = a) m) ins"
    and "distinct (map fst ins)" and "fst ` set ins \<inter> fst ` set xs = {}"
  shows "fold load_install (grouped (\<lambda>u (a, i). install_row d u i) (map (\<lambda>(u, m). (u, by_key m)) ins)) xs =
     xs @ map_vals (\<lambda>m. map_vals (normal_install d) (by_key m)) (filter (\<lambda>(u, m). m \<noteq> []) ins)"
  using assms
proof (induction ins arbitrary: xs)
  case (Cons e ins)
  obtain u m where e: "e = (u, m)" by (cases e)
  let ?xs = "if m = [] then xs else xs @ [(u, map_vals (normal_install d) (by_key m))]"
  have "by_key m = [] \<longleftrightarrow> m = []" by (metis by_key_length length_0_conv)
  then have g: "fold load_install (map (\<lambda>(a, i). install_row d u i) (by_key m)) xs = ?xs"
    using load_install_group [of "by_key m" u xs d] Cons.prems by (simp add: e)
  have u: "u \<notin> fst ` set ins" using Cons.prems(2) by (simp add: e)
  have "fold load_install (grouped (\<lambda>u (a, i). install_row d u i) (map (\<lambda>(u, m). (u, by_key m)) ins)) ?xs =
     ?xs @ map_vals (\<lambda>m. map_vals (normal_install d) (by_key m)) (filter (\<lambda>(u, m). m \<noteq> []) ins)"
    by (rule Cons.IH) (use Cons.prems u in \<open>auto simp: e\<close>)
  then show ?case by (auto simp: e g)
qed simp

lemma loadStateFromQuerier_saved:
  assumes wf: "wf_registry sha256 st" and ok: "storable d st"
  shows "loadStateFromQuerier d (saved_db d st db) = Some (normal_state d st)"
proof -
  have apps: "gomap_all (\<lambda>k app. a_AppID app = k \<and> distinct (map fst (a_Releases app))
      \<and> gomap_all (\<lambda>v r. r_Version r = v \<and> storable_release d r) (a_Releases app)) (by_key (Apps st))"
    unfolding gomap_all_by_key using wf_registry_and [OF wf ok [unfolded storable_def]]
    by (rule gomap_all_mono)
       (rule conjI, simp add: wf_app_def, rule conjI, simp add: wf_app_def,
        rule wf_app_releases_storable)
  have ins: "gomap_all (\<lambda>u m. distinct (map fst m) \<and> gomap_all (\<lambda>a i. i_AppID i = a) m) (by_key (Installs st))"
    unfolding gomap_all_by_key using wf
    by (auto simp: wf_registry_def wf_installs_def elim!: gomap_all_mono)
  have d: "distinct (map fst (by_key (Apps st)))" "distinct (map fst (by_key (Installs st)))"
    using wf by (auto simp: wf_registry_def)
  have rk: "row_keys rr_app_id rr_version (\<lambda>k (v, r). release_row d k r) (app_groups st)"
    unfolding row_keys_def app_groups_def using apps [unfolded gomap_all_set] by fastforce
  have ik: "row_keys ir_user_id ir_app_id (\<lambda>u (a, i). install_row d u i) (install_groups st)"
    unfolding row_keys_def install_groups_def using ins [unfolded gomap_all_set] by fastforce
  have gk: "map fst (app_groups st) = map fst (by_key (Apps st))"
    "map fst (install_groups st) = map fst (by_key (Installs st))"
    by (auto simp: app_groups_def install_groups_def)
  have s1: "sort_key ar_app_id (t_apps (saved_db d st db)) = map (\<lambda>(k, app). app_row d app) (by_key (Apps st))"
  proof -
    have "map ar_app_id (map (\<lambda>(k, app). app_row d app) (by_key (Apps st))) = map fst (by_key (Apps st))"
      using apps by (auto simp: gomap_all_set)
    then have "sorted (map ar_app_id (map (\<lambda>(k, app). app_row d app) (by_key (Apps st))))"
      by (simp only: by_key_sorted)
    then show ?thesis by (simp add: saved_db_def sort_key_id_if_sorted del: map_map)
  qed
  have s2: "sort_key rr_app_id (sort_key rr_version (t_releases (saved_db d st db))) =
      grouped (\<lambda>k (v, r). release_row d k r) (app_groups st)"
  proof -
    have "t_releases (saved_db d st db) = grouped (\<lambda>k (v, r). release_row d k r) (app_groups st)"
      by (simp add: saved_db_def)
    then show ?thesis
      by (simp only:) (rule grouped_sort_id [OF rk], simp_all only: gk by_key_sorted d, auto simp: app_groups_def)
  qed
  have s3: "sort_key ir_user_id (sort_key ir_app_id (t_installs (saved_db d st db))) =
      grouped (\<lambda>u (a, i). install_row d u i) (install_groups st)"
  proof -
    have "t_installs (saved_db d st db) = grouped (\<lambda>u (a, i). install_row d u i) (install_groups st)"
      by (simp add: saved_db_def)
    then show ?thesis
      by (simp only:) (rule grouped_sort_id [OF ik], simp_all only: gk by_key_sorted d, auto simp: install_groups_def)
  qed
  have l1: "fold load_app (map (\<lambda>(k, app). app_row d app) (by_key (Apps st))) [] =
      map_vals (bare_app d) (by_key (Apps st))"
    by (rule load_apps [OF d(1)]) (rule gomap_all_mono [OF apps], simp)
  have l2: "foldM (load_release d) (grouped (\<lambda>k (v, r). release_row d k r) (app_groups st))
      (map_vals (bare_app d) (by_key (Apps st))) = Some (map_vals (normal_app d) (by_key (Apps st)))"
  proof -
    have "gomap_all (\<lambda>k app. distinct (map fst (a_Releases app))
      \<and> gomap_all (\<lambda>v r. r_Version r = v \<and> storable_release d r) (a_Releases app)) (by_key (Apps st))"
      by (rule gomap_all_mono [OF apps]) simp
    from load_release_groups [OF this d(1), of "[]"] show ?thesis by (simp add: app_groups_def)
  qed
  have l3: "fold load_install (grouped (\<lambda>u (a, i). install_row d u i) (install_groups st)) [] =
      map_vals (\<lambda>m. map_vals (normal_install d) (by_key m)) (some_installs st)"
    using load_install_groups [OF ins d(2), of "[]" d] by (simp add: install_groups_def some_installs_def)
  have l4: "map_vals refreshLatestPointers (map_vals (normal_app d) (by_key (Apps st))) =
      map_vals (normal_app d) (by_key (Apps st))"
  proof -
    have "refreshLatestPointers (normal_app d v) = normal_app d v" if "(k, v) \<in> set (Apps st)" for k v
    proof (rule refresh_normal)
      show "wf_app sha256 k v" using wf that by (auto simp: wf_registry_def gomap_all_set)
    qed
    then show ?thesis by (auto intro!: map_vals_cong)
  qed
  show ?thesis
    unfolding loadStateFromQuerier_def s1 s2 s3 l1 l2 l3 option.case l4 normal_state_def ..
qed

text \<open>A state read back is well-formed and stays the same when it is written again.\<close>

lemma wf_normal_release: "wf_release sha256 v r \<Longrightarrow> wf_release sha256 v (normal_release d r)"
  by (auto simp: wf_release_def normal_release_def)

lemma wf_normal_app:
  assumes "wf_app sha256 k app" shows "wf_app sha256 k (normal_app d app)"
  using assms refresh_normal [OF assms, of d]
  by (auto simp: wf_app_def normal_app_def elim!: gomap_all_mono wf_normal_release)

lemma normal_app_versions:
  "fst ` set (a_Releases (normal_app d app)) = fst ` set (a_Releases app)"
  by (simp add: normal_app_def)

lemma map_of_normal_apps:
  "wf_registry sha256 st \<Longrightarrow> map_of (Apps (normal_state d st)) a = map_option (normal_app d) (map_of (Apps st) a)"
  by (simp add: normal_state_def wf_registry_def)

lemma wf_normal_installs:
  assumes "wf_registry sha256 st" and "wf_installs (Apps st) u m"
  shows "wf_installs (Apps (normal_state d st)) u (map_vals (normal_install d) (by_key m))"
  using assms(2) unfolding wf_installs_def map_of_normal_apps [OF assms(1)]
  by (auto simp: normal_install_def normal_app_versions split: option.splits elim!: gomap_all_mono)

lemma wf_normal_state:
  assumes wf: "wf_registry sha256 st"
  shows "wf_registry sha256 (normal_state d st)"
proof -
  have d: "distinct (map fst (some_installs st))"
    using wf by (simp add: some_installs_def wf_registry_def distinct_map_filter)
  have "gomap_all (wf_app sha256) (Apps (normal_state d st))"
    using wf by (auto simp: wf_registry_def normal_state_def intro: wf_normal_app elim!: gomap_all_mono)
  moreover have "gomap_all (wf_installs (Apps (normal_state d st))) (Installs (normal_state d st))"
  proof -
    have "gomap_all (wf_installs (Apps st)) (some_installs st)"
      using wf by (auto simp: wf_registry_def some_installs_def gomap_all_set)
    then have "gomap_all (\<lambda>u m. wf_installs (Apps (normal_state d st)) u
        (map_vals (normal_install d) (by_key m))) (some_installs st)"
      by (rule gomap_all_mono) (rule wf_normal_installs [OF wf])
    then show ?thesis by (simp add: normal_state_def)
  qed
  ultimately show ?thesis using wf d by (simp add: wf_registry_def normal_state_def)
qed

section \<open>The contract of a registry store\<close>

text \<open>
  What \<open>mutateState\<close> needs of a store: a state it accepts (\<open>ok\<close>) can be written and is read back
  as \<open>norm\<close> of it, which is accepted again; audit entries it accepts (\<open>audit_ok\<close>) do not stop the
  write.
\<close>

locale registry_backend =
  fixes load :: "'s \<Rightarrow> registryState option"
    and save :: "registryState \<Rightarrow> auditEntry list \<Rightarrow> 's \<Rightarrow> 's option"
    and ok :: "registryState \<Rightarrow> bool"
    and audit_ok :: "auditEntry list \<Rightarrow> bool"
    and norm :: "registryState \<Rightarrow> registryState"
  assumes save_load: "ok st \<Longrightarrow> audit_ok audit \<Longrightarrow> \<exists>s'. save st audit s = Some s' \<and> load s' = Some (norm st)"
    and norm_ok: "ok st \<Longrightarrow> ok (norm st)"
begin

lemma mutate_ok:
  assumes "load s = Some st" and "mutate st = Inr (st', audit, x)" and "ok st'" and "audit_ok audit"
  shows "\<exists>s'. mutateState load save mutate s = (Inr (st', x), s') \<and> load s' = Some (norm st')"
  using assms save_load [OF assms(3,4), of s] by (auto simp: mutateState_def)

lemma mutate_rejected:
  assumes "load s = Some st" and "mutate st = Inl e"
  shows "mutateState load save mutate s = (Inl (Rejected e), s)"
  using assms by (simp add: mutateState_def)

text \<open>A sequence of mutations through the store is the sequence of their closures on the state,
  with \<open>norm\<close> in between; none of them ends in a store error.\<close>

lemma mutations_simulate:
  assumes "load s = Some st" and "ok st"
    and "\<And>m st st' audit x. m \<in> set ms \<Longrightarrow> ok st \<Longrightarrow> m st = Inr (st', audit, x) \<Longrightarrow> ok st' \<and> audit_ok audit"
  shows "load (fold (\<lambda>m s. snd (mutateState load save m s)) ms s) =
     Some (fold (\<lambda>m st. case m st of Inl e \<Rightarrow> st | Inr (st', _) \<Rightarrow> norm st') ms st)"
  using assms
proof (induction ms arbitrary: s st)
  case (Cons m ms)
  let ?st1 = "case m st of Inl e \<Rightarrow> st | Inr (st', _) \<Rightarrow> norm st'"
  have 1: "load (snd (mutateState load save m s)) = Some ?st1 \<and> ok ?st1"
  proof (cases "m st")
    case (Inl e)
    then show ?thesis using Cons.prems(1,2) mutate_rejected [where mutate = m, OF Cons.prems(1) Inl] by simp
  next
    case (Inr r)
    obtain st' audit x where r: "r = (st', audit, x)" by (cases r)
    then have "ok st'" "audit_ok audit" using Cons.prems(3) [OF list.set_intros(1) Cons.prems(2)] Inr by auto
    then show ?thesis
      using mutate_ok [where mutate = m, OF Cons.prems(1) Inr [unfolded r]] norm_ok by (auto simp: Inr r)
  qed
  show ?case
    unfolding fold_Cons comp_def
    by (rule Cons.IH [OF conjunct1 [OF 1] conjunct2 [OF 1]]) (erule Cons.prems(3) [OF list.set_intros(2)], assumption+)
qed simp

end

definition storable_audit :: "pg \<Rightarrow> time \<Rightarrow> auditEntry list \<Rightarrow> bool" where
  "storable_audit d now audit \<longleftrightarrow>
     list_all (\<lambda>e. pg_json d (au_metadata_json (audit_row d now e)) \<noteq> None) audit"

lemma appendAudit_eq:
  "storable_audit d now audit \<Longrightarrow>
   appendAuditEntriesTx d now audit db = Some (db\<lparr>t_audit := t_audit db @ map (audit_row d now) audit\<rparr>)"
  unfolding appendAuditEntriesTx_def
  by (induction audit arbitrary: db) (auto simp: storable_audit_def insert_audit_def)

lemma load_ignores_audit [simp]: "loadStateFromQuerier d (db\<lparr>t_audit := a\<rparr>) = loadStateFromQuerier d db"
  by (simp add: loadStateFromQuerier_def cong: option.case_cong)

lemma storable_normal_release [simp]: "storable_release d (normal_release d r) = storable_release d r"
  by (simp add: storable_release_def normal_release_def)

lemma storable_normal: "storable d st \<Longrightarrow> storable d (normal_state d st)"
  by (simp add: storable_def normal_state_def normal_app_def)

lemma saveDb_load:
  assumes "wf_registry sha256 st \<and> storable d st" and "storable_audit d now audit"
  shows "\<exists>db'. saveDb d now st audit db = Some db' \<and> loadStateFromQuerier d db' = Some (normal_state d st)
     \<and> t_audit db' = t_audit db @ map (audit_row d now) audit"
  using assms saveStateToTx_eq [of sha256 st d db] loadStateFromQuerier_saved [of sha256 st d db]
  by (simp add: saveDb_def appendAudit_eq) (simp add: saved_db_def)

interpretation db: registry_backend "loadStateFromQuerier d" "saveDb d now"
    "\<lambda>st. wf_registry sha256 st \<and> storable d st" "storable_audit d now" "normal_state d"
  for d now sha256
  by unfold_locales (use saveDb_load wf_normal_state storable_normal in blast)+

lemma refresh_wf_apps: "wf_registry sha256 st \<Longrightarrow> map_vals refreshLatestPointers (Apps st) = Apps st"
proof -
  assume "wf_registry sha256 st"
  then have "map_vals refreshLatestPointers (Apps st) = map_vals id (Apps st)"
    by (auto simp: wf_registry_def gomap_all_set wf_app_def intro!: map_vals_cong)
  then show ?thesis by (simp add: map_vals_def)
qed

interpretation disk: registry_backend loadStateFileLocked "\<lambda>state audit. saveStateFileLocked state"
    "wf_registry sha256" "\<lambda>_. True" "\<lambda>st. st"
  for sha256
  by unfold_locales (auto simp: saveStateFileLocked_def loadStateFileLocked_def refresh_wf_apps)

end
