(* ===== verification/RegistryStoreProps.thy ===== *)
theory RegistryStoreProps
  imports RegistryPersist RegistryProps
begin

text \<open>
  What survives storage: the round trip through the tables, the fields the tables forget, and
  sequences of mutations over both stores.
\<close>

section \<open>A concrete Postgres for the witnesses\<close>

text \<open>Microsecond time stamps, and a decoder that knows the documents of the example.\<close>

definition demo_docs :: "json list" where
  "demo_docs = [JObj (demo_manifest ''1.0.0'' ''http://localhost:1/x'' [''read'']),
     JArr [JStr ''web''], JObj [(''auto_update'', JBool True), (''enabled'', JBool True)], JObj [],
     JObj [(''visibility'', JStr ''public'')]]"

definition demo_pg :: pg where
  "demo_pg = \<lparr>pg_time = (\<lambda>t. t div 1000 * 1000), pg_json = (\<lambda>s. find (\<lambda>j. marshal j = s) demo_docs)\<rparr>"

lemma demo_storable: "storable demo_pg demo1"
  by code_simp

lemma demo_wf: "wf_registry demo_hash demo1"
  by (rule reachable_wf [OF demo_reachable(1)])

section \<open>The round trip\<close>

text \<open>C9. Writing a well-formed state to the tables never breaks a key constraint, whatever they
  held before, and reading them gives the state back in its stored form: time stamps at the
  precision of the column, maps in key order, version pointers as before, users without installs
  and the two re-consent fields dropped.\<close>

theorem save_load_roundtrip:
  assumes "wf_registry sha256 st" and "storable d st"
  shows "\<exists>db'. saveStateToTx d st db = Some db' \<and> loadStateFromQuerier d db' = Some (normal_state d st)"
  using saveStateToTx_eq [OF assms] loadStateFromQuerier_saved [OF assms] by blast

theorem save_load_roundtrip_witness:
  "\<exists>db'. saveStateToTx demo_pg demo1 emptyDb = Some db' \<and>
     loadStateFromQuerier demo_pg db' = Some (normal_state demo_pg demo1)"
  by (rule save_load_roundtrip [OF demo_wf demo_storable])

lemma map_of_filter_some:
  "distinct (map fst m) \<Longrightarrow> map_of (filter (\<lambda>(u, v). v \<noteq> []) m) u =
     (case map_of m u of None \<Rightarrow> None | Some v \<Rightarrow> if v = [] then None else Some v)"
  by (induction m) (auto simp: map_of_eq_None_iff split: option.splits dest: map_of_fst_mem)

text \<open>Everything a client sees survives in the stored form: apps with owner, name, visibility,
  summary and version pointers, every release up to the precision of its times, every install.
  What does not survive is the re-consent marker: no release of a state read from the tables
  requires re-consent or remembers previous permissions.\<close>

theorem stored_form:
  assumes "wf_registry sha256 st"
  shows "map_of (Apps (normal_state d st)) a = map_option (normal_app d) (map_of (Apps st) a)
   \<and> lookup_release (normal_state d st) a v = map_option (normal_release d) (lookup_release st a v)
   \<and> map_of (userInstalls (normal_state d st) u) a = map_option (normal_install d) (map_of (userInstalls st u) a)
   \<and> (\<forall>r. lookup_release (normal_state d st) a v = Some r \<longrightarrow>
        \<not> r_RequiresReconsent r \<and> r_PreviousPermissions r = [])"
proof -
  have d: "distinct (map fst (Installs st))" and wi: "gomap_all (wf_installs (Apps st)) (Installs st)"
    using assms by (simp_all add: wf_registry_def)
  have i: "map_of (userInstalls (normal_state d st) u) a = map_option (normal_install d) (map_of (userInstalls st u) a)"
    using d gomap_allD [OF wi, of u]
    by (auto simp: userInstalls_def normal_state_def some_installs_def map_of_filter_some wf_installs_def
        split: option.splits)
  have r: "lookup_release (normal_state d st) a v = map_option (normal_release d) (lookup_release st a v)"
  proof (cases "map_of (Apps st) a")
    case (Some app)
    then have "distinct (map fst (a_Releases app))" using wf_appD [OF assms Some] by (simp add: wf_app_def)
    then show ?thesis
      by (simp add: lookup_release_def map_of_normal_apps [OF assms] Some normal_app_def)
  qed (simp add: lookup_release_def map_of_normal_apps [OF assms])
  show ?thesis using i r map_of_normal_apps [OF assms] by (auto simp: normal_release_def)
qed

theorem stored_form_witness:
  "map_of (Apps (normal_state demo_pg demo1)) ''app.demo'' =
     map_option (normal_app demo_pg) (map_of (Apps demo1) ''app.demo'')"
  using stored_form [OF demo_wf] by blast

section \<open>Mutations over the stores\<close>

text \<open>A mutation of the tables that the closure accepts and whose result is well-formed never
  ends in a store error: the caller gets the closure's result, the tables afterwards hold the
  stored form of the new state, and exactly the mutation's audit entries are added to the log.\<close>

theorem mutateStateDb_refines:
  assumes "loadStateFromQuerier d db = Some st" and "mutate st = Inr (st', audit, x)"
    and "wf_registry sha256 st'" and "storable d st'" and "storable_audit d now audit"
  shows "\<exists>db'. mutateStateDb d now mutate db = (Inr (st', x), db')
     \<and> loadStateFromQuerier d db' = Some (normal_state d st')
     \<and> t_audit db' = t_audit db @ map (audit_row d now) audit"
  using saveDb_load [of sha256 st' d now audit db] assms
  by (auto simp: mutateStateDb_def mutateState_def)

lemma demo_create:
  "loadStateFromQuerier demo_pg emptyDb = Some emptyRegistryState"
  "is_ok (createAppMutate ''al'' ''a'' ''n'' [] [] 5 emptyRegistryState)"
  by code_simp+

lemma storable_put_app:
  "storable d st \<Longrightarrow> gomap_all (\<lambda>_. storable_release d) (a_Releases app) \<Longrightarrow> storable d (put_app k app st)"
  by (auto simp: storable_def put_app_def)

lemma createApp_storable:
  assumes "createAppMutate user appID name summary vis now st = Inr (st', audit, x)" and "storable d st"
    and "pg_json d (marshal (JObj [(''visibility'', JStr ''public'')])) \<noteq> None"
    and "to_lower (trim_space vis) \<noteq> ''private''"
  shows "storable d st' \<and> storable_audit d t audit"
  using assms
  by (auto simp: createAppMutate_def Let_def storable_audit_def audit_row_def audit_entry_def new_app_def
      intro: storable_put_app split: if_splits)

lemma demo_visibility: "pg_json demo_pg (marshal (JObj [(''visibility'', JStr ''public'')])) \<noteq> None"
  "to_lower (trim_space []) \<noteq> ''private''"
  by code_simp+

theorem mutateStateDb_refines_witness:
  "\<exists>db' st'. mutateStateDb demo_pg 0 (createAppMutate ''al'' ''a'' ''n'' [] [] 5) emptyDb = (Inr (st', ()), db')
     \<and> loadStateFromQuerier demo_pg db' = Some (normal_state demo_pg st')"
proof -
  obtain st' audit where m: "createAppMutate ''al'' ''a'' ''n'' [] [] 5 emptyRegistryState = Inr (st', audit, ())"
    using is_ok_state_of [OF demo_create(2)] by auto
  have "storable demo_pg emptyRegistryState" by (simp add: storable_def emptyRegistryState_def)
  from createApp_storable [OF m this demo_visibility]
    mutateStateDb_refines [where mutate = "createAppMutate ''al'' ''a'' ''n'' [] [] 5" and now = 0, OF demo_create(1) m
      createAppMutate_wf [OF RegistrySteps.wf_empty [of demo_hash] m]]
  show ?thesis by blast
qed

text \<open>Any sequence of requests over the tables, each keeping states well-formed, is the sequence of
  their closures on the state: no request is lost, none fails for a reason of the store, and the
  state read at the end is the one the closures compute.\<close>

theorem db_requests_simulate:
  assumes "loadStateFromQuerier d db = Some st" and "wf_registry sha256 st \<and> storable d st"
    and "\<forall>m \<in> set ms. \<forall>st st' audit x. wf_registry sha256 st \<and> storable d st \<and> m st = Inr (st', audit, x) \<longrightarrow>
       (wf_registry sha256 st' \<and> storable d st') \<and> storable_audit d now audit"
  shows "loadStateFromQuerier d (fold (\<lambda>m db. snd (mutateStateDb d now m db)) ms db) =
     Some (fold (\<lambda>m st. case m st of Inl e \<Rightarrow> st | Inr (st', _) \<Rightarrow> normal_state d st') ms st)"
  unfolding mutateStateDb_def
  by (rule db.mutations_simulate [OF assms(1,2)]) (use assms(3) in blast)

theorem db_requests_simulate_witness:
  "loadStateFromQuerier demo_pg (fold (\<lambda>m db. snd (mutateStateDb demo_pg 0 m db))
       [createAppMutate ''al'' ''a'' ''n'' [] [] 5, createAppMutate ''bo'' ''a'' ''n'' [] [] 6] emptyDb) =
     Some (fold (\<lambda>m st. case m st of Inl e \<Rightarrow> st | Inr (st', _) \<Rightarrow> normal_state demo_pg st')
       [createAppMutate ''al'' ''a'' ''n'' [] [] 5, createAppMutate ''bo'' ''a'' ''n'' [] [] 6] emptyRegistryState)"
proof (rule db_requests_simulate [where ?sha256.0 = demo_hash])
  show "loadStateFromQuerier demo_pg emptyDb = Some emptyRegistryState" by (rule demo_create(1))
  show "wf_registry demo_hash emptyRegistryState \<and> storable demo_pg emptyRegistryState"
    by (simp add: storable_def) (simp add: emptyRegistryState_def)
qed (use createAppMutate_wf createApp_storable [OF _ _ demo_visibility] in auto)

text \<open>A rejected mutation leaves both stores as they were.\<close>

theorem rejected_mutation_no_effect:
  assumes "loadStateFromQuerier d db = Some st" and "loadStateFileLocked f = Some st"
    and "mutate st = Inl e"
  shows "mutateStateDb d now mutate db = (Inl (Rejected e), db)
     \<and> mutateStateFile mutate f = (Inl (Rejected e), f)"
  using db.mutate_rejected [where mutate = mutate, OF assms(1,3)]
    disk.mutate_rejected [where mutate = mutate, OF assms(2,3)]
  by (simp add: mutateStateDb_def mutateStateFile_def)

theorem rejected_mutation_no_effect_witness:
  "mutateStateDb demo_pg 0 (uninstallMutate ''bob'' ''app.demo'' 5) emptyDb =
     (Inl (Rejected (ApiError 404 ''not_found'' ''install not found'')), emptyDb)"
proof -
  have "loadStateFromQuerier demo_pg emptyDb = Some emptyRegistryState"
    "loadStateFileLocked NoFile = Some emptyRegistryState"
    "uninstallMutate ''bob'' ''app.demo'' 5 emptyRegistryState =
       Inl (ApiError 404 ''not_found'' ''install not found'')"
    by code_simp+
  from rejected_mutation_no_effect [where mutate = "uninstallMutate ''bob'' ''app.demo'' 5", OF this] show ?thesis by blast
qed

end
