(* ===== verification/Http.thy ===== *)
theory Http
  imports Json
begin

text \<open>
  What the handlers use of \<open>net/http\<close>, \<open>strconv\<close> and \<open>encoding/json\<close>: a request with its
  headers, query and decoded body; decoding a body into a struct; decimal numbers; and the
  pagination that the list handlers share.
\<close>

section \<open>Requests\<close>

text \<open>
  \<open>Header\<close> has canonical keys, \<open>Query\<close> the decoded parameters in order; \<open>Get\<close> returns the first
  value or the empty string.  \<open>Body\<close> is the decoded JSON body, \<open>None\<close> when it does not decode; its
  objects list their members as they come.
\<close>

record httpReq =
  Method :: string
  Path :: string
  Query :: "(string \<times> string) list"
  Header :: "(string \<times> string) list"
  Body :: "json option"

definition get_first :: "(string \<times> string) list \<Rightarrow> string \<Rightarrow> string" where
  "get_first vals key = (case map_of vals key of None \<Rightarrow> [] | Some v \<Rightarrow> v)"

section \<open>Decoding a body\<close>

text \<open>Into a \<open>map[string]any\<close>, at every level: the last member with a key wins.\<close>

definition obj_of_members :: "json gomap \<Rightarrow> json gomap" where
  "obj_of_members ms = fold (\<lambda>(k, v) m. AList.update k v m) ms []"

fun go_value :: "json \<Rightarrow> json" where
  "go_value (JArr xs) = JArr (map go_value xs)"
| "go_value (JObj ms) = JObj (obj_of_members (map (\<lambda>(k, v). (k, go_value v)) ms))"
| "go_value v = v"

text \<open>
  Into a struct: a member goes to the field whose name it matches up to case; \<open>null\<close> leaves the
  field alone; a value of another type leaves it alone and makes \<open>Decode\<close> return an error, after
  the other fields have been set.  The result is the field and whether it had the right type.
\<close>

definition members_of :: "json option \<Rightarrow> json gomap" where
  "members_of body = (case body of Some (JObj ms) \<Rightarrow> ms | _ \<Rightarrow> [])"

definition struct_ok :: "json option \<Rightarrow> bool" where
  "struct_ok body = (case body of Some (JObj ms) \<Rightarrow> True | Some JNull \<Rightarrow> True | _ \<Rightarrow> False)"

definition member_values :: "json option \<Rightarrow> string \<Rightarrow> json list" where
  "member_values body field = map snd (filter (\<lambda>(k, v). equal_fold k field) (members_of body))"

definition string_field :: "json option \<Rightarrow> string \<Rightarrow> string \<times> bool" where
  "string_field body field = fold (\<lambda>v (s, good). case v of
       JStr t \<Rightarrow> (t, good) | JNull \<Rightarrow> (s, good) | _ \<Rightarrow> (s, False)) (member_values body field) ([], True)"

definition bool_field :: "json option \<Rightarrow> string \<Rightarrow> bool \<times> bool" where
  "bool_field body field = fold (\<lambda>v (b, good). case v of
       JBool c \<Rightarrow> (c, good) | JNull \<Rightarrow> (b, good) | _ \<Rightarrow> (b, False)) (member_values body field) (False, True)"

text \<open>Fields of other types: \<open>[]string\<close>, \<open>map[string]any\<close> and, after the decimal numbers,
  \<open>int64\<close>.  \<open>null\<close> empties a slice or a map, and an array's \<open>null\<close> is the empty string.\<close>

definition strings_field :: "json option \<Rightarrow> string \<Rightarrow> string list option \<times> bool" where
  "strings_field body field = fold (\<lambda>v (s, good). case v of
       JArr xs \<Rightarrow> (Some (map (\<lambda>x. case x of JStr t \<Rightarrow> t | _ \<Rightarrow> []) xs),
                  good \<and> list_all (\<lambda>x. case x of JStr t \<Rightarrow> True | JNull \<Rightarrow> True | _ \<Rightarrow> False) xs)
     | JNull \<Rightarrow> (None, good) | _ \<Rightarrow> (s, False)) (member_values body field) (None, True)"

definition object_field :: "json option \<Rightarrow> string \<Rightarrow> json gomap option \<times> bool" where
  "object_field body field = fold (\<lambda>v (m, good). case v of
       JObj ms \<Rightarrow> (Some (obj_of_members ((case m of None \<Rightarrow> [] | Some old \<Rightarrow> old) @ map (\<lambda>(k, v). (k, go_value v)) ms)), good)
     | JNull \<Rightarrow> (None, good) | _ \<Rightarrow> (m, False)) (member_values body field) (None, True)"

text \<open>A struct of string fields: \<open>Decode\<close>'s error, and the fields.\<close>

definition decode_strings :: "json option \<Rightarrow> string list \<Rightarrow> bool \<times> string list" where
  "decode_strings body names =
     (struct_ok body \<and> list_all (\<lambda>f. snd (string_field body f)) names,
      map (\<lambda>f. fst (string_field body f)) names)"

section \<open>Decimal numbers\<close>

definition digit_char :: "nat \<Rightarrow> char" where
  "digit_char d = char_of (48 + d)"

fun itoa :: "nat \<Rightarrow> string" where
  "itoa n = (if n < 10 then [digit_char n] else itoa (n div 10) @ [digit_char (n mod 10)])"

declare itoa.simps [simp del]

definition digits_value :: "string \<Rightarrow> nat" where
  "digits_value s = foldl (\<lambda>n c. n * 10 + (of_char c - 48)) 0 s"

definition unsigned_value :: "string \<Rightarrow> nat option" where
  "unsigned_value s = (if s \<noteq> [] \<and> list_all is_digit s then Some (digits_value s) else None)"

text \<open>\<open>strconv.Atoi\<close>: an optional sign and decimal digits, in the range of a 64-bit \<open>int\<close>.\<close>

definition atoi :: "string \<Rightarrow> int option" where
  "atoi s =
     (let (neg, body) = (case s of [] \<Rightarrow> (False, [])
            | c # cs \<Rightarrow> if c = CHR ''-'' then (True, cs) else if c = CHR ''+'' then (False, cs) else (False, s))
      in case unsigned_value body of
           None \<Rightarrow> None
         | Some n \<Rightarrow> let i = (if neg then - int n else int n) in
             if - (2 ^ 63) \<le> i \<and> i < 2 ^ 63 then Some i else None)"

definition int_field :: "json option \<Rightarrow> string \<Rightarrow> int \<times> bool" where
  "int_field body field = fold (\<lambda>v (i, good). case v of
       JNum t \<Rightarrow> (case atoi t of Some n \<Rightarrow> (n, good) | None \<Rightarrow> (i, False))
     | JNull \<Rightarrow> (i, good) | _ \<Rightarrow> (i, False)) (member_values body field) (0, True)"

definition int_map_field :: "json option \<Rightarrow> string \<Rightarrow> (string \<times> int) list option \<times> bool" where
  "int_map_field body field = fold (\<lambda>v (m, good). case v of
       JObj ms \<Rightarrow> (Some (fold (\<lambda>(k, w) acc. AList.update k (case w of JNum t \<Rightarrow> (case atoi t of Some n \<Rightarrow> n | None \<Rightarrow> 0) | _ \<Rightarrow> 0) acc)
                          ms (case m of None \<Rightarrow> [] | Some old \<Rightarrow> old)),
                   good \<and> list_all (\<lambda>(k, w). case w of JNum t \<Rightarrow> atoi t \<noteq> None | JNull \<Rightarrow> True | _ \<Rightarrow> False) ms)
     | JNull \<Rightarrow> (None, good) | _ \<Rightarrow> (m, False)) (member_values body field) (None, True)"

lemma digit_char_props:
  assumes "d < 10"
  shows "is_digit (digit_char d)" "(of_char (digit_char d) :: nat) = 48 + d"
    "digit_char d \<noteq> CHR ''-''" "digit_char d \<noteq> CHR ''+''" "\<not> is_space (digit_char d)"
proof -
  show v: "(of_char (digit_char d) :: nat) = 48 + d"
    using assms by (simp add: digit_char_def of_char_of)
  have ne: "digit_char d \<noteq> c" if "(of_char c :: nat) < 48" for c using v that by auto
  show "is_digit (digit_char d)" using v assms by (auto simp: is_digit_def less_eq_char_def)
  have "(of_char (CHR ''-'') :: nat) < 48" "(of_char (CHR ''+'') :: nat) < 48" by simp_all
  then show "digit_char d \<noteq> CHR ''-''" "digit_char d \<noteq> CHR ''+''" using ne by metis+
  show "\<not> is_space (digit_char d)" using ne by (auto simp: is_space_def)
qed

lemma itoa_value: "digits_value (itoa n) = n"
proof (induction n rule: itoa.induct)
  case (1 n)
  show ?case
  proof (cases "n < 10")
    case True
    then show ?thesis by (simp add: itoa.simps [of n] digits_value_def digit_char_props)
  next
    case False
    then have "digits_value (itoa n) = digits_value (itoa (n div 10)) * 10 + n mod 10"
      by (simp add: itoa.simps [of n] digits_value_def digit_char_props)
    then show ?thesis using 1 [OF False] by simp
  qed
qed

lemma itoa_digits: "itoa n \<noteq> [] \<and> list_all is_digit (itoa n)"
proof (induction n rule: itoa.induct)
  case (1 n)
  then show ?case by (cases "n < 10") (simp_all add: itoa.simps [of n] digit_char_props)
qed

lemma is_digit_props: "is_digit c \<Longrightarrow> c \<noteq> CHR ''-'' \<and> c \<noteq> CHR ''+'' \<and> \<not> is_space c"
  by (auto simp: is_digit_def is_space_def less_eq_char_def)

lemma atoi_itoa: "n < 2 ^ 63 \<Longrightarrow> atoi (itoa n) = Some (int n)"
proof -
  assume n: "n < 2 ^ 63"
  obtain c cs where c: "itoa n = c # cs" "is_digit c" using itoa_digits [of n] by (cases "itoa n") auto
  have "unsigned_value (c # cs) = Some n" using itoa_digits [of n] itoa_value [of n] c by (simp add: unsigned_value_def)
  moreover have "int n < 2 ^ 63" using n by (metis of_nat_less_iff of_nat_numeral of_nat_power)
  ultimately show ?thesis using is_digit_props [OF c(2)] by (simp add: atoi_def c(1))
qed

lemma dropWhile_none: "list_all (\<lambda>c. \<not> P c) s \<Longrightarrow> dropWhile P s = s"
  by (cases s) auto

lemma trim_itoa [simp]: "trim_space (itoa n) = itoa n"
proof -
  have "list_all (\<lambda>c. \<not> is_space c) (itoa n)"
    using itoa_digits [of n] is_digit_props by (auto simp: list_all_iff)
  then show ?thesis by (simp add: trim_space_def dropWhile_none)
qed

section \<open>Pagination\<close>

text \<open>The tail that the list handlers share: the page, \<open>next_cursor\<close> and \<open>total\<close>.\<close>

definition page_of :: "nat \<Rightarrow> nat \<Rightarrow> 'a list \<Rightarrow> 'a list \<times> string \<times> nat" where
  "page_of limit offset0 items =
     (let total = length items;
          offset = (if offset0 > total then total else offset0);
          end = (if offset + limit > total then total else offset + limit)
      in (drop offset (take end items), if end < total then itoa end else [], total))"

text \<open>The pages a client gets that starts without a cursor and follows \<open>next_cursor\<close>.\<close>

fun follow_pages :: "nat \<Rightarrow> nat \<Rightarrow> nat \<Rightarrow> 'a list \<Rightarrow> 'a list list" where
  "follow_pages 0 limit offset items = []"
| "follow_pages (Suc fuel) limit offset items =
     (case page_of limit offset items of (page, cursor, _) \<Rightarrow>
        page # (if cursor = [] then [] else
          (case atoi cursor of None \<Rightarrow> [] | Some c \<Rightarrow> follow_pages fuel limit (nat c) items)))"

lemma follow_pages_all:
  assumes "0 < limit" and "length items < 2 ^ 63" and "length items - offset < fuel"
  shows "concat (follow_pages fuel limit offset items) = drop offset items"
  using assms
proof (induction fuel arbitrary: offset)
  case (Suc fuel)
  show ?case
  proof (cases "offset + limit < length items")
    case True
    then have c: "itoa (offset + limit) \<noteq> []" using itoa_digits by auto
    have "offset + limit < 2 ^ 63" using True Suc.prems(2) by linarith
    then have "atoi (itoa (offset + limit)) = Some (int (offset + limit))" by (rule atoi_itoa)
    moreover have "concat (follow_pages fuel limit (offset + limit) items) = drop (offset + limit) items"
      by (rule Suc.IH) (use Suc.prems True in auto)
    moreover have "drop offset (take (offset + limit) items) @ drop (offset + limit) items = drop offset items"
      by (metis add_diff_cancel_left' append_take_drop_id drop_drop add.commute drop_take)
    ultimately show ?thesis using True c by (simp add: page_of_def Let_def nat_add_distrib)
  next
    case False
    then show ?thesis by (auto simp: page_of_def Let_def)
  qed
qed simp

end
