(* ===== verification/Catalog.thy ===== *)
theory Catalog
  imports RegistryPersist Http
begin

text \<open>
  What the catalogue shows (\<open>ohmf/services/apps/handlers.go\<close>): the caller's identity, which release
  of an app a caller sees, the filters, and the items of the list endpoints.
\<close>

section \<open>The caller\<close>

definition currentUserID :: "httpReq \<Rightarrow> string" where
  "currentUserID r = trim_space (get_first (Header r) ''X-User-Id'')"

definition isAdmin :: "httpReq \<Rightarrow> bool" where
  "isAdmin r \<longleftrightarrow> to_lower (trim_space (get_first (Header r) ''X-User-Role'')) = ''admin''"

definition developerModeEnabled :: "httpReq \<Rightarrow> bool" where
  "developerModeEnabled r =
     (let value = trim_space (get_first (Query r) ''developer_mode'')
      in value = ''1'' \<or> equal_fold value ''true'')"

definition query_param :: "httpReq \<Rightarrow> string \<Rightarrow> string" where
  "query_param r key = trim_space (get_first (Query r) key)"

definition parseLimitOffset :: "httpReq \<Rightarrow> nat \<Rightarrow> nat \<times> nat" where
  "parseLimitOffset r defaultLimit =
     (let raw = query_param r ''limit'';
          limit = (if raw = [] then defaultLimit else
            (case atoi raw of
               None \<Rightarrow> defaultLimit
             | Some parsed \<Rightarrow> if parsed \<le> 0 then defaultLimit else if parsed > 100 then 100 else nat parsed));
          rawc = query_param r ''cursor'';
          offset = (if rawc = [] then 0 else
            (case atoi rawc of
               None \<Rightarrow> 0
             | Some parsed \<Rightarrow> if parsed \<ge> 0 then nat parsed else 0))
      in (limit, offset))"

definition optionalBoolQuery :: "httpReq \<Rightarrow> string \<Rightarrow> bool option" where
  "optionalBoolQuery r key =
     (let value = to_lower (query_param r key)
      in if value \<in> {''1'', ''true'', ''yes''} then Some True
         else if value \<in> {''0'', ''false'', ''no''} then Some False else None)"

text \<open>\<open>decodeManifestPayload\<close>: the manifest is the body or its member \<open>manifest\<close>.\<close>

definition decodeManifestPayload :: "httpReq \<Rightarrow> manifest option" where
  "decodeManifestPayload r =
     (case map_option go_value (Body r) of
        Some (JObj raw) \<Rightarrow>
          (case map_of raw ''manifest'' of
             None \<Rightarrow> Some raw
           | Some (JObj man) \<Rightarrow> Some man
           | Some _ \<Rightarrow> None)
      | Some JNull \<Rightarrow> Some []
      | _ \<Rightarrow> None)"

section \<open>Visibility\<close>

definition releaseVisibleToUser ::
  "registeredApp \<Rightarrow> appRelease \<Rightarrow> string \<Rightarrow> bool \<Rightarrow> bool \<Rightarrow> bool" where
  "releaseVisibleToUser app release userID admin developerMode =
     (if admin then True
      else if r_SourceType release = ''dev'' \<and> \<not> developerMode \<and> a_OwnerUserID app \<noteq> userID
              \<and> r_PublisherUserID release \<noteq> userID then False
      else if r_ReviewStatus release = statusApproved
      then r_Visibility release = ''public'' \<or> a_OwnerUserID app = userID \<or> r_PublisherUserID release = userID
      else a_OwnerUserID app = userID \<or> r_PublisherUserID release = userID)"

definition latestVisibleRelease ::
  "registeredApp \<Rightarrow> string \<Rightarrow> bool \<Rightarrow> bool \<Rightarrow> appRelease option" where
  "latestVisibleRelease app userID admin developerMode =
     pick_latest (\<lambda>release best. versionGreater (r_Version release) (r_Version best))
       (filter (\<lambda>release. releaseVisibleToUser app release userID admin developerMode)
         (map snd (a_Releases app)))"

section \<open>Filters\<close>

definition stringListContains :: "string list \<Rightarrow> string \<Rightarrow> bool" where
  "stringListContains values candidate0 =
     (let candidate = trim_space (to_lower candidate0)
      in candidate = [] \<or> list_ex (\<lambda>value. to_lower (trim_space value) = candidate) values)"

definition matchesCatalogFilters ::
  "registeredApp \<Rightarrow> appRelease \<Rightarrow> installedAppRef option \<Rightarrow> httpReq \<Rightarrow> bool \<Rightarrow> bool" where
  "matchesCatalogFilters app release install r admin =
     (let query = to_lower (query_param r ''q'');
          joined = to_lower (join_with '' '' [a_AppID app, a_Name app, a_Summary app,
                     stringField (r_Manifest release) ''name'']);
          reviewStatus = query_param r ''review_status'';
          sourceType = query_param r ''source_type'';
          visibility = query_param r ''visibility'';
          platform = query_param r ''platform'';
          owner = query_param r ''owner_user_id'';
          publisher = query_param r ''publisher_user_id''
      in if query \<noteq> [] \<and> \<not> contains_str joined query then False
         else if reviewStatus \<noteq> [] \<and> \<not> admin \<and> a_OwnerUserID app \<noteq> currentUserID r
                 \<and> r_PublisherUserID release \<noteq> currentUserID r then False
         else if reviewStatus \<noteq> [] \<and> r_ReviewStatus release \<noteq> reviewStatus then False
         else if sourceType \<noteq> [] \<and> r_SourceType release \<noteq> sourceType then False
         else if visibility \<noteq> [] \<and> r_Visibility release \<noteq> visibility then False
         else if platform \<noteq> [] \<and> \<not> stringListContains (r_SupportedPlatforms release) platform then False
         else if owner \<noteq> [] \<and> a_OwnerUserID app \<noteq> owner then False
         else if publisher \<noteq> [] \<and> r_PublisherUserID release \<noteq> publisher then False
         else (case optionalBoolQuery r ''installed'' of
                 None \<Rightarrow> True
               | Some installed \<Rightarrow> installed \<longleftrightarrow> install \<noteq> None))"

section \<open>The items of the list endpoints\<close>

definition catalog_item ::
  "httpReq \<Rightarrow> installedAppRef gomap \<Rightarrow> registeredApp \<Rightarrow> (registeredApp \<times> appRelease) option" where
  "catalog_item r installs app =
     (case latestVisibleRelease app (currentUserID r) (isAdmin r) (developerModeEnabled r) of
        None \<Rightarrow> None
      | Some release \<Rightarrow>
          if matchesCatalogFilters app release (map_of installs (a_AppID app)) r (isAdmin r)
          then Some (app, release) else None)"

definition catalog_items :: "httpReq \<Rightarrow> registryState \<Rightarrow> app_view list" where
  "catalog_items r state =
     (let installs = userInstalls state (currentUserID r)
      in concat (map (\<lambda>(appID, app). case catalog_item r installs app of
           None \<Rightarrow> []
         | Some (app, release) \<Rightarrow> [appResponse app release (map_of installs (a_AppID app))])
         (by_key (Apps state))))"

definition installed_release :: "httpReq \<Rightarrow> registeredApp \<Rightarrow> installedAppRef \<Rightarrow> appRelease option" where
  "installed_release r app install =
     (case map_of (a_Releases app) (i_InstalledVersion install) of
        Some release \<Rightarrow> Some release
      | None \<Rightarrow> latestVisibleRelease app (currentUserID r) (isAdmin r) (developerModeEnabled r))"

definition installed_items :: "httpReq \<Rightarrow> registryState \<Rightarrow> app_view list" where
  "installed_items r state =
     concat (map (\<lambda>(appID, install). case map_of (Apps state) appID of
          None \<Rightarrow> []
        | Some app \<Rightarrow>
            (case installed_release r app install of
               None \<Rightarrow> []
             | Some release \<Rightarrow>
                 if matchesCatalogFilters app release (Some install) r (isAdmin r)
                 then [appResponse app release (Some install)] else []))
       (by_key (userInstalls state (currentUserID r))))"

text \<open>The releases of an app, newest version string first.\<close>

definition release_items :: "httpReq \<Rightarrow> registeredApp \<Rightarrow> app_view list" where
  "release_items r app =
     (let query = to_lower (query_param r ''q'');
          status = query_param r ''review_status''
      in concat (map (\<lambda>(version, release).
           if query \<noteq> [] \<and> \<not> contains_str (to_lower (join_with '' '' [a_AppID app, a_Name app, a_Summary app,
                r_Version release, r_ReviewStatus release])) query then []
           else if status \<noteq> [] \<and> r_ReviewStatus release \<noteq> status then []
           else [appResponse app release None])
         (rev (by_key (a_Releases app)))))"

section \<open>Facts\<close>

text \<open>Someone who is neither administrator nor owner nor publisher.\<close>

definition stranger :: "httpReq \<Rightarrow> registeredApp \<Rightarrow> appRelease \<Rightarrow> bool" where
  "stranger r app release \<longleftrightarrow> \<not> isAdmin r \<and> a_OwnerUserID app \<noteq> currentUserID r
     \<and> r_PublisherUserID release \<noteq> currentUserID r"

definition published_to_all :: "httpReq \<Rightarrow> appRelease \<Rightarrow> bool" where
  "published_to_all r release \<longleftrightarrow> r_ReviewStatus release = statusApproved
     \<and> r_Visibility release = ''public'' \<and> (r_SourceType release = ''dev'' \<longrightarrow> developerModeEnabled r)"

lemma visible_iff:
  "releaseVisibleToUser app release (currentUserID r) (isAdmin r) (developerModeEnabled r) \<longleftrightarrow>
     \<not> stranger r app release \<or> published_to_all r release"
  by (auto simp: releaseVisibleToUser_def stranger_def published_to_all_def)

lemma latestVisible_visible:
  assumes "latestVisibleRelease app u admin dev = Some release"
  shows "releaseVisibleToUser app release u admin dev \<and> (\<exists>v. (v, release) \<in> set (a_Releases app))"
  using pick_latest_mem [OF assms [unfolded latestVisibleRelease_def]] by auto

lemma catalog_item_visible:
  assumes "catalog_item r installs app = Some (app', release)"
  shows "app' = app \<and> (\<exists>v. (v, release) \<in> set (a_Releases app))
    \<and> (\<not> stranger r app release \<or> published_to_all r release)"
proof -
  have "app' = app" "latestVisibleRelease app (currentUserID r) (isAdmin r) (developerModeEnabled r) = Some release"
    using assms by (auto simp: catalog_item_def split: option.splits if_splits)
  then show ?thesis using latestVisible_visible visible_iff by blast
qed

lemma appResponse_sel [simp]:
  "v_app_id (appResponse app release i) = a_AppID app"
  "v_version (appResponse app release i) = r_Version release"
  "v_review_status (appResponse app release i) = r_ReviewStatus release"
  "v_visibility (appResponse app release i) = r_Visibility release"
  "v_source_type (appResponse app release i) = r_SourceType release"
  "v_publisher_user_id (appResponse app release i) = r_PublisherUserID release"
  by (simp_all add: appResponse_def Let_def)

lemma parseLimit_bounds: "0 < n \<Longrightarrow> n \<le> 100 \<Longrightarrow> 0 < fst (parseLimitOffset r n) \<and> fst (parseLimitOffset r n) \<le> 100"
  by (auto simp: parseLimitOffset_def Let_def split: option.splits)

end
