(* ===== verification/Base64.thy ===== *)
theory Base64
  imports Prelude
begin

text \<open>
  \<open>base64.StdEncoding\<close> of Go, on byte strings: \<open>EncodeToString\<close> with padding, and
  \<open>DecodeString\<close>, which skips line breaks, wants complete padded quanta and does not check the
  unused bits of the last one.
\<close>

definition b64_char :: "nat \<Rightarrow> char" where
  "b64_char n = (if n < 26 then char_of (65 + n) else if n < 52 then char_of (71 + n)
     else if n < 62 then char_of (n - 4) else if n = 62 then CHR ''+'' else CHR ''/'')"

definition b64_value :: "char \<Rightarrow> nat option" where
  "b64_value c = (let n = (of_char c :: nat) in
     if 65 \<le> n \<and> n \<le> 90 then Some (n - 65) else if 97 \<le> n \<and> n \<le> 122 then Some (n - 71)
     else if 48 \<le> n \<and> n \<le> 57 then Some (n + 4) else if n = 43 then Some 62
     else if n = 47 then Some 63 else None)"

definition sextets :: "nat \<Rightarrow> nat \<Rightarrow> nat \<Rightarrow> nat list" where
  "sextets a b c = [a div 4, a mod 4 * 16 + b div 16, b mod 16 * 4 + c div 64, c mod 64]"

fun b64_encode :: "string \<Rightarrow> string" where
  "b64_encode [] = []"
| "b64_encode [a] = map b64_char (take 2 (sextets (of_char a) 0 0)) @ ''==''"
| "b64_encode [a, b] = map b64_char (take 3 (sextets (of_char a) (of_char b) 0)) @ ''=''"
| "b64_encode (a # b # c # rest) = map b64_char (sextets (of_char a) (of_char b) (of_char c)) @ b64_encode rest"

definition octets :: "nat \<Rightarrow> nat \<Rightarrow> nat \<Rightarrow> nat \<Rightarrow> string" where
  "octets w x y z = map char_of [w * 4 + x div 16, x mod 16 * 16 + y div 4, y mod 4 * 64 + z]"

fun b64_quanta :: "string \<Rightarrow> string option" where
  "b64_quanta [] = Some []"
| "b64_quanta (a # b # c # d # rest) =
     (case (b64_value a, b64_value b) of
        (Some w, Some x) \<Rightarrow>
          if c = CHR ''='' then (if d = CHR ''='' \<and> rest = [] then Some (take 1 (octets w x 0 0)) else None)
          else (case b64_value c of
             None \<Rightarrow> None
           | Some y \<Rightarrow>
               if d = CHR ''='' then (if rest = [] then Some (take 2 (octets w x y 0)) else None)
               else (case (b64_value d, b64_quanta rest) of
                  (Some z, Some out) \<Rightarrow> Some (octets w x y z @ out)
                | _ \<Rightarrow> None))
      | _ \<Rightarrow> None)"
| "b64_quanta _ = None"

definition b64_decode :: "string \<Rightarrow> string option" where
  "b64_decode s = b64_quanta (filter (\<lambda>c. c \<noteq> CHR 0x0D \<and> c \<noteq> CHR 0x0A) s)"

section \<open>Round trip\<close>

lemma b64_value_char:
  assumes "n < 64"
  shows "b64_value (b64_char n) = Some n" "b64_char n \<noteq> CHR ''=''"
    "b64_char n \<noteq> CHR 0x0D" "b64_char n \<noteq> CHR 0x0A"
proof -
  consider "n < 26" | "26 \<le> n" "n < 52" | "52 \<le> n" "n < 62" | "n = 62" | "n = 63"
    using assms by linarith
  then show v: "b64_value (b64_char n) = Some n"
    by cases (auto simp: b64_char_def b64_value_def of_char_of Let_def)
  have "b64_value (CHR ''='') = None" "b64_value (CHR 0x0D) = None" "b64_value (CHR 0x0A) = None"
    by code_simp+
  then show "b64_char n \<noteq> CHR ''=''" "b64_char n \<noteq> CHR 0x0D" "b64_char n \<noteq> CHR 0x0A"
    using v by auto
qed

lemma sextet_bounds:
  fixes a b c :: nat
  assumes "a < 256" "b < 256" "c < 256"
  shows "a div 4 < 64" "a mod 4 * 16 + b div 16 < 64" "b mod 16 * 4 + c div 64 < 64" "c mod 64 < 64"
  using assms by linarith+

lemma octets_sextets:
  assumes "a < 256" "b < 256" "c < 256"
  shows "octets (a div 4) (a mod 4 * 16 + b div 16) (b mod 16 * 4 + c div 64) (c mod 64) =
    [char_of a, char_of b, char_of c]"
proof -
  have "b div 16 < 16" "c div 64 < 4" using assms by linarith+
  then have "(a mod 4 * 16 + b div 16) div 16 = a mod 4" "(a mod 4 * 16 + b div 16) mod 16 = b div 16"
    "(b mod 16 * 4 + c div 64) div 4 = b mod 16" "(b mod 16 * 4 + c div 64) mod 4 = c div 64"
    by simp_all
  then show ?thesis by (simp add: octets_def)
qed

lemma b64_encode_alphabet: "c \<in> set (b64_encode s) \<Longrightarrow> c \<noteq> CHR 0x0D \<and> c \<noteq> CHR 0x0A"
proof (induction s rule: b64_encode.induct)
  case (2 a)
  then show ?case
    using b64_value_char(3,4) sextet_bounds [OF nat_of_char_less_256 [of a], of 0 0]
    by (auto simp: sextets_def)
next
  case (3 a b)
  then show ?case
    using b64_value_char(3,4) sextet_bounds [OF nat_of_char_less_256 [of a] nat_of_char_less_256 [of b], of 0]
    by (auto simp: sextets_def)
next
  case (4 a b c' rest)
  then show ?case
    using b64_value_char(3,4) sextet_bounds [OF nat_of_char_less_256 [of a] nat_of_char_less_256 [of b] nat_of_char_less_256 [of c']]
    by (auto simp: sextets_def)
qed simp

lemma b64_quanta_encode: "b64_quanta (b64_encode s) = Some s"
proof (induction s rule: b64_encode.induct)
  case (2 a)
  note b = sextet_bounds [OF nat_of_char_less_256 [of a], of 0 0]
  show ?case using octets_sextets [OF nat_of_char_less_256 [of a], of 0 0] b
    by (simp add: sextets_def b64_value_char)
next
  case (3 a b)
  note b = sextet_bounds [OF nat_of_char_less_256 [of a] nat_of_char_less_256 [of b], of 0]
  show ?case using octets_sextets [OF nat_of_char_less_256 [of a] nat_of_char_less_256 [of b], of 0] b
    by (simp add: sextets_def b64_value_char)
next
  case (4 a b c rest)
  note b = sextet_bounds [OF nat_of_char_less_256 [of a] nat_of_char_less_256 [of b] nat_of_char_less_256 [of c]]
  show ?case using octets_sextets [OF nat_of_char_less_256 [of a] nat_of_char_less_256 [of b] nat_of_char_less_256 [of c]] b 4
    by (simp add: sextets_def b64_value_char)
qed simp

lemma b64_roundtrip: "b64_decode (b64_encode s) = Some s"
proof -
  have "filter (\<lambda>c. c \<noteq> CHR 0x0D \<and> c \<noteq> CHR 0x0A) (b64_encode s) = b64_encode s"
    using b64_encode_alphabet [of _ s] by (intro filter_True) blast
  then show ?thesis by (simp only: b64_decode_def b64_quanta_encode)
qed

end
