(* ===== verification/PublisherKeys.thy ===== *)
theory PublisherKeys
  imports Catalog Base64
begin

text \<open>
  Publisher keys and release signatures (\<open>ohmf/services/apps/handlers.go\<close>).  The cryptography of
  Go's standard library is a parameter: digests, PEM and X.509 parsing, and the two signature
  checks.  The tables are the ones the statements name, with the primary key of the migration.
\<close>

datatype pubKey = RSAKey string | Ed25519Key string | OtherKey string

record crypto =
  sha256_sum :: "string \<Rightarrow> string"
  pem_decode :: "string \<Rightarrow> string option"
  parse_pkix :: "string \<Rightarrow> pubKey option"
  rsa_verify :: "string \<Rightarrow> string \<Rightarrow> string \<Rightarrow> bool"
  ed25519_verify :: "string \<Rightarrow> string \<Rightarrow> string \<Rightarrow> bool"

record keyRow =
  k_publisher_user_id :: string
  k_key_id :: string
  k_algorithm :: string
  k_public_key :: string
  k_key_fingerprint :: string
  k_is_active :: bool
  k_created_at :: time
  k_updated_at :: time
  k_revoked_at :: "time option"
  k_rotated_to_key_id :: "string option"

record keyOp =
  o_publisher_user_id :: string
  o_key_id :: string
  o_operation :: string
  o_reason :: "string option"
  o_prev_key_id :: "string option"
  o_actor_user_id :: string
  o_created_at :: time

record keyTables =
  t_keys :: "keyRow list"
  t_ops :: "keyOp list"

section \<open>Keys and signatures\<close>

definition parse_public_key :: "crypto \<Rightarrow> string \<Rightarrow> pubKey option" where
  "parse_public_key C pem = Option.bind (pem_decode C pem) (parse_pkix C)"

definition validatePublicKeyPEM :: "crypto \<Rightarrow> string \<Rightarrow> string \<Rightarrow> bool" where
  "validatePublicKeyPEM C pubKeyPEM algorithm =
     (case parse_public_key C pubKeyPEM of
        None \<Rightarrow> False
      | Some pk \<Rightarrow>
          if algorithm = ''RS256'' then (case pk of RSAKey _ \<Rightarrow> True | _ \<Rightarrow> False)
          else if algorithm = ''Ed25519'' \<or> algorithm = ''EdDSA'' then (case pk of Ed25519Key _ \<Rightarrow> True | _ \<Rightarrow> False)
          else False)"

definition computeKeyFingerprint :: "crypto \<Rightarrow> string \<Rightarrow> string" where
  "computeKeyFingerprint C pubKeyPEM = hex_encode (sha256_sum C pubKeyPEM)"

definition extractStringField :: "json gomap \<Rightarrow> string \<Rightarrow> string" where
  "extractStringField m key = (case as_str (map_of m key) of None \<Rightarrow> [] | Some s \<Rightarrow> s)"

datatype sigError = EncodingError | PEMError | KeyParseError | KeyTypeError | VerificationFailed
  | UnsupportedAlgorithm | SignatureObjectRequired | FieldsRequired | SignerKeyNotFound | SignerKeyRevoked

text \<open>The signed text is the manifest without its signature; \<open>None\<close> is Go's nil error.\<close>

definition verifyManifestSignatureWithKey ::
  "crypto \<Rightarrow> manifest \<Rightarrow> string \<Rightarrow> string \<Rightarrow> string \<Rightarrow> sigError option" where
  "verifyManifestSignatureWithKey C man pubKeyPEM alg sigBase64 =
     (let payload = marshal (JObj (filter (\<lambda>(k, v). k \<noteq> ''signature'') man)) in
      case b64_decode sigBase64 of
        None \<Rightarrow> Some EncodingError
      | Some sigBytes \<Rightarrow>
          (case pem_decode C pubKeyPEM of
             None \<Rightarrow> Some PEMError
           | Some block \<Rightarrow>
               (case parse_pkix C block of
                  None \<Rightarrow> Some KeyParseError
                | Some pk \<Rightarrow>
                    if alg = ''RS256'' then
                      (case pk of
                         RSAKey key \<Rightarrow> if rsa_verify C key (sha256_sum C payload) sigBytes then None
                                       else Some VerificationFailed
                       | _ \<Rightarrow> Some KeyTypeError)
                    else if alg = ''Ed25519'' \<or> alg = ''EdDSA'' then
                      (case pk of
                         Ed25519Key key \<Rightarrow> if ed25519_verify C key payload sigBytes then None
                                           else Some VerificationFailed
                       | _ \<Rightarrow> Some KeyTypeError)
                    else Some UnsupportedAlgorithm)))"

definition find_key :: "keyTables \<Rightarrow> string \<Rightarrow> string \<Rightarrow> keyRow option" where
  "find_key T user kid = find (\<lambda>k. k_publisher_user_id k = user \<and> k_key_id k = kid) (t_keys T)"

text \<open>\<open>verifyReleaseSignature\<close>: the key id and algorithm of the signature, empty when there is none.\<close>

definition verifyReleaseSignature ::
  "crypto \<Rightarrow> keyTables option \<Rightarrow> manifest \<Rightarrow> string \<Rightarrow> sigError + (string \<times> string)" where
  "verifyReleaseSignature C pool man publisherUserID =
     (case pool of
        None \<Rightarrow> Inr ([], [])
      | Some T \<Rightarrow>
          (case map_of man ''signature'' of
             None \<Rightarrow> Inr ([], [])
           | Some JNull \<Rightarrow> Inr ([], [])
           | Some (JObj sigMap) \<Rightarrow>
               (let alg = extractStringField sigMap ''alg''; kid = extractStringField sigMap ''kid'';
                    sigText = extractStringField sigMap ''sig''
                in if alg = [] \<or> kid = [] \<or> sigText = [] then Inl FieldsRequired
                   else (case find_key T publisherUserID kid of
                           None \<Rightarrow> Inl SignerKeyNotFound
                         | Some key \<Rightarrow>
                             if \<not> k_is_active key then Inl SignerKeyRevoked
                             else (case verifyManifestSignatureWithKey C man (k_public_key key) alg sigText of
                                     Some e \<Rightarrow> Inl e
                                   | None \<Rightarrow> Inr (kid, alg))))
           | Some _ \<Rightarrow> Inl SignatureObjectRequired))"

section \<open>The key handlers' statements\<close>

text \<open>The payloads of the key endpoints.\<close>

datatype keyReply =
    KeyError nat string string
  | KeyMethodNotAllowed
  | KeyCreated string string string time
  | KeyList "(keyRow \<times> string) list"
  | KeyRevoked
  | KeyRotated string string time

definition register_key :: "string \<Rightarrow> string \<Rightarrow> string \<Rightarrow> string \<Rightarrow> string \<Rightarrow> time \<Rightarrow> keyTables \<Rightarrow> keyTables" where
  "register_key userID keyID algorithm pubKeyPEM fingerprint now T =
     T\<lparr>t_keys := (if find_key T userID keyID \<noteq> None then t_keys T
          else t_keys T @ [\<lparr>k_publisher_user_id = userID, k_key_id = keyID, k_algorithm = algorithm,
                 k_public_key = pubKeyPEM, k_key_fingerprint = fingerprint, k_is_active = True,
                 k_created_at = now, k_updated_at = now, k_revoked_at = None, k_rotated_to_key_id = None\<rparr>]),
       t_ops := t_ops T @ [\<lparr>o_publisher_user_id = userID, o_key_id = keyID, o_operation = ''register'',
                 o_reason = None, o_prev_key_id = None, o_actor_user_id = userID, o_created_at = now\<rparr>]\<rparr>"

definition publisherRegisterKeyHandler ::
  "crypto \<Rightarrow> time \<Rightarrow> httpReq \<Rightarrow> keyTables option \<Rightarrow> keyReply \<times> keyTables option" where
  "publisherRegisterKeyHandler C now r pool =
     (if Method r \<noteq> ''POST'' then (KeyMethodNotAllowed, pool)
      else let userID = currentUserID r in
      if userID = [] then (KeyError 401 ''unauthorized'' ''missing user header'', pool)
      else let (good, vals) = decode_strings (Body r) [''key_id'', ''algorithm'', ''public_key'']
           in if \<not> good then (KeyError 400 ''invalid_request'' ''invalid body'', pool)
      else let keyID = trim_space (vals ! 0); algorithm = trim_space (vals ! 1); pubKeyPEM = trim_space (vals ! 2)
           in if keyID = [] \<or> algorithm = [] \<or> pubKeyPEM = []
              then (KeyError 400 ''invalid_request'' ''key_id, algorithm, and public_key are required'', pool)
              else if algorithm \<noteq> ''RS256'' \<and> algorithm \<noteq> ''Ed25519'' \<and> algorithm \<noteq> ''EdDSA''
              then (KeyError 400 ''invalid_request'' ''algorithm must be RS256, Ed25519, or EdDSA'', pool)
              else if \<not> validatePublicKeyPEM C pubKeyPEM algorithm
              then (KeyError 400 ''invalid_request'' ''invalid public key format for algorithm'', pool)
              else let keyFingerprint = computeKeyFingerprint C pubKeyPEM
                   in (KeyCreated keyID algorithm keyFingerprint now,
                       map_option (register_key userID keyID algorithm pubKeyPEM keyFingerprint now) pool))"

definition key_status :: "keyRow \<Rightarrow> string" where
  "key_status k = (if k_revoked_at k \<noteq> None then ''revoked'' else ''active'')"

definition publisherListKeysHandler :: "httpReq \<Rightarrow> keyTables option \<Rightarrow> keyReply" where
  "publisherListKeysHandler r pool =
     (if Method r \<noteq> ''GET'' then KeyMethodNotAllowed
      else let userID = currentUserID r in
      if userID = [] then KeyError 401 ''unauthorized'' ''missing user header''
      else case pool of
        None \<Rightarrow> KeyError 501 ''not_available'' ''publisher keys require database persistence''
      | Some T \<Rightarrow> KeyList (map (\<lambda>k. (k, key_status k))
          (sort_key (\<lambda>k. - k_created_at k) (filter (\<lambda>k. k_publisher_user_id k = userID) (t_keys T)))))"

text \<open>The conditional \<open>UPDATE\<close>; whether it affected a row.\<close>

definition revocable :: "string \<Rightarrow> string \<Rightarrow> keyRow \<Rightarrow> bool" where
  "revocable userID keyID k \<longleftrightarrow> k_publisher_user_id k = userID \<and> k_key_id k = keyID \<and> k_revoked_at k = None"

definition revoke_rows :: "string \<Rightarrow> string \<Rightarrow> time \<Rightarrow> keyRow list \<Rightarrow> keyRow list" where
  "revoke_rows userID keyID now ks = map (\<lambda>k. if revocable userID keyID k
     then k\<lparr>k_revoked_at := Some now, k_is_active := False, k_updated_at := now\<rparr> else k) ks"

definition publisherRevokeKeyHandler ::
  "time \<Rightarrow> httpReq \<Rightarrow> string \<Rightarrow> keyTables option \<Rightarrow> keyReply \<times> keyTables option" where
  "publisherRevokeKeyHandler now r keyID pool =
     (if Method r \<noteq> ''DELETE'' then (KeyMethodNotAllowed, pool)
      else let userID = currentUserID r in
      if userID = [] then (KeyError 401 ''unauthorized'' ''missing user header'', pool)
      else case pool of
        None \<Rightarrow> (KeyError 501 ''not_available'' ''key revocation requires database persistence'', pool)
      | Some T \<Rightarrow>
          let reason = trim_space (fst (string_field (Body r) ''reason''))
          in if \<not> list_ex (revocable userID keyID) (t_keys T)
             then (KeyError 404 ''not_found'' ''key not found or already revoked'', pool)
             else (KeyRevoked, Some (T\<lparr>t_keys := revoke_rows userID keyID now (t_keys T),
                t_ops := t_ops T @ [\<lparr>o_publisher_user_id = userID, o_key_id = keyID, o_operation = ''revoke'',
                  o_reason = Some reason, o_prev_key_id = None, o_actor_user_id = userID, o_created_at = now\<rparr>]\<rparr>)))"

definition publisherRotateKeyHandler ::
  "time \<Rightarrow> httpReq \<Rightarrow> string \<Rightarrow> keyTables option \<Rightarrow> keyReply \<times> keyTables option" where
  "publisherRotateKeyHandler now r oldKeyID pool =
     (if Method r \<noteq> ''POST'' then (KeyMethodNotAllowed, pool)
      else let userID = currentUserID r in
      if userID = [] then (KeyError 401 ''unauthorized'' ''missing user header'', pool)
      else case pool of
        None \<Rightarrow> (KeyError 501 ''not_available'' ''key rotation requires database persistence'', pool)
      | Some T \<Rightarrow>
          let (good, vals) = decode_strings (Body r) [''new_key_id''] in
          if \<not> good then (KeyError 400 ''invalid_request'' ''invalid body'', pool)
          else let newKeyID = trim_space (vals ! 0) in
          if newKeyID = [] then (KeyError 400 ''invalid_request'' ''new_key_id is required'', pool)
          else if \<not> list_ex (\<lambda>k. k_publisher_user_id k = userID \<and> k_key_id k = oldKeyID \<and> k_is_active k) (t_keys T)
          then (KeyError 404 ''not_found'' ''old key not found or inactive'', pool)
          else if find_key T userID newKeyID = None
          then (KeyError 400 ''invalid_request'' ''new key not found for this publisher'', pool)
          else (KeyRotated oldKeyID newKeyID now, Some (T\<lparr>
             t_keys := map (\<lambda>k. if k_publisher_user_id k = userID \<and> k_key_id k = oldKeyID
               then k\<lparr>k_rotated_to_key_id := Some newKeyID, k_updated_at := now\<rparr> else k) (t_keys T),
             t_ops := t_ops T @ [\<lparr>o_publisher_user_id = userID, o_key_id = newKeyID, o_operation = ''rotate_to'',
               o_reason = None, o_prev_key_id = Some oldKeyID, o_actor_user_id = userID, o_created_at = now\<rparr>]\<rparr>)))"

end
