(* ===== verification/PublisherKeyProps.thy ===== *)
theory PublisherKeyProps
  imports PublisherKeys
begin

text \<open>
  The key tables as a state machine over the three handlers that write them, and what a signature
  check guarantees.
\<close>

inductive key_step :: "crypto \<Rightarrow> string \<Rightarrow> keyTables \<Rightarrow> keyTables \<Rightarrow> bool" for C where
  key_register: "publisherRegisterKeyHandler C now r (Some T) = (reply, Some T') \<Longrightarrow>
     key_step C (currentUserID r) T T'"
| key_revoke: "publisherRevokeKeyHandler now r keyID (Some T) = (reply, Some T') \<Longrightarrow>
     key_step C (currentUserID r) T T'"
| key_rotate: "publisherRotateKeyHandler now r keyID (Some T) = (reply, Some T') \<Longrightarrow>
     key_step C (currentUserID r) T T'"

inductive key_run :: "crypto \<Rightarrow> keyTables \<Rightarrow> keyTables \<Rightarrow> bool" for C where
  key_run_refl: "key_run C T T"
| key_run_step: "key_run C T T' \<Longrightarrow> key_step C u T' T'' \<Longrightarrow> key_run C T T''"

text \<open>What each handler may have done to the rows.\<close>

lemma register_effect:
  assumes "publisherRegisterKeyHandler C now r (Some T) = (reply, Some T')"
  shows "t_keys T' = t_keys T \<or> (\<exists>keyID alg pem. find_key T (currentUserID r) keyID = None
     \<and> validatePublicKeyPEM C pem alg \<and> t_keys T' = t_keys T @ [\<lparr>k_publisher_user_id = currentUserID r,
         k_key_id = keyID, k_algorithm = alg, k_public_key = pem, k_key_fingerprint = computeKeyFingerprint C pem,
         k_is_active = True, k_created_at = now, k_updated_at = now, k_revoked_at = None,
         k_rotated_to_key_id = None\<rparr>])"
  using assms
  by (auto simp: publisherRegisterKeyHandler_def Let_def register_key_def split: if_splits prod.splits)

lemma revoke_effect:
  assumes "publisherRevokeKeyHandler now r keyID (Some T) = (reply, Some T')"
  shows "t_keys T' = t_keys T \<or> t_keys T' = revoke_rows (currentUserID r) keyID now (t_keys T)"
  using assms
  by (auto simp: publisherRevokeKeyHandler_def Let_def split: if_splits)

lemma rotate_effect:
  assumes "publisherRotateKeyHandler now r keyID (Some T) = (reply, Some T')"
  shows "t_keys T' = t_keys T \<or> (\<exists>newID. t_keys T' =
    map (\<lambda>k. if k_publisher_user_id k = currentUserID r \<and> k_key_id k = keyID
         then k\<lparr>k_rotated_to_key_id := Some newID, k_updated_at := now\<rparr> else k) (t_keys T))"
  using assms
  by (auto simp: publisherRotateKeyHandler_def Let_def split: if_splits prod.splits)

text \<open>A step acts on each row by a function that keeps its identity and key material, and appends
  at most a fresh row of the caller.\<close>

definition same_key :: "keyRow \<Rightarrow> keyRow \<Rightarrow> bool" where
  "same_key k k' \<longleftrightarrow> k_publisher_user_id k' = k_publisher_user_id k \<and> k_key_id k' = k_key_id k
     \<and> k_algorithm k' = k_algorithm k \<and> k_public_key k' = k_public_key k
     \<and> k_key_fingerprint k' = k_key_fingerprint k
     \<and> (k_revoked_at k \<noteq> None \<and> \<not> k_is_active k \<longrightarrow> k_revoked_at k' = k_revoked_at k \<and> \<not> k_is_active k')"

lemma same_key_refl [simp]: "same_key k k"
  by (simp add: same_key_def)

lemma same_key_trans: "same_key a b \<Longrightarrow> same_key b c \<Longrightarrow> same_key a c"
  by (auto simp: same_key_def)

lemma find_mem: "find P xs = Some x \<Longrightarrow> x \<in> set xs \<and> P x"
  by (induction xs) (auto split: if_splits)

lemma find_map_same:
  assumes "\<And>k. P (f k) = P k"
  shows "find P (map f ks) = map_option f (find P ks)"
  by (induction ks) (auto simp: assms)

lemma find_key_map:
  assumes "\<And>k. same_key k (f k)" and "t_keys T' = map f (t_keys T)"
  shows "find_key T' u kid = map_option f (find_key T u kid)"
  unfolding find_key_def assms(2)
  by (rule find_map_same) (use assms(1) in \<open>auto simp: same_key_def\<close>)

lemma key_step_find:
  assumes "key_step C u T T'" and "find_key T user kid = Some k"
  shows "\<exists>k'. find_key T' user kid = Some k' \<and> same_key k k' \<and> (user \<noteq> u \<longrightarrow> k' = k)"
  using assms
proof (induction rule: key_step.induct)
  case (key_register now r T reply T')
  then show ?case using register_effect [OF key_register(1)]
    by (auto simp: find_key_def find_append)
next
  case (key_revoke now r keyID T reply T')
  from revoke_effect [OF key_revoke(1)] show ?case
  proof
    assume "t_keys T' = t_keys T"
    then show ?thesis using key_revoke.prems by (simp add: find_key_def)
  next
    assume t: "t_keys T' = revoke_rows (currentUserID r) keyID now (t_keys T)"
    let ?f = "\<lambda>k. if revocable (currentUserID r) keyID k
       then k\<lparr>k_revoked_at := Some now, k_is_active := False, k_updated_at := now\<rparr> else k"
    have f: "same_key k (?f k)" for k by (auto simp: same_key_def revocable_def)
    have "find_key T' user kid = Some (?f k)"
      using find_key_map [of ?f, OF f t [unfolded revoke_rows_def]] key_revoke.prems by simp
    moreover have "user \<noteq> currentUserID r \<longrightarrow> ?f k = k"
      using key_revoke.prems by (auto simp: revocable_def find_key_def find_Some_iff)
    ultimately show ?thesis using f [of k] by (intro exI [of _ "?f k"] conjI)
  qed
next
  case (key_rotate now r keyID T reply T')
  from rotate_effect [OF key_rotate(1)] show ?case
  proof (elim disjE exE)
    assume "t_keys T' = t_keys T"
    then show ?thesis using key_rotate.prems by (simp add: find_key_def)
  next
    fix newID
    let ?f = "\<lambda>k. if k_publisher_user_id k = currentUserID r \<and> k_key_id k = keyID
         then k\<lparr>k_rotated_to_key_id := Some newID, k_updated_at := now\<rparr> else k"
    assume t: "t_keys T' = map ?f (t_keys T)"
    have f: "same_key k (?f k)" for k by (simp add: same_key_def)
    have "find_key T' user kid = Some (?f k)"
      using find_key_map [of ?f, OF f t] key_rotate.prems by simp
    moreover have "user \<noteq> currentUserID r \<longrightarrow> ?f k = k"
      using key_rotate.prems by (auto simp: find_key_def find_Some_iff)
    ultimately show ?thesis using f [of k] by (intro exI [of _ "?f k"] conjI)
  qed
qed

lemma key_run_find:
  "key_run C T T' \<Longrightarrow> find_key T user kid = Some k \<Longrightarrow> \<exists>k'. find_key T' user kid = Some k' \<and> same_key k k'"
proof (induction rule: key_run.induct)
  case (key_run_step T T' u T'')
  from key_run_step.IH [OF key_run_step.prems] obtain k' where
    k': "find_key T' user kid = Some k'" "same_key k k'" by (elim exE conjE)
  from key_step_find [OF key_run_step.hyps(2) k'(1)] obtain k'' where
    "find_key T'' user kid = Some k''" "same_key k' k''" by (elim exE conjE)
  then show ?case using same_key_trans [OF k'(2)] by metis
qed simp

section \<open>Signatures\<close>

text \<open>The signed text of a manifest.\<close>

definition signed_payload :: "manifest \<Rightarrow> string" where
  "signed_payload man = marshal (JObj (filter (\<lambda>(k, v). k \<noteq> ''signature'') man))"

lemma verify_sound:
  assumes "verifyManifestSignatureWithKey C man pem alg sigText = None"
  shows "\<exists>bytes key. b64_decode sigText = Some bytes \<and>
     (parse_public_key C pem = Some (RSAKey key) \<and> rsa_verify C key (sha256_sum C (signed_payload man)) bytes
    \<or> parse_public_key C pem = Some (Ed25519Key key) \<and> ed25519_verify C key (signed_payload man) bytes)"
  using assms
  by (auto simp: verifyManifestSignatureWithKey_def parse_public_key_def signed_payload_def Let_def
      split: option.splits pubKey.splits if_splits)

lemma verifyRelease_cases:
  assumes "verifyReleaseSignature C (Some T) man user = Inr (kid, alg)" and "kid \<noteq> []"
  obtains sigMap key where "map_of man ''signature'' = Some (JObj sigMap)"
    and "find_key T user kid = Some key" and "k_is_active key"
    and "verifyManifestSignatureWithKey C man (k_public_key key) alg (extractStringField sigMap ''sig'') = None"
  using assms
  by (auto simp: verifyReleaseSignature_def Let_def split: option.splits json.splits if_splits)

text \<open>A release signature is accepted only when the publisher has registered the named key, the
  key is active, and the key's own check accepts the decoded signature for the manifest without
  its signature member.\<close>

theorem release_signature_sound:
  assumes "verifyReleaseSignature C (Some T) man user = Inr (kid, alg)" and "kid \<noteq> []"
  shows "\<exists>key sigMap bytes mat. find_key T user kid = Some key \<and> k_is_active key
     \<and> map_of man ''signature'' = Some (JObj sigMap) \<and> b64_decode (extractStringField sigMap ''sig'') = Some bytes
     \<and> (parse_public_key C (k_public_key key) = Some (RSAKey mat)
          \<and> rsa_verify C mat (sha256_sum C (signed_payload man)) bytes
        \<or> parse_public_key C (k_public_key key) = Some (Ed25519Key mat)
          \<and> ed25519_verify C mat (signed_payload man) bytes)"
proof -
  obtain sigMap key where s: "map_of man ''signature'' = Some (JObj sigMap)"
    "find_key T user kid = Some key" "k_is_active key"
    and v: "verifyManifestSignatureWithKey C man (k_public_key key) alg (extractStringField sigMap ''sig'') = None"
    by (rule verifyRelease_cases [OF assms])
  show ?thesis using verify_sound [OF v] s by blast
qed

definition toy_crypto :: crypto where
  "toy_crypto = \<lparr>sha256_sum = rev, pem_decode = (\<lambda>s. Some s),
     parse_pkix = (\<lambda>s. Some (if take 1 s = ''R'' then RSAKey s else Ed25519Key s)),
     rsa_verify = (\<lambda>k h sg. sg = k @ h), ed25519_verify = (\<lambda>k m sg. sg = k @ m)\<rparr>"

definition toy_keys :: keyTables where
  "toy_keys = \<lparr>t_keys = [\<lparr>k_publisher_user_id = ''al'', k_key_id = ''k1'', k_algorithm = ''EdDSA'',
      k_public_key = ''E'', k_key_fingerprint = computeKeyFingerprint toy_crypto ''E'', k_is_active = True,
      k_created_at = 1, k_updated_at = 1, k_revoked_at = None, k_rotated_to_key_id = None\<rparr>], t_ops = []\<rparr>"

definition toy_signed :: manifest where
  "toy_signed = [(''signature'', JObj [(''alg'', JStr ''EdDSA''), (''kid'', JStr ''k1''),
     (''sig'', JStr (b64_encode (''E'' @ marshal (JObj []))))])]"

theorem release_signature_sound_witness:
  "\<exists>key. find_key toy_keys ''al'' ''k1'' = Some key \<and> k_is_active key"
proof -
  have "verifyReleaseSignature toy_crypto (Some toy_keys) toy_signed ''al'' = Inr (''k1'', ''EdDSA'')"
    by code_simp
  from release_signature_sound [OF this] show ?thesis by blast
qed


definition toy_revoke_req :: httpReq where
  "toy_revoke_req = \<lparr>Method = ''DELETE'', Path = ''v1/publisher/keys/k1'', Query = [],
     Header = [(''X-User-Id'', ''al'')], Body = None\<rparr>"


text \<open>A key, once registered, keeps its algorithm, key and fingerprint for good, and nobody but
  its publisher can change its row.  A second registration under the same id is answered with
  success and with the fingerprint of the new key, although the old key stays.\<close>

theorem key_registration_first_wins:
  assumes "find_key T user kid = Some k"
  shows "(key_run C T T' \<longrightarrow> (\<exists>k'. find_key T' user kid = Some k' \<and> same_key k k'))
   \<and> (key_step C other T T' \<and> other \<noteq> user \<longrightarrow> find_key T' user kid = Some k)
   \<and> find_key (register_key user kid alg pem fp now T) user kid = Some k"
  using assms key_run_find [of C T T' user kid k] key_step_find [of C other T T' user kid k]
  by (auto simp: register_key_def) (auto simp: find_key_def)

theorem key_registration_first_wins_witness:
  "find_key (register_key ''al'' ''k1'' ''EdDSA'' ''other'' ''fp'' 3 toy_keys) ''al'' ''k1'' =
     find_key toy_keys ''al'' ''k1''"
proof -
  have "find_key toy_keys ''al'' ''k1'' \<noteq> None" by code_simp
  then obtain k where k: "find_key toy_keys ''al'' ''k1'' = Some k" by blast
  show ?thesis unfolding k
    by (rule key_registration_first_wins [OF k, THEN conjunct2, THEN conjunct2])
qed

end
