(* ===== verification/AppsHandlers.thy ===== *)
theory AppsHandlers
  imports PublisherKeys
begin

text \<open>
  The HTTP handlers of the apps service and their routing (\<open>ohmf/services/apps/handlers.go\<close>).  A
  handler takes the server and a request and returns the reply and the server afterwards; a
  run-time panic of a handler is the reply \<open>Panicked\<close>, with nothing written.
\<close>

section \<open>The server\<close>

text \<open>\<open>appsServer\<close>: the data file and, when a pool is configured, the database.\<close>

record appsServer =
  s_file :: registryFile
  s_pool :: "(registryDb \<times> keyTables) option"

text \<open>What the environment supplies: cryptography, Postgres and the time of the request.\<close>

record env =
  env_crypto :: crypto
  env_pg :: pg
  env_now :: time

abbreviation env_sha256 :: "env \<Rightarrow> string \<Rightarrow> string" where
  "env_sha256 E \<equiv> sha256_sum (env_crypto E)"

definition loadState :: "env \<Rightarrow> appsServer \<Rightarrow> registryState option" where
  "loadState E s = (case s_pool s of
      Some (db, _) \<Rightarrow> loadStateFromQuerier (env_pg E) db
    | None \<Rightarrow> loadStateFileLocked (s_file s))"

definition mutateServer ::
  "env \<Rightarrow> 'x mutation \<Rightarrow> appsServer \<Rightarrow> (mutateError + (registryState \<times> 'x)) \<times> appsServer" where
  "mutateServer E mutate s = (case s_pool s of
      None \<Rightarrow> (case mutateStateFile mutate (s_file s) of (res, f) \<Rightarrow> (res, s\<lparr>s_file := f\<rparr>))
    | Some (db, keys) \<Rightarrow>
        (case mutateStateDb (env_pg E) (env_now E) mutate db of
           (res, db') \<Rightarrow> (res, s\<lparr>s_pool := Some (db', keys)\<rparr>)))"

section \<open>Replies\<close>

record updates_view =
  u_app_id :: string
  u_installed_version :: string
  u_latest_version :: string
  u_latest_approved_version :: string
  u_update_available :: bool
  u_update_requires_consent :: bool
  u_permission_delta :: "string list \<times> string list"

datatype reply =
    ErrorJSON nat string string
  | MethodNotAllowed
  | NotFound
  | NoContent
  | AppReply nat app_view bool
  | AppRecord nat registeredApp
  | ListReply "app_view list" string nat
  | UpdatesReply updates_view
  | KeyReply keyReply
  | Panicked

text \<open>\<open>respondRegistryError\<close>; the text of a store error is not modelled.\<close>

definition respondRegistryError :: "mutateError \<Rightarrow> reply" where
  "respondRegistryError e = (case e of
      Rejected (ApiError status code message) \<Rightarrow> ErrorJSON status code message
    | Rejected Panic \<Rightarrow> Panicked
    | StoreError \<Rightarrow> ErrorJSON 500 ''internal_error'' [])"

definition load_failed :: reply where
  "load_failed = ErrorJSON 500 ''load_failed'' []"

definition unauthorized :: reply where
  "unauthorized = ErrorJSON 401 ''unauthorized'' ''missing user header''"

text \<open>The reply for one release of an app; indexing a missing one is a nil dereference.\<close>

definition app_reply ::
  "nat \<Rightarrow> registryState \<Rightarrow> string \<Rightarrow> (registeredApp \<Rightarrow> appRelease option) \<Rightarrow> installedAppRef option \<Rightarrow> bool \<Rightarrow> reply" where
  "app_reply status state appID pick install note = (case map_of (Apps state) appID of
      None \<Rightarrow> Panicked
    | Some app \<Rightarrow> (case pick app of None \<Rightarrow> Panicked
                   | Some release \<Rightarrow> AppReply status (appResponse app release install) note))"

section \<open>Publishing\<close>

definition registerHandler :: "env \<Rightarrow> httpReq \<Rightarrow> appsServer \<Rightarrow> reply \<times> appsServer" where
  "registerHandler E r s =
     (if Method r \<noteq> ''POST'' then (MethodNotAllowed, s)
      else let userID = (if currentUserID r = [] then ''dev-bootstrap'' else currentUserID r) in
      case decodeManifestPayload r of
        None \<Rightarrow> (ErrorJSON 400 ''invalid_request'' ''invalid manifest payload'', s)
      | Some man \<Rightarrow>
          (case validateManifest man of
             Some err \<Rightarrow> (ErrorJSON 400 ''invalid_manifest'' err, s)
           | None \<Rightarrow>
               (case mutateServer E (registerMutate (env_sha256 E) userID (isAdmin r) man (env_now E)) s of
                  (Inl e, s') \<Rightarrow> (respondRegistryError e, s')
                | (Inr (state, createdStatus), s') \<Rightarrow>
                    (let appID = stringField man ''app_id'' in
                     app_reply createdStatus state appID
                       (\<lambda>app. map_of (a_Releases app) (stringField man ''version''))
                       (map_of (userInstalls state (currentUserID r)) appID) False, s'))))"

definition publisherCreateAppHandler :: "env \<Rightarrow> httpReq \<Rightarrow> appsServer \<Rightarrow> reply \<times> appsServer" where
  "publisherCreateAppHandler E r s =
     (if Method r \<noteq> ''POST'' then (MethodNotAllowed, s)
      else let userID = currentUserID r in
      if userID = [] then (unauthorized, s)
      else let (good, vals) = decode_strings (Body r) [''app_id'', ''name'', ''summary'', ''visibility''] in
      if \<not> good then (ErrorJSON 400 ''invalid_request'' ''invalid body'', s)
      else if trim_space (vals ! 0) = [] \<or> trim_space (vals ! 1) = []
      then (ErrorJSON 400 ''invalid_request'' ''app_id and name are required'', s)
      else let appID = trim_space (vals ! 0) in
        (case mutateServer E (createAppMutate userID appID (vals ! 1) (vals ! 2) (vals ! 3) (env_now E)) s of
           (Inl e, s') \<Rightarrow> (respondRegistryError e, s')
         | (Inr (state, _), s') \<Rightarrow>
             (case map_of (Apps state) appID of
                None \<Rightarrow> (Panicked, s')
              | Some app \<Rightarrow> (AppRecord 201 app, s'))))"

definition publisherCreateReleaseHandler :: "env \<Rightarrow> httpReq \<Rightarrow> string \<Rightarrow> appsServer \<Rightarrow> reply \<times> appsServer" where
  "publisherCreateReleaseHandler E r appID s =
     (if Method r \<noteq> ''POST'' then (MethodNotAllowed, s)
      else let userID = currentUserID r in
      if userID = [] then (unauthorized, s)
      else case decodeManifestPayload r of
        None \<Rightarrow> (ErrorJSON 400 ''invalid_request'' ''invalid manifest payload'', s)
      | Some man \<Rightarrow>
          if stringField man ''app_id'' \<noteq> appID
          then (ErrorJSON 400 ''invalid_request'' ''manifest app_id must match route'', s)
          else (case validateManifest man of
             Some err \<Rightarrow> (ErrorJSON 400 ''invalid_manifest'' err, s)
           | None \<Rightarrow>
               (case mutateServer E (createReleaseMutate (env_sha256 E) userID (isAdmin r) appID man (env_now E)) s of
                  (Inl e, s') \<Rightarrow> (respondRegistryError e, s')
                | (Inr (state, _), s') \<Rightarrow>
                    (app_reply 201 state appID
                       (\<lambda>app. map_of (a_Releases app) (stringField man ''version'')) None False, s'))))"

section \<open>Installing\<close>

definition installAppHandler :: "env \<Rightarrow> httpReq \<Rightarrow> string \<Rightarrow> appsServer \<Rightarrow> reply \<times> appsServer" where
  "installAppHandler E r appID s =
     (if Method r \<noteq> ''POST'' then (MethodNotAllowed, s)
      else let userID = currentUserID r in
      if userID = [] then (unauthorized, s)
      else let acceptPermissionChanges = fst (bool_field (Body r) ''accept_permission_changes'') in
        (case mutateServer E (installMutate userID appID acceptPermissionChanges (env_now E)) s of
           (Inl e, s') \<Rightarrow> (respondRegistryError e, s')
         | (Inr (state, consentRequired), s') \<Rightarrow>
             (app_reply 200 state appID latestApprovedRelease
                (map_of (userInstalls state userID) appID) consentRequired, s')))"

definition uninstallAppHandler :: "env \<Rightarrow> httpReq \<Rightarrow> string \<Rightarrow> appsServer \<Rightarrow> reply \<times> appsServer" where
  "uninstallAppHandler E r appID s =
     (if Method r \<noteq> ''DELETE'' then (MethodNotAllowed, s)
      else let userID = currentUserID r in
      if userID = [] then (unauthorized, s)
      else (case mutateServer E (uninstallMutate userID appID (env_now E)) s of
           (Inl e, s') \<Rightarrow> (respondRegistryError e, s')
         | (Inr _, s') \<Rightarrow> (NoContent, s')))"

section \<open>Reading\<close>

definition list_reply :: "httpReq \<Rightarrow> app_view list \<Rightarrow> reply" where
  "list_reply r items = (case parseLimitOffset r 50 of (limit, offset) \<Rightarrow>
     (case page_of limit offset items of (page, cursor, n) \<Rightarrow> ListReply page cursor n))"

definition listAppsHandler :: "env \<Rightarrow> httpReq \<Rightarrow> appsServer \<Rightarrow> reply" where
  "listAppsHandler E r s =
     (if Method r \<noteq> ''GET'' then MethodNotAllowed
      else case loadState E s of
        None \<Rightarrow> load_failed
      | Some state \<Rightarrow> list_reply r (catalog_items r state))"

definition getAppHandler :: "env \<Rightarrow> httpReq \<Rightarrow> string \<Rightarrow> appsServer \<Rightarrow> reply" where
  "getAppHandler E r appID s =
     (case loadState E s of
        None \<Rightarrow> load_failed
      | Some state \<Rightarrow>
          (case map_of (Apps state) appID of
             None \<Rightarrow> ErrorJSON 404 ''not_found'' ''app not found''
           | Some app \<Rightarrow>
               (case latestVisibleRelease app (currentUserID r) (isAdmin r) (developerModeEnabled r) of
                  None \<Rightarrow> ErrorJSON 404 ''not_found'' ''app not found''
                | Some release \<Rightarrow> AppReply 200 (appResponse app release
                    (map_of (userInstalls state (currentUserID r)) appID)) False)))"

definition listInstalledHandler :: "env \<Rightarrow> httpReq \<Rightarrow> appsServer \<Rightarrow> reply" where
  "listInstalledHandler E r s =
     (if Method r \<noteq> ''GET'' then MethodNotAllowed
      else if currentUserID r = [] then unauthorized
      else case loadState E s of
        None \<Rightarrow> load_failed
      | Some state \<Rightarrow> list_reply r (installed_items r state))"

definition appUpdatesHandler :: "env \<Rightarrow> httpReq \<Rightarrow> string \<Rightarrow> appsServer \<Rightarrow> reply" where
  "appUpdatesHandler E r appID s =
     (if Method r \<noteq> ''GET'' then MethodNotAllowed
      else if currentUserID r = [] then unauthorized
      else case loadState E s of
        None \<Rightarrow> load_failed
      | Some state \<Rightarrow>
          (case map_of (Apps state) appID of
             None \<Rightarrow> ErrorJSON 404 ''not_found'' ''app not found''
           | Some app \<Rightarrow>
               (let install = map_of (userInstalls state (currentUserID r)) appID;
                    latest = latestApprovedRelease app;
                    installed = (case install of None \<Rightarrow> [] | Some i \<Rightarrow> i_InstalledVersion i);
                    latestVersion = (case latest of None \<Rightarrow> [] | Some rel \<Rightarrow> r_Version rel);
                    delta = (if install \<noteq> None \<and> latest \<noteq> None \<and> installed \<noteq> []
                             then permissionDelta (map_of (a_Releases app) installed) latest else ([], []))
                in UpdatesReply \<lparr>u_app_id = appID, u_installed_version = installed,
                     u_latest_version = latestVersion, u_latest_approved_version = latestVersion,
                     u_update_available = (latest \<noteq> None \<and> install \<noteq> None \<and> installed \<noteq> latestVersion),
                     u_update_requires_consent = (fst delta \<noteq> []), u_permission_delta = delta\<rparr>)))"

definition publisherListReleasesHandler :: "env \<Rightarrow> httpReq \<Rightarrow> string \<Rightarrow> appsServer \<Rightarrow> reply" where
  "publisherListReleasesHandler E r appID s =
     (if Method r \<noteq> ''GET'' then MethodNotAllowed
      else if currentUserID r = [] then unauthorized
      else case loadState E s of
        None \<Rightarrow> load_failed
      | Some state \<Rightarrow>
          (case map_of (Apps state) appID of
             None \<Rightarrow> ErrorJSON 404 ''not_found'' ''app not found''
           | Some app \<Rightarrow>
               if a_OwnerUserID app \<noteq> currentUserID r \<and> \<not> isAdmin r
               then ErrorJSON 403 ''forbidden'' ''publisher does not own app''
               else list_reply r (release_items r app)))"

section \<open>Review\<close>

definition transitionRelease ::
  "env \<Rightarrow> httpReq \<Rightarrow> string \<Rightarrow> string \<Rightarrow> string \<Rightarrow> string \<Rightarrow> bool \<Rightarrow> appsServer \<Rightarrow> reply \<times> appsServer" where
  "transitionRelease E r appID version nextStatus reviewNote adminOnly s =
     (if Method r \<noteq> ''POST'' then (MethodNotAllowed, s)
      else let userID = currentUserID r in
      if userID = [] then (unauthorized, s)
      else (case mutateServer E (transitionMutate (env_sha256 E) userID (isAdmin r) appID version nextStatus
                   reviewNote adminOnly (env_now E)) s of
           (Inl e, s') \<Rightarrow> (respondRegistryError e, s')
         | (Inr (state, _), s') \<Rightarrow>
             (app_reply 200 state appID (\<lambda>app. map_of (a_Releases app) version)
                (map_of (userInstalls state userID) appID) False, s')))"

definition publisherSubmitReleaseHandler :: "env \<Rightarrow> httpReq \<Rightarrow> string \<Rightarrow> string \<Rightarrow> appsServer \<Rightarrow> reply \<times> appsServer" where
  "publisherSubmitReleaseHandler E r appID version s = transitionRelease E r appID version statusSubmitted [] False s"

definition publisherRevokeReleaseHandler :: "env \<Rightarrow> httpReq \<Rightarrow> string \<Rightarrow> string \<Rightarrow> appsServer \<Rightarrow> reply \<times> appsServer" where
  "publisherRevokeReleaseHandler E r appID version s = transitionRelease E r appID version statusRevoked [] False s"

definition adminApproveReleaseHandler :: "env \<Rightarrow> httpReq \<Rightarrow> string \<Rightarrow> string \<Rightarrow> appsServer \<Rightarrow> reply \<times> appsServer" where
  "adminApproveReleaseHandler E r appID version s =
     (if \<not> isAdmin r then (ErrorJSON 403 ''forbidden'' ''admin role required'', s)
      else case loadState E s of
        None \<Rightarrow> (load_failed, s)
      | Some state \<Rightarrow>
          (case map_of (Apps state) appID of
             None \<Rightarrow> (ErrorJSON 404 ''not_found'' ''app not found'', s)
           | Some app \<Rightarrow>
               (case map_of (a_Releases app) version of
                  None \<Rightarrow> (ErrorJSON 404 ''not_found'' ''release not found'', s)
                | Some release \<Rightarrow>
                    if r_SourceType release \<noteq> ''dev'' \<and> s_pool s \<noteq> None \<and>
                       isl (verifyReleaseSignature (env_crypto E) (map_option snd (s_pool s))
                             (r_Manifest release) (r_PublisherUserID release))
                    then (ErrorJSON 400 ''signature_invalid'' ''production release requires valid signature'', s)
                    else transitionRelease E r appID version statusApproved [] True s)))"

definition reason_of :: "httpReq \<Rightarrow> string" where
  "reason_of r = fst (string_field (Body r) ''reason'')"

definition admin_transition :: "string \<Rightarrow> env \<Rightarrow> httpReq \<Rightarrow> string \<Rightarrow> string \<Rightarrow> appsServer \<Rightarrow> reply \<times> appsServer" where
  "admin_transition nextStatus E r appID version s =
     (if \<not> isAdmin r then (ErrorJSON 403 ''forbidden'' ''admin role required'', s)
      else transitionRelease E r appID version nextStatus (reason_of r) True s)"

definition adminRejectReleaseHandler :: "env \<Rightarrow> httpReq \<Rightarrow> string \<Rightarrow> string \<Rightarrow> appsServer \<Rightarrow> reply \<times> appsServer" where
  "adminRejectReleaseHandler = admin_transition statusRejected"

definition adminStartReviewHandler :: "env \<Rightarrow> httpReq \<Rightarrow> string \<Rightarrow> string \<Rightarrow> appsServer \<Rightarrow> reply \<times> appsServer" where
  "adminStartReviewHandler = admin_transition statusUnderReview"

definition adminNeedsChangesReleaseHandler :: "env \<Rightarrow> httpReq \<Rightarrow> string \<Rightarrow> string \<Rightarrow> appsServer \<Rightarrow> reply \<times> appsServer" where
  "adminNeedsChangesReleaseHandler = admin_transition statusNeedsChanges"

definition adminSuspendReleaseHandler :: "env \<Rightarrow> httpReq \<Rightarrow> string \<Rightarrow> string \<Rightarrow> appsServer \<Rightarrow> reply \<times> appsServer" where
  "adminSuspendReleaseHandler = admin_transition statusSuspended"


section \<open>Routing\<close>

text \<open>\<open>strings.Trim(s, "/")\<close> and \<open>strings.Split\<close> with a separator that is not empty.\<close>

definition trim_slashes :: "string \<Rightarrow> string" where
  "trim_slashes s = rev (dropWhile (\<lambda>c. c = CHR ''/'') (rev (dropWhile (\<lambda>c. c = CHR ''/'') s)))"

fun split_aux :: "nat \<Rightarrow> string \<Rightarrow> string \<Rightarrow> string \<Rightarrow> string list" where
  "split_aux skip sep acc [] = [rev acc]"
| "split_aux (Suc skip) sep acc (c # cs) = split_aux skip sep acc cs"
| "split_aux 0 sep acc (c # cs) =
     (if has_prefix (c # cs) sep then rev acc # split_aux (length sep - 1) sep [] cs
      else split_aux 0 sep (c # acc) cs)"

definition split_str :: "string \<Rightarrow> string \<Rightarrow> string list" where
  "split_str s sep = split_aux 0 sep [] s"

text \<open>\<open>parts[0]\<close> and \<open>TrimSuffix(parts[1], suf)\<close>; indexing a missing part panics.\<close>

definition release_route :: "string \<Rightarrow> string \<Rightarrow> string \<Rightarrow> (string \<times> string) option" where
  "release_route pre suf path =
     (case split_str (trim_prefix path pre) ''/releases/'' of
        a # b # _ \<Rightarrow> Some (a, trim_suffix b suf)
      | _ \<Rightarrow> None)"

definition on_release ::
  "string \<Rightarrow> string \<Rightarrow> string \<Rightarrow> (string \<Rightarrow> string \<Rightarrow> appsServer \<Rightarrow> reply \<times> appsServer) \<Rightarrow> appsServer \<Rightarrow> reply \<times> appsServer" where
  "on_release pre suf path handler s = (case release_route pre suf path of
      None \<Rightarrow> (Panicked, s)
    | Some (appID, version) \<Rightarrow> handler appID version s)"

definition is_release_path :: "string \<Rightarrow> string \<Rightarrow> string \<Rightarrow> bool" where
  "is_release_path pre suf path \<longleftrightarrow>
     has_prefix path pre \<and> contains_str path ''/releases/'' \<and> has_suffix path suf"

definition on_keys ::
  "(keyTables option \<Rightarrow> keyReply \<times> keyTables option) \<Rightarrow> appsServer \<Rightarrow> reply \<times> appsServer" where
  "on_keys handler s = (case handler (map_option snd (s_pool s)) of
      (rep, keys) \<Rightarrow> (KeyReply rep, s\<lparr>s_pool := (case (s_pool s, keys) of
         (Some (db, _), Some T) \<Rightarrow> Some (db, T) | _ \<Rightarrow> s_pool s)\<rparr>))"

definition route :: "env \<Rightarrow> httpReq \<Rightarrow> appsServer \<Rightarrow> reply \<times> appsServer" where
  "route E r s =
     (let path = trim_slashes (trim_space (Path r)); pub = ''v1/publisher/apps/''; adm = ''v1/admin/apps/'' in
      if path = ''v1/apps/register'' then registerHandler E r s
      else if path = ''v1/apps'' then (listAppsHandler E r s, s)
      else if path = ''v1/apps/installed'' then (listInstalledHandler E r s, s)
      else if has_prefix path ''v1/apps/'' \<and> has_suffix path ''/install'' then
        (let appID = trim_suffix (trim_prefix path ''v1/apps/'') ''/install'' in
         if Method r = ''POST'' then installAppHandler E r appID s
         else if Method r = ''DELETE'' then uninstallAppHandler E r appID s
         else (MethodNotAllowed, s))
      else if has_prefix path ''v1/apps/'' \<and> has_suffix path ''/updates'' then
        (appUpdatesHandler E r (trim_suffix (trim_prefix path ''v1/apps/'') ''/updates'') s, s)
      else if has_prefix path ''v1/apps/'' then
        (getAppHandler E r (trim_prefix path ''v1/apps/'') s, s)
      else if path = ''v1/publisher/apps'' then publisherCreateAppHandler E r s
      else if path = ''v1/publisher/keys'' then
        (if Method r = ''POST'' then on_keys (publisherRegisterKeyHandler (env_crypto E) (env_now E) r) s
         else if Method r = ''GET'' then (KeyReply (publisherListKeysHandler r (map_option snd (s_pool s))), s)
         else (MethodNotAllowed, s))
      else if has_prefix path ''v1/publisher/keys/'' \<and> has_suffix path ''/rotate'' then
        (let keyID = trim_suffix (trim_prefix path ''v1/publisher/keys/'') ''/rotate'' in
         if \<not> contains_str keyID ''/'' then on_keys (publisherRotateKeyHandler (env_now E) r keyID) s
         else (NotFound, s))
      else if has_prefix path ''v1/publisher/keys/'' then
        (let keyID = trim_prefix path ''v1/publisher/keys/'' in
         if \<not> contains_str keyID ''/'' then on_keys (publisherRevokeKeyHandler (env_now E) r keyID) s
         else (NotFound, s))
      else if has_prefix path pub \<and> has_suffix path ''/releases'' then
        (let rest = trim_suffix (trim_prefix path pub) ''/releases'' in
         if contains_str rest ''/'' then (NotFound, s)
         else if Method r = ''POST'' then publisherCreateReleaseHandler E r rest s
         else if Method r = ''GET'' then (publisherListReleasesHandler E r rest s, s)
         else (MethodNotAllowed, s))
      else if is_release_path pub ''/submit'' path then
        on_release pub ''/submit'' path (publisherSubmitReleaseHandler E r) s
      else if is_release_path pub ''/revoke'' path then
        on_release pub ''/revoke'' path (publisherRevokeReleaseHandler E r) s
      else if is_release_path adm ''/approve'' path then
        on_release adm ''/approve'' path (adminApproveReleaseHandler E r) s
      else if is_release_path adm ''/start-review'' path then
        on_release adm ''/start-review'' path (adminStartReviewHandler E r) s
      else if is_release_path adm ''/needs-changes'' path then
        on_release adm ''/needs-changes'' path (adminNeedsChangesReleaseHandler E r) s
      else if is_release_path adm ''/reject'' path then
        on_release adm ''/reject'' path (adminRejectReleaseHandler E r) s
      else if is_release_path adm ''/suspend'' path then
        on_release adm ''/suspend'' path (adminSuspendReleaseHandler E r) s
      else (NotFound, s))"

end
