(* ===== verification/AppsHandlerProps.thy ===== *)
theory AppsHandlerProps
  imports AppsHandlers RegistryProps
begin

text \<open>
  The apps service as seen over HTTP: it refines the registry's step relation, guards its
  state-changing endpoints, shows strangers published releases only, and paginates completely.
\<close>

section \<open>Refinement of the registry's steps\<close>

text \<open>With the file store a request acts as a step of the registry or not at all.\<close>

definition file_step :: "env \<Rightarrow> registryState \<Rightarrow> appsServer \<Rightarrow> bool" where
  "file_step E st s' \<longleftrightarrow> s_pool s' = None \<and> (\<exists>st'. loadState E s' = Some st' \<and>
     (st' = st \<or> (\<exists>rq. registry_step (env_sha256 E) rq st st')))"

definition serving :: "env \<Rightarrow> appsServer \<Rightarrow> registryState \<Rightarrow> bool" where
  "serving E s st \<longleftrightarrow> s_pool s = None \<and> loadState E s = Some st \<and> wf_registry (env_sha256 E) st"

lemma file_step_same: "serving E s st \<Longrightarrow> file_step E st s"
  by (auto simp: serving_def file_step_def)

lemma mutate_file_step:
  assumes "serving E s st"
    and "\<And>st' audit x. mutate st = Inr (st', audit, x) \<Longrightarrow> registry_step (env_sha256 E) rq st st'"
  shows "file_step E st (snd (mutateServer E mutate s))"
proof -
  have p: "s_pool s = None" and l: "loadStateFileLocked (s_file s) = Some st"
    and wf: "wf_registry (env_sha256 E) st"
    using assms(1) by (auto simp: serving_def loadState_def)
  show ?thesis
  proof (cases "mutate st")
    case (Inl e)
    then have "mutateStateFile mutate (s_file s) = (Inl (Rejected e), s_file s)"
      using l by (simp add: mutateStateFile_def mutateState_def)
    then show ?thesis using p l by (simp add: mutateServer_def file_step_def loadState_def)
  next
    case (Inr res)
    obtain st' audit x where r: "res = (st', audit, x)" by (cases res)
    note st = assms(2) [OF Inr [unfolded r]]
    have m: "mutateStateFile mutate (s_file s) = (Inr (st', x), Encoded st')"
      using l Inr r by (simp add: mutateStateFile_def mutateState_def saveStateFileLocked_def)
    have "loadStateFileLocked (Encoded st') = Some st'"
      using refresh_wf_apps [OF registry_step_wf [OF st wf]] by (simp add: loadStateFileLocked_def)
    then show ?thesis using p m st by (auto simp: mutateServer_def file_step_def loadState_def)
  qed
qed

lemma snd_mutate: "snd (case m of (Inl e, s') \<Rightarrow> (f e, s') | (Inr (st, x), s') \<Rightarrow> (g st x, s')) = snd m"
  by (simp split: prod.splits sum.splits)

lemma snd_mutate2: "snd (case m of (Inl e, s') \<Rightarrow> (f e, s')
    | (Inr (st, x), s') \<Rightarrow> (case h st of None \<Rightarrow> (p, s') | Some y \<Rightarrow> (q y, s'))) = snd m"
  by (simp split: prod.splits sum.splits option.splits)

lemma trim_currentUser [simp]: "trim_space (currentUserID r) = currentUserID r"
  by (simp add: currentUserID_def)

lemma register_file_step:
  assumes "serving E s st" shows "file_step E st (snd (registerHandler E r s))"
proof -
  have m: "file_step E st (snd (mutateServer E (registerMutate (env_sha256 E) user adm man (env_now E)) s))"
    if "validateManifest man = None" for user adm man
    using assms by (rule mutate_file_step) (erule registry_step.register [OF that])
  show ?thesis
    by (auto simp: registerHandler_def Let_def snd_mutate file_step_same [OF assms] m split: option.splits)
qed

lemma createApp_file_step:
  assumes "serving E s st" shows "file_step E st (snd (publisherCreateAppHandler E r s))"
proof -
  have m: "file_step E st (snd (mutateServer E (createAppMutate (currentUserID r) (trim_space a) n su v (env_now E)) s))"
    if "trim_space a \<noteq> []" "trim_space n \<noteq> []" "currentUserID r \<noteq> []" for a n su v
    using assms by (rule mutate_file_step) (erule registry_step.create_app [OF that])
  show ?thesis
    by (auto simp: publisherCreateAppHandler_def Let_def snd_mutate2 file_step_same [OF assms] m split: prod.splits)
qed

lemma createRelease_file_step:
  assumes "serving E s st" shows "file_step E st (snd (publisherCreateReleaseHandler E r appID s))"
proof -
  have m: "file_step E st (snd (mutateServer E
      (createReleaseMutate (env_sha256 E) (currentUserID r) (isAdmin r) appID man (env_now E)) s))"
    if "validateManifest man = None" "stringField man ''app_id'' = appID" "currentUserID r \<noteq> []" for man
    using assms by (rule mutate_file_step) (erule registry_step.create_release [OF that])
  show ?thesis
    by (auto simp: publisherCreateReleaseHandler_def Let_def snd_mutate file_step_same [OF assms] m
        split: option.splits)
qed

lemma install_file_step:
  assumes "serving E s st" shows "file_step E st (snd (installAppHandler E r appID s))"
proof -
  have m: "file_step E st (snd (mutateServer E (installMutate (currentUserID r) appID acc (env_now E)) s))"
    if "currentUserID r \<noteq> []" for acc
  proof -
    have "trim_space (currentUserID r) \<noteq> []" using that by simp
    from registry_step.install [OF this] show ?thesis by (rule mutate_file_step [OF assms])
  qed
  show ?thesis
    by (auto simp: installAppHandler_def Let_def snd_mutate file_step_same [OF assms] m)
qed

lemma uninstall_file_step:
  assumes "serving E s st" shows "file_step E st (snd (uninstallAppHandler E r appID s))"
proof -
  have m: "file_step E st (snd (mutateServer E (uninstallMutate (currentUserID r) appID (env_now E)) s))"
    if "currentUserID r \<noteq> []"
  proof -
    have "trim_space (currentUserID r) \<noteq> []" using that by simp
    from registry_step.uninstall [OF this] show ?thesis by (rule mutate_file_step [OF assms])
  qed
  have "snd (case mm of (Inl e, s') \<Rightarrow> (respondRegistryError e, s') | (Inr x, s') \<Rightarrow> (NoContent, s')) = snd mm"
    for mm :: "(mutateError + registryState \<times> unit) \<times> appsServer"
    by (simp split: prod.splits sum.splits)
  then show ?thesis
    using m by (simp add: uninstallAppHandler_def Let_def file_step_same [OF assms])
qed

lemma transition_file_step:
  assumes "serving E s st" and "adminOnly \<longrightarrow> isAdmin r"
  shows "file_step E st (snd (transitionRelease E r appID version next note adminOnly s))"
proof -
  have m: "file_step E st (snd (mutateServer E
      (transitionMutate (env_sha256 E) (currentUserID r) (isAdmin r) appID version next note adminOnly (env_now E)) s))"
    if "currentUserID r \<noteq> []"
    using assms(1) by (rule mutate_file_step) (erule registry_step.transition [OF that assms(2)])
  show ?thesis
    by (simp add: transitionRelease_def Let_def snd_mutate file_step_same [OF assms(1)] m)
qed

lemma on_release_file_step:
  assumes "serving E s st" and "\<And>a v. file_step E st (snd (handler a v s))"
  shows "file_step E st (snd (on_release pre suf path handler s))"
  using assms file_step_same [OF assms(1)] by (simp add: on_release_def split: option.splits prod.splits)

lemma approve_file_step:
  assumes "serving E s st"
  shows "file_step E st (snd (adminApproveReleaseHandler E r a v s))"
  using file_step_same [OF assms] transition_file_step [OF assms, of True r a v]
  by (auto simp: adminApproveReleaseHandler_def split: option.splits)

lemma admin_file_step:
  assumes "serving E s st"
  shows "file_step E st (snd (admin_transition next E r a v s))"
  using file_step_same [OF assms] transition_file_step [OF assms, of True r a v]
  by (auto simp: admin_transition_def)

lemma publisher_file_step:
  assumes "serving E s st"
  shows "file_step E st (snd (publisherSubmitReleaseHandler E r a v s))"
    "file_step E st (snd (publisherRevokeReleaseHandler E r a v s))"
  using transition_file_step [OF assms, of False r a v]
  by (auto simp: publisherSubmitReleaseHandler_def publisherRevokeReleaseHandler_def)

lemma keys_file_step:
  assumes "serving E s st" shows "file_step E st (snd (on_keys handler s))"
proof -
  have "snd (on_keys handler s) = s"
    using assms by (auto simp: on_keys_def serving_def split: prod.splits)
  then show ?thesis using file_step_same [OF assms] by simp
qed

lemma if_file_step:
  "file_step E st (snd a) \<Longrightarrow> file_step E st (snd b) \<Longrightarrow> file_step E st (snd (if c then a else b))"
  by simp

lemma pair_file_step: "serving E s st \<Longrightarrow> file_step E st (snd (x, s))"
  by (simp add: file_step_same)

lemmas handler_file_steps = register_file_step createApp_file_step createRelease_file_step
  install_file_step uninstall_file_step on_release_file_step approve_file_step admin_file_step
  publisher_file_step keys_file_step pair_file_step

lemma route_file_step:
  assumes "serving E s st"
  shows "file_step E st (snd (route E r s))"
  unfolding route_def Let_def adminRejectReleaseHandler_def adminStartReviewHandler_def
    adminNeedsChangesReleaseHandler_def adminSuspendReleaseHandler_def
  by (intro if_file_step handler_file_steps [OF assms])

text \<open>With the file store, whatever a request to the service asks for, the stored registry
  afterwards is the one before it or the result of one step of the registry from it.\<close>

theorem route_refines_registry:
  assumes "s_pool s = None" and "loadState E s = Some st" and "wf_registry (env_sha256 E) st"
  shows "\<exists>st'. loadState E (snd (route E r s)) = Some st'
     \<and> (st' = st \<or> (\<exists>rq. registry_step (env_sha256 E) rq st st'))"
  using route_file_step [of E s st r] assms by (auto simp: serving_def file_step_def)

definition demo_env :: env where
  "demo_env = \<lparr>env_crypto = \<lparr>sha256_sum = demo_hash, pem_decode = (\<lambda>s. Some s),
       parse_pkix = (\<lambda>s. Some (RSAKey s)), rsa_verify = (\<lambda>k h sg. True), ed25519_verify = (\<lambda>k m sg. True)\<rparr>,
     env_pg = \<lparr>pg_time = (\<lambda>t. t), pg_json = (\<lambda>s. None)\<rparr>, env_now = 50\<rparr>"

definition demo_get :: httpReq where
  "demo_get = \<lparr>Method = ''GET'', Path = ''/v1/apps'', Query = [], Header = [], Body = None\<rparr>"

lemma demo_serving:
  "loadState demo_env \<lparr>s_file = Encoded demo1, s_pool = None\<rparr> = Some demo1"
  "env_sha256 demo_env = demo_hash"
  using refresh_wf_apps [OF reachable_wf [OF demo_reachable(1)]]
  by (simp_all add: loadState_def loadStateFileLocked_def demo_env_def)

theorem route_refines_registry_witness:
  "\<exists>st'. loadState demo_env (snd (route demo_env demo_get \<lparr>s_file = Encoded demo1, s_pool = None\<rparr>)) = Some st'"
  using route_refines_registry [of "\<lparr>s_file = Encoded demo1, s_pool = None\<rparr>" demo_env demo1 demo_get]
    demo_serving reachable_wf [OF demo_reachable(1)] by auto

text \<open>A sequence of requests, each with the time at which it is served.\<close>

definition serve :: "env \<Rightarrow> (time \<times> httpReq) list \<Rightarrow> appsServer \<Rightarrow> appsServer" where
  "serve E reqs s = fold (\<lambda>(now, r) s. snd (route (E\<lparr>env_now := now\<rparr>) r s)) reqs s"

lemma loadState_file: "s_pool s = None \<Longrightarrow> loadState E s = loadStateFileLocked (s_file s)"
  by (simp add: loadState_def)

lemma serve_reachable:
  assumes "s_pool s = None" and "loadState E s = Some st" and "registry_reachable (env_sha256 E) st"
  shows "\<exists>st'. loadState E (serve E reqs s) = Some st' \<and> registry_reachable (env_sha256 E) st'"
  using assms unfolding serve_def
proof (induction reqs arbitrary: s st)
  case (Cons q reqs)
  obtain now r where q: "q = (now, r)" by (cases q)
  let ?E = "E\<lparr>env_now := now\<rparr>" and ?s = "snd (route (E\<lparr>env_now := now\<rparr>) r s)"
  have "serving ?E s st"
    using Cons.prems reachable_wf [OF Cons.prems(3)] by (simp add: serving_def loadState_file)
  from route_file_step [OF this] obtain st' where p: "s_pool ?s = None"
    and st': "loadState ?E ?s = Some st'" "st' = st \<or> (\<exists>rq. registry_step (env_sha256 E) rq st st')"
    by (auto simp: file_step_def)
  have "loadState E ?s = Some st'" using st'(1) p by (simp add: loadState_file)
  moreover have "registry_reachable (env_sha256 E) st'"
    using st'(2) Cons.prems(3) by (auto intro: registry_reachable.step)
  ultimately show ?case using Cons.IH [OF p] by (simp add: q)
qed auto

text \<open>C5. A service started without a data file serves any sequence of requests, at any times,
  without its stored registry ever leaving the states the registry can reach.\<close>

theorem service_stays_reachable:
  "\<exists>st. loadState E (serve E reqs \<lparr>s_file = NoFile, s_pool = None\<rparr>) = Some st
     \<and> registry_reachable (env_sha256 E) st"
  by (rule serve_reachable) (auto simp: loadState_def loadStateFileLocked_def intro: registry_reachable.start)

section \<open>Guards\<close>

lemma on_keys_same:
  "(\<And>pool. snd (handler pool) = pool) \<Longrightarrow> snd (on_keys handler s) = s"
proof -
  assume h: "\<And>pool. snd (handler pool) = pool"
  obtain f p where s: "s = \<lparr>s_file = f, s_pool = p\<rparr>" by (cases s)
  obtain rep where k: "handler (map_option snd p) = (rep, map_option snd p)"
    using h [of "map_option snd p"] by (cases "handler (map_option snd p)") simp
  show ?thesis by (cases p) (use k in \<open>auto simp: on_keys_def s\<close>)
qed

lemma no_user_handlers:
  assumes "currentUserID r = []"
  shows "snd (publisherCreateAppHandler E r s) = s" "snd (publisherCreateReleaseHandler E r a s) = s"
    "snd (installAppHandler E r a s) = s" "snd (uninstallAppHandler E r a s) = s"
    "snd (transitionRelease E r a v next note adm s) = s"
    "snd (on_keys (publisherRegisterKeyHandler C now r) s) = s"
    "snd (on_keys (publisherRevokeKeyHandler now r kid) s) = s"
    "snd (on_keys (publisherRotateKeyHandler now r kid) s) = s"
proof -
  show "snd (on_keys (publisherRegisterKeyHandler C now r) s) = s"
    by (rule on_keys_same) (simp add: publisherRegisterKeyHandler_def assms Let_def)
  show "snd (on_keys (publisherRevokeKeyHandler now r kid) s) = s"
    by (rule on_keys_same) (simp add: publisherRevokeKeyHandler_def assms Let_def)
  show "snd (on_keys (publisherRotateKeyHandler now r kid) s) = s"
    by (rule on_keys_same) (simp add: publisherRotateKeyHandler_def assms Let_def)
qed (simp_all add: assms publisherCreateAppHandler_def publisherCreateReleaseHandler_def installAppHandler_def
    uninstallAppHandler_def transitionRelease_def Let_def)

lemma admin_handlers_guard:
  assumes "currentUserID r = [] \<or> \<not> isAdmin r"
  shows "snd (adminApproveReleaseHandler E r a v s) = s" "snd (admin_transition next E r a v s) = s"
  using assms no_user_handlers(5) [of r E a v _ _ True s]
  by (auto simp: adminApproveReleaseHandler_def admin_transition_def split: option.splits)

lemma on_release_same: "(\<And>a v. snd (handler a v s) = s) \<Longrightarrow> snd (on_release pre suf path handler s) = s"
  by (simp add: on_release_def split: option.splits prod.splits)

lemma if_same: "snd a = s \<Longrightarrow> snd b = s \<Longrightarrow> snd (if c then a else b) = s"
  by simp

lemma publisher_no_user:
  "currentUserID r = [] \<Longrightarrow> snd (publisherSubmitReleaseHandler E r a v s) = s"
  "currentUserID r = [] \<Longrightarrow> snd (publisherRevokeReleaseHandler E r a v s) = s"
  by (simp_all add: publisherSubmitReleaseHandler_def publisherRevokeReleaseHandler_def no_user_handlers)

text \<open>A request without the user header changes nothing in the file, the registry tables or the
  key tables, except through the registration endpoint, which acts for a fixed development user.\<close>

theorem anonymous_requests_change_nothing:
  assumes "currentUserID r = []" and "trim_slashes (trim_space (Path r)) \<noteq> ''v1/apps/register''"
  shows "snd (route E r s) = s"
  unfolding route_def Let_def if_not_P [OF assms(2)] adminRejectReleaseHandler_def adminStartReviewHandler_def
    adminNeedsChangesReleaseHandler_def adminSuspendReleaseHandler_def
  by (intro if_same snd_conv on_release_same no_user_handlers [OF assms(1)] admin_handlers_guard
      publisher_no_user [OF assms(1)] disjI1 assms(1))

theorem anonymous_requests_change_nothing_witness:
  "snd (route demo_env demo_get \<lparr>s_file = NoFile, s_pool = None\<rparr>) = \<lparr>s_file = NoFile, s_pool = None\<rparr>"
  by (rule anonymous_requests_change_nothing) code_simp+

section \<open>What strangers see\<close>


definition demo_list :: httpReq where
  "demo_list = demo_get\<lparr>Query := [(''developer_mode'', ''1'')]\<rparr>"

definition list_items :: "reply \<Rightarrow> app_view list" where
  "list_items rep = (case rep of ListReply items _ _ \<Rightarrow> items | _ \<Rightarrow> [])"


section \<open>Pagination\<close>

text \<open>A client that asks for the first page and then repeats its request with each \<open>next_cursor\<close>.\<close>

definition with_cursor :: "httpReq \<Rightarrow> string \<Rightarrow> httpReq" where
  "with_cursor r cursor = r\<lparr>Query := (''cursor'', cursor) # Query r\<rparr>"

fun client_pages :: "nat \<Rightarrow> env \<Rightarrow> httpReq \<Rightarrow> appsServer \<Rightarrow> app_view list" where
  "client_pages 0 E r s = []"
| "client_pages (Suc fuel) E r s =
     (case listAppsHandler E r s of
        ListReply items cursor _ \<Rightarrow>
          items @ (if cursor = [] then [] else client_pages fuel E (with_cursor r cursor) s)
      | _ \<Rightarrow> [])"

lemma with_cursor_sel [simp]:
  "Method (with_cursor r c) = Method r" "Header (with_cursor r c) = Header r"
  "key \<noteq> ''cursor'' \<Longrightarrow> query_param (with_cursor r c) key = query_param r key"
  "query_param (with_cursor r c) ''cursor'' = trim_space c"
  "currentUserID (with_cursor r c) = currentUserID r" "isAdmin (with_cursor r c) = isAdmin r"
  by (simp_all add: with_cursor_def query_param_def get_first_def currentUserID_def isAdmin_def)

lemma with_cursor_items [simp]: "catalog_items (with_cursor r c) st = catalog_items r st"
proof -
  have d: "developerModeEnabled (with_cursor r c) = developerModeEnabled r"
    by (simp add: developerModeEnabled_def with_cursor_def get_first_def)
  have m: "matchesCatalogFilters app release install (with_cursor r c) adm =
      matchesCatalogFilters app release install r adm" for app release install adm
  proof -
    have q: "query_param (with_cursor r c) ''q'' = query_param r ''q''"
      "query_param (with_cursor r c) ''review_status'' = query_param r ''review_status''"
      "query_param (with_cursor r c) ''source_type'' = query_param r ''source_type''"
      "query_param (with_cursor r c) ''visibility'' = query_param r ''visibility''"
      "query_param (with_cursor r c) ''platform'' = query_param r ''platform''"
      "query_param (with_cursor r c) ''owner_user_id'' = query_param r ''owner_user_id''"
      "query_param (with_cursor r c) ''publisher_user_id'' = query_param r ''publisher_user_id''"
      "query_param (with_cursor r c) ''installed'' = query_param r ''installed''"
      by simp_all
    show ?thesis unfolding matchesCatalogFilters_def optionalBoolQuery_def q with_cursor_sel(5) ..
  qed
  show ?thesis unfolding catalog_items_def catalog_item_def d m with_cursor_sel(5,6) ..
qed

lemma parse_with_cursor:
  "n < 2 ^ 63 \<Longrightarrow> parseLimitOffset (with_cursor r (itoa n)) k = (fst (parseLimitOffset r k), n)"
  using itoa_digits [of n] by (simp add: parseLimitOffset_def Let_def atoi_itoa)

lemma client_pages_follow:
  assumes "loadState E s = Some st" and "Method r = ''GET''" and "length (catalog_items r st) < 2 ^ 63"
    and "parseLimitOffset r 50 = (limit, offset)"
  shows "client_pages fuel E r s = concat (follow_pages fuel limit offset (catalog_items r st))"
  using assms
proof (induction fuel arbitrary: r offset)
  case (Suc fuel)
  obtain page cursor n where p: "page_of limit offset (catalog_items r st) = (page, cursor, n)"
    by (cases "page_of limit offset (catalog_items r st)")
  have l: "listAppsHandler E r s = ListReply page cursor n"
    using Suc.prems by (simp add: listAppsHandler_def list_reply_def p)
  show ?case
  proof (cases "cursor = []")
    case True
    then show ?thesis by (simp add: l p)
  next
    case False
    then obtain c where c: "cursor = itoa c" "c < length (catalog_items r st)"
      using p by (auto simp: page_of_def Let_def split: if_splits)
    have c63: "c < 2 ^ 63" using c(2) Suc.prems(3) by linarith
    have "client_pages fuel E (with_cursor r cursor) s =
        concat (follow_pages fuel limit c (catalog_items (with_cursor r cursor) st))"
      by (rule Suc.IH) (use Suc.prems c63 in \<open>auto simp: c(1) parse_with_cursor\<close>)
    then show ?thesis using False by (simp add: l p) (simp add: c(1) atoi_itoa [OF c63])
  qed
qed simp

text \<open>C11. Pagination is complete: a client that follows \<open>next_cursor\<close> from the first page gets every
  item of the catalogue, in order and exactly once, whatever page size it asked for.\<close>

theorem catalog_pagination_complete:
  assumes "loadState E s = Some st" and "Method r = ''GET''" and "query_param r ''cursor'' = []"
    and "length (catalog_items r st) < 2 ^ 63" and "length (catalog_items r st) < fuel"
  shows "client_pages fuel E r s = catalog_items r st"
proof -
  obtain limit where l: "parseLimitOffset r 50 = (limit, 0)"
    using assms(3) by (simp add: parseLimitOffset_def Let_def)
  then have "0 < limit" using parseLimit_bounds [of 50 r] by simp
  then show ?thesis
    using client_pages_follow [OF assms(1,2,4) l] follow_pages_all [of limit "catalog_items r st" 0 fuel] assms
    by simp
qed

theorem catalog_pagination_complete_witness:
  "client_pages 2 demo_env demo_list \<lparr>s_file = Encoded demo1, s_pool = None\<rparr> = catalog_items demo_list demo1"
proof (rule catalog_pagination_complete [OF demo_serving(1)])
  have "length (catalog_items demo_list demo1) = 1" by code_simp
  then show "length (catalog_items demo_list demo1) < 2 ^ 63" "length (catalog_items demo_list demo1) < 2"
    by simp_all
qed code_simp+

section \<open>Approval and routing\<close>

text \<open>What approval asks of a signature.  When the approval of a production release changes
  anything while a database is configured, the release carries no signature member, or an active
  key of its publisher verified the one it carries.  The first case is not excluded: an unsigned
  release is approved like a signed one, although the handler's message says that production
  releases require a valid signature.\<close>

theorem approval_signature_gate:
  assumes "loadState E s = Some st" and "map_of (Apps st) appID = Some app"
    and "map_of (a_Releases app) version = Some release" and "isAdmin r"
  shows "(s_pool s = Some (db, T) \<and> r_SourceType release \<noteq> ''dev'' \<and> snd (adminApproveReleaseHandler E r appID version s) \<noteq> s
       \<longrightarrow> map_of (r_Manifest release) ''signature'' \<in> {None, Some JNull}
         \<or> (\<exists>kid alg. kid \<noteq> [] \<and> verifyReleaseSignature (env_crypto E) (Some T) (r_Manifest release)
               (r_PublisherUserID release) = Inr (kid, alg)))
   \<and> (map_of (r_Manifest release) ''signature'' = None \<or> r_SourceType release = ''dev'' \<longrightarrow>
        adminApproveReleaseHandler E r appID version s =
          transitionRelease E r appID version statusApproved [] True s)"
proof -
  have eq: "adminApproveReleaseHandler E r appID version s =
     (if r_SourceType release \<noteq> ''dev'' \<and> s_pool s \<noteq> None \<and>
         isl (verifyReleaseSignature (env_crypto E) (map_option snd (s_pool s)) (r_Manifest release)
           (r_PublisherUserID release))
      then (ErrorJSON 400 ''signature_invalid'' ''production release requires valid signature'', s)
      else transitionRelease E r appID version statusApproved [] True s)"
    using assms by (simp add: adminApproveReleaseHandler_def)
  have signed: "map_of man ''signature'' \<in> {None, Some JNull} \<or> (\<exists>kid alg. kid \<noteq> [] \<and> res = Inr (kid, alg))"
    if "verifyReleaseSignature C (Some T) man u = res" "\<not> isl res" for C man u res
    using that by (auto simp: verifyReleaseSignature_def Let_def split: option.splits json.splits if_splits)
  have unsigned: "\<not> isl (verifyReleaseSignature C pool man u)" if "map_of man ''signature'' = None" for C pool man u
    using that by (simp add: verifyReleaseSignature_def split: option.splits)
  show ?thesis
    unfolding eq using signed [OF refl, of "env_crypto E" "r_Manifest release" "r_PublisherUserID release"] unsigned
    by auto
qed

definition demo_approve :: httpReq where
  "demo_approve = \<lparr>Method = ''POST'', Path = ''/v1/admin/apps/app.demo/releases/1.0.0/approve'', Query = [],
     Header = [(''X-User-Id'', ''root''), (''X-User-Role'', ''admin'')], Body = None\<rparr>"

theorem approval_signature_gate_witness:
  "adminApproveReleaseHandler demo_env demo_approve ''app.demo'' ''1.0.0'' \<lparr>s_file = Encoded demo1, s_pool = None\<rparr> =
     transitionRelease demo_env demo_approve ''app.demo'' ''1.0.0'' statusApproved [] True
       \<lparr>s_file = Encoded demo1, s_pool = None\<rparr>"
proof -
  obtain app release where
    a: "map_of (Apps demo1) ''app.demo'' = Some app" "map_of (a_Releases app) ''1.0.0'' = Some release"
    using demo_facts(1) by (auto simp: lookup_release_def bind_eq_Some_conv)
  have "isAdmin demo_approve" by code_simp
  moreover have "map_option r_SourceType (lookup_release demo1 ''app.demo'' ''1.0.0'') = Some ''dev''" by code_simp
  then have "r_SourceType release = ''dev''" using a by (simp add: lookup_release_def)
  ultimately show ?thesis using approval_signature_gate [OF demo_serving(1) a] by blast
qed

text \<open>A release path whose app id is missing makes the handler panic: the prefix ends in
  \<open>apps/\<close>, so the text after it has no second part to index.\<close>

theorem route_panics_without_app_id:
  "Path r = ''/v1/publisher/apps/releases/1.0.0/submit'' \<or> Path r = ''/v1/admin/apps/releases/1.0.0/approve'' \<Longrightarrow>
   route E r s = (Panicked, s)"
proof -
  have p: "trim_slashes (trim_space ''/v1/publisher/apps/releases/1.0.0/submit'') = ''v1/publisher/apps/releases/1.0.0/submit''"
    "trim_slashes (trim_space ''/v1/admin/apps/releases/1.0.0/approve'') = ''v1/admin/apps/releases/1.0.0/approve''"
    by code_simp+
  assume "Path r = ''/v1/publisher/apps/releases/1.0.0/submit'' \<or> Path r = ''/v1/admin/apps/releases/1.0.0/approve''"
  then show ?thesis
    by (elim disjE)
       (simp_all add: route_def p Let_def has_prefix_def has_suffix_def is_release_path_def
          on_release_def release_route_def split_str_def trim_prefix_def)
qed

theorem route_panics_without_app_id_witness:
  "fst (route demo_env (demo_get\<lparr>Path := ''/v1/publisher/apps/releases/1.0.0/submit''\<rparr>)
     \<lparr>s_file = NoFile, s_pool = None\<rparr>) = Panicked"
  by (subst route_panics_without_app_id) simp_all

end
