(* ===== verification/Relay.thy ===== *)
theory Relay
  imports Http Base64
begin

text \<open>
  Relay jobs (\<open>gateway/internal/relay/handler.go\<close>, \<open>worker/relay_retry.go\<close>): a user's phone sends SMS
  and MMS for the user's other devices.  Jobs and devices are rows of their tables; one clock
  serves for the database's \<open>now()\<close> and for \<open>time.Now()\<close>.  The Ed25519 check is a parameter.
\<close>

section \<open>Rows\<close>

record relayJobRow =
  j_id :: string
  j_creator_user_id :: string
  j_destination :: json
  j_transport_hint :: string
  j_content :: json
  j_status :: string
  j_executing_device_id :: "string option"
  j_consent_state :: string
  j_required_capability :: string
  j_expires_at :: "time option"
  j_accepted_at :: "time option"
  j_attested_at :: "time option"
  j_result :: "json option"
  j_created_at :: time
  j_updated_at :: "time option"
  j_retry_count :: nat

record relayDeviceRow =
  d_id :: string
  d_user_id :: string
  d_public_key :: "string option"
  d_capabilities :: "string list option"
  d_sms_role_state :: "string option"
  d_last_seen_at :: "time option"
  d_attestation_state :: "string option"
  d_attestation_expires_at :: "time option"

record relayTables =
  relay_jobs :: "relayJobRow list"
  relay_devices :: "relayDeviceRow list"

record relayDeviceRecord =
  publicKey :: string
  capabilities :: "string list"
  smsRoleState :: string
  lastSeenAt :: time
  attestationState :: string
  attestationExpiresAt :: "time option"

datatype relayError = RelayUnauthorized | RelayExpired | RelayAttestationRequired | RelayDbError
  | InvalidDeviceSignature

section \<open>Policy\<close>

fun relayValueHasContent :: "json \<Rightarrow> bool" where
  "relayValueHasContent JNull = False"
| "relayValueHasContent (JStr t) = (trim_space t \<noteq> [])"
| "relayValueHasContent (JArr t) = (t \<noteq> [])"
| "relayValueHasContent (JObj t) = (t \<noteq> [])"
| "relayValueHasContent _ = True"

definition media_keys :: "string list" where
  "media_keys = [''media'', ''media_json'', ''attachments'', ''attachment'', ''attachment_ids'']"

fun relayContentHasMedia :: "json \<Rightarrow> bool" where
  "relayContentHasMedia (JObj v) =
     (list_ex (\<lambda>key. case map_of v key of Some value \<Rightarrow> relayValueHasContent value | None \<Rightarrow> False) media_keys
      \<or> list_ex id (map (\<lambda>(k, value). relayContentHasMedia value) v))"
| "relayContentHasMedia (JArr v) = list_ex id (map relayContentHasMedia v)"
| "relayContentHasMedia _ = False"

definition canonicalRelayPolicy :: "string \<Rightarrow> json \<Rightarrow> string \<times> string" where
  "canonicalRelayPolicy transportHint content =
     (let hint = to_upper (trim_space transportHint);
          hasMedia = relayContentHasMedia content
      in if hint = [] \<or> hint = ''AUTO'' then
           (if hasMedia then (''RELAY_MMS'', ''ANDROID_CARRIER'') else (''RELAY_SMS'', ''RELAY_EXECUTOR''))
         else if hint = ''SMS'' \<or> hint = ''RELAY_SMS'' then
           (if hasMedia then (''RELAY_MMS'', ''ANDROID_CARRIER'') else (''RELAY_SMS'', ''RELAY_EXECUTOR''))
         else if hint = ''MMS'' \<or> hint = ''RELAY_MMS'' then
           (if \<not> hasMedia then (''RELAY_SMS'', ''RELAY_EXECUTOR'') else (''RELAY_MMS'', ''ANDROID_CARRIER''))
         else
           (if hasMedia then (''RELAY_MMS'', ''ANDROID_CARRIER'') else (''RELAY_SMS'', ''RELAY_EXECUTOR'')))"

definition hasCapability :: "relayDeviceRecord \<Rightarrow> string \<Rightarrow> bool" where
  "hasCapability d required0 =
     (let required1 = to_upper (trim_space required0);
          required = (if required1 = [] then ''RELAY_EXECUTOR'' else required1)
      in list_ex (\<lambda>cap.
           if required = ''RELAY_EXECUTOR'' then equal_fold cap ''RELAY_EXECUTOR'' \<or> equal_fold cap ''ANDROID_CARRIER''
           else if required = ''ANDROID_CARRIER'' then equal_fold cap ''ANDROID_CARRIER''
           else equal_fold cap required) (capabilities d))"

definition isAttested :: "relayDeviceRecord \<Rightarrow> time \<Rightarrow> bool" where
  "isAttested d now \<longleftrightarrow> equal_fold (trim_space (attestationState d)) ''VERIFIED''
     \<and> (case attestationExpiresAt d of None \<Rightarrow> True | Some t \<Rightarrow> now < t)"

section \<open>Loading\<close>

text \<open>\<open>loadDeviceRecord\<close> with its \<open>COALESCE\<close> defaults.\<close>

definition loadDeviceRecord :: "relayTables \<Rightarrow> time \<Rightarrow> string \<Rightarrow> string \<Rightarrow> relayDeviceRecord option" where
  "loadDeviceRecord T now actorUserID deviceID =
     map_option (\<lambda>row. \<lparr>publicKey = (case d_public_key row of None \<Rightarrow> [] | Some k \<Rightarrow> k),
         capabilities = (case d_capabilities row of None \<Rightarrow> [] | Some c \<Rightarrow> c),
         smsRoleState = (case d_sms_role_state row of None \<Rightarrow> [] | Some s \<Rightarrow> s),
         lastSeenAt = (case d_last_seen_at row of None \<Rightarrow> now | Some t \<Rightarrow> t),
         attestationState = (case d_attestation_state row of None \<Rightarrow> ''UNVERIFIED'' | Some s \<Rightarrow> s),
         attestationExpiresAt = d_attestation_expires_at row\<rparr>)
       (find (\<lambda>row. d_id row = deviceID \<and> d_user_id row = actorUserID) (relay_devices T))"

text \<open>
  The rows are scanned into Go values; the executing device is scanned into a \<open>string\<close>, which
  fails on \<open>NULL\<close>.
\<close>

definition scan_job :: "relayJobRow \<Rightarrow> relayJobRow option" where
  "scan_job row = (case j_executing_device_id row of None \<Rightarrow> None | Some _ \<Rightarrow> Some row)"

definition loadJobRecord :: "relayTables \<Rightarrow> string \<Rightarrow> relayJobRow option" where
  "loadJobRecord T jobID = Option.bind (find (\<lambda>row. j_id row = jobID) (relay_jobs T)) scan_job"

definition loadJobRecordForActor ::
  "relayTables \<Rightarrow> time \<Rightarrow> string \<Rightarrow> string \<Rightarrow> relayError + relayJobRow" where
  "loadJobRecordForActor T now actorUserID jobID =
     (case loadJobRecord T jobID of
        None \<Rightarrow> Inl RelayDbError
      | Some rec \<Rightarrow>
          if j_creator_user_id rec \<noteq> actorUserID then Inl RelayUnauthorized
          else if (case j_expires_at rec of None \<Rightarrow> False | Some t \<Rightarrow> t \<le> now) \<and> j_status rec \<noteq> ''completed''
          then Inl RelayExpired
          else Inr rec)"

definition not_expired :: "time \<Rightarrow> relayJobRow \<Rightarrow> bool" where
  "not_expired now row \<longleftrightarrow> (case j_expires_at row of None \<Rightarrow> True | Some t \<Rightarrow> now < t)"

fun scan_jobs :: "relayJobRow list \<Rightarrow> relayJobRow list option" where
  "scan_jobs [] = Some []"
| "scan_jobs (row # rows) =
     (case (scan_job row, scan_jobs rows) of (Some j, Some js) \<Rightarrow> Some (j # js) | _ \<Rightarrow> None)"

definition listQueuedJobs :: "relayTables \<Rightarrow> time \<Rightarrow> string \<Rightarrow> nat \<Rightarrow> relayJobRow list option" where
  "listQueuedJobs T now actorUserID limit =
     scan_jobs (take limit (sort_key j_created_at (filter (\<lambda>row. j_status row = ''queued'' \<and> not_expired now row
       \<and> (trim_space actorUserID = [] \<or> j_creator_user_id row = actorUserID)) (relay_jobs T))))"

section \<open>Operations\<close>

definition ten_minutes :: time where
  "ten_minutes = 600 * 1000000000"

definition CreateJob ::
  "string \<Rightarrow> time \<Rightarrow> string \<Rightarrow> json \<Rightarrow> string \<Rightarrow> json \<Rightarrow> string \<Rightarrow> relayTables \<Rightarrow> relayTables" where
  "CreateJob newID now creatorID destination transportHint content requiredCapability T =
     T\<lparr>relay_jobs := relay_jobs T @ [\<lparr>j_id = newID, j_creator_user_id = creatorID, j_destination = destination,
        j_transport_hint = transportHint, j_content = content, j_status = ''queued'',
        j_executing_device_id = None, j_consent_state = ''PENDING_DEVICE'',
        j_required_capability = (if trim_space requiredCapability = [] then ''RELAY_EXECUTOR'' else requiredCapability),
        j_expires_at = Some (now + ten_minutes), j_accepted_at = None, j_attested_at = None,
        j_result = None, j_created_at = now, j_updated_at = None, j_retry_count = 0\<rparr>]\<rparr>"

definition ensureRelayDeviceAuthorized ::
  "bool \<Rightarrow> relayTables \<Rightarrow> time \<Rightarrow> string \<Rightarrow> string \<Rightarrow> string \<Rightarrow> relayError option" where
  "ensureRelayDeviceAuthorized requireAttestation T now actorUserID deviceID requiredCapability0 =
     (case loadDeviceRecord T now actorUserID deviceID of
        None \<Rightarrow> Some RelayDbError
      | Some device \<Rightarrow>
          let requiredCapability = (if requiredCapability0 = [] then ''RELAY_EXECUTOR'' else requiredCapability0);
              strict = (requiredCapability = ''ANDROID_CARRIER'' \<or> requireAttestation)
          in if \<not> hasCapability device requiredCapability then Some RelayUnauthorized
             else if requiredCapability = ''ANDROID_CARRIER'' \<and> trim_space (smsRoleState device) \<noteq> ''DEFAULT_SMS_HANDLER''
             then Some RelayUnauthorized
             else if strict \<and> \<not> isAttested device now then Some RelayAttestationRequired
             else if strict \<and> now - lastSeenAt device > 24 * 3600 * 1000000000 then Some RelayUnauthorized
             else None)"

text \<open>An \<open>UPDATE\<close> with a condition, and whether it affected a row.\<close>

definition update_jobs ::
  "(relayJobRow \<Rightarrow> bool) \<Rightarrow> (relayJobRow \<Rightarrow> relayJobRow) \<Rightarrow> relayTables \<Rightarrow> relayTables" where
  "update_jobs P f T = T\<lparr>relay_jobs := map (\<lambda>row. if P row then f row else row) (relay_jobs T)\<rparr>"

definition acceptable :: "time \<Rightarrow> string \<Rightarrow> string \<Rightarrow> string \<Rightarrow> relayJobRow \<Rightarrow> bool" where
  "acceptable now actorUserID jobID requiredCapability row \<longleftrightarrow> j_id row = jobID \<and> j_creator_user_id row = actorUserID
     \<and> j_status row = ''queued'' \<and> j_required_capability row = requiredCapability \<and> not_expired now row"

definition AcceptJobForActor ::
  "bool \<Rightarrow> time \<Rightarrow> string \<Rightarrow> string \<Rightarrow> string \<Rightarrow> bool \<Rightarrow> string \<Rightarrow> relayTables \<Rightarrow> relayError option \<times> relayTables" where
  "AcceptJobForActor requireAttestation now actorUserID jobID deviceID attested requiredCapability T =
     (case ensureRelayDeviceAuthorized requireAttestation T now actorUserID deviceID requiredCapability of
        Some e \<Rightarrow> (Some e, T)
      | None \<Rightarrow>
          if requireAttestation \<and> \<not> attested then (Some RelayAttestationRequired, T)
          else if \<not> list_ex (acceptable now actorUserID jobID requiredCapability) (relay_jobs T)
          then (Some RelayExpired, T)
          else (None, update_jobs (acceptable now actorUserID jobID requiredCapability)
            (\<lambda>row. row\<lparr>j_executing_device_id := Some deviceID, j_status := ''accepted'',
               j_consent_state := ''DEVICE_CONFIRMED'', j_accepted_at := Some now,
               j_attested_at := (if attested then Some now else j_attested_at row),
               j_updated_at := Some now\<rparr>) T))"

definition finishable :: "time \<Rightarrow> string \<Rightarrow> string \<Rightarrow> string \<Rightarrow> relayJobRow \<Rightarrow> bool" where
  "finishable now actorUserID deviceID jobID row \<longleftrightarrow> j_id row = jobID \<and> j_creator_user_id row = actorUserID
     \<and> j_executing_device_id row = Some deviceID \<and> j_status row = ''accepted'' \<and> not_expired now row"

definition FinishJobForActor ::
  "bool \<Rightarrow> time \<Rightarrow> string \<Rightarrow> string \<Rightarrow> string \<Rightarrow> json \<Rightarrow> string \<Rightarrow> string \<Rightarrow> relayTables \<Rightarrow> relayError option \<times> relayTables" where
  "FinishJobForActor requireAttestation now actorUserID deviceID jobID result status requiredCapability T =
     (case ensureRelayDeviceAuthorized requireAttestation T now actorUserID deviceID requiredCapability of
        Some e \<Rightarrow> (Some e, T)
      | None \<Rightarrow>
          if \<not> list_ex (finishable now actorUserID deviceID jobID) (relay_jobs T)
          then (Some RelayUnauthorized, T)
          else (None, update_jobs (finishable now actorUserID deviceID jobID)
            (\<lambda>row. row\<lparr>j_result := Some result, j_status := status, j_updated_at := Some now\<rparr>) T))"

text \<open>One round of \<open>RelayRetryWorker\<close>.\<close>

definition relay_retry :: "relayTables \<Rightarrow> relayTables" where
  "relay_retry T = update_jobs (\<lambda>row. j_status row = ''CARRIER_SEND_FAILED'' \<and> j_retry_count row < 3)
     (\<lambda>row. row\<lparr>j_retry_count := j_retry_count row + 1, j_status := ''queued''\<rparr>) T"

section \<open>Device signatures\<close>

definition verifyDeviceSignature ::
  "(string \<Rightarrow> string \<Rightarrow> string \<Rightarrow> bool) \<Rightarrow> relayTables \<Rightarrow> string \<Rightarrow> string \<Rightarrow> string \<Rightarrow> bool" where
  "verifyDeviceSignature ed_verify T deviceID payload sigB64 =
     (case find (\<lambda>row. d_id row = deviceID) (relay_devices T) of
        None \<Rightarrow> False
      | Some row \<Rightarrow>
          (case d_public_key row of
             None \<Rightarrow> False
           | Some pubKeyB64 \<Rightarrow>
               pubKeyB64 \<noteq> [] \<and>
               (case (b64_decode pubKeyB64, b64_decode sigB64) of
                  (Some pubBytes, Some sigBytes) \<Rightarrow>
                    length pubBytes = 32 \<and> length sigBytes = 64 \<and> ed_verify pubBytes payload sigBytes
                | _ \<Rightarrow> False)))"

definition v2Payload :: "relayJobRow \<Rightarrow> string \<Rightarrow> string \<Rightarrow> string" where
  "v2Payload job deviceID ts = join_with '':'' [''relay_accept'', ''v2'', j_id job, deviceID, ts,
     j_transport_hint job, j_required_capability job, j_consent_state job, j_status job]"

definition verifyAcceptanceSignature ::
  "(string \<Rightarrow> string \<Rightarrow> string \<Rightarrow> bool) \<Rightarrow> bool \<Rightarrow> relayTables \<Rightarrow> relayJobRow \<Rightarrow> string \<Rightarrow> string \<Rightarrow> string \<Rightarrow> bool" where
  "verifyAcceptanceSignature ed_verify requireAttestation T job deviceID ts sigText =
     (if verifyDeviceSignature ed_verify T deviceID (v2Payload job deviceID ts) sigText then True
      else if requireAttestation then False
      else verifyDeviceSignature ed_verify T deviceID (''relay_accept:'' @ j_id job @ '':'' @ ts) sigText)"

section \<open>Handlers\<close>

datatype relayReply = RelayFail nat string | RelayCreated string | RelayJob relayJobRow
  | RelayJobs "relayJobRow list" | RelayNoContent

text \<open>\<open>actor\<close> is the user of the request's context, if any.\<close>

definition load_failure :: "relayError \<Rightarrow> relayReply" where
  "load_failure e = (case e of RelayUnauthorized \<Rightarrow> RelayFail 403 ''forbidden''
     | RelayExpired \<Rightarrow> RelayFail 410 ''expired'' | _ \<Rightarrow> RelayFail 404 ''not_found'')"

text \<open>A member of type \<open>any\<close>: \<open>null\<close> and a missing member are nil.\<close>

definition any_field :: "json option \<Rightarrow> string \<Rightarrow> json" where
  "any_field body field = fold (\<lambda>v acc. v) (map go_value (member_values body field)) JNull"

definition CreateMessage ::
  "string \<Rightarrow> time \<Rightarrow> string option \<Rightarrow> httpReq \<Rightarrow> relayTables \<Rightarrow> relayReply \<times> relayTables" where
  "CreateMessage newID now actor r T =
     (case actor of
        None \<Rightarrow> (RelayFail 401 ''unauthorized'', T)
      | Some userID \<Rightarrow>
          if \<not> fst (decode_strings (Body r) [''transport_hint'']) then (RelayFail 400 ''invalid_request'', T)
          else let destination = any_field (Body r) ''destination''; content = any_field (Body r) ''content'';
                   hint = fst (string_field (Body r) ''transport_hint'')
          in if destination = JNull \<or> content = JNull then (RelayFail 400 ''invalid_request'', T)
             else (case canonicalRelayPolicy hint content of (transportHint, requiredCapability) \<Rightarrow>
               (RelayCreated newID, CreateJob newID now userID destination transportHint content requiredCapability T)))"

definition GetJob :: "time \<Rightarrow> string option \<Rightarrow> string \<Rightarrow> relayTables \<Rightarrow> relayReply" where
  "GetJob now actor jobID T =
     (case actor of
        None \<Rightarrow> RelayFail 401 ''unauthorized''
      | Some actorUserID \<Rightarrow>
          (case loadJobRecordForActor T now actorUserID jobID of
             Inl e \<Rightarrow> load_failure e
           | Inr job \<Rightarrow> RelayJob job))"

definition ListAvailable :: "time \<Rightarrow> string option \<Rightarrow> httpReq \<Rightarrow> relayTables \<Rightarrow> relayReply" where
  "ListAvailable now actor r T =
     (case actor of
        None \<Rightarrow> RelayFail 401 ''unauthorized''
      | Some actorUserID \<Rightarrow>
          let limit = (case atoi (get_first (Query r) ''limit'') of
                 Some v \<Rightarrow> if 0 < v \<and> v \<le> 100 then nat v else 10 | None \<Rightarrow> 10)
          in (case listQueuedJobs T now actorUserID limit of
                None \<Rightarrow> RelayFail 500 ''list_failed''
              | Some jobs \<Rightarrow> RelayJobs jobs))"

text \<open>The attestation headers of \<open>Accept\<close>: \<open>None\<close> when they pass.\<close>

definition check_acceptance ::
  "(string \<Rightarrow> string \<Rightarrow> string \<Rightarrow> bool) \<Rightarrow> bool \<Rightarrow> time \<Rightarrow> httpReq \<Rightarrow> relayJobRow \<Rightarrow> relayDeviceRecord \<Rightarrow> string
   \<Rightarrow> relayTables \<Rightarrow> relayReply option" where
  "check_acceptance ed_verify requireAttestation now r job device deviceID T =
     (let sigText = get_first (Header r) ''X-Device-Signature''; ts = get_first (Header r) ''X-Device-Timestamp'' in
      if sigText = [] \<and> ts = [] then
        (if requireAttestation \<or> publicKey device \<noteq> [] \<or> j_required_capability job = ''ANDROID_CARRIER''
         then Some (RelayFail 401 ''attestation_required'') else None)
      else if sigText = [] \<or> ts = [] then Some (RelayFail 401 ''unauthorized'')
      else (case atoi ts of
              None \<Rightarrow> Some (RelayFail 400 ''invalid_request'')
            | Some tsec \<Rightarrow>
                if tsec < now div 1000000000 - 60 \<or> tsec > now div 1000000000 + 60
                then Some (RelayFail 401 ''unauthorized'')
                else if \<not> verifyAcceptanceSignature ed_verify requireAttestation T job deviceID ts sigText
                then Some (RelayFail 401 ''unauthorized'') else None))"

definition accept_failure :: "relayError \<Rightarrow> relayReply" where
  "accept_failure e = (case e of RelayUnauthorized \<Rightarrow> RelayFail 403 ''forbidden''
     | RelayAttestationRequired \<Rightarrow> RelayFail 401 ''attestation_required''
     | RelayExpired \<Rightarrow> RelayFail 410 ''expired'' | _ \<Rightarrow> RelayFail 400 ''accept_failed'')"

definition Accept ::
  "(string \<Rightarrow> string \<Rightarrow> string \<Rightarrow> bool) \<Rightarrow> bool \<Rightarrow> time \<Rightarrow> string option \<Rightarrow> string \<Rightarrow> httpReq \<Rightarrow> relayTables
   \<Rightarrow> relayReply \<times> relayTables" where
  "Accept ed_verify requireAttestation now actor jobID r T =
     (case actor of
        None \<Rightarrow> (RelayFail 401 ''unauthorized'', T)
      | Some actorUserID \<Rightarrow>
          let (good, vals) = decode_strings (Body r) [''device_id'']; deviceID = vals ! 0 in
          if \<not> good then (RelayFail 400 ''invalid_request'', T)
          else (case loadJobRecordForActor T now actorUserID jobID of
             Inl e \<Rightarrow> (load_failure e, T)
           | Inr job \<Rightarrow>
               (case loadDeviceRecord T now actorUserID deviceID of
                  None \<Rightarrow> (RelayFail 403 ''forbidden'', T)
                | Some device \<Rightarrow>
                    (case check_acceptance ed_verify requireAttestation now r job device deviceID T of
                       Some rep \<Rightarrow> (rep, T)
                     | None \<Rightarrow>
                         (case AcceptJobForActor requireAttestation now actorUserID jobID deviceID (isAttested device now)
                                 (j_required_capability job) T of
                            (Some e, T') \<Rightarrow> (accept_failure e, T')
                          | (None, T') \<Rightarrow> (RelayNoContent, T'))))))"

definition Result ::
  "bool \<Rightarrow> time \<Rightarrow> string option \<Rightarrow> string \<Rightarrow> httpReq \<Rightarrow> relayTables \<Rightarrow> relayReply \<times> relayTables" where
  "Result requireAttestation now actor jobID r T =
     (case actor of
        None \<Rightarrow> (RelayFail 401 ''unauthorized'', T)
      | Some actorUserID \<Rightarrow>
          let (good, vals) = decode_strings (Body r) [''device_id'', ''status''] in
          if \<not> good then (RelayFail 400 ''invalid_request'', T)
          else (case loadJobRecordForActor T now actorUserID jobID of
             Inl e \<Rightarrow> (load_failure e, T)
           | Inr job \<Rightarrow>
               (case FinishJobForActor requireAttestation now actorUserID (vals ! 0) jobID
                       (any_field (Body r) ''result'') (vals ! 1) (j_required_capability job) T of
                  (Some e, T') \<Rightarrow> (if e = RelayUnauthorized then RelayFail 403 ''forbidden''
                                  else RelayFail 500 ''result_failed'', T')
                | (None, T') \<Rightarrow> (RelayNoContent, T'))))"

end
