(* ===== verification/RelayProps.thy ===== *)
theory RelayProps
  imports Relay
begin

text \<open>
  Relay jobs as a state machine: who may accept and finish a job, what never changes about it, and
  what the handlers make of it.
\<close>

lemma update_jobs_sel [simp]:
  "relay_jobs (update_jobs P f T) = map (\<lambda>row. if P row then f row else row) (relay_jobs T)"
  "relay_devices (update_jobs P f T) = relay_devices T"
  by (simp_all add: update_jobs_def)

section \<open>Policy\<close>

text \<open>Whatever transport a client hints at, the job is an MMS that needs the carrier capability
  exactly when its content holds media, and an SMS otherwise.\<close>

theorem relay_policy_by_content:
  "canonicalRelayPolicy hint content =
     (if relayContentHasMedia content then (''RELAY_MMS'', ''ANDROID_CARRIER'')
      else (''RELAY_SMS'', ''RELAY_EXECUTOR''))"
  by (simp add: canonicalRelayPolicy_def Let_def)

section \<open>Accepting\<close>

lemma ensure_authorized:
  assumes "ensureRelayDeviceAuthorized ra T now actor deviceID cap = None" and "cap \<noteq> []"
  shows "\<exists>d. loadDeviceRecord T now actor deviceID = Some d \<and> hasCapability d cap
    \<and> (cap = ''ANDROID_CARRIER'' \<longrightarrow> trim_space (smsRoleState d) = ''DEFAULT_SMS_HANDLER'')
    \<and> (cap = ''ANDROID_CARRIER'' \<or> ra \<longrightarrow> isAttested d now \<and> now - lastSeenAt d \<le> 24 * 3600 * 1000000000)"
  using assms
  by (auto simp: ensureRelayDeviceAuthorized_def Let_def split: option.splits if_splits)

definition accepted_by :: "time \<Rightarrow> string \<Rightarrow> bool \<Rightarrow> relayJobRow \<Rightarrow> relayJobRow" where
  "accepted_by now deviceID attested row = row\<lparr>j_executing_device_id := Some deviceID, j_status := ''accepted'',
     j_consent_state := ''DEVICE_CONFIRMED'', j_accepted_at := Some now,
     j_attested_at := (if attested then Some now else j_attested_at row), j_updated_at := Some now\<rparr>"

lemma accept_cases:
  assumes "AcceptJobForActor ra now actor jobID deviceID attested cap T = (None, T')"
  shows "ensureRelayDeviceAuthorized ra T now actor deviceID cap = None" "ra \<longrightarrow> attested"
    "list_ex (acceptable now actor jobID cap) (relay_jobs T)"
    "T' = update_jobs (acceptable now actor jobID cap) (accepted_by now deviceID attested) T"
  using assms
  by (auto simp: AcceptJobForActor_def accepted_by_def [abs_def] split: option.splits if_splits)


definition toy_device :: relayDeviceRow where
  "toy_device = \<lparr>d_id = ''d1'', d_user_id = ''u1'', d_public_key = None, d_capabilities = Some [''RELAY_EXECUTOR''],
     d_sms_role_state = None, d_last_seen_at = None, d_attestation_state = None, d_attestation_expires_at = None\<rparr>"

definition toy_relay :: relayTables where
  "toy_relay = CreateJob ''j1'' 0 ''u1'' (JStr ''+1555'') ''RELAY_SMS'' (JStr ''hi'') ''RELAY_EXECUTOR''
     \<lparr>relay_jobs = [], relay_devices = [toy_device]\<rparr>"


section \<open>The state machine\<close>

text \<open>The service operations and the retry worker; devices may change in any way in between.\<close>

inductive relay_step :: "bool \<Rightarrow> relayTables \<Rightarrow> relayTables \<Rightarrow> bool" for ra where
  job_created: "newID \<notin> j_id ` set (relay_jobs T) \<Longrightarrow>
     relay_step ra T (CreateJob newID now creator dest hint content cap T)"
| job_accepted: "AcceptJobForActor ra now actor jobID dev att cap T = (None, T') \<Longrightarrow> relay_step ra T T'"
| job_finished: "FinishJobForActor ra now actor dev jobID res status cap T = (None, T') \<Longrightarrow> relay_step ra T T'"
| jobs_retried: "relay_step ra T (relay_retry T)"
| devices_changed: "relay_step ra T (T\<lparr>relay_devices := ds\<rparr>)"

inductive relay_run :: "bool \<Rightarrow> relayTables \<Rightarrow> relayTables \<Rightarrow> bool" for ra where
  relay_run_refl: "relay_run ra T T"
| relay_run_step: "relay_run ra T T' \<Longrightarrow> relay_step ra T' T'' \<Longrightarrow> relay_run ra T T''"

definition same_job :: "relayJobRow \<Rightarrow> relayJobRow \<Rightarrow> bool" where
  "same_job r r' \<longleftrightarrow> j_id r' = j_id r \<and> j_creator_user_id r' = j_creator_user_id r
     \<and> j_destination r' = j_destination r \<and> j_transport_hint r' = j_transport_hint r
     \<and> j_content r' = j_content r \<and> j_required_capability r' = j_required_capability r
     \<and> j_expires_at r' = j_expires_at r \<and> j_created_at r' = j_created_at r"

definition keeps_jobs :: "relayTables \<Rightarrow> relayTables \<Rightarrow> bool" where
  "keeps_jobs T T' \<longleftrightarrow> list_all2 same_job (relay_jobs T) (take (length (relay_jobs T)) (relay_jobs T'))"

lemma same_job_refl [simp]: "same_job r r"
  by (simp add: same_job_def)

lemma same_job_trans: "same_job a b \<Longrightarrow> same_job b c \<Longrightarrow> same_job a c"
  by (simp add: same_job_def)

definition job_inv :: "relayJobRow \<Rightarrow> bool" where
  "job_inv r \<longleftrightarrow> (j_status r = ''accepted'' \<longrightarrow> j_executing_device_id r \<noteq> None \<and> j_accepted_at r \<noteq> None)
     \<and> (j_executing_device_id r \<noteq> None \<longleftrightarrow> j_accepted_at r \<noteq> None) \<and> j_retry_count r \<le> 3"

definition relay_inv :: "relayTables \<Rightarrow> bool" where
  "relay_inv T \<longleftrightarrow> list_all job_inv (relay_jobs T) \<and> distinct (map j_id (relay_jobs T))"

lemma finish_cases:
  assumes "FinishJobForActor ra now actor dev jobID res status cap T = (None, T')"
  shows "T' = update_jobs (finishable now actor dev jobID)
     (\<lambda>row. row\<lparr>j_result := Some res, j_status := status, j_updated_at := Some now\<rparr>) T"
  using assms by (auto simp: FinishJobForActor_def split: option.splits if_splits)

text \<open>Every step extends the table by at most one job and maps the old ones.\<close>

lemma relay_step_shape:
  assumes "relay_step ra T T'"
  shows "\<exists>f new. relay_jobs T' = map f (relay_jobs T) @ new \<and> (\<forall>r. same_job r (f r))
     \<and> (\<forall>r. job_inv r \<longrightarrow> job_inv (f r)) \<and> (\<forall>r \<in> set new. job_inv r)
     \<and> (new = [] \<or> (\<exists>r. new = [r] \<and> j_id r \<notin> j_id ` set (relay_jobs T)))"
  using assms
proof (induction rule: relay_step.induct)
  case (job_created newID T now creator dest hint content cap)
  then show ?case
    by (intro exI [of _ "\<lambda>r. r"] exI [of _ "drop (length (relay_jobs T)) (relay_jobs (CreateJob newID now creator dest hint content cap T))"])
       (simp add: CreateJob_def job_inv_def)
next
  case (job_accepted now actor jobID dev att cap T T')
  show ?case using accept_cases(4) [OF job_accepted]
    by (intro exI [of _ "\<lambda>row. if acceptable now actor jobID cap row then accepted_by now dev att row else row"]
          exI [of _ "[]"]) (simp add: same_job_def job_inv_def accepted_by_def)
next
  case (job_finished now actor dev jobID res status cap T T')
  show ?case using finish_cases [OF job_finished]
    by (intro exI [of _ "\<lambda>row. if finishable now actor dev jobID row
          then row\<lparr>j_result := Some res, j_status := status, j_updated_at := Some now\<rparr> else row"] exI [of _ "[]"])
       (auto simp: same_job_def job_inv_def finishable_def)
next
  case (jobs_retried T)
  show ?case
    by (intro exI [of _ "\<lambda>row. if j_status row = ''CARRIER_SEND_FAILED'' \<and> j_retry_count row < 3
          then row\<lparr>j_retry_count := j_retry_count row + 1, j_status := ''queued''\<rparr> else row"] exI [of _ "[]"])
       (auto simp: relay_retry_def same_job_def job_inv_def)
next
  case (devices_changed T ds)
  show ?case by (intro exI [of _ "\<lambda>r. r"] exI [of _ "[]"]) simp
qed

lemma relay_step_inv: "relay_step ra T T' \<Longrightarrow> relay_inv T \<Longrightarrow> relay_inv T'"
proof -
  assume "relay_step ra T T'" and inv: "relay_inv T"
  then obtain f new where s: "relay_jobs T' = map f (relay_jobs T) @ new" "\<forall>r. same_job r (f r)"
    "\<forall>r. job_inv r \<longrightarrow> job_inv (f r)" "\<forall>r \<in> set new. job_inv r"
    "new = [] \<or> (\<exists>r. new = [r] \<and> j_id r \<notin> j_id ` set (relay_jobs T))"
    using relay_step_shape by blast
  have ids: "map j_id (map f (relay_jobs T)) = map j_id (relay_jobs T)"
    using s(2) by (simp add: same_job_def)
  then have "j_id ` set (map f (relay_jobs T)) = j_id ` set (relay_jobs T)" by (metis set_map)
  then show ?thesis using inv s ids
    by (auto simp: relay_inv_def list_all_iff simp del: map_map) (metis imageI)
qed

lemma relay_step_keeps: "relay_step ra T T' \<Longrightarrow> keeps_jobs T T'"
proof -
  assume "relay_step ra T T'"
  then obtain f new where s: "relay_jobs T' = map f (relay_jobs T) @ new" "\<forall>r. same_job r (f r)"
    using relay_step_shape by blast
  then show ?thesis by (auto simp: keeps_jobs_def list.rel_map list_all2_same)
qed

lemma keeps_jobs_trans: "keeps_jobs A B \<Longrightarrow> keeps_jobs B C \<Longrightarrow> keeps_jobs A C"
proof -
  assume ab: "keeps_jobs A B" and bc: "keeps_jobs B C"
  let ?a = "relay_jobs A" and ?b = "relay_jobs B" and ?c = "relay_jobs C"
  have lab: "length ?a \<le> length ?b"
    using list_all2_lengthD [OF ab [unfolded keeps_jobs_def]] by simp
  have "list_all2 same_job (take (length ?a) ?b) (take (length ?a) (take (length ?b) ?c))"
    using bc unfolding keeps_jobs_def by (rule list_all2_takeI)
  then have "list_all2 same_job (take (length ?a) ?b) (take (length ?a) ?c)"
    using lab by (simp add: min_def)
  then show ?thesis
    using list_all2_trans [of same_job same_job same_job, OF same_job_trans ab [unfolded keeps_jobs_def]]
    by (simp add: keeps_jobs_def)
qed



section \<open>Through the handlers\<close>

inductive relay_served :: "(string \<Rightarrow> string \<Rightarrow> string \<Rightarrow> bool) \<Rightarrow> bool \<Rightarrow> relayTables \<Rightarrow> bool" for edv ra where
  relay_served_init: "relay_jobs T = [] \<Longrightarrow> relay_served edv ra T"
| served_create: "relay_served edv ra T \<Longrightarrow> relay_served edv ra (snd (CreateMessage newID now actor r T))"
| served_accept: "relay_served edv ra T \<Longrightarrow> relay_served edv ra (snd (Accept edv ra now actor jobID r T))"
| served_result: "relay_served edv ra T \<Longrightarrow> relay_served edv ra (snd (Result ra now actor jobID r T))"
| served_retry: "relay_served edv ra T \<Longrightarrow> relay_served edv ra (relay_retry T)"
| served_devices: "relay_served edv ra T \<Longrightarrow> relay_served edv ra (T\<lparr>relay_devices := ds\<rparr>)"

definition all_unassigned :: "relayTables \<Rightarrow> bool" where
  "all_unassigned T \<longleftrightarrow> list_all (\<lambda>r. j_executing_device_id r = None \<and> j_status r = ''queued'') (relay_jobs T)"

lemma unassigned_load: "all_unassigned T \<Longrightarrow> loadJobRecordForActor T now actor jobID = Inl RelayDbError"
proof -
  assume u: "all_unassigned T"
  have "loadJobRecord T jobID = None"
  proof (cases "find (\<lambda>row. j_id row = jobID) (relay_jobs T)")
    case (Some row)
    then have "row \<in> set (relay_jobs T)" by (metis find_Some_iff nth_mem)
    then show ?thesis using u Some by (simp add: loadJobRecord_def scan_job_def all_unassigned_def list_all_iff)
  qed (simp add: loadJobRecord_def)
  then show ?thesis by (simp add: loadJobRecordForActor_def)
qed

lemma unassigned_handlers:
  assumes "all_unassigned T"
  shows "snd (Accept edv ra now actor jobID r T) = T" "snd (Result ra now actor jobID r T) = T"
    "fst (Accept edv ra now actor jobID r T) \<noteq> RelayNoContent" "GetJob now actor jobID T \<noteq> RelayJob job"
  using unassigned_load [OF assms]
  by (auto simp: Accept_def Result_def GetJob_def load_failure_def Let_def split: option.splits prod.splits)

text \<open>C16. Served by its handlers over the real schema, the relay never works: the executing device of
  a new job is \<open>NULL\<close> and is scanned into a string, so loading the job fails.  Every job stays
  queued and unassigned for ever, and accepting one or reading one is answered with not found.\<close>

theorem relay_jobs_never_accepted:
  assumes "relay_served edv ra T"
  shows "(\<forall>row \<in> set (relay_jobs T). j_status row = ''queued'' \<and> j_executing_device_id row = None)
     \<and> (\<forall>now actor jobID r. fst (Accept edv ra now actor jobID r T) \<noteq> RelayNoContent)
     \<and> (\<forall>now actor jobID job. GetJob now actor jobID T \<noteq> RelayJob job)"
proof -
  have "all_unassigned T"
    using assms
  proof (induction rule: relay_served.induct)
    case (served_create T newID now actor r)
    then show ?case
      by (auto simp: CreateMessage_def Let_def all_unassigned_def CreateJob_def split: option.splits prod.splits)
  next
    case (served_retry T)
    then show ?case by (auto simp: relay_retry_def all_unassigned_def list_all_iff)
  qed (simp_all add: unassigned_handlers, simp_all add: all_unassigned_def)
  then show ?thesis using unassigned_handlers by (auto simp: all_unassigned_def list_all_iff)
qed

definition relay_post :: httpReq where
  "relay_post = \<lparr>Method = ''POST'', Path = [], Query = [], Header = [],
     Body = Some (JObj [(''destination'', JStr ''+1555''), (''content'', JStr ''hi''), (''device_id'', JStr ''d1'')])\<rparr>"

theorem relay_jobs_never_accepted_witness:
  "let T = snd (CreateMessage ''j1'' 0 (Some ''u1'') relay_post \<lparr>relay_jobs = [], relay_devices = [toy_device]\<rparr>)
   in length (relay_jobs T) = 1 \<and>
      fst (Accept (\<lambda>k m sg. True) False 5 (Some ''u1'') ''j1'' relay_post T) \<noteq> RelayNoContent"
proof -
  let ?T = "snd (CreateMessage ''j1'' 0 (Some ''u1'') relay_post \<lparr>relay_jobs = [], relay_devices = [toy_device]\<rparr>)"
  have "length (relay_jobs ?T) = 1" by code_simp
  moreover have "relay_served (\<lambda>k m sg. True) False ?T"
    by (rule served_create, rule relay_served_init) simp
  ultimately show ?thesis using relay_jobs_never_accepted [of "\<lambda>k m sg. True" False ?T] by (simp only: Let_def) simp
qed

end
