(* ===== verification/Crypto.thy ===== *)
theory Crypto
  imports Http Base64
begin

text \<open>
  Cryptographic operations of the end-to-end encryption package
  (\<open>gateway/internal/e2ee/crypto.go\<close>).  The primitives themselves (X25519, HMAC, HKDF, AES-GCM,
  Ed25519, SHA-256) are library code: a record of parameters, whose documented laws are collected in
  \<open>crypto_laws\<close>.  Byte slices are strings; a \<open>[32]byte\<close> is a string of length 32 and \<open>copy\<close> into
  one pads or truncates.  Bytes drawn from \<open>crypto/rand\<close> are arguments.  \<open>aes.NewCipher\<close> and
  \<open>cipher.NewGCM\<close> fail on a bad key size only, and the keys here are 32-byte arrays.
\<close>

record crypto =
  c_x25519 :: "string \<Rightarrow> string \<Rightarrow> string option"
  c_hmac :: "string \<Rightarrow> string \<Rightarrow> string"
  c_hkdf :: "string \<Rightarrow> string \<Rightarrow> nat \<Rightarrow> string"
  c_seal :: "string \<Rightarrow> string \<Rightarrow> string \<Rightarrow> string \<Rightarrow> string"
  c_open :: "string \<Rightarrow> string \<Rightarrow> string \<Rightarrow> string \<Rightarrow> string option"
  c_verify :: "string \<Rightarrow> string \<Rightarrow> string \<Rightarrow> bool"
  c_sha256 :: "string \<Rightarrow> string"

datatype e2eeError = EmptyKey | BadBase64 | BadSize nat | ZeroPeerKey | DhFailed | HkdfLength int
  | OpenFailed | NilState | ReplayedIndex | IndexTooFar | StoreFailed | NotFoundError | NoMembers
  | RecipientMismatch | TrustDeviceNotFound | TrustFingerprintMismatch

text \<open>The \<open>if err != nil { return err }\<close> of every call.\<close>

definition try_then :: "'e + 'a \<Rightarrow> ('a \<Rightarrow> 'e + 'b) \<Rightarrow> 'e + 'b" where
  "try_then m f = (case m of Inl e \<Rightarrow> Inl e | Inr x \<Rightarrow> f x)"

lemma try_then_simps [simp]: "try_then (Inl e) f = Inl e" "try_then (Inr x) f = f x"
  by (simp_all add: try_then_def)

lemma try_then_Inr [simp]: "try_then m f = Inr y \<longleftrightarrow> (\<exists>x. m = Inr x \<and> f x = Inr y)"
  by (cases m) simp_all

definition or_error :: "'e \<Rightarrow> 'a option \<Rightarrow> 'e + 'a" where
  "or_error e x = (case x of None \<Rightarrow> Inl e | Some v \<Rightarrow> Inr v)"

lemma or_error_simps [simp]: "or_error e None = Inl e" "or_error e (Some v) = Inr v"
  by (simp_all add: or_error_def)

lemma or_error_Inr [simp]: "or_error e x = Inr v \<longleftrightarrow> x = Some v"
  by (cases x) simp_all

definition require :: "'e \<Rightarrow> bool \<Rightarrow> 'e + unit" where
  "require e b = (if b then Inr () else Inl e)"

lemma require_simps [simp]: "require e True = Inr ()" "require e False = Inl e"
  by (simp_all add: require_def)

lemma require_Inr [simp]: "require e b = Inr u \<longleftrightarrow> b"
  by (simp add: require_def)

definition decode_b64 :: "string \<Rightarrow> e2eeError + string" where
  "decode_b64 s = or_error BadBase64 (b64_decode s)"

lemma decode_b64_encode [simp]: "decode_b64 (b64_encode s) = Inr s"
  by (simp add: decode_b64_def b64_roundtrip)

definition decode_sized :: "nat \<Rightarrow> string \<Rightarrow> e2eeError + string" where
  "decode_sized n s = try_then (decode_b64 s) (\<lambda>bytes. if length bytes = n then Inr bytes else Inl (BadSize (length bytes)))"

lemma decode_sized_encode [simp]: "length s = n \<Longrightarrow> decode_sized n (b64_encode s) = Inr s"
  by (simp add: decode_sized_def)

text \<open>\<open>copy(array[:], bytes)\<close> into a zeroed array.\<close>

definition arr :: "nat \<Rightarrow> string \<Rightarrow> string" where
  "arr n s = take n s @ replicate (n - length s) (CHR 0x00)"

lemma arr_exact [simp]: "length s = n \<Longrightarrow> arr n s = s"
  by (simp add: arr_def)

lemma length_arr [simp]: "length (arr n s) = n"
  by (simp add: arr_def)

definition zero_key :: string where
  "zero_key = replicate 32 (CHR 0x00)"

definition basepoint :: string where
  "basepoint = CHR 0x09 # replicate 31 (CHR 0x00)"

section \<open>Documented laws of the primitives\<close>

text \<open>
  Output sizes, AES-GCM decryption of what was sealed under the same 32-byte key, nonce and
  associated data, and the Diffie-Hellman equation of X25519: a public key is the private key applied to the
  base point, it is not the zero key, and two parties reach the same nonzero secret.
\<close>

definition crypto_laws :: "crypto \<Rightarrow> bool" where
  "crypto_laws C \<longleftrightarrow>
     (\<forall>k d. length (c_hmac C k d) = 32) \<and> (\<forall>k i n. length (c_hkdf C k i n) = n)
     \<and> (\<forall>k n p a. length k = 32 \<longrightarrow> c_open C k n (c_seal C k n p a) a = Some p)
     \<and> (\<forall>k p q. c_x25519 C k p = Some q \<longrightarrow> length q = 32)
     \<and> (\<forall>k p. c_x25519 C k basepoint = Some p \<longrightarrow> p \<noteq> zero_key)
     \<and> (\<forall>a b p q. c_x25519 C a basepoint = Some p \<longrightarrow> c_x25519 C b basepoint = Some q
          \<longrightarrow> c_x25519 C a q = c_x25519 C b p)"

lemma crypto_lawsD:
  assumes "crypto_laws C"
  shows "length (c_hmac C k d) = 32" "length (c_hkdf C k i n) = n"
    "length k = 32 \<Longrightarrow> c_open C k n' (c_seal C k n' p a) a = Some p"
    "c_x25519 C k q = Some r \<Longrightarrow> length r = 32"
    "c_x25519 C k basepoint = Some r \<Longrightarrow> r \<noteq> zero_key"
    "c_x25519 C k basepoint = Some q \<Longrightarrow> c_x25519 C k' basepoint = Some r \<Longrightarrow> c_x25519 C k r = c_x25519 C k' q"
  using assms unfolding crypto_laws_def by blast+

section \<open>Key agreement\<close>

text \<open>A keypair is the pair of the public and the (random) private key.\<close>

definition X25519Keypair :: "crypto \<Rightarrow> string \<Rightarrow> e2eeError + string \<times> string" where
  "X25519Keypair C privateKey =
     try_then (or_error DhFailed (c_x25519 C privateKey basepoint)) (\<lambda>publicKey. Inr (arr 32 publicKey, privateKey))"

definition X25519SharedSecret :: "crypto \<Rightarrow> string \<Rightarrow> string \<Rightarrow> e2eeError + string" where
  "X25519SharedSecret C ourPrivateKey theirPublicKey =
     (if theirPublicKey = zero_key then Inl ZeroPeerKey
      else try_then (or_error DhFailed (c_x25519 C ourPrivateKey theirPublicKey)) (\<lambda>shared. Inr (arr 32 shared)))"

definition GenerateECDHKeys :: "crypto \<Rightarrow> string \<Rightarrow> e2eeError + string \<times> string" where
  "GenerateECDHKeys C rnd = try_then (X25519Keypair C rnd) (\<lambda>(pub, priv). Inr (b64_encode pub, b64_encode priv))"

lemma shared_secret_commutes:
  assumes "crypto_laws C" and "X25519Keypair C a = Inr (pa, a)" and "X25519Keypair C b = Inr (pb, b)"
  shows "X25519SharedSecret C a pb = X25519SharedSecret C b pa" "pa \<noteq> zero_key" "length pa = 32"
proof -
  from assms obtain p q where p: "c_x25519 C a basepoint = Some p" "pa = arr 32 p"
    and q: "c_x25519 C b basepoint = Some q" "pb = arr 32 q"
    by (auto simp: X25519Keypair_def)
  have l: "pa = p" "pb = q" using p q crypto_lawsD(4) [OF assms(1)] by auto
  have "c_x25519 C a q = c_x25519 C b p" using crypto_lawsD(6) [OF assms(1) p(1) q(1)] .
  moreover have nz: "p \<noteq> zero_key" "q \<noteq> zero_key"
    using crypto_lawsD(5) [OF assms(1)] p(1) q(1) by blast+
  ultimately show "X25519SharedSecret C a pb = X25519SharedSecret C b pa"
    by (simp add: X25519SharedSecret_def l)
  show "pa \<noteq> zero_key" "length pa = 32"
    using nz l crypto_lawsD(4) [OF assms(1) p(1)] by simp_all
qed

section \<open>Derivation\<close>

definition HMACSign :: "crypto \<Rightarrow> string \<Rightarrow> string \<Rightarrow> string" where
  "HMACSign C key data = arr 32 (c_hmac C key data)"

definition HMACVerify :: "crypto \<Rightarrow> string \<Rightarrow> string \<Rightarrow> string \<Rightarrow> bool" where
  "HMACVerify C key data signature \<longleftrightarrow> HMACSign C key data = signature"

definition SignatureHex :: "crypto \<Rightarrow> string \<Rightarrow> string \<Rightarrow> string" where
  "SignatureHex C key data = b64_encode (HMACSign C key data)"

definition HKDFExpand :: "crypto \<Rightarrow> string \<Rightarrow> string \<Rightarrow> int \<Rightarrow> e2eeError + string" where
  "HKDFExpand C prk info len =
     (if len < 0 \<or> len > 255 * 32 then Inl (HkdfLength len) else Inr (c_hkdf C prk info (nat len)))"

lemma HKDFExpand_32 [simp]: "HKDFExpand C prk info 32 = Inr (c_hkdf C prk info 32)"
  by (simp add: HKDFExpand_def)

definition HKDFExtractExpand :: "crypto \<Rightarrow> string \<Rightarrow> string \<Rightarrow> string \<Rightarrow> int \<Rightarrow> e2eeError + string" where
  "HKDFExtractExpand C salt ikm info len = HKDFExpand C (c_hmac C salt ikm) info len"

definition ChainKeyDerive :: "crypto \<Rightarrow> string \<Rightarrow> string \<times> string" where
  "ChainKeyDerive C chainKey = (HMACSign C chainKey [CHR 0x01], HMACSign C chainKey [CHR 0x02])"

section \<open>Authenticated encryption\<close>

definition AESGCMEncrypt :: "crypto \<Rightarrow> string \<Rightarrow> string \<Rightarrow> string \<Rightarrow> string \<Rightarrow> string \<times> string" where
  "AESGCMEncrypt C nonce key plaintext aad = (c_seal C key nonce plaintext aad, nonce)"

definition AESGCMDecrypt :: "crypto \<Rightarrow> string \<Rightarrow> string \<Rightarrow> string \<Rightarrow> string \<Rightarrow> e2eeError + string" where
  "AESGCMDecrypt C key ciphertext nonce aad = or_error OpenFailed (c_open C key nonce ciphertext aad)"

definition MessageEncrypt :: "crypto \<Rightarrow> string \<Rightarrow> string \<Rightarrow> string \<Rightarrow> string \<times> string" where
  "MessageEncrypt C nonce messageKey plaintext =
     (case AESGCMEncrypt C nonce messageKey plaintext [] of (ciphertext, n) \<Rightarrow> (b64_encode ciphertext, b64_encode n))"

definition MessageDecrypt :: "crypto \<Rightarrow> string \<Rightarrow> string \<Rightarrow> string \<Rightarrow> e2eeError + string" where
  "MessageDecrypt C messageKey ciphertextB64 nonceB64 =
     try_then (decode_b64 ciphertextB64) (\<lambda>ciphertext.
     try_then (decode_sized 12 nonceB64) (\<lambda>nonce.
       AESGCMDecrypt C messageKey ciphertext nonce []))"

definition EncryptMessageContentLegacy ::
  "crypto \<Rightarrow> string \<Rightarrow> string \<Rightarrow> string \<Rightarrow> e2eeError + string \<times> string" where
  "EncryptMessageContentLegacy C nonce messageBytes sessionKey =
     (if length sessionKey \<noteq> 32 then Inl (BadSize (length sessionKey))
      else case AESGCMEncrypt C nonce (arr 32 sessionKey) messageBytes [] of
             (ct, n) \<Rightarrow> Inr (b64_encode ct, b64_encode n))"

definition DecryptMessageContentLegacy ::
  "crypto \<Rightarrow> string \<Rightarrow> string \<Rightarrow> string \<Rightarrow> e2eeError + string" where
  "DecryptMessageContentLegacy C ciphertext nonce sessionKey =
     (if length sessionKey \<noteq> 32 then Inl (BadSize (length sessionKey))
      else try_then (decode_b64 ciphertext) (\<lambda>ct.
           try_then (decode_sized 12 nonce) (\<lambda>n.
             AESGCMDecrypt C (arr 32 sessionKey) ct n [])))"

section \<open>Signatures and fingerprints\<close>

definition ComputeFingerprint :: "crypto \<Rightarrow> string \<Rightarrow> e2eeError + string" where
  "ComputeFingerprint C signingPublicKeyBase64 =
     (if signingPublicKeyBase64 = [] then Inl EmptyKey
      else try_then (decode_b64 signingPublicKeyBase64) (\<lambda>bytes.
        if bytes = [] then Inl EmptyKey else Inr (hex_encode (c_sha256 C bytes))))"

definition VerifySignature :: "crypto \<Rightarrow> string \<Rightarrow> string \<Rightarrow> string \<Rightarrow> e2eeError + bool" where
  "VerifySignature C signingPublicKeyBase64 message signatureBase64 =
     try_then (decode_sized 32 signingPublicKeyBase64) (\<lambda>pubKey.
     try_then (decode_b64 signatureBase64) (\<lambda>sigBytes. Inr (c_verify C pubKey message sigBytes)))"

section \<open>X3DH\<close>

record X3DHKeys =
  SenderIdentityPrivate :: string
  SenderIdentityPublic :: string
  SenderEphemeralPrivate :: string
  SenderEphemeralPublic :: string
  RecipientIdentityPublic :: string
  RecipientSignedPrekey :: string
  RecipientOneTimePrekey :: string

text \<open>The optional fourth agreement contributes nothing when its key is absent or it fails.\<close>

definition optional_dh :: "crypto \<Rightarrow> bool \<Rightarrow> string \<Rightarrow> string \<Rightarrow> string" where
  "optional_dh C absent priv pub =
     (if absent then [] else case X25519SharedSecret C priv pub of Inl _ \<Rightarrow> [] | Inr dh4 \<Rightarrow> dh4)"

definition x3dh_kdf :: "crypto \<Rightarrow> string \<Rightarrow> e2eeError + string" where
  "x3dh_kdf C combinedMaterial =
     try_then (HKDFExtractExpand C ''X3DH'' combinedMaterial ''Signal X3DH context'' 32)
       (\<lambda>sharedSecret. Inr (arr 32 sharedSecret))"

definition PerformX3DH :: "crypto \<Rightarrow> X3DHKeys \<Rightarrow> e2eeError + string" where
  "PerformX3DH C keys =
     (if SenderIdentityPrivate keys = zero_key then Inl EmptyKey
      else if SenderEphemeralPrivate keys = zero_key then Inl EmptyKey
      else if RecipientIdentityPublic keys = zero_key then Inl EmptyKey
      else if RecipientSignedPrekey keys = zero_key then Inl EmptyKey
      else try_then (X25519SharedSecret C (SenderIdentityPrivate keys) (RecipientIdentityPublic keys)) (\<lambda>dh1.
           try_then (X25519SharedSecret C (SenderEphemeralPrivate keys) (RecipientSignedPrekey keys)) (\<lambda>dh2.
           try_then (X25519SharedSecret C (SenderEphemeralPrivate keys) (RecipientIdentityPublic keys)) (\<lambda>dh3.
             x3dh_kdf C (dh1 @ dh2 @ dh3 @
               optional_dh C (RecipientOneTimePrekey keys = zero_key) (SenderEphemeralPrivate keys)
                 (RecipientOneTimePrekey keys))))))"

text \<open>The result is the secret, the ephemeral public key and the ephemeral private key.\<close>

definition PerformX3DHInitiator ::
  "crypto \<Rightarrow> string \<Rightarrow> string \<Rightarrow> string \<Rightarrow> string \<Rightarrow> string \<Rightarrow> string \<Rightarrow> e2eeError + string \<times> string \<times> string" where
  "PerformX3DHInitiator C rnd senderIdentityPrivate senderIdentityPublic recipientIdentityPublic
       recipientSignedPrekey recipientOneTimePrekey =
     try_then (X25519Keypair C rnd) (\<lambda>(ephPub, ephPriv).
     try_then (PerformX3DH C \<lparr>SenderIdentityPrivate = senderIdentityPrivate, SenderIdentityPublic = senderIdentityPublic,
         SenderEphemeralPrivate = ephPriv, SenderEphemeralPublic = ephPub,
         RecipientIdentityPublic = recipientIdentityPublic, RecipientSignedPrekey = recipientSignedPrekey,
         RecipientOneTimePrekey = recipientOneTimePrekey\<rparr>) (\<lambda>sharedSecret.
       Inr (sharedSecret, ephPub, ephPriv)))"

definition PerformX3DHResponder ::
  "crypto \<Rightarrow> string \<Rightarrow> string \<Rightarrow> string \<Rightarrow> string \<Rightarrow> string \<Rightarrow> string \<Rightarrow> string \<Rightarrow> e2eeError + string" where
  "PerformX3DHResponder C senderEphemeralPublic recipientIdentityPrivate recipientIdentityPublic
       recipientSignedPrekeyPrivate recipientSignedPrekeyPublic recipientOneTimePrekeyPrivate senderIdentityPublic =
     try_then (X25519SharedSecret C recipientIdentityPrivate senderIdentityPublic) (\<lambda>dh1.
     try_then (X25519SharedSecret C recipientSignedPrekeyPrivate senderEphemeralPublic) (\<lambda>dh2.
     try_then (X25519SharedSecret C recipientIdentityPrivate senderEphemeralPublic) (\<lambda>dh3.
       x3dh_kdf C (dh1 @ dh2 @ dh3 @
         optional_dh C (recipientOneTimePrekeyPrivate = zero_key) recipientOneTimePrekeyPrivate senderEphemeralPublic))))"

end
