(* ===== verification/Ratchet.thy ===== *)
theory Ratchet
  imports Crypto
begin

text \<open>
  The double ratchet (\<open>gateway/internal/e2ee/double_ratchet.go\<close>), the message and key-wrapping
  operations over it, and the sessions that persist it (\<open>e2ee/crypto.go\<close>).  A method that changes
  its receiver returns the changed state, also when it fails.  Go's \<open>int\<close> has 64 bits.
\<close>

definition wrap64 :: "int \<Rightarrow> int" where
  "wrap64 x = (x + 2 ^ 63) mod 2 ^ 64 - 2 ^ 63"

lemma wrap64_id [simp]: "- (2 ^ 63) \<le> x \<Longrightarrow> x < 2 ^ 63 \<Longrightarrow> wrap64 x = x"
  by (simp add: wrap64_def)

lemma wrap64_over: "2 ^ 63 \<le> x \<Longrightarrow> x < 2 ^ 64 \<Longrightarrow> wrap64 x = x - 2 ^ 64"
proof -
  assume x: "2 ^ 63 \<le> x" "x < 2 ^ 64"
  have "x + 2 ^ 63 = x - 2 ^ 63 + 2 ^ 64" by simp
  then have "(x + 2 ^ 63) mod 2 ^ 64 = (x - 2 ^ 63 + 2 ^ 64) mod 2 ^ 64" by (rule arg_cong)
  also have "\<dots> = x - 2 ^ 63" using x by (simp only: mod_add_self2) simp
  finally show ?thesis by (simp add: wrap64_def)
qed

section \<open>Ratchet state\<close>

record DoubleRatchetState =
  RootKey :: string
  SendChainKey :: string
  RecvChainKey :: string
  SendMessageIndex :: int
  RecvMessageIndex :: int
  DhRatchetCounter :: int

definition InitializeDoubleRatchetState :: "crypto \<Rightarrow> string \<Rightarrow> e2eeError + DoubleRatchetState" where
  "InitializeDoubleRatchetState C rootKeyBytes =
     (if length rootKeyBytes \<noteq> 32 then Inl (BadSize (length rootKeyBytes))
      else let rootKey = arr 32 rootKeyBytes in
        try_then (HKDFExpand C rootKey ''sender-chain'' 32) (\<lambda>sendChain.
        try_then (HKDFExpand C rootKey ''receiver-chain'' 32) (\<lambda>recvChain.
          Inr \<lparr>RootKey = rootKey, SendChainKey = arr 32 sendChain, RecvChainKey = arr 32 recvChain,
               SendMessageIndex = 0, RecvMessageIndex = 0, DhRatchetCounter = 0\<rparr>)))"

definition InitializeDoubleRatchetStateAsReceiver :: "crypto \<Rightarrow> string \<Rightarrow> e2eeError + DoubleRatchetState" where
  "InitializeDoubleRatchetStateAsReceiver C rootKeyBytes =
     (if length rootKeyBytes \<noteq> 32 then Inl (BadSize (length rootKeyBytes))
      else let rootKey = arr 32 rootKeyBytes in
        try_then (HKDFExpand C rootKey ''sender-chain'' 32) (\<lambda>sendChain.
        try_then (HKDFExpand C rootKey ''receiver-chain'' 32) (\<lambda>recvChain.
          Inr \<lparr>RootKey = rootKey, SendChainKey = arr 32 recvChain, RecvChainKey = arr 32 sendChain,
               SendMessageIndex = 0, RecvMessageIndex = 0, DhRatchetCounter = 0\<rparr>)))"

definition RatchetSendMessageKey :: "crypto \<Rightarrow> DoubleRatchetState \<Rightarrow> string \<times> DoubleRatchetState" where
  "RatchetSendMessageKey C dr =
     (case ChainKeyDerive C (SendChainKey dr) of (msgKey, nextChainKey) \<Rightarrow>
        (msgKey, dr\<lparr>SendChainKey := nextChainKey, SendMessageIndex := wrap64 (SendMessageIndex dr + 1)\<rparr>))"

text \<open>The loop \<open>for i := dr.RecvMessageIndex; i < messageIndex; i++\<close> over the chain key.\<close>

function catch_up :: "crypto \<Rightarrow> int \<Rightarrow> int \<Rightarrow> string \<Rightarrow> string" where
  "catch_up C i messageIndex currentChainKey =
     (if i < messageIndex then catch_up C (i + 1) messageIndex (snd (ChainKeyDerive C currentChainKey))
      else currentChainKey)"
  by pat_completeness auto

termination
  by (relation "measure (\<lambda>(C, i, messageIndex, k). nat (messageIndex - i))") auto

declare catch_up.simps [simp del]

definition RatchetRecvMessageKey ::
  "crypto \<Rightarrow> int \<Rightarrow> DoubleRatchetState \<Rightarrow> (e2eeError + string) \<times> DoubleRatchetState" where
  "RatchetRecvMessageKey C messageIndex dr =
     (if messageIndex < RecvMessageIndex dr then (Inl ReplayedIndex, dr)
      else if messageIndex > wrap64 (RecvMessageIndex dr + 10000) then (Inl IndexTooFar, dr)
      else let currentChainKey = catch_up C (RecvMessageIndex dr) messageIndex (RecvChainKey dr) in
        (case ChainKeyDerive C currentChainKey of (msgKey, nextChainKey) \<Rightarrow>
           (Inr msgKey, dr\<lparr>RecvChainKey := nextChainKey, RecvMessageIndex := wrap64 (messageIndex + 1)\<rparr>)))"

definition RatchetDH ::
  "crypto \<Rightarrow> string \<Rightarrow> string \<Rightarrow> DoubleRatchetState \<Rightarrow> (e2eeError + unit) \<times> DoubleRatchetState" where
  "RatchetDH C ephemeralPublicKey ephemeralPrivateKey dr =
     (case try_then (HKDFExtractExpand C [] (RootKey dr @ ephemeralPublicKey) ''root-ratchet'' 32) (\<lambda>newRootKeyBytes.
           let newRootKey = arr 32 newRootKeyBytes in
           try_then (HKDFExpand C newRootKey ''sender-chain'' 32) (\<lambda>sendChain.
           try_then (HKDFExpand C newRootKey ''receiver-chain'' 32) (\<lambda>recvChain.
             Inr (newRootKey, sendChain, recvChain)))) of
        Inl e \<Rightarrow> (Inl e, dr)
      | Inr (newRootKey, sendChain, recvChain) \<Rightarrow>
          (Inr (), \<lparr>RootKey = newRootKey, SendChainKey = arr 32 sendChain, RecvChainKey = arr 32 recvChain,
             SendMessageIndex = 0, RecvMessageIndex = 0, DhRatchetCounter = wrap64 (DhRatchetCounter dr + 1)\<rparr>))"

definition EncryptMessageWithDoubleRatchet ::
  "crypto \<Rightarrow> string \<Rightarrow> string \<Rightarrow> DoubleRatchetState \<Rightarrow> (string \<times> string) \<times> DoubleRatchetState" where
  "EncryptMessageWithDoubleRatchet C nonce plaintext dr =
     (case RatchetSendMessageKey C dr of (msgKey, dr') \<Rightarrow> (AESGCMEncrypt C nonce msgKey plaintext [], dr'))"

definition DecryptMessageWithDoubleRatchet ::
  "crypto \<Rightarrow> string \<Rightarrow> string \<Rightarrow> int \<Rightarrow> DoubleRatchetState \<Rightarrow> (e2eeError + string) \<times> DoubleRatchetState" where
  "DecryptMessageWithDoubleRatchet C ciphertext nonce messageIndex dr =
     (case RatchetRecvMessageKey C messageIndex dr of
        (Inl e, dr') \<Rightarrow> (Inl e, dr')
      | (Inr msgKey, dr') \<Rightarrow> (AESGCMDecrypt C msgKey ciphertext nonce [], dr'))"

section \<open>Skipped keys\<close>

text \<open>The map of \<open>SkippedMessageKeys\<close>.\<close>

type_synonym SkippedMessageKeys = "(int \<times> string) list"

definition Store_skipped :: "int \<Rightarrow> string \<Rightarrow> SkippedMessageKeys \<Rightarrow> SkippedMessageKeys" where
  "Store_skipped messageIndex key smk = AList.update messageIndex key smk"

definition Get_skipped :: "int \<Rightarrow> SkippedMessageKeys \<Rightarrow> string option \<times> SkippedMessageKeys" where
  "Get_skipped messageIndex smk =
     (case map_of smk messageIndex of
        Some key \<Rightarrow> (Some key, AList.delete messageIndex smk)
      | None \<Rightarrow> (None, smk))"

definition Size_skipped :: "SkippedMessageKeys \<Rightarrow> nat" where
  "Size_skipped smk = length smk"

section \<open>Message contents over base64\<close>

text \<open>The nil state is \<open>None\<close>; the state is shared with the caller and stays advanced.\<close>

definition EncryptMessageContent ::
  "crypto \<Rightarrow> string \<Rightarrow> string \<Rightarrow> DoubleRatchetState option \<Rightarrow> (e2eeError + string \<times> string) \<times> DoubleRatchetState option" where
  "EncryptMessageContent C nonce messageBytes sessionState =
     (case sessionState of
        None \<Rightarrow> (Inl NilState, None)
      | Some dr \<Rightarrow> (case EncryptMessageWithDoubleRatchet C nonce messageBytes dr of
          ((ct, n), dr') \<Rightarrow> (Inr (b64_encode ct, b64_encode n), Some dr')))"

definition DecryptMessageContent ::
  "crypto \<Rightarrow> string \<Rightarrow> string \<Rightarrow> DoubleRatchetState option \<Rightarrow> int \<Rightarrow> (e2eeError + string) \<times> DoubleRatchetState option" where
  "DecryptMessageContent C ciphertext nonce sessionState messageIndex =
     (case sessionState of
        None \<Rightarrow> (Inl NilState, None)
      | Some dr \<Rightarrow>
          (case try_then (decode_b64 ciphertext) (\<lambda>ct. try_then (decode_sized 12 nonce) (\<lambda>n. Inr (ct, n))) of
             Inl e \<Rightarrow> (Inl e, Some dr)
           | Inr (ct, n) \<Rightarrow> map_prod id Some (DecryptMessageWithDoubleRatchet C ct n messageIndex dr)))"

section \<open>Wrapped keys\<close>

text \<open>
  \<open>GenerateRecipientWrappedKey\<close> seals the root key of a state under a key derived from an
  ephemeral agreement; the legacy variant seals a given session key.  Both share the wrapping.
\<close>

definition wrap_key ::
  "crypto \<Rightarrow> string \<Rightarrow> string \<Rightarrow> string \<Rightarrow> string \<Rightarrow> string \<Rightarrow> e2eeError + string \<times> string" where
  "wrap_key C rnd nonce recipientIdentityPublicKey info secret =
     try_then (decode_sized 32 recipientIdentityPublicKey) (\<lambda>recipientKey.
     try_then (X25519Keypair C rnd) (\<lambda>(ephPub, ephPriv).
     try_then (X25519SharedSecret C ephPriv recipientKey) (\<lambda>sharedSecret.
     try_then (HKDFExpand C sharedSecret info 32) (\<lambda>wrappingKey.
       case AESGCMEncrypt C nonce (arr 32 wrappingKey) secret [] of
         (ciphertext, n) \<Rightarrow> Inr (b64_encode (ephPub @ ciphertext), b64_encode n)))))"

definition GenerateRecipientWrappedKey ::
  "crypto \<Rightarrow> string \<Rightarrow> string \<Rightarrow> string \<Rightarrow> DoubleRatchetState option \<Rightarrow> e2eeError + string \<times> string" where
  "GenerateRecipientWrappedKey C rnd nonce recipientIdentityPublicKey recipientState =
     (case recipientState of
        None \<Rightarrow> Inl NilState
      | Some dr \<Rightarrow> wrap_key C rnd nonce recipientIdentityPublicKey (RootKey dr) (RootKey dr))"

definition GenerateRecipientWrappedKeyLegacy ::
  "crypto \<Rightarrow> string \<Rightarrow> string \<Rightarrow> string \<Rightarrow> string \<Rightarrow> e2eeError + string \<times> string" where
  "GenerateRecipientWrappedKeyLegacy C rnd nonce recipientIdentityPublicKey sessionKey =
     (if length sessionKey \<noteq> 32 then Inl (BadSize (length sessionKey))
      else wrap_key C rnd nonce recipientIdentityPublicKey ''wrap-key'' (arr 32 sessionKey))"

definition UnwrapSessionKeyWithDoubleRatchet ::
  "crypto \<Rightarrow> string \<Rightarrow> string \<Rightarrow> string \<Rightarrow> DoubleRatchetState option \<Rightarrow> e2eeError + string" where
  "UnwrapSessionKeyWithDoubleRatchet C ourPrivateKeyHex wrappedKeyB64 wrapNonceB64 ourState =
     (case ourState of
        None \<Rightarrow> Inl NilState
      | Some dr \<Rightarrow>
          try_then (decode_sized 32 ourPrivateKeyHex) (\<lambda>ourPrivKey.
          try_then (decode_b64 wrappedKeyB64) (\<lambda>wrappedContent.
            if length wrappedContent < 32 then Inl (BadSize (length wrappedContent))
            else let ephPub = take 32 wrappedContent; ciphertext = drop 32 wrappedContent in
          try_then (decode_sized 12 wrapNonceB64) (\<lambda>wrapNonce.
          try_then (X25519SharedSecret C ourPrivKey ephPub) (\<lambda>sharedSecret.
          try_then (HKDFExpand C sharedSecret (RootKey dr) 32) (\<lambda>wrappingKey.
            AESGCMDecrypt C (arr 32 wrappingKey) ciphertext wrapNonce []))))))"

section \<open>Sessions\<close>

text \<open>
  A row of \<open>e2ee_sessions\<close>; a nil slice is \<open>NULL\<close>, and \<open>session_key_bytes\<close> is declared
  \<open>NOT NULL\<close>.  \<open>message_key_index\<close> is an \<open>INT\<close> column of 32 bits.
\<close>

record Session =
  UserID :: string
  ContactUserID :: string
  ContactDeviceID :: string
  SessionKeyBytes :: "string option"
  SessionKeyVersion :: int
  RootKeyBytes :: "string option"
  ChainKeyBytes :: "string option"
  MessageKeyIndex :: int
  CreatedAt_s :: time
  UpdatedAt_s :: time

definition session_key :: "Session \<Rightarrow> string \<times> string \<times> string" where
  "session_key s = (UserID s, ContactUserID s, ContactDeviceID s)"

definition bytes_of :: "string option \<Rightarrow> string" where
  "bytes_of b = (case b of None \<Rightarrow> [] | Some s \<Rightarrow> s)"

definition GetSession :: "Session list \<Rightarrow> string \<Rightarrow> string \<Rightarrow> string \<Rightarrow> Session option" where
  "GetSession table userID contactUserID contactDeviceID =
     find (\<lambda>s. session_key s = (userID, contactUserID, contactDeviceID)) table"

definition fits_int4 :: "int \<Rightarrow> bool" where
  "fits_int4 i \<longleftrightarrow> - (2 ^ 31) \<le> i \<and> i < 2 ^ 31"

definition SaveSession :: "time \<Rightarrow> Session \<Rightarrow> Session list \<Rightarrow> (e2eeError + unit) \<times> Session list" where
  "SaveSession now session table =
     (if SessionKeyBytes session = None \<or> \<not> fits_int4 (MessageKeyIndex session)
         \<or> \<not> fits_int4 (SessionKeyVersion session) then (Inl StoreFailed, table)
      else if list_ex (\<lambda>s. session_key s = session_key session) table then
        (Inr (), map (\<lambda>s. if session_key s = session_key session
           then s\<lparr>SessionKeyBytes := SessionKeyBytes session, SessionKeyVersion := SessionKeyVersion session,
                  RootKeyBytes := RootKeyBytes session, ChainKeyBytes := ChainKeyBytes session,
                  MessageKeyIndex := MessageKeyIndex session, UpdatedAt_s := now\<rparr> else s) table)
      else (Inr (), table @ [session\<lparr>UpdatedAt_s := now\<rparr>]))"

definition CreateOrGetSession ::
  "time \<Rightarrow> string \<Rightarrow> string \<Rightarrow> string \<Rightarrow> Session list \<Rightarrow> (e2eeError + Session) \<times> Session list" where
  "CreateOrGetSession now userID contactUserID contactDeviceID table =
     (case GetSession table userID contactUserID contactDeviceID of
        Some session \<Rightarrow> (Inr session, table)
      | None \<Rightarrow>
          let session = \<lparr>UserID = userID, ContactUserID = contactUserID, ContactDeviceID = contactDeviceID,
                SessionKeyBytes = None, SessionKeyVersion = 1, RootKeyBytes = None, ChainKeyBytes = None,
                MessageKeyIndex = 0, CreatedAt_s = now, UpdatedAt_s = now\<rparr>
          in case SaveSession now session table of
               (Inl e, table') \<Rightarrow> (Inl e, table')
             | (Inr _, table') \<Rightarrow> (Inr session, table'))"

definition UpdateSessionFromDoubleRatchet :: "Session \<Rightarrow> DoubleRatchetState \<Rightarrow> Session" where
  "UpdateSessionFromDoubleRatchet session dr =
     session\<lparr>RootKeyBytes := Some (RootKey dr), ChainKeyBytes := Some (SendChainKey dr),
             MessageKeyIndex := SendMessageIndex dr\<rparr>"

definition CreateDoubleRatchetStateFromSession :: "crypto \<Rightarrow> Session \<Rightarrow> e2eeError + DoubleRatchetState" where
  "CreateDoubleRatchetStateFromSession C session =
     (let root = bytes_of (RootKeyBytes session); chain = bytes_of (ChainKeyBytes session) in
      if length root \<noteq> 32 then Inl (BadSize (length root))
      else if length chain \<noteq> 32 then Inl (BadSize (length chain))
      else try_then (HKDFExpand C (arr 32 root) ''receiver-chain'' 32) (\<lambda>recvChain.
        Inr \<lparr>RootKey = arr 32 root, SendChainKey = arr 32 chain, RecvChainKey = arr 32 recvChain,
             SendMessageIndex = MessageKeyIndex session, RecvMessageIndex = MessageKeyIndex session,
             DhRatchetCounter = 0\<rparr>))"

text \<open>The session is the caller's: it is updated even when saving it fails.\<close>

definition EncryptMessageWithSession ::
  "crypto \<Rightarrow> time \<Rightarrow> string \<Rightarrow> Session \<Rightarrow> string \<Rightarrow> Session list
   \<Rightarrow> (e2eeError + string \<times> string) \<times> Session \<times> Session list" where
  "EncryptMessageWithSession C now nonce session plaintext table =
     (case CreateDoubleRatchetStateFromSession C session of
        Inl e \<Rightarrow> (Inl e, session, table)
      | Inr dr \<Rightarrow>
          (case EncryptMessageWithDoubleRatchet C nonce plaintext dr of ((ct, n), dr') \<Rightarrow>
             let session' = UpdateSessionFromDoubleRatchet session dr' in
             (case SaveSession now session' table of
                (Inl e, table') \<Rightarrow> (Inl e, session', table')
              | (Inr _, table') \<Rightarrow> (Inr (b64_encode ct, b64_encode n), session', table'))))"

definition DecryptMessageWithSession ::
  "crypto \<Rightarrow> Session \<Rightarrow> string \<Rightarrow> string \<Rightarrow> int \<Rightarrow> e2eeError + string" where
  "DecryptMessageWithSession C session ciphertext nonce messageIndex =
     try_then (CreateDoubleRatchetStateFromSession C session) (\<lambda>dr.
     try_then (decode_b64 ciphertext) (\<lambda>ct.
     try_then (decode_sized 12 nonce) (\<lambda>n.
       fst (DecryptMessageWithDoubleRatchet C ct n messageIndex dr))))"

end
