(* ===== verification/RatchetProps.thy ===== *)
theory RatchetProps
  imports Ratchet
begin

text \<open>
  Properties of the key agreement, the ratchet, the wrapped keys and the sessions.  A toy instance of
  the primitives satisfies \<open>crypto_laws\<close> and serves the witnesses.
\<close>

section \<open>A concrete instance of the primitives\<close>

definition toy_crypto :: crypto where
  "toy_crypto = \<lparr>c_x25519 = (\<lambda>k p. if length k = 32 \<and> length p = 32 then Some (map2 max k p) else None),
     c_hmac = (\<lambda>k d. arr 32 (d @ k)), c_hkdf = (\<lambda>k i n. arr n (i @ k)),
     c_seal = (\<lambda>k n p a. (k @ n) @ p),
     c_open = (\<lambda>k n c a. if length k = 32 \<and> take (length (k @ n)) c = k @ n then Some (drop (length (k @ n)) c) else None),
     c_verify = (\<lambda>k m s. True), c_sha256 = id\<rparr>"

lemma map2_max_commute:
  fixes a b B :: "'a :: linorder list"
  shows "length a = length B \<Longrightarrow> length b = length B \<Longrightarrow> map2 max a (map2 max b B) = map2 max b (map2 max a B)"
  by (auto intro!: nth_equalityI simp: max.left_commute)

lemma length_basepoint [simp]: "length basepoint = 32"
  by (simp add: basepoint_def)

lemma toy_crypto_laws: "crypto_laws toy_crypto"
proof -
  have nz: "map2 max k basepoint \<noteq> zero_key" if "length k = 32" for k
  proof -
    have "hd (map2 max k basepoint) = max (hd k) (CHR 0x09)"
      using that by (cases k) (simp_all add: basepoint_def)
    then have "CHR 0x09 \<le> hd (map2 max k basepoint)" by simp
    moreover have "\<not> CHR 0x09 \<le> hd zero_key" by code_simp
    ultimately show ?thesis by force
  qed
  show ?thesis
    unfolding crypto_laws_def
    by (intro conjI allI impI)
      (auto simp: toy_crypto_def map2_max_commute nz split: if_splits)
qed

section \<open>X3DH\<close>

text \<open>C18. When an initiator completes the X3DH agreement with a recipient's published keys, the
  recipient computes the same 32-byte secret from the ephemeral public key it is sent, with a
  one-time prekey on both sides or on neither.\<close>

theorem x3dh_agreement:
  assumes laws: "crypto_laws C" and a: "X25519Keypair C a = Inr (pa, a)" and b: "X25519Keypair C b = Inr (pb, b)"
    and s: "X25519Keypair C s = Inr (ps, s)"
    and ot: "(ot = zero_key \<and> pot = zero_key) \<or> (ot \<noteq> zero_key \<and> X25519Keypair C ot = Inr (pot, ot))"
    and init: "PerformX3DHInitiator C rnd a pa pb ps pot = Inr (secret, ephPub, ephPriv)"
  shows "PerformX3DHResponder C ephPub b pb s ps ot pa = Inr secret \<and> length secret = 32"
proof -
  from init obtain eph: "X25519Keypair C ephPriv = Inr (ephPub, ephPriv)"
    and sh: "PerformX3DH C \<lparr>SenderIdentityPrivate = a, SenderIdentityPublic = pa, SenderEphemeralPrivate = ephPriv,
      SenderEphemeralPublic = ephPub, RecipientIdentityPublic = pb, RecipientSignedPrekey = ps,
      RecipientOneTimePrekey = pot\<rparr> = Inr secret"
    by (auto simp: PerformX3DHInitiator_def X25519Keypair_def)
  note comm = shared_secret_commutes(1) [OF laws]
  have opt: "optional_dh C (pot = zero_key) ephPriv pot = optional_dh C (ot = zero_key) ot ephPub"
    using ot comm [OF eph, of ot pot] shared_secret_commutes(2) [OF laws _ eph, of ot pot]
    by (auto simp: optional_dh_def)
  show ?thesis
    using sh by (auto simp: PerformX3DH_def PerformX3DHResponder_def comm [OF a b, symmetric]
      comm [OF eph s, symmetric] comm [OF eph b, symmetric] opt x3dh_kdf_def split: if_splits)
qed

definition toy_key :: "char \<Rightarrow> string" where
  "toy_key c = replicate 32 c"

lemma length_toy_key [simp]: "length (toy_key c) = 32"
  by (simp add: toy_key_def)

lemma toy_keypair: "X25519Keypair toy_crypto (toy_key c) = Inr (map2 max (toy_key c) basepoint, toy_key c)"
  by (simp add: X25519Keypair_def toy_crypto_def toy_key_def)

lemma toy_shared: "\<exists>k. X25519SharedSecret toy_crypto (toy_key c) (map2 max (toy_key d) basepoint) = Inr k"
proof -
  have "c_x25519 toy_crypto (toy_key d) basepoint = Some (map2 max (toy_key d) basepoint)"
    by (simp add: toy_crypto_def toy_key_def)
  from crypto_lawsD(5) [OF toy_crypto_laws this] show ?thesis
    by (simp add: X25519SharedSecret_def toy_crypto_def toy_key_def)
qed

theorem x3dh_agreement_witness:
  "\<exists>secret ephPub ephPriv.
     PerformX3DHInitiator toy_crypto (toy_key (CHR ''e'')) (toy_key (CHR ''a'')) (map2 max (toy_key (CHR ''a'')) basepoint)
       (map2 max (toy_key (CHR ''b'')) basepoint) (map2 max (toy_key (CHR ''s'')) basepoint) zero_key
       = Inr (secret, ephPub, ephPriv)
     \<and> PerformX3DHResponder toy_crypto ephPub (toy_key (CHR ''b'')) (map2 max (toy_key (CHR ''b'')) basepoint)
       (toy_key (CHR ''s'')) (map2 max (toy_key (CHR ''s'')) basepoint) zero_key (map2 max (toy_key (CHR ''a'')) basepoint)
       = Inr secret"
proof -
  let ?pub = "\<lambda>c. map2 max (toy_key c) basepoint"
  let ?r = "PerformX3DHInitiator toy_crypto (toy_key (CHR ''e'')) (toy_key (CHR ''a'')) (?pub (CHR ''a''))
       (?pub (CHR ''b'')) (?pub (CHR ''s'')) zero_key"
  have "isl ?r = False" by code_simp
  then obtain secret ephPub ephPriv where r: "?r = Inr (secret, ephPub, ephPriv)"
    by (cases ?r) (auto simp: isl_def)
  show ?thesis
    using x3dh_agreement [OF toy_crypto_laws toy_keypair toy_keypair toy_keypair _ r, of zero_key] r by auto
qed

section \<open>The chain of message keys\<close>

definition next_chain :: "crypto \<Rightarrow> string \<Rightarrow> string" where
  "next_chain C k = snd (ChainKeyDerive C k)"

definition message_key :: "crypto \<Rightarrow> string \<Rightarrow> nat \<Rightarrow> string" where
  "message_key C k n = fst (ChainKeyDerive C ((next_chain C ^^ n) k))"

lemma catch_up_chain: "i \<le> j \<Longrightarrow> catch_up C i j k = (next_chain C ^^ nat (j - i)) k"
proof (induction C i j k rule: catch_up.induct)
  case (1 C i j k)
  show ?case
  proof (cases "i < j")
    case True
    then have "nat (j - i) = Suc (nat (j - (i + 1)))" by auto
    then show ?thesis
      using 1 True by (subst catch_up.simps) (simp add: next_chain_def [symmetric] funpow_Suc_right del: funpow.simps)
  next
    case False
    then show ?thesis using 1 by (subst catch_up.simps) simp
  qed
qed

lemma derive_pair: "ChainKeyDerive C k = (fst (ChainKeyDerive C k), next_chain C k)"
  by (simp add: next_chain_def)

lemma recv_key_cases:
  assumes "RecvMessageIndex dr \<le> i" and "i \<le> wrap64 (RecvMessageIndex dr + 10000)"
  shows "RatchetRecvMessageKey C i dr = (Inr (message_key C (RecvChainKey dr) (nat (i - RecvMessageIndex dr))),
     dr\<lparr>RecvChainKey := (next_chain C ^^ Suc (nat (i - RecvMessageIndex dr))) (RecvChainKey dr),
        RecvMessageIndex := wrap64 (i + 1)\<rparr>)"
  using assms
  by (simp add: RatchetRecvMessageKey_def Let_def catch_up_chain message_key_def next_chain_def split: prod.splits)

text \<open>C21. A request for a receive key either fails and leaves the ratchet as it was, or moves the
  index forward to just past the requested one by at most 10001 derivations of the chain key.  It
  fails whenever the index is behind, more than 10000 ahead, or the addition of 10000 overflows.\<close>

theorem recv_key_bounded:
  assumes "- (2 ^ 63) \<le> RecvMessageIndex dr" "RecvMessageIndex dr < 2 ^ 63"
    and "- (2 ^ 63) \<le> i" "i < 2 ^ 63 - 1"
  shows "case RatchetRecvMessageKey C i dr of
       (Inl e, dr') \<Rightarrow> dr' = dr \<and> (i < RecvMessageIndex dr \<or> i > RecvMessageIndex dr + 10000
                            \<or> RecvMessageIndex dr + 10000 \<ge> 2 ^ 63)
     | (Inr key, dr') \<Rightarrow> (\<exists>n \<le> 10000. i = RecvMessageIndex dr + int n
          \<and> key = message_key C (RecvChainKey dr) n
          \<and> dr' = dr\<lparr>RecvChainKey := (next_chain C ^^ Suc n) (RecvChainKey dr), RecvMessageIndex := i + 1\<rparr>)"
proof -
  let ?r = "RecvMessageIndex dr"
  consider "i < ?r" | "?r \<le> i" "i > wrap64 (?r + 10000)" | "?r \<le> i" "i \<le> wrap64 (?r + 10000)" by linarith
  then show ?thesis
  proof cases
    case 1 then show ?thesis by (simp add: RatchetRecvMessageKey_def)
  next
    case 2
    have "i > ?r + 10000 \<or> ?r + 10000 \<ge> 2 ^ 63" using 2(2) assms(1,2) by (cases "?r + 10000 < 2 ^ 63") simp_all
    then show ?thesis using 2 by (simp add: RatchetRecvMessageKey_def)
  next
    case 3
    have lt: "?r + 10000 < 2 ^ 63"
    proof (rule ccontr)
      assume "\<not> ?r + 10000 < 2 ^ 63"
      then have "wrap64 (?r + 10000) = ?r + 10000 - 2 ^ 64" using assms(1,2) by (intro wrap64_over) simp_all
      then show False using 3 by simp
    qed
    then have "i \<le> ?r + 10000" using 3(2) assms(1) by simp
    moreover have "wrap64 (i + 1) = i + 1" using assms(3,4) by simp
    ultimately show ?thesis
      unfolding recv_key_cases [OF 3] using 3(1) by (auto intro!: exI [of _ "nat (i - ?r)"])
  qed
qed

definition toy_ratchet :: DoubleRatchetState where
  "toy_ratchet = \<lparr>RootKey = zero_key, SendChainKey = zero_key, RecvChainKey = zero_key,
     SendMessageIndex = 0, RecvMessageIndex = 3, DhRatchetCounter = 0\<rparr>"

theorem recv_key_bounded_witness:
  "snd (RatchetRecvMessageKey toy_crypto 10004 toy_ratchet) = toy_ratchet
   \<and> (\<exists>key. fst (RatchetRecvMessageKey toy_crypto 5 toy_ratchet) = Inr key)"
proof
  have "fst (RatchetRecvMessageKey toy_crypto 10004 toy_ratchet) = Inl IndexTooFar"
    by code_simp
  then show "snd (RatchetRecvMessageKey toy_crypto 10004 toy_ratchet) = toy_ratchet"
    using recv_key_bounded [of toy_ratchet 10004 toy_crypto]
    by (cases "RatchetRecvMessageKey toy_crypto 10004 toy_ratchet") (simp add: toy_ratchet_def)
  have "\<not> isl (fst (RatchetRecvMessageKey toy_crypto 5 toy_ratchet))" by code_simp
  then show "\<exists>key. fst (RatchetRecvMessageKey toy_crypto 5 toy_ratchet) = Inr key"
    by (cases "fst (RatchetRecvMessageKey toy_crypto 5 toy_ratchet)") auto
qed

section \<open>Delivery\<close>

text \<open>What a sender produces for a list of messages, each with its nonce, and what a receiver makes of
  indexed ciphertexts.\<close>

fun send_all :: "crypto \<Rightarrow> DoubleRatchetState \<Rightarrow> (string \<times> string) list \<Rightarrow> (string \<times> string) list" where
  "send_all C dr [] = []"
| "send_all C dr ((nonce, plaintext) # ms) =
     (case EncryptMessageWithDoubleRatchet C nonce plaintext dr of (c, dr') \<Rightarrow> c # send_all C dr' ms)"

fun recv_all :: "crypto \<Rightarrow> DoubleRatchetState \<Rightarrow> (int \<times> string \<times> string) list \<Rightarrow> (e2eeError + string) list" where
  "recv_all C dr [] = []"
| "recv_all C dr ((i, ciphertext, nonce) # ms) =
     (case DecryptMessageWithDoubleRatchet C ciphertext nonce i dr of (res, dr') \<Rightarrow> res # recv_all C dr' ms)"

fun deliverable :: "int \<Rightarrow> int list \<Rightarrow> bool" where
  "deliverable r [] \<longleftrightarrow> True"
| "deliverable r (i # is) \<longleftrightarrow> r \<le> i \<and> i \<le> r + 10000 \<and> deliverable (i + 1) is"

lemma encrypt_step:
  "EncryptMessageWithDoubleRatchet C nonce pt dr =
     ((c_seal C (message_key C (SendChainKey dr) 0) nonce pt [], nonce),
      dr\<lparr>SendChainKey := next_chain C (SendChainKey dr), SendMessageIndex := wrap64 (SendMessageIndex dr + 1)\<rparr>)"
  by (simp add: EncryptMessageWithDoubleRatchet_def RatchetSendMessageKey_def message_key_def next_chain_def
      AESGCMEncrypt_def split: prod.splits)

lemma length_message_key [simp]: "length (message_key C k n) = 32"
  by (simp add: message_key_def ChainKeyDerive_def HMACSign_def)

lemma message_key_next: "message_key C (next_chain C k) n = message_key C k (Suc n)"
  by (simp add: message_key_def funpow_Suc_right del: funpow.simps)

lemma send_all_nth:
  "n < length ms \<Longrightarrow> send_all C dr ms ! n =
     (c_seal C (message_key C (SendChainKey dr) n) (fst (ms ! n)) (snd (ms ! n)) [], fst (ms ! n))"
proof (induction ms arbitrary: dr n)
  case (Cons m ms)
  obtain nonce pt where m: "m = (nonce, pt)" by (cases m)
  show ?case
    using Cons by (cases n) (simp_all add: m encrypt_step message_key_next)
qed simp

lemma recv_all_chain:
  assumes laws: "crypto_laws C" and "0 \<le> RecvMessageIndex dr"
    and "RecvChainKey dr = (next_chain C ^^ nat (RecvMessageIndex dr)) k"
    and "deliverable (RecvMessageIndex dr) is" and "\<forall>i \<in> set is. i < int (length ms)" "int (length ms) < 2 ^ 62"
  shows "recv_all C dr (map (\<lambda>i. (i, c_seal C (message_key C k (nat i)) (fst (ms ! nat i)) (snd (ms ! nat i)) [],
      fst (ms ! nat i))) is) = map (\<lambda>i. Inr (snd (ms ! nat i))) is"
  using assms(2-5)
proof (induction "is" arbitrary: dr)
  case (Cons i "is")
  let ?r = "RecvMessageIndex dr"
  have i: "?r \<le> i" "i \<le> ?r + 10000" "i < 2 ^ 62" using Cons.prems assms(6) by auto
  then have lim: "i \<le> wrap64 (?r + 10000)" using Cons.prems(1) by simp
  define n where "n = nat (i - ?r)"
  have n: "nat i = n + nat ?r" using i(1) Cons.prems(1) by (simp add: n_def)
  have key: "message_key C (RecvChainKey dr) n = message_key C k (nat i)"
    by (simp add: message_key_def Cons.prems(2) n funpow_add)
  have next_i: "nat (i + 1) = Suc n + nat ?r" using n i(1) Cons.prems(1) by simp
  have chain: "(next_chain C ^^ Suc n) (RecvChainKey dr) = (next_chain C ^^ nat (i + 1)) k"
    unfolding next_i Cons.prems(2) funpow_add by simp
  have w: "wrap64 (i + 1) = i + 1" using i Cons.prems(1) by simp
  let ?dr = "dr\<lparr>RecvChainKey := (next_chain C ^^ nat (i + 1)) k, RecvMessageIndex := i + 1\<rparr>"
  have step: "DecryptMessageWithDoubleRatchet C (c_seal C (message_key C k (nat i)) (fst (ms ! nat i)) (snd (ms ! nat i)) [])
      (fst (ms ! nat i)) i dr = (Inr (snd (ms ! nat i)), ?dr)"
    unfolding DecryptMessageWithDoubleRatchet_def recv_key_cases [OF i(1) lim] n_def [symmetric] key chain w
    using crypto_lawsD(3) [OF laws] by (simp add: AESGCMDecrypt_def)
  have "recv_all C ?dr (map (\<lambda>i. (i, c_seal C (message_key C k (nat i)) (fst (ms ! nat i)) (snd (ms ! nat i)) [],
      fst (ms ! nat i))) is) = map (\<lambda>i. Inr (snd (ms ! nat i))) is"
    using Cons.prems i by (intro Cons.IH) simp_all
  then show ?case by (simp add: step)
qed simp

text \<open>C17. Two parties that start from the same root key, one as the receiver, deliver each other's
  messages: each message that arrives in the sending order, with at most 10000 lost in a row, is
  decrypted to its plaintext, in both directions.\<close>

theorem ratchet_delivers:
  assumes laws: "crypto_laws C" and "InitializeDoubleRatchetState C root = Inr A"
    and "InitializeDoubleRatchetStateAsReceiver C root = Inr B"
    and "deliverable 0 is" and "\<forall>i \<in> set is. i < int (length ms)" and "int (length ms) < 2 ^ 62"
  shows "recv_all C B (map (\<lambda>i. (i, send_all C A ms ! nat i)) is) = map (\<lambda>i. Inr (snd (ms ! nat i))) is
    \<and> recv_all C A (map (\<lambda>i. (i, send_all C B ms ! nat i)) is) = map (\<lambda>i. Inr (snd (ms ! nat i))) is"
proof -
  have chains: "RecvChainKey B = SendChainKey A" "RecvChainKey A = SendChainKey B"
    "RecvMessageIndex A = 0" "RecvMessageIndex B = 0"
    using assms(2,3) by (auto simp: InitializeDoubleRatchetState_def InitializeDoubleRatchetStateAsReceiver_def
        Let_def split: if_splits)
  have nonneg: "deliverable r js \<Longrightarrow> 0 \<le> r \<Longrightarrow> \<forall>j \<in> set js. 0 \<le> j" for r js
    by (induction r js rule: deliverable.induct) fastforce+
  have sent: "send_all C dr ms ! nat i =
      (c_seal C (message_key C (SendChainKey dr) (nat i)) (fst (ms ! nat i)) (snd (ms ! nat i)) [], fst (ms ! nat i))"
    if "i \<in> set is" for dr i
    using that assms(5) nonneg [OF assms(4)] by (intro send_all_nth) (simp add: zless_nat_eq_int_zless nat_less_iff)
  have dir: "recv_all C Y (map (\<lambda>i. (i, send_all C X ms ! nat i)) is) = map (\<lambda>i. Inr (snd (ms ! nat i))) is"
    if "RecvChainKey Y = SendChainKey X" "RecvMessageIndex Y = 0" for X Y
    using recv_all_chain [OF laws, of Y "SendChainKey X" "is" ms] that assms(4-6) sent [of _ X]
    by (simp cong: map_cong)
  show ?thesis using dir chains by blast
qed

theorem ratchet_delivers_witness:
  "\<exists>A B. InitializeDoubleRatchetState toy_crypto zero_key = Inr A
     \<and> InitializeDoubleRatchetStateAsReceiver toy_crypto zero_key = Inr B
     \<and> recv_all toy_crypto B (map (\<lambda>i. (i, send_all toy_crypto A [(''n0'', ''hello''), (''n1'', ''lost''), (''n2'', ''again'')] ! nat i)) [0, 2])
       = [Inr ''hello'', Inr ''again'']"
proof -
  have "\<exists>A. InitializeDoubleRatchetState toy_crypto zero_key = Inr A"
    "\<exists>B. InitializeDoubleRatchetStateAsReceiver toy_crypto zero_key = Inr B"
    by (simp_all add: InitializeDoubleRatchetState_def InitializeDoubleRatchetStateAsReceiver_def zero_key_def Let_def)
  then obtain A B where "InitializeDoubleRatchetState toy_crypto zero_key = Inr A"
    "InitializeDoubleRatchetStateAsReceiver toy_crypto zero_key = Inr B" by blast
  then show ?thesis
    using ratchet_delivers [OF toy_crypto_laws, of zero_key A B "[0, 2]" "[(''n0'', ''hello''), (''n1'', ''lost''), (''n2'', ''again'')]"]
    by simp
qed

section \<open>Replays and forgeries\<close>

text \<open>Encryptions and decryptions on one state, with indices below the largest 64-bit integer.\<close>

inductive ratchet_run :: "crypto \<Rightarrow> DoubleRatchetState \<Rightarrow> DoubleRatchetState \<Rightarrow> bool" for C where
  ratchet_done: "ratchet_run C dr dr"
| ratchet_encrypts: "ratchet_run C dr dr' \<Longrightarrow> ratchet_run C dr (snd (EncryptMessageWithDoubleRatchet C nonce pt dr'))"
| ratchet_decrypts: "ratchet_run C dr dr' \<Longrightarrow> - (2 ^ 63) \<le> i \<Longrightarrow> i < 2 ^ 63 - 1
     \<Longrightarrow> ratchet_run C dr (snd (DecryptMessageWithDoubleRatchet C ct nonce i dr'))"

lemma snd_decrypt: "snd (DecryptMessageWithDoubleRatchet C ct nonce i dr) = snd (RatchetRecvMessageKey C i dr)"
  by (simp add: DecryptMessageWithDoubleRatchet_def split: prod.splits sum.splits)

lemma recv_index_mono:
  assumes "- (2 ^ 63) \<le> i" "i < 2 ^ 63 - 1"
  shows "RecvMessageIndex dr \<le> RecvMessageIndex (snd (RatchetRecvMessageKey C i dr))"
proof -
  have "wrap64 (i + 1) = i + 1" using assms by simp
  then show ?thesis by (auto simp: RatchetRecvMessageKey_def Let_def split: prod.splits)
qed

lemma ratchet_run_mono: "ratchet_run C dr dr' \<Longrightarrow> RecvMessageIndex dr \<le> RecvMessageIndex dr'"
proof (induction rule: ratchet_run.induct)
  case (ratchet_encrypts dr dr' nonce pt)
  then show ?case
    by (simp add: EncryptMessageWithDoubleRatchet_def RatchetSendMessageKey_def split: prod.splits)
next
  case (ratchet_decrypts dr dr' i ct nonce)
  then show ?case using recv_index_mono [of i dr' C] by (simp add: snd_decrypt)
qed simp



section \<open>The direction of the chains\<close>

text \<open>After a Diffie-Hellman ratchet step with the same ephemeral key both parties send on the same
  chain and receive on the other, whatever their roles were: the next message of one is not
  decrypted by the other, when the primitive rejects a ciphertext under the wrong key.\<close>

theorem ratchet_dh_loses_direction:
  assumes "RatchetDH C eph p A = (Inr (), A')" and "RatchetDH C eph q B = (Inr (), B')" and "RootKey A = RootKey B"
    and "EncryptMessageWithDoubleRatchet C nonce pt A' = ((ct, n), A'')"
    and "\<And>k. c_open C k n ct [] \<noteq> None \<Longrightarrow> k = message_key C (SendChainKey A') 0"
    and "message_key C (c_hkdf C (RootKey A') ''receiver-chain'' 32) 0 \<noteq> message_key C (c_hkdf C (RootKey A') ''sender-chain'' 32) 0"
    and laws: "crypto_laws C"
  shows "SendChainKey A' = SendChainKey B' \<and> RecvChainKey A' = RecvChainKey B'
    \<and> fst (DecryptMessageWithDoubleRatchet C ct n 0 B') = Inl OpenFailed"
proof -
  have dh: "SendChainKey X' = c_hkdf C (RootKey X') ''sender-chain'' 32 \<and> RecvChainKey X' = c_hkdf C (RootKey X') ''receiver-chain'' 32
      \<and> RecvMessageIndex X' = 0 \<and> RootKey X' = arr 32 (c_hkdf C (c_hmac C [] (RootKey X @ eph)) ''root-ratchet'' 32)"
    if "RatchetDH C eph r X = (Inr (), X')" for r X X'
    using that by (auto simp: RatchetDH_def HKDFExtractExpand_def crypto_lawsD(2) [OF laws] Let_def)
  have root: "RootKey A' = RootKey B'" using dh [OF assms(1)] dh [OF assms(2)] assms(3) by simp
  have "message_key C (RecvChainKey B') 0 \<noteq> message_key C (SendChainKey A') 0"
    using dh [OF assms(1)] dh [OF assms(2)] root assms(6) by simp
  then have "c_open C (message_key C (RecvChainKey B') 0) n ct [] = None" using assms(5) by blast
  moreover have "fst (RatchetRecvMessageKey C 0 B') = Inr (message_key C (RecvChainKey B') 0)"
    using recv_key_cases [of B' 0 C] dh [OF assms(2)] by simp
  ultimately have "fst (DecryptMessageWithDoubleRatchet C ct n 0 B') = Inl OpenFailed"
    by (cases "RatchetRecvMessageKey C 0 B'") (simp add: DecryptMessageWithDoubleRatchet_def AESGCMDecrypt_def)
  then show ?thesis using dh [OF assms(1)] dh [OF assms(2)] root by simp
qed

theorem ratchet_dh_loses_direction_witness:
  "\<exists>dr ct n dr'. RatchetDH toy_crypto zero_key zero_key toy_ratchet = (Inr (), dr)
     \<and> EncryptMessageWithDoubleRatchet toy_crypto ''nonce'' ''hi'' dr = ((ct, n), dr')
     \<and> fst (DecryptMessageWithDoubleRatchet toy_crypto ct n 0 dr) = Inl OpenFailed"
proof -
  let ?C = toy_crypto
  obtain dr where dr: "RatchetDH ?C zero_key zero_key toy_ratchet = (Inr (), dr)"
    by (simp add: RatchetDH_def HKDFExtractExpand_def Let_def)
  let ?k = "message_key ?C (SendChainKey dr) 0"
  let ?ct = "c_seal ?C ?k ''nonce'' ''hi'' []"
  let ?dr = "snd (EncryptMessageWithDoubleRatchet ?C ''nonce'' ''hi'' dr)"
  have enc: "EncryptMessageWithDoubleRatchet ?C ''nonce'' ''hi'' dr = ((?ct, ''nonce''), ?dr)"
    by (simp add: encrypt_step)
  have only: "k = ?k" if "c_open ?C k ''nonce'' ?ct [] \<noteq> None" for k
  proof -
    have k: "length k = 32" "take (length (k @ ''nonce'')) ?ct = k @ ''nonce''"
      using that by (auto simp: toy_crypto_def split: if_splits)
    have "take 32 (take (length (k @ ''nonce'')) ?ct) = k" unfolding k(2) using k(1) by simp
    moreover have "take 32 (take (length (k @ ''nonce'')) ?ct) = ?k"
      using k(1) by (simp add: toy_crypto_def)
    ultimately show ?thesis by simp
  qed
  have neq: "message_key ?C (c_hkdf ?C (RootKey dr) ''receiver-chain'' 32) 0 \<noteq> message_key ?C (c_hkdf ?C (RootKey dr) ''sender-chain'' 32) 0"
    by (simp add: message_key_def ChainKeyDerive_def HMACSign_def toy_crypto_def arr_def)
  show ?thesis
    using ratchet_dh_loses_direction [OF dr dr refl enc only neq toy_crypto_laws] dr enc by blast
qed

section \<open>Wrapped keys\<close>

lemma unwrap_wrapped:
  assumes laws: "crypto_laws C" and kp: "X25519Keypair C priv = Inr (pub, priv)" and "length priv = 32"
    and "length nonce = 12"
    and "GenerateRecipientWrappedKey C rnd nonce (b64_encode pub) (Some theirs) = Inr (wrapped, wrapNonce)"
  shows "\<exists>shared. \<forall>ours. UnwrapSessionKeyWithDoubleRatchet C (b64_encode priv) wrapped wrapNonce (Some ours) =
     AESGCMDecrypt C (c_hkdf C shared (RootKey ours) 32)
       (c_seal C (c_hkdf C shared (RootKey theirs) 32) nonce (RootKey theirs) []) nonce []"
proof -
  have pub: "length pub = 32" using shared_secret_commutes(3) [OF laws kp kp] .
  have hl: "length (c_hkdf C k i n) = n" for k i n using crypto_lawsD(2) [OF laws] .
  from assms(5) obtain ephPub ephPriv shared where eph: "X25519Keypair C rnd = Inr (ephPub, ephPriv)"
    and sh: "X25519SharedSecret C ephPriv pub = Inr shared"
    and w: "wrapped = b64_encode (ephPub @ c_seal C (c_hkdf C shared (RootKey theirs) 32) nonce (RootKey theirs) [])"
      "wrapNonce = b64_encode nonce"
    by (auto simp: GenerateRecipientWrappedKey_def wrap_key_def pub AESGCMEncrypt_def hl)
  have eph': "X25519Keypair C ephPriv = Inr (ephPub, ephPriv)" using eph by (auto simp: X25519Keypair_def)
  have len: "length ephPub = 32" using shared_secret_commutes(3) [OF laws eph' eph'] .
  have "X25519SharedSecret C priv ephPub = Inr shared"
    using shared_secret_commutes(1) [OF laws kp eph'] sh by simp
  then show ?thesis
    by (intro exI [of _ shared]) (simp add: UnwrapSessionKeyWithDoubleRatchet_def w assms(3,4) len hl)
qed

text \<open>A wrapped root key is recovered by the owner of the key it was wrapped for, from a state with
  the same root key.\<close>

theorem wrapped_key_roundtrip:
  assumes laws: "crypto_laws C" and kp: "X25519Keypair C priv = Inr (pub, priv)" and "length priv = 32"
    and "length nonce = 12" and "RootKey ours = RootKey theirs"
    and "GenerateRecipientWrappedKey C rnd nonce (b64_encode pub) (Some theirs) = Inr (wrapped, wrapNonce)"
  shows "UnwrapSessionKeyWithDoubleRatchet C (b64_encode priv) wrapped wrapNonce (Some ours) = Inr (RootKey theirs)"
  using unwrap_wrapped [OF laws kp assms(3,4,6)] assms(5) crypto_lawsD(2,3) [OF laws]
  by (auto simp: AESGCMDecrypt_def)

theorem wrapped_key_roundtrip_witness:
  "\<exists>wrapped wrapNonce.
     GenerateRecipientWrappedKey toy_crypto (toy_key (CHR ''e'')) ''123456789012''
       (b64_encode (map2 max (toy_key (CHR ''b'')) basepoint)) (Some toy_ratchet) = Inr (wrapped, wrapNonce)
   \<and> UnwrapSessionKeyWithDoubleRatchet toy_crypto (b64_encode (toy_key (CHR ''b''))) wrapped wrapNonce (Some toy_ratchet)
       = Inr zero_key"
proof -
  let ?r = "GenerateRecipientWrappedKey toy_crypto (toy_key (CHR ''e'')) ''123456789012''
       (b64_encode (map2 max (toy_key (CHR ''b'')) basepoint)) (Some toy_ratchet)"
  obtain k where "X25519SharedSecret toy_crypto (toy_key (CHR ''e'')) (map2 max (toy_key (CHR ''b'')) basepoint) = Inr k"
    using toy_shared by blast
  then have "\<exists>x. ?r = Inr x"
    by (simp add: GenerateRecipientWrappedKey_def wrap_key_def toy_keypair AESGCMEncrypt_def del: b64_encode.simps)
  then obtain wrapped wrapNonce where r: "?r = Inr (wrapped, wrapNonce)" by auto
  show ?thesis
    using wrapped_key_roundtrip [OF toy_crypto_laws toy_keypair _ _ refl r] r
    by (simp add: toy_key_def toy_ratchet_def)
qed

end
