(* ===== verification/SessionProps.thy ===== *)
theory SessionProps
  imports RatchetProps
begin

text \<open>
  Properties of the persisted ratchet sessions: what a session keeps of a ratchet, and that the
  session manager never creates one.
\<close>

section \<open>Storing and restoring a ratchet\<close>

lemma restore_update:
  assumes "length (RootKey dr) = 32" "length (SendChainKey dr) = 32" and "crypto_laws C"
  shows "CreateDoubleRatchetStateFromSession C (UpdateSessionFromDoubleRatchet s dr) =
     Inr (dr\<lparr>RecvChainKey := c_hkdf C (RootKey dr) ''receiver-chain'' 32,
             RecvMessageIndex := SendMessageIndex dr, DhRatchetCounter := 0\<rparr>)"
  using assms by (cases dr) (simp add: CreateDoubleRatchetStateFromSession_def UpdateSessionFromDoubleRatchet_def
      bytes_of_def crypto_lawsD(2) Let_def)

lemma restored_index:
  "CreateDoubleRatchetStateFromSession C s = Inr dr \<Longrightarrow> RecvMessageIndex dr = MessageKeyIndex s
     \<and> SendMessageIndex dr = MessageKeyIndex s \<and> length (RootKey dr) = 32 \<and> length (SendChainKey dr) = 32"
  by (auto simp: CreateDoubleRatchetStateFromSession_def Let_def split: if_splits)

lemma encrypt_session_cases:
  assumes "EncryptMessageWithSession C now nonce s pt table = (Inr c, s', table')"
  shows "\<exists>dr. CreateDoubleRatchetStateFromSession C s = Inr dr
     \<and> s' = UpdateSessionFromDoubleRatchet s (snd (EncryptMessageWithDoubleRatchet C nonce pt dr))
     \<and> SaveSession now s' table = (Inr (), table')"
  using assms
  by (auto simp: EncryptMessageWithSession_def Let_def split: sum.splits prod.splits)

text \<open>A session keeps the sending half of its ratchet only.  After it has sent a message it is
  restored with the right sending chain, but its receiving chain starts over from the root key at
  the index of the messages it has sent itself: messages of its peer with a smaller index, the first
  one among them, are refused as replays although none was ever received.\<close>

theorem session_forgets_received:
  assumes "crypto_laws C" and "0 \<le> MessageKeyIndex s" "MessageKeyIndex s < 2 ^ 31"
    and enc: "EncryptMessageWithSession C now nonce s pt table = (Inr c, s', table')"
  shows "MessageKeyIndex s' = MessageKeyIndex s + 1
     \<and> (\<exists>dr. CreateDoubleRatchetStateFromSession C s' = Inr dr
          \<and> SendChainKey dr = next_chain C (bytes_of (ChainKeyBytes s))
          \<and> RecvChainKey dr = c_hkdf C (bytes_of (RootKeyBytes s)) ''receiver-chain'' 32)
     \<and> (\<forall>ct n i. length n = 12 \<and> i \<le> MessageKeyIndex s
          \<longrightarrow> DecryptMessageWithSession C s' (b64_encode ct) (b64_encode n) i = Inl ReplayedIndex)"
proof -
  from encrypt_session_cases [OF enc] obtain dr where dr: "CreateDoubleRatchetStateFromSession C s = Inr dr"
    and s': "s' = UpdateSessionFromDoubleRatchet s (snd (EncryptMessageWithDoubleRatchet C nonce pt dr))" by blast
  define dr1 where "dr1 = snd (EncryptMessageWithDoubleRatchet C nonce pt dr)"
  have facts: "RootKey dr = bytes_of (RootKeyBytes s)" "SendChainKey dr = bytes_of (ChainKeyBytes s)"
    using dr by (auto simp: CreateDoubleRatchetStateFromSession_def Let_def split: if_splits)
  note ind = restored_index [OF dr]
  have w: "wrap64 (MessageKeyIndex s + 1) = MessageKeyIndex s + 1" using assms(2,3) by simp
  have dr1: "RootKey dr1 = RootKey dr" "SendChainKey dr1 = next_chain C (SendChainKey dr)"
    "SendMessageIndex dr1 = MessageKeyIndex s + 1"
    using ind w by (simp_all add: dr1_def encrypt_step)
  have len: "length (RootKey dr1) = 32" "length (SendChainKey dr1) = 32"
    using dr1 ind by (simp_all add: next_chain_def ChainKeyDerive_def HMACSign_def)
  have rest: "CreateDoubleRatchetStateFromSession C s' = Inr (dr1\<lparr>RecvChainKey := c_hkdf C (RootKey dr1) ''receiver-chain'' 32,
      RecvMessageIndex := SendMessageIndex dr1, DhRatchetCounter := 0\<rparr>)"
    unfolding s' dr1_def [symmetric] by (rule restore_update [OF len assms(1)])
  have idx: "MessageKeyIndex s' = MessageKeyIndex s + 1"
    unfolding s' dr1_def [symmetric] by (simp add: UpdateSessionFromDoubleRatchet_def dr1)
  show ?thesis
    by (auto simp: idx rest dr1 facts DecryptMessageWithSession_def DecryptMessageWithDoubleRatchet_def
        RatchetRecvMessageKey_def)
qed

definition toy_session :: Session where
  "toy_session = \<lparr>UserID = ''u1'', ContactUserID = ''u2'', ContactDeviceID = ''d2'', SessionKeyBytes = Some ''k'',
     SessionKeyVersion = 1, RootKeyBytes = Some zero_key, ChainKeyBytes = Some zero_key, MessageKeyIndex = 0,
     CreatedAt_s = 0, UpdatedAt_s = 0\<rparr>"

lemma toy_session_encrypts:
  "\<exists>c s' table'. EncryptMessageWithSession toy_crypto 5 ''nonce'' toy_session ''hi'' [] = (Inr c, s', table')"
  by (simp add: EncryptMessageWithSession_def CreateDoubleRatchetStateFromSession_def toy_session_def bytes_of_def
      zero_key_def encrypt_step Let_def UpdateSessionFromDoubleRatchet_def SaveSession_def fits_int4_def)

theorem session_forgets_received_witness:
  "\<exists>c s' table'. EncryptMessageWithSession toy_crypto 5 ''nonce'' toy_session ''hi'' [] = (Inr c, s', table')
     \<and> DecryptMessageWithSession toy_crypto s' (b64_encode ''reply'') (b64_encode ''123456789012'') 0 = Inl ReplayedIndex"
proof -
  obtain c s' table' where enc: "EncryptMessageWithSession toy_crypto 5 ''nonce'' toy_session ''hi'' [] = (Inr c, s', table')"
    using toy_session_encrypts by blast
  have idx: "0 \<le> MessageKeyIndex toy_session" "MessageKeyIndex toy_session < 2 ^ 31" by (simp_all add: toy_session_def)
  have "\<forall>ct n i. length n = 12 \<and> i \<le> MessageKeyIndex toy_session
          \<longrightarrow> DecryptMessageWithSession toy_crypto s' (b64_encode ct) (b64_encode n) i = Inl ReplayedIndex"
    using session_forgets_received [OF toy_crypto_laws idx enc] by blast
  then have "DecryptMessageWithSession toy_crypto s' (b64_encode ''reply'') (b64_encode ''123456789012'') 0 = Inl ReplayedIndex"
    by (auto simp: toy_session_def simp del: b64_encode.simps)
  then show ?thesis using enc by blast
qed

section \<open>Creating a session\<close>

text \<open>The manager's operations, on the sessions it hands out.\<close>

inductive sessions_served :: "crypto \<Rightarrow> Session list \<Rightarrow> bool" for C where
  no_sessions: "sessions_served C []"
| session_requested: "sessions_served C table \<Longrightarrow> sessions_served C (snd (CreateOrGetSession now u c d table))"
| session_encrypts: "sessions_served C table \<Longrightarrow> GetSession table u c d = Some s
     \<Longrightarrow> sessions_served C (snd (snd (EncryptMessageWithSession C now nonce s pt table)))"

text \<open>The session manager never makes a session: the row it inserts has a null session key, which
  its table forbids, so from an empty table every request fails and the table stays empty.\<close>

theorem sessions_never_created:
  assumes "sessions_served C table"
  shows "table = [] \<and> CreateOrGetSession now u c d table = (Inl StoreFailed, table)"
proof -
  have none: "CreateOrGetSession now u c d [] = (Inl StoreFailed, [])" for now u c d
    by (simp add: CreateOrGetSession_def GetSession_def SaveSession_def Let_def)
  have "table = []"
    using assms by (induction rule: sessions_served.induct) (simp_all add: none, simp add: GetSession_def)
  then show ?thesis using none by simp
qed

theorem sessions_never_created_witness:
  "fst (CreateOrGetSession 7 ''u1'' ''u2'' ''d2'' (snd (CreateOrGetSession 5 ''u1'' ''u2'' ''d2'' []))) = Inl StoreFailed"
proof -
  have "sessions_served toy_crypto (snd (CreateOrGetSession 5 ''u1'' ''u2'' ''d2'' []))"
    by (intro session_requested no_sessions)
  from sessions_never_created [OF this, of 7 "''u1''" "''u2''" "''d2''", THEN conjunct2]
  show ?thesis by (simp only: fst_conv)
qed

end
