(* ===== verification/Trust.thy ===== *)
theory Trust
  imports Crypto
begin

text \<open>
  Trust in the devices of contacts (\<open>gateway/internal/e2ee/trust_state.go\<close>, \<open>e2ee/crypto.go\<close>) and the
  end-to-end encryption endpoints (\<open>e2ee/handler.go\<close>), over the tables \<open>device_identity_keys\<close>,
  \<open>device_key_trust\<close> and \<open>devices\<close>.
\<close>

section \<open>Rows\<close>

record identityKeyRow =
  ik_device_id :: string
  ik_user_id :: string
  ik_identity_key_alg :: string
  ik_identity_public_key :: string
  ik_signed_prekey_id :: int
  ik_signed_prekey_public_key :: string
  ik_signed_prekey_signature :: string
  ik_signing_key_alg :: string
  ik_signing_public_key :: string
  ik_fingerprint :: string
  ik_published_at :: time

record trustRow =
  t_user_id :: string
  t_contact_user_id :: string
  t_contact_device_id :: string
  t_trust_state :: string
  t_fingerprint :: string
  t_trusted_device_public_key :: "string option"
  t_trust_established_at :: "time option"
  t_verified_at :: "time option"

record trustTables =
  identity_keys :: "identityKeyRow list"
  key_trust :: "trustRow list"
  device_owner :: "string gomap"

definition trust_key :: "trustRow \<Rightarrow> string \<times> string \<times> string" where
  "trust_key row = (t_user_id row, t_contact_user_id row, t_contact_device_id row)"

text \<open>\<open>INSERT ... ON CONFLICT DO UPDATE\<close>: \<open>f\<close> makes the stored row from the old one.\<close>

definition upsert_trust :: "trustRow \<Rightarrow> (trustRow \<Rightarrow> trustRow) \<Rightarrow> trustRow list \<Rightarrow> trustRow list" where
  "upsert_trust row f rows =
     (if list_ex (\<lambda>r. trust_key r = trust_key row) rows
      then map (\<lambda>r. if trust_key r = trust_key row then f r else r) rows
      else rows @ [row])"

definition find_trust :: "trustTables \<Rightarrow> string \<Rightarrow> string \<Rightarrow> string \<Rightarrow> trustRow option" where
  "find_trust T userID contactUserID contactDeviceID =
     find (\<lambda>r. trust_key r = (userID, contactUserID, contactDeviceID)) (key_trust T)"

section \<open>The trust records of the session manager\<close>

definition StoreTrustState :: "trustRow \<Rightarrow> trustTables \<Rightarrow> trustTables" where
  "StoreTrustState trust T = T\<lparr>key_trust := upsert_trust trust
     (\<lambda>r. r\<lparr>t_trust_state := t_trust_state trust, t_fingerprint := t_fingerprint trust,
            t_trusted_device_public_key := t_trusted_device_public_key trust,
            t_verified_at := t_verified_at trust\<rparr>) (key_trust T)\<rparr>"

definition EstablishTOFUTrust ::
  "time \<Rightarrow> string \<Rightarrow> string \<Rightarrow> string \<Rightarrow> string \<Rightarrow> string \<Rightarrow> trustTables \<Rightarrow> trustTables" where
  "EstablishTOFUTrust now userID contactUserID contactDeviceID fingerprint devicePublicKey T =
     StoreTrustState \<lparr>t_user_id = userID, t_contact_user_id = contactUserID, t_contact_device_id = contactDeviceID,
       t_trust_state = ''TOFU'', t_fingerprint = fingerprint, t_trusted_device_public_key = Some devicePublicKey,
       t_trust_established_at = Some now, t_verified_at = None\<rparr> T"

section \<open>Effective trust\<close>

definition normalizeStoredTrustState :: "string \<Rightarrow> string" where
  "normalizeStoredTrustState val =
     (let v = to_upper (trim_space val) in
      if v = ''VERIFIED'' then ''VERIFIED''
      else if v = ''BLOCKED'' \<or> v = ''REVOKED'' then ''REVOKED''
      else ''UNVERIFIED'')"

text \<open>The state; the warning that goes with it is text.\<close>

definition deriveEffectiveTrustState :: "string \<Rightarrow> string \<Rightarrow> string \<Rightarrow> string \<times> string" where
  "deriveEffectiveTrustState storedState recordedFingerprint currentFingerprint =
     (let normalizedStored = normalizeStoredTrustState storedState;
          recorded = trim_space recordedFingerprint; current = trim_space currentFingerprint
      in if recorded \<noteq> [] \<and> current \<noteq> [] \<and> \<not> equal_fold recorded current
         then (''MISMATCH'', ''Current fingerprint does not match the previously recorded trust state.'')
         else if normalizedStored = ''REVOKED'' then (''REVOKED'', ''Verification was revoked for this device.'')
         else if normalizedStored = ''VERIFIED'' then (''VERIFIED'', [])
         else (''UNVERIFIED'', []))"

record TrustStateView =
  v_ContactUserID :: string
  v_ContactDeviceID :: string
  v_TrustState :: string
  v_EffectiveTrustState :: string
  v_RecordedFingerprint :: string
  v_CurrentFingerprint :: string
  v_TrustEstablishedAt :: "time option"
  v_VerifiedAt :: "time option"
  v_Warning :: string

text \<open>The current fingerprint and signing key of a device.\<close>

definition loadCurrentTrustMaterial :: "crypto \<Rightarrow> trustTables \<Rightarrow> string \<Rightarrow> string \<Rightarrow> e2eeError + string \<times> string" where
  "loadCurrentTrustMaterial C T contactUserID contactDeviceID =
     (case find (\<lambda>k. ik_user_id k = contactUserID \<and> ik_device_id k = contactDeviceID) (identity_keys T) of
        None \<Rightarrow> Inl TrustDeviceNotFound
      | Some k \<Rightarrow>
          if ik_fingerprint k = []
          then try_then (ComputeFingerprint C (ik_signing_public_key k)) (\<lambda>computed. Inr (computed, ik_signing_public_key k))
          else Inr (ik_fingerprint k, ik_signing_public_key k))"

definition GetTrustStateView ::
  "crypto \<Rightarrow> trustTables \<Rightarrow> string \<Rightarrow> string \<Rightarrow> string \<Rightarrow> e2eeError + TrustStateView" where
  "GetTrustStateView C T userID contactUserID contactDeviceID =
     try_then (loadCurrentTrustMaterial C T contactUserID contactDeviceID) (\<lambda>(currentFingerprint, _).
       Inr (case find_trust T userID contactUserID contactDeviceID of
              None \<Rightarrow> \<lparr>v_ContactUserID = contactUserID, v_ContactDeviceID = contactDeviceID,
                 v_TrustState = ''UNVERIFIED'', v_EffectiveTrustState = ''UNVERIFIED'', v_RecordedFingerprint = [],
                 v_CurrentFingerprint = currentFingerprint, v_TrustEstablishedAt = None, v_VerifiedAt = None,
                 v_Warning = []\<rparr>
            | Some row \<Rightarrow>
                \<lparr>v_ContactUserID = contactUserID, v_ContactDeviceID = contactDeviceID,
                 v_TrustState = normalizeStoredTrustState (t_trust_state row),
                 v_EffectiveTrustState = fst (deriveEffectiveTrustState (t_trust_state row) (t_fingerprint row) currentFingerprint),
                 v_RecordedFingerprint = t_fingerprint row, v_CurrentFingerprint = currentFingerprint,
                 v_TrustEstablishedAt = t_trust_established_at row, v_VerifiedAt = t_verified_at row,
                 v_Warning = snd (deriveEffectiveTrustState (t_trust_state row) (t_fingerprint row) currentFingerprint)\<rparr>))"

definition writeTrustState ::
  "crypto \<Rightarrow> time \<Rightarrow> string \<Rightarrow> string \<Rightarrow> string \<Rightarrow> string \<Rightarrow> string \<Rightarrow> string \<Rightarrow> trustTables
   \<Rightarrow> (e2eeError + TrustStateView) \<times> trustTables" where
  "writeTrustState C now userID contactUserID contactDeviceID trustState currentFingerprint signingPublicKey T =
     (let verified = (normalizeStoredTrustState trustState = ''VERIFIED'');
          verifiedAt = (if verified then Some now else None);
          T' = T\<lparr>key_trust := upsert_trust
             \<lparr>t_user_id = userID, t_contact_user_id = contactUserID, t_contact_device_id = contactDeviceID,
              t_trust_state = trustState, t_fingerprint = currentFingerprint,
              t_trusted_device_public_key = Some signingPublicKey, t_trust_established_at = Some now,
              t_verified_at = verifiedAt\<rparr>
             (\<lambda>r. r\<lparr>t_trust_state := trustState, t_fingerprint := currentFingerprint,
                    t_trusted_device_public_key := Some signingPublicKey,
                    t_trust_established_at := (case t_trust_established_at r of None \<Rightarrow> Some now | Some t \<Rightarrow> Some t),
                    t_verified_at := verifiedAt\<rparr>) (key_trust T)\<rparr>
      in (GetTrustStateView C T' userID contactUserID contactDeviceID, T'))"

definition VerifyTrustState ::
  "crypto \<Rightarrow> time \<Rightarrow> string \<Rightarrow> string \<Rightarrow> string \<Rightarrow> string \<Rightarrow> trustTables
   \<Rightarrow> (e2eeError + TrustStateView) \<times> trustTables" where
  "VerifyTrustState C now userID contactUserID contactDeviceID expectedFingerprint T =
     (case loadCurrentTrustMaterial C T contactUserID contactDeviceID of
        Inl e \<Rightarrow> (Inl e, T)
      | Inr (currentFingerprint, signingPublicKey) \<Rightarrow>
          if trim_space expectedFingerprint = [] \<or> \<not> equal_fold (trim_space expectedFingerprint) currentFingerprint
          then (Inl TrustFingerprintMismatch, T)
          else writeTrustState C now userID contactUserID contactDeviceID ''VERIFIED'' currentFingerprint signingPublicKey T)"

definition RevokeTrustState ::
  "crypto \<Rightarrow> time \<Rightarrow> string \<Rightarrow> string \<Rightarrow> string \<Rightarrow> trustTables \<Rightarrow> (e2eeError + TrustStateView) \<times> trustTables" where
  "RevokeTrustState C now userID contactUserID contactDeviceID T =
     (case loadCurrentTrustMaterial C T contactUserID contactDeviceID of
        Inl e \<Rightarrow> (Inl e, T)
      | Inr (currentFingerprint, signingPublicKey) \<Rightarrow>
          writeTrustState C now userID contactUserID contactDeviceID ''BLOCKED'' currentFingerprint signingPublicKey T)"

section \<open>Endpoints\<close>

datatype e2eeReply = E2eeFail nat string | DeviceKeys "(identityKeyRow \<times> string) list" | TrustView TrustStateView

definition ListDeviceKeys :: "crypto \<Rightarrow> string option \<Rightarrow> trustTables \<Rightarrow> e2eeReply" where
  "ListDeviceKeys C user T =
     (case user of
        None \<Rightarrow> E2eeFail 401 ''unauthorized''
      | Some userID \<Rightarrow>
          let rows = rev (sort_key ik_published_at (filter (\<lambda>k. ik_user_id k = userID) (identity_keys T)));
              prints = map (\<lambda>k. ComputeFingerprint C (ik_signing_public_key k)) rows
          in if list_ex isl prints then E2eeFail 500 ''crypto_error''
             else DeviceKeys (map2 (\<lambda>k f. (k, projr f)) rows prints))"

text \<open>
  The claim of a one-time prekey is an \<open>UPDATE ... RETURNING ... LIMIT 1\<close>.  PostgreSQL has no
  \<open>LIMIT\<close> on an \<open>UPDATE\<close>: it rejects the statement, which is an error other than
  \<open>ErrNoRows\<close>.
\<close>

definition claim_statement :: "string \<Rightarrow> e2eeError + int \<times> string" where
  "claim_statement deviceID = Inl StoreFailed"

definition url_param :: "(string \<times> string) list \<Rightarrow> string \<Rightarrow> string \<Rightarrow> string" where
  "url_param params name alternative = (if get_first params name = [] then get_first params alternative else get_first params name)"

definition GetDeviceKeyBundle :: "crypto \<Rightarrow> (string \<times> string) list \<Rightarrow> trustTables \<Rightarrow> e2eeReply" where
  "GetDeviceKeyBundle C params T =
     (let targetUserID = url_param params ''user_id'' ''userID'';
          targetDeviceID = url_param params ''device_id'' ''deviceID''
      in if targetUserID = [] \<or> targetDeviceID = [] then E2eeFail 400 ''missing_param''
         else (case find (\<lambda>k. ik_user_id k = targetUserID \<and> ik_device_id k = targetDeviceID) (identity_keys T) of
             None \<Rightarrow> E2eeFail 404 ''not_found''
           | Some k \<Rightarrow>
               (case ComputeFingerprint C (ik_signing_public_key k) of
                  Inl _ \<Rightarrow> E2eeFail 500 ''crypto_error''
                | Inr fingerprint \<Rightarrow>
                    (case claim_statement (ik_device_id k) of
                       Inl _ \<Rightarrow> E2eeFail 500 ''database_error''
                     | Inr otp \<Rightarrow> DeviceKeys [(k, fingerprint)]))))"

definition ClaimOneTimePrekey :: "string option \<Rightarrow> httpReq \<Rightarrow> trustTables \<Rightarrow> e2eeReply" where
  "ClaimOneTimePrekey user r T =
     (case user of
        None \<Rightarrow> E2eeFail 401 ''unauthorized''
      | Some _ \<Rightarrow>
          let (good, vals) = decode_strings (Body r) [''user_id'', ''device_id''] in
          if \<not> good then E2eeFail 400 ''invalid_json''
          else if vals ! 0 = [] \<or> vals ! 1 = [] then E2eeFail 400 ''missing_field''
          else (case map_of (device_owner T) (vals ! 1) of
                  None \<Rightarrow> E2eeFail 404 ''not_found''
                | Some deviceUserID \<Rightarrow>
                    if deviceUserID \<noteq> vals ! 0 then E2eeFail 403 ''forbidden''
                    else (case claim_statement (vals ! 1) of
                            Inl _ \<Rightarrow> E2eeFail 500 ''database_error''
                          | Inr _ \<Rightarrow> DeviceKeys [])))"

definition trust_failure :: "e2eeError \<Rightarrow> e2eeReply" where
  "trust_failure e = (case e of TrustDeviceNotFound \<Rightarrow> E2eeFail 404 ''not_found''
     | TrustFingerprintMismatch \<Rightarrow> E2eeFail 409 ''fingerprint_mismatch''
     | _ \<Rightarrow> E2eeFail 500 ''database_error'')"

definition trust_reply :: "e2eeError + TrustStateView \<Rightarrow> e2eeReply" where
  "trust_reply res = (case res of Inl e \<Rightarrow> trust_failure e | Inr view \<Rightarrow> TrustView view)"

definition VerifyDeviceFingerprint ::
  "crypto \<Rightarrow> time \<Rightarrow> string option \<Rightarrow> httpReq \<Rightarrow> trustTables \<Rightarrow> e2eeReply \<times> trustTables" where
  "VerifyDeviceFingerprint C now user r T =
     (case user of
        None \<Rightarrow> (E2eeFail 401 ''unauthorized'', T)
      | Some userID \<Rightarrow>
          let (good, vals) = decode_strings (Body r) [''contact_user_id'', ''contact_device_id'', ''fingerprint''] in
          if \<not> good then (E2eeFail 400 ''invalid_json'', T)
          else if vals ! 0 = [] \<or> vals ! 1 = [] \<or> vals ! 2 = [] then (E2eeFail 400 ''missing_field'', T)
          else map_prod trust_reply id (VerifyTrustState C now userID (vals ! 0) (vals ! 1) (vals ! 2) T))"

definition GetTrustState ::
  "crypto \<Rightarrow> string option \<Rightarrow> (string \<times> string) list \<Rightarrow> httpReq \<Rightarrow> trustTables \<Rightarrow> e2eeReply" where
  "GetTrustState C user params r T =
     (case user of
        None \<Rightarrow> E2eeFail 401 ''unauthorized''
      | Some userID \<Rightarrow>
          let contactUserID = (if get_first params ''contact_user_id'' = [] then get_first (Query r) ''contact_user_id''
                 else get_first params ''contact_user_id'');
              contactDeviceID = (if get_first params ''device_id'' = [] then get_first (Query r) ''contact_device_id''
                 else get_first params ''device_id'')
          in if contactUserID = [] \<or> contactDeviceID = [] then E2eeFail 400 ''missing_param''
             else trust_reply (GetTrustStateView C T userID contactUserID contactDeviceID))"

definition RevokeDeviceFingerprint ::
  "crypto \<Rightarrow> time \<Rightarrow> string option \<Rightarrow> httpReq \<Rightarrow> trustTables \<Rightarrow> e2eeReply \<times> trustTables" where
  "RevokeDeviceFingerprint C now user r T =
     (case user of
        None \<Rightarrow> (E2eeFail 401 ''unauthorized'', T)
      | Some userID \<Rightarrow>
          let (good, vals) = decode_strings (Body r) [''contact_user_id'', ''contact_device_id''] in
          if \<not> good then (E2eeFail 400 ''invalid_json'', T)
          else if vals ! 0 = [] \<or> vals ! 1 = [] then (E2eeFail 400 ''missing_field'', T)
          else map_prod trust_reply id (RevokeTrustState C now userID (vals ! 0) (vals ! 1) T))"

end
