(* ===== verification/TrustProps.thy ===== *)
theory TrustProps
  imports Trust
begin

text \<open>Properties of the trust records: when a device counts as verified.\<close>

lemma find_trust_key: "find_trust T u c d = Some row \<Longrightarrow> row \<in> set (key_trust T) \<and> trust_key row = (u, c, d)"
  by (auto simp: find_trust_def find_Some_iff)

lemma trust_key_update [simp]:
  "trust_key (r\<lparr>t_trust_state := a\<rparr>) = trust_key r" "trust_key (r\<lparr>t_fingerprint := f\<rparr>) = trust_key r"
  "trust_key (r\<lparr>t_trusted_device_public_key := k\<rparr>) = trust_key r" "trust_key (r\<lparr>t_trust_established_at := e\<rparr>) = trust_key r"
  "trust_key (r\<lparr>t_verified_at := v\<rparr>) = trust_key r"
  by (simp_all add: trust_key_def)

lemma upsert_mem:
  assumes "r \<in> set (upsert_trust row f rows)"
  shows "r = row \<or> (\<exists>r0 \<in> set rows. trust_key r0 = trust_key row \<and> r = f r0)
    \<or> (r \<in> set rows \<and> trust_key r \<noteq> trust_key row)"
  using assms by (auto simp: upsert_trust_def list_ex_iff split: if_splits)

lemma find_map_if: "\<forall>r. P r \<longrightarrow> P (f r) \<Longrightarrow> find P (map (\<lambda>r. if P r then f r else r) rows) = map_option f (find P rows)"
  by (induction rows) auto

lemma find_snoc: "find P (rows @ [row]) = (case find P rows of None \<Rightarrow> if P row then Some row else None | Some r \<Rightarrow> Some r)"
  by (induction rows) auto

lemma find_upsert:
  assumes "\<And>r. trust_key (f r) = trust_key r"
  shows "find (\<lambda>r. trust_key r = trust_key row) (upsert_trust row f rows) =
    Some (case find (\<lambda>r. trust_key r = trust_key row) rows of None \<Rightarrow> row | Some r \<Rightarrow> f r)"
proof (cases "find (\<lambda>r. trust_key r = trust_key row) rows")
  case None
  then have "\<not> list_ex (\<lambda>r. trust_key r = trust_key row) rows" by (simp add: find_None_iff list_ex_iff)
  then show ?thesis using None by (simp add: upsert_trust_def find_snoc)
next
  case (Some r)
  then have "list_ex (\<lambda>r. trust_key r = trust_key row) rows" by (auto simp: find_Some_iff list_ex_iff)
  then show ?thesis using Some assms by (simp add: upsert_trust_def find_map_if)
qed

lemma filter_upsert:
  assumes "k \<noteq> trust_key row" and "\<And>r. trust_key (f r) = trust_key r"
  shows "filter (\<lambda>r. trust_key r = k) (upsert_trust row f rows) = filter (\<lambda>r. trust_key r = k) rows"
proof -
  have "filter (\<lambda>r. trust_key r = k) (map (\<lambda>r. if trust_key r = trust_key row then f r else r) rows) = filter (\<lambda>r. trust_key r = k) rows"
    using assms by (induction rows) auto
  then show ?thesis using assms(1) by (simp add: upsert_trust_def)
qed

lemma equal_fold_current [simp]:
  "deriveEffectiveTrustState st fp fp = (let n = normalizeStoredTrustState st in
     if n = ''REVOKED'' then (''REVOKED'', ''Verification was revoked for this device.'')
     else if n = ''VERIFIED'' then (''VERIFIED'', []) else (''UNVERIFIED'', []))"
  by (simp add: deriveEffectiveTrustState_def Let_def)

lemma normal_states [simp]:
  "normalizeStoredTrustState ''VERIFIED'' = ''VERIFIED''" "normalizeStoredTrustState ''BLOCKED'' = ''REVOKED''"
  "normalizeStoredTrustState ''TOFU'' = ''UNVERIFIED''"
  by code_simp+

section \<open>The trust state machine\<close>

text \<open>
  Runs of the service from empty trust records, with the verifications that succeeded (user, contact,
  device, fingerprint that the user presented); devices may publish any keys in between.
\<close>

type_synonym verification = "string \<times> string \<times> string \<times> string"

inductive trust_served :: "crypto \<Rightarrow> trustTables \<Rightarrow> verification list \<Rightarrow> bool" for C where
  trust_start: "key_trust T = [] \<Longrightarrow> trust_served C T []"
| trust_verified: "trust_served C T log \<Longrightarrow> VerifyTrustState C now u c d fp T = (Inr view, T')
     \<Longrightarrow> trust_served C T' ((u, c, d, fp) # log)"
| trust_revoked: "trust_served C T log \<Longrightarrow> RevokeTrustState C now u c d T = (Inr view, T') \<Longrightarrow> trust_served C T' log"
| trust_first_use: "trust_served C T log \<Longrightarrow> trust_served C (EstablishTOFUTrust now u c d fp key T) log"
| trust_keys_change: "trust_served C T log \<Longrightarrow> trust_served C (T\<lparr>identity_keys := ks, device_owner := ow\<rparr>) log"

definition trust_row_ok :: "verification list \<Rightarrow> trustRow \<Rightarrow> bool" where
  "trust_row_ok log r \<longleftrightarrow>
     (t_verified_at r \<noteq> None \<longleftrightarrow> normalizeStoredTrustState (t_trust_state r) = ''VERIFIED'')
     \<and> (normalizeStoredTrustState (t_trust_state r) = ''VERIFIED'' \<longrightarrow>
          (\<exists>fp. (t_user_id r, t_contact_user_id r, t_contact_device_id r, fp) \<in> set log
             \<and> equal_fold (trim_space fp) (t_fingerprint r)))"

lemma trust_row_ok_mono: "trust_row_ok log r \<Longrightarrow> trust_row_ok (e # log) r"
  unfolding trust_row_ok_def by (auto intro: exI)

lemma writeTrustState_rows:
  assumes "writeTrustState C now u c d st fp key T = (res, T')" and "\<forall>r \<in> set (key_trust T). trust_row_ok log r"
    and "normalizeStoredTrustState st = ''VERIFIED'' \<Longrightarrow> \<exists>e. (u, c, d, e) \<in> set log \<and> equal_fold (trim_space e) fp"
  shows "\<forall>r \<in> set (key_trust T'). trust_row_ok log r"
proof
  fix r assume r: "r \<in> set (key_trust T')"
  have T': "key_trust T' = upsert_trust
             \<lparr>t_user_id = u, t_contact_user_id = c, t_contact_device_id = d,
              t_trust_state = st, t_fingerprint = fp,
              t_trusted_device_public_key = Some key, t_trust_established_at = Some now,
              t_verified_at = (if normalizeStoredTrustState st = ''VERIFIED'' then Some now else None)\<rparr>
             (\<lambda>r. r\<lparr>t_trust_state := st, t_fingerprint := fp,
                    t_trusted_device_public_key := Some key,
                    t_trust_established_at := (case t_trust_established_at r of None \<Rightarrow> Some now | Some t \<Rightarrow> Some t),
                    t_verified_at := (if normalizeStoredTrustState st = ''VERIFIED'' then Some now else None)\<rparr>) (key_trust T)"
    using assms(1) by (auto simp: writeTrustState_def Let_def)
  have ok: "trust_row_ok log x" if "trust_key x = (u, c, d)" "t_trust_state x = st" "t_fingerprint x = fp"
      "t_verified_at x = (if normalizeStoredTrustState st = ''VERIFIED'' then Some now else None)" for x
    using that assms(3) by (auto simp: trust_row_ok_def trust_key_def)
  from upsert_mem [OF r [unfolded T']] show "trust_row_ok log r"
    using assms(2) by (elim disjE bexE conjE) (auto intro!: ok simp: trust_key_def)
qed

lemma trust_served_rows: "trust_served C T log \<Longrightarrow> \<forall>r \<in> set (key_trust T). trust_row_ok log r"
proof (induction rule: trust_served.induct)
  case (trust_verified T log now u c d fp view T')
  have w: "\<exists>cur key. writeTrustState C now u c d ''VERIFIED'' cur key T = (Inr view, T') \<and> equal_fold (trim_space fp) cur"
    using trust_verified.hyps(2) by (auto simp: VerifyTrustState_def split: sum.splits prod.splits if_splits)
  then obtain cur key where w: "writeTrustState C now u c d ''VERIFIED'' cur key T = (Inr view, T')"
    and eq: "equal_fold (trim_space fp) cur" by blast
  show ?case
    by (rule writeTrustState_rows [OF w])
      (use trust_verified.IH eq in \<open>auto intro: trust_row_ok_mono\<close>)
next
  case (trust_revoked T log now u c d view T')
  then obtain cur key where w: "writeTrustState C now u c d ''BLOCKED'' cur key T = (Inr view, T')"
    by (auto simp: RevokeTrustState_def split: sum.splits prod.splits)
  show ?case by (rule writeTrustState_rows [OF w trust_revoked.IH]) simp
next
  case (trust_first_use T log now u c d fp key)
  show ?case
  proof
    fix r assume r: "r \<in> set (key_trust (EstablishTOFUTrust now u c d fp key T))"
    have ok: "trust_row_ok log x" if "t_trust_state x = ''TOFU''" "t_verified_at x = None" for x
      using that by (simp add: trust_row_ok_def)
    from upsert_mem [OF r [unfolded EstablishTOFUTrust_def StoreTrustState_def, simplified]]
    show "trust_row_ok log r"
      using trust_first_use.IH by (elim disjE bexE conjE) (auto intro!: ok)
  qed
qed simp_all

text \<open>C20. A device counts as verified for a user only when that user has presented its fingerprint:
  the presented one is the recorded one, it is still the device's current one (when both are
  nonempty), and the record holds the time of the verification.  Revoking, first use and any change
  of the device's keys in between cannot make it verified.\<close>

theorem verified_only_by_fingerprint:
  assumes "trust_served C T log" and "GetTrustStateView C T u c d = Inr view"
    and "v_EffectiveTrustState view = ''VERIFIED''"
  shows "\<exists>fp. (u, c, d, fp) \<in> set log \<and> equal_fold (trim_space fp) (v_RecordedFingerprint view)
    \<and> v_VerifiedAt view \<noteq> None
    \<and> (trim_space (v_RecordedFingerprint view) \<noteq> [] \<and> trim_space (v_CurrentFingerprint view) \<noteq> []
        \<longrightarrow> equal_fold (trim_space (v_RecordedFingerprint view)) (trim_space (v_CurrentFingerprint view)))"
proof -
  from assms(2,3) obtain cur key row where
    row: "find_trust T u c d = Some row"
    and st: "fst (deriveEffectiveTrustState (t_trust_state row) (t_fingerprint row) cur) = ''VERIFIED''"
    and view: "v_RecordedFingerprint view = t_fingerprint row" "v_CurrentFingerprint view = cur"
      "v_VerifiedAt view = t_verified_at row"
    by (auto simp: GetTrustStateView_def split: option.splits prod.splits)
  have n: "normalizeStoredTrustState (t_trust_state row) = ''VERIFIED''"
    and eq: "trim_space (t_fingerprint row) \<noteq> [] \<and> trim_space cur \<noteq> [] \<longrightarrow> equal_fold (trim_space (t_fingerprint row)) (trim_space cur)"
    using st by (auto simp: deriveEffectiveTrustState_def Let_def split: if_splits)
  have "trust_row_ok log row" using trust_served_rows [OF assms(1)] find_trust_key [OF row] by blast
  then obtain fp where "(u, c, d, fp) \<in> set log" "equal_fold (trim_space fp) (t_fingerprint row)" "t_verified_at row \<noteq> None"
    using n find_trust_key [OF row] by (auto simp: trust_row_ok_def trust_key_def)
  then show ?thesis using eq view by (intro exI [of _ fp] conjI) simp_all
qed

definition demo_key :: "string \<Rightarrow> identityKeyRow" where
  "demo_key fp = \<lparr>ik_device_id = ''d2'', ik_user_id = ''u2'', ik_identity_key_alg = ''X25519'', ik_identity_public_key = ''k'',
     ik_signed_prekey_id = 1, ik_signed_prekey_public_key = ''p'', ik_signed_prekey_signature = ''s'',
     ik_signing_key_alg = ''Ed25519'', ik_signing_public_key = ''sk'', ik_fingerprint = fp, ik_published_at = 1\<rparr>"

definition demo_trust :: trustTables where
  "demo_trust = \<lparr>identity_keys = [demo_key ''ab12''], key_trust = [], device_owner = []\<rparr>"

lemma demo_verifies:
  "\<exists>view. VerifyTrustState C 7 ''u1'' ''u2'' ''d2'' ''AB12'' demo_trust = (Inr view, snd (VerifyTrustState C 7 ''u1'' ''u2'' ''d2'' ''AB12'' demo_trust))
     \<and> GetTrustStateView C (snd (VerifyTrustState C 7 ''u1'' ''u2'' ''d2'' ''AB12'' demo_trust)) ''u1'' ''u2'' ''d2'' = Inr view
     \<and> v_EffectiveTrustState view = ''VERIFIED''"
proof -
  have ef: "trim_space ''AB12'' = ''AB12''" "equal_fold ''AB12'' ''ab12''" by code_simp+
  show ?thesis
    by (simp add: VerifyTrustState_def loadCurrentTrustMaterial_def demo_trust_def demo_key_def ef
        writeTrustState_def Let_def GetTrustStateView_def find_trust_def upsert_trust_def trust_key_def)
qed

theorem verified_only_by_fingerprint_witness:
  "\<forall>C. \<exists>T view. trust_served C T [(''u1'', ''u2'', ''d2'', ''AB12'')] \<and> GetTrustStateView C T ''u1'' ''u2'' ''d2'' = Inr view
     \<and> v_EffectiveTrustState view = ''VERIFIED'' \<and> v_VerifiedAt view \<noteq> None"
proof (rule allI)
  fix C
  let ?T = "snd (VerifyTrustState C 7 ''u1'' ''u2'' ''d2'' ''AB12'' demo_trust)"
  obtain view where v: "VerifyTrustState C 7 ''u1'' ''u2'' ''d2'' ''AB12'' demo_trust = (Inr view, ?T)"
    "GetTrustStateView C ?T ''u1'' ''u2'' ''d2'' = Inr view" "v_EffectiveTrustState view = ''VERIFIED''"
    using demo_verifies by blast
  have "trust_served C demo_trust []" by (rule trust_start) (simp add: demo_trust_def)
  from trust_verified [OF this v(1)] have s: "trust_served C ?T [(''u1'', ''u2'', ''d2'', ''AB12'')]" .
  then show "\<exists>T view. trust_served C T [(''u1'', ''u2'', ''d2'', ''AB12'')] \<and> GetTrustStateView C T ''u1'' ''u2'' ''d2'' = Inr view
     \<and> v_EffectiveTrustState view = ''VERIFIED'' \<and> v_VerifiedAt view \<noteq> None" using verified_only_by_fingerprint [OF s v(2,3)] v by blast
qed

lemma write_effect:
  assumes "writeTrustState C t u c d st cur key X = (Inr v, X')" "loadCurrentTrustMaterial C X c d = Inr (cur, key)"
  shows "v_EffectiveTrustState v = fst (deriveEffectiveTrustState st cur cur)"
    "v_VerifiedAt v = (if normalizeStoredTrustState st = ''VERIFIED'' then Some t else None)"
    "k \<noteq> (u, c, d) \<Longrightarrow> filter (\<lambda>r. trust_key r = k) (key_trust X') = filter (\<lambda>r. trust_key r = k) (key_trust X)"
proof -
  let ?at = "if normalizeStoredTrustState st = ''VERIFIED'' then Some t else None"
  let ?row = "\<lparr>t_user_id = u, t_contact_user_id = c, t_contact_device_id = d, t_trust_state = st, t_fingerprint = cur,
            t_trusted_device_public_key = Some key, t_trust_established_at = Some t, t_verified_at = ?at\<rparr>"
  let ?f = "\<lambda>r. r\<lparr>t_trust_state := st, t_fingerprint := cur, t_trusted_device_public_key := Some key,
                  t_trust_established_at := (case t_trust_established_at r of None \<Rightarrow> Some t | Some e \<Rightarrow> Some e),
                  t_verified_at := ?at\<rparr>"
  have X': "key_trust X' = upsert_trust ?row ?f (key_trust X)" "identity_keys X' = identity_keys X"
    and view: "GetTrustStateView C X' u c d = Inr v"
    using assms(1) by (auto simp: writeTrustState_def Let_def)
  have k: "trust_key ?row = (u, c, d)" by (simp add: trust_key_def)
  have fk: "\<And>r. trust_key (?f r) = trust_key r" by simp
  obtain r where r: "find_trust X' u c d = Some r" "t_trust_state r = st" "t_fingerprint r = cur" "t_verified_at r = ?at"
    using find_upsert [OF fk, of ?row "key_trust X"] unfolding find_trust_def X'(1) k by (auto split: option.splits)
  have load: "loadCurrentTrustMaterial C X' c d = Inr (cur, key)"
    using assms(2) by (simp add: loadCurrentTrustMaterial_def X'(2))
  have view': "v_EffectiveTrustState v = fst (deriveEffectiveTrustState st cur cur)" "v_VerifiedAt v = t_verified_at r"
    using view by (auto simp: GetTrustStateView_def load r(1-3) simp del: equal_fold_current)
  show "v_EffectiveTrustState v = fst (deriveEffectiveTrustState st cur cur)" by (rule view'(1))
  show "v_VerifiedAt v = ?at" unfolding view'(2) by (rule r(4))
  show "filter (\<lambda>r. trust_key r = k) (key_trust X') = filter (\<lambda>r. trust_key r = k) (key_trust X)" if "k \<noteq> (u, c, d)"
    unfolding X'(1) by (rule filter_upsert [OF _ fk]) (use that k in simp)
qed

text \<open>Revoking trust in a device shows it as revoked, whatever was recorded, and presenting its
  current fingerprint shows it as verified again; neither touches the records of other devices or of
  other users.\<close>

theorem revoke_and_verify:
  assumes "RevokeTrustState C now u c d T = (Inr view, T1)"
    and "VerifyTrustState C now' u c d fp T1 = (Inr view', T2)"
  shows "v_EffectiveTrustState view = ''REVOKED'' \<and> v_VerifiedAt view = None
     \<and> v_EffectiveTrustState view' = ''VERIFIED'' \<and> v_VerifiedAt view' = Some now'
     \<and> (\<forall>k. k \<noteq> (u, c, d) \<longrightarrow> filter (\<lambda>r. trust_key r = k) (key_trust T2) = filter (\<lambda>r. trust_key r = k) (key_trust T))"
proof -
  obtain cur key where l1: "loadCurrentTrustMaterial C T c d = Inr (cur, key)"
    and w1: "writeTrustState C now u c d ''BLOCKED'' cur key T = (Inr view, T1)"
    using assms(1) by (auto simp: RevokeTrustState_def split: sum.splits prod.splits)
  obtain cur' key' where l2: "loadCurrentTrustMaterial C T1 c d = Inr (cur', key')"
    and w2: "writeTrustState C now' u c d ''VERIFIED'' cur' key' T1 = (Inr view', T2)"
    using assms(2) by (auto simp: VerifyTrustState_def split: sum.splits prod.splits if_splits)
  show ?thesis using write_effect [OF w1 l1] write_effect [OF w2 l2] by (simp add: Let_def)
qed

lemma write_ok:
  assumes "loadCurrentTrustMaterial C T c d = Inr (cur, key)"
  shows "\<exists>v T'. writeTrustState C now u c d st cur key T = (Inr v, T') \<and> loadCurrentTrustMaterial C T' c d = Inr (cur, key)"
  using assms by (simp add: writeTrustState_def Let_def GetTrustStateView_def loadCurrentTrustMaterial_def)

theorem revoke_and_verify_witness:
  "\<forall>C. \<exists>view T1 view' T2. RevokeTrustState C 5 ''u1'' ''u2'' ''d2'' demo_trust = (Inr view, T1)
     \<and> VerifyTrustState C 7 ''u1'' ''u2'' ''d2'' ''AB12'' T1 = (Inr view', T2)
     \<and> v_EffectiveTrustState view = ''REVOKED'' \<and> v_EffectiveTrustState view' = ''VERIFIED''"
proof (rule allI)
  fix C
  have ef: "trim_space ''AB12'' = ''AB12''" "equal_fold ''AB12'' ''ab12''" by code_simp+
  have load: "loadCurrentTrustMaterial C demo_trust ''u2'' ''d2'' = Inr (''ab12'', ''sk'')"
    by (simp add: loadCurrentTrustMaterial_def demo_trust_def demo_key_def)
  obtain view T1 where a: "RevokeTrustState C 5 ''u1'' ''u2'' ''d2'' demo_trust = (Inr view, T1)"
    and load1: "loadCurrentTrustMaterial C T1 ''u2'' ''d2'' = Inr (''ab12'', ''sk'')"
    using write_ok [OF load, of 5 "''u1''" "''BLOCKED''"] by (auto simp: RevokeTrustState_def load)
  obtain view' T2 where b: "VerifyTrustState C 7 ''u1'' ''u2'' ''d2'' ''AB12'' T1 = (Inr view', T2)"
    using write_ok [OF load1, of 7 "''u1''" "''VERIFIED''"] by (auto simp: VerifyTrustState_def load1 ef)
  show "\<exists>view T1 view' T2. RevokeTrustState C 5 ''u1'' ''u2'' ''d2'' demo_trust = (Inr view, T1)
     \<and> VerifyTrustState C 7 ''u1'' ''u2'' ''d2'' ''AB12'' T1 = (Inr view', T2)
     \<and> v_EffectiveTrustState view = ''REVOKED'' \<and> v_EffectiveTrustState view' = ''VERIFIED''" using revoke_and_verify [OF a b] a b by blast
qed

end
