(* ===== verification/Mls.thy ===== *)
theory Mls
  imports Ratchet "HOL-Library.Product_Lexorder"
begin

text \<open>
  Group trees (\<open>gateway/internal/e2ee/mls.go\<close>): the tree of a group's member devices, how it is
  built from the membership tables, and the tables it is stored in.
\<close>

section \<open>The tree\<close>

record TreeLeaf =
  leaf_Index :: int
  leaf_UserID :: string
  leaf_DeviceID :: string
  leaf_PublicKey :: string

text \<open>\<open>Leaves\<close> is a map from indices to leaves; \<open>TreeBytes\<close> may be nil.\<close>

record MLSRatchetTree =
  GroupID :: string
  Generation :: int
  Epoch :: int
  TreeBytes :: "string option"
  Leaves :: "(int \<times> TreeLeaf) list"

definition NewMLSRatchetTree :: "string \<Rightarrow> MLSRatchetTree" where
  "NewMLSRatchetTree groupID = \<lparr>GroupID = groupID, Generation = 0, Epoch = 0, TreeBytes = None, Leaves = []\<rparr>"

definition max_index :: "(int \<times> TreeLeaf) list \<Rightarrow> int" where
  "max_index leaves = foldl (\<lambda>m (i, leaf). if i > m then i else m) 0 leaves"

definition AddMember :: "TreeLeaf \<Rightarrow> MLSRatchetTree \<Rightarrow> int \<times> MLSRatchetTree" where
  "AddMember leaf t =
     (let i = wrap64 (max_index (Leaves t) + 1) in
      (i, t\<lparr>Leaves := AList.update i (leaf\<lparr>leaf_Index := i\<rparr>) (Leaves t), Generation := wrap64 (Generation t + 1)\<rparr>))"

definition RemoveMember :: "string \<Rightarrow> string \<Rightarrow> MLSRatchetTree \<Rightarrow> (e2eeError + unit) \<times> MLSRatchetTree" where
  "RemoveMember userID deviceID t =
     (case find (\<lambda>(i, leaf). leaf_UserID leaf = userID \<and> leaf_DeviceID leaf = deviceID) (Leaves t) of
        None \<Rightarrow> (Inl NotFoundError, t)
      | Some (i, leaf) \<Rightarrow>
          (Inr (), t\<lparr>Leaves := AList.delete i (Leaves t), Generation := wrap64 (Generation t + 1),
                     Epoch := wrap64 (Epoch t + 1)\<rparr>))"

definition GetGroupMembers :: "MLSRatchetTree \<Rightarrow> TreeLeaf list" where
  "GetGroupMembers t = sort_key leaf_Index (map snd (Leaves t))"

text \<open>The verb \<open>%d\<close>.\<close>

definition show_int :: "int \<Rightarrow> string" where
  "show_int i = (if i < 0 then ''-'' @ itoa (nat (- i)) else itoa (nat i))"

definition DeriveGroupKey :: "crypto \<Rightarrow> string \<Rightarrow> MLSRatchetTree \<Rightarrow> string" where
  "DeriveGroupKey C salt t =
     c_sha256 C (bytes_of (TreeBytes t) @ show_int (Generation t) @ '':'' @ show_int (Epoch t) @ salt)"

definition ComputeTreeHash :: "crypto \<Rightarrow> MLSRatchetTree \<Rightarrow> string" where
  "ComputeTreeHash C t =
     hex_encode (c_sha256 C (concat (map (\<lambda>leaf. leaf_DeviceID leaf @ leaf_PublicKey leaf) (GetGroupMembers t))))"

definition encodeTreeBytes :: "TreeLeaf list \<Rightarrow> string" where
  "encodeTreeBytes leaves = join_with [CHR 0x0A] (map (\<lambda>leaf. join_with ''|''
     [show_int (leaf_Index leaf), leaf_UserID leaf, leaf_DeviceID leaf, b64_encode (leaf_PublicKey leaf)]) leaves)"

text \<open>Base64 without padding (\<open>RawStdEncoding\<close>).\<close>

definition b64_raw_decode :: "string \<Rightarrow> string option" where
  "b64_raw_decode s =
     (let t = filter (\<lambda>c. c \<noteq> CHR 0x0D \<and> c \<noteq> CHR 0x0A) s in
      if CHR ''='' \<in> set t then None
      else b64_decode (t @ replicate ((4 - length t mod 4) mod 4) (CHR ''='')))"

definition decodeMLSPublicKey :: "string \<Rightarrow> string" where
  "decodeMLSPublicKey val =
     (let trimmed = trim_space val in
      if trimmed = [] then []
      else case b64_decode trimmed of
             Some decoded \<Rightarrow> decoded
           | None \<Rightarrow> (case b64_raw_decode trimmed of Some decoded \<Rightarrow> decoded | None \<Rightarrow> trimmed))"

definition clone_leaf :: "TreeLeaf \<Rightarrow> TreeLeaf" where
  "clone_leaf leaf = \<lparr>leaf_Index = 0, leaf_UserID = trim_space (leaf_UserID leaf),
     leaf_DeviceID = trim_space (leaf_DeviceID leaf), leaf_PublicKey = leaf_PublicKey leaf\<rparr>"

definition leaf_key :: "TreeLeaf \<Rightarrow> string \<times> string" where
  "leaf_key leaf = (leaf_UserID leaf, leaf_DeviceID leaf)"

definition BuildMLSTree :: "string \<Rightarrow> int \<Rightarrow> TreeLeaf list \<Rightarrow> MLSRatchetTree" where
  "BuildMLSTree groupID epoch leaves =
     (let cloned = sort_key leaf_key (map clone_leaf leaves);
          tree = \<lparr>GroupID = groupID, Generation = (if epoch \<le> 0 then 1 else epoch), Epoch = epoch, TreeBytes = None,
                  Leaves = map (\<lambda>(index, leaf). (int index, leaf\<lparr>leaf_Index := int index\<rparr>)) (enumerate 0 cloned)\<rparr>
      in tree\<lparr>TreeBytes := Some (encodeTreeBytes (GetGroupMembers tree))\<rparr>)"

section \<open>Membership tables\<close>

record memberDevice =
  md_id :: string
  md_user_id :: string
  md_capabilities :: "string list"

record memberKey =
  mk_device_id :: string
  mk_user_id :: string
  mk_bundle_version :: string
  mk_agreement_key :: string

record membership =
  conversation_members :: "(string \<times> string) list"
  member_devices :: "memberDevice list"
  member_keys :: "memberKey list"

text \<open>The join of \<open>BuildConversationMLSTree\<close>, in the order of users and devices.\<close>

definition member_leaves :: "membership \<Rightarrow> string \<Rightarrow> TreeLeaf list" where
  "member_leaves M groupID =
     sort_key leaf_key (concat (map (\<lambda>(conv, u). concat (map (\<lambda>d.
         map (\<lambda>k. \<lparr>leaf_Index = 0, leaf_UserID = u, leaf_DeviceID = md_id d,
                    leaf_PublicKey = decodeMLSPublicKey (mk_agreement_key k)\<rparr>)
           (filter (\<lambda>k. mk_user_id k = md_user_id d \<and> mk_device_id k = md_id d
              \<and> mk_bundle_version k = ''OHMF_SIGNAL_V1'') (member_keys M)))
         (filter (\<lambda>d. md_user_id d = u \<and> ''E2EE_OTT_V2'' \<in> set (md_capabilities d)) (member_devices M))))
       (filter (\<lambda>(conv, u). conv = groupID) (conversation_members M))))"

definition BuildConversationMLSTree :: "membership \<Rightarrow> string \<Rightarrow> int \<Rightarrow> MLSRatchetTree" where
  "BuildConversationMLSTree M groupID epoch = BuildMLSTree groupID epoch (member_leaves M groupID)"

definition ConversationMLSTreeHash :: "crypto \<Rightarrow> membership \<Rightarrow> string \<Rightarrow> int \<Rightarrow> string" where
  "ConversationMLSTreeHash C M groupID epoch = ComputeTreeHash C (BuildConversationMLSTree M groupID epoch)"

section \<open>Stored trees\<close>

record leafRow =
  lr_group_id :: string
  lr_user_id :: string
  lr_device_id :: string
  lr_leaf_index :: int
  lr_generation :: int

record treeRow =
  tr_generation :: int
  tr_tree_bytes :: string
  tr_epoch :: int

record mlsTables =
  leaf_rows :: "leafRow list"
  tree_rows :: "treeRow gomap"
  epoch_rows :: "((string \<times> int) \<times> string) list"
  session_rows :: "((string \<times> string \<times> string \<times> int) \<times> string) list"
  change_rows :: "(string \<times> string \<times> string \<times> string \<times> int) list"

definition leaf_row_key :: "leafRow \<Rightarrow> string \<times> string \<times> string" where
  "leaf_row_key r = (lr_group_id r, lr_user_id r, lr_device_id r)"

text \<open>The columns of indices, generations and epochs are \<open>INT\<close>s; the primary key of a leaf row is
  its group, user and device.\<close>

definition leaf_row :: "string \<Rightarrow> int \<Rightarrow> TreeLeaf \<Rightarrow> leafRow" where
  "leaf_row groupID generation leaf = \<lparr>lr_group_id = groupID, lr_user_id = leaf_UserID leaf,
     lr_device_id = leaf_DeviceID leaf, lr_leaf_index = leaf_Index leaf, lr_generation = generation\<rparr>"

fun insert_leaves :: "string \<Rightarrow> int \<Rightarrow> TreeLeaf list \<Rightarrow> mlsTables \<Rightarrow> (e2eeError + unit) \<times> mlsTables" where
  "insert_leaves groupID generation [] T = (Inr (), T)"
| "insert_leaves groupID generation (leaf # leaves) T =
     (let row = leaf_row groupID generation leaf in
      if list_ex (\<lambda>r. leaf_row_key r = leaf_row_key row) (leaf_rows T)
        \<or> \<not> fits_int4 (leaf_Index leaf) \<or> \<not> fits_int4 generation then (Inl StoreFailed, T)
      else insert_leaves groupID generation leaves (T\<lparr>leaf_rows := leaf_rows T @ [row]\<rparr>))"

definition SaveRatchetTree :: "MLSRatchetTree \<Rightarrow> mlsTables \<Rightarrow> (e2eeError + unit) \<times> mlsTables" where
  "SaveRatchetTree tree T =
     (case TreeBytes tree of
        None \<Rightarrow> (Inl StoreFailed, T)
      | Some bytes \<Rightarrow>
          if \<not> fits_int4 (Generation tree) \<or> \<not> fits_int4 (Epoch tree) then (Inl StoreFailed, T)
          else (Inr (), T\<lparr>tree_rows := AList.update (GroupID tree)
             \<lparr>tr_generation = Generation tree, tr_tree_bytes = bytes, tr_epoch = Epoch tree\<rparr> (tree_rows T)\<rparr>))"

text \<open>The caller's transaction undoes the statements before one that fails.\<close>

definition PersistConversationMLSTree :: "MLSRatchetTree option \<Rightarrow> mlsTables \<Rightarrow> (e2eeError + unit) \<times> mlsTables" where
  "PersistConversationMLSTree tree T =
     (case tree of
        None \<Rightarrow> (Inr (), T)
      | Some t0 \<Rightarrow>
          let t = (if TreeBytes t0 = None then t0\<lparr>TreeBytes := Some (encodeTreeBytes (GetGroupMembers t0))\<rparr> else t0);
              T1 = T\<lparr>leaf_rows := filter (\<lambda>r. lr_group_id r \<noteq> GroupID t) (leaf_rows T)\<rparr>
          in (case insert_leaves (GroupID t) (Generation t) (GetGroupMembers t) T1 of
                (Inl e, T2) \<Rightarrow> (Inl e, T2)
              | (Inr _, T2) \<Rightarrow> SaveRatchetTree t T2))"

definition LoadRatchetTree :: "mlsTables \<Rightarrow> string \<Rightarrow> MLSRatchetTree option" where
  "LoadRatchetTree T groupID =
     map_option (\<lambda>row. \<lparr>GroupID = groupID, Generation = tr_generation row, Epoch = tr_epoch row,
        TreeBytes = Some (tr_tree_bytes row), Leaves = []\<rparr>) (map_of (tree_rows T) groupID)"

text \<open>\<open>ON CONFLICT DO NOTHING\<close>.\<close>

fun SaveMemberLeaves :: "string \<Rightarrow> TreeLeaf list \<Rightarrow> int \<Rightarrow> mlsTables \<Rightarrow> (e2eeError + unit) \<times> mlsTables" where
  "SaveMemberLeaves groupID [] generation T = (Inr (), T)"
| "SaveMemberLeaves groupID (leaf # leaves) generation T =
     (let row = leaf_row groupID generation leaf in
      if \<not> fits_int4 (leaf_Index leaf) \<or> \<not> fits_int4 generation then (Inl StoreFailed, T)
      else SaveMemberLeaves groupID leaves generation
        (if list_ex (\<lambda>r. leaf_row_key r = leaf_row_key row) (leaf_rows T) then T
         else T\<lparr>leaf_rows := leaf_rows T @ [row]\<rparr>))"

definition LoadMemberLeaves :: "mlsTables \<Rightarrow> string \<Rightarrow> TreeLeaf list" where
  "LoadMemberLeaves T groupID =
     map (\<lambda>r. \<lparr>leaf_Index = lr_leaf_index r, leaf_UserID = lr_user_id r, leaf_DeviceID = lr_device_id r, leaf_PublicKey = []\<rparr>)
       (sort_key lr_leaf_index (filter (\<lambda>r. lr_group_id r = groupID) (leaf_rows T)))"

definition SaveGroupEpoch :: "string \<Rightarrow> int \<Rightarrow> string option \<Rightarrow> mlsTables \<Rightarrow> (e2eeError + unit) \<times> mlsTables" where
  "SaveGroupEpoch groupID epoch secret T =
     (case secret of
        None \<Rightarrow> (Inl StoreFailed, T)
      | Some s \<Rightarrow> if \<not> fits_int4 epoch then (Inl StoreFailed, T)
          else (Inr (), T\<lparr>epoch_rows := AList.update (groupID, epoch) s (epoch_rows T)\<rparr>))"

definition GetGroupEpoch :: "mlsTables \<Rightarrow> string \<Rightarrow> int \<Rightarrow> e2eeError + string" where
  "GetGroupEpoch T groupID epoch = or_error NotFoundError (map_of (epoch_rows T) (groupID, epoch))"

definition SaveGroupSession ::
  "string \<Rightarrow> string \<Rightarrow> string \<Rightarrow> int \<Rightarrow> string option \<Rightarrow> mlsTables \<Rightarrow> (e2eeError + unit) \<times> mlsTables" where
  "SaveGroupSession groupID userID deviceID epoch sessionBytes T =
     (case sessionBytes of
        None \<Rightarrow> (Inl StoreFailed, T)
      | Some s \<Rightarrow> if \<not> fits_int4 epoch then (Inl StoreFailed, T)
          else (Inr (), T\<lparr>session_rows := AList.update (groupID, userID, deviceID, epoch) s (session_rows T)\<rparr>))"

definition GetGroupSession :: "mlsTables \<Rightarrow> string \<Rightarrow> string \<Rightarrow> string \<Rightarrow> e2eeError + string \<times> int" where
  "GetGroupSession T groupID userID deviceID =
     (case rev (sort_key (\<lambda>((g, u, d, e), s). e)
             (filter (\<lambda>((g, u, d, e), s). g = groupID \<and> u = userID \<and> d = deviceID) (session_rows T))) of
        [] \<Rightarrow> Inl NotFoundError
      | ((g, u, d, e), s) # _ \<Rightarrow> Inr (s, e))"

definition RecordMembershipChange ::
  "string \<Rightarrow> string \<Rightarrow> string \<Rightarrow> string \<Rightarrow> int \<Rightarrow> mlsTables \<Rightarrow> (e2eeError + unit) \<times> mlsTables" where
  "RecordMembershipChange groupID initiatorID targetID changeType epoch T =
     (if \<not> fits_int4 epoch then (Inl StoreFailed, T)
      else (Inr (), T\<lparr>change_rows := change_rows T @ [(groupID, initiatorID, targetID, changeType, epoch)]\<rparr>))"

end
