(* ===== verification/GroupCrypto.thy ===== *)
theory GroupCrypto
  imports Mls
begin

text \<open>
  Group encryption (\<open>gateway/internal/e2ee/group_encryption.go\<close>): a message is sealed under a fresh
  group session key, which is wrapped for every member device.  The key of a device is looked up in
  \<open>device_identity_keys\<close>; lookups are arguments.
\<close>

record RecipientWrappedKey =
  rk_UserID :: string
  rk_DeviceID :: string
  rk_WrappedKey :: string
  rk_WrappedKeyNonce :: string

text \<open>\<open>SELECT DISTINCT user_id, device_id ... ORDER BY user_id, device_id\<close>.\<close>

definition group_devices :: "mlsTables \<Rightarrow> string \<Rightarrow> (string \<times> string) list" where
  "group_devices T groupID =
     sort (remdups (map (\<lambda>r. (lr_user_id r, lr_device_id r)) (filter (\<lambda>r. lr_group_id r = groupID) (leaf_rows T))))"

text \<open>
  The random bytes: the group key, the nonce that is returned, the nonce \<open>AESGCMEncrypt\<close> draws, and
  for each recipient the private ephemeral key and the wrapping nonce.
\<close>

record groupRandom =
  g_key :: string
  g_nonce :: string
  g_seal_nonce :: string
  g_eph :: "string \<times> string \<Rightarrow> string"
  g_wrap_nonce :: "string \<times> string \<Rightarrow> string"

fun wrap_for ::
  "crypto \<Rightarrow> groupRandom \<Rightarrow> (string \<times> string \<Rightarrow> string option) \<Rightarrow> DoubleRatchetState \<Rightarrow> (string \<times> string) list
   \<Rightarrow> e2eeError + RecipientWrappedKey list" where
  "wrap_for C rnd public_key dr [] = Inr []"
| "wrap_for C rnd public_key dr ((u, d) # devices) =
     (case public_key (u, d) of
        None \<Rightarrow> wrap_for C rnd public_key dr devices
      | Some key \<Rightarrow>
          try_then (GenerateRecipientWrappedKey C (g_eph rnd (u, d)) (g_wrap_nonce rnd (u, d)) key (Some dr))
            (\<lambda>(wrapped, nonce).
          try_then (wrap_for C rnd public_key dr devices) (\<lambda>rest.
            Inr (\<lparr>rk_UserID = u, rk_DeviceID = d, rk_WrappedKey = wrapped, rk_WrappedKeyNonce = nonce\<rparr> # rest))))"

text \<open>The result is the ciphertext, the group session nonce and the recipients.\<close>

definition EncryptForGroup ::
  "crypto \<Rightarrow> groupRandom \<Rightarrow> (string \<times> string \<Rightarrow> string option) \<Rightarrow> mlsTables \<Rightarrow> string \<Rightarrow> string
   \<Rightarrow> e2eeError + string \<times> string \<times> RecipientWrappedKey list" where
  "EncryptForGroup C rnd public_key T groupID plaintext =
     (let devices = group_devices T groupID;
          groupSessionNonce = b64_encode (g_nonce rnd);
          (encryptedData, _) = AESGCMEncrypt C (g_seal_nonce rnd) (arr 32 (g_key rnd)) plaintext [];
          ciphertext = b64_encode encryptedData
      in try_then (InitializeDoubleRatchetState C (g_key rnd)) (\<lambda>tempDRState.
         try_then (wrap_for C rnd public_key tempDRState devices) (\<lambda>recipients.
           if devices = [] then Inl NoMembers else Inr (ciphertext, groupSessionNonce, recipients))))"

definition DecryptGroupMessage ::
  "crypto \<Rightarrow> (string \<times> string \<Rightarrow> string option) \<Rightarrow> string \<Rightarrow> string \<Rightarrow> string \<Rightarrow> string \<Rightarrow> string \<Rightarrow> string
   \<Rightarrow> e2eeError + string" where
  "DecryptGroupMessage C private_key recipientUserID recipientDeviceID wrappedSessionKey wrappedKeyNonce
       ciphertext groupSessionNonce =
     try_then (decode_sized 12 wrappedKeyNonce) (\<lambda>_.
     try_then (or_error NotFoundError (private_key (recipientUserID, recipientDeviceID))) (\<lambda>recipientPrivateKeyB64.
     try_then (InitializeDoubleRatchetStateAsReceiver C zero_key) (\<lambda>tempDRState.
     try_then (UnwrapSessionKeyWithDoubleRatchet C recipientPrivateKeyB64 wrappedSessionKey wrappedKeyNonce (Some tempDRState))
       (\<lambda>wrappedSessionKeyBytes.
     if length wrappedSessionKeyBytes \<noteq> 32 then Inl (BadSize (length wrappedSessionKeyBytes))
     else try_then (decode_b64 ciphertext) (\<lambda>ciphertextBytes.
     try_then (decode_sized 12 groupSessionNonce) (\<lambda>groupNonceBytes.
       AESGCMDecrypt C (arr 32 wrappedSessionKeyBytes) ciphertextBytes groupNonceBytes []))))))"

definition RotateGroupKey :: "crypto \<Rightarrow> int \<Rightarrow> string \<Rightarrow> e2eeError + string" where
  "RotateGroupKey C currentEpoch groupSecret =
     (if length groupSecret \<noteq> 32 then Inl (BadSize (length groupSecret))
      else HKDFExtractExpand C ''group-secret'' groupSecret (''group-key-rotation-epoch-'' @ show_int currentEpoch) 32)"

definition recipient_key :: "string \<Rightarrow> string \<Rightarrow> string" where
  "recipient_key userID deviceID = userID @ '':'' @ deviceID"

definition ValidateRecipientList :: "mlsTables \<Rightarrow> string \<Rightarrow> RecipientWrappedKey list \<Rightarrow> e2eeError + unit" where
  "ValidateRecipientList T groupID recipients =
     (let leaves = filter (\<lambda>r. lr_group_id r = groupID) (leaf_rows T);
          expectedCount = card (set (map lr_device_id leaves));
          recipientMap = map (\<lambda>r. recipient_key (rk_UserID r) (rk_DeviceID r)) recipients
      in if length recipients \<noteq> expectedCount then Inl RecipientMismatch
         else if list_all (\<lambda>r. recipient_key (lr_user_id r) (lr_device_id r) \<in> set recipientMap) leaves
         then Inr () else Inl RecipientMismatch)"

end
