(* ===== verification/GroupProps.thy ===== *)
theory GroupProps
  imports GroupCrypto RatchetProps
begin

text \<open>Properties of group trees and of group encryption.\<close>

section \<open>Building trees\<close>

lemma clone_key: "leaf_key (clone_leaf l) = (trim_space (leaf_UserID l), trim_space (leaf_DeviceID l))"
  by (simp add: leaf_key_def clone_leaf_def)

text \<open>C23. The tree of a group, its stored form and its hash are functions of the set of its member
  devices: the order in which the leaves arrive does not matter, when no device occurs twice.\<close>

theorem mls_tree_canonical:
  assumes "mset leaves = mset leaves'"
    and "distinct (map (\<lambda>l. (trim_space (leaf_UserID l), trim_space (leaf_DeviceID l))) leaves)"
  shows "BuildMLSTree g e leaves = BuildMLSTree g e leaves'
    \<and> ComputeTreeHash C (BuildMLSTree g e leaves) = ComputeTreeHash C (BuildMLSTree g e leaves')"
proof -
  have "sort_key leaf_key (map clone_leaf leaves) = sort_key leaf_key (map clone_leaf leaves')"
    using assms by (intro sort_key_distinct_mset) (simp_all add: o_def clone_key)
  then show ?thesis by (simp add: BuildMLSTree_def)
qed

definition leaf :: "string \<Rightarrow> string \<Rightarrow> TreeLeaf" where
  "leaf u d = \<lparr>leaf_Index = 0, leaf_UserID = u, leaf_DeviceID = d, leaf_PublicKey = ''k'' @ d\<rparr>"

theorem mls_tree_canonical_witness:
  "BuildMLSTree ''g'' 3 [leaf ''u1'' ''d1'', leaf ''u2'' ''d2''] = BuildMLSTree ''g'' 3 [leaf ''u2'' ''d2'', leaf ''u1'' ''d1'']"
proof -
  have "distinct (map (\<lambda>l. (trim_space (leaf_UserID l), trim_space (leaf_DeviceID l))) [leaf ''u1'' ''d1'', leaf ''u2'' ''d2''])"
    by code_simp
  from mls_tree_canonical [OF _ this, of "[leaf ''u2'' ''d2'', leaf ''u1'' ''d1'']"] show ?thesis
    by (simp add: add_mset_commute)
qed

definition indexed :: "TreeLeaf list \<Rightarrow> TreeLeaf list" where
  "indexed ls = map (\<lambda>(i, l). l\<lparr>leaf_Index := int i\<rparr>) (enumerate 0 ls)"

lemma indexed_index: "map leaf_Index (indexed ls) = map int [0..<length ls]"
  by (rule nth_equalityI) (simp_all add: indexed_def nth_enumerate_eq split_def)

lemma members_build:
  "GetGroupMembers (BuildMLSTree g e leaves) = indexed (sort_key leaf_key (map clone_leaf leaves))"
proof -
  let ?ls = "sort_key leaf_key (map clone_leaf leaves)"
  have "map snd (Leaves (BuildMLSTree g e leaves)) = indexed ?ls"
    by (simp add: BuildMLSTree_def Let_def indexed_def split_def o_def)
  moreover have "sorted (map leaf_Index (indexed ?ls))"
    unfolding indexed_index by (simp add: sorted_map sorted_wrt_mono_rel [OF _ sorted_upt])
  ultimately show ?thesis by (simp add: GetGroupMembers_def sort_key_id_if_sorted)
qed

lemma indexed_keys: "map leaf_key (indexed ls) = map leaf_key ls"
  by (rule nth_equalityI) (simp_all add: indexed_def nth_enumerate_eq split_def leaf_key_def)

section \<open>Storing trees\<close>

lemma insert_leaves_ok:
  assumes "distinct (map leaf_key ls)" and "\<forall>r \<in> set (leaf_rows T). lr_group_id r = g \<longrightarrow> (lr_user_id r, lr_device_id r) \<notin> leaf_key ` set ls"
    and "\<forall>l \<in> set ls. fits_int4 (leaf_Index l)" "fits_int4 gen"
  shows "insert_leaves g gen ls T = (Inr (), T\<lparr>leaf_rows := leaf_rows T @ map (leaf_row g gen) ls\<rparr>)"
  using assms
proof (induction ls arbitrary: T)
  case (Cons l ls)
  have new: "\<not> list_ex (\<lambda>r. leaf_row_key r = leaf_row_key (leaf_row g gen l)) (leaf_rows T)"
    using Cons.prems(2) by (auto simp: list_ex_iff leaf_row_key_def leaf_row_def leaf_key_def)
  have "insert_leaves g gen ls (T\<lparr>leaf_rows := leaf_rows T @ [leaf_row g gen l]\<rparr>) =
     (Inr (), T\<lparr>leaf_rows := (leaf_rows T @ [leaf_row g gen l]) @ map (leaf_row g gen) ls\<rparr>)"
    using Cons.prems Cons.IH [of "T\<lparr>leaf_rows := leaf_rows T @ [leaf_row g gen l]\<rparr>"]
    by (auto simp: leaf_row_def leaf_key_def)
  then show ?case using Cons.prems(3,4) new by (simp add: Let_def)
qed simp

text \<open>The tree built from distinct leaves of a group is stored, and what is read back is the tree
  without its leaves, and the leaves in order without their keys; other groups' rows are kept.\<close>

theorem mls_persist_roundtrip:
  assumes "distinct (map (\<lambda>l. (trim_space (leaf_UserID l), trim_space (leaf_DeviceID l))) leaves)"
    and "length leaves < 2 ^ 31" and "fits_int4 e"
  shows "\<exists>T'. PersistConversationMLSTree (Some (BuildMLSTree g e leaves)) T = (Inr (), T')
     \<and> LoadRatchetTree T' g = Some ((BuildMLSTree g e leaves)\<lparr>Leaves := []\<rparr>)
     \<and> LoadMemberLeaves T' g = map (\<lambda>l. l\<lparr>leaf_PublicKey := []\<rparr>) (GetGroupMembers (BuildMLSTree g e leaves))
     \<and> (\<forall>h. h \<noteq> g \<longrightarrow> LoadRatchetTree T' h = LoadRatchetTree T h \<and> LoadMemberLeaves T' h = LoadMemberLeaves T h)"
proof -
  let ?t = "BuildMLSTree g e leaves" and ?ls = "sort_key leaf_key (map clone_leaf leaves)"
  define gen where "gen = (if e \<le> 0 then 1 else e)"
  obtain b where t: "?t = \<lparr>GroupID = g, Generation = gen, Epoch = e, TreeBytes = Some b, Leaves = Leaves ?t\<rparr>"
    by (simp add: BuildMLSTree_def Let_def gen_def)
  have sel: "GroupID ?t = g" "Generation ?t = gen" "TreeBytes ?t = Some b" "Epoch ?t = e"
    by (subst t, simp)+
  have tl: "?t\<lparr>Leaves := []\<rparr> = \<lparr>GroupID = g, Generation = gen, Epoch = e, TreeBytes = Some b, Leaves = []\<rparr>"
    by (subst t) simp
  have fit: "fits_int4 gen" "fits_int4 (Epoch ?t)" using assms(3) sel by (auto simp: fits_int4_def gen_def)
  let ?m = "indexed ?ls"
  let ?T1 = "T\<lparr>leaf_rows := filter (\<lambda>r. lr_group_id r \<noteq> g) (leaf_rows T)\<rparr>"
  let ?T2 = "?T1\<lparr>leaf_rows := leaf_rows ?T1 @ map (leaf_row g gen) ?m\<rparr>"
  have "distinct (map leaf_key (map clone_leaf leaves))" using assms(1) by (simp add: o_def clone_key)
  then have dk: "distinct (map leaf_key ?m)"
    unfolding indexed_keys by (metis distinct_map distinct_sort set_sort)
  have si: "set (map leaf_Index ?m) = int ` {0..<length leaves}" unfolding indexed_index by simp
  have li: "\<forall>l \<in> set ?m. fits_int4 (leaf_Index l)"
  proof
    fix l assume "l \<in> set ?m"
    then have "leaf_Index l \<in> int ` {0..<length leaves}" unfolding si [symmetric] by simp
    then show "fits_int4 (leaf_Index l)" using assms(2) by (auto simp: fits_int4_def)
  qed
  have ins: "insert_leaves g gen ?m ?T1 = (Inr (), ?T2)"
    by (rule insert_leaves_ok [OF dk _ li fit(1)]) simp
  let ?T3 = "?T2\<lparr>tree_rows := AList.update g \<lparr>tr_generation = gen, tr_tree_bytes = b, tr_epoch = e\<rparr> (tree_rows ?T2)\<rparr>"
  have "PersistConversationMLSTree (Some ?t) T = (Inr (), ?T3)"
    using fit by (simp add: PersistConversationMLSTree_def Let_def sel members_build ins SaveRatchetTree_def)
  moreover have "LoadRatchetTree ?T3 g = Some (?t\<lparr>Leaves := []\<rparr>)"
    unfolding LoadRatchetTree_def tl by (simp add: update_conv)
  moreover have "LoadMemberLeaves ?T3 g = map (\<lambda>l. l\<lparr>leaf_PublicKey := []\<rparr>) (GetGroupMembers ?t)"
  proof -
    have "filter (\<lambda>r. lr_group_id r = g) (map (leaf_row g gen) ?m) = map (leaf_row g gen) ?m"
      by (intro filter_True) (simp add: leaf_row_def)
    moreover have "sorted (map lr_leaf_index (map (leaf_row g gen) ?m))"
      using indexed_index [of ?ls] by (simp add: o_def leaf_row_def sorted_map sorted_wrt_mono_rel [OF _ sorted_upt])
    ultimately show ?thesis
      by (simp add: LoadMemberLeaves_def members_build sort_key_id_if_sorted leaf_row_def)
  qed
  moreover have "LoadRatchetTree ?T3 h = LoadRatchetTree T h \<and> LoadMemberLeaves ?T3 h = LoadMemberLeaves T h"
    if "h \<noteq> g" for h
  proof -
    have "filter (\<lambda>r. lr_group_id r = h) (leaf_rows ?T3) = filter (\<lambda>r. lr_group_id r = h) (leaf_rows T)"
      using that by (simp add: leaf_row_def filter_empty_conv) (metis (mono_tags, lifting))
    then show ?thesis using that by (simp add: LoadRatchetTree_def LoadMemberLeaves_def update_conv)
  qed
  ultimately show ?thesis by blast
qed

definition no_mls :: mlsTables where
  "no_mls = \<lparr>leaf_rows = [], tree_rows = [], epoch_rows = [], session_rows = [], change_rows = []\<rparr>"

theorem mls_persist_roundtrip_witness:
  "\<exists>T'. PersistConversationMLSTree (Some (BuildMLSTree ''g'' 3 [leaf ''u2'' ''d2'', leaf ''u1'' ''d1''])) no_mls = (Inr (), T')
     \<and> length (LoadMemberLeaves T' ''g'') = 2"
proof -
  let ?ls = "[leaf ''u2'' ''d2'', leaf ''u1'' ''d1'']"
  have d: "distinct (map (\<lambda>l. (trim_space (leaf_UserID l), trim_space (leaf_DeviceID l))) ?ls)" by code_simp
  have "length (indexed (sort_key leaf_key (map clone_leaf ?ls))) = 2" by (simp add: indexed_def)
  then show ?thesis using mls_persist_roundtrip [OF d, of 3 "''g''" no_mls]
    by (auto simp: members_build fits_int4_def)
qed

section \<open>Members\<close>

definition tree_wf :: "MLSRatchetTree \<Rightarrow> bool" where
  "tree_wf t \<longleftrightarrow> distinct (map fst (Leaves t)) \<and> list_all (\<lambda>(i, l). leaf_Index l = i \<and> 0 \<le> i \<and> i < 2 ^ 62) (Leaves t)"

lemma max_index_bounds:
  fixes a :: int
  shows "0 \<le> a \<Longrightarrow> (\<forall>(i, l) \<in> set ls. i \<le> foldl (\<lambda>m (i, l). if i > m then i else m) a ls)
    \<and> a \<le> foldl (\<lambda>m (i, l). if i > m then i else m) a ls
    \<and> (foldl (\<lambda>m (i, l). if i > m then i else m) a ls = a \<or> foldl (\<lambda>m (i, l). if i > m then i else m) a ls \<in> fst ` set ls)"
proof (induction ls arbitrary: a)
  case (Cons x ls)
  obtain i l where x: "x = (i, l)" by (cases x)
  define a' where "a' = (if i > a then i else a)"
  have a': "0 \<le> a'" "a \<le> a'" "i \<le> a'" using Cons.prems by (auto simp: a'_def)
  show ?case using Cons.IH [OF a'(1)] a' unfolding x foldl.simps prod.case a'_def [symmetric]
    by (force simp: a'_def)
qed simp

lemma max_index_wf:
  assumes "tree_wf t"
  shows "\<forall>(i, l) \<in> set (Leaves t). i \<le> max_index (Leaves t)" "0 \<le> max_index (Leaves t)" "max_index (Leaves t) < 2 ^ 62"
proof -
  note m = max_index_bounds [of 0 "Leaves t", folded max_index_def, simplified]
  show "\<forall>(i, l) \<in> set (Leaves t). i \<le> max_index (Leaves t)" "0 \<le> max_index (Leaves t)" using m by auto
  show "max_index (Leaves t) < 2 ^ 62"
    using m assms by (auto simp: tree_wf_def list_all_iff)
qed

text \<open>Adding a device gives it a fresh index past all others, after all other members, and leaves
  them as they are; removing it again gives back the leaves there were, with the generation two
  further and the epoch one further.\<close>

theorem member_add_remove:
  assumes wf: "tree_wf t" and new: "\<forall>m \<in> set (GetGroupMembers t). leaf_key m \<noteq> leaf_key l"
    and add: "AddMember l t = (i, t')"
    and "0 \<le> Generation t" "Generation t < 2 ^ 62" "0 \<le> Epoch t" "Epoch t < 2 ^ 62"
  shows "GetGroupMembers t' = GetGroupMembers t @ [l\<lparr>leaf_Index := i\<rparr>] \<and> Generation t' = Generation t + 1 \<and> Epoch t' = Epoch t
     \<and> RemoveMember (leaf_UserID l) (leaf_DeviceID l) t' = (Inr (), t\<lparr>Generation := Generation t + 2, Epoch := Epoch t + 1\<rparr>)"
proof -
  note m = max_index_wf [OF wf]
  have i: "i = max_index (Leaves t) + 1" using add m by (auto simp: AddMember_def Let_def)
  have fresh: "i \<notin> fst ` set (Leaves t)" using m(1) by (auto simp: i)
  have t': "t' = t\<lparr>Leaves := Leaves t @ [(i, l\<lparr>leaf_Index := i\<rparr>)], Generation := Generation t + 1\<rparr>"
    using add assms(4,5) update_new [OF fresh] m by (auto simp: AddMember_def Let_def i)
  have last: "\<forall>x \<in> set (map snd (Leaves t)). leaf_Index x \<le> i"
    using m(1) wf by (fastforce simp: i tree_wf_def list_all_iff)
  have "sort_key leaf_Index (map snd (Leaves t) @ [l\<lparr>leaf_Index := i\<rparr>]) = sort_key leaf_Index (map snd (Leaves t)) @ [l\<lparr>leaf_Index := i\<rparr>]"
  proof (rule properties_for_sort_key)
    show "sorted (map leaf_Index (sort_key leaf_Index (map snd (Leaves t)) @ [l\<lparr>leaf_Index := i\<rparr>]))"
      using last by (auto simp: sorted_append)
    fix x
    show "filter (\<lambda>y. leaf_Index x = leaf_Index y) (sort_key leaf_Index (map snd (Leaves t)) @ [l\<lparr>leaf_Index := i\<rparr>])
        = filter (\<lambda>y. leaf_Index x = leaf_Index y) (map snd (Leaves t) @ [l\<lparr>leaf_Index := i\<rparr>])"
      using sort_key_stable [of leaf_Index "leaf_Index x" "map snd (Leaves t)"] by (simp add: eq_commute)
  qed simp
  then have mem: "GetGroupMembers t' = GetGroupMembers t @ [l\<lparr>leaf_Index := i\<rparr>]"
    by (simp add: GetGroupMembers_def t')
  have none: "find (\<lambda>(j, x). leaf_UserID x = leaf_UserID l \<and> leaf_DeviceID x = leaf_DeviceID l) (Leaves t) = None"
    using new by (fastforce simp: find_None_iff GetGroupMembers_def leaf_key_def)
  have snoc: "find P (xs @ [x]) = (if P x then Some x else None)" if "find P xs = None" for P xs and x :: "int \<times> TreeLeaf"
    using that by (induction xs) (auto split: if_splits)
  have found: "find (\<lambda>(j, x). leaf_UserID x = leaf_UserID l \<and> leaf_DeviceID x = leaf_DeviceID l) (Leaves t')
      = Some (i, l\<lparr>leaf_Index := i\<rparr>)"
    unfolding t' by (simp add: snoc [OF none])
  have del: "AList.delete i (Leaves t @ [(i, l\<lparr>leaf_Index := i\<rparr>)]) = Leaves t"
    using fresh by (force simp: AList.delete_eq intro!: filter_True)
  have "RemoveMember (leaf_UserID l) (leaf_DeviceID l) t' = (Inr (), t\<lparr>Generation := Generation t + 2, Epoch := Epoch t + 1\<rparr>)"
    unfolding RemoveMember_def found using assms(4-7) del by (simp add: t')
  then show ?thesis using mem t' by simp
qed

theorem member_add_remove_witness:
  "let t = snd (AddMember (leaf ''u1'' ''d1'') (NewMLSRatchetTree ''g''))
   in Leaves (snd (RemoveMember ''u2'' ''d2'' (snd (AddMember (leaf ''u2'' ''d2'') t)))) = Leaves t"
proof -
  let ?t = "snd (AddMember (leaf ''u1'' ''d1'') (NewMLSRatchetTree ''g''))"
  have f: "tree_wf ?t" "\<forall>m \<in> set (GetGroupMembers ?t). leaf_key m \<noteq> leaf_key (leaf ''u2'' ''d2'')"
    "Generation ?t = 1" "Epoch ?t = 0" by code_simp+
  have "AddMember (leaf ''u2'' ''d2'') ?t = (fst (AddMember (leaf ''u2'' ''d2'') ?t), snd (AddMember (leaf ''u2'' ''d2'') ?t))"
    by simp
  from member_add_remove [OF f(1,2) this] f(3,4) show ?thesis by (simp add: Let_def leaf_def)
qed

section \<open>Group encryption\<close>

lemma wrap_for_mem:
  "wrap_for C rnd pk dr ds = Inr rs \<Longrightarrow> r \<in> set rs \<Longrightarrow>
     \<exists>key. (rk_UserID r, rk_DeviceID r) \<in> set ds \<and> pk (rk_UserID r, rk_DeviceID r) = Some key
       \<and> GenerateRecipientWrappedKey C (g_eph rnd (rk_UserID r, rk_DeviceID r)) (g_wrap_nonce rnd (rk_UserID r, rk_DeviceID r))
           key (Some dr) = Inr (rk_WrappedKey r, rk_WrappedKeyNonce r)"
proof (induction C rnd pk dr ds arbitrary: rs rule: wrap_for.induct)
  case (2 C rnd pk dr u d ds)
  show ?case
  proof (cases "pk (u, d)")
    case None
    then show ?thesis using 2 by auto
  next
    case (Some key)
    then obtain w n rest where w: "GenerateRecipientWrappedKey C (g_eph rnd (u, d)) (g_wrap_nonce rnd (u, d)) key (Some dr) = Inr (w, n)"
      and rest: "wrap_for C rnd pk dr ds = Inr rest"
      and rs: "rs = \<lparr>rk_UserID = u, rk_DeviceID = d, rk_WrappedKey = w, rk_WrappedKeyNonce = n\<rparr> # rest"
      using 2(3) by auto
    show ?thesis
    proof (cases "r \<in> set rest")
      case True
      then show ?thesis using 2(2) [OF Some rest] w by fastforce
    next
      case False
      then show ?thesis using 2(4) rs w Some by auto
    qed
  qed
qed simp


definition toy_members :: mlsTables where
  "toy_members = no_mls\<lparr>leaf_rows := [leaf_row ''g'' 1 (leaf ''u1'' ''d1'')]\<rparr>"

definition toy_random :: groupRandom where
  "toy_random = \<lparr>g_key = toy_key (CHR ''k''), g_nonce = ''nnnnnnnnnnnn'', g_seal_nonce = ''ssssssssssss'',
     g_eph = (\<lambda>x. toy_key (CHR ''e'')), g_wrap_nonce = (\<lambda>x. ''wwwwwwwwwwww'')\<rparr>"


section \<open>Recipient lists\<close>

lemma recipient_key_inj:
  assumes "CHR '':'' \<notin> set u" "CHR '':'' \<notin> set u'"
  shows "recipient_key u d = recipient_key u' d' \<longleftrightarrow> u = u' \<and> d = d'"
proof
  assume eq: "recipient_key u d = recipient_key u' d'"
  have t: "takeWhile (\<lambda>c. c \<noteq> CHR '':'') (recipient_key v e) = v" if "CHR '':'' \<notin> set v" for v e
    using that unfolding recipient_key_def by (subst takeWhile_append2) auto
  have "u = u'" using arg_cong [OF eq, of "takeWhile (\<lambda>c. c \<noteq> CHR '':'')"] t assms by simp
  then show "u = u' \<and> d = d'" using eq by (simp add: recipient_key_def)
qed simp

lemma distinct_mset_eq:
  assumes "distinct xs" and "set xs \<subseteq> set ys" and "length xs = length ys"
  shows "mset ys = mset xs"
proof -
  have "mset xs \<subseteq># mset ys"
    unfolding subseteq_mset_def
  proof
    fix a
    show "count (mset xs) a \<le> count (mset ys) a"
      using assms(1,2) by (cases "a \<in> set xs") (auto simp: distinct_count_atmost_1 Suc_le_eq count_greater_zero_iff)
  qed
  then show ?thesis using assms(3) by (metis mset_subset_size nless_le size_mset subset_mset.le_less)
qed

text \<open>A list of recipients is accepted exactly when it is the group's member devices, each once.\<close>

theorem validate_recipients_exact:
  assumes "distinct (map lr_device_id (filter (\<lambda>r. lr_group_id r = g) (leaf_rows T)))"
    and "\<forall>r \<in> set (leaf_rows T). CHR '':'' \<notin> set (lr_user_id r)" and "\<forall>r \<in> set rs. CHR '':'' \<notin> set (rk_UserID r)"
  shows "ValidateRecipientList T g rs = Inr () \<longleftrightarrow>
    mset (map (\<lambda>r. (rk_UserID r, rk_DeviceID r)) rs)
      = mset (map (\<lambda>r. (lr_user_id r, lr_device_id r)) (filter (\<lambda>r. lr_group_id r = g) (leaf_rows T)))"
proof -
  define leaves where "leaves = filter (\<lambda>r. lr_group_id r = g) (leaf_rows T)"
  let ?R = "map (\<lambda>r. (rk_UserID r, rk_DeviceID r)) rs" and ?L = "map (\<lambda>r. (lr_user_id r, lr_device_id r)) leaves"
  have count: "card (set (map lr_device_id leaves)) = length leaves"
    using distinct_card [OF assms(1)] by (simp add: leaves_def)
  have "distinct (map snd ?L)" using assms(1) by (simp add: leaves_def o_def)
  then have dl: "distinct ?L" unfolding distinct_map by blast
  have mem: "recipient_key (lr_user_id l) (lr_device_id l) \<in> set (map (\<lambda>r. recipient_key (rk_UserID r) (rk_DeviceID r)) rs)
      \<longleftrightarrow> (lr_user_id l, lr_device_id l) \<in> set ?R" if "l \<in> set leaves" for l
    using that assms(2,3) recipient_key_inj by (auto simp: leaves_def image_iff)
  have sub: "set ?L \<subseteq> set ?R \<longleftrightarrow> (\<forall>l \<in> set leaves. (lr_user_id l, lr_device_id l) \<in> set ?R)"
    by (simp only: set_map [of "\<lambda>r. (lr_user_id r, lr_device_id r)"] image_subset_iff)
  have "ValidateRecipientList T g rs = Inr () \<longleftrightarrow> length rs = length leaves \<and> set ?L \<subseteq> set ?R"
    unfolding ValidateRecipientList_def Let_def leaves_def [symmetric] count sub
    by (simp add: list_all_iff mem del: set_map cong: ball_cong)
  also have "\<dots> \<longleftrightarrow> mset ?R = mset ?L"
  proof
    assume "length rs = length leaves \<and> set ?L \<subseteq> set ?R"
    then show "mset ?R = mset ?L" using distinct_mset_eq [OF dl, of ?R] by simp
  next
    assume eq: "mset ?R = mset ?L"
    show "length rs = length leaves \<and> set ?L \<subseteq> set ?R"
      using mset_eq_length [OF eq] mset_eq_setD [OF eq] by simp
  qed
  finally show ?thesis unfolding leaves_def .
qed

theorem validate_recipients_exact_witness:
  "ValidateRecipientList toy_members ''g'' [\<lparr>rk_UserID = ''u1'', rk_DeviceID = ''d1'', rk_WrappedKey = [], rk_WrappedKeyNonce = []\<rparr>] = Inr ()"
proof -
  let ?rs = "[\<lparr>rk_UserID = ''u1'', rk_DeviceID = ''d1'', rk_WrappedKey = [], rk_WrappedKeyNonce = []\<rparr>]"
  have rows: "leaf_rows toy_members = [leaf_row ''g'' 1 (leaf ''u1'' ''d1'')]" by (simp add: toy_members_def)
  have "ValidateRecipientList toy_members ''g'' ?rs = Inr () \<longleftrightarrow>
    mset (map (\<lambda>r. (rk_UserID r, rk_DeviceID r)) ?rs)
      = mset (map (\<lambda>r. (lr_user_id r, lr_device_id r)) (filter (\<lambda>r. lr_group_id r = ''g'') (leaf_rows toy_members)))"
    by (rule validate_recipients_exact) (simp_all add: rows leaf_row_def leaf_def)
  then show ?thesis by (simp add: rows leaf_row_def leaf_def)
qed

end
