(* ===== verification/MiniappManifest.thy ===== *)
theory MiniappManifest
  imports Manifest Base64 Crypto
begin

text \<open>
  Manifests as the gateway reads them (\<open>gateway/internal/miniapp/service.go\<close>).  The rules differ from
  those of the apps service: fields are not trimmed, preview and icon URLs are checked, and the
  platform's signature is checked when a key is configured.  Where a name of the apps service
  occurs again, the gateway's definition has the suffix \<open>_gw\<close>.
\<close>

datatype miniError =
    ManifestRequired | ManifestInvalid string | ManifestSignatureRequired | ManifestSignatureInvalid
  | ManifestNotFound | AppInstallNotFound | SessionNotFound | SessionEnded | StateVersionConflict
  | BridgeMethodNotAllowed | BridgeMethodRateLimited | ReleaseSuspended | ReleaseRevoked
  | PreviewURLInvalid | IconURLInvalid | MiniAppUnsupported | MiniAppConsent
  | PlainError string | MiniDbError

definition stringField_gw :: "manifest \<Rightarrow> string \<Rightarrow> string" where
  "stringField_gw m key = (case as_str (map_of m key) of None \<Rightarrow> [] | Some v \<Rightarrow> v)"

definition nonEmptyStringField :: "manifest \<Rightarrow> string \<Rightarrow> bool" where
  "nonEmptyStringField m key \<longleftrightarrow> stringField_gw m key \<noteq> []"

definition stringSliceFieldPresent :: "manifest \<Rightarrow> string \<Rightarrow> bool" where
  "stringSliceFieldPresent m key \<longleftrightarrow> as_arr (map_of m key) \<noteq> None"

section \<open>Preview and icon URLs\<close>

definition inferMimeType :: "string \<Rightarrow> string" where
  "inferMimeType rawURL =
     (let lower = to_lower rawURL in
      if has_suffix lower ''.png'' then ''image/png''
      else if has_suffix lower ''.jpg'' \<or> has_suffix lower ''.jpeg'' then ''image/jpeg''
      else if has_suffix lower ''.webp'' then ''image/webp''
      else if has_suffix lower ''.gif'' then ''image/gif''
      else if has_suffix lower ''.svg'' then ''image/svg+xml''
      else [])"

definition allowedImageMimeTypes :: "string list" where
  "allowedImageMimeTypes = [''image/png'', ''image/jpeg'', ''image/webp'', ''image/svg+xml'', ''image/gif'']"

definition isImageMimeType :: "string \<Rightarrow> bool" where
  "isImageMimeType mimeType \<longleftrightarrow> to_lower mimeType \<in> set allowedImageMimeTypes"

definition isLocalhost :: "string \<Rightarrow> bool" where
  "isLocalhost host \<longleftrightarrow> host = ''localhost'' \<or> has_prefix host ''localhost:''"

text \<open>The error, \<open>None\<close> for \<open>nil\<close>.\<close>

definition validatePreviewURL :: "string \<Rightarrow> string \<Rightarrow> string \<Rightarrow> miniError option" where
  "validatePreviewURL previewURL entrypointURL previewType =
     (case url_parse previewURL of
        None \<Rightarrow> Some PreviewURLInvalid
      | Some parsedPreview \<Rightarrow>
          (case url_parse entrypointURL of
             None \<Rightarrow> Some PreviewURLInvalid
           | Some parsedEntrypoint \<Rightarrow>
               if previewType = ''static_image'' \<and> \<not> isImageMimeType (inferMimeType previewURL)
               then Some PreviewURLInvalid
               else if \<not> isLocalhost (url_hostname parsedEntrypoint)
                       \<and> url_hostname parsedPreview \<noteq> url_hostname parsedEntrypoint
               then Some PreviewURLInvalid
               else None))"

fun validate_icons :: "url \<Rightarrow> json list \<Rightarrow> miniError option" where
  "validate_icons parsedEntrypoint [] = None"
| "validate_icons parsedEntrypoint (icon # icons) =
     (case as_obj (Some icon) of
        None \<Rightarrow> validate_icons parsedEntrypoint icons
      | Some iconMap \<Rightarrow>
          (let iconURL = stringField_gw iconMap ''url'' in
           if iconURL = [] then validate_icons parsedEntrypoint icons
           else case url_parse iconURL of
             None \<Rightarrow> Some IconURLInvalid
           | Some parsedIcon \<Rightarrow>
               (let ty = stringField_gw iconMap ''type'';
                    mimeType = (if ty = [] then inferMimeType iconURL else ty)
                in if \<not> isImageMimeType mimeType then Some IconURLInvalid
                   else if \<not> isLocalhost (url_hostname parsedEntrypoint)
                           \<and> url_hostname parsedIcon \<noteq> url_hostname parsedEntrypoint
                   then Some IconURLInvalid
                   else validate_icons parsedEntrypoint icons)))"

definition validateIconURLs :: "json list \<Rightarrow> string \<Rightarrow> miniError option" where
  "validateIconURLs icons entrypointURL =
     (if icons = [] then None
      else case url_parse entrypointURL of
        None \<Rightarrow> Some IconURLInvalid
      | Some parsedEntrypoint \<Rightarrow> validate_icons parsedEntrypoint icons)"

section \<open>Signatures\<close>

record manifestSignature_gw =
  sig_Alg :: string
  sig_KID :: string
  sig_Sig :: string

definition manifestSignatureFromMap :: "manifest \<Rightarrow> miniError + manifestSignature_gw" where
  "manifestSignatureFromMap mmap =
     (case map_of mmap ''signature'' of
        None \<Rightarrow> Inl ManifestSignatureRequired
      | Some rawSignature \<Rightarrow>
          if rawSignature = JNull then Inl ManifestSignatureRequired
          else case as_obj (Some rawSignature) of
            None \<Rightarrow> Inl (ManifestInvalid ''signature object required'')
          | Some sigMap \<Rightarrow>
              (let sig = \<lparr>sig_Alg = stringField_gw sigMap ''alg'', sig_KID = stringField_gw sigMap ''kid'',
                          sig_Sig = stringField_gw sigMap ''sig''\<rparr>
               in if sig_Alg sig = [] \<or> sig_KID sig = [] \<or> sig_Sig sig = []
                  then Inl (ManifestInvalid ''signature.alg, signature.kid, and signature.sig are required'')
                  else Inr sig))"

text \<open>The platform's public key, and the checks of \<open>crypto/rsa\<close> and \<open>crypto/ed25519\<close>.\<close>

datatype platformKey = RsaKey string | Ed25519Key string

record signatureChecks =
  rsa_verify :: "string \<Rightarrow> string \<Rightarrow> string \<Rightarrow> bool"
  ed25519_verify :: "string \<Rightarrow> string \<Rightarrow> string \<Rightarrow> bool"
  sha256_sum :: "string \<Rightarrow> string"

definition verifyManifestSignature :: "signatureChecks \<Rightarrow> platformKey \<Rightarrow> manifest \<Rightarrow> bool" where
  "verifyManifestSignature S publicKey mmap =
     (case manifestSignatureFromMap mmap of
        Inl _ \<Rightarrow> False
      | Inr signature \<Rightarrow>
          (let payload = marshal (JObj (filter (\<lambda>(k, v). k \<noteq> ''signature'') mmap)) in
           case b64_decode (sig_Sig signature) of
             None \<Rightarrow> False
           | Some sigBytes \<Rightarrow>
               if sig_Alg signature = ''RS256'' then
                 (case publicKey of RsaKey k \<Rightarrow> rsa_verify S k (sha256_sum S payload) sigBytes | _ \<Rightarrow> False)
               else if sig_Alg signature = ''Ed25519'' \<or> sig_Alg signature = ''EdDSA'' then
                 (case publicKey of Ed25519Key k \<Rightarrow> ed25519_verify S k payload sigBytes | _ \<Rightarrow> False)
               else False))"

section \<open>Validation\<close>

definition validateManifest_gw :: "manifest \<Rightarrow> miniError option" where
  "validateManifest_gw mmap =
     (if mmap = [] then Some ManifestRequired
      else if \<not> nonEmptyStringField mmap ''app_id'' then Some (ManifestInvalid ''app_id required'')
      else if \<not> nonEmptyStringField mmap ''name'' then Some (ManifestInvalid ''name required'')
      else if map_of mmap ''manifest_version'' \<noteq> None \<and> \<not> nonEmptyStringField mmap ''manifest_version''
        then Some (ManifestInvalid ''manifest_version must be a string'')
      else if \<not> (case as_str (map_of mmap ''version'') of None \<Rightarrow> False | Some v \<Rightarrow> semverPattern v)
        then Some (ManifestInvalid ''version must be semver'')
      else case as_obj (map_of mmap ''entrypoint'') of
        None \<Rightarrow> Some (ManifestInvalid ''entrypoint object required'')
      | Some entrypoint \<Rightarrow>
          (let entryType = stringField_gw entrypoint ''type'' in
           if entryType \<notin> set [''url'', ''inline'', ''web_bundle'']
             then Some (ManifestInvalid ''entrypoint.type invalid'')
           else if \<not> nonEmptyStringField entrypoint ''url''
             then Some (ManifestInvalid ''entrypoint.url required'')
           else case as_obj (map_of mmap ''message_preview'') of
             None \<Rightarrow> Some (ManifestInvalid ''message_preview object required'')
           | Some messagePreview \<Rightarrow>
               (let previewType = stringField_gw messagePreview ''type'';
                    fitMode = stringField_gw messagePreview ''fit_mode'';
                    entrypointURL = stringField_gw entrypoint ''url'' in
                if previewType \<noteq> ''static_image'' \<and> previewType \<noteq> ''live''
                  then Some (ManifestInvalid ''message_preview.type invalid'')
                else if \<not> nonEmptyStringField messagePreview ''url''
                  then Some (ManifestInvalid ''message_preview.url required'')
                else if fitMode \<noteq> [] \<and> fitMode \<noteq> ''scale'' \<and> fitMode \<noteq> ''crop''
                  then Some (ManifestInvalid ''message_preview.fit_mode invalid'')
                else case validatePreviewURL (stringField_gw messagePreview ''url'') entrypointURL previewType of
                  Some e \<Rightarrow> Some e
                | None \<Rightarrow>
                (case (case as_arr (map_of mmap ''icons'') of
                         None \<Rightarrow> None
                       | Some iconArray \<Rightarrow> validateIconURLs iconArray entrypointURL) of
                  Some e \<Rightarrow> Some e
                | None \<Rightarrow>
                if \<not> stringSliceFieldPresent mmap ''permissions''
                  then Some (ManifestInvalid ''permissions array required'')
                else if as_obj (map_of mmap ''capabilities'') = None
                  then Some (ManifestInvalid ''capabilities object required'')
                else case map_of mmap ''signature'' of
                  None \<Rightarrow> None
                | Some JNull \<Rightarrow> None
                | Some _ \<Rightarrow> (case manifestSignatureFromMap mmap of Inl e \<Rightarrow> Some e | Inr _ \<Rightarrow> None)))))"

section \<open>Derived values\<close>

definition manifestHashHex :: "signatureChecks \<Rightarrow> string \<Rightarrow> string" where
  "manifestHashHex S payload = hex_encode (sha256_sum S payload)"

definition manifestOriginFromURL :: "string \<Rightarrow> string" where
  "manifestOriginFromURL raw =
     (if trim_space raw = [] then []
      else case url_parse raw of
        None \<Rightarrow> []
      | Some parsed \<Rightarrow> if Scheme parsed = [] \<or> Host parsed = [] then []
                      else Scheme parsed @ ''://'' @ Host parsed)"

definition manifestSourceType_gw :: "manifest \<Rightarrow> string" where
  "manifestSourceType_gw manifest =
     (if map_of (obj_or_nil (map_of manifest ''metadata'')) ''registry_hosted'' = Some (JBool True) then ''registry''
      else let entrypoint = obj_or_nil (map_of manifest ''entrypoint'');
               origin = manifestOriginFromURL (stringField_gw entrypoint ''url'')
           in if has_prefix origin ''http://localhost:'' \<or> has_prefix origin ''http://127.0.0.1:''
                 \<or> has_prefix origin ''https://localhost:'' \<or> has_prefix origin ''https://127.0.0.1:''
              then ''dev'' else ''external'')"

definition manifestVisibility_gw :: "manifest \<Rightarrow> string" where
  "manifestVisibility_gw manifest =
     (let v = to_lower (trim_space (stringField_gw (obj_or_nil (map_of manifest ''metadata'')) ''visibility''))
      in if v = [] \<or> v = ''public'' then ''public'' else if v = ''private'' then ''private'' else ''public'')"

definition permissionsFromManifest :: "manifest \<Rightarrow> string list" where
  "permissionsFromManifest manifest =
     (let rawPermissions = (case as_arr (map_of manifest ''permissions'') of None \<Rightarrow> [] | Some vs \<Rightarrow> vs)
      in sort_compact (filter (\<lambda>s. s \<noteq> [])
           (map (\<lambda>v. case as_str (Some v) of None \<Rightarrow> [] | Some s \<Rightarrow> s) rawPermissions)))"

text \<open>What validation guarantees of a manifest's URLs: a preview is on the entrypoint's host.\<close>

lemma preview_host:
  assumes "validatePreviewURL previewURL entrypointURL previewType = None"
  shows "\<exists>p e. url_parse previewURL = Some p \<and> url_parse entrypointURL = Some e
    \<and> (isLocalhost (url_hostname e) \<or> url_hostname p = url_hostname e)"
  using assms by (auto simp: validatePreviewURL_def split: option.splits if_splits)

end
