(* ===== verification/Origins.thy ===== *)
theory Origins
  imports Json
begin

text \<open>
  Isolated origins of mini-app runtimes (\<open>gateway/internal/config/origins.go\<close>).  The hash is a
  parameter.  A subdomain longer than the digest's 64 hexadecimal digits makes the slice
  expression panic, which is the value \<open>None\<close>.
\<close>

record OriginConfig =
  AppOrigin :: string
  CSPHeader :: string
  AllowedCORSOrigins :: "string list"

definition GenerateAppOrigin :: "(string \<Rightarrow> string) \<Rightarrow> string \<Rightarrow> string \<Rightarrow> string \<Rightarrow> int \<Rightarrow> string option" where
  "GenerateAppOrigin sha256 appID releaseID baseDomain subdomainLen =
     (let n = nat (if subdomainLen \<le> 0 then 8 else subdomainLen);
          base = (if baseDomain = [] then ''miniapp.local'' else baseDomain);
          seed = trim_space appID @ '':'' @ trim_space releaseID;
          hashHex = hex_encode (sha256 seed)
      in if length hashHex < n then None else Some (take n hashHex @ ''.'' @ base))"

definition generateCSPHeader :: "string \<Rightarrow> string" where
  "generateCSPHeader appOrigin = (let none = [CHR 0x27] @ ''none'' @ [CHR 0x27]; self = [CHR 0x27] @ ''self'' @ [CHR 0x27] in
     ''default-src '' @ none @ ''; ''
     @ ''script-src '' @ self @ ''; ''
     @ ''style-src '' @ self @ '' '' @ [CHR 0x27] @ ''unsafe-inline'' @ [CHR 0x27] @ ''; ''
     @ ''img-src '' @ self @ '' data: https:; ''
     @ ''font-src '' @ self @ '' data:; ''
     @ ''connect-src '' @ self @ ''; ''
     @ ''frame-src '' @ none @ ''; ''
     @ ''object-src '' @ none @ ''; ''
     @ ''base-uri '' @ none @ ''; ''
     @ ''form-action '' @ none @ ''; ''
     @ ''frame-ancestors '' @ self @ ''; ''
     @ ''report-uri /-/csp-report'')"

definition GenerateOriginConfig :: "(string \<Rightarrow> string) \<Rightarrow> string \<Rightarrow> string \<Rightarrow> string \<Rightarrow> int \<Rightarrow> OriginConfig option" where
  "GenerateOriginConfig sha256 appID releaseID baseDomain subdomainLen =
     (let n = (if subdomainLen \<le> 0 then 8 else subdomainLen);
          base = (if baseDomain = [] then ''miniapp.local'' else baseDomain)
      in map_option (\<lambda>appOrigin. \<lparr>AppOrigin = appOrigin, CSPHeader = generateCSPHeader appOrigin,
             AllowedCORSOrigins = [appOrigin]\<rparr>)
           (GenerateAppOrigin sha256 appID releaseID base n))"

text \<open>The pattern \<open>^[a-f0-9]{8,}\.base$\<close>; the class excludes the dot, so the split is unique.\<close>

definition origin_digit :: "char \<Rightarrow> bool" where
  "origin_digit c \<longleftrightarrow> is_digit c \<or> (CHR ''a'' \<le> c \<and> c \<le> CHR ''f'')"

definition ValidateOrigin :: "string \<Rightarrow> string \<Rightarrow> bool" where
  "ValidateOrigin origin baseDomain =
     (let base = (if baseDomain = [] then ''miniapp.local'' else baseDomain);
          p = takeWhile origin_digit origin; r = dropWhile origin_digit origin
      in 8 \<le> length p \<and> r = ''.'' @ base)"

definition GetSameOriginCheckValue :: "string \<Rightarrow> string" where
  "GetSameOriginCheckValue appOrigin = appOrigin"

definition IsSameOriginRequestValid :: "string \<Rightarrow> string \<Rightarrow> bool" where
  "IsSameOriginRequestValid requestOrigin expectedOrigin \<longleftrightarrow> requestOrigin = expectedOrigin"

section \<open>Generated origins\<close>

lemma hex_digit_origin: "n < 16 \<Longrightarrow> origin_digit (hex_digit n)"
  by (auto simp: origin_digit_def hex_digit_def is_digit_def less_eq_char_def of_char_of)

lemma hex_encode_origin: "list_all origin_digit (hex_encode s)"
proof (induction s)
  case (Cons c s)
  have "(of_char c :: nat) < 256" using nat_of_char_less_256 by blast
  then have "(of_char c :: nat) div 16 < 16" by (simp add: less_mult_imp_div_less)
  then have "list_all origin_digit (hex_byte c)" by (simp add: hex_byte_def hex_digit_origin)
  then show ?case using Cons by (simp add: hex_encode_def)
qed (simp add: hex_encode_def)

lemma length_hex_encode [simp]: "length (hex_encode s) = 2 * length s"
  by (induction s) (simp_all add: hex_encode_def hex_byte_def)

text \<open>A generated origin passes the validation, whatever the apps' names.\<close>

lemma origin_valid:
  assumes "length (sha256 (trim_space appID @ '':'' @ trim_space releaseID)) = 32"
    and "n \<le> 0 \<or> 8 \<le> n" and "n \<le> 64"
  shows "\<exists>origin. GenerateAppOrigin sha256 appID releaseID base n = Some origin \<and> ValidateOrigin origin base"
proof -
  let ?h = "hex_encode (sha256 (trim_space appID @ '':'' @ trim_space releaseID))"
  let ?n = "nat (if n \<le> 0 then 8 else n)"
  let ?b = "if base = [] then ''miniapp.local'' else base"
  have "list_all origin_digit (take ?n ?h)" using hex_encode_origin [of "sha256 (trim_space appID @ '':'' @ trim_space releaseID)"]
    by (auto simp: list_all_iff dest: in_set_takeD)
  then have "takeWhile origin_digit (take ?n ?h @ ''.'' @ ?b) = take ?n ?h @ takeWhile origin_digit (''.'' @ ?b)"
    and "dropWhile origin_digit (take ?n ?h @ ''.'' @ ?b) = dropWhile origin_digit (''.'' @ ?b)"
    by (simp_all add: list_all_iff takeWhile_append2 dropWhile_append2)
  moreover have "\<not> origin_digit CHR ''.''" by (simp add: origin_digit_def is_digit_def less_eq_char_def)
  moreover have "8 \<le> length (take ?n ?h)" "\<not> length ?h < ?n" using assms by auto
  ultimately show ?thesis by (auto simp: GenerateAppOrigin_def ValidateOrigin_def Let_def)
qed

end
