(* ===== verification/ConversationTables.thy ===== *)
theory ConversationTables
  imports Http
begin

text \<open>
  The tables that the gateway's services share: users, devices, conversations and their members,
  messages, and the tables of the replication store (migrations 000001, 000002, 000006--000008,
  000022--000025, 000029--000031, 000034--000036, 000040, 000045, 000047--000049).  Every service works
  on an extension of the record \<open>convTables\<close>, so that an operation of one is seen by the others.
  Ids are canonical texts of UUIDs, chosen by the database and handed in; a statement whose text
  does not name the row a foreign key asks for fails.  Rows are appended at the end; where rows tie in
  an \<open>ORDER BY\<close>, the list's order stands for the one the database picks.
\<close>

section \<open>Slices\<close>

text \<open>A slice is \<open>None\<close> when it is nil: \<open>json.Marshal\<close> prints \<open>null\<close> for it.\<close>

type_synonym 'a slice = "'a list option"

definition elems :: "'a slice \<Rightarrow> 'a list" where
  "elems s = (case s of None \<Rightarrow> [] | Some xs \<Rightarrow> xs)"

text \<open>\<open>append([]T(nil), s...)\<close> is nil when there is nothing to append.\<close>

definition clone_slice :: "'a list \<Rightarrow> 'a slice" where
  "clone_slice xs = (if xs = [] then None else Some xs)"

lemma elems_simps [simp]: "elems None = []" "elems (Some xs) = xs" "elems (clone_slice xs) = xs"
  by (simp_all add: elems_def clone_slice_def)

definition strings_json :: "string slice \<Rightarrow> json" where
  "strings_json s = (case s of None \<Rightarrow> JNull | Some xs \<Rightarrow> JArr (map JStr xs))"

definition json_nat :: "nat \<Rightarrow> json" where
  "json_nat n = JNum (itoa n)"

text \<open>\<open>json.Marshal\<close> of an \<open>int64\<close>.\<close>

definition show_i64 :: "int \<Rightarrow> string" where
  "show_i64 i = (if i < 0 then CHR ''-'' # itoa (nat (- i)) else itoa (nat i))"

definition json_int :: "int \<Rightarrow> json" where
  "json_int i = JNum (show_i64 i)"

lemma json_int_nat: "0 \<le> i \<Longrightarrow> json_int i = json_nat (nat i)"
  by (simp add: json_int_def json_nat_def show_i64_def)

lemma atoi_show_i64:
  assumes "- (2 ^ 63) \<le> i" and "i < 2 ^ 63"
  shows "atoi (show_i64 i) = Some i"
proof (cases "i < 0")
  case True
  have "unsigned_value (itoa (nat (- i))) = Some (nat (- i))"
    using itoa_digits [of "nat (- i)"] itoa_value [of "nat (- i)"] by (simp add: unsigned_value_def)
  then show ?thesis using True assms by (simp add: show_i64_def atoi_def)
next
  case False
  then have "nat i < 2 ^ 63" using assms by (metis nat_less_iff not_less of_nat_numeral of_nat_power)
  from atoi_itoa [OF this] show ?thesis using False by (simp add: show_i64_def)
qed

section \<open>Rows\<close>

record userRow =
  u_id :: string
  u_display_name :: "string option"
  u_phone :: "string option"
  u_avatar_url :: "string option"
  u_verified_at :: "time option"
  u_deletion_state :: string
  u_deletion_requested_at :: "time option"
  u_deletion_effective_at :: "time option"
  u_deletion_completed_at :: "time option"
  u_deletion_reason :: "string option"

record deviceRow =
  dv_id :: string
  dv_user_id :: string
  dv_capabilities :: "string list"
  dv_platform :: string
  dv_device_name :: "string option"
  dv_client_version :: "string option"
  dv_sms_role_state :: "string option"
  dv_push_token :: "string option"
  dv_push_provider :: "string option"
  dv_push_subscription :: "string option"
  dv_public_key :: "string option"
  dv_last_seen_at :: "time option"

text \<open>A user and a device of which only the columns named are set.\<close>

definition plain_user :: "string \<Rightarrow> string option \<Rightarrow> userRow" where
  [simp]: "plain_user u phone = \<lparr>u_id = u, u_display_name = None, u_phone = phone, u_avatar_url = None, u_verified_at = None,
     u_deletion_state = ''ACTIVE'', u_deletion_requested_at = None, u_deletion_effective_at = None,
     u_deletion_completed_at = None, u_deletion_reason = None\<rparr>"

definition plain_device :: "string \<Rightarrow> string \<Rightarrow> string list \<Rightarrow> deviceRow" where
  [simp]: "plain_device d u caps = \<lparr>dv_id = d, dv_user_id = u, dv_capabilities = caps, dv_platform = ''WEB'', dv_device_name = None,
     dv_client_version = None, dv_sms_role_state = None, dv_push_token = None, dv_push_provider = None,
     dv_push_subscription = None, dv_public_key = None, dv_last_seen_at = None\<rparr>"

record conversationRow =
  cv_id :: string
  cv_type :: string
  cv_transport_policy :: string
  cv_last_message_id :: "string option"
  cv_updated_at :: time
  cv_encryption_state :: "string option"
  cv_encryption_epoch :: int
  cv_is_mls :: "bool option"
  cv_mls_epoch :: "int option"
  cv_retention_seconds :: "int option"
  cv_expires_at :: "time option"
  cv_allow_effects :: "bool option"

record memberRow =
  cm_conversation_id :: string
  cm_user_id :: string
  cm_role :: string
  cm_joined_at :: time
  cm_last_read :: int
  cm_last_delivered :: int
  cm_last_read_at :: "time option"
  cm_read_at :: "time option"
  cm_delivery_at :: "time option"

record messageRow =
  mg_id :: string
  mg_conversation_id :: string
  mg_sender :: string
  mg_sender_device :: "string option"
  mg_reply_to :: "string option"
  mg_content_type :: string
  mg_content :: json
  mg_client_generated_id :: "string option"
  mg_transport :: string
  mg_server_order :: int
  mg_created_at :: time
  mg_redacted_at :: "time option"
  mg_deleted_at :: "time option"
  mg_edited_at :: "time option"
  mg_visibility :: string
  mg_expires_at :: "time option"
  mg_is_encrypted :: "bool option"
  mg_encryption_scheme :: "string option"

text \<open>A message as the columns' defaults leave it.\<close>

definition new_message :: "string \<Rightarrow> string \<Rightarrow> string \<Rightarrow> string \<Rightarrow> json \<Rightarrow> string \<Rightarrow> int \<Rightarrow> time \<Rightarrow> messageRow" where
  "new_message mid conv sender contentType content transport order now =
     \<lparr>mg_id = mid, mg_conversation_id = conv, mg_sender = sender, mg_sender_device = None, mg_reply_to = None,
      mg_content_type = contentType, mg_content = content, mg_client_generated_id = None, mg_transport = transport,
      mg_server_order = order, mg_created_at = now, mg_redacted_at = None, mg_deleted_at = None, mg_edited_at = None,
      mg_visibility = ''ACTIVE'', mg_expires_at = None, mg_is_encrypted = Some False, mg_encryption_scheme = None\<rparr>"

lemma new_message_simps [simp]:
  "mg_id (new_message mid conv sender ct c tr n now) = mid"
  "mg_conversation_id (new_message mid conv sender ct c tr n now) = conv"
  "mg_sender (new_message mid conv sender ct c tr n now) = sender"
  "mg_content (new_message mid conv sender ct c tr n now) = c"
  "mg_content_type (new_message mid conv sender ct c tr n now) = ct"
  "mg_transport (new_message mid conv sender ct c tr n now) = tr"
  "mg_server_order (new_message mid conv sender ct c tr n now) = n"
  "mg_created_at (new_message mid conv sender ct c tr n now) = now"
  "mg_visibility (new_message mid conv sender ct c tr n now) = ''ACTIVE''"
  "mg_deleted_at (new_message mid conv sender ct c tr n now) = None"
  "mg_expires_at (new_message mid conv sender ct c tr n now) = None"
  "mg_sender_device (new_message mid conv sender ct c tr n now) = None"
  "mg_reply_to (new_message mid conv sender ct c tr n now) = None"
  by (simp_all add: new_message_def)

definition new_member :: "string \<Rightarrow> string \<Rightarrow> time \<Rightarrow> memberRow" where
  "new_member conv user now =
     \<lparr>cm_conversation_id = conv, cm_user_id = user, cm_role = ''MEMBER'', cm_joined_at = now, cm_last_read = 0,
      cm_last_delivered = 0, cm_last_read_at = None, cm_read_at = None, cm_delivery_at = None\<rparr>"

definition new_conversation :: "string \<Rightarrow> string \<Rightarrow> string \<Rightarrow> time \<Rightarrow> conversationRow" where
  "new_conversation conv ty policy now =
     \<lparr>cv_id = conv, cv_type = ty, cv_transport_policy = policy, cv_last_message_id = None, cv_updated_at = now,
      cv_encryption_state = Some ''PLAINTEXT'', cv_encryption_epoch = 0, cv_is_mls = Some False, cv_mls_epoch = Some 0,
      cv_retention_seconds = None, cv_expires_at = None, cv_allow_effects = Some True\<rparr>"

lemma new_row_simps [simp]:
  "cm_conversation_id (new_member conv user now) = conv" "cm_user_id (new_member conv user now) = user"
  "cm_joined_at (new_member conv user now) = now" "cm_last_read (new_member conv user now) = 0"
  "cm_last_delivered (new_member conv user now) = 0"
  "cv_id (new_conversation conv ty policy now) = conv" "cv_type (new_conversation conv ty policy now) = ty"
  by (simp_all add: new_member_def new_conversation_def)

record editRow =
  ed_message_id :: string
  ed_conversation_id :: string
  ed_edited_by :: string
  ed_previous_content :: json
  ed_new_content :: json
  ed_sent_at :: "time option"
  ed_delivered_at :: "time option"
  ed_read_at :: "time option"
  ed_edited_at :: time

record reactionRow =
  rx_message_id :: string
  rx_user_id :: string
  rx_emoji :: string

record reactionEventRow =
  re_message_id :: string
  re_conversation_id :: string
  re_acted_by :: string
  re_emoji :: string
  re_action :: string
  re_sent_at :: "time option"
  re_delivered_at :: "time option"
  re_read_at :: "time option"
  re_acted_at :: time

record effectRow =
  ef_message_id :: string
  ef_conversation_id :: string
  ef_user_id :: string
  ef_type :: string
  ef_at :: time

record receiptRow =
  rr_message_id :: string
  rr_reader :: string
  rr_read_at :: time

record idempotencyRow =
  ik_actor :: string
  ik_endpoint :: string
  ik_key :: string
  ik_payload :: "json option"
  ik_status :: "int option"
  ik_expires_at :: time

record domainEventRow =
  de_event_id :: int
  de_conversation_id :: string
  de_actor_user_id :: "string option"
  de_event_type :: string
  de_payload :: json
  de_created_at :: time
  de_processed_at :: "time option"

record inboxRow =
  ie_user_event_id :: int
  ie_user_id :: string
  ie_conversation_id :: "string option"
  ie_event_type :: string
  ie_payload :: json
  ie_created_at :: time

record stateRow =
  cs_user_id :: string
  cs_conversation_id :: string
  cs_last_message_id :: "string option"
  cs_preview :: "string option"
  cs_last_message_at :: "time option"
  cs_unread :: int
  cs_last_read :: int
  cs_last_delivered :: int
  cs_is_closed :: bool
  cs_updated_at :: time

record cursorRow =
  uc_user_id :: string
  uc_device_id :: string
  uc_last_user_event_id :: int
  uc_last_seen_at :: time

section \<open>Tables\<close>

text \<open>\<open>tb_next_event\<close> and \<open>tb_next_user_event\<close> are the sequences behind the \<open>bigserial\<close> columns
  \<open>event_id\<close> and \<open>user_event_id\<close>.  \<open>tb_external_phones\<close> is the join of \<open>conversation_external_members\<close>
  with \<open>external_contacts\<close>: conversation and phone.  \<open>tb_attachments\<close> holds the attachment and its
  message, \<open>tb_blocks\<close> who blocks whom.\<close>

record convTables =
  tb_users :: "userRow list"
  tb_devices :: "deviceRow list"
  tb_conversations :: "conversationRow list"
  tb_members :: "memberRow list"
  tb_counters :: "(string \<times> int) list"
  tb_external_phones :: "(string \<times> string) list"
  tb_blocks :: "(string \<times> string) list"
  tb_messages :: "messageRow list"
  tb_attachments :: "(string \<times> string option) list"
  tb_edits :: "editRow list"
  tb_reactions :: "reactionRow list"
  tb_reaction_events :: "reactionEventRow list"
  tb_effects :: "effectRow list"
  tb_receipts :: "receiptRow list"
  tb_idempotency :: "idempotencyRow list"
  tb_domain_events :: "domainEventRow list"
  tb_next_event :: int
  tb_inbox :: "inboxRow list"
  tb_next_user_event :: int
  tb_conv_state :: "stateRow list"
  tb_cursors :: "cursorRow list"

definition empty_conv :: convTables where
  "empty_conv = \<lparr>tb_users = [], tb_devices = [], tb_conversations = [], tb_members = [], tb_counters = [],
     tb_external_phones = [], tb_blocks = [], tb_messages = [], tb_attachments = [], tb_edits = [], tb_reactions = [],
     tb_reaction_events = [], tb_effects = [], tb_receipts = [], tb_idempotency = [], tb_domain_events = [],
     tb_next_event = 1, tb_inbox = [], tb_next_user_event = 1, tb_conv_state = [], tb_cursors = []\<rparr>"

text \<open>
  What the services are given: Go's printing of times (RFC 3339 in seconds and in nanoseconds),
  PostgreSQL's reading of a \<open>timestamptz\<close>, and the Unix time in milliseconds.
\<close>

record convEnv =
  ev_rfc3339 :: "time \<Rightarrow> string"
  ev_rfc3339nano :: "time \<Rightarrow> string"
  ev_timestamptz :: "string \<Rightarrow> time option"
  ev_unix_ms :: "time \<Rightarrow> int"

section \<open>Queries that the services share\<close>

definition find_conversation :: "'z convTables_scheme \<Rightarrow> string \<Rightarrow> conversationRow option" where
  "find_conversation T conv = find (\<lambda>c. cv_id c = conv) (tb_conversations T)"

definition find_message :: "'z convTables_scheme \<Rightarrow> string \<Rightarrow> messageRow option" where
  "find_message T mid = find (\<lambda>m. mg_id m = mid) (tb_messages T)"

definition is_user :: "'z convTables_scheme \<Rightarrow> string \<Rightarrow> bool" where
  "is_user T u \<longleftrightarrow> list_ex (\<lambda>r. u_id r = u) (tb_users T)"

definition find_member :: "'z convTables_scheme \<Rightarrow> string \<Rightarrow> string \<Rightarrow> memberRow option" where
  "find_member T conv user = find (\<lambda>m. cm_conversation_id m = conv \<and> cm_user_id m = user) (tb_members T)"

text \<open>\<open>UPDATE ... WHERE\<close>: a function on the rows that satisfy the condition.\<close>

definition update_where :: "('r \<Rightarrow> bool) \<Rightarrow> ('r \<Rightarrow> 'r) \<Rightarrow> 'r list \<Rightarrow> 'r list" where
  "update_where P f rows = map (\<lambda>r. if P r then f r else r) rows"

lemma update_where_simps [simp]:
  "update_where P f [] = []"
  "update_where P f (r # rs) = (if P r then f r else r) # update_where P f rs"
  "update_where P f (rs @ ss) = update_where P f rs @ update_where P f ss"
  "length (update_where P f rs) = length rs"
  by (simp_all add: update_where_def)

lemma update_where_none: "list_all (\<lambda>r. \<not> P r) rows \<Longrightarrow> update_where P f rows = rows"
  by (induction rows) auto

lemma map_update_where: "(\<And>r. k (f r) = k r) \<Longrightarrow> map k (update_where P f rows) = map k rows"
  by (induction rows) auto

lemma find_update_where:
  "(\<And>r. Q (f r) = Q r) \<Longrightarrow> find Q (update_where P f rows) = map_option (\<lambda>r. if P r then f r else r) (find Q rows)"
  by (induction rows) auto

definition update_conversation :: "string \<Rightarrow> (conversationRow \<Rightarrow> conversationRow) \<Rightarrow> 'z convTables_scheme \<Rightarrow> 'z convTables_scheme" where
  "update_conversation conv f T = T\<lparr>tb_conversations := update_where (\<lambda>c. cv_id c = conv) f (tb_conversations T)\<rparr>"

definition touch_conversation :: "time \<Rightarrow> string \<Rightarrow> 'z convTables_scheme \<Rightarrow> 'z convTables_scheme" where
  "touch_conversation now conv = update_conversation conv (\<lambda>c. c\<lparr>cv_updated_at := now\<rparr>)"

text \<open>\<open>UPDATE conversation_counters ... RETURNING next_server_order - 1\<close>; \<open>None\<close> without a row.\<close>

definition next_server_order :: "string \<Rightarrow> 'z convTables_scheme \<Rightarrow> (int \<times> 'z convTables_scheme) option" where
  "next_server_order conv T =
     map_option (\<lambda>n. (n, T\<lparr>tb_counters := AList.update conv (n + 1) (tb_counters T)\<rparr>)) (map_of (tb_counters T) conv)"

text \<open>\<open>INSERT INTO messages\<close>: the primary key, the unique index on conversation and order, and the
  foreign keys.\<close>

definition insert_message :: "messageRow \<Rightarrow> 'z convTables_scheme \<Rightarrow> 'z convTables_scheme option" where
  "insert_message m T =
     (if list_ex (\<lambda>r. mg_id r = mg_id m \<or> (mg_conversation_id r = mg_conversation_id m \<and> mg_server_order r = mg_server_order m))
           (tb_messages T)
        \<or> find_conversation T (mg_conversation_id m) = None \<or> \<not> is_user T (mg_sender m)
        \<or> (case mg_sender_device m of None \<Rightarrow> False | Some d \<Rightarrow> \<not> list_ex (\<lambda>r. dv_id r = d) (tb_devices T))
        \<or> (case mg_reply_to m of None \<Rightarrow> False | Some r \<Rightarrow> find_message T r = None)
      then None else Some (T\<lparr>tb_messages := tb_messages T @ [m]\<rparr>))"

section \<open>Conversation metadata and domain events\<close>

text \<open>\<open>LoadConversationMeta\<close> of the replication store: type, members in order, external phones.\<close>

definition members_in_order :: "'z convTables_scheme \<Rightarrow> string \<Rightarrow> string list" where
  "members_in_order T conv =
     map cm_user_id (sort_key cm_joined_at (filter (\<lambda>m. cm_conversation_id m = conv) (tb_members T)))"

definition LoadConversationMeta :: "'z convTables_scheme \<Rightarrow> string \<Rightarrow> (string \<times> string list \<times> string list) option" where
  "LoadConversationMeta T conversationID =
     map_option (\<lambda>c. (cv_type c, members_in_order T conversationID,
         sort (map snd (filter (\<lambda>(c, ph). c = conversationID) (tb_external_phones T)))))
       (find_conversation T conversationID)"

text \<open>\<open>NULLIF(x, '')\<close>.\<close>

definition null_if_empty :: "string \<Rightarrow> string option" where
  "null_if_empty s = (if s = [] then None else Some s)"

text \<open>The insert fails when the conversation or the actor does not exist.\<close>

definition AppendDomainEvent ::
  "time \<Rightarrow> string \<Rightarrow> string \<Rightarrow> string \<Rightarrow> json \<Rightarrow> 'z convTables_scheme \<Rightarrow> 'z convTables_scheme option" where
  "AppendDomainEvent now conversationID actorUserID eventType payload T =
     (if find_conversation T conversationID = None \<or> (actorUserID \<noteq> [] \<and> \<not> is_user T actorUserID) then None
      else Some (T\<lparr>tb_domain_events := tb_domain_events T @ [\<lparr>de_event_id = tb_next_event T,
          de_conversation_id = conversationID, de_actor_user_id = null_if_empty actorUserID,
          de_event_type = eventType, de_payload = payload, de_created_at = now, de_processed_at = None\<rparr>],
        tb_next_event := tb_next_event T + 1\<rparr>))"

end
