(* ===== verification/SecurityAudit.thy ===== *)
theory SecurityAudit
  imports Json
begin

text \<open>
  The security audit log (\<open>gateway/internal/securityaudit/audit.go\<close>) over the table
  \<open>security_audit_events\<close> of migrations 000039 and 000040.  Each event carries the hash of the
  previous event of its target.  The digest of \<open>pgcrypto\<close> and the text PostgreSQL prints for a
  \<open>jsonb\<close> value are parameters.
\<close>

record securityEvent =
  au_id :: nat
  au_actor :: "string option"
  au_target :: "string option"
  au_type :: string
  au_payload :: json
  au_created_at :: time
  au_prev_hash :: "string option"
  au_hash :: "string option"

record auditEnv =
  au_digest :: "string \<Rightarrow> string"
  au_jsonb_text :: "json \<Rightarrow> string"

definition nullif_empty :: "string \<Rightarrow> string option" where
  "nullif_empty s = (if s = [] then None else Some s)"

definition text_or_empty :: "string option \<Rightarrow> string" where
  "text_or_empty v = (case v of None \<Rightarrow> [] | Some s \<Rightarrow> s)"

text \<open>\<open>ORDER BY created_at DESC, id DESC LIMIT 1\<close> over the events of a target.\<close>

definition newer_audit :: "securityEvent \<Rightarrow> securityEvent \<Rightarrow> bool" where
  "newer_audit a b \<longleftrightarrow> au_created_at a > au_created_at b \<or> (au_created_at a = au_created_at b \<and> au_id a > au_id b)"

fun newest_audit :: "securityEvent list \<Rightarrow> securityEvent option" where
  "newest_audit [] = None"
| "newest_audit (r # rs) =
     (case newest_audit rs of None \<Rightarrow> Some r | Some s \<Rightarrow> Some (if newer_audit r s then r else s))"

definition prev_audit :: "string \<Rightarrow> securityEvent list \<Rightarrow> securityEvent option" where
  "prev_audit targetUserID rows =
     (if targetUserID = [] then None else newest_audit (filter (\<lambda>r. au_target r = Some targetUserID) rows))"

definition hashed_text :: "auditEnv \<Rightarrow> string \<Rightarrow> string \<Rightarrow> string \<Rightarrow> string \<Rightarrow> json \<Rightarrow> string" where
  "hashed_text E actor target eventType prev payload =
     actor @ ''|'' @ target @ ''|'' @ eventType @ ''|'' @ prev @ ''|'' @ au_jsonb_text E payload"

text \<open>\<open>Append\<close>; \<open>None\<close> is the error of the unique index on \<open>event_hash\<close>.\<close>

definition Append ::
  "auditEnv \<Rightarrow> time \<Rightarrow> string \<Rightarrow> string \<Rightarrow> string \<Rightarrow> json \<Rightarrow> securityEvent list \<Rightarrow> securityEvent list option" where
  "Append E now actorUserID targetUserID eventType payload rows =
     (let prev = Option.bind (prev_audit targetUserID rows) au_hash;
          h = hex_encode (au_digest E (hashed_text E actorUserID targetUserID eventType (text_or_empty prev) payload))
      in if list_ex (\<lambda>r. au_hash r = Some h) rows then None
         else Some (rows @ [\<lparr>au_id = length rows, au_actor = nullif_empty actorUserID,
           au_target = nullif_empty targetUserID, au_type = eventType, au_payload = payload, au_created_at = now,
           au_prev_hash = Option.bind prev nullif_empty, au_hash = Some h\<rparr>]))"

text \<open>The callers ignore the error.\<close>

definition append_audit ::
  "auditEnv \<Rightarrow> time \<Rightarrow> string \<Rightarrow> string \<Rightarrow> string \<Rightarrow> json \<Rightarrow> securityEvent list \<Rightarrow> securityEvent list" where
  "append_audit E now actorUserID targetUserID eventType payload rows =
     (case Append E now actorUserID targetUserID eventType payload rows of None \<Rightarrow> rows | Some rows' \<Rightarrow> rows')"

section \<open>The chain\<close>

lemma hex_digit_inj: "a < 16 \<Longrightarrow> b < 16 \<Longrightarrow> hex_digit a = hex_digit b \<Longrightarrow> a = b"
  unfolding hex_digit_def by (auto split: if_splits dest!: arg_cong [where f = "of_char :: char \<Rightarrow> nat"] simp: of_char_of)

lemma hex_byte_inj: "hex_byte c = hex_byte d \<Longrightarrow> c = d"
proof -
  assume h: "hex_byte c = hex_byte d"
  have b: "(of_char x :: nat) div 16 < 16" "(of_char x :: nat) mod 16 < 16" for x :: char
    using nat_of_char_less_256 [of x] by (simp_all add: less_mult_imp_div_less)
  have "(of_char c :: nat) div 16 = of_char d div 16" "(of_char c :: nat) mod 16 = of_char d mod 16"
    using h hex_digit_inj [OF b(1) b(1)] hex_digit_inj [OF b(2) b(2)] by (simp_all add: hex_byte_def)
  then have "(of_char c :: nat) = of_char d" by (metis div_mult_mod_eq)
  then show "c = d" by simp
qed

lemma hex_encode_inj: "hex_encode s = hex_encode t \<Longrightarrow> s = t"
proof (induction s arbitrary: t)
  case (Cons c s)
  obtain d u where t: "t = d # u" using Cons.prems by (cases t) (simp_all add: hex_encode_def hex_byte_def)
  have "hex_byte c = hex_byte d" and "hex_encode s = hex_encode u"
    using Cons.prems by (simp_all add: t hex_encode_def hex_byte_def)
  then show ?case using Cons.IH t hex_byte_inj by blast
qed (simp add: hex_encode_def hex_byte_def split: list.splits)

lemma hex_encode_empty: "hex_encode s = [] \<longleftrightarrow> s = []"
  by (cases s) (simp_all add: hex_encode_def hex_byte_def)

text \<open>The text an event's hash is taken of, read from its row.\<close>

definition row_text :: "auditEnv \<Rightarrow> securityEvent \<Rightarrow> string" where
  "row_text E r = hashed_text E (text_or_empty (au_actor r)) (text_or_empty (au_target r)) (au_type r)
     (text_or_empty (au_prev_hash r)) (au_payload r)"

text \<open>The events of one target, oldest first, form a hash chain from \<open>prev\<close>.\<close>

fun hash_chain :: "auditEnv \<Rightarrow> string option \<Rightarrow> securityEvent list \<Rightarrow> bool" where
  "hash_chain E prev [] = True"
| "hash_chain E prev (r # rs) \<longleftrightarrow> au_prev_hash r = prev \<and> au_hash r = Some (hex_encode (au_digest E (row_text E r)))
     \<and> hash_chain E (au_hash r) rs"

definition target_events :: "string \<Rightarrow> securityEvent list \<Rightarrow> securityEvent list" where
  "target_events target rows = filter (\<lambda>r. au_target r = Some target) rows"

definition last_hash :: "string option \<Rightarrow> securityEvent list \<Rightarrow> string option" where
  "last_hash prev rs = (if rs = [] then prev else au_hash (last rs))"

lemma hash_chain_snoc:
  "hash_chain E prev (rs @ [r]) \<longleftrightarrow> hash_chain E prev rs \<and> au_prev_hash r = last_hash prev rs
     \<and> au_hash r = Some (hex_encode (au_digest E (row_text E r)))"
  by (induction rs arbitrary: prev) (auto simp: last_hash_def)

definition ordered_rows :: "securityEvent list \<Rightarrow> bool" where
  "ordered_rows rows \<longleftrightarrow> sorted (map au_created_at rows) \<and> map au_id rows = [0..<length rows]"

lemma newest_audit_last:
  assumes "sorted (map au_created_at rs)" and "sorted_wrt (<) (map au_id rs)" and "rs \<noteq> []"
  shows "newest_audit rs = Some (last rs)"
  using assms
proof (induction rs)
  case (Cons r rs)
  show ?case
  proof (cases "rs = []")
    case False
    then have "newest_audit rs = Some (last rs)" and "last rs \<in> set rs" using Cons by auto
    moreover have "au_created_at r \<le> au_created_at (last rs)" "au_id r < au_id (last rs)"
      using Cons.prems False by auto
    ultimately show ?thesis using False by (auto simp: newer_audit_def)
  qed simp
qed simp

lemma sorted_wrt_filter_map: "sorted_wrt P (map f rs) \<Longrightarrow> sorted_wrt P (map f (filter Q rs))"
  by (induction rs) auto

lemma prev_audit_last:
  assumes "ordered_rows rows" and "target \<noteq> []"
  shows "prev_audit target rows = (if target_events target rows = [] then None else Some (last (target_events target rows)))"
proof (cases "target_events target rows = []")
  case True
  then show ?thesis by (simp add: prev_audit_def target_events_def)
next
  case False
  have "sorted_wrt (<) (map au_id rows)" using assms(1) by (simp add: ordered_rows_def)
  then have "newest_audit (target_events target rows) = Some (last (target_events target rows))"
    using assms(1) False unfolding target_events_def
    by (intro newest_audit_last sorted_wrt_filter_map) (auto simp: ordered_rows_def sorted_wrt_filter_map)
  then show ?thesis using False assms(2) by (simp add: prev_audit_def target_events_def)
qed

text \<open>Appending keeps every target's chain.\<close>

definition audit_ok :: "auditEnv \<Rightarrow> securityEvent list \<Rightarrow> bool" where
  "audit_ok E rows \<longleftrightarrow> ordered_rows rows
     \<and> (\<forall>target. target \<noteq> [] \<longrightarrow> hash_chain E None (target_events target rows))
     \<and> (\<forall>r \<in> set rows. au_hash r \<noteq> None \<and> au_hash r \<noteq> Some [])"

lemma Append_ok:
  assumes ok: "audit_ok E rows" and now: "\<forall>r \<in> set rows. au_created_at r \<le> now"
    and d: "\<And>t. au_digest E t \<noteq> []"
    and app: "Append E now actor target eventType payload rows = Some rows'"
  shows "audit_ok E rows'"
proof -
  let ?prev = "Option.bind (prev_audit target rows) au_hash"
  let ?h = "hex_encode (au_digest E (hashed_text E actor target eventType (text_or_empty ?prev) payload))"
  define r where "r = \<lparr>au_id = length rows, au_actor = nullif_empty actor,
           au_target = nullif_empty target, au_type = eventType, au_payload = payload, au_created_at = now,
           au_prev_hash = Option.bind ?prev nullif_empty, au_hash = Some ?h\<rparr>"
  have r: "rows' = rows @ [r]" "au_id r = length rows" "au_actor r = nullif_empty actor"
      "au_target r = nullif_empty target" "au_type r = eventType" "au_payload r = payload" "au_created_at r = now"
      "au_prev_hash r = Option.bind ?prev nullif_empty" "au_hash r = Some ?h"
    using app by (simp_all add: Append_def Let_def r_def split: if_splits)
  have ne: "?h \<noteq> []" using d hex_encode_empty by blast
  have prev: "target \<noteq> [] \<Longrightarrow> Option.bind ?prev nullif_empty = last_hash None (target_events target rows)"
    and te: "text_or_empty (Option.bind ?prev nullif_empty) = text_or_empty ?prev"
  proof -
    show "text_or_empty (Option.bind ?prev nullif_empty) = text_or_empty ?prev"
      by (cases ?prev) (auto simp: text_or_empty_def nullif_empty_def)
    assume t: "target \<noteq> []"
    show "Option.bind ?prev nullif_empty = last_hash None (target_events target rows)"
    proof (cases "target_events target rows = []")
      case False
      then have "last (target_events target rows) \<in> set rows" using last_in_set by (fastforce simp: target_events_def)
      then have "au_hash (last (target_events target rows)) \<noteq> None"
        "au_hash (last (target_events target rows)) \<noteq> Some []"
        using ok by (auto simp: audit_ok_def)
      then show ?thesis using False ok t
        by (auto simp: prev_audit_last audit_ok_def last_hash_def nullif_empty_def)
    qed (use ok t in \<open>simp add: prev_audit_last audit_ok_def last_hash_def\<close>)
  qed
  have h: "?h = hex_encode (au_digest E (row_text E r))"
    using te by (simp add: row_text_def r) (simp add: text_or_empty_def nullif_empty_def)
  have "hash_chain E None (target_events t rows')" if t: "t \<noteq> []" for t
  proof (cases "t = target")
    case True
    then have "target_events t rows' = target_events t rows @ [r]"
      using t by (simp add: target_events_def r nullif_empty_def)
    then show ?thesis using ok t prev h r True by (simp add: hash_chain_snoc audit_ok_def)
  next
    case False
    then have "target_events t rows' = target_events t rows"
      by (simp add: target_events_def r nullif_empty_def)
    then show ?thesis using ok t by (simp add: audit_ok_def)
  qed
  then show ?thesis using ok now ne r by (auto simp: audit_ok_def ordered_rows_def sorted_append)
qed

section \<open>What a chain commits to\<close>

text \<open>Fields of an event without the separator, and a digest and a printer that are injective.\<close>

definition audit_content :: "securityEvent \<Rightarrow> string \<times> string \<times> string \<times> json \<times> string option \<times> string option" where
  "audit_content r = (text_or_empty (au_actor r), text_or_empty (au_target r), au_type r, au_payload r, au_prev_hash r, au_hash r)"

definition plain_row :: "securityEvent \<Rightarrow> bool" where
  "plain_row r \<longleftrightarrow> CHR ''|'' \<notin> set (text_or_empty (au_actor r)) \<and> CHR ''|'' \<notin> set (text_or_empty (au_target r))
     \<and> CHR ''|'' \<notin> set (au_type r) \<and> CHR ''|'' \<notin> set (text_or_empty (au_prev_hash r)) \<and> au_prev_hash r \<noteq> Some []"

lemma separator_split: "c \<notin> set a \<Longrightarrow> c \<notin> set b \<Longrightarrow> a @ c # x = b @ c # y \<Longrightarrow> a = b \<and> x = y"
  by (induction a arbitrary: b) (auto simp: Cons_eq_append_conv)

lemma row_text_inj:
  assumes "row_text E r = row_text E r'" and "plain_row r" "plain_row r'" and "inj_on (au_jsonb_text E) {au_payload r, au_payload r'}"
  shows "text_or_empty (au_actor r) = text_or_empty (au_actor r') \<and> text_or_empty (au_target r) = text_or_empty (au_target r')
    \<and> au_type r = au_type r' \<and> au_payload r = au_payload r' \<and> au_prev_hash r = au_prev_hash r'"
proof -
  note sep = separator_split [where c = "CHR ''|''"]
  have a: "text_or_empty (au_actor r) = text_or_empty (au_actor r')"
      "text_or_empty (au_target r) = text_or_empty (au_target r')" "au_type r = au_type r'"
      "text_or_empty (au_prev_hash r) = text_or_empty (au_prev_hash r')"
      "au_jsonb_text E (au_payload r) = au_jsonb_text E (au_payload r')"
    using assms(1-3) by (auto simp: row_text_def hashed_text_def plain_row_def dest!: sep [rotated 2])
  moreover have "au_prev_hash r = au_prev_hash r'"
    using a(4) assms(2,3) by (cases "au_prev_hash r"; cases "au_prev_hash r'") (auto simp: text_or_empty_def plain_row_def)
  moreover have "au_payload r = au_payload r'" using a(5) assms(4) by (auto dest: inj_onD)
  ultimately show ?thesis by blast
qed

lemma chain_commits:
  assumes "hash_chain E None rs" and "hash_chain E None rs'" and "last_hash None rs = last_hash None rs'"
    and "inj_on (au_digest E) (row_text E ` (set rs \<union> set rs'))"
    and "inj_on (au_jsonb_text E) (au_payload ` (set rs \<union> set rs'))" and "\<forall>r \<in> set rs \<union> set rs'. plain_row r"
  shows "map audit_content rs = map audit_content rs'"
  using assms
proof (induction rs arbitrary: rs' rule: rev_induct)
  case Nil
  then show ?case by (cases rs' rule: rev_cases) (auto simp: last_hash_def hash_chain_snoc)
next
  case (snoc r rs)
  obtain r' qs where q: "rs' = qs @ [r']"
    using snoc.prems by (cases rs' rule: rev_cases) (auto simp: last_hash_def hash_chain_snoc)
  have h: "au_hash r = au_hash r'" using snoc.prems(3) by (simp add: last_hash_def q)
  then have "hex_encode (au_digest E (row_text E r)) = hex_encode (au_digest E (row_text E r'))"
    using snoc.prems(1,2) by (simp add: hash_chain_snoc q)
  then have d: "au_digest E (row_text E r) = au_digest E (row_text E r')" by (rule hex_encode_inj)
  have "row_text E r \<in> row_text E ` (set (rs @ [r]) \<union> set rs')" "row_text E r' \<in> row_text E ` (set (rs @ [r]) \<union> set rs')"
    unfolding q by (rule imageI, simp)+
  then have "row_text E r = row_text E r'" using inj_onD [OF snoc.prems(4) d] by blast
  then have e: "text_or_empty (au_actor r) = text_or_empty (au_actor r') \<and> text_or_empty (au_target r) = text_or_empty (au_target r')
    \<and> au_type r = au_type r' \<and> au_payload r = au_payload r' \<and> au_prev_hash r = au_prev_hash r'"
  proof (rule row_text_inj)
    show "plain_row r" "plain_row r'" using snoc.prems(6) q by simp_all
    show "inj_on (au_jsonb_text E) {au_payload r, au_payload r'}"
      by (rule inj_on_subset [OF snoc.prems(5)]) (simp add: q)
  qed
  have c: "audit_content r = audit_content r'" "au_prev_hash r = au_prev_hash r'"
    using e h by (simp_all add: audit_content_def)
  have "map audit_content rs = map audit_content qs"
  proof (rule snoc.IH)
    show "hash_chain E None rs" "hash_chain E None qs" "last_hash None rs = last_hash None qs"
      using snoc.prems(1,2) c(2) by (simp_all add: hash_chain_snoc q)
    show "inj_on (au_digest E) (row_text E ` (set rs \<union> set qs))"
      by (rule inj_on_subset [OF snoc.prems(4)]) (auto simp: q)
    show "inj_on (au_jsonb_text E) (au_payload ` (set rs \<union> set qs))"
      by (rule inj_on_subset [OF snoc.prems(5)]) (auto simp: q)
    show "\<forall>r \<in> set rs \<union> set qs. plain_row r" using snoc.prems(6) q by simp
  qed
  then show ?case using c q by simp
qed

section \<open>Histories of the log\<close>

record auditReq =
  rq_now :: time
  rq_actor :: string
  rq_target :: string
  rq_type :: string
  rq_payload :: json

definition audit_step :: "auditEnv \<Rightarrow> auditReq \<Rightarrow> securityEvent list \<Rightarrow> securityEvent list" where
  "audit_step E q rows = append_audit E (rq_now q) (rq_actor q) (rq_target q) (rq_type q) (rq_payload q) rows"

definition audit_log :: "auditEnv \<Rightarrow> auditReq list \<Rightarrow> securityEvent list" where
  "audit_log E qs = fold (audit_step E) qs []"

definition plain_req :: "auditReq \<Rightarrow> bool" where
  "plain_req q \<longleftrightarrow> CHR ''|'' \<notin> set (rq_actor q) \<and> CHR ''|'' \<notin> set (rq_target q) \<and> CHR ''|'' \<notin> set (rq_type q)"

definition row_fields_plain :: "securityEvent \<Rightarrow> bool" where
  "row_fields_plain r \<longleftrightarrow> CHR ''|'' \<notin> set (text_or_empty (au_actor r)) \<and> CHR ''|'' \<notin> set (text_or_empty (au_target r))
     \<and> CHR ''|'' \<notin> set (au_type r)"

lemma text_nullif [simp]: "text_or_empty (nullif_empty s) = s"
  by (simp add: text_or_empty_def nullif_empty_def)

lemma audit_step_ok:
  assumes "audit_ok E rows" and "\<forall>r \<in> set rows. au_created_at r \<le> rq_now q" and "\<And>t. au_digest E t \<noteq> []"
    and "plain_req q" and "\<forall>r \<in> set rows. row_fields_plain r"
  shows "audit_ok E (audit_step E q rows) \<and> (\<forall>r \<in> set (audit_step E q rows). au_created_at r \<le> rq_now q \<and> row_fields_plain r)"
proof (cases "Append E (rq_now q) (rq_actor q) (rq_target q) (rq_type q) (rq_payload q) rows")
  case None
  then show ?thesis using assms by (simp add: audit_step_def append_audit_def)
next
  case (Some rows')
  then have "audit_ok E rows'" using Append_ok [OF assms(1,2,3)] by blast
  moreover have "\<forall>r \<in> set rows'. au_created_at r \<le> rq_now q \<and> row_fields_plain r"
    using Some assms(2,4,5)
    by (auto simp: Append_def Let_def row_fields_plain_def plain_req_def split: if_splits)
  ultimately show ?thesis using Some by (simp add: audit_step_def append_audit_def)
qed

lemma audit_log_ok:
  assumes "\<And>t. au_digest E t \<noteq> []"
  shows "sorted (map rq_now qs) \<Longrightarrow> list_all plain_req qs \<Longrightarrow>
    audit_ok E (audit_log E qs) \<and> (\<forall>r \<in> set (audit_log E qs). row_fields_plain r)
      \<and> (\<forall>t. (\<forall>q \<in> set qs. rq_now q \<le> t) \<longrightarrow> (\<forall>r \<in> set (audit_log E qs). au_created_at r \<le> t))"
proof (induction qs rule: rev_induct)
  case Nil
  then show ?case by (simp add: audit_log_def audit_ok_def ordered_rows_def target_events_def)
next
  case (snoc q qs)
  have le: "\<forall>x \<in> set qs. rq_now x \<le> rq_now q" using snoc.prems(1) by (auto simp: sorted_append)
  have "audit_log E (qs @ [q]) = audit_step E q (audit_log E qs)" by (simp add: audit_log_def)
  moreover have "audit_ok E (audit_log E qs)" "\<forall>r \<in> set (audit_log E qs). row_fields_plain r"
      "\<forall>r \<in> set (audit_log E qs). au_created_at r \<le> rq_now q"
    using snoc.IH snoc.prems le by (auto simp: sorted_append)
  ultimately show ?case
    using audit_step_ok [of E "audit_log E qs" q] assms snoc.prems by fastforce
qed

lemma hex_no_bar: "CHR ''|'' \<notin> set (hex_encode s)"
proof -
  have "CHR ''|'' \<noteq> hex_digit n" if "n < 16" for n
    using that by (auto simp: hex_digit_def dest!: arg_cong [where f = "of_char :: char \<Rightarrow> nat"] simp: of_char_of split: if_splits)
  then have "CHR ''|'' \<notin> set (hex_byte c)" for c
    using nat_of_char_less_256 [of c] by (auto simp: hex_byte_def less_mult_imp_div_less)
  then show ?thesis by (induction s) (simp_all add: hex_encode_def)
qed

lemma chain_prev_plain:
  assumes d: "\<And>t. au_digest E t \<noteq> []"
  shows "hash_chain E prev rs \<Longrightarrow> prev \<noteq> Some [] \<and> CHR ''|'' \<notin> set (text_or_empty prev) \<Longrightarrow>
    r \<in> set rs \<Longrightarrow> au_prev_hash r \<noteq> Some [] \<and> CHR ''|'' \<notin> set (text_or_empty (au_prev_hash r))"
proof (induction rs arbitrary: prev)
  case (Cons x rs)
  have "au_hash x \<noteq> Some [] \<and> CHR ''|'' \<notin> set (text_or_empty (au_hash x))"
    using Cons.prems(1) d hex_no_bar by (auto simp: text_or_empty_def hex_encode_empty)
  then show ?case using Cons.IH [of "au_hash x"] Cons.prems by (cases "r = x") auto
qed simp

text \<open>C27. The last hash of a target's events commits to all of them: if two histories of the log, at
  times that never go back, end in the same hash for a target, they recorded the same events for
  it, in the same order, unless the digest collides.\<close>

theorem audit_log_commits:
  assumes "sorted (map rq_now qs)" "list_all plain_req qs" and "sorted (map rq_now qs')" "list_all plain_req qs'"
    and "target \<noteq> []" and "\<And>t. au_digest E t \<noteq> []"
    and "inj_on (au_jsonb_text E) (au_payload ` (set (audit_log E qs) \<union> set (audit_log E qs')))"
    and "inj_on (au_digest E) (row_text E ` (set (audit_log E qs) \<union> set (audit_log E qs')))"
    and "last_hash None (target_events target (audit_log E qs)) = last_hash None (target_events target (audit_log E qs'))"
  shows "map audit_content (target_events target (audit_log E qs)) = map audit_content (target_events target (audit_log E qs'))"
proof -
  let ?a = "target_events target (audit_log E qs)" and ?b = "target_events target (audit_log E qs')"
  note A = audit_log_ok [OF assms(6) assms(1,2)] and B = audit_log_ok [OF assms(6) assms(3,4)]
  have ca: "hash_chain E None ?a" and cb: "hash_chain E None ?b" using A B assms(5) by (auto simp: audit_ok_def)
  have sub: "set ?a \<subseteq> set (audit_log E qs)" "set ?b \<subseteq> set (audit_log E qs')" by (auto simp: target_events_def)
  have pa: "plain_row r" if "r \<in> set ?a" for r
    using that A sub(1) chain_prev_plain [OF assms(6) ca _ that]
    by (auto simp: plain_row_def row_fields_plain_def text_or_empty_def)
  have pb: "plain_row r" if "r \<in> set ?b" for r
    using that B sub(2) chain_prev_plain [OF assms(6) cb _ that]
    by (auto simp: plain_row_def row_fields_plain_def text_or_empty_def)
  show ?thesis
  proof (rule chain_commits [OF ca cb assms(9)])
    show "inj_on (au_jsonb_text E) (au_payload ` (set ?a \<union> set ?b))"
      by (rule inj_on_subset [OF assms(7)]) (use sub in blast)
    show "inj_on (au_digest E) (row_text E ` (set ?a \<union> set ?b))"
      by (rule inj_on_subset [OF assms(8)]) (use sub in blast)
    show "\<forall>r \<in> set ?a \<union> set ?b. plain_row r" using pa pb by blast
  qed
qed

lemma audit_log_commits_witness:
  "let E = \<lparr>au_digest = (\<lambda>s. ''d'' @ s), au_jsonb_text = (\<lambda>p. [])\<rparr>;
       q = \<lparr>rq_now = 1, rq_actor = ''a'', rq_target = ''t'', rq_type = ''x'', rq_payload = JNull\<rparr>;
       o1 = \<lparr>rq_now = 1, rq_actor = ''a'', rq_target = ''u'', rq_type = ''x'', rq_payload = JNull\<rparr>
   in map audit_content (target_events ''t'' (audit_log E [o1, q])) = map audit_content (target_events ''t'' (audit_log E [q]))"
proof -
  let ?E = "\<lparr>au_digest = (\<lambda>s. ''d'' @ s), au_jsonb_text = (\<lambda>p :: json. [])\<rparr>"
  let ?q = "\<lparr>rq_now = 1, rq_actor = ''a'', rq_target = ''t'', rq_type = ''x'', rq_payload = JNull\<rparr>"
  let ?o = "\<lparr>rq_now = 1, rq_actor = ''a'', rq_target = ''u'', rq_type = ''x'', rq_payload = JNull\<rparr>"
  note ev = audit_log_def audit_step_def append_audit_def Append_def prev_audit_def hashed_text_def nullif_empty_def
    text_or_empty_def target_events_def hex_encode_def hex_byte_def hex_digit_def newer_audit_def Let_def
  have "map audit_content (target_events ''t'' (audit_log ?E [?o, ?q])) = map audit_content (target_events ''t'' (audit_log ?E [?q]))"
  proof (rule audit_log_commits)
    show "inj_on (au_jsonb_text ?E) (au_payload ` (set (audit_log ?E [?o, ?q]) \<union> set (audit_log ?E [?q])))"
      by (simp add: ev)
    show "inj_on (au_digest ?E) (row_text ?E ` (set (audit_log ?E [?o, ?q]) \<union> set (audit_log ?E [?q])))"
      by (simp add: inj_on_def)
    show "last_hash None (target_events ''t'' (audit_log ?E [?o, ?q])) = last_hash None (target_events ''t'' (audit_log ?E [?q]))"
      by (simp add: ev last_hash_def)
  qed (simp_all add: plain_req_def)
  then show ?thesis by (simp only: Let_def)
qed

end
