(* ===== verification/MiniappSessions.thy ===== *)
theory MiniappSessions
  imports MiniappManifest Origins ConversationTables SecurityAudit
begin

text \<open>
  Mini-app sessions of the gateway (\<open>gateway/internal/miniapp/service.go\<close>, \<open>share.go\<close>) over the tables
  of the gateway's migrations 000011, 000014, 000020, 000021, 000042 and 000044, beside the shared ones.  A \<open>jsonb\<close> column
  holds a \<open>json\<close> value; ids are canonical texts of UUIDs, chosen by the database or by \<open>uuid.New\<close>
  and handed in.  One clock serves for the database and for \<open>time.Now()\<close>.  Rows are
  appended at the end; where two rows tie in an \<open>ORDER BY\<close>, the list's order stands for the one the
  database picks.  Redis, whose failures the code ignores, is left out.
\<close>

section \<open>Values\<close>

record SessionParticipant =
  p_UserID :: string
  p_Role :: string
  p_DisplayName :: string

record sessionState =
  st_Snapshot :: "json gomap"
  st_SessionStorage :: "json gomap"
  st_SharedConversationStorage :: "json gomap"
  st_ProjectedMessages :: "json list"

record sessionRecord =
  sr_ID :: string
  sr_ManifestID :: string
  sr_AppID :: string
  sr_AppVersion :: string
  sr_ConversationID :: string
  sr_Participants :: "SessionParticipant slice"
  sr_GlobalPermissions :: "string slice"
  sr_ParticipantPermissions :: "string slice gomap"
  sr_State :: sessionState
  sr_StateVersion :: int
  sr_CreatedBy :: string
  sr_ExpiresAt :: "time option"
  sr_CreatedAt :: "time option"
  sr_EndedAt :: "time option"

record CreateSessionInput =
  ci_ManifestID :: string
  ci_AppID :: string
  ci_ConversationID :: string
  ci_Viewer :: SessionParticipant
  ci_Participants :: "SessionParticipant list"
  ci_GrantedPermissions :: "string slice"
  ci_StateSnapshot :: json
  ci_TTL :: int
  ci_ResumeExisting :: bool

section \<open>Tables\<close>

record sessionRow =
  s_id :: string
  s_manifest_id :: string
  s_app_id :: string
  s_conversation_id :: string
  s_participants :: "json option"
  s_granted_permissions :: json
  s_participant_permissions :: json
  s_state :: "json option"
  s_state_version :: int
  s_created_by :: "string option"
  s_expires_at :: "time option"
  s_created_at :: time
  s_ended_at :: "time option"

record eventRow =
  e_session :: string
  e_seq :: int
  e_actor :: "string option"
  e_type :: string
  e_name :: string
  e_body :: json
  e_created_at :: time

record manifestRow =
  m_id :: string
  m_owner :: string
  m_manifest :: json
  m_created_at :: time

record releaseRow_gw =
  g_app_id :: string
  g_version :: string
  g_manifest_id :: string
  g_publisher :: string
  g_visibility :: string
  g_source_type :: string
  g_entrypoint_origin :: string
  g_preview_origin :: string
  g_manifest_hash :: string
  g_created_at :: time
  g_published_at :: time

record installRow_gw =
  n_user_id :: string
  n_app_id :: string
  n_installed_version :: "string option"
  n_auto_update :: bool
  n_enabled :: bool
  n_installed_at :: time
  n_updated_at :: time

text \<open>\<open>tb_next_seq\<close> is the sequence behind the \<open>serial\<close> column \<open>event_seq\<close>, shared by all sessions.\<close>

record miniTables = convTables +
  tb_sessions :: "sessionRow list"
  tb_events :: "eventRow list"
  tb_next_seq :: int
  tb_manifests :: "manifestRow list"
  tb_releases :: "releaseRow_gw list"
  tb_installs :: "installRow_gw list"
  tb_audits :: "securityEvent list"

text \<open>
  What the service is given: the checks behind signatures, the platform's key when one is
  configured, the audit log's digest, what PostgreSQL answers to the query of
  \<open>CheckReleaseStatus\<close>, which reads columns that the table of migration 000042 does not have,
  whether a replication store is configured, and the printing of times.
\<close>

datatype statusAnswer = StatusError | StatusNoRow | StatusRow string "time option" "time option"

record miniEnv =
  me_checks :: signatureChecks
  me_publicKey :: "platformKey option"
  me_audit :: auditEnv
  me_status :: "string \<Rightarrow> string \<Rightarrow> statusAnswer"
  me_replication :: bool
  me_rfc3339 :: "time \<Rightarrow> string"

type_synonym 'a mini = "miniTables \<Rightarrow> (miniError + 'a) \<times> miniTables"

section \<open>Participants and permissions\<close>

definition normalizeParticipant :: "SessionParticipant \<Rightarrow> SessionParticipant" where
  "normalizeParticipant p = (if p_Role p = [] then p\<lparr>p_Role := ''PLAYER''\<rparr> else p)"

fun normalize_loop :: "string list \<Rightarrow> SessionParticipant list \<Rightarrow> SessionParticipant list" where
  "normalize_loop seen [] = []"
| "normalize_loop seen (p # ps) =
     (if p_UserID p = [] \<or> p_UserID p \<in> set seen then normalize_loop seen ps
      else normalizeParticipant p # normalize_loop (p_UserID p # seen) ps)"

definition no_participant :: SessionParticipant where
  "no_participant = \<lparr>p_UserID = [], p_Role = [], p_DisplayName = []\<rparr>"

definition normalizeParticipants :: "SessionParticipant list \<Rightarrow> SessionParticipant \<Rightarrow> SessionParticipant list" where
  "normalizeParticipants participants viewer =
     (if p_UserID viewer \<noteq> []
      then normalizeParticipant viewer # normalize_loop [p_UserID viewer] participants
      else normalize_loop [] participants)"

definition sanitizeGrantedPermissions :: "string list \<Rightarrow> string list \<Rightarrow> string slice" where
  "sanitizeGrantedPermissions requested allowed =
     (if allowed = [] then None
      else if requested = [] then clone_slice allowed
      else Some (sort_compact (filter (\<lambda>p. p \<in> set allowed) requested)))"

definition pickViewer :: "SessionParticipant list \<Rightarrow> string \<Rightarrow> SessionParticipant" where
  "pickViewer participants createdBy =
     (case find (\<lambda>p. p_UserID p = createdBy) participants of
        Some p \<Rightarrow> p
      | None \<Rightarrow> (case participants of [] \<Rightarrow> no_participant | p # _ \<Rightarrow> p))"

definition viewerForUser :: "SessionParticipant list \<Rightarrow> string \<Rightarrow> SessionParticipant" where
  "viewerForUser participants userID =
     (case find (\<lambda>p. p_UserID p = userID) participants of
        Some p \<Rightarrow> p
      | None \<Rightarrow> \<lparr>p_UserID = userID, p_Role = ''PLAYER'', p_DisplayName = []\<rparr>)"

definition viewerGrantedPermissions :: "sessionRecord \<Rightarrow> string \<Rightarrow> string slice" where
  "viewerGrantedPermissions record userID =
     (case map_of (sr_ParticipantPermissions record) userID of
        Some permissions \<Rightarrow> clone_slice (elems permissions)
      | None \<Rightarrow> if sr_ParticipantPermissions record = [] then clone_slice (elems (sr_GlobalPermissions record))
                else None)"

definition hasJoined :: "sessionRecord \<Rightarrow> string \<Rightarrow> bool" where
  "hasJoined record userID \<longleftrightarrow> map_of (sr_ParticipantPermissions record) userID \<noteq> None
     \<or> (sr_ParticipantPermissions record = [] \<and> userID = sr_CreatedBy record)"

definition cloneParticipantPermissions :: "string slice gomap \<Rightarrow> string slice gomap" where
  "cloneParticipantPermissions value = map (\<lambda>(k, v). (k, clone_slice (elems v))) value"

section \<open>JSON columns\<close>

definition participant_json :: "SessionParticipant \<Rightarrow> json" where
  "participant_json p = JObj ([(''user_id'', JStr (p_UserID p)), (''role'', JStr (p_Role p))]
     @ (if p_DisplayName p = [] then [] else [(''display_name'', JStr (p_DisplayName p))]))"

definition participants_json :: "SessionParticipant list \<Rightarrow> json" where
  "participants_json ps = JArr (map participant_json ps)"

definition permission_map_json :: "string slice gomap \<Rightarrow> json" where
  "permission_map_json m = JObj (map (\<lambda>(k, v). (k, strings_json v)) m)"

definition state_json :: "sessionState \<Rightarrow> json" where
  "state_json st = JObj [(''snapshot'', JObj (st_Snapshot st)), (''session_storage'', JObj (st_SessionStorage st)),
     (''shared_conversation_storage'', JObj (st_SharedConversationStorage st)),
     (''projected_messages'', JArr (st_ProjectedMessages st))]"

text \<open>
  \<open>normalizeJSONObject\<close> and \<open>normalizeMessageList\<close> on decoded values, where \<open>Marshal\<close> followed by
  \<open>Unmarshal\<close> gives the value back: what is not an object becomes the empty map, and a list
  with an element that is neither an object nor \<open>null\<close> becomes the empty list.
\<close>

fun normalizeJSONObject :: "json option \<Rightarrow> json gomap" where
  "normalizeJSONObject (Some (JObj m)) = m"
| "normalizeJSONObject _ = []"

fun object_or_null :: "json \<Rightarrow> bool" where
  "object_or_null (JObj m) = True"
| "object_or_null JNull = True"
| "object_or_null _ = False"

fun normalizeMessageList :: "json option \<Rightarrow> json list" where
  "normalizeMessageList (Some (JArr xs)) = (if list_all object_or_null xs then xs else [])"
| "normalizeMessageList _ = []"

definition defaultSessionState :: "json \<Rightarrow> sessionState" where
  "defaultSessionState snapshot = \<lparr>st_Snapshot = normalizeJSONObject (Some snapshot), st_SessionStorage = [],
     st_SharedConversationStorage = [], st_ProjectedMessages = []\<rparr>"

fun stateEnvelopeFromAny :: "json \<Rightarrow> sessionState" where
  "stateEnvelopeFromAny (JObj envelope) =
     (if map_of envelope ''snapshot'' \<noteq> None
      then \<lparr>st_Snapshot = normalizeJSONObject (map_of envelope ''snapshot''),
            st_SessionStorage = normalizeJSONObject (map_of envelope ''session_storage''),
            st_SharedConversationStorage = normalizeJSONObject (map_of envelope ''shared_conversation_storage''),
            st_ProjectedMessages = normalizeMessageList (map_of envelope ''projected_messages'')\<rparr>
      else defaultSessionState (JObj envelope))"
| "stateEnvelopeFromAny v = defaultSessionState v"

definition decodeSessionState :: "json option \<Rightarrow> sessionState" where
  "decodeSessionState raw = (case raw of None \<Rightarrow> defaultSessionState JNull | Some v \<Rightarrow> stateEnvelopeFromAny v)"

text \<open>\<open>Unmarshal\<close> into slices of structs and of strings; \<open>None\<close> is the error.\<close>

fun unmarshal_participant :: "json \<Rightarrow> SessionParticipant option" where
  "unmarshal_participant JNull = Some no_participant"
| "unmarshal_participant (JObj m) =
     (let body = Some (JObj m) in
      if snd (string_field body ''user_id'') \<and> snd (string_field body ''role'') \<and> snd (string_field body ''display_name'')
      then Some \<lparr>p_UserID = fst (string_field body ''user_id''), p_Role = fst (string_field body ''role''),
                 p_DisplayName = fst (string_field body ''display_name'')\<rparr>
      else None)"
| "unmarshal_participant _ = None"

fun unmarshal_string :: "json \<Rightarrow> string option" where
  "unmarshal_string JNull = Some []"
| "unmarshal_string (JStr s) = Some s"
| "unmarshal_string _ = None"

fun all_some :: "'a option list \<Rightarrow> 'a list option" where
  "all_some [] = Some []"
| "all_some (None # xs) = None"
| "all_some (Some x # xs) = map_option (\<lambda>ys. x # ys) (all_some xs)"

fun unmarshal_slice :: "(json \<Rightarrow> 'a option) \<Rightarrow> json \<Rightarrow> 'a slice option" where
  "unmarshal_slice f JNull = Some None"
| "unmarshal_slice f (JArr xs) = map_option Some (all_some (map f xs))"
| "unmarshal_slice f _ = None"

definition decodeParticipants :: "json option \<Rightarrow> SessionParticipant slice" where
  "decodeParticipants raw =
     (case raw of
        None \<Rightarrow> None
      | Some v \<Rightarrow>
          (case unmarshal_slice unmarshal_participant v of
             Some ps \<Rightarrow> Some (normalizeParticipants (elems ps) no_participant)
           | None \<Rightarrow>
               (case unmarshal_slice unmarshal_string v of
                  Some legacy \<Rightarrow> Some (map (\<lambda>userID. \<lparr>p_UserID = userID, p_Role = ''PLAYER'', p_DisplayName = []\<rparr>)
                                      (filter (\<lambda>userID. userID \<noteq> []) (elems legacy)))
                | None \<Rightarrow> None)))"

definition decodeStringList :: "json \<Rightarrow> string slice" where
  "decodeStringList raw =
     (case unmarshal_slice unmarshal_string raw of None \<Rightarrow> None | Some s \<Rightarrow> map_option sort_compact s)"

fun decodeParticipantPermissions :: "json \<Rightarrow> string slice gomap" where
  "decodeParticipantPermissions (JObj m) =
     (case all_some (map (\<lambda>(k, v). map_option (\<lambda>s. (k, map_option sort_compact s)) (unmarshal_slice unmarshal_string v)) m) of
        None \<Rightarrow> []
      | Some value \<Rightarrow> value)"
| "decodeParticipantPermissions _ = []"

end
