(* ===== verification/MiniappService.thy ===== *)
theory MiniappService
  imports MiniappSessions
begin

text \<open>
  The operations of the mini-app service (\<open>gateway/internal/miniapp/service.go\<close>): manifests and
  installs, sessions, events, snapshots.  An operation takes the tables and returns its error or
  value with the tables it leaves; a statement that PostgreSQL refuses is \<open>MiniDbError\<close>.
\<close>

section \<open>Manifests, releases and installs\<close>

text \<open>\<open>ORDER BY published_at DESC, created_at DESC\<close>.\<close>

definition newest_first :: "releaseRow_gw list \<Rightarrow> releaseRow_gw list" where
  "newest_first rs = sort_key (\<lambda>r. - g_published_at r) (sort_key (\<lambda>r. - g_created_at r) rs)"

definition findPublishedManifestID :: "miniTables \<Rightarrow> string \<Rightarrow> string \<Rightarrow> miniError + string" where
  "findPublishedManifestID T appID version =
     (case find (\<lambda>r. g_app_id r = appID \<and> g_version r = version) (tb_releases T) of
        None \<Rightarrow> Inl ManifestNotFound
      | Some r \<Rightarrow> Inr (g_manifest_id r))"

definition find_manifest :: "miniTables \<Rightarrow> string \<Rightarrow> manifestRow option" where
  "find_manifest T manifestID = find (\<lambda>m. m_id m = manifestID) (tb_manifests T)"

definition manifestHashByID :: "miniEnv \<Rightarrow> miniTables \<Rightarrow> string \<Rightarrow> miniError + string" where
  "manifestHashByID E T manifestID =
     (case find_manifest T manifestID of
        None \<Rightarrow> Inl ManifestNotFound
      | Some m \<Rightarrow> Inr (manifestHashHex (me_checks E) (marshal (m_manifest m))))"

definition publishRelease ::
  "time \<Rightarrow> string \<Rightarrow> string \<Rightarrow> manifest \<Rightarrow> string \<Rightarrow> unit mini" where
  "publishRelease now ownerID manifestID manifest hashHex T =
     (let row = \<lparr>g_app_id = stringField_gw manifest ''app_id'', g_version = stringField_gw manifest ''version'',
          g_manifest_id = manifestID, g_publisher = ownerID, g_visibility = manifestVisibility_gw manifest,
          g_source_type = manifestSourceType_gw manifest,
          g_entrypoint_origin = manifestOriginFromURL (stringField_gw (obj_or_nil (map_of manifest ''entrypoint'')) ''url''),
          g_preview_origin = manifestOriginFromURL (stringField_gw (obj_or_nil (map_of manifest ''message_preview'')) ''url''),
          g_manifest_hash = hashHex, g_created_at = now, g_published_at = now\<rparr>
      in if list_ex (\<lambda>r. g_app_id r = g_app_id row \<and> g_version r = g_version row) (tb_releases T)
         then (Inl MiniDbError, T)
         else (Inr (), T\<lparr>tb_releases := tb_releases T @ [row]\<rparr>))"

definition RegisterManifest :: "miniEnv \<Rightarrow> time \<Rightarrow> string \<Rightarrow> string \<Rightarrow> json \<Rightarrow> string mini" where
  "RegisterManifest E now newID ownerID manifest T =
     (case manifest of
        JNull \<Rightarrow> (Inl ManifestRequired, T)
      | JObj mmap \<Rightarrow>
          (case validateManifest_gw mmap of
             Some e \<Rightarrow> (Inl e, T)
           | None \<Rightarrow>
               if (case me_publicKey E of None \<Rightarrow> False | Some k \<Rightarrow> \<not> verifyManifestSignature (me_checks E) k mmap)
               then (Inl ManifestSignatureInvalid, T)
               else
                 (let hashHex = manifestHashHex (me_checks E) (marshal manifest) in
                  case findPublishedManifestID T (stringField_gw mmap ''app_id'') (stringField_gw mmap ''version'') of
                    Inr existingID \<Rightarrow>
                      (case manifestHashByID E T existingID of
                         Inl e \<Rightarrow> (Inl e, T)
                       | Inr existingHash \<Rightarrow>
                           if existingHash \<noteq> hashHex
                           then (Inl (ManifestInvalid ''app_id/version already published with different manifest''), T)
                           else (Inr existingID, T))
                  | Inl _ \<Rightarrow>
                      if find_manifest T newID \<noteq> None then (Inl MiniDbError, T)
                      else (let T1 = T\<lparr>tb_manifests := tb_manifests T
                                 @ [\<lparr>m_id = newID, m_owner = ownerID, m_manifest = manifest, m_created_at = now\<rparr>]\<rparr>
                            in case publishRelease now ownerID newID mmap hashHex T1 of
                                 (Inl e, T2) \<Rightarrow> (Inl e, T2)
                               | (Inr _, T2) \<Rightarrow> (Inr newID, T2))))
      | _ \<Rightarrow> (Inl (ManifestInvalid ''object required''), T))"

record catalogInstall =
  in_Installed :: bool
  in_InstalledVersion :: string
  in_AutoUpdate :: bool
  in_Enabled :: bool
  in_InstalledAt :: "time option"
  in_UpdatedAt :: "time option"

record catalogEntry =
  ce_ID :: string
  ce_AppID :: string
  ce_Version :: string
  ce_OwnerUserID :: string
  ce_PublisherUserID :: string
  ce_Visibility :: string
  ce_SourceType :: string
  ce_ManifestHash :: string
  ce_EntrypointOrigin :: string
  ce_PreviewOrigin :: string
  ce_Manifest :: "json gomap"
  ce_CreatedAt :: time
  ce_PublishedAt :: time
  ce_Install :: catalogInstall

text \<open>The left join: an empty user id is \<open>NULL\<close> and matches no install.\<close>

definition install_of :: "miniTables \<Rightarrow> string \<Rightarrow> string \<Rightarrow> catalogInstall" where
  "install_of T userID appID =
     (case (if userID = [] then None
            else find (\<lambda>i. n_app_id i = appID \<and> n_user_id i = userID) (tb_installs T)) of
        None \<Rightarrow> \<lparr>in_Installed = False, in_InstalledVersion = [], in_AutoUpdate = False, in_Enabled = False,
                 in_InstalledAt = None, in_UpdatedAt = None\<rparr>
      | Some i \<Rightarrow> \<lparr>in_Installed = (text_or_empty (n_installed_version i) \<noteq> []),
                  in_InstalledVersion = text_or_empty (n_installed_version i), in_AutoUpdate = n_auto_update i,
                  in_Enabled = n_enabled i, in_InstalledAt = Some (n_installed_at i), in_UpdatedAt = Some (n_updated_at i)\<rparr>)"

definition catalog_entry :: "miniTables \<Rightarrow> string \<Rightarrow> releaseRow_gw \<Rightarrow> manifestRow \<Rightarrow> catalogEntry" where
  "catalog_entry T userID r m =
     \<lparr>ce_ID = m_id m, ce_AppID = g_app_id r, ce_Version = g_version r, ce_OwnerUserID = m_owner m,
      ce_PublisherUserID = g_publisher r, ce_Visibility = g_visibility r, ce_SourceType = g_source_type r,
      ce_ManifestHash = g_manifest_hash r, ce_EntrypointOrigin = g_entrypoint_origin r,
      ce_PreviewOrigin = g_preview_origin r, ce_Manifest = obj_or_nil (Some (m_manifest m)),
      ce_CreatedAt = m_created_at m, ce_PublishedAt = g_published_at r, ce_Install = install_of T userID (g_app_id r)\<rparr>"

definition public_releases :: "miniTables \<Rightarrow> (releaseRow_gw \<times> manifestRow) list" where
  "public_releases T =
     concat (map (\<lambda>r. case find_manifest T (g_manifest_id r) of None \<Rightarrow> [] | Some m \<Rightarrow> [(r, m)])
       (newest_first (filter (\<lambda>r. g_visibility r = ''public'') (tb_releases T))))"

definition loadCatalogEntryByAppID :: "miniTables \<Rightarrow> string \<Rightarrow> string \<Rightarrow> miniError + catalogEntry" where
  "loadCatalogEntryByAppID T userID appID =
     (case find (\<lambda>(r, m). g_app_id r = appID) (public_releases T) of
        None \<Rightarrow> Inl ManifestNotFound
      | Some (r, m) \<Rightarrow> Inr (catalog_entry T userID r m))"

text \<open>\<open>DISTINCT ON (app_id) ... ORDER BY app_id\<close>: the newest public release of each app.\<close>

fun distinct_apps :: "(releaseRow_gw \<times> manifestRow) list \<Rightarrow> (releaseRow_gw \<times> manifestRow) list" where
  "distinct_apps [] = []"
| "distinct_apps (x # xs) = x # distinct_apps (filter (\<lambda>y. g_app_id (fst y) \<noteq> g_app_id (fst x)) xs)"

definition ListManifests :: "miniTables \<Rightarrow> string \<Rightarrow> catalogEntry list" where
  "ListManifests T userID =
     map (\<lambda>(r, m). catalog_entry T userID r m) (sort_key (\<lambda>(r, m). g_app_id r) (distinct_apps (public_releases T)))"

definition GetManifestByAppID :: "miniTables \<Rightarrow> string \<Rightarrow> string \<Rightarrow> miniError + catalogEntry" where
  "GetManifestByAppID T userID appID =
     (if appID = [] then Inl ManifestNotFound else loadCatalogEntryByAppID T userID appID)"

definition GetManifestByID :: "miniTables \<Rightarrow> string \<Rightarrow> miniError + manifestRow" where
  "GetManifestByID T manifestID =
     (case find_manifest T manifestID of None \<Rightarrow> Inl ManifestNotFound | Some m \<Rightarrow> Inr m)"

definition InstallApp :: "time \<Rightarrow> string \<Rightarrow> string \<Rightarrow> catalogEntry mini" where
  "InstallApp now userID appID T =
     (case loadCatalogEntryByAppID T userID appID of
        Inl e \<Rightarrow> (Inl e, T)
      | Inr entry \<Rightarrow>
          (let same = (\<lambda>i. n_user_id i = userID \<and> n_app_id i = appID);
               T1 = T\<lparr>tb_installs :=
                 (if list_ex same (tb_installs T)
                  then map (\<lambda>i. if same i then i\<lparr>n_installed_version := Some (ce_Version entry), n_enabled := True,
                                                n_updated_at := now\<rparr> else i) (tb_installs T)
                  else tb_installs T @ [\<lparr>n_user_id = userID, n_app_id = appID,
                         n_installed_version = Some (ce_Version entry), n_auto_update = True, n_enabled = True,
                         n_installed_at = now, n_updated_at = now\<rparr>])\<rparr>
           in (GetManifestByAppID T1 userID appID, T1)))"

definition UninstallApp :: "string \<Rightarrow> string \<Rightarrow> unit mini" where
  "UninstallApp userID appID T =
     (let same = (\<lambda>i. n_user_id i = userID \<and> n_app_id i = appID) in
      if \<not> list_ex same (tb_installs T) then (Inl AppInstallNotFound, T)
      else (Inr (), T\<lparr>tb_installs := filter (\<lambda>i. \<not> same i) (tb_installs T)\<rparr>))"

definition resolveManifest :: "miniTables \<Rightarrow> string \<Rightarrow> string \<Rightarrow> miniError + string \<times> string \<times> string list" where
  "resolveManifest T manifestID appID =
     (if manifestID \<noteq> [] then
        (case GetManifestByID T manifestID of
           Inl e \<Rightarrow> Inl e
         | Inr row \<Rightarrow> (let manifestMap = obj_or_nil (Some (m_manifest row)) in
             Inr (m_id row, stringField_gw manifestMap ''app_id'', permissionsFromManifest manifestMap)))
      else if appID \<noteq> [] then
        (case loadCatalogEntryByAppID T [] appID of
           Inl e \<Rightarrow> Inl e
         | Inr row \<Rightarrow> Inr (ce_ID row, ce_AppID row, permissionsFromManifest (ce_Manifest row)))
      else Inl ManifestNotFound)"

definition manifestPermissionsForAppID :: "miniTables \<Rightarrow> string \<Rightarrow> miniError + string list" where
  "manifestPermissionsForAppID T appID =
     (case loadCatalogEntryByAppID T [] appID of
        Inl e \<Rightarrow> Inl e
      | Inr row \<Rightarrow> Inr (permissionsFromManifest (ce_Manifest row)))"

record ReleaseStatus =
  rs_AppID :: string
  rs_Version :: string
  rs_ReviewStatus :: string
  rs_RevokedAt :: "time option"
  rs_SuspendedAt :: "time option"
  rs_SuspensionReason :: string

definition CheckReleaseStatus :: "miniEnv \<Rightarrow> string \<Rightarrow> string \<Rightarrow> miniError + ReleaseStatus" where
  "CheckReleaseStatus E appID version =
     (if appID = [] \<or> version = [] then Inl ManifestNotFound
      else case me_status E appID version of
        StatusNoRow \<Rightarrow> Inl ManifestNotFound
      | StatusError \<Rightarrow> Inl MiniDbError
      | StatusRow review suspendedAt revokedAt \<Rightarrow>
          Inr \<lparr>rs_AppID = appID, rs_Version = version, rs_ReviewStatus = review, rs_RevokedAt = revokedAt,
               rs_SuspendedAt = suspendedAt, rs_SuspensionReason = []\<rparr>)"

definition IsReleaseAvailable :: "miniEnv \<Rightarrow> string \<Rightarrow> string \<Rightarrow> miniError + bool" where
  "IsReleaseAvailable E appID version =
     (case CheckReleaseStatus E appID version of
        Inl e \<Rightarrow> Inl e
      | Inr status \<Rightarrow> Inr (\<not> (rs_SuspendedAt status \<noteq> None \<or> rs_RevokedAt status \<noteq> None)))"

section \<open>Sessions\<close>

definition find_session :: "miniTables \<Rightarrow> string \<Rightarrow> sessionRow option" where
  "find_session T sessionID = find (\<lambda>s. s_id s = sessionID) (tb_sessions T)"

definition update_session :: "string \<Rightarrow> (sessionRow \<Rightarrow> sessionRow) \<Rightarrow> miniTables \<Rightarrow> miniTables" where
  "update_session sessionID f T =
     T\<lparr>tb_sessions := map (\<lambda>s. if s_id s = sessionID then f s else s) (tb_sessions T)\<rparr>"

text \<open>The primary key and the unique index on the active sessions of an app and a conversation.\<close>

definition insert_session :: "sessionRow \<Rightarrow> miniTables \<Rightarrow> miniTables option" where
  "insert_session row T =
     (if find_session T (s_id row) \<noteq> None
         \<or> list_ex (\<lambda>s. s_app_id s = s_app_id row \<and> s_conversation_id s = s_conversation_id row
                        \<and> s_ended_at s = None \<and> s_ended_at row = None) (tb_sessions T)
      then None
      else Some (T\<lparr>tb_sessions := tb_sessions T @ [row]\<rparr>))"

definition record_of_row :: "miniTables \<Rightarrow> sessionRow \<Rightarrow> sessionRecord" where
  "record_of_row T s =
     \<lparr>sr_ID = s_id s, sr_ManifestID = s_manifest_id s, sr_AppID = s_app_id s,
      sr_AppVersion = (case newest_first (filter (\<lambda>r. g_manifest_id r = s_manifest_id s) (tb_releases T)) of
         [] \<Rightarrow> [] | r # _ \<Rightarrow> g_version r),
      sr_ConversationID = s_conversation_id s, sr_Participants = decodeParticipants (s_participants s),
      sr_GlobalPermissions = decodeStringList (s_granted_permissions s),
      sr_ParticipantPermissions = decodeParticipantPermissions (s_participant_permissions s),
      sr_State = decodeSessionState (s_state s), sr_StateVersion = s_state_version s,
      sr_CreatedBy = text_or_empty (s_created_by s), sr_ExpiresAt = s_expires_at s,
      sr_CreatedAt = Some (s_created_at s), sr_EndedAt = s_ended_at s\<rparr>"

definition loadSessionRecord :: "miniTables \<Rightarrow> string \<Rightarrow> miniError + sessionRecord" where
  "loadSessionRecord T sessionID =
     (case find_session T sessionID of None \<Rightarrow> Inl SessionNotFound | Some s \<Rightarrow> Inr (record_of_row T s))"

definition active_session :: "string \<Rightarrow> string \<Rightarrow> sessionRow \<Rightarrow> bool" where
  "active_session appID conversationID s \<longleftrightarrow>
     s_app_id s = appID \<and> s_conversation_id s = conversationID \<and> s_ended_at s = None"

definition newest_session :: "sessionRow list \<Rightarrow> sessionRow list" where
  "newest_session ss = sort_key (\<lambda>s. - s_created_at s) ss"

definition findActiveSession :: "miniTables \<Rightarrow> string \<Rightarrow> string \<Rightarrow> miniError + sessionRecord" where
  "findActiveSession T appID conversationID =
     (case newest_session (filter (active_session appID conversationID) (tb_sessions T)) of
        [] \<Rightarrow> Inl SessionNotFound
      | s # _ \<Rightarrow> loadSessionRecord T (s_id s))"

definition refreshSession :: "time \<Rightarrow> string \<Rightarrow> SessionParticipant list \<Rightarrow> int \<Rightarrow> miniTables \<Rightarrow> miniTables" where
  "refreshSession now sessionID participants ttl T =
     update_session sessionID (\<lambda>s. s\<lparr>s_participants := Some (participants_json participants),
       s_expires_at := Some (now + ttl)\<rparr>) T"

section \<open>Views of a session\<close>

text \<open>
  The maps of \<open>sessionRecordToMap\<close> and \<open>sessionRecordToMapForUser\<close> with their launch contexts.  The
  keys \<open>app_version\<close>, \<open>app_origin\<close> and \<open>csp_header\<close> are in the first map only, \<open>consent_required\<close> in the
  second; a key that is missing is \<open>None\<close>.
\<close>

record sessionView =
  vw_record :: sessionRecord
  vw_viewer :: SessionParticipant
  vw_capabilities_granted :: "string slice"
  vw_app_version :: "string option"
  vw_origin :: "OriginConfig option"
  vw_consent_required :: "bool option"
  vw_joinable :: bool

definition sessionRecordToMap :: "miniEnv \<Rightarrow> sessionRecord \<Rightarrow> sessionView" where
  "sessionRecordToMap E record =
     (let viewer = pickViewer (elems (sr_Participants record)) (sr_CreatedBy record) in
      \<lparr>vw_record = record, vw_viewer = viewer,
       vw_capabilities_granted = viewerGrantedPermissions record (p_UserID viewer),
       vw_app_version = Some (sr_AppVersion record),
       vw_origin = GenerateOriginConfig (sha256_sum (me_checks E)) (sr_AppID record) (sr_AppVersion record) ''miniapp.local'' 8,
       vw_consent_required = None, vw_joinable = (sr_EndedAt record = None)\<rparr>)"

definition consent_required_for :: "sessionRecord \<Rightarrow> string \<Rightarrow> string list \<Rightarrow> bool" where
  "consent_required_for record userID permitted \<longleftrightarrow> permitted \<noteq> [] \<and> \<not> hasJoined record userID"

definition sessionRecordToMapForUser :: "sessionRecord \<Rightarrow> string \<Rightarrow> string list \<Rightarrow> sessionView" where
  "sessionRecordToMapForUser record userID permitted =
     \<lparr>vw_record = record, vw_viewer = viewerForUser (elems (sr_Participants record)) userID,
      vw_capabilities_granted = viewerGrantedPermissions record userID, vw_app_version = None, vw_origin = None,
      vw_consent_required = Some (consent_required_for record userID permitted),
      vw_joinable = (sr_EndedAt record = None)\<rparr>"

definition GetSession_gw :: "miniEnv \<Rightarrow> miniTables \<Rightarrow> string \<Rightarrow> miniError + sessionView" where
  "GetSession_gw E T sessionID =
     (case loadSessionRecord T sessionID of Inl e \<Rightarrow> Inl e | Inr record \<Rightarrow> Inr (sessionRecordToMap E record))"

section \<open>Events\<close>

definition event_types :: "string list" where
  "event_types = [''session_created'', ''session_joined'', ''storage_updated'', ''snapshot_written'', ''message_projected'']"

definition max_int4 :: int where
  "max_int4 = 2147483647"

text \<open>One hour, which \<open>AppendEvent\<close> and \<open>SnapshotSession\<close> give a session.\<close>

definition session_hour :: int where
  "session_hour = 3600 * Second"

definition AppendEvent :: "time \<Rightarrow> string \<Rightarrow> string \<Rightarrow> string \<Rightarrow> string \<Rightarrow> json \<Rightarrow> int mini" where
  "AppendEvent now sessionID actorID eventType eventName body T =
     (if eventType = [] then (Inl (PlainError ''event_type required''), T)
      else case loadSessionRecord T sessionID of
        Inl e \<Rightarrow> (Inl e, T)
      | Inr record \<Rightarrow>
          if sr_EndedAt record \<noteq> None then (Inl SessionEnded, T)
          else if eventType \<notin> set event_types \<or> max_int4 < tb_next_seq T then (Inl MiniDbError, T)
          else
            (let seq = tb_next_seq T;
                 row = \<lparr>e_session = sessionID, e_seq = seq, e_actor = nullif_empty actorID, e_type = eventType,
                        e_name = eventName, e_body = body, e_created_at = now\<rparr>;
                 T1 = T\<lparr>tb_events := tb_events T @ [row], tb_next_seq := seq + 1\<rparr>
             in (Inr seq, update_session sessionID (\<lambda>s. s\<lparr>s_expires_at := Some (now + session_hour)\<rparr>) T1)))"

definition logSessionCreated ::
  "time \<Rightarrow> string \<Rightarrow> string \<Rightarrow> SessionParticipant list \<Rightarrow> string slice \<Rightarrow> int mini" where
  "logSessionCreated now sessionID actorID participants permissions =
     AppendEvent now sessionID actorID ''session_created'' []
       (JObj [(''participant_count'', json_nat (length participants)), (''permissions'', strings_json permissions),
              (''participants'', participants_json participants)])"

definition logSessionJoined ::
  "time \<Rightarrow> string \<Rightarrow> string \<Rightarrow> SessionParticipant \<Rightarrow> string slice \<Rightarrow> int mini" where
  "logSessionJoined now sessionID actorID participant permissions =
     AppendEvent now sessionID actorID ''session_joined'' []
       (JObj [(''participant'', participant_json participant), (''permissions'', strings_json permissions)])"

definition logStorageUpdated :: "time \<Rightarrow> string \<Rightarrow> string \<Rightarrow> string \<Rightarrow> nat \<Rightarrow> int mini" where
  "logStorageUpdated now sessionID actorID bridgeMethod stateSize =
     AppendEvent now sessionID actorID ''storage_updated'' bridgeMethod
       (JObj [(''bridge_method'', JStr bridgeMethod), (''state_size'', json_nat stateSize)])"

definition logSnapshotWritten :: "time \<Rightarrow> string \<Rightarrow> string \<Rightarrow> int \<Rightarrow> nat \<Rightarrow> int mini" where
  "logSnapshotWritten now sessionID actorID stateVersion stateSize =
     AppendEvent now sessionID actorID ''snapshot_written'' []
       (JObj [(''state_version'', json_nat (nat stateVersion)), (''state_size'', json_nat stateSize)])"

definition logMessageProjected :: "time \<Rightarrow> string \<Rightarrow> string \<Rightarrow> json gomap option \<Rightarrow> int mini" where
  "logMessageProjected now sessionID messageID messageMetadata =
     AppendEvent now sessionID [] ''message_projected'' []
       (JObj ([(''message_id'', JStr messageID)]
          @ (case messageMetadata of None \<Rightarrow> [] | Some m \<Rightarrow> [(''message_metadata'', JObj m)])))"

record SessionEvent =
  se_EventSeq :: int
  se_EventType :: string
  se_ActorID :: "string option"
  se_Body :: json
  se_CreatedAt :: time

text \<open>Rows in order of their sequence number; a body that is not an object is shown as the empty
  map, \<open>null\<close> as the nil map.\<close>

definition event_of_row :: "eventRow \<Rightarrow> SessionEvent" where
  "event_of_row e = \<lparr>se_EventSeq = e_seq e, se_EventType = e_type e, se_ActorID = e_actor e,
     se_Body = (case e_body e of JObj m \<Rightarrow> JObj m | JNull \<Rightarrow> JNull | _ \<Rightarrow> JObj []), se_CreatedAt = e_created_at e\<rparr>"

definition session_events :: "miniTables \<Rightarrow> string \<Rightarrow> eventRow list" where
  "session_events T sessionID = sort_key e_seq (filter (\<lambda>e. e_session e = sessionID) (tb_events T))"

definition GetSessionEvents ::
  "miniTables \<Rightarrow> string \<Rightarrow> string option \<Rightarrow> int \<Rightarrow> int \<Rightarrow> int option \<Rightarrow> miniError + SessionEvent list" where
  "GetSessionEvents T sessionID eventType limit offset sinceSeq =
     (let limit = (if limit \<le> 0 then 100 else limit);
          limit = (if limit > 1000 then 1000 else limit);
          offset = (if offset < 0 then 0 else offset);
          rows = session_events T sessionID;
          floor = (case sinceSeq of
                     Some since \<Rightarrow> Some since
                   | None \<Rightarrow> if offset > 0
                             then Some (if rows = [] then 0 else Max (set (map e_seq rows)) - offset)
                             else None);
          bound = (case sinceSeq of Some since \<Rightarrow> since | None \<Rightarrow> offset);
          after = (case floor of None \<Rightarrow> rows | Some f \<Rightarrow> filter (\<lambda>e. e_seq e > f) rows);
          typed = (case eventType of
                     None \<Rightarrow> after
                   | Some ty \<Rightarrow> if ty = [] then after else filter (\<lambda>e. e_type e = ty) after)
      in if bound < - max_int4 - 1 \<or> max_int4 < bound then Inl MiniDbError
         else Inr (map event_of_row (take (nat limit) typed)))"

section \<open>Creating, ending and saving sessions\<close>

text \<open>The release check: an error of the query is ignored.\<close>

definition release_block :: "miniEnv \<Rightarrow> string \<Rightarrow> string \<Rightarrow> miniError option" where
  "release_block E appID version =
     (case CheckReleaseStatus E appID version of
        Inl _ \<Rightarrow> None
      | Inr status \<Rightarrow>
          if rs_SuspendedAt status \<noteq> None
          then Some (PlainError (''release_suspended: '' @ rs_SuspensionReason status))
          else if rs_RevokedAt status \<noteq> None then Some (PlainError ''release_revoked'')
          else None)"

definition create_row ::
  "time \<Rightarrow> string \<Rightarrow> string \<Rightarrow> string \<Rightarrow> CreateSessionInput \<Rightarrow> SessionParticipant list \<Rightarrow> string slice \<Rightarrow> int \<Rightarrow> sessionRow" where
  "create_row now newID manifestID appID input participants granted ttl =
     (let viewer = p_UserID (ci_Viewer input) in
      \<lparr>s_id = newID, s_manifest_id = manifestID, s_app_id = appID, s_conversation_id = ci_ConversationID input,
       s_participants = Some (participants_json participants), s_granted_permissions = strings_json granted,
       s_participant_permissions = permission_map_json (if viewer \<noteq> [] then [(viewer, clone_slice (elems granted))] else []),
       s_state = Some (state_json (defaultSessionState (ci_StateSnapshot input))),
       s_state_version = 1, s_created_by = nullif_empty viewer, s_expires_at = Some (now + ttl), s_created_at = now,
       s_ended_at = None\<rparr>)"

definition insert_new_session ::
  "miniEnv \<Rightarrow> time \<Rightarrow> string \<Rightarrow> sessionRow \<Rightarrow> SessionParticipant list \<Rightarrow> string slice \<Rightarrow> (sessionView \<times> bool) mini" where
  "insert_new_session E now actorID row participants granted T =
     (case insert_session row T of
        None \<Rightarrow> (Inl MiniDbError, T)
      | Some T1 \<Rightarrow>
          (let T2 = snd (logSessionCreated now (s_id row) actorID participants granted T1)
           in (case GetSession_gw E T2 (s_id row) of Inl e \<Rightarrow> Inl e | Inr view \<Rightarrow> Inr (view, True), T2)))"

definition CreateSession :: "miniEnv \<Rightarrow> time \<Rightarrow> string \<Rightarrow> CreateSessionInput \<Rightarrow> (sessionView \<times> bool) mini" where
  "CreateSession E now newID input T =
     (if ci_ConversationID input = [] then (Inl (PlainError ''conversation_id required''), T)
      else
      (let ttl = (if ci_TTL input \<le> 0 then 30 * 60 * Second else ci_TTL input) in
       case resolveManifest T (ci_ManifestID input) (ci_AppID input) of
         Inl e \<Rightarrow> (Inl e, T)
       | Inr (manifestID, appID, permitted) \<Rightarrow>
       (case loadCatalogEntryByAppID T (p_UserID (ci_Viewer input)) appID of
          Inl e \<Rightarrow> (Inl e, T)
        | Inr entry \<Rightarrow>
        if ce_PublishedAt entry = 0 then (Inl (PlainError ''release_not_available''), T)
        else
        (case release_block E appID (ce_Version entry) of
           Some e \<Rightarrow> (Inl e, T)
         | None \<Rightarrow>
         (let viewer = normalizeParticipant (ci_Viewer input);
              participants = normalizeParticipants (ci_Participants input) viewer;
              granted0 = sanitizeGrantedPermissions (elems (ci_GrantedPermissions input)) permitted;
              granted = (if elems granted0 = [] then clone_slice permitted else granted0);
              row = create_row now newID manifestID appID input participants granted ttl
          in case (if ci_ResumeExisting input then findActiveSession T appID (ci_ConversationID input)
                   else Inl SessionNotFound) of
               Inr existing \<Rightarrow>
                 (let T1 = refreshSession now (sr_ID existing) participants ttl T
                  in (case GetSession_gw E T1 (sr_ID existing) of Inl e \<Rightarrow> Inl e | Inr view \<Rightarrow> Inr (view, False), T1))
             | Inl _ \<Rightarrow> insert_new_session E now (p_UserID viewer) row participants granted T)))))"

definition EndSession :: "time \<Rightarrow> string \<Rightarrow> unit mini" where
  "EndSession now sessionID T =
     (case find_session T sessionID of
        None \<Rightarrow> (Inl SessionNotFound, T)
      | Some s \<Rightarrow>
          if s_ended_at s \<noteq> None then (Inl SessionEnded, T)
          else (Inr (), update_session sessionID (\<lambda>s. s\<lparr>s_ended_at := Some now\<rparr>) T))"

definition SnapshotSession :: "time \<Rightarrow> string \<Rightarrow> json \<Rightarrow> int \<Rightarrow> string \<Rightarrow> int mini" where
  "SnapshotSession now sessionID state version actorID T =
     (case find_session T sessionID of
        None \<Rightarrow> (Inl SessionNotFound, T)
      | Some s \<Rightarrow>
          if s_ended_at s \<noteq> None then (Inl SessionEnded, T)
          else
            (let nextVersion = (if version \<le> 0 then s_state_version s + 1 else version) in
             if nextVersion \<le> s_state_version s then (Inl StateVersionConflict, T)
             else if max_int4 < nextVersion then (Inl MiniDbError, T)
             else
               (let stateB = state_json (stateEnvelopeFromAny state);
                    T1 = update_session sessionID (\<lambda>s. s\<lparr>s_state := Some stateB, s_state_version := nextVersion,
                           s_expires_at := Some (now + session_hour)\<rparr>) T;
                    T2 = snd (logSnapshotWritten now sessionID actorID nextVersion (length (marshal stateB)) T1)
                in (Inr nextVersion, T2))))"

text \<open>All active sessions of the app end; the version is not looked at.\<close>

definition TerminateSessionsForRelease :: "time \<Rightarrow> string \<Rightarrow> string \<Rightarrow> nat mini" where
  "TerminateSessionsForRelease now appID version T =
     (let sessionIDs = map s_id (filter (\<lambda>s. s_app_id s = appID \<and> s_ended_at s = None) (tb_sessions T))
      in (Inr (length sessionIDs), fold (\<lambda>sessionID T. snd (EndSession now sessionID T)) sessionIDs T))"

section \<open>Sessions on behalf of a user\<close>

definition is_member :: "miniTables \<Rightarrow> string \<Rightarrow> string \<Rightarrow> bool" where
  "is_member T userID conversationID \<longleftrightarrow>
     list_ex (\<lambda>m. cm_conversation_id m = conversationID \<and> cm_user_id m = userID) (tb_members T)"

definition ensureConversationMember :: "miniTables \<Rightarrow> string \<Rightarrow> string \<Rightarrow> miniError option" where
  "ensureConversationMember T userID conversationID =
     (if is_member T userID conversationID then None else Some (PlainError ''conversation_access_denied''))"

definition GetSessionForUser :: "miniTables \<Rightarrow> string \<Rightarrow> string \<Rightarrow> miniError + sessionView" where
  "GetSessionForUser T userID sessionID =
     (case loadSessionRecord T sessionID of
        Inl e \<Rightarrow> Inl e
      | Inr record \<Rightarrow>
          (case ensureConversationMember T userID (sr_ConversationID record) of
             Some e \<Rightarrow> Inl e
           | None \<Rightarrow>
               (case manifestPermissionsForAppID T (sr_AppID record) of
                  Inl e \<Rightarrow> Inl e
                | Inr permitted \<Rightarrow> Inr (sessionRecordToMapForUser record userID permitted))))"

definition JoinSession :: "time \<Rightarrow> string \<Rightarrow> string \<Rightarrow> string slice \<Rightarrow> sessionView mini" where
  "JoinSession now userID sessionID grantedPermissions T =
     (case loadSessionRecord T sessionID of
        Inl e \<Rightarrow> (Inl e, T)
      | Inr record \<Rightarrow>
          if sr_EndedAt record \<noteq> None then (Inl SessionEnded, T)
          else (case ensureConversationMember T userID (sr_ConversationID record) of
             Some e \<Rightarrow> (Inl e, T)
           | None \<Rightarrow>
               (case manifestPermissionsForAppID T (sr_AppID record) of
                  Inl e \<Rightarrow> (Inl e, T)
                | Inr permitted \<Rightarrow>
                    (let normalized = (if grantedPermissions = None then clone_slice permitted
                                       else sanitizeGrantedPermissions (elems grantedPermissions) permitted);
                         participantPermissions = AList.update userID normalized
                           (cloneParticipantPermissions (sr_ParticipantPermissions record));
                         participant = \<lparr>p_UserID = userID, p_Role = ''PLAYER'', p_DisplayName = []\<rparr>;
                         participants = normalizeParticipants (elems (sr_Participants record)) participant;
                         T1 = update_session sessionID (\<lambda>s. s\<lparr>s_participants := Some (participants_json participants),
                                s_participant_permissions := permission_map_json participantPermissions\<rparr>) T;
                         T2 = snd (logSessionJoined now sessionID userID participant normalized T1)
                     in (Inr (sessionRecordToMapForUser
                           (record\<lparr>sr_Participants := Some participants,
                                   sr_ParticipantPermissions := participantPermissions\<rparr>) userID permitted), T2)))))"

definition CreateSessionForUser ::
  "miniEnv \<Rightarrow> time \<Rightarrow> string \<Rightarrow> string \<Rightarrow> CreateSessionInput \<Rightarrow> (sessionView \<times> bool) mini" where
  "CreateSessionForUser E now newID userID input T =
     (let input = (if p_UserID (ci_Viewer input) = []
                   then input\<lparr>ci_Viewer := (ci_Viewer input)\<lparr>p_UserID := userID\<rparr>\<rparr> else input)
      in case CreateSession E now newID input T of
           (Inl e, T1) \<Rightarrow> (Inl e, T1)
         | (Inr (view, created), T1) \<Rightarrow>
             (let sessionID = sr_ID (vw_record view) in
              if sessionID = [] then (Inl (PlainError ''app_session_id missing''), T1)
              else case JoinSession now userID sessionID (ci_GrantedPermissions input) T1 of
                (Inl e, T2) \<Rightarrow> (Inl e, T2)
              | (Inr _, T2) \<Rightarrow>
                  (case GetSessionForUser T2 userID sessionID of
                     Inl e \<Rightarrow> (Inl e, T2)
                   | Inr view' \<Rightarrow> (Inr (view', created), T2))))"

definition EndSessionForUser :: "time \<Rightarrow> string \<Rightarrow> string \<Rightarrow> unit mini" where
  "EndSessionForUser now userID sessionID T =
     (case loadSessionRecord T sessionID of
        Inl e \<Rightarrow> (Inl e, T)
      | Inr record \<Rightarrow>
          if sr_EndedAt record \<noteq> None then (Inl SessionEnded, T)
          else (case ensureConversationMember T userID (sr_ConversationID record) of
             Some e \<Rightarrow> (Inl e, T)
           | None \<Rightarrow> EndSession now sessionID T))"

text \<open>\<open>validateBridgeMethodWithRateLimit\<close>: any granted capability allows every method.\<close>

definition validateBridgeMethodWithRateLimit :: "string list \<Rightarrow> string \<Rightarrow> miniError option" where
  "validateBridgeMethodWithRateLimit grantedCapabilities methodName =
     (if grantedCapabilities = [] then Some BridgeMethodNotAllowed else None)"

definition auditLogCapabilityAllowed :: "miniEnv \<Rightarrow> time \<Rightarrow> string \<Rightarrow> string \<Rightarrow> string \<Rightarrow> miniTables \<Rightarrow> miniTables" where
  "auditLogCapabilityAllowed E now userID sessionID bridgeMethod T =
     T\<lparr>tb_audits := append_audit (me_audit E) now userID userID ''bridge_method_allowed''
       (JObj [(''session_id'', JStr sessionID), (''bridge_method'', JStr bridgeMethod), (''allowed'', JBool True)])
       (tb_audits T)\<rparr>"

definition auditLogCapabilityDenied ::
  "miniEnv \<Rightarrow> time \<Rightarrow> string \<Rightarrow> string \<Rightarrow> string \<Rightarrow> string \<Rightarrow> miniTables \<Rightarrow> miniTables" where
  "auditLogCapabilityDenied E now userID sessionID bridgeMethod reason T =
     T\<lparr>tb_audits := append_audit (me_audit E) now userID userID ''bridge_method_denied''
       (JObj [(''session_id'', JStr sessionID), (''bridge_method'', JStr bridgeMethod), (''allowed'', JBool False),
              (''deny_reason'', JStr reason)])
       (tb_audits T)\<rparr>"

definition AppendEventForUser :: "miniEnv \<Rightarrow> time \<Rightarrow> string \<Rightarrow> string \<Rightarrow> string \<Rightarrow> json \<Rightarrow> int mini" where
  "AppendEventForUser E now userID sessionID eventName body T =
     (case loadSessionRecord T sessionID of
        Inl e \<Rightarrow> (Inl e, T)
      | Inr record \<Rightarrow>
          if sr_EndedAt record \<noteq> None then (Inl SessionEnded, T)
          else (case ensureConversationMember T userID (sr_ConversationID record) of
             Some e \<Rightarrow> (Inl e, T)
           | None \<Rightarrow>
               if \<not> hasJoined record userID then (Inl MiniAppConsent, T)
               else (case validateBridgeMethodWithRateLimit (elems (viewerGrantedPermissions record userID)) eventName of
                 Some err \<Rightarrow>
                   (Inl (if err = BridgeMethodRateLimited then BridgeMethodRateLimited else BridgeMethodNotAllowed),
                    auditLogCapabilityDenied E now userID sessionID eventName ''bridge_method_not_allowed'' T)
               | None \<Rightarrow>
                   AppendEvent now sessionID userID ''storage_updated'' eventName body
                     (auditLogCapabilityAllowed E now userID sessionID eventName T))))"

definition SnapshotSessionForUser :: "time \<Rightarrow> string \<Rightarrow> string \<Rightarrow> json \<Rightarrow> int \<Rightarrow> int mini" where
  "SnapshotSessionForUser now userID sessionID state version T =
     (case loadSessionRecord T sessionID of
        Inl e \<Rightarrow> (Inl e, T)
      | Inr record \<Rightarrow>
          if sr_EndedAt record \<noteq> None then (Inl SessionEnded, T)
          else (case ensureConversationMember T userID (sr_ConversationID record) of
             Some e \<Rightarrow> (Inl e, T)
           | None \<Rightarrow>
               if \<not> hasJoined record userID then (Inl MiniAppConsent, T)
               else SnapshotSession now sessionID state version userID T))"

end
