(* ===== verification/MiniappShare.thy ===== *)
theory MiniappShare
  imports MiniappService
begin

text \<open>
  Sharing a session into a conversation (\<open>gateway/internal/miniapp/share.go\<close>): one transaction that
  creates or updates the session, posts an app card and records its domain event.  When a step
  fails the transaction is rolled back, so an error leaves the tables as they were.
\<close>

section \<open>The app card\<close>

definition iconURLFromManifest :: "manifest \<Rightarrow> string" where
  "iconURLFromManifest manifest =
     (let rawIcons = (case as_arr (map_of manifest ''icons'') of None \<Rightarrow> [] | Some vs \<Rightarrow> vs);
          urls = concat (map (\<lambda>raw. let icon = obj_or_nil (Some raw) in
             [stringField_gw icon ''url'', stringField_gw icon ''src'']) rawIcons)
      in case find (\<lambda>u. u \<noteq> []) urls of None \<Rightarrow> [] | Some u \<Rightarrow> u)"

definition buildAppCardSummary :: "manifest \<Rightarrow> string \<Rightarrow> string" where
  "buildAppCardSummary manifest title =
     (let metadata = obj_or_nil (map_of manifest ''metadata'') in
      if stringField_gw metadata ''summary'' \<noteq> [] then stringField_gw metadata ''summary''
      else if stringField_gw metadata ''description'' \<noteq> [] then stringField_gw metadata ''description''
      else ''Open '' @ title @ '' in this conversation.'')"

text \<open>A nil map is printed as \<open>null\<close>.\<close>

definition buildAppCardPreview :: "manifest \<Rightarrow> json" where
  "buildAppCardPreview manifest =
     (case as_obj (map_of manifest ''message_preview'') of
        None \<Rightarrow> JNull
      | Some rawPreview \<Rightarrow>
          (let previewType = stringField_gw rawPreview ''type''; previewURL = stringField_gw rawPreview ''url'';
               altText = stringField_gw rawPreview ''alt_text''; fitMode = stringField_gw rawPreview ''fit_mode'' in
           if previewType = [] \<or> previewURL = [] then JNull
           else JObj ([(''type'', JStr previewType), (''url'', JStr previewURL)]
             @ (if altText \<noteq> [] then [(''alt_text'', JStr altText)] else [])
             @ [(''fit_mode'', JStr (if fitMode = [] then ''scale'' else fitMode))])))"

definition cloneMap :: "json gomap \<Rightarrow> json" where
  "cloneMap m = (if m = [] then JNull else JObj m)"

definition buildAppCardContent :: "manifest \<Rightarrow> sessionRecord \<Rightarrow> json gomap" where
  "buildAppCardContent manifest record =
     (let name = stringField_gw manifest ''name'';
          title = (if name = [] then sr_AppID record else name)
      in [(''card_version'', JNum ''1''), (''share_mode'', JStr ''shared_session''), (''app_id'', JStr (sr_AppID record)),
          (''manifest_id'', JStr (sr_ManifestID record)), (''app_session_id'', JStr (sr_ID record)),
          (''title'', JStr title), (''summary'', JStr (buildAppCardSummary manifest title)),
          (''icon_url'', JStr (iconURLFromManifest manifest)), (''message_preview'', buildAppCardPreview manifest),
          (''preview_state'', cloneMap (st_Snapshot (sr_State record))), (''cta_label'', JStr ''Open''),
          (''joinable'', JBool True)])"

section \<open>Members and messages\<close>

definition loadConversationParticipantsTx :: "miniTables \<Rightarrow> string \<Rightarrow> SessionParticipant list" where
  "loadConversationParticipantsTx T conversationID =
     normalizeParticipants
       (concat (map (\<lambda>m. case find (\<lambda>u. u_id u = cm_user_id m) (tb_users T) of
            None \<Rightarrow> []
          | Some u \<Rightarrow> [\<lparr>p_UserID = cm_user_id m, p_Role = ''PLAYER'',
              p_DisplayName = (if text_or_empty (u_display_name u) \<noteq> [] then text_or_empty (u_display_name u)
                               else case u_phone u of Some ph \<Rightarrow> ph | None \<Rightarrow> cm_user_id m)\<rparr>])
          (sort_key cm_joined_at (filter (\<lambda>m. cm_conversation_id m = conversationID) (tb_members T)))))
       no_participant"

definition ensureMiniAppEligibleTx :: "miniTables \<Rightarrow> SessionParticipant list \<Rightarrow> miniError option" where
  "ensureMiniAppEligibleTx T participants =
     (if list_all (\<lambda>p. list_ex (\<lambda>d. dv_user_id d = p_UserID p \<and> ''MINI_APPS'' \<in> set (dv_capabilities d)) (tb_devices T))
           participants
      then None else Some MiniAppUnsupported)"

definition findActiveSessionTx :: "miniTables \<Rightarrow> string \<Rightarrow> string \<Rightarrow> miniError + sessionRecord" where
  "findActiveSessionTx T appID conversationID =
     (case newest_session (filter (active_session appID conversationID) (tb_sessions T)) of
        [] \<Rightarrow> Inl SessionNotFound
      | s # _ \<Rightarrow> Inr ((record_of_row T s)\<lparr>sr_AppVersion := []\<rparr>))"

definition conversationRecipients :: "SessionParticipant list \<Rightarrow> string \<Rightarrow> string list" where
  "conversationRecipients participants senderUserID =
     filter (\<lambda>u. u \<noteq> [] \<and> u \<noteq> senderUserID) (map p_UserID participants)"

record cardMessage =
  cd_message_id :: string
  cd_content :: "json gomap"
  cd_server_order :: int
  cd_created_at :: time

text \<open>The counter, the message and the conversation's last message; \<open>None\<close> when a statement fails.\<close>

definition insertAppCardMessageTx ::
  "time \<Rightarrow> string \<Rightarrow> string \<Rightarrow> string \<Rightarrow> json gomap \<Rightarrow> miniTables \<Rightarrow> (cardMessage \<times> miniTables) option" where
  "insertAppCardMessageTx now messageID userID conversationID content T =
     (case next_server_order conversationID T of
        None \<Rightarrow> None
      | Some (next, T1) \<Rightarrow>
         (case insert_message (new_message messageID conversationID userID ''app_card'' (JObj content) ''OTT'' next now) T1 of
            None \<Rightarrow> None
          | Some T2 \<Rightarrow> Some
             (\<lparr>cd_message_id = messageID, cd_content = content, cd_server_order = next, cd_created_at = now\<rparr>,
              update_conversation conversationID (\<lambda>c. c\<lparr>cv_last_message_id := Some messageID, cv_updated_at := now\<rparr>) T2)))"

definition message_created_payload ::
  "miniEnv \<Rightarrow> string \<Rightarrow> string \<Rightarrow> cardMessage \<Rightarrow> string \<times> string list \<times> string list \<Rightarrow> json" where
  "message_created_payload E userID conversationID message meta =
     (case meta of (ty, participants, phones) \<Rightarrow>
       JObj ([(''message_id'', JStr (cd_message_id message)), (''conversation_id'', JStr conversationID),
         (''conversation_type'', JStr ty), (''sender_user_id'', JStr userID), (''content_type'', JStr ''app_card''),
         (''content'', JObj (cd_content message)), (''transport'', JStr ''OTT''),
         (''server_order'', json_nat (nat (cd_server_order message))),
         (''created_at'', JStr (me_rfc3339 E (cd_created_at message))),
         (''participants'', strings_json (clone_slice participants))]
        @ (if phones = [] then [] else [(''external_phones'', JArr (map JStr phones))])))"

section \<open>ShareSession\<close>

record ShareInput =
  si_ManifestID :: string
  si_AppID :: string
  si_ConversationID :: string
  si_GrantedPermissions :: "string slice"
  si_StateSnapshot :: json
  si_ResumeExisting :: bool

record shareResult =
  sh_message :: cardMessage
  sh_record :: sessionRecord
  sh_capabilities_granted :: "string slice"
  sh_viewer :: SessionParticipant
  sh_consent_required :: bool
  sh_recipients :: "string list"

text \<open>The session that is shared: the active one with the members and the sharer's capabilities
  written to it, or a new one.\<close>

definition share_session_record ::
  "time \<Rightarrow> string \<Rightarrow> string \<Rightarrow> ShareInput \<Rightarrow> SessionParticipant list \<Rightarrow> string \<Rightarrow> string \<Rightarrow> string slice
   \<Rightarrow> miniTables \<Rightarrow> (sessionRecord \<times> miniTables) option" where
  "share_session_record now newID userID input participants manifestID appID granted T =
     (case (if si_ResumeExisting input then findActiveSessionTx T appID (si_ConversationID input) else Inl SessionNotFound) of
        Inr existing \<Rightarrow>
          (let ps = normalizeParticipants participants no_participant;
               perms = AList.update userID granted (cloneParticipantPermissions (sr_ParticipantPermissions existing));
               T1 = update_session (sr_ID existing) (\<lambda>s. s\<lparr>s_participants := Some (participants_json ps),
                      s_participant_permissions := permission_map_json perms\<rparr>) T
           in Some (existing\<lparr>sr_Participants := Some (normalizeParticipants ps no_participant),
                             sr_ParticipantPermissions := perms\<rparr>, T1))
      | Inl _ \<Rightarrow>
          (let ps = normalizeParticipants participants no_participant;
               state = defaultSessionState (si_StateSnapshot input);
               row = \<lparr>s_id = newID, s_manifest_id = manifestID, s_app_id = appID,
                  s_conversation_id = si_ConversationID input, s_participants = Some (participants_json ps),
                  s_granted_permissions = strings_json granted,
                  s_participant_permissions = permission_map_json [(userID, granted)],
                  s_state = Some (state_json state), s_state_version = 1, s_created_by = Some userID,
                  s_expires_at = None, s_created_at = now, s_ended_at = None\<rparr>
           in map_option (\<lambda>T1. (\<lparr>sr_ID = newID, sr_ManifestID = manifestID, sr_AppID = appID, sr_AppVersion = [],
                 sr_ConversationID = si_ConversationID input, sr_Participants = Some ps, sr_GlobalPermissions = granted,
                 sr_ParticipantPermissions = [(userID, granted)], sr_State = state, sr_StateVersion = 1,
                 sr_CreatedBy = userID, sr_ExpiresAt = None, sr_CreatedAt = None, sr_EndedAt = None\<rparr>, T1))
               (insert_session row T)))"

definition ShareSession :: "miniEnv \<Rightarrow> time \<Rightarrow> string \<Rightarrow> string \<Rightarrow> string \<Rightarrow> ShareInput \<Rightarrow> shareResult mini" where
  "ShareSession E now newID messageID userID input T =
     (if si_ConversationID input = [] then (Inl (PlainError ''conversation_id required''), T)
      else case ensureConversationMember T userID (si_ConversationID input) of
        Some e \<Rightarrow> (Inl e, T)
      | None \<Rightarrow>
      (let participants = loadConversationParticipantsTx T (si_ConversationID input) in
       case ensureMiniAppEligibleTx T participants of
         Some e \<Rightarrow> (Inl e, T)
       | None \<Rightarrow>
       (case resolveManifest T (si_ManifestID input) (si_AppID input) of
          Inl e \<Rightarrow> (Inl e, T)
        | Inr (manifestID, appID, permitted) \<Rightarrow>
        (let granted0 = sanitizeGrantedPermissions (elems (si_GrantedPermissions input)) permitted;
             granted = (if elems granted0 = [] then clone_slice permitted else granted0)
         in case share_session_record now newID userID input participants manifestID appID granted T of
              None \<Rightarrow> (Inl MiniDbError, T)
            | Some (record, T1) \<Rightarrow>
            (case loadCatalogEntryByAppID T [] appID of
               Inl e \<Rightarrow> (Inl e, T)
             | Inr entry \<Rightarrow>
             (case insertAppCardMessageTx now messageID userID (si_ConversationID input)
                     (buildAppCardContent (ce_Manifest entry) record) T1 of
                None \<Rightarrow> (Inl MiniDbError, T)
              | Some (message, T2) \<Rightarrow>
                 (let result = \<lparr>sh_message = message, sh_record = record, sh_capabilities_granted = granted,
                        sh_viewer = viewerForUser (elems (sr_Participants record)) userID,
                        sh_consent_required = consent_required_for record userID permitted,
                        sh_recipients = conversationRecipients participants userID\<rparr>
                  in if \<not> me_replication E then (Inr result, T2)
                     else case LoadConversationMeta T2 (si_ConversationID input) of
                       None \<Rightarrow> (Inl MiniDbError, T)
                     | Some meta \<Rightarrow>
                       (case AppendDomainEvent now (si_ConversationID input) userID ''message_created''
                            (message_created_payload E userID (si_ConversationID input) message meta) T2 of
                          None \<Rightarrow> (Inl MiniDbError, T)
                        | Some T3 \<Rightarrow> (Inr result, T3)))))))))"

end
