(* ===== verification/MiniappHandlers.thy ===== *)
theory MiniappHandlers
  imports MiniappShare
begin

text \<open>
  The HTTP handlers of the mini-app runtime (\<open>gateway/internal/miniapp/handler.go\<close>) and the client of
  the apps service (\<open>registry_client.go\<close>).  A handler gets the authenticated user, if any, and the
  request as \<open>encoding/json\<close> decodes it (\<open>None\<close> when it does not decode).  Error messages are left
  out; an error response is its status and code.
\<close>

datatype miniResponse =
    MiniErr nat string
  | MiniNoContent
  | MiniId string
  | MiniSession nat sessionView "OriginConfig option"
  | MiniEvents "SessionEvent list" int int "int option"
  | MiniSeq int
  | MiniVersion int
  | MiniShared shareResult
  | MiniEntries "catalogEntry list"
  | MiniEntry catalogEntry
  | MiniUpdates string string string bool
  | MiniPayload nat "json gomap option"

section \<open>Validation of requests\<close>

definition statusOr :: "nat \<Rightarrow> nat \<Rightarrow> nat" where
  "statusOr actual fallback = (if actual > 0 then actual else fallback)"

text \<open>The query is already encoded.\<close>

definition withQuery :: "string \<Rightarrow> string \<Rightarrow> string" where
  "withQuery path encoded = (if encoded = [] then path else path @ ''?'' @ encoded)"

fun granted_values_ok :: "string list \<Rightarrow> string list \<Rightarrow> bool" where
  "granted_values_ok seen [] = True"
| "granted_values_ok seen (v # vs) =
     (let v = trim_space v in v \<noteq> [] \<and> length v \<le> 120 \<and> v \<notin> set seen \<and> granted_values_ok (v # seen) vs)"

definition validateGrantedPermissions :: "string list \<Rightarrow> bool" where
  "validateGrantedPermissions values \<longleftrightarrow> length values \<le> 32 \<and> granted_values_ok [] values"

definition validateParticipants :: "SessionParticipant list \<Rightarrow> bool" where
  "validateParticipants values \<longleftrightarrow> length values \<le> 64 \<and> list_all (\<lambda>p.
     length (trim_space (p_UserID p)) \<le> 120 \<and> length (trim_space (p_Role p)) \<le> 64
     \<and> length (trim_space (p_DisplayName p)) \<le> 160) values"

definition validatePayloadSize :: "json \<Rightarrow> nat \<Rightarrow> bool" where
  "validatePayloadSize v maxBytes \<longleftrightarrow> v = JNull \<or> length (marshal v) \<le> maxBytes"

definition maxMiniappStateBytes :: nat where "maxMiniappStateBytes = 128 * 1024"
definition maxMiniappEventBodyBytes :: nat where "maxMiniappEventBodyBytes = 32 * 1024"
definition maxMiniappEventNameBytes :: nat where "maxMiniappEventNameBytes = 96"
definition maxMiniappTTLSeconds :: int where "maxMiniappTTLSeconds = 24 * 60 * 60"

section \<open>The registry client\<close>

text \<open>
  The answer of the HTTP exchange: \<open>None\<close> when it fails, otherwise the status and the decoded body,
  \<open>None\<close> when the body is not an object.
\<close>

record RegistryClient =
  rc_baseURL :: string
  rc_exchange :: "string \<Rightarrow> string \<Rightarrow> string \<Rightarrow> json option \<Rightarrow> (nat \<times> json gomap option) option"

text \<open>Payload, status, and whether there was an error.\<close>

definition doJSON ::
  "RegistryClient option \<Rightarrow> string \<Rightarrow> string \<Rightarrow> string \<Rightarrow> json option \<Rightarrow> json gomap option \<times> nat \<times> bool" where
  "doJSON c httpMethod path userID body =
     (case c of
        None \<Rightarrow> (None, 0, True)
      | Some client \<Rightarrow>
          (case rc_exchange client httpMethod (rc_baseURL client @ path) userID body of
             None \<Rightarrow> (None, 0, True)
           | Some (status, decoded) \<Rightarrow>
               (let payload = (if status \<noteq> 204 then decoded else None) in (payload, status, 400 \<le> status))))"

section \<open>Sessions\<close>

record createReq =
  cq_ManifestID :: string
  cq_AppID :: string
  cq_ConversationID :: string
  cq_Viewer :: SessionParticipant
  cq_Participants :: "SessionParticipant list"
  cq_GrantedPermissions :: "string slice"
  cq_TTLSeconds :: int
  cq_StateSnapshot :: json
  cq_ResumeExisting :: "bool option"

definition create_error :: "miniError \<Rightarrow> miniResponse" where
  "create_error e =
     (if e = ManifestNotFound then MiniErr 404 ''manifest_not_found''
      else if e = ReleaseSuspended then MiniErr 403 ''release_suspended''
      else if e = ReleaseRevoked then MiniErr 403 ''release_revoked''
      else if e = MiniAppConsent then MiniErr 403 ''reconsent_required''
      else MiniErr 500 ''create_failed'')"

text \<open>The origin headers are set when the session map has an \<open>app_version\<close>.\<close>

definition attachOriginConfig :: "miniEnv \<Rightarrow> sessionView \<Rightarrow> OriginConfig option" where
  "attachOriginConfig E view =
     (case vw_app_version view of
        None \<Rightarrow> None
      | Some releaseID \<Rightarrow> GenerateOriginConfig (sha256_sum (me_checks E)) (sr_AppID (vw_record view)) releaseID ''miniapp.local'' 8)"

definition CreateSession_handler ::
  "miniEnv \<Rightarrow> time \<Rightarrow> string \<Rightarrow> string option \<Rightarrow> createReq option \<Rightarrow> miniTables \<Rightarrow> miniResponse \<times> miniTables" where
  "CreateSession_handler E now newID user body T =
     (case user of
        None \<Rightarrow> (MiniErr 401 ''unauthorized'', T)
      | Some userID \<Rightarrow>
      (case body of
         None \<Rightarrow> (MiniErr 400 ''invalid_request'', T)
       | Some req \<Rightarrow>
         if cq_ConversationID req = [] \<or> (cq_ManifestID req = [] \<and> cq_AppID req = [])
         then (MiniErr 400 ''invalid_request'', T)
         else
         (let v = cq_Viewer req;
              v = (if p_UserID v = [] then v\<lparr>p_UserID := userID\<rparr> else v);
              viewer = (if p_Role v = [] then v\<lparr>p_Role := ''PLAYER''\<rparr> else v)
          in if \<not> validateParticipants (cq_Participants req)
                \<or> \<not> validateGrantedPermissions (elems (cq_GrantedPermissions req))
                \<or> \<not> validatePayloadSize (cq_StateSnapshot req) maxMiniappStateBytes
                \<or> maxMiniappTTLSeconds < cq_TTLSeconds req
             then (MiniErr 400 ''invalid_request'', T)
             else
             (let input = \<lparr>ci_ManifestID = cq_ManifestID req, ci_AppID = cq_AppID req,
                    ci_ConversationID = cq_ConversationID req, ci_Viewer = viewer,
                    ci_Participants = cq_Participants req, ci_GrantedPermissions = cq_GrantedPermissions req,
                    ci_StateSnapshot = cq_StateSnapshot req,
                    ci_TTL = (if cq_TTLSeconds req > 0 then cq_TTLSeconds req * Second else 30 * 60 * Second),
                    ci_ResumeExisting = (case cq_ResumeExisting req of None \<Rightarrow> True | Some b \<Rightarrow> b)\<rparr>
              in case CreateSessionForUser E now newID userID input T of
                   (Inl e, T1) \<Rightarrow> (create_error e, T1)
                 | (Inr (view, created), T1) \<Rightarrow>
                     (MiniSession (if created then 201 else 200) view (attachOriginConfig E view), T1)))))"

definition GetSession_handler :: "string option \<Rightarrow> string \<Rightarrow> miniTables \<Rightarrow> miniResponse" where
  "GetSession_handler user sessionID T =
     (case user of
        None \<Rightarrow> MiniErr 401 ''unauthorized''
      | Some userID \<Rightarrow>
          if sessionID = [] then MiniErr 400 ''invalid_request''
          else (case GetSessionForUser T userID sessionID of
            Inr view \<Rightarrow> MiniSession 200 view None
          | Inl e \<Rightarrow> if e = SessionNotFound then MiniErr 404 ''not_found''
                     else if e = SessionEnded then MiniErr 409 ''session_ended''
                     else MiniErr 500 ''get_failed''))"

text \<open>The query's values, empty when missing.\<close>

definition GetSessionEvents_handler ::
  "string option \<Rightarrow> string \<Rightarrow> (string \<times> string) list \<Rightarrow> miniTables \<Rightarrow> miniResponse" where
  "GetSessionEvents_handler user sessionID query T =
     (case user of
        None \<Rightarrow> MiniErr 401 ''unauthorized''
      | Some userID \<Rightarrow>
          if sessionID = [] then MiniErr 400 ''invalid_request''
          else (case GetSessionForUser T userID sessionID of
            Inl e \<Rightarrow> if e = SessionNotFound then MiniErr 404 ''not_found'' else MiniErr 403 ''forbidden''
          | Inr _ \<Rightarrow>
              (let eventType = get_first query ''event_type'';
                   limit = (case atoi (get_first query ''limit'') of Some l \<Rightarrow> if l > 0 then l else 100 | None \<Rightarrow> 100);
                   offset = (case atoi (get_first query ''offset'') of Some x \<Rightarrow> if x \<ge> 0 then x else 0 | None \<Rightarrow> 0);
                   sinceSeq = atoi (get_first query ''since_seq'')
               in case GetSessionEvents T sessionID (nullif_empty eventType) limit offset sinceSeq of
                    Inl _ \<Rightarrow> MiniErr 500 ''events_failed''
                  | Inr evs \<Rightarrow> MiniEvents evs limit offset sinceSeq)))"

definition EndSession_handler :: "time \<Rightarrow> string option \<Rightarrow> string \<Rightarrow> miniTables \<Rightarrow> miniResponse \<times> miniTables" where
  "EndSession_handler now user sessionID T =
     (case user of
        None \<Rightarrow> (MiniErr 401 ''unauthorized'', T)
      | Some userID \<Rightarrow>
          if sessionID = [] then (MiniErr 400 ''invalid_request'', T)
          else (case EndSessionForUser now userID sessionID T of
            (Inr _, T1) \<Rightarrow> (MiniNoContent, T1)
          | (Inl e, T1) \<Rightarrow> (if e = SessionNotFound then MiniErr 404 ''not_found''
                           else if e = SessionEnded then MiniErr 409 ''session_ended''
                           else MiniErr 500 ''end_failed'', T1)))"

definition AppendEvent_handler ::
  "miniEnv \<Rightarrow> time \<Rightarrow> string option \<Rightarrow> string \<Rightarrow> (string \<times> json) option \<Rightarrow> miniTables \<Rightarrow> miniResponse \<times> miniTables" where
  "AppendEvent_handler E now user sessionID req T =
     (case user of
        None \<Rightarrow> (MiniErr 401 ''unauthorized'', T)
      | Some userID \<Rightarrow>
          if sessionID = [] then (MiniErr 400 ''invalid_request'', T)
          else (case req of
            None \<Rightarrow> (MiniErr 400 ''invalid_request'', T)
          | Some (eventName, body) \<Rightarrow>
              if eventName = [] \<or> maxMiniappEventNameBytes < length eventName
                 \<or> \<not> validatePayloadSize body maxMiniappEventBodyBytes
              then (MiniErr 400 ''invalid_request'', T)
              else (case AppendEventForUser E now userID sessionID eventName body T of
                (Inr seq, T1) \<Rightarrow> (MiniSeq seq, T1)
              | (Inl e, T1) \<Rightarrow>
                  (if e = SessionNotFound then MiniErr 404 ''not_found''
                   else if e = SessionEnded then MiniErr 409 ''session_ended''
                   else if e = MiniAppConsent then MiniErr 403 ''consent_required''
                   else if e = BridgeMethodNotAllowed then MiniErr 403 ''forbidden''
                   else if e = BridgeMethodRateLimited then MiniErr 429 ''rate_limited''
                   else MiniErr 500 ''append_failed'', T1))))"

definition Snapshot_handler ::
  "time \<Rightarrow> string option \<Rightarrow> string \<Rightarrow> (json \<times> int \<times> string slice) option \<Rightarrow> miniTables \<Rightarrow> miniResponse \<times> miniTables" where
  "Snapshot_handler now user sessionID req T =
     (case user of
        None \<Rightarrow> (MiniErr 401 ''unauthorized'', T)
      | Some userID \<Rightarrow>
          if sessionID = [] then (MiniErr 400 ''invalid_request'', T)
          else (case req of
            None \<Rightarrow> (MiniErr 400 ''invalid_request'', T)
          | Some (state, stateVersion, grantedPermissions) \<Rightarrow>
              if \<not> validateGrantedPermissions (elems grantedPermissions) \<or> \<not> validatePayloadSize state maxMiniappStateBytes
              then (MiniErr 400 ''invalid_request'', T)
              else (case SnapshotSessionForUser now userID sessionID state stateVersion T of
                (Inr version, T1) \<Rightarrow> (MiniVersion version, T1)
              | (Inl e, T1) \<Rightarrow>
                  (if e = SessionNotFound then MiniErr 404 ''not_found''
                   else if e = SessionEnded then MiniErr 409 ''session_ended''
                   else if e = StateVersionConflict then MiniErr 409 ''state_version_conflict''
                   else if e = MiniAppConsent then MiniErr 403 ''consent_required''
                   else MiniErr 500 ''snapshot_failed'', T1))))"

definition JoinSession_handler ::
  "time \<Rightarrow> string option \<Rightarrow> string \<Rightarrow> string slice option \<Rightarrow> miniTables \<Rightarrow> miniResponse \<times> miniTables" where
  "JoinSession_handler now user sessionID req T =
     (case user of
        None \<Rightarrow> (MiniErr 401 ''unauthorized'', T)
      | Some userID \<Rightarrow>
          if sessionID = [] then (MiniErr 400 ''invalid_request'', T)
          else (case req of
            None \<Rightarrow> (MiniErr 400 ''invalid_request'', T)
          | Some grantedPermissions \<Rightarrow>
              if \<not> validateGrantedPermissions (elems grantedPermissions) then (MiniErr 400 ''invalid_request'', T)
              else (case JoinSession now userID sessionID grantedPermissions T of
                (Inr view, T1) \<Rightarrow> (MiniSession 200 view None, T1)
              | (Inl e, T1) \<Rightarrow> (if e = SessionNotFound then MiniErr 404 ''not_found''
                               else if e = SessionEnded then MiniErr 409 ''session_ended''
                               else MiniErr 403 ''forbidden'', T1))))"

record shareReq =
  hq_ManifestID :: string
  hq_AppID :: string
  hq_ConversationID :: string
  hq_GrantedPermissions :: "string slice"
  hq_StateSnapshot :: json
  hq_ResumeExisting :: "bool option"

definition Share_handler ::
  "miniEnv \<Rightarrow> time \<Rightarrow> string \<Rightarrow> string \<Rightarrow> string option \<Rightarrow> shareReq option \<Rightarrow> miniTables \<Rightarrow> miniResponse \<times> miniTables" where
  "Share_handler E now newID messageID user body T =
     (case user of
        None \<Rightarrow> (MiniErr 401 ''unauthorized'', T)
      | Some userID \<Rightarrow>
      (case body of
         None \<Rightarrow> (MiniErr 400 ''invalid_request'', T)
       | Some req \<Rightarrow>
         if hq_ConversationID req = [] \<or> (hq_ManifestID req = [] \<and> hq_AppID req = [])
            \<or> \<not> validateGrantedPermissions (elems (hq_GrantedPermissions req))
            \<or> \<not> validatePayloadSize (hq_StateSnapshot req) maxMiniappStateBytes
         then (MiniErr 400 ''invalid_request'', T)
         else
           (case ShareSession E now newID messageID userID
              \<lparr>si_ManifestID = hq_ManifestID req, si_AppID = hq_AppID req, si_ConversationID = hq_ConversationID req,
               si_GrantedPermissions = hq_GrantedPermissions req, si_StateSnapshot = hq_StateSnapshot req,
               si_ResumeExisting = (case hq_ResumeExisting req of None \<Rightarrow> True | Some b \<Rightarrow> b)\<rparr> T of
              (Inr result, T1) \<Rightarrow> (MiniShared result, T1)
            | (Inl e, T1) \<Rightarrow>
                (if e = ManifestNotFound then MiniErr 404 ''manifest_not_found''
                 else if e = MiniAppUnsupported then MiniErr 409 ''miniapp_unsupported''
                 else if e = PlainError ''conversation_access_denied'' then MiniErr 403 ''forbidden''
                 else MiniErr 500 ''share_failed'', T1))))"

section \<open>Manifests and the catalogue\<close>

definition register_error :: "miniError \<Rightarrow> miniResponse" where
  "register_error e =
     (case e of
        ManifestRequired \<Rightarrow> MiniErr 400 ''invalid_manifest''
      | ManifestInvalid _ \<Rightarrow> MiniErr 400 ''invalid_manifest''
      | ManifestSignatureRequired \<Rightarrow> MiniErr 400 ''invalid_manifest''
      | ManifestSignatureInvalid \<Rightarrow> MiniErr 400 ''invalid_manifest''
      | _ \<Rightarrow> MiniErr 500 ''register_failed'')"

definition RegisterManifest_handler ::
  "miniEnv \<Rightarrow> RegistryClient option \<Rightarrow> time \<Rightarrow> string \<Rightarrow> string option \<Rightarrow> json gomap option \<Rightarrow> miniTables
   \<Rightarrow> miniResponse \<times> miniTables" where
  "RegisterManifest_handler E registry now newID user body T =
     (case user of
        None \<Rightarrow> (MiniErr 401 ''unauthorized'', T)
      | Some userID \<Rightarrow>
      (case body of
         None \<Rightarrow> (MiniErr 400 ''invalid_request'', T)
       | Some raw \<Rightarrow>
         (let manifest = (case map_of raw ''manifest'' of Some wrapped \<Rightarrow> wrapped | None \<Rightarrow> JObj raw) in
          case RegisterManifest E now newID userID manifest T of
            (Inl e, T1) \<Rightarrow> (register_error e, T1)
          | (Inr manifestID, T1) \<Rightarrow>
              (if registry \<noteq> None
                  \<and> snd (snd (doJSON registry ''POST'' ''/v1/apps/register'' userID (Some (JObj [(''manifest'', manifest)]))))
               then (MiniErr 502 ''registry_failed'', T1)
               else (MiniId manifestID, T1)))))"

text \<open>A payload of the registry that holds a manifest is registered here too, for the caller.\<close>

definition mirror_manifest ::
  "miniEnv \<Rightarrow> time \<Rightarrow> string \<Rightarrow> string \<Rightarrow> json gomap option \<Rightarrow> miniTables \<Rightarrow> miniTables" where
  "mirror_manifest E now newID userID payload T =
     (case payload of
        None \<Rightarrow> T
      | Some p \<Rightarrow>
          (case as_obj (map_of p ''manifest'') of
             Some m \<Rightarrow> if m \<noteq> [] then snd (RegisterManifest E now newID userID (JObj m) T) else T
           | None \<Rightarrow> T))"

definition ListApps_handler ::
  "RegistryClient option \<Rightarrow> string option \<Rightarrow> string \<Rightarrow> miniTables \<Rightarrow> miniResponse" where
  "ListApps_handler registry user query T =
     (case user of
        None \<Rightarrow> MiniErr 401 ''unauthorized''
      | Some userID \<Rightarrow>
          if registry = None then MiniEntries (ListManifests T userID)
          else (case doJSON registry ''GET'' (withQuery ''/v1/apps'' query) userID None of
                  (payload, status, failed) \<Rightarrow>
                    if failed then MiniErr (statusOr status 502) ''list_failed'' else MiniPayload 200 payload))"

definition GetApp_handler ::
  "miniEnv \<Rightarrow> RegistryClient option \<Rightarrow> time \<Rightarrow> string \<Rightarrow> string option \<Rightarrow> string \<Rightarrow> string \<Rightarrow> miniTables
   \<Rightarrow> miniResponse \<times> miniTables" where
  "GetApp_handler E registry now newID user appID query T =
     (case user of
        None \<Rightarrow> (MiniErr 401 ''unauthorized'', T)
      | Some userID \<Rightarrow>
          if appID = [] then (MiniErr 400 ''invalid_request'', T)
          else if registry = None then
            (case GetManifestByAppID T userID appID of
               Inl e \<Rightarrow> (if e = ManifestNotFound then MiniErr 404 ''not_found'' else MiniErr 500 ''get_failed'', T)
             | Inr item \<Rightarrow> (MiniEntry item, T))
          else (case doJSON registry ''GET'' (withQuery (''/v1/apps/'' @ appID) query) userID None of
                  (payload, status, failed) \<Rightarrow>
                    if failed then (MiniErr (statusOr status 502) ''get_failed'', T)
                    else (MiniPayload 200 payload, mirror_manifest E now newID userID payload T)))"

definition InstallApp_handler ::
  "miniEnv \<Rightarrow> RegistryClient option \<Rightarrow> time \<Rightarrow> string \<Rightarrow> string option \<Rightarrow> string \<Rightarrow> string \<Rightarrow> json gomap option
   \<Rightarrow> miniTables \<Rightarrow> miniResponse \<times> miniTables" where
  "InstallApp_handler E registry now newID user appID query body T =
     (case user of
        None \<Rightarrow> (MiniErr 401 ''unauthorized'', T)
      | Some userID \<Rightarrow>
          if appID = [] then (MiniErr 400 ''invalid_request'', T)
          else if registry = None then
            (case InstallApp now userID appID T of
               (Inl e, T1) \<Rightarrow> (if e = ManifestNotFound then MiniErr 404 ''not_found'' else MiniErr 500 ''install_failed'', T1)
             | (Inr item, T1) \<Rightarrow> (MiniEntry item, T1))
          else (case doJSON registry ''POST'' (withQuery (''/v1/apps/'' @ appID @ ''/install'') query) userID
                       (Some (case body of None \<Rightarrow> JNull | Some m \<Rightarrow> JObj m)) of
                  (payload, status, failed) \<Rightarrow>
                    if failed then (MiniErr (statusOr status 502) ''install_failed'', T)
                    else (MiniPayload 200 payload, mirror_manifest E now newID userID payload T)))"

definition UninstallApp_handler ::
  "RegistryClient option \<Rightarrow> string option \<Rightarrow> string \<Rightarrow> miniTables \<Rightarrow> miniResponse \<times> miniTables" where
  "UninstallApp_handler registry user appID T =
     (case user of
        None \<Rightarrow> (MiniErr 401 ''unauthorized'', T)
      | Some userID \<Rightarrow>
          if appID = [] then (MiniErr 400 ''invalid_request'', T)
          else if registry = None then
            (case UninstallApp userID appID T of
               (Inl e, T1) \<Rightarrow> (if e = AppInstallNotFound then MiniErr 404 ''not_found'' else MiniErr 500 ''uninstall_failed'', T1)
             | (Inr _, T1) \<Rightarrow> (MiniNoContent, T1))
          else (case doJSON registry ''DELETE'' (''/v1/apps/'' @ appID @ ''/install'') userID None of
                  (_, status, failed) \<Rightarrow>
                    (if failed then MiniErr (statusOr status 502) ''uninstall_failed'' else MiniNoContent, T)))"

text \<open>
  \<open>catalogEntryToMap\<close> stores a \<open>catalogInstall\<close> struct under \<open>install\<close>.  A reader that asserts a
  \<open>map[string]any\<close> there gets the nil map: the dynamic type of the value is the struct's.
\<close>

datatype entryValue = StructValue catalogInstall | MapValue "json gomap"

definition catalogEntryToMap_install :: "catalogEntry \<Rightarrow> entryValue" where
  "catalogEntryToMap_install entry = StructValue (ce_Install entry)"

fun assert_map :: "entryValue \<Rightarrow> json gomap" where
  "assert_map (MapValue m) = m"
| "assert_map (StructValue _) = []"

definition ListInstalledApps_handler ::
  "RegistryClient option \<Rightarrow> string option \<Rightarrow> string \<Rightarrow> miniTables \<Rightarrow> miniResponse" where
  "ListInstalledApps_handler registry user query T =
     (case user of
        None \<Rightarrow> MiniErr 401 ''unauthorized''
      | Some userID \<Rightarrow>
          if registry = None then
            MiniEntries (filter (\<lambda>item. map_of (assert_map (catalogEntryToMap_install item)) ''installed'' = Some (JBool True))
              (ListManifests T userID))
          else (case doJSON registry ''GET'' (withQuery ''/v1/apps/installed'' query) userID None of
                  (payload, status, failed) \<Rightarrow>
                    if failed then MiniErr (statusOr status 502) ''list_failed'' else MiniPayload 200 payload))"

definition CheckForUpdates_handler ::
  "RegistryClient option \<Rightarrow> string option \<Rightarrow> string \<Rightarrow> string \<Rightarrow> miniTables \<Rightarrow> miniResponse" where
  "CheckForUpdates_handler registry user appID query T =
     (case user of
        None \<Rightarrow> MiniErr 401 ''unauthorized''
      | Some userID \<Rightarrow>
          if appID = [] then MiniErr 400 ''invalid_request''
          else if registry = None then
            (case GetManifestByAppID T userID appID of
               Inl e \<Rightarrow> if e = ManifestNotFound then MiniErr 404 ''not_found'' else MiniErr 500 ''get_failed''
             | Inr item \<Rightarrow>
                 (let version = ce_Version item;
                      installedVersion = stringField_gw (assert_map (catalogEntryToMap_install item)) ''installed_version''
                  in MiniUpdates appID installedVersion version
                       (installedVersion \<noteq> [] \<and> version \<noteq> [] \<and> installedVersion \<noteq> version)))
          else (case doJSON registry ''GET'' (withQuery (''/v1/apps/'' @ appID @ ''/updates'') query) userID None of
                  (payload, status, failed) \<Rightarrow>
                    if failed then MiniErr (statusOr status 502) ''get_failed'' else MiniPayload 200 payload))"

text \<open>The body of a passed-through request: missing, not decodable, or an object.\<close>

datatype passBody = PassEmpty | PassInvalid | PassObject "json gomap"

definition RegistryPassthrough ::
  "RegistryClient option \<Rightarrow> string \<Rightarrow> string \<Rightarrow> string option \<Rightarrow> string \<Rightarrow> string \<Rightarrow> passBody \<Rightarrow> miniResponse" where
  "RegistryPassthrough registry path httpMethod user reqMethod query body =
     (case user of
        None \<Rightarrow> MiniErr 401 ''unauthorized''
      | Some userID \<Rightarrow>
          if registry = None then MiniErr 501 ''registry_unavailable''
          else if reqMethod \<in> set [''POST'', ''PUT'', ''PATCH''] \<and> body = PassInvalid then MiniErr 400 ''invalid_request''
          else (let decoded = (case body of PassObject m \<Rightarrow> if reqMethod \<in> set [''POST'', ''PUT'', ''PATCH''] then JObj m else JNull
                                 | _ \<Rightarrow> JNull) in
                case doJSON registry httpMethod (withQuery path query) userID (Some decoded) of
                  (payload, status, failed) \<Rightarrow>
                    if failed then MiniErr (statusOr status 502) ''registry_failed''
                    else if status = 204 then MiniNoContent
                    else MiniPayload (statusOr status 200) payload))"

end
