(* ===== verification/MiniappInvariant.thy ===== *)
theory MiniappInvariant
  imports MiniappHandlers
begin

text \<open>
  The history of mini-app sessions under the gateway's requests: what a well-formed set of tables
  is, and how each request may change sessions and the event log.
\<close>

named_theorems mini_intros \<open>requests respect the history of sessions\<close>

section \<open>Well-formed tables\<close>

definition same_slot :: "sessionRow \<Rightarrow> sessionRow \<Rightarrow> bool" where
  "same_slot a b \<longleftrightarrow> s_app_id a = s_app_id b \<and> s_conversation_id a = s_conversation_id b
     \<and> s_ended_at a = None \<and> s_ended_at b = None"

definition mini_ok :: "miniTables \<Rightarrow> bool" where
  "mini_ok T \<longleftrightarrow> distinct (map s_id (tb_sessions T)) \<and> sorted_wrt (\<lambda>a b. \<not> same_slot a b) (tb_sessions T)
     \<and> sorted_wrt (<) (map e_seq (tb_events T)) \<and> (\<forall>e \<in> set (tb_events T). e_seq e < tb_next_seq T)
     \<and> tb_next_seq T \<le> max_int4 + 1"

text \<open>How a session's row may develop: its identity stays, its version grows, and nothing happens
  to it any more when it has ended.\<close>

definition row_ext :: "sessionRow \<Rightarrow> sessionRow \<Rightarrow> bool" where
  "row_ext s s' \<longleftrightarrow> s_id s' = s_id s \<and> s_manifest_id s' = s_manifest_id s \<and> s_app_id s' = s_app_id s
     \<and> s_conversation_id s' = s_conversation_id s \<and> s_granted_permissions s' = s_granted_permissions s
     \<and> s_created_by s' = s_created_by s \<and> s_created_at s' = s_created_at s
     \<and> s_state_version s \<le> s_state_version s' \<and> (s_ended_at s \<noteq> None \<longrightarrow> s' = s)"

definition mini_ext :: "miniTables \<Rightarrow> miniTables \<Rightarrow> bool" where
  "mini_ext T T' \<longleftrightarrow> (\<exists>olds news. tb_sessions T' = olds @ news \<and> list_all2 row_ext (tb_sessions T) olds)
     \<and> (\<exists>es. tb_events T' = tb_events T @ es \<and> (\<forall>e \<in> set es. tb_next_seq T \<le> e_seq e))
     \<and> tb_next_seq T \<le> tb_next_seq T'"

definition mini_trans :: "miniTables \<Rightarrow> miniTables \<Rightarrow> bool" where
  "mini_trans T T' \<longleftrightarrow> (mini_ok T \<longrightarrow> mini_ok T' \<and> mini_ext T T')"

lemma row_ext_refl [simp]: "row_ext s s"
  by (simp add: row_ext_def)

lemma row_ext_trans: "row_ext a b \<Longrightarrow> row_ext b c \<Longrightarrow> row_ext a c"
  by (auto simp: row_ext_def)

lemma list_all2_trans_row: "list_all2 row_ext xs ys \<Longrightarrow> list_all2 row_ext ys zs \<Longrightarrow> list_all2 row_ext xs zs"
  by (rule list_all2_trans [OF row_ext_trans])

lemma sessions_self: "\<exists>olds. (\<exists>news. ss @ rest = olds @ news) \<and> list_all2 row_ext ss olds"
  by (intro exI [of _ ss] conjI exI [of _ rest] list.rel_refl) simp_all

lemma sessions_self0: "\<exists>olds. (\<exists>news. ss = olds @ news) \<and> list_all2 row_ext ss olds"
  using sessions_self [where rest = "[]"] by simp

lemma mini_ext_refl [simp]: "mini_ext T T"
  by (simp add: mini_ext_def sessions_self0)

lemma mini_ext_trans:
  assumes a: "mini_ext T1 T2" and b: "mini_ext T2 T3"
  shows "mini_ext T1 T3"
proof -
  obtain o1 n1 es1 where 1: "tb_sessions T2 = o1 @ n1" "list_all2 row_ext (tb_sessions T1) o1"
      "tb_events T2 = tb_events T1 @ es1" "\<forall>e \<in> set es1. tb_next_seq T1 \<le> e_seq e" "tb_next_seq T1 \<le> tb_next_seq T2"
    using a by (auto simp: mini_ext_def)
  obtain o2 n2 es2 where 2: "tb_sessions T3 = o2 @ n2" "list_all2 row_ext (tb_sessions T2) o2"
      "tb_events T3 = tb_events T2 @ es2" "\<forall>e \<in> set es2. tb_next_seq T2 \<le> e_seq e" "tb_next_seq T2 \<le> tb_next_seq T3"
    using b by (auto simp: mini_ext_def)
  obtain u v where uv: "o2 = u @ v" "list_all2 row_ext o1 u" "list_all2 row_ext n1 v"
    using 2(2) by (auto simp: 1(1) list_all2_append1)
  have "list_all2 row_ext (tb_sessions T1) u" using 1(2) uv(2) by (rule list_all2_trans_row)
  moreover have "tb_sessions T3 = u @ (v @ n2)" by (simp add: 2(1) uv(1))
  moreover have "tb_events T3 = tb_events T1 @ (es1 @ es2)" by (simp add: 1(3) 2(3))
  moreover have "\<forall>e \<in> set (es1 @ es2). tb_next_seq T1 \<le> e_seq e" using 1(4,5) 2(4) by fastforce
  ultimately show ?thesis using 1(5) 2(5) unfolding mini_ext_def by (intro conjI) (blast | linarith)+
qed

lemma mini_trans_refl [simp, mini_intros]: "mini_trans T T"
  by (simp add: mini_trans_def)

lemma mini_trans_trans: "mini_trans T1 T2 \<Longrightarrow> mini_trans T2 T3 \<Longrightarrow> mini_trans T1 T3"
  unfolding mini_trans_def using mini_ext_trans by blast

text \<open>What the relation does not look at may change freely.\<close>

lemma mini_trans_core:
  assumes "tb_sessions T' = tb_sessions T" and "tb_events T' = tb_events T" and "tb_next_seq T' = tb_next_seq T"
  shows "mini_trans T T'"
  using assms by (simp add: mini_trans_def mini_ok_def mini_ext_def sessions_self0)

section \<open>Statements\<close>

lemma sorted_wrt_slots:
  assumes "list_all2 row_ext xs ys" and "sorted_wrt (\<lambda>a b. \<not> same_slot a b) xs"
  shows "sorted_wrt (\<lambda>a b. \<not> same_slot a b) ys"
  using assms
proof (induction rule: list_all2_induct)
  case (Cons x xs y ys)
  have "\<not> same_slot y b" if "b \<in> set ys" for b
  proof -
    obtain a where a: "a \<in> set xs" "row_ext a b"
      using Cons.hyps(2) \<open>b \<in> set ys\<close> by (metis list_all2_conv_all_nth in_set_conv_nth)
    have "same_slot x a" if "same_slot y b"
      using that a(2) Cons.hyps(1) by (auto simp: same_slot_def row_ext_def)
    then show ?thesis using Cons.prems a(1) by auto
  qed
  then show ?case using Cons by simp
qed simp

lemma list_all2_map_id: "(\<And>s. s \<in> set ss \<Longrightarrow> R s (f s)) \<Longrightarrow> list_all2 R ss (map f ss)"
  by (simp add: list_all2_conv_all_nth)

lemma update_session_trans:
  assumes "mini_ok T \<Longrightarrow> \<forall>s \<in> set (tb_sessions T). s_id s = sessionID \<longrightarrow> row_ext s (f s)"
  shows "mini_trans T (update_session sessionID f T)"
  unfolding mini_trans_def
proof
  assume ok: "mini_ok T"
  let ?g = "\<lambda>s. if s_id s = sessionID then f s else s"
  have all: "list_all2 row_ext (tb_sessions T) (map ?g (tb_sessions T))"
    using assms [OF ok] by (intro list_all2_map_id) simp
  have ids: "map s_id (map ?g (tb_sessions T)) = map s_id (tb_sessions T)"
    using assms [OF ok] by (auto simp: row_ext_def)
  have "distinct (map s_id (map ?g (tb_sessions T)))" unfolding ids using ok by (simp add: mini_ok_def)
  then have "mini_ok (update_session sessionID f T)"
    using ok sorted_wrt_slots [OF all] by (simp add: mini_ok_def update_session_def)
  moreover have "mini_ext T (update_session sessionID f T)"
    using all by (auto simp: mini_ext_def update_session_def)
  ultimately show "mini_ok (update_session sessionID f T) \<and> mini_ext T (update_session sessionID f T)" ..
qed

lemma distinct_session:
  assumes "mini_ok T" and "a \<in> set (tb_sessions T)" "b \<in> set (tb_sessions T)" and "s_id a = s_id b"
  shows "a = b"
  using assms by (auto simp: mini_ok_def distinct_map dest: inj_onD)

lemma find_session_Some: "find_session T sessionID = Some s \<Longrightarrow> s \<in> set (tb_sessions T) \<and> s_id s = sessionID"
  by (auto simp: find_session_def find_Some_iff)

text \<open>An update of an active session that keeps its identity and does not lower its version.\<close>

definition row_keeps :: "(sessionRow \<Rightarrow> sessionRow) \<Rightarrow> sessionRow \<Rightarrow> bool" where
  "row_keeps f s \<longleftrightarrow> s_id (f s) = s_id s \<and> s_manifest_id (f s) = s_manifest_id s \<and> s_app_id (f s) = s_app_id s
     \<and> s_conversation_id (f s) = s_conversation_id s \<and> s_granted_permissions (f s) = s_granted_permissions s
     \<and> s_created_by (f s) = s_created_by s \<and> s_created_at (f s) = s_created_at s
     \<and> s_state_version s \<le> s_state_version (f s)"

lemma update_active_trans:
  assumes "s \<in> set (tb_sessions T)" and "s_id s = sessionID" and "s_ended_at s = None" and "row_keeps f s"
  shows "mini_trans T (update_session sessionID f T)"
proof (rule update_session_trans)
  assume ok: "mini_ok T"
  show "\<forall>x \<in> set (tb_sessions T). s_id x = sessionID \<longrightarrow> row_ext x (f x)"
  proof (intro ballI impI)
    fix x assume "x \<in> set (tb_sessions T)" "s_id x = sessionID"
    then have "x = s" using distinct_session [OF ok] assms(1,2) by blast
    then show "row_ext x (f x)" using assms(3,4) by (simp add: row_ext_def row_keeps_def)
  qed
qed

lemma insert_session_trans:
  assumes "insert_session row T = Some T'"
  shows "mini_trans T T'"
proof -
  have T': "T' = T\<lparr>tb_sessions := tb_sessions T @ [row]\<rparr>" and new: "find_session T (s_id row) = None"
    and free: "\<forall>s \<in> set (tb_sessions T). \<not> same_slot s row"
    using assms by (auto simp: insert_session_def same_slot_def list_ex_iff split: if_splits)
  have "s_id row \<notin> s_id ` set (tb_sessions T)" using new by (auto simp: find_session_def find_None_iff)
  then have "mini_ok T \<longrightarrow> mini_ok T'" using free by (auto simp: T' mini_ok_def sorted_wrt_append)
  moreover have "mini_ext T T'"
    by (simp add: mini_ext_def T' sessions_self)
  ultimately show ?thesis by (simp add: mini_trans_def)
qed

lemma add_event_trans:
  assumes "e_seq row = tb_next_seq T" and "tb_next_seq T \<le> max_int4"
  shows "mini_trans T (T\<lparr>tb_events := tb_events T @ [row], tb_next_seq := tb_next_seq T + 1\<rparr>)"
  unfolding mini_trans_def
proof
  assume "mini_ok T"
  then show "mini_ok (T\<lparr>tb_events := tb_events T @ [row], tb_next_seq := tb_next_seq T + 1\<rparr>)
    \<and> mini_ext T (T\<lparr>tb_events := tb_events T @ [row], tb_next_seq := tb_next_seq T + 1\<rparr>)"
    using assms by (auto simp: mini_ok_def mini_ext_def sorted_wrt_append sessions_self0)
qed

section \<open>Operations\<close>

lemma load_record:
  assumes "loadSessionRecord T sessionID = Inr record" and "sr_EndedAt record = None"
  shows "\<exists>s. s \<in> set (tb_sessions T) \<and> s_id s = sessionID \<and> s_ended_at s = None \<and> record = record_of_row T s"
  using assms by (auto simp: loadSessionRecord_def record_of_row_def dest!: find_session_Some split: option.splits)

lemma AppendEvent_trans [mini_intros]: "mini_trans T (snd (AppendEvent now sessionID actorID eventType eventName body T))"
proof (cases "(\<exists>record. loadSessionRecord T sessionID = Inr record \<and> sr_EndedAt record = None) \<and> tb_next_seq T \<le> max_int4")
  case True
  then obtain s where s: "s \<in> set (tb_sessions T)" "s_id s = sessionID" "s_ended_at s = None" using load_record by blast
  let ?row = "\<lparr>e_session = sessionID, e_seq = tb_next_seq T, e_actor = nullif_empty actorID, e_type = eventType,
                        e_name = eventName, e_body = body, e_created_at = now\<rparr>"
  let ?T1 = "T\<lparr>tb_events := tb_events T @ [?row], tb_next_seq := tb_next_seq T + 1\<rparr>"
  have "mini_trans T ?T1" by (rule add_event_trans) (use True in simp_all)
  moreover have "mini_trans ?T1 (update_session sessionID (\<lambda>s. s\<lparr>s_expires_at := Some (now + session_hour)\<rparr>) ?T1)"
    by (rule update_active_trans [of s]) (use s in \<open>simp_all add: row_keeps_def\<close>)
  ultimately have "mini_trans T (update_session sessionID (\<lambda>s. s\<lparr>s_expires_at := Some (now + session_hour)\<rparr>) ?T1)"
    by (rule mini_trans_trans)
  then show ?thesis using True by (auto simp: AppendEvent_def Let_def)
next
  case False
  then show ?thesis by (auto simp: AppendEvent_def not_le split: sum.splits)
qed

lemma log_trans [mini_intros]:
  "mini_trans T (snd (logSessionCreated now sid actor ps perms T))"
  "mini_trans T (snd (logSessionJoined now sid actor p perms T))"
  "mini_trans T (snd (logSnapshotWritten now sid actor v n T))"
  "mini_trans T (snd (logMessageProjected now sid mid meta T))"
  by (simp_all add: logSessionCreated_def logSessionJoined_def logSnapshotWritten_def logMessageProjected_def AppendEvent_trans)

lemma EndSession_trans [mini_intros]: "mini_trans T (snd (EndSession now sessionID T))"
proof (cases "find_session T sessionID")
  case (Some s)
  then show ?thesis
    by (cases "s_ended_at s")
       (auto simp: EndSession_def row_keeps_def dest: find_session_Some intro: update_active_trans [of s])
qed (simp add: EndSession_def)

lemma SnapshotSession_trans [mini_intros]: "mini_trans T (snd (SnapshotSession now sessionID state version actorID T))"
proof (cases "find_session T sessionID")
  case (Some s)
  let ?n = "if version \<le> 0 then s_state_version s + 1 else version"
  let ?b = "state_json (stateEnvelopeFromAny state)"
  let ?T1 = "update_session sessionID (\<lambda>s. s\<lparr>s_state := Some ?b, s_state_version := ?n,
                           s_expires_at := Some (now + session_hour)\<rparr>) T"
  show ?thesis
  proof (cases "s_ended_at s = None \<and> \<not> ?n \<le> s_state_version s")
    case True
    have "mini_trans T ?T1"
      by (rule update_active_trans [of s]) (use find_session_Some [OF Some] True in \<open>auto simp: row_keeps_def\<close>)
    from mini_trans_trans [OF this log_trans(3)] show ?thesis
      using Some True by (auto simp: SnapshotSession_def Let_def)
  next
    case False
    then show ?thesis using Some by (auto simp: SnapshotSession_def Let_def)
  qed
qed (simp add: SnapshotSession_def)

lemma JoinSession_trans [mini_intros]: "mini_trans T (snd (JoinSession now userID sessionID grantedPermissions T))"
proof (cases "\<exists>record. loadSessionRecord T sessionID = Inr record \<and> sr_EndedAt record = None")
  case True
  then obtain rec s where s: "loadSessionRecord T sessionID = Inr rec" "sr_EndedAt rec = None"
      "s \<in> set (tb_sessions T)" "s_id s = sessionID" "s_ended_at s = None"
    using load_record by blast
  have "mini_trans T (update_session sessionID (\<lambda>s. s\<lparr>s_participants := ps, s_participant_permissions := perms\<rparr>) T)" for ps perms
    by (rule update_active_trans [of s]) (use s in \<open>simp_all add: row_keeps_def\<close>)
  from mini_trans_trans [OF this log_trans(2)] show ?thesis
    using s by (auto simp: JoinSession_def Let_def split: option.splits sum.splits)
next
  case False
  then show ?thesis by (auto simp: JoinSession_def split: sum.splits)
qed

lemma refresh_trans:
  assumes "findActiveSession T appID conversationID = Inr existing"
  shows "mini_trans T (refreshSession now (sr_ID existing) participants ttl T)"
proof -
  obtain s where s: "s \<in> set (newest_session (filter (active_session appID conversationID) (tb_sessions T)))"
      "loadSessionRecord T (s_id s) = Inr existing"
    using assms by (auto simp: findActiveSession_def split: list.splits)
  then have m: "s \<in> set (tb_sessions T)" "s_ended_at s = None" by (auto simp: newest_session_def active_session_def)
  have "sr_ID existing = s_id s"
    using s(2) by (auto simp: loadSessionRecord_def record_of_row_def dest: find_session_Some split: option.splits)
  then show ?thesis using m unfolding refreshSession_def
    by (intro update_active_trans [of s]) (auto simp: row_keeps_def)
qed

text \<open>The branches of an operation.\<close>

lemma mt_branches:
  "(\<And>e. x = Inl e \<Longrightarrow> mini_trans T (snd (f e))) \<Longrightarrow> (\<And>b. x = Inr b \<Longrightarrow> mini_trans T (snd (g b)))
    \<Longrightarrow> mini_trans T (snd (case x of Inl e \<Rightarrow> f e | Inr b \<Rightarrow> g b))"
  "(y = None \<Longrightarrow> mini_trans T (snd u)) \<Longrightarrow> (\<And>b. y = Some b \<Longrightarrow> mini_trans T (snd (h b)))
    \<Longrightarrow> mini_trans T (snd (case y of None \<Rightarrow> u | Some b \<Rightarrow> h b))"
  "(c \<Longrightarrow> mini_trans T (snd u)) \<Longrightarrow> (\<not> c \<Longrightarrow> mini_trans T (snd v)) \<Longrightarrow> mini_trans T (snd (if c then u else v))"
  "(\<And>a b. z = (a, b) \<Longrightarrow> mini_trans T (snd (k a b))) \<Longrightarrow> mini_trans T (snd (case z of (a, b) \<Rightarrow> k a b))"
  "mini_trans T T' \<Longrightarrow> mini_trans T (snd (r, T'))"
  by (auto split: sum.splits option.splits prod.splits)

lemma insert_new_session_trans [mini_intros]: "mini_trans T (snd (insert_new_session E now actorID row ps granted T))"
proof -
  have create: "insert_session row T = Some T1 \<Longrightarrow> mini_trans T (snd (logSessionCreated now (s_id row) actorID ps granted T1))"
    for T1
    using mini_trans_trans [OF insert_session_trans log_trans(1)] .
  show ?thesis unfolding insert_new_session_def Let_def by (intro mt_branches mini_trans_refl) (erule create)
qed

lemma CreateSession_trans [mini_intros]: "mini_trans T (snd (CreateSession E now newID input T))"
  unfolding CreateSession_def Let_def
  by (intro mt_branches mini_intros) (auto split: if_splits intro: refresh_trans)

lemma mt_after:
  assumes "mini_trans T (snd z)" and "\<And>x T1. z = (x, T1) \<Longrightarrow> mini_trans T1 (snd (k x T1))"
  shows "mini_trans T (snd (case z of (x, T1) \<Rightarrow> k x T1))"
  using assms mini_trans_trans by (cases z) fastforce

lemma CreateSessionForUser_trans [mini_intros]: "mini_trans T (snd (CreateSessionForUser E now newID userID input T))"
  unfolding CreateSessionForUser_def Let_def
  by (intro mt_after mt_branches(1,3-5) mini_intros)

lemma EndSessionForUser_trans [mini_intros]: "mini_trans T (snd (EndSessionForUser now userID sessionID T))"
  unfolding EndSessionForUser_def by (intro mt_branches mini_intros)

lemma SnapshotSessionForUser_trans [mini_intros]:
  "mini_trans T (snd (SnapshotSessionForUser now userID sessionID state version T))"
  unfolding SnapshotSessionForUser_def by (intro mt_branches mini_intros)

lemma audit_trans [mini_intros]:
  "mini_trans T (auditLogCapabilityAllowed E now userID sessionID m T)"
  "mini_trans T (auditLogCapabilityDenied E now userID sessionID m reason T)"
  by (simp_all add: auditLogCapabilityAllowed_def auditLogCapabilityDenied_def mini_trans_core)

lemma AppendEventForUser_trans [mini_intros]: "mini_trans T (snd (AppendEventForUser E now userID sessionID eventName body T))"
  unfolding AppendEventForUser_def
  by (intro mt_branches mini_trans_refl audit_trans mini_trans_trans [OF audit_trans(1) AppendEvent_trans])

lemma RegisterManifest_core:
  "tb_sessions (snd (RegisterManifest E now newID ownerID manifest T)) = tb_sessions T"
  "tb_events (snd (RegisterManifest E now newID ownerID manifest T)) = tb_events T"
  "tb_next_seq (snd (RegisterManifest E now newID ownerID manifest T)) = tb_next_seq T"
  by (simp_all add: RegisterManifest_def publishRelease_def Let_def
      split: json.splits option.splits sum.splits if_splits prod.splits)

lemma catalogue_trans [mini_intros]:
  "mini_trans T (snd (RegisterManifest E now newID ownerID manifest T))"
  "mini_trans T (mirror_manifest E now newID userID payload T)"
  "mini_trans T (snd (InstallApp now userID appID T))"
  "mini_trans T (snd (UninstallApp userID appID T))"
proof -
  show r: "mini_trans T (snd (RegisterManifest E now newID ownerID manifest T))" for ownerID manifest
    by (rule mini_trans_core) (rule RegisterManifest_core)+
  show "mini_trans T (mirror_manifest E now newID userID payload T)"
    by (auto simp: mirror_manifest_def r split: option.splits)
  show "mini_trans T (snd (InstallApp now userID appID T))"
    by (rule mini_trans_core) (auto simp: InstallApp_def Let_def split: sum.splits)
  show "mini_trans T (snd (UninstallApp userID appID T))"
    by (rule mini_trans_core) (auto simp: UninstallApp_def Let_def)
qed

lemma share_record_trans:
  assumes "share_session_record now newID userID input ps manifestID appID granted T = Some (rec, T1)"
  shows "mini_trans T T1"
proof (cases "\<exists>existing. (if si_ResumeExisting input then findActiveSessionTx T appID (si_ConversationID input) else Inl SessionNotFound)
                = Inr existing")
  case True
  then obtain existing where x: "findActiveSessionTx T appID (si_ConversationID input) = Inr existing" "si_ResumeExisting input"
    by (auto split: if_splits)
  then obtain s where s: "s \<in> set (newest_session (filter (active_session appID (si_ConversationID input)) (tb_sessions T)))"
      "sr_ID existing = s_id s"
    by (fastforce simp: findActiveSessionTx_def record_of_row_def split: list.splits)
  then have "s \<in> set (tb_sessions T)" "s_ended_at s = None" by (auto simp: newest_session_def active_session_def)
  then have "mini_trans T (update_session (sr_ID existing) (\<lambda>s. s\<lparr>s_participants := a, s_participant_permissions := b\<rparr>) T)" for a b
    using s(2) by (intro update_active_trans [of s]) (auto simp: row_keeps_def)
  then show ?thesis using assms x by (auto simp: share_session_record_def Let_def)
next
  case False
  then show ?thesis using assms insert_session_trans
    by (auto simp: share_session_record_def Let_def split: sum.splits if_splits)
qed

lemma insert_card_core:
  assumes "insertAppCardMessageTx now messageID userID conversationID content T = Some (m, T1)"
  shows "mini_trans T T1"
  using assms by (intro mini_trans_core)
    (auto simp: insertAppCardMessageTx_def next_server_order_def insert_message_def update_conversation_def
      split: option.splits if_splits)

lemma domain_event_core: "AppendDomainEvent now c a ty p T = Some T1 \<Longrightarrow> mini_trans T T1"
  by (rule mini_trans_core) (auto simp: AppendDomainEvent_def split: if_splits)

lemma ShareSession_trans [mini_intros]: "mini_trans T (snd (ShareSession E now newID messageID userID input T))"
proof -
  have card: "share_session_record now newID userID input ps manifestID appID granted T = Some (rec, T1) \<Longrightarrow>
      insertAppCardMessageTx now messageID userID c content T1 = Some (m, T2) \<Longrightarrow> mini_trans T T2"
    for ps manifestID appID granted rec T1 c content m T2
    using mini_trans_trans [OF share_record_trans insert_card_core] .
  have event: "mini_trans T T2 \<Longrightarrow> AppendDomainEvent now c userID ty p T2 = Some T3 \<Longrightarrow> mini_trans T T3" for T2 T3 c ty p
    using mini_trans_trans [OF _ domain_event_core] .
  show ?thesis unfolding ShareSession_def Let_def
    by (intro mt_branches mini_trans_refl; hypsubst?)
      (erule (1) card | rule event, erule (1) card, assumption)+
qed

lemma terminate_trans [mini_intros]: "mini_trans T (snd (TerminateSessionsForRelease now appID version T))"
proof -
  have "mini_trans T (fold (\<lambda>sid T. snd (EndSession now sid T)) ids T)" for ids
    by (induction ids arbitrary: T) (auto intro: mini_trans_trans EndSession_trans)
  then show ?thesis by (simp add: TerminateSessionsForRelease_def Let_def)
qed

section \<open>Requests\<close>

text \<open>What happens to the tables: every handler of the routes, the operations that other parts of the
  gateway call, and what other services do to the tables they share with this one.\<close>

inductive mini_step :: "miniEnv \<Rightarrow> miniTables \<Rightarrow> miniTables \<Rightarrow> bool" for E where
  register: "mini_step E T (snd (RegisterManifest_handler E registry now newID user body T))"
| create: "mini_step E T (snd (CreateSession_handler E now newID user req T))"
| finish: "mini_step E T (snd (EndSession_handler now user sessionID T))"
| append: "mini_step E T (snd (AppendEvent_handler E now user sessionID ev T))"
| snapshot: "mini_step E T (snd (Snapshot_handler now user sessionID snap T))"
| join: "mini_step E T (snd (JoinSession_handler now user sessionID granted T))"
| share: "mini_step E T (snd (Share_handler E now newID messageID user shreq T))"
| get_app: "mini_step E T (snd (GetApp_handler E registry now newID user appID query T))"
| install: "mini_step E T (snd (InstallApp_handler E registry now newID user appID query ibody T))"
| uninstall: "mini_step E T (snd (UninstallApp_handler registry user appID T))"
| stop: "mini_step E T (snd (TerminateSessionsForRelease now appID version T))"
| projected: "mini_step E T (snd (logMessageProjected now sessionID messageID metadata T))"
| other: "mini_step E T T'"
    if "tb_sessions T' = tb_sessions T" "tb_events T' = tb_events T" "tb_next_seq T' = tb_next_seq T"
      "tb_manifests T' = tb_manifests T" "tb_releases T' = tb_releases T" "tb_installs T' = tb_installs T"

text \<open>A request on one branch: its service call on the tables, or nothing.\<close>

lemma handler_trans:
  "mini_trans T (snd (RegisterManifest_handler E registry now newID user body T))"
  "mini_trans T (snd (CreateSession_handler E now newID user req T))"
  "mini_trans T (snd (EndSession_handler now user sessionID T))"
  "mini_trans T (snd (AppendEvent_handler E now user sessionID ev T))"
  "mini_trans T (snd (Snapshot_handler now user sessionID snap T))"
  "mini_trans T (snd (JoinSession_handler now user sessionID granted T))"
  "mini_trans T (snd (Share_handler E now newID messageID user shreq T))"
  "mini_trans T (snd (GetApp_handler E registry now newID user appID query T))"
  "mini_trans T (snd (InstallApp_handler E registry now newID user appID query ibody T))"
  "mini_trans T (snd (UninstallApp_handler registry user appID T))"
  unfolding RegisterManifest_handler_def CreateSession_handler_def EndSession_handler_def AppendEvent_handler_def
    Snapshot_handler_def JoinSession_handler_def Share_handler_def GetApp_handler_def InstallApp_handler_def
    UninstallApp_handler_def Let_def
  by (intro mt_after mt_branches(1-3,5) mini_intros | rule mt_branches(4))+

lemma mini_step_trans: "mini_step E T T' \<Longrightarrow> mini_trans T T'"
  by (induction rule: mini_step.induct) ((intro handler_trans mini_intros)+, rule mini_trans_core, simp_all)

lemma mini_steps_trans: "(mini_step E)\<^sup>*\<^sup>* T T' \<Longrightarrow> mini_trans T T'"
  by (induction rule: rtranclp_induct) (auto intro: mini_trans_trans mini_step_trans)

end
