(* ===== verification/MiniappProps.thy ===== *)
theory MiniappProps
  imports MiniappInvariant
begin

text \<open>
  What holds of mini-app sessions: what is stored is read back, who may act on a session, what the
  event log shows, how releases are stopped, and where the code departs from what it says.
\<close>

section \<open>Columns are read back\<close>

definition normalized :: "SessionParticipant list \<Rightarrow> bool" where
  "normalized ps \<longleftrightarrow> list_all (\<lambda>p. p_UserID p \<noteq> [] \<and> p_Role p \<noteq> []) ps \<and> distinct (map p_UserID ps)"

lemma normalize_loop_props:
  "list_all (\<lambda>p. p_UserID p \<noteq> [] \<and> p_Role p \<noteq> []) (normalize_loop seen ps)
   \<and> distinct (map p_UserID (normalize_loop seen ps))
   \<and> set (map p_UserID (normalize_loop seen ps)) \<inter> set seen = {}"
proof (induction ps arbitrary: seen)
  case (Cons p ps)
  then show ?case using Cons [of seen] Cons [of "p_UserID p # seen"] by (auto simp: normalizeParticipant_def)
qed simp

lemma normalizeParticipants_normalized [simp]: "normalized (normalizeParticipants ps viewer)"
  using normalize_loop_props [of "[]" ps] normalize_loop_props [of "[p_UserID viewer]" ps]
  by (auto simp: normalized_def normalizeParticipants_def normalizeParticipant_def)

lemma normalize_loop_id:
  "normalized ps \<Longrightarrow> set (map p_UserID ps) \<inter> set seen = {} \<Longrightarrow> normalize_loop seen ps = ps"
  by (induction ps arbitrary: seen) (auto simp: normalized_def normalizeParticipant_def)

lemma normalizeParticipants_id [simp]: "normalized ps \<Longrightarrow> normalizeParticipants ps no_participant = ps"
  by (simp add: normalizeParticipants_def no_participant_def normalize_loop_id)

lemma all_some_map: "all_some (map (\<lambda>x. Some (f x)) xs) = Some (map f xs)"
  by (induction xs) simp_all

lemma unmarshal_participant_json [simp]: "unmarshal_participant (participant_json p) = Some p"
  by (cases p) (simp add: participant_json_def string_field_def member_values_def members_of_def equal_fold_def
      to_lower_def lower_char_def is_upper_def less_eq_char_def Let_def)

lemma decode_participants [simp]: "normalized ps \<Longrightarrow> decodeParticipants (Some (participants_json ps)) = Some ps"
  using all_some_map [of "\<lambda>p. p" ps] by (simp add: decodeParticipants_def participants_json_def comp_def)

lemma unmarshal_strings [simp]: "unmarshal_slice unmarshal_string (strings_json s) = Some s"
  using all_some_map [of "\<lambda>x. x"] by (cases s) (simp_all add: strings_json_def comp_def)

lemma decode_permissions [simp]:
  "decodeParticipantPermissions (permission_map_json m) = map (\<lambda>(k, s). (k, map_option sort_compact s)) m"
  using all_some_map [of "\<lambda>(k, s). (k, map_option sort_compact s)" m]
  by (simp add: permission_map_json_def comp_def case_prod_beta)

lemma decode_state [simp]:
  "list_all object_or_null (st_ProjectedMessages st) \<Longrightarrow> decodeSessionState (Some (state_json st)) = st"
  by (cases st) (simp add: decodeSessionState_def state_json_def)

lemma normalizeMessageList_ok [simp]: "list_all object_or_null (normalizeMessageList v)"
  by (cases v rule: normalizeMessageList.cases) simp_all

lemma envelope_ok [simp]: "list_all object_or_null (st_ProjectedMessages (stateEnvelopeFromAny v))"
  by (cases v rule: stateEnvelopeFromAny.cases) (simp_all add: defaultSessionState_def)

lemma find_update:
  assumes "\<And>s. s_id (f s) = s_id s"
  shows "find_session (update_session sessionID f T) other =
    map_option (\<lambda>s. if s_id s = sessionID then f s else s) (find_session T other)"
proof -
  have "find (\<lambda>s. s_id s = other) (map (\<lambda>s. if s_id s = sessionID then f s else s) ss) =
      map_option (\<lambda>s. if s_id s = sessionID then f s else s) (find (\<lambda>s. s_id s = other) ss)" for ss
    by (induction ss) (auto simp: assms)
  then show ?thesis by (simp add: find_session_def update_session_def)
qed

lemma find_session_events [simp]:
  "find_session (T\<lparr>tb_events := es, tb_next_seq := n\<rparr>) sid = find_session T sid"
  by (simp add: find_session_def)

text \<open>Logging an event changes no column of a session but its expiry.\<close>

lemma find_after_append:
  "find_session (snd (AppendEvent now sid actor ty nm body T)) other = find_session T other
   \<or> find_session (snd (AppendEvent now sid actor ty nm body T)) other =
       map_option (\<lambda>s. if s_id s = sid then s\<lparr>s_expires_at := Some (now + session_hour)\<rparr> else s) (find_session T other)"
  by (auto simp: AppendEvent_def Let_def find_update split: sum.splits)

lemma find_after_append_Some:
  assumes "find_session T other = Some s"
  shows "\<exists>x. find_session (snd (AppendEvent now sid actor ty nm body T)) other = Some (s\<lparr>s_expires_at := x\<rparr>)"
  using find_after_append [of now sid actor ty nm body T other] assms
  by (cases s) (auto split: if_splits)

lemma releases_after_append [simp]:
  "tb_releases (snd (AppendEvent now sid actor ty nm body T)) = tb_releases T"
  "tb_manifests (snd (AppendEvent now sid actor ty nm body T)) = tb_manifests T"
  "tb_members (snd (AppendEvent now sid actor ty nm body T)) = tb_members T"
  by (auto simp: AppendEvent_def Let_def update_session_def split: sum.splits)

section \<open>Snapshots\<close>

text \<open>A snapshot that is accepted is what the session holds afterwards, under the version that
  was returned, which is greater than the version before; a version that is not greater is a
  conflict and changes nothing.\<close>

theorem snapshot_roundtrip:
  assumes "find_session T sessionID = Some s" and "s_ended_at s = None"
    and "SnapshotSession now sessionID state version actorID T = (r, T')"
  shows "(case r of
      Inr v \<Rightarrow> s_state_version s < v
        \<and> (\<exists>rec. loadSessionRecord T' sessionID = Inr rec \<and> sr_State rec = stateEnvelopeFromAny state \<and> sr_StateVersion rec = v
             \<and> sr_Participants rec = decodeParticipants (s_participants s))
    | Inl e \<Rightarrow> T' = T \<and> (e = StateVersionConflict \<longleftrightarrow> 0 < version \<and> version \<le> s_state_version s))"
proof (cases "(if version \<le> 0 then s_state_version s + 1 else version) \<le> s_state_version s
     \<or> max_int4 < (if version \<le> 0 then s_state_version s + 1 else version)")
  case True
  then show ?thesis using assms by (auto simp: SnapshotSession_def Let_def max_int4_def split: if_splits)
next
  case False
  let ?v = "if version \<le> 0 then s_state_version s + 1 else version"
  let ?b = "state_json (stateEnvelopeFromAny state)"
  let ?f = "\<lambda>s. s\<lparr>s_state := Some ?b, s_state_version := ?v, s_expires_at := Some (now + session_hour)\<rparr>"
  let ?T1 = "update_session sessionID ?f T"
  have r: "r = Inr ?v" "T' = snd (logSnapshotWritten now sessionID actorID ?v (length (marshal ?b)) ?T1)"
    using assms False by (auto simp: SnapshotSession_def Let_def split: if_splits)
  have "find_session ?T1 sessionID = Some (?f s)"
    using assms(1) find_session_Some [OF assms(1)] by (simp add: find_update)
  then obtain x where "find_session T' sessionID = Some ((?f s)\<lparr>s_expires_at := x\<rparr>)"
    using find_after_append_Some by (simp only: r(2) logSnapshotWritten_def) blast
  then show ?thesis using False by (auto simp: r(1) loadSessionRecord_def record_of_row_def)
qed

section \<open>Histories\<close>

definition empty_mini :: miniTables where
  "empty_mini = \<lparr>tb_users = [], tb_devices = [], tb_conversations = [], tb_members = [], tb_counters = [],
     tb_external_phones = [], tb_blocks = [], tb_messages = [], tb_attachments = [], tb_edits = [], tb_reactions = [],
     tb_reaction_events = [], tb_effects = [], tb_receipts = [], tb_idempotency = [], tb_domain_events = [],
     tb_next_event = 1, tb_inbox = [], tb_next_user_event = 1, tb_conv_state = [], tb_cursors = [],
     tb_sessions = [], tb_events = [], tb_next_seq = 1, tb_manifests = [], tb_releases = [], tb_installs = [], tb_audits = []\<rparr>"

lemma empty_mini_ok [simp]: "mini_ok empty_mini"
  by (simp add: empty_mini_def mini_ok_def max_int4_def)

text \<open>C24. Over any run of requests on well-formed tables: a conversation has at most one active session
  of an app; a session keeps its identity, its version never decreases, and an ended session is
  never changed again; the event log only grows, with sequence numbers that increase.\<close>

theorem session_history:
  assumes "mini_ok T0" and "(mini_step E)\<^sup>*\<^sup>* T0 T"
  shows "mini_ok T \<and> mini_ext T0 T"
  using mini_steps_trans [OF assms(2)] assms(1) by (simp add: mini_trans_def)

lemma reached_ok:
  assumes "(mini_step E)\<^sup>*\<^sup>* empty_mini T"
  shows "mini_ok T \<and> mini_ext empty_mini T"
  using mini_steps_trans [OF assms] by (simp add: mini_trans_def)

definition demo_manifest :: "json gomap" where
  "demo_manifest = [(''app_id'', JStr ''a''), (''name'', JStr ''A''), (''version'', JStr ''1.0.0''),
     (''entrypoint'', JObj [(''type'', JStr ''url''), (''url'', JStr ''https://a/'')]),
     (''message_preview'', JObj [(''type'', JStr ''live''), (''url'', JStr ''https://a/p'')]),
     (''permissions'', JArr [JStr ''p'', JStr ''q'']), (''capabilities'', JObj [])]"

definition demo_request :: createReq where
  "demo_request = \<lparr>cq_ManifestID = [], cq_AppID = ''a'', cq_ConversationID = ''c'', cq_Viewer = no_participant,
     cq_Participants = [], cq_GrantedPermissions = None, cq_TTLSeconds = 60, cq_StateSnapshot = JNull,
     cq_ResumeExisting = None\<rparr>"

text \<open>A manifest is registered and a session created.\<close>

definition demo_run :: "miniEnv \<Rightarrow> miniTables" where
  "demo_run E = snd (CreateSession_handler E 7 ''s'' (Some ''u'') (Some demo_request)
     (snd (RegisterManifest_handler E None 5 ''m'' (Some ''o'') (Some demo_manifest) empty_mini)))"

lemma demo_run_steps: "(mini_step E)\<^sup>*\<^sup>* empty_mini (demo_run E)"
proof -
  have "mini_step E empty_mini (snd (RegisterManifest_handler E None 5 ''m'' (Some ''o'') (Some demo_manifest) empty_mini))"
    by (rule mini_step.register)
  moreover have "mini_step E (snd (RegisterManifest_handler E None 5 ''m'' (Some ''o'') (Some demo_manifest) empty_mini)) (demo_run E)"
    unfolding demo_run_def by (rule mini_step.create)
  ultimately show ?thesis by (rule rtranclp.rtrancl_into_rtrancl [OF r_into_rtranclp])
qed

lemma session_history_witness:
  "\<forall>E. mini_ok (demo_run E) \<and> mini_ext empty_mini (demo_run E)"
proof
  fix E
  show "mini_ok (demo_run E) \<and> mini_ext empty_mini (demo_run E)"
    by (rule session_history [OF empty_mini_ok demo_run_steps])
qed

section \<open>Who may act\<close>

text \<open>C25. An event is appended for a user only when the session is active, the user is a member of its
  conversation, has joined, and holds a capability; then exactly one event is added, the next in
  sequence, in the user's name.\<close>

theorem append_authorized:
  assumes "AppendEventForUser E now userID sessionID eventName body T = (r, T')"
  shows "(case r of
      Inr seq \<Rightarrow> (\<exists>rec. loadSessionRecord T sessionID = Inr rec \<and> sr_EndedAt rec = None
           \<and> is_member T userID (sr_ConversationID rec) \<and> hasJoined rec userID
           \<and> elems (viewerGrantedPermissions rec userID) \<noteq> [])
         \<and> seq = tb_next_seq T
         \<and> tb_events T' = tb_events T @ [\<lparr>e_session = sessionID, e_seq = seq, e_actor = nullif_empty userID,
              e_type = ''storage_updated'', e_name = eventName, e_body = body, e_created_at = now\<rparr>]
    | Inl _ \<Rightarrow> tb_events T' = tb_events T \<and> tb_sessions T' = tb_sessions T)"
proof -
  have same: "loadSessionRecord (auditLogCapabilityAllowed E now userID sessionID eventName T) sessionID = loadSessionRecord T sessionID"
    by (simp add: auditLogCapabilityAllowed_def loadSessionRecord_def find_session_def record_of_row_def split: option.splits)
  show ?thesis
    using assms same
    by (auto simp: AppendEventForUser_def AppendEvent_def Let_def ensureConversationMember_def
        validateBridgeMethodWithRateLimit_def auditLogCapabilityAllowed_def auditLogCapabilityDenied_def update_session_def
        split: sum.splits option.splits if_splits)
qed

section \<open>Polling\<close>

text \<open>A client that asks for the events after the last one it has seen, until none is left.\<close>

fun poll_events :: "miniTables \<Rightarrow> string \<Rightarrow> int \<Rightarrow> nat \<Rightarrow> int \<Rightarrow> SessionEvent list" where
  "poll_events T sessionID limit 0 since = []"
| "poll_events T sessionID limit (Suc fuel) since =
     (case GetSessionEvents T sessionID None limit 0 (Some since) of
        Inl _ \<Rightarrow> []
      | Inr es \<Rightarrow> if es = [] then [] else es @ poll_events T sessionID limit fuel (se_EventSeq (last es)))"

lemma session_events_strict:
  "mini_ok T \<Longrightarrow> sorted_wrt (<) (map e_seq (session_events T sid))"
proof -
  assume ok: "mini_ok T"
  let ?es = "filter (\<lambda>e. e_session e = sid) (tb_events T)"
  have strict: "sorted_wrt (<) (map e_seq ?es)"
    using ok by (auto simp: mini_ok_def intro: sorted_wrt_filter_map)
  then have "sorted (map e_seq ?es)" by (rule strict_sorted_imp_sorted)
  then have "sort_key e_seq ?es = ?es" by (simp add: sort_key_id_if_sorted)
  then show ?thesis using strict by (simp add: session_events_def)
qed

lemma strict_after_last:
  assumes "sorted_wrt (<) (map f (xs @ ys))" and "xs \<noteq> []" and "\<forall>x \<in> set xs. (since :: int) < f x"
  shows "filter (\<lambda>e. f (last xs) < f e) (xs @ ys) = ys"
proof -
  have "f x \<le> f (last xs)" if "x \<in> set xs" for x
  proof -
    obtain zs where z: "xs = zs @ [last xs]" using assms(2) by (metis append_butlast_last_id)
    then have "x \<in> set zs \<or> x = last xs" using that by (metis in_set_conv_decomp rotate1.simps(2) set_ConsD set_rotate1)
    moreover have "\<forall>x \<in> set zs. f x < f (last xs)"
      using assms(1) by (subst (asm) z) (auto simp: sorted_wrt_append)
    ultimately show ?thesis by auto
  qed
  moreover have "f (last xs) < f y" if "y \<in> set ys" for y
    using assms(1,2) that by (auto simp: sorted_wrt_append)
  ultimately show ?thesis by (auto simp: filter_empty_conv filter_id_conv not_less)
qed

lemma poll_all:
  assumes strict: "sorted_wrt (<) (map e_seq (session_events T sid))" and "0 < limit"
    and small: "\<forall>e \<in> set (session_events T sid). 0 \<le> e_seq e \<and> e_seq e \<le> max_int4"
    and "0 \<le> since" and "since \<le> max_int4"
    and "length (filter (\<lambda>e. since < e_seq e) (session_events T sid)) < fuel"
  shows "poll_events T sid limit fuel since = map event_of_row (filter (\<lambda>e. since < e_seq e) (session_events T sid))"
  using assms(4-)
proof (induction fuel arbitrary: since)
  case (Suc fuel)
  define n where "n = nat (if limit > 1000 then 1000 else limit)"
  let ?rest = "filter (\<lambda>e. since < e_seq e) (session_events T sid)"
  have n: "0 < n" using assms(2) by (simp add: n_def)
  have get: "GetSessionEvents T sid None limit 0 (Some since) = Inr (map event_of_row (take n ?rest))"
    using Suc.prems(1,2) assms(2) by (auto simp: GetSessionEvents_def Let_def n_def max_int4_def)
  show ?case
  proof (cases "?rest = []")
    case True
    then show ?thesis by (simp add: get)
  next
    case False
    let ?xs = "take n ?rest"
    have ne: "?xs \<noteq> []" using False n by simp
    have l: "last ?xs \<in> set ?rest" using ne by (meson in_set_takeD last_in_set)
    have sr: "sorted_wrt (<) (map e_seq ?rest)" using strict by (rule sorted_wrt_filter_map)
    have "filter (\<lambda>e. e_seq (last ?xs) < e_seq e) (?xs @ drop n ?rest) = drop n ?rest"
      by (rule strict_after_last [where since = since]) (use sr ne in \<open>auto dest: in_set_takeD\<close>)
    moreover have "filter (\<lambda>e. e_seq (last ?xs) < e_seq e) ?rest = filter (\<lambda>e. e_seq (last ?xs) < e_seq e) (session_events T sid)"
      unfolding filter_filter by (rule filter_cong) (use l in auto)
    ultimately have step: "filter (\<lambda>e. e_seq (last ?xs) < e_seq e) (session_events T sid) = drop n ?rest"
      by (simp only: append_take_drop_id)
    have "length (drop n ?rest) < fuel" using Suc.prems(3) n False by (cases ?rest) auto
    then have "poll_events T sid limit fuel (e_seq (last ?xs)) = map event_of_row (drop n ?rest)"
      using Suc.IH [of "e_seq (last ?xs)", unfolded step] l small by simp
    moreover have "se_EventSeq (last (map event_of_row ?xs)) = e_seq (last ?xs)"
      using ne by (simp add: last_map event_of_row_def)
    ultimately show ?thesis using ne by (simp add: get flip: map_append)
  qed
qed simp

text \<open>C26. In every state the gateway reaches, a client that polls with \<open>since_seq\<close> gets every event of
  the session exactly once and in order, whatever its page size.\<close>

theorem event_polling_complete:
  assumes "(mini_step E)\<^sup>*\<^sup>* empty_mini T" and "0 < limit" and "length (tb_events T) < fuel"
  shows "poll_events T sessionID limit fuel 0 = map event_of_row (session_events T sessionID)"
proof -
  have ok: "mini_ok T" and ext: "mini_ext empty_mini T" using reached_ok [OF assms(1)] by auto
  have pos: "\<forall>e \<in> set (tb_events T). 1 \<le> e_seq e \<and> e_seq e \<le> max_int4"
    using ok ext by (auto simp: mini_ok_def mini_ext_def empty_mini_def dest!: bspec)
  then have all: "filter (\<lambda>e. 0 < e_seq e) (session_events T sessionID) = session_events T sessionID"
    by (force simp: session_events_def filter_id_conv)
  have "poll_events T sessionID limit fuel 0 = map event_of_row (filter (\<lambda>e. 0 < e_seq e) (session_events T sessionID))"
  proof (rule poll_all [OF session_events_strict [OF ok] assms(2)])
    show "\<forall>e \<in> set (session_events T sessionID). 0 \<le> e_seq e \<and> e_seq e \<le> max_int4"
      using pos by (force simp: session_events_def)
    have "length (session_events T sessionID) \<le> length (tb_events T)" by (simp add: session_events_def)
    then show "length (filter (\<lambda>e. 0 < e_seq e) (session_events T sessionID)) < fuel" using assms(3) all by simp
  qed (simp_all add: max_int4_def)
  then show ?thesis by (simp only: all)
qed

lemma event_polling_complete_witness:
  "\<forall>E. poll_events (demo_run E) ''s'' 1 (Suc (length (tb_events (demo_run E)))) 0
     = map event_of_row (session_events (demo_run E) ''s'')"
proof
  fix E
  show "poll_events (demo_run E) ''s'' 1 (Suc (length (tb_events (demo_run E)))) 0
     = map event_of_row (session_events (demo_run E) ''s'')"
    by (rule event_polling_complete [OF demo_run_steps]) simp_all
qed

section \<open>Membership and consent\<close>

lemma find_row: "s_id row = sid \<Longrightarrow> find (\<lambda>s. s_id s = sid) ss = None \<Longrightarrow> find (\<lambda>s. s_id s = sid) (ss @ [row]) = Some row"
  by (induction ss) (auto split: if_splits)

text \<open>The session \<open>CreateSession\<close> inserts, as it is read back.\<close>

lemma CreateSession_created:
  assumes "CreateSession E now newID input T = (Inr (view, True), T')"
  shows "\<exists>s. find_session T' newID = Some s \<and> find_session T newID = None \<and> sr_ID (vw_record view) = newID
    \<and> s_ended_at s = None \<and> s_conversation_id s = ci_ConversationID input
    \<and> loadSessionRecord T' newID = Inr (vw_record view)
    \<and> s_created_by s = nullif_empty (p_UserID (ci_Viewer input))
    \<and> (p_UserID (ci_Viewer input) \<noteq> [] \<longrightarrow> hasJoined (vw_record view) (p_UserID (ci_Viewer input)))
    \<and> (tb_next_seq T \<le> max_int4 \<longrightarrow> s_expires_at s = Some (now + session_hour))
    \<and> tb_members T' = tb_members T"
proof -
  obtain mid app ps granted ttl where
      ins0: "insert_new_session E now (p_UserID (normalizeParticipant (ci_Viewer input)))
        (create_row now newID mid app input ps granted ttl) ps granted T = (Inr (view, True), T')"
    using assms unfolding CreateSession_def Let_def
    by (auto split: sum.splits option.splits if_splits prod.splits)
  define row where "row = create_row now newID mid app input ps granted ttl"
  define actor where "actor = p_UserID (normalizeParticipant (ci_Viewer input))"
  have row: "insert_session row T \<noteq> None" "s_id row = newID" "s_ended_at row = None"
      "s_conversation_id row = ci_ConversationID input" "s_created_by row = nullif_empty (p_UserID (ci_Viewer input))"
      "s_participant_permissions row = permission_map_json
         (if p_UserID (ci_Viewer input) \<noteq> [] then [(p_UserID (ci_Viewer input), clone_slice (elems granted))] else [])"
    and T': "T' = snd (logSessionCreated now newID actor ps granted (the (insert_session row T)))"
    and view: "GetSession_gw E T' newID = Inr view"
    using ins0 by (auto simp: insert_new_session_def row_def actor_def create_row_def Let_def split: option.splits sum.splits)
  let ?T1 = "T\<lparr>tb_sessions := tb_sessions T @ [row]\<rparr>"
  have ins: "insert_session row T = Some ?T1" and none: "find_session T newID = None"
    using row(1,2) by (auto simp: insert_session_def split: if_splits)
  have f1: "find_session ?T1 newID = Some row"
    using none row(2) by (simp add: find_session_def find_row)
  obtain x where fx: "find_session T' newID = Some (row\<lparr>s_expires_at := x\<rparr>)"
    using find_after_append_Some [OF f1] by (simp only: T' ins option.sel logSessionCreated_def) blast
  have load: "loadSessionRecord T' newID = Inr (vw_record view)" and rid: "sr_ID (vw_record view) = newID"
    and perms: "sr_ParticipantPermissions (vw_record view) = decodeParticipantPermissions (s_participant_permissions row)"
    using view fx row(2) by (auto simp: GetSession_gw_def loadSessionRecord_def sessionRecordToMap_def Let_def record_of_row_def)
  have "s_expires_at (row\<lparr>s_expires_at := x\<rparr>) = Some (now + session_hour)" if n: "tb_next_seq T \<le> max_int4"
  proof -
    have "loadSessionRecord ?T1 newID = Inr (record_of_row ?T1 row)" using f1 by (simp add: loadSessionRecord_def)
    moreover have "sr_EndedAt (record_of_row ?T1 row) = None" using row(3) by (simp add: record_of_row_def)
    ultimately have "find_session T' newID = Some (row\<lparr>s_expires_at := Some (now + session_hour)\<rparr>)"
      using n f1 row(2)
      by (simp add: T' ins logSessionCreated_def AppendEvent_def event_types_def Let_def find_update)
    then show ?thesis using fx by simp
  qed
  moreover have "tb_members T' = tb_members T" by (simp add: T' ins logSessionCreated_def)
  moreover have "p_UserID (ci_Viewer input) \<noteq> [] \<longrightarrow> hasJoined (vw_record view) (p_UserID (ci_Viewer input))"
    using row(6) by (simp add: hasJoined_def perms)
  ultimately show ?thesis using fx none load rid row by (intro exI [of _ "row\<lparr>s_expires_at := x\<rparr>"]) auto
qed

text \<open>Creating a session on behalf of a user writes the session before the user's membership is
  checked: a request of an outsider is refused, but the session stays, active in the conversation,
  and the viewer named in the request counts as having joined it with capabilities.\<close>

theorem create_before_membership:
  assumes "CreateSession E now newID input T = (Inr (view, True), T1)" and "newID \<noteq> []"
    and "p_UserID (ci_Viewer input) \<noteq> []" and "\<not> is_member T userID (ci_ConversationID input)"
  shows "CreateSessionForUser E now newID userID input T = (Inl (PlainError ''conversation_access_denied''), T1)
    \<and> (\<exists>rec. loadSessionRecord T1 newID = Inr rec \<and> sr_EndedAt rec = None
         \<and> sr_ConversationID rec = ci_ConversationID input \<and> hasJoined rec (p_UserID (ci_Viewer input)))"
proof -
  obtain s where s: "find_session T1 newID = Some s" "sr_ID (vw_record view) = newID" "s_ended_at s = None"
      "s_conversation_id s = ci_ConversationID input" "loadSessionRecord T1 newID = Inr (vw_record view)"
      "hasJoined (vw_record view) (p_UserID (ci_Viewer input))" "tb_members T1 = tb_members T"
    using CreateSession_created [OF assms(1)] assms(3) by blast
  have "vw_record view = record_of_row T1 s" using s(1,5) by (simp add: loadSessionRecord_def)
  then have r: "sr_EndedAt (vw_record view) = None" "sr_ConversationID (vw_record view) = ci_ConversationID input"
    using s(3,4) by (simp_all add: record_of_row_def)
  have "\<not> is_member T1 userID (ci_ConversationID input)" using assms(4) s(7) by (simp add: is_member_def)
  then have "JoinSession now userID newID g T1 = (Inl (PlainError ''conversation_access_denied''), T1)" for g
    using s(5) r by (simp add: JoinSession_def ensureConversationMember_def)
  then show ?thesis using assms(1-3) s r by (simp add: CreateSessionForUser_def Let_def)
qed

text \<open>Tables with one app, its manifest and nobody in the conversation.\<close>

definition demo_tables :: miniTables where
  "demo_tables = empty_mini\<lparr>tb_manifests := [\<lparr>m_id = ''m'', m_owner = ''o'',
        m_manifest = JObj [(''app_id'', JStr ''a''), (''permissions'', JArr [JStr ''p'', JStr ''q''])], m_created_at = 5\<rparr>],
     tb_releases := [\<lparr>g_app_id = ''a'', g_version = ''1.0.0'', g_manifest_id = ''m'', g_publisher = ''o'',
        g_visibility = ''public'', g_source_type = ''external'', g_entrypoint_origin = [], g_preview_origin = [],
        g_manifest_hash = [], g_created_at = 5, g_published_at = 5\<rparr>]\<rparr>"

definition demo_env :: miniEnv where
  "demo_env = \<lparr>me_checks = \<lparr>rsa_verify = (\<lambda>k d sig. False), ed25519_verify = (\<lambda>k d sig. False),
        sha256_sum = (\<lambda>s. replicate 32 CHR ''h'')\<rparr>,
     me_publicKey = None, me_audit = \<lparr>au_digest = (\<lambda>s. ''d'' @ s), au_jsonb_text = marshal\<rparr>,
     me_status = (\<lambda>a v. StatusError), me_replication = False, me_rfc3339 = (\<lambda>t. [])\<rparr>"

definition demo_input :: CreateSessionInput where
  "demo_input = \<lparr>ci_ManifestID = [], ci_AppID = ''a'', ci_ConversationID = ''c'',
     ci_Viewer = \<lparr>p_UserID = ''v'', p_Role = ''PLAYER'', p_DisplayName = []\<rparr>, ci_Participants = [],
     ci_GrantedPermissions = None, ci_StateSnapshot = JNull, ci_TTL = 60, ci_ResumeExisting = True\<rparr>"

lemma demo_created: "\<exists>view T1. CreateSession demo_env 7 ''s'' demo_input demo_tables = (Inr (view, True), T1)"
  by (simp add: CreateSession_def insert_new_session_def demo_input_def demo_tables_def demo_env_def empty_mini_def
      resolveManifest_def loadCatalogEntryByAppID_def public_releases_def newest_first_def find_manifest_def
      catalog_entry_def release_block_def CheckReleaseStatus_def findActiveSession_def newest_session_def
      insert_session_def find_session_def create_row_def logSessionCreated_def AppendEvent_def loadSessionRecord_def
      record_of_row_def max_int4_def event_types_def update_session_def GetSession_gw_def Let_def obj_or_nil_def
      sort_key_def insort_key_def)

lemma create_before_membership_witness:
  "\<exists>T1 rec. CreateSessionForUser demo_env 7 ''s'' ''x'' demo_input demo_tables
       = (Inl (PlainError ''conversation_access_denied''), T1)
     \<and> loadSessionRecord T1 ''s'' = Inr rec \<and> hasJoined rec ''v''"
proof -
  obtain view T1 where c: "CreateSession demo_env 7 ''s'' demo_input demo_tables = (Inr (view, True), T1)"
    using demo_created by blast
  from create_before_membership [OF c, of "''x''"] show ?thesis
    by (auto simp: is_member_def demo_tables_def empty_mini_def demo_input_def)
qed

text \<open>The time to live asked for is lost: logging the creation sets the expiry to one hour.\<close>

theorem session_ttl_lost:
  assumes "CreateSession E now newID input T = (Inr (view, True), T1)" and "tb_next_seq T \<le> max_int4"
  shows "\<exists>s. find_session T1 newID = Some s \<and> s_expires_at s = Some (now + session_hour)"
  using CreateSession_created [OF assms(1)] assms(2) by blast

section \<open>Releases\<close>

text \<open>A release that the status query reports as suspended starts no session, though the handler
  answers 500 where it means 403; but when the query itself fails, as it does on the gateway's own
  table, sessions are created as if every release were available.\<close>

theorem kill_switch_fails_open:
  "(resolveManifest T (ci_ManifestID input) (ci_AppID input) = Inr (manifestID, appID, permitted)
     \<and> loadCatalogEntryByAppID T (p_UserID (ci_Viewer input)) appID = Inr entry \<and> appID \<noteq> [] \<and> ce_Version entry \<noteq> []
     \<and> me_status E appID (ce_Version entry) = StatusRow review (Some t) revoked \<longrightarrow>
       (\<exists>e. CreateSession E now newID input T = (Inl e, T) \<and> create_error e = MiniErr 500 ''create_failed''))
   \<and> ((\<forall>a v. me_status E a v = StatusError) \<longrightarrow>
       CreateSession E now newID input T =
       CreateSession (E\<lparr>me_status := (\<lambda>a v. StatusRow ''approved'' None None)\<rparr>) now newID input T)"
proof (intro conjI impI)
  assume a: "resolveManifest T (ci_ManifestID input) (ci_AppID input) = Inr (manifestID, appID, permitted)
     \<and> loadCatalogEntryByAppID T (p_UserID (ci_Viewer input)) appID = Inr entry \<and> appID \<noteq> [] \<and> ce_Version entry \<noteq> []
     \<and> me_status E appID (ce_Version entry) = StatusRow review (Some t) revoked"
  then show "\<exists>e. CreateSession E now newID input T = (Inl e, T) \<and> create_error e = MiniErr 500 ''create_failed''"
    by (simp add: CreateSession_def Let_def release_block_def CheckReleaseStatus_def create_error_def)
next
  assume a: "\<forall>a v. me_status E a v = StatusError"
  let ?E = "E\<lparr>me_status := (\<lambda>a v. StatusRow ''approved'' None None)\<rparr>"
  have rb: "release_block ?E = release_block E"
    using a by (intro ext) (simp add: release_block_def CheckReleaseStatus_def)
  have g: "GetSession_gw ?E = GetSession_gw E"
    by (intro ext) (simp add: GetSession_gw_def sessionRecordToMap_def Let_def split: sum.splits)
  have i: "insert_new_session ?E = insert_new_session E"
    by (intro ext, unfold insert_new_session_def g) (rule refl)
  show "CreateSession E now newID input T = CreateSession ?E now newID input T"
    unfolding CreateSession_def rb g i by (rule refl)
qed

text \<open>Ending each session of a list ends exactly those that were active.\<close>

definition ended_at :: "time \<Rightarrow> sessionRow \<Rightarrow> sessionRow" where
  "ended_at now s = (if s_ended_at s = None then s\<lparr>s_ended_at := Some now\<rparr> else s)"

lemma EndSession_sessions:
  assumes "distinct (map s_id (tb_sessions T))"
  shows "tb_sessions (snd (EndSession now sid T)) = map (\<lambda>s. if s_id s = sid then ended_at now s else s) (tb_sessions T)"
proof (cases "find_session T sid")
  case None
  then have "\<forall>s \<in> set (tb_sessions T). s_id s \<noteq> sid" by (auto simp: find_session_def find_None_iff)
  then have "map (\<lambda>s. if s_id s = sid then ended_at now s else s) (tb_sessions T) = tb_sessions T"
    by (simp add: map_idI)
  then show ?thesis using None by (simp add: EndSession_def)
next
  case (Some x)
  have x: "s = x" if "s \<in> set (tb_sessions T)" "s_id s = sid" for s
    using that find_session_Some [OF Some] assms by (auto simp: distinct_map dest: inj_onD)
  show ?thesis using Some x
    by (cases "s_ended_at x = None") (auto simp: EndSession_def update_session_def ended_at_def intro!: map_idI [symmetric])
qed

lemma EndSession_fold:
  assumes "distinct (map s_id (tb_sessions T))"
  shows "tb_sessions (fold (\<lambda>sid T. snd (EndSession now sid T)) ids T)
    = map (\<lambda>s. if s_id s \<in> set ids then ended_at now s else s) (tb_sessions T)"
  using assms
proof (induction ids arbitrary: T)
  case (Cons i ids)
  let ?T1 = "snd (EndSession now i T)"
  have ids: "map s_id (tb_sessions ?T1) = map s_id (tb_sessions T)"
    unfolding EndSession_sessions [OF Cons.prems] by (simp add: ended_at_def)
  have "tb_sessions (fold (\<lambda>sid T. snd (EndSession now sid T)) ids ?T1)
      = map (\<lambda>s. if s_id s \<in> set ids then ended_at now s else s) (tb_sessions ?T1)"
    by (rule Cons.IH) (use ids Cons.prems in simp)
  also have "\<dots> = map (\<lambda>s. if s_id s \<in> set (i # ids) then ended_at now s else s) (tb_sessions T)"
    unfolding EndSession_sessions [OF Cons.prems] map_map
    by (rule map_cong [OF refl]) (simp add: ended_at_def)
  finally show ?case by simp
qed simp

text \<open>Stopping a release ends every active session of the app, of whatever version, and no other:
  afterwards the app has no active session, and the count is the number of sessions ended.\<close>

theorem terminate_ends_all:
  assumes "mini_ok T" and "TerminateSessionsForRelease now appID version T = (Inr n, T')"
  shows "tb_sessions T' = map (\<lambda>s. if s_app_id s = appID then ended_at now s else s) (tb_sessions T)
    \<and> (\<forall>s \<in> set (tb_sessions T'). s_app_id s = appID \<longrightarrow> s_ended_at s \<noteq> None)
    \<and> n = length (filter (\<lambda>s. s_app_id s = appID \<and> s_ended_at s = None) (tb_sessions T))"
proof -
  let ?ids = "map s_id (filter (\<lambda>s. s_app_id s = appID \<and> s_ended_at s = None) (tb_sessions T))"
  have d: "distinct (map s_id (tb_sessions T))" using assms(1) by (simp add: mini_ok_def)
  have mem: "s_id s \<in> set ?ids \<longleftrightarrow> s_app_id s = appID \<and> s_ended_at s = None" if s: "s \<in> set (tb_sessions T)" for s
  proof
    assume "s_id s \<in> set ?ids"
    then obtain x where "x \<in> set (tb_sessions T)" "s_app_id x = appID \<and> s_ended_at x = None" "s_id x = s_id s"
      by (auto simp only: set_map set_filter image_iff)
    then show "s_app_id s = appID \<and> s_ended_at s = None" using distinct_session [OF assms(1)] s by metis
  qed (use s in simp)
  have r: "n = length ?ids" "T' = fold (\<lambda>sessionID T. snd (EndSession now sessionID T)) ?ids T"
    using assms(2) by (simp_all add: TerminateSessionsForRelease_def Let_def)
  have "tb_sessions T' = map (\<lambda>s. if s_id s \<in> set ?ids then ended_at now s else s) (tb_sessions T)"
    unfolding r(2) by (rule EndSession_fold [OF d])
  also have "\<dots> = map (\<lambda>s. if s_app_id s = appID then ended_at now s else s) (tb_sessions T)"
    by (rule map_cong [OF refl], subst mem, assumption) (simp add: ended_at_def)
  finally have m: "tb_sessions T' = map (\<lambda>s. if s_app_id s = appID then ended_at now s else s) (tb_sessions T)" .
  moreover have "\<forall>s \<in> set (tb_sessions T'). s_app_id s = appID \<longrightarrow> s_ended_at s \<noteq> None"
  proof (intro ballI impI)
    fix s assume s: "s \<in> set (tb_sessions T')" "s_app_id s = appID"
    then obtain x where x: "s = (if s_app_id x = appID then ended_at now x else x)"
      unfolding m set_map by (elim imageE)
    have "s_app_id x = appID" using s(2) x by (cases "s_app_id x = appID") simp_all
    then show "s_ended_at s \<noteq> None" using x by (cases "s_ended_at x") (simp_all add: ended_at_def)
  qed
  ultimately show ?thesis using r(1) by simp
qed

section \<open>Registration\<close>

lemma find_snoc_new: "find P xs = None \<Longrightarrow> P x \<Longrightarrow> find P (xs @ [x]) = Some x"
  by (induction xs) (auto split: if_splits)

text \<open>What a successful registration leaves: the version is published under the id that was
  returned, and the manifest stored there has the hash of the one registered.\<close>

lemma registered:
  assumes "RegisterManifest E now newID ownerID (JObj m) T = (Inr i, T1)"
  shows "validateManifest_gw m = None
    \<and> findPublishedManifestID T1 (stringField_gw m ''app_id'') (stringField_gw m ''version'') = Inr i
    \<and> manifestHashByID E T1 i = Inr (manifestHashHex (me_checks E) (marshal (JObj m)))"
proof -
  let ?a = "stringField_gw m ''app_id''" and ?v = "stringField_gw m ''version''"
  have valid: "validateManifest_gw m = None"
    using assms by (auto simp: RegisterManifest_def split: option.splits)
  show ?thesis
  proof (cases "findPublishedManifestID T ?a ?v")
    case (Inr j)
    then show ?thesis using assms valid
      by (auto simp: RegisterManifest_def Let_def split: sum.splits if_splits option.splits)
  next
    case (Inl e)
    then have none: "find (\<lambda>r. g_app_id r = ?a \<and> g_version r = ?v) (tb_releases T) = None"
      by (auto simp: findPublishedManifestID_def split: option.splits)
    have new: "find_manifest T newID = None" and i: "i = newID"
      and T1: "tb_manifests T1 = tb_manifests T @ [\<lparr>m_id = newID, m_owner = ownerID, m_manifest = JObj m, m_created_at = now\<rparr>]"
        "\<exists>r. g_app_id r = ?a \<and> g_version r = ?v \<and> g_manifest_id r = newID \<and> tb_releases T1 = tb_releases T @ [r]"
      using assms Inl valid
      by (auto simp: RegisterManifest_def publishRelease_def Let_def split: sum.splits if_splits option.splits prod.splits)
    obtain r where r: "g_app_id r = ?a" "g_version r = ?v" "g_manifest_id r = newID" "tb_releases T1 = tb_releases T @ [r]"
      using T1(2) by blast
    have "findPublishedManifestID T1 ?a ?v = Inr newID"
      using find_snoc_new [OF none, of r] r by (simp add: findPublishedManifestID_def)
    moreover have "find_manifest T1 newID = Some \<lparr>m_id = newID, m_owner = ownerID, m_manifest = JObj m, m_created_at = now\<rparr>"
      using new by (simp add: find_manifest_def T1(1) find_snoc_new)
    ultimately show ?thesis using valid i by (simp add: manifestHashByID_def)
  qed
qed

text \<open>A published version is fixed: registering the same app and version again succeeds only with a
  manifest of the same hash, gives the id of the first registration and changes nothing; another
  manifest is refused.\<close>

theorem manifest_registration_fixed:
  assumes "RegisterManifest E now newID ownerID (JObj m) T = (Inr i, T1)"
    and "RegisterManifest E now' newID' ownerID' (JObj m') T1 = (r, T2)"
    and "stringField_gw m' ''app_id'' = stringField_gw m ''app_id''"
    and "stringField_gw m' ''version'' = stringField_gw m ''version''"
  shows "T2 = T1 \<and> (case r of
      Inr i' \<Rightarrow> i' = i \<and> manifestHashHex (me_checks E) (marshal (JObj m')) = manifestHashHex (me_checks E) (marshal (JObj m))
    | Inl e \<Rightarrow> validateManifest_gw m' = None \<and> me_publicKey E = None \<longrightarrow>
        e = ManifestInvalid ''app_id/version already published with different manifest'')"
  using registered [OF assms(1)] assms(2-)
  by (auto simp: RegisterManifest_def Let_def split: sum.splits if_splits option.splits)

lemma demo_registered:
  "validateManifest_gw m = None \<Longrightarrow> \<exists>T1. RegisterManifest demo_env 5 ''m'' ''o'' (JObj m) empty_mini = (Inr ''m'', T1)"
  by (simp add: RegisterManifest_def demo_env_def empty_mini_def findPublishedManifestID_def find_manifest_def
      publishRelease_def Let_def)

lemma demo_manifest_valid: "validateManifest_gw demo_manifest = None"
  by (simp add: validateManifest_gw_def demo_manifest_def nonEmptyStringField_def stringField_gw_def
      semverPattern_def validatePreviewURL_def url_parse_def get_scheme_def scheme_char_def is_letter_def
      parse_authority_def parse_host_def host_char_def after_last_def before_char_def is_ctl_def has_prefix_def
      isLocalhost_def url_hostname_def is_digit_def is_upper_def is_lower_def less_eq_char_def Let_def
      stringSliceFieldPresent_def has_suffix_def to_lower_def lower_char_def)

lemma manifest_registration_fixed_witness:
  "\<exists>T1. RegisterManifest demo_env 9 ''n'' ''x'' (JObj demo_manifest) T1 = (Inr ''m'', T1)"
proof -
  obtain T1 where r: "RegisterManifest demo_env 5 ''m'' ''o'' (JObj demo_manifest) empty_mini = (Inr ''m'', T1)"
    using demo_registered [OF demo_manifest_valid] by blast
  obtain q T2 where q: "RegisterManifest demo_env 9 ''n'' ''x'' (JObj demo_manifest) T1 = (q, T2)"
    by (cases "RegisterManifest demo_env 9 ''n'' ''x'' (JObj demo_manifest) T1") 
  have "q = Inr ''m''"
    using q registered [OF r] by (simp add: RegisterManifest_def demo_env_def Let_def split: sum.splits option.splits if_splits)
  then show ?thesis using manifest_registration_fixed [OF r q] q by auto
qed

section \<open>Sharing\<close>

lemma shared_record:
  assumes "share_session_record now newID userID input ps manifestID appID granted T = Some (rec, T1)"
  shows "(\<exists>s \<in> set (tb_sessions T1). s_id s = sr_ID rec \<and> s_ended_at s = None \<and> s_app_id s = appID
      \<and> s_conversation_id s = si_ConversationID input) \<and> hasJoined rec userID
    \<and> tb_counters T1 = tb_counters T \<and> tb_messages T1 = tb_messages T
    \<and> tb_conversations T1 = tb_conversations T \<and> tb_users T1 = tb_users T"
proof (cases "if si_ResumeExisting input then findActiveSessionTx T appID (si_ConversationID input) else Inl SessionNotFound")
  case (Inr existing)
  then have "findActiveSessionTx T appID (si_ConversationID input) = Inr existing" by (simp split: if_splits)
  then obtain s where s: "s \<in> set (newest_session (filter (active_session appID (si_ConversationID input)) (tb_sessions T)))"
      "sr_ID existing = s_id s"
    by (fastforce simp: findActiveSessionTx_def record_of_row_def split: list.splits)
  then have "s \<in> set (tb_sessions T)" "active_session appID (si_ConversationID input) s" by (auto simp: newest_session_def)
  then have "\<exists>x \<in> set (tb_sessions (update_session (sr_ID existing) (\<lambda>s. s\<lparr>s_participants := a, s_participant_permissions := b\<rparr>) T)).
      s_id x = sr_ID existing \<and> s_ended_at x = None \<and> s_app_id x = appID \<and> s_conversation_id x = si_ConversationID input" for a b
    using s(2) by (intro bexI [of _ "s\<lparr>s_participants := a, s_participant_permissions := b\<rparr>"])
      (auto simp: update_session_def active_session_def image_iff intro!: bexI [of _ s])
  then show ?thesis using assms Inr
    by (auto simp: share_session_record_def Let_def hasJoined_def update_conv update_session_def)
next
  case (Inl e)
  then show ?thesis using assms
    by (auto simp: share_session_record_def Let_def hasJoined_def insert_session_def split: if_splits)
qed

text \<open>Sharing is all or nothing.  When it fails nothing is changed; when it succeeds the sharer is a
  member, every participant has a device for mini-apps, the session is active in the conversation,
  and its card is the conversation's next message in order.\<close>

theorem share_all_or_nothing:
  assumes "ShareSession E now newID messageID userID input T = (r, T')"
  shows "case r of
      Inl e \<Rightarrow> T' = T
    | Inr result \<Rightarrow> is_member T userID (si_ConversationID input)
        \<and> ensureMiniAppEligibleTx T (loadConversationParticipantsTx T (si_ConversationID input)) = None
        \<and> (\<exists>s \<in> set (tb_sessions T'). s_id s = sr_ID (sh_record result) \<and> s_ended_at s = None
             \<and> s_conversation_id s = si_ConversationID input)
        \<and> (\<exists>n. map_of (tb_counters T) (si_ConversationID input) = Some n
             \<and> map_of (tb_counters T') (si_ConversationID input) = Some (n + 1)
             \<and> (\<exists>card. tb_messages T' = tb_messages T
                  @ [new_message messageID (si_ConversationID input) userID ''app_card'' (JObj card) ''OTT'' n now]
                \<and> map_of card ''app_session_id'' = Some (JStr (sr_ID (sh_record result)))))"
proof (cases r)
  case (Inl e)
  then show ?thesis using assms
    by (auto simp: ShareSession_def Let_def split: option.splits sum.splits if_splits prod.splits)
next
  case (Inr result)
  let ?ps = "loadConversationParticipantsTx T (si_ConversationID input)"
  have c: "si_ConversationID input \<noteq> []" "is_member T userID (si_ConversationID input)" "ensureMiniAppEligibleTx T ?ps = None"
    using assms Inr by (auto simp: ShareSession_def ensureConversationMember_def Let_def split: option.splits if_splits)
  obtain manifestID appID permitted where m: "resolveManifest T (si_ManifestID input) (si_AppID input) = Inr (manifestID, appID, permitted)"
    using assms Inr c by (cases "resolveManifest T (si_ManifestID input) (si_AppID input)")
      (auto simp: ShareSession_def ensureConversationMember_def Let_def)
  define granted where "granted = (if elems (sanitizeGrantedPermissions (elems (si_GrantedPermissions input)) permitted) = []
      then clone_slice permitted else sanitizeGrantedPermissions (elems (si_GrantedPermissions input)) permitted)"
  note d = assms [unfolded ShareSession_def ensureConversationMember_def Let_def Inr, simplified c m, simplified, folded granted_def]
  obtain rec T1 where sh: "share_session_record now newID userID input ?ps manifestID appID granted T = Some (rec, T1)"
    using d by (cases "share_session_record now newID userID input ?ps manifestID appID granted T") auto
  obtain entry where e: "loadCatalogEntryByAppID T [] appID = Inr entry"
    using d sh by (cases "loadCatalogEntryByAppID T [] appID") auto
  obtain message T2 where ms: "insertAppCardMessageTx now messageID userID (si_ConversationID input)
      (buildAppCardContent (ce_Manifest entry) rec) T1 = Some (message, T2)"
    using d sh e by (cases "insertAppCardMessageTx now messageID userID (si_ConversationID input)
      (buildAppCardContent (ce_Manifest entry) rec) T1") auto
  have st: "is_member T userID (si_ConversationID input)" "ensureMiniAppEligibleTx T ?ps = None"
      "share_session_record now newID userID input ?ps manifestID appID granted T = Some (rec, T1)"
      "insertAppCardMessageTx now messageID userID (si_ConversationID input) (buildAppCardContent (ce_Manifest entry) rec) T1
         = Some (message, T2)"
      "sh_record result = rec" "tb_sessions T' = tb_sessions T2" "tb_counters T' = tb_counters T2" "tb_messages T' = tb_messages T2"
    using c sh ms d e by (auto simp: AppendDomainEvent_def split: if_splits option.splits)
  note sr = shared_record [OF st(3)]
  obtain n where n: "map_of (tb_counters T1) (si_ConversationID input) = Some n"
      "tb_counters T2 = AList.update (si_ConversationID input) (n + 1) (tb_counters T1)"
      "tb_messages T2 = tb_messages T1 @ [new_message messageID (si_ConversationID input) userID ''app_card''
         (JObj (buildAppCardContent (ce_Manifest entry) rec)) ''OTT'' n now]"
      "tb_sessions T2 = tb_sessions T1"
    using st(4) by (auto simp: insertAppCardMessageTx_def next_server_order_def insert_message_def update_conversation_def
        split: option.splits if_splits)
  have "map_of (buildAppCardContent (ce_Manifest entry) rec) ''app_session_id'' = Some (JStr (sr_ID rec))"
    by (simp add: buildAppCardContent_def Let_def)
  then show ?thesis using sr n st Inr by (simp add: update_conv) blast
qed

text \<open>A sharer who asks for capabilities the manifest does not have is granted all of the manifest's.\<close>

theorem unknown_request_grants_all:
  assumes "ShareSession E now newID messageID userID input T = (Inr result, T')"
    and "resolveManifest T (si_ManifestID input) (si_AppID input) = Inr (manifestID, appID, permitted)"
    and "\<forall>p \<in> set (elems (si_GrantedPermissions input)). p \<notin> set permitted"
  shows "sh_capabilities_granted result = clone_slice permitted"
proof -
  have "elems (sanitizeGrantedPermissions (elems (si_GrantedPermissions input)) permitted) = []
      \<or> sanitizeGrantedPermissions (elems (si_GrantedPermissions input)) permitted = clone_slice permitted"
    using assms(3) by (auto simp: sanitizeGrantedPermissions_def filter_empty_conv)
  then show ?thesis using assms(1,2)
    by (auto simp: ShareSession_def Let_def split: option.splits sum.splits if_splits prod.splits)
qed

section \<open>Joining\<close>

lemma sanitize_subset: "set (elems (sanitizeGrantedPermissions requested allowed)) \<subseteq> set allowed"
  by (auto simp: sanitizeGrantedPermissions_def)

lemma find_after_join:
  assumes "JoinSession now userID sessionID g T = (Inr view, T')"
  shows "\<exists>rec permitted normalized s. loadSessionRecord T sessionID = Inr rec
    \<and> is_member T userID (sr_ConversationID rec) \<and> manifestPermissionsForAppID T (sr_AppID rec) = Inr permitted
    \<and> set (elems normalized) \<subseteq> set permitted
    \<and> find_session T' sessionID = Some s
    \<and> s_participant_permissions s = permission_map_json
        (AList.update userID normalized (cloneParticipantPermissions (sr_ParticipantPermissions rec)))
    \<and> s_participants s = Some (participants_json (normalizeParticipants (elems (sr_Participants rec))
        \<lparr>p_UserID = userID, p_Role = ''PLAYER'', p_DisplayName = []\<rparr>))
    \<and> vw_capabilities_granted view = clone_slice (elems normalized)"
proof -
  obtain rec permitted where rec: "loadSessionRecord T sessionID = Inr rec" "sr_EndedAt rec = None"
      "is_member T userID (sr_ConversationID rec)" "manifestPermissionsForAppID T (sr_AppID rec) = Inr permitted"
    using assms by (auto simp: JoinSession_def ensureConversationMember_def split: sum.splits option.splits if_splits)
  define normalized where "normalized = (if g = None then clone_slice permitted else sanitizeGrantedPermissions (elems g) permitted)"
  let ?perms = "AList.update userID normalized (cloneParticipantPermissions (sr_ParticipantPermissions rec))"
  let ?ps = "normalizeParticipants (elems (sr_Participants rec)) \<lparr>p_UserID = userID, p_Role = ''PLAYER'', p_DisplayName = []\<rparr>"
  let ?T1 = "update_session sessionID (\<lambda>s. s\<lparr>s_participants := Some (participants_json ?ps),
                                s_participant_permissions := permission_map_json ?perms\<rparr>) T"
  have T': "T' = snd (logSessionJoined now sessionID userID \<lparr>p_UserID = userID, p_Role = ''PLAYER'', p_DisplayName = []\<rparr> normalized ?T1)"
    and view: "vw_capabilities_granted view = clone_slice (elems normalized)"
    using assms rec by (auto simp: JoinSession_def ensureConversationMember_def Let_def normalized_def
        sessionRecordToMapForUser_def viewerGrantedPermissions_def update_conv split: if_splits)
  obtain s0 where s0: "find_session T sessionID = Some s0" using rec(1) by (auto simp: loadSessionRecord_def split: option.splits)
  then have "find_session ?T1 sessionID = Some (s0\<lparr>s_participants := Some (participants_json ?ps),
                                s_participant_permissions := permission_map_json ?perms\<rparr>)"
    using find_session_Some [OF s0] by (simp add: find_update)
  from find_after_append_Some [OF this] obtain x where
    "find_session T' sessionID = Some (s0\<lparr>s_participants := Some (participants_json ?ps),
                                s_participant_permissions := permission_map_json ?perms, s_expires_at := x\<rparr>)"
    by (simp only: T' logSessionJoined_def) blast
  moreover have "set (elems normalized) \<subseteq> set permitted" using sanitize_subset by (auto simp: normalized_def)
  ultimately show ?thesis using rec view by fastforce
qed

lemma map_of_map_snd: "map_of (map (\<lambda>(k, v). (k, f v)) m) k = map_option f (map_of m k)"
  by (induction m) auto

text \<open>Joining needs membership and gives capabilities that the app's manifest lists, which is what
  the session holds for the user afterwards; what other users were granted stays the same.\<close>

theorem join_within_manifest:
  assumes "JoinSession now userID sessionID g T = (Inr view, T')"
  shows "\<exists>rec rec' permitted. loadSessionRecord T sessionID = Inr rec \<and> loadSessionRecord T' sessionID = Inr rec'
    \<and> is_member T userID (sr_ConversationID rec) \<and> manifestPermissionsForAppID T (sr_AppID rec) = Inr permitted
    \<and> hasJoined rec' userID \<and> set (elems (viewerGrantedPermissions rec' userID)) \<subseteq> set permitted
    \<and> set (elems (vw_capabilities_granted view)) \<subseteq> set permitted
    \<and> (\<forall>other. other \<noteq> userID \<longrightarrow>
         map_option (\<lambda>s. set (elems s)) (map_of (sr_ParticipantPermissions rec') other)
         = map_option (\<lambda>s. set (elems s)) (map_of (sr_ParticipantPermissions rec) other))"
proof -
  obtain rec permitted nz s where j: "loadSessionRecord T sessionID = Inr rec"
      "is_member T userID (sr_ConversationID rec)" "manifestPermissionsForAppID T (sr_AppID rec) = Inr permitted"
      "set (elems nz) \<subseteq> set permitted" "find_session T' sessionID = Some s"
      "s_participant_permissions s = permission_map_json
        (AList.update userID nz (cloneParticipantPermissions (sr_ParticipantPermissions rec)))"
      "vw_capabilities_granted view = clone_slice (elems nz)"
    using find_after_join [OF assms] by blast
  let ?r = "record_of_row T' s"
  have sc: "set (elems (map_option sort_compact v)) = set (elems v)" for v by (cases v) simp_all
  have pp: "map_of (sr_ParticipantPermissions ?r) k = map_option (map_option sort_compact)
      (if k = userID then Some nz else map_option (\<lambda>v. clone_slice (elems v)) (map_of (sr_ParticipantPermissions rec) k))" for k
    by (simp add: record_of_row_def j(6) map_of_map_snd update_conv cloneParticipantPermissions_def)
  have "hasJoined ?r userID" by (simp add: hasJoined_def pp)
  moreover have "set (elems (viewerGrantedPermissions ?r userID)) \<subseteq> set permitted"
    using j(4) by (simp add: viewerGrantedPermissions_def pp sc)
  moreover have "map_option (\<lambda>s. set (elems s)) (map_of (sr_ParticipantPermissions ?r) other)
         = map_option (\<lambda>s. set (elems s)) (map_of (sr_ParticipantPermissions rec) other)" if "other \<noteq> userID" for other
    using that by (cases "map_of (sr_ParticipantPermissions rec) other") (simp_all add: pp sc)
  moreover have "loadSessionRecord T' sessionID = Inr ?r" using j(5) by (simp add: loadSessionRecord_def)
  ultimately show ?thesis using j by (intro exI [of _ rec] exI [of _ ?r] exI [of _ permitted]) simp
qed

text \<open>Joining also rewrites the user's own entry among the participants: the role is \<open>PLAYER\<close> again and
  the display name is gone.\<close>

theorem join_resets_participant:
  assumes "JoinSession now userID sessionID g T = (Inr view, T')" and "userID \<noteq> []"
  shows "\<exists>rec' ps. loadSessionRecord T' sessionID = Inr rec'
    \<and> sr_Participants rec' = Some (\<lparr>p_UserID = userID, p_Role = ''PLAYER'', p_DisplayName = []\<rparr> # ps)"
proof -
  obtain rec :: sessionRecord and s where j: "find_session T' sessionID = Some s"
      "s_participants s = Some (participants_json (normalizeParticipants (elems (sr_Participants rec))
        \<lparr>p_UserID = userID, p_Role = ''PLAYER'', p_DisplayName = []\<rparr>))"
    using find_after_join [OF assms(1)] by blast
  have "decodeParticipants (s_participants s) = Some (normalizeParticipants (elems (sr_Participants rec))
        \<lparr>p_UserID = userID, p_Role = ''PLAYER'', p_DisplayName = []\<rparr>)"
    unfolding j(2) by (rule decode_participants) simp
  then show ?thesis using j(1) assms(2)
    by (simp add: loadSessionRecord_def record_of_row_def normalizeParticipants_def normalizeParticipant_def)
qed

section \<open>What the handlers show\<close>

text \<open>Without a registry the handlers assert a map where the catalogue entry holds a struct: no app is
  listed as installed and no update is ever reported, whatever is installed.\<close>

theorem installed_apps_always_empty:
  "ListInstalledApps_handler None (Some userID) query T = MiniEntries []"
  "\<forall>r. CheckForUpdates_handler None (Some userID) appID query T = r \<longrightarrow>
     (\<exists>status code. r = MiniErr status code) \<or> (\<exists>version. r = MiniUpdates appID [] version False)"
  by (auto simp: ListInstalledApps_handler_def CheckForUpdates_handler_def catalogEntryToMap_install_def
      stringField_gw_def Let_def split: sum.splits)

text \<open>The session that creation returns has no \<open>app_version\<close>, so the isolation headers are never set.\<close>

theorem origin_headers_never_set:
  assumes "CreateSession_handler E now newID user req T = (MiniSession status view headers, T')"
  shows "headers = None"
proof -
  have "vw_app_version view = None" if "GetSessionForUser T2 userID sid = Inr view" for T2 userID sid view
    using that by (auto simp: GetSessionForUser_def sessionRecordToMapForUser_def split: sum.splits option.splits)
  then have v: "vw_app_version view = None" if "CreateSessionForUser E now newID userID input T = (Inr (view, c), T2)" for userID input view c T2
    using that by (auto simp: CreateSessionForUser_def Let_def split: sum.splits prod.splits if_splits)
  have e: "create_error e \<noteq> MiniSession a b c" for e a b c by (simp add: create_error_def)
  show ?thesis using assms v e
    by (auto simp: CreateSession_handler_def Let_def attachOriginConfig_def split: sum.splits prod.splits if_splits option.splits)
qed

text \<open>Two names and versions that differ can share an origin: the colon that joins them is not escaped.\<close>

theorem origin_collision:
  "GenerateAppOrigin sha256 ''a:b'' ''c'' base n = GenerateAppOrigin sha256 ''a'' ''b:c'' base n"
  by (simp add: GenerateAppOrigin_def trim_space_def is_space_def)

section \<open>Instances\<close>

text \<open>The app of \<open>demo_tables\<close> with an active session that \<open>u\<close> has joined.\<close>

definition demo_session :: sessionRow where
  "demo_session = \<lparr>s_id = ''s'', s_manifest_id = ''m'', s_app_id = ''a'', s_conversation_id = ''c'',
     s_participants = Some (JArr []), s_granted_permissions = JArr [],
     s_participant_permissions = JObj [(''u'', JArr [JStr ''p''])], s_state = None, s_state_version = 1,
     s_created_by = Some ''u'', s_expires_at = None, s_created_at = 6, s_ended_at = None\<rparr>"

definition demo_active :: miniTables where
  "demo_active = demo_tables\<lparr>tb_sessions := [demo_session],
     tb_members := [new_member ''c'' ''u'' 1],
     tb_users := [plain_user ''u'' None],
     tb_conversations := [new_conversation ''c'' ''DM'' ''AUTO'' 1],
     tb_devices := [plain_device ''d'' ''u'' [''MINI_APPS'']],
     tb_counters := [(''c'', 4)]\<rparr>"

lemmas demo_defs = demo_active_def demo_session_def demo_tables_def empty_mini_def

lemma demo_load: "\<exists>rec. loadSessionRecord demo_active ''s'' = Inr rec \<and> sr_EndedAt rec = None \<and> sr_ConversationID rec = ''c''
    \<and> sr_AppID rec = ''a'' \<and> sr_ParticipantPermissions rec = [(''u'', Some [''p''])]"
  by (simp add: loadSessionRecord_def find_session_def record_of_row_def demo_defs sort_compact_def)

lemma demo_catalogue:
  "\<exists>e. loadCatalogEntryByAppID demo_tables w ''a'' = Inr e \<and> ce_Version e = ''1.0.0''"
  "\<exists>e. loadCatalogEntryByAppID demo_active w ''a'' = Inr e
     \<and> ce_Manifest e = [(''app_id'', JStr ''a''), (''permissions'', JArr [JStr ''p'', JStr ''q''])] \<and> ce_ID e = ''m'' \<and> ce_AppID e = ''a''"
  by (simp_all add: loadCatalogEntryByAppID_def public_releases_def newest_first_def find_manifest_def catalog_entry_def
      demo_defs obj_or_nil_def sort_key_def insort_key_def)

lemma demo_permissions: "manifestPermissionsForAppID demo_active ''a'' = Inr [''p'', ''q'']"
  using demo_catalogue(2) [of "[]"]
  by (auto simp: manifestPermissionsForAppID_def permissionsFromManifest_def sort_compact_def)

lemma snapshot_roundtrip_witness:
  "\<exists>v T' rec. SnapshotSession 9 ''s'' (JObj [(''k'', JBool True)]) 0 ''u'' demo_active = (Inr v, T') \<and> 1 < v
     \<and> loadSessionRecord T' ''s'' = Inr rec \<and> sr_State rec = defaultSessionState (JObj [(''k'', JBool True)])"
proof -
  have f: "find_session demo_active ''s'' = Some demo_session" "s_ended_at demo_session = None" "s_state_version demo_session = 1"
    by (simp_all add: find_session_def demo_defs)
  obtain r T' where r: "SnapshotSession 9 ''s'' (JObj [(''k'', JBool True)]) 0 ''u'' demo_active = (r, T')"
    by (cases "SnapshotSession 9 ''s'' (JObj [(''k'', JBool True)]) 0 ''u'' demo_active")
  have "\<exists>v. r = Inr v" using r by (auto simp: SnapshotSession_def f max_int4_def Let_def)
  then show ?thesis using snapshot_roundtrip [OF f(1,2) r] r f(3) by auto
qed

lemma append_authorized_witness:
  "\<exists>seq T'. AppendEventForUser demo_env 9 ''u'' ''s'' ''move'' JNull demo_active = (Inr seq, T')
     \<and> tb_events T' = tb_events demo_active @ [\<lparr>e_session = ''s'', e_seq = seq, e_actor = Some ''u'',
          e_type = ''storage_updated'', e_name = ''move'', e_body = JNull, e_created_at = 9\<rparr>]"
proof -
  obtain rec where rec: "loadSessionRecord demo_active ''s'' = Inr rec" "sr_EndedAt rec = None" "sr_ConversationID rec = ''c''"
      "sr_ParticipantPermissions rec = [(''u'', Some [''p''])]"
    using demo_load by blast
  have rec': "loadSessionRecord (auditLogCapabilityAllowed demo_env 9 ''u'' ''s'' ''move'' demo_active) ''s'' = Inr rec"
    using rec(1) by (auto simp: auditLogCapabilityAllowed_def loadSessionRecord_def find_session_def record_of_row_def split: option.splits)
  obtain r T' where r: "AppendEventForUser demo_env 9 ''u'' ''s'' ''move'' JNull demo_active = (r, T')"
    by (cases "AppendEventForUser demo_env 9 ''u'' ''s'' ''move'' JNull demo_active")
  have m: "is_member demo_active ''u'' ''c''" by (simp add: is_member_def demo_active_def)
  have "tb_next_seq (auditLogCapabilityAllowed demo_env 9 ''u'' ''s'' ''move'' demo_active) = 1"
    by (simp add: auditLogCapabilityAllowed_def demo_defs)
  then have "\<exists>seq. r = Inr seq"
    using r rec rec' m by (auto simp: AppendEventForUser_def ensureConversationMember_def hasJoined_def viewerGrantedPermissions_def
        validateBridgeMethodWithRateLimit_def AppendEvent_def event_types_def max_int4_def Let_def)
  then show ?thesis using append_authorized [OF r] r by (auto simp: nullif_empty_def)
qed

lemma kill_switch_fails_open_witness:
  "\<exists>e. CreateSession (demo_env\<lparr>me_status := (\<lambda>a v. StatusRow ''approved'' (Some 3) None)\<rparr>) 7 ''s'' demo_input demo_tables
      = (Inl e, demo_tables) \<and> create_error e = MiniErr 500 ''create_failed''"
proof -
  obtain e where e: "loadCatalogEntryByAppID demo_tables ''v'' ''a'' = Inr e" "ce_Version e = ''1.0.0''"
    using demo_catalogue(1) by blast
  obtain i where "loadCatalogEntryByAppID demo_tables [] ''a'' = Inr i" using demo_catalogue(1) by blast
  moreover have "ce_AppID i = ''a''" if "loadCatalogEntryByAppID demo_tables [] ''a'' = Inr i" for i
    using that by (auto simp: loadCatalogEntryByAppID_def catalog_entry_def find_Some_iff split: option.splits)
  ultimately obtain mid p where r: "resolveManifest demo_tables (ci_ManifestID demo_input) (ci_AppID demo_input) = Inr (mid, ''a'', p)"
    by (auto simp: resolveManifest_def demo_input_def)
  show ?thesis
    by (rule kill_switch_fails_open [THEN conjunct1, THEN mp])
       (use r e in \<open>auto simp: demo_input_def demo_env_def\<close>)
qed

lemma terminate_ends_all_witness:
  "\<exists>T'. TerminateSessionsForRelease 9 ''a'' ''2.0.0'' demo_active = (Inr 1, T')
     \<and> (\<forall>s \<in> set (tb_sessions T'). s_app_id s = ''a'' \<longrightarrow> s_ended_at s \<noteq> None)"
proof -
  have ok: "mini_ok demo_active" by (simp add: mini_ok_def demo_defs max_int4_def)
  obtain T' where r: "TerminateSessionsForRelease 9 ''a'' ''2.0.0'' demo_active = (Inr 1, T')"
    by (simp add: TerminateSessionsForRelease_def demo_defs)
  show ?thesis using terminate_ends_all [OF ok r] r by blast
qed

lemma join_within_manifest_witness:
  "\<exists>view T' rec'. JoinSession 9 ''u'' ''s'' (Some [''q'', ''z'']) demo_active = (Inr view, T')
     \<and> loadSessionRecord T' ''s'' = Inr rec' \<and> set (elems (viewerGrantedPermissions rec' ''u'')) \<subseteq> {''p'', ''q''}"
proof -
  obtain rec where rec: "loadSessionRecord demo_active ''s'' = Inr rec" "sr_EndedAt rec = None" "sr_ConversationID rec = ''c''"
      "sr_AppID rec = ''a''"
    using demo_load by blast
  have m: "is_member demo_active ''u'' ''c''" by (simp add: is_member_def demo_active_def)
  obtain view T' where r: "JoinSession 9 ''u'' ''s'' (Some [''q'', ''z'']) demo_active = (Inr view, T')"
    using rec m by (simp add: JoinSession_def ensureConversationMember_def demo_permissions Let_def)
  show ?thesis using join_within_manifest [OF r] r rec demo_permissions by auto
qed

definition demo_share :: ShareInput where
  "demo_share = \<lparr>si_ManifestID = [], si_AppID = ''a'', si_ConversationID = ''c'', si_GrantedPermissions = None,
     si_StateSnapshot = JNull, si_ResumeExisting = True\<rparr>"

lemma share_all_or_nothing_witness:
  "\<exists>result T'. ShareSession demo_env 9 ''t'' ''g'' ''u'' demo_share demo_active = (Inr result, T')
     \<and> map_of (tb_counters T') ''c'' = Some 5"
proof -
  obtain e where e: "loadCatalogEntryByAppID demo_active [] ''a'' = Inr e" "ce_ID e = ''m''" "ce_AppID e = ''a''"
    using demo_catalogue(2) by blast
  have ps: "loadConversationParticipantsTx demo_active ''c'' = [\<lparr>p_UserID = ''u'', p_Role = ''PLAYER'', p_DisplayName = ''u''\<rparr>]"
    by (simp add: loadConversationParticipantsTx_def demo_defs text_or_empty_def normalizeParticipants_def no_participant_def
        normalizeParticipant_def sort_key_def insort_key_def)
  have el: "ensureMiniAppEligibleTx demo_active [\<lparr>p_UserID = ''u'', p_Role = ''PLAYER'', p_DisplayName = ''u''\<rparr>] = None"
    by (simp add: ensureMiniAppEligibleTx_def demo_active_def)
  have res: "resolveManifest demo_active [] ''a'' = Inr (''m'', ''a'', permissionsFromManifest (ce_Manifest e))"
    using e by (simp add: resolveManifest_def)
  obtain x where "findActiveSessionTx demo_active ''a'' ''c'' = Inr x"
    by (simp add: findActiveSessionTx_def newest_session_def active_session_def demo_defs sort_key_def insort_key_def)
  then have sh: "\<exists>rec T1. share_session_record 9 ''t'' ''u'' demo_share ps ''m'' ''a'' granted demo_active = Some (rec, T1)" for ps granted
    by (simp add: share_session_record_def demo_share_def Let_def)
  have card: "\<exists>m T2. insertAppCardMessageTx 9 ''g'' ''u'' ''c'' content T1 = Some (m, T2)"
    if "share_session_record 9 ''t'' ''u'' demo_share ps ''m'' ''a'' granted demo_active = Some (rec, T1)" for ps granted rec T1 content
  proof -
    have "tb_counters T1 = [(''c'', 4)]" "tb_messages T1 = []" "tb_conversations T1 = [new_conversation ''c'' ''DM'' ''AUTO'' 1]"
        "tb_users T1 = [plain_user ''u'' None]"
      using shared_record [OF that] by (simp_all add: demo_defs)
    then show ?thesis
      by (simp add: insertAppCardMessageTx_def next_server_order_def insert_message_def find_conversation_def is_user_def)
  qed
  have m: "is_member demo_active ''u'' ''c''" by (simp add: is_member_def demo_active_def)
  have "\<exists>result T'. ShareSession demo_env 9 ''t'' ''g'' ''u'' demo_share demo_active = (Inr result, T')"
  proof -
    let ?p = "permissionsFromManifest (ce_Manifest e)"
    let ?g = "if elems (sanitizeGrantedPermissions (elems (si_GrantedPermissions demo_share)) ?p) = []
      then clone_slice ?p else sanitizeGrantedPermissions (elems (si_GrantedPermissions demo_share)) ?p"
    obtain rec T1 where 1: "share_session_record 9 ''t'' ''u'' demo_share
        [\<lparr>p_UserID = ''u'', p_Role = ''PLAYER'', p_DisplayName = ''u''\<rparr>] ''m'' ''a'' ?g demo_active = Some (rec, T1)"
      using sh by blast
    obtain msg T2 where 2: "insertAppCardMessageTx 9 ''g'' ''u'' ''c'' (buildAppCardContent (ce_Manifest e) rec) T1 = Some (msg, T2)"
      using card [OF 1] by blast
    have f: "si_ManifestID demo_share = []" "si_AppID demo_share = ''a''" "si_ConversationID demo_share = ''c''"
      by (simp_all add: demo_share_def)
    have "\<not> me_replication demo_env" by (simp add: demo_env_def)
    then show ?thesis
      unfolding ShareSession_def Let_def f ps res ensureConversationMember_def
      by (simp add: m el 1 2 e)
  qed
  then obtain result T' where r: "ShareSession demo_env 9 ''t'' ''g'' ''u'' demo_share demo_active = (Inr result, T')" by blast
  have "map_of (tb_counters demo_active) ''c'' = Some 4" by (simp add: demo_active_def)
  then show ?thesis using share_all_or_nothing [OF r] r by (auto simp: demo_share_def)
qed

end
