(* ===== verification/ReplicationEvents.thy ===== *)
theory ReplicationEvents
  imports ConversationTables
begin

text \<open>
  The replication store (\<open>gateway/internal/replication/store.go\<close>): services append domain events in
  their own transactions; \<open>ProcessBatch\<close> turns the pending ones into events in the inboxes of users
  and keeps the state of each user's conversations; clients list their inbox from a cursor and
  acknowledge it.  A transaction is a function that yields \<open>None\<close> when a statement fails: nothing is
  committed then.  \<open>ProcessBatch\<close> is given the events another transaction has locked.  Publishing to
  Redis, whose failures the code ignores, is the list of what is published.
\<close>

section \<open>Events\<close>

record replEnv = convEnv +
  rp_redis :: bool

record userEvent =
  ue_UserEventID :: int
  ue_Type :: string
  ue_CreatedAt :: string
  ue_Payload :: json

definition event_json :: "userEvent \<Rightarrow> json" where
  "event_json e = JObj [(''user_event_id'', json_int (ue_UserEventID e)), (''type'', JStr (ue_Type e)),
     (''created_at'', JStr (ue_CreatedAt e)), (''payload'', ue_Payload e)]"

record SyncResponse =
  sy_Events :: "userEvent list"
  sy_NextCursor :: int
  sy_HasMore :: bool

section \<open>Payloads of domain events\<close>

record messagePayload =
  mp_MessageID :: string
  mp_ConversationID :: string
  mp_ConversationType :: string
  mp_SenderUserID :: string
  mp_SenderDeviceID :: string
  mp_ContentType :: string
  mp_ClientGeneratedID :: string
  mp_Transport :: string
  mp_ServerOrder :: int
  mp_CreatedAt :: string
  mp_Participants :: "string slice"
  mp_ExternalPhones :: "string slice"

record MessageCreatedPayload = messagePayload +
  mp_Content :: "json gomap option"

record MessageEditedPayload = MessageCreatedPayload +
  mp_EditedAt :: string

record MessageDeletedPayload = messagePayload +
  mp_DeletedAt :: string

record MessageReactionsPayload =
  xp_MessageID :: string
  xp_ConversationID :: string
  xp_ConversationType :: string
  xp_ServerOrder :: int
  xp_Participants :: "string slice"
  xp_ExternalPhones :: "string slice"
  xp_Reactions :: "(string \<times> int) list option"
  xp_ActedAt :: string

record MessageEffectPayload =
  fp_MessageID :: string
  fp_ConversationID :: string
  fp_EffectType :: string
  fp_TriggeredByUserID :: string
  fp_TriggeredAtMS :: int

record TypingPayload =
  tp_ConversationID :: string
  tp_UserID :: string
  tp_DeviceID :: string
  tp_State :: string
  tp_StartedAtMS :: int

text \<open>\<open>ReadCheckpointPayload\<close> and \<open>DeliveryCheckpointPayload\<close> differ in two names.\<close>

record checkpointPayload =
  kp_ConversationID :: string
  kp_UserID :: string
  kp_ThroughServerOrder :: int
  kp_At :: string

definition object_json :: "json gomap option \<Rightarrow> json" where
  "object_json m = (case m of None \<Rightarrow> JNull | Some ms \<Rightarrow> JObj ms)"

definition omit_empty :: "string \<Rightarrow> string \<Rightarrow> json gomap" where
  "omit_empty key v = (if v = [] then [] else [(key, JStr v)])"

definition omit_none :: "string \<Rightarrow> string slice \<Rightarrow> json gomap" where
  "omit_none key v = (if elems v = [] then [] else [(key, strings_json v)])"

text \<open>\<open>json.Marshal\<close> of the payload structs.\<close>

definition message_members :: "'a messagePayload_scheme \<Rightarrow> json gomap" where
  "message_members p =
     [(''message_id'', JStr (mp_MessageID p)), (''conversation_id'', JStr (mp_ConversationID p)),
      (''conversation_type'', JStr (mp_ConversationType p)), (''sender_user_id'', JStr (mp_SenderUserID p))]
     @ omit_empty ''sender_device_id'' (mp_SenderDeviceID p)
     @ [(''content_type'', JStr (mp_ContentType p))]
     @ omit_empty ''client_generated_id'' (mp_ClientGeneratedID p)
     @ [(''transport'', JStr (mp_Transport p)), (''server_order'', json_int (mp_ServerOrder p)),
        (''created_at'', JStr (mp_CreatedAt p)), (''participants'', strings_json (mp_Participants p))]
     @ omit_none ''external_phones'' (mp_ExternalPhones p)"

definition created_json :: "MessageCreatedPayload \<Rightarrow> json" where
  "created_json p = JObj (message_members p @ [(''content'', object_json (mp_Content p))])"

definition edited_json :: "MessageEditedPayload \<Rightarrow> json" where
  "edited_json p = JObj (message_members p
     @ [(''content'', object_json (mp_Content p)), (''edited_at'', JStr (mp_EditedAt p))])"

definition deleted_json :: "MessageDeletedPayload \<Rightarrow> json" where
  "deleted_json p = JObj (message_members p @ [(''deleted_at'', JStr (mp_DeletedAt p))])"

definition counts_json :: "(string \<times> int) list option \<Rightarrow> json" where
  "counts_json m = (case m of None \<Rightarrow> JNull | Some ms \<Rightarrow> JObj (map (\<lambda>(k, n). (k, json_int n)) ms))"

definition reactions_json :: "MessageReactionsPayload \<Rightarrow> json" where
  "reactions_json p = JObj ([(''message_id'', JStr (xp_MessageID p)), (''conversation_id'', JStr (xp_ConversationID p)),
      (''conversation_type'', JStr (xp_ConversationType p)), (''server_order'', json_int (xp_ServerOrder p)),
      (''participants'', strings_json (xp_Participants p))]
     @ omit_none ''external_phones'' (xp_ExternalPhones p)
     @ [(''reactions'', counts_json (xp_Reactions p)), (''acted_at'', JStr (xp_ActedAt p))])"

definition effect_json :: "MessageEffectPayload \<Rightarrow> json" where
  "effect_json p = JObj [(''message_id'', JStr (fp_MessageID p)), (''conversation_id'', JStr (fp_ConversationID p)),
     (''effect_type'', JStr (fp_EffectType p)), (''triggered_by_user_id'', JStr (fp_TriggeredByUserID p)),
     (''triggered_at_ms'', json_int (fp_TriggeredAtMS p))]"

definition typing_json :: "TypingPayload \<Rightarrow> json" where
  "typing_json p = JObj ([(''conversation_id'', JStr (tp_ConversationID p)), (''user_id'', JStr (tp_UserID p))]
     @ omit_empty ''device_id'' (tp_DeviceID p)
     @ [(''state'', JStr (tp_State p)), (''started_at_ms'', json_int (tp_StartedAtMS p))])"

definition read_json :: "checkpointPayload \<Rightarrow> json" where
  "read_json p = JObj [(''conversation_id'', JStr (kp_ConversationID p)), (''reader_user_id'', JStr (kp_UserID p)),
     (''through_server_order'', json_int (kp_ThroughServerOrder p)), (''read_at'', JStr (kp_At p))]"

definition delivery_json :: "checkpointPayload \<Rightarrow> json" where
  "delivery_json p = JObj [(''conversation_id'', JStr (kp_ConversationID p)), (''user_id'', JStr (kp_UserID p)),
     (''through_server_order'', json_int (kp_ThroughServerOrder p)), (''delivered_at'', JStr (kp_At p))]"

text \<open>\<open>json.Unmarshal\<close> into them: \<open>None\<close> when a field has another type.\<close>

definition str_of :: "json \<Rightarrow> string \<Rightarrow> string" where
  "str_of p f = fst (string_field (Some p) f)"

definition strs_ok :: "json \<Rightarrow> string list \<Rightarrow> bool" where
  "strs_ok p fs \<longleftrightarrow> struct_ok (Some p) \<and> list_all (\<lambda>f. snd (string_field (Some p) f)) fs"

definition int_of_field :: "json \<Rightarrow> string \<Rightarrow> int" where
  "int_of_field p f = fst (int_field (Some p) f)"

definition int_ok :: "json \<Rightarrow> string \<Rightarrow> bool" where
  "int_ok p f \<longleftrightarrow> snd (int_field (Some p) f)"

definition strings_ok :: "json \<Rightarrow> string \<Rightarrow> bool" where
  "strings_ok p f \<longleftrightarrow> snd (strings_field (Some p) f)"

definition strings_of :: "json \<Rightarrow> string \<Rightarrow> string slice" where
  "strings_of p f = fst (strings_field (Some p) f)"

definition message_ok :: "json \<Rightarrow> bool" where
  "message_ok p \<longleftrightarrow> strs_ok p [''message_id'', ''conversation_id'', ''conversation_type'', ''sender_user_id'',
       ''sender_device_id'', ''content_type'', ''client_generated_id'', ''transport'', ''created_at'']
     \<and> int_ok p ''server_order'' \<and> strings_ok p ''participants'' \<and> strings_ok p ''external_phones''"

definition message_fields :: "json \<Rightarrow> messagePayload" where
  "message_fields p =
     \<lparr>mp_MessageID = str_of p ''message_id'', mp_ConversationID = str_of p ''conversation_id'',
      mp_ConversationType = str_of p ''conversation_type'', mp_SenderUserID = str_of p ''sender_user_id'',
      mp_SenderDeviceID = str_of p ''sender_device_id'', mp_ContentType = str_of p ''content_type'',
      mp_ClientGeneratedID = str_of p ''client_generated_id'', mp_Transport = str_of p ''transport'',
      mp_ServerOrder = int_of_field p ''server_order'', mp_CreatedAt = str_of p ''created_at'',
      mp_Participants = strings_of p ''participants'', mp_ExternalPhones = strings_of p ''external_phones''\<rparr>"

definition decode_created :: "json \<Rightarrow> MessageCreatedPayload option" where
  "decode_created p =
     (if message_ok p \<and> snd (object_field (Some p) ''content'')
      then Some (messagePayload.extend (message_fields p)
                   (MessageCreatedPayload.fields (fst (object_field (Some p) ''content''))))
      else None)"

definition decode_edited :: "json \<Rightarrow> MessageEditedPayload option" where
  "decode_edited p =
     (if strs_ok p [''edited_at'']
      then map_option (\<lambda>q. MessageCreatedPayload.extend q (MessageEditedPayload.fields (str_of p ''edited_at'')))
             (decode_created p)
      else None)"

definition decode_deleted :: "json \<Rightarrow> MessageDeletedPayload option" where
  "decode_deleted p =
     (if message_ok p \<and> strs_ok p [''deleted_at'']
      then Some (messagePayload.extend (message_fields p) (MessageDeletedPayload.fields (str_of p ''deleted_at'')))
      else None)"

definition decode_reactions :: "json \<Rightarrow> MessageReactionsPayload option" where
  "decode_reactions p =
     (if strs_ok p [''message_id'', ''conversation_id'', ''conversation_type'', ''acted_at''] \<and> int_ok p ''server_order''
         \<and> strings_ok p ''participants'' \<and> strings_ok p ''external_phones'' \<and> snd (int_map_field (Some p) ''reactions'')
      then Some \<lparr>xp_MessageID = str_of p ''message_id'', xp_ConversationID = str_of p ''conversation_id'',
        xp_ConversationType = str_of p ''conversation_type'', xp_ServerOrder = int_of_field p ''server_order'',
        xp_Participants = strings_of p ''participants'', xp_ExternalPhones = strings_of p ''external_phones'',
        xp_Reactions = fst (int_map_field (Some p) ''reactions''), xp_ActedAt = str_of p ''acted_at''\<rparr>
      else None)"

definition decode_effect :: "json \<Rightarrow> MessageEffectPayload option" where
  "decode_effect p =
     (if strs_ok p [''message_id'', ''conversation_id'', ''effect_type'', ''triggered_by_user_id''] \<and> int_ok p ''triggered_at_ms''
      then Some \<lparr>fp_MessageID = str_of p ''message_id'', fp_ConversationID = str_of p ''conversation_id'',
        fp_EffectType = str_of p ''effect_type'', fp_TriggeredByUserID = str_of p ''triggered_by_user_id'',
        fp_TriggeredAtMS = int_of_field p ''triggered_at_ms''\<rparr>
      else None)"

definition decode_typing :: "json \<Rightarrow> TypingPayload option" where
  "decode_typing p =
     (if strs_ok p [''conversation_id'', ''user_id'', ''device_id'', ''state''] \<and> int_ok p ''started_at_ms''
      then Some \<lparr>tp_ConversationID = str_of p ''conversation_id'', tp_UserID = str_of p ''user_id'',
        tp_DeviceID = str_of p ''device_id'', tp_State = str_of p ''state'', tp_StartedAtMS = int_of_field p ''started_at_ms''\<rparr>
      else None)"

definition decode_checkpoint :: "string \<Rightarrow> string \<Rightarrow> json \<Rightarrow> checkpointPayload option" where
  "decode_checkpoint user_name at_name p =
     (if strs_ok p [''conversation_id'', user_name, at_name] \<and> int_ok p ''through_server_order''
      then Some \<lparr>kp_ConversationID = str_of p ''conversation_id'', kp_UserID = str_of p user_name,
        kp_ThroughServerOrder = int_of_field p ''through_server_order'', kp_At = str_of p at_name\<rparr>
      else None)"

section \<open>Round trips\<close>

text \<open>What a service appends is what the fan-out reads.\<close>

lemma to_lower_names:
  "to_lower ''message_id'' = ''message_id''" "to_lower ''conversation_id'' = ''conversation_id''"
  "to_lower ''conversation_type'' = ''conversation_type''" "to_lower ''sender_user_id'' = ''sender_user_id''"
  "to_lower ''sender_device_id'' = ''sender_device_id''" "to_lower ''content_type'' = ''content_type''"
  "to_lower ''client_generated_id'' = ''client_generated_id''" "to_lower ''transport'' = ''transport''"
  "to_lower ''server_order'' = ''server_order''" "to_lower ''created_at'' = ''created_at''"
  "to_lower ''participants'' = ''participants''" "to_lower ''external_phones'' = ''external_phones''"
  "to_lower ''content'' = ''content''" "to_lower ''edited_at'' = ''edited_at''" "to_lower ''deleted_at'' = ''deleted_at''"
  "to_lower ''reader_user_id'' = ''reader_user_id''" "to_lower ''user_id'' = ''user_id''"
  "to_lower ''through_server_order'' = ''through_server_order''" "to_lower ''read_at'' = ''read_at''"
  "to_lower ''delivered_at'' = ''delivered_at''" "to_lower ''state'' = ''state''"
  "to_lower ''device_id'' = ''device_id''" "to_lower ''started_at_ms'' = ''started_at_ms''"
  by code_simp+

lemma member_values_obj:
  "member_values (Some (JObj (xs @ ys))) f = member_values (Some (JObj xs)) f @ member_values (Some (JObj ys)) f"
  "member_values (Some (JObj ((k, v) # xs))) f = (if equal_fold k f then [v] else []) @ member_values (Some (JObj xs)) f"
  "member_values (Some (JObj [])) f = []"
  "member_values (Some (JObj (omit_empty k s))) f = (if s \<noteq> [] \<and> equal_fold k f then [JStr s] else [])"
  "member_values (Some (JObj (omit_none k sl))) f = (if elems sl \<noteq> [] \<and> equal_fold k f then [strings_json sl] else [])"
  by (simp_all add: member_values_def members_of_def omit_empty_def omit_none_def)

lemma field_of_values:
  "member_values (Some p) f = [JStr s] \<or> (member_values (Some p) f = [] \<and> s = []) \<Longrightarrow> string_field (Some p) f = (s, True)"
  "member_values (Some p) f = [json_int i] \<Longrightarrow> - (2 ^ 63) \<le> i \<Longrightarrow> i < 2 ^ 63 \<Longrightarrow> int_field (Some p) f = (i, True)"
  "member_values (Some p) f = [strings_json sl] \<or> (member_values (Some p) f = [] \<and> sl = None) \<Longrightarrow> strings_field (Some p) f = (sl, True)"
  "member_values (Some p) f = [object_json m] \<Longrightarrow> (\<forall>ms. m = Some ms \<longrightarrow> go_value (JObj ms) = JObj ms) \<Longrightarrow>
     object_field (Some p) f = (m, True)"
proof -
  show "member_values (Some p) f = [JStr s] \<or> (member_values (Some p) f = [] \<and> s = []) \<Longrightarrow> string_field (Some p) f = (s, True)"
    by (auto simp: string_field_def)
  show "member_values (Some p) f = [json_int i] \<Longrightarrow> - (2 ^ 63) \<le> i \<Longrightarrow> i < 2 ^ 63 \<Longrightarrow> int_field (Some p) f = (i, True)"
    using atoi_show_i64 [of i] by (simp add: int_field_def json_int_def)
  show "member_values (Some p) f = [strings_json sl] \<or> (member_values (Some p) f = [] \<and> sl = None) \<Longrightarrow> strings_field (Some p) f = (sl, True)"
    by (cases sl) (auto simp: strings_field_def strings_json_def comp_def list_all_iff)
  show "member_values (Some p) f = [object_json m] \<Longrightarrow> (\<forall>ms. m = Some ms \<longrightarrow> go_value (JObj ms) = JObj ms) \<Longrightarrow>
     object_field (Some p) f = (m, True)"
    by (cases m) (auto simp: object_field_def object_json_def)
qed

lemmas payload_values = message_members_def member_values_obj equal_fold_def to_lower_names

definition message_names :: "string list" where
  "message_names = [''message_id'', ''conversation_id'', ''conversation_type'', ''sender_user_id'', ''sender_device_id'',
     ''content_type'', ''client_generated_id'', ''transport'', ''created_at'', ''server_order'', ''participants'',
     ''external_phones'']"

lemma message_fields_obj:
  assumes "- (2 ^ 63) \<le> mp_ServerOrder p" and "mp_ServerOrder p < 2 ^ 63" and "mp_ExternalPhones p \<noteq> Some []"
    and "list_all (\<lambda>f. member_values (Some (JObj ext)) f = []) message_names"
  shows "message_ok (JObj (message_members p @ ext))"
    "message_fields (JObj (message_members p @ ext)) = messagePayload.truncate p"
proof -
  let ?o = "JObj (message_members p @ ext)"
  have phones: "mp_ExternalPhones p = None" if "elems (mp_ExternalPhones p) = []"
    using assms(3) that by (cases "mp_ExternalPhones p") auto
  have ext: "member_values (Some (JObj ext)) ''message_id'' = []" "member_values (Some (JObj ext)) ''conversation_id'' = []" "member_values (Some (JObj ext)) ''conversation_type'' = []" "member_values (Some (JObj ext)) ''sender_user_id'' = []" "member_values (Some (JObj ext)) ''sender_device_id'' = []" "member_values (Some (JObj ext)) ''content_type'' = []" "member_values (Some (JObj ext)) ''client_generated_id'' = []" "member_values (Some (JObj ext)) ''transport'' = []" "member_values (Some (JObj ext)) ''created_at'' = []" "member_values (Some (JObj ext)) ''server_order'' = []" "member_values (Some (JObj ext)) ''participants'' = []" "member_values (Some (JObj ext)) ''external_phones'' = []"
    using assms(4) by (simp_all add: message_names_def)
  have v: "string_field (Some ?o) ''message_id'' = (mp_MessageID p, True)"
    "string_field (Some ?o) ''conversation_id'' = (mp_ConversationID p, True)"
    "string_field (Some ?o) ''conversation_type'' = (mp_ConversationType p, True)"
    "string_field (Some ?o) ''sender_user_id'' = (mp_SenderUserID p, True)"
    "string_field (Some ?o) ''sender_device_id'' = (mp_SenderDeviceID p, True)"
    "string_field (Some ?o) ''content_type'' = (mp_ContentType p, True)"
    "string_field (Some ?o) ''client_generated_id'' = (mp_ClientGeneratedID p, True)"
    "string_field (Some ?o) ''transport'' = (mp_Transport p, True)"
    "string_field (Some ?o) ''created_at'' = (mp_CreatedAt p, True)"
    by (rule field_of_values(1); simp add: payload_values ext)+
  have i: "int_field (Some ?o) ''server_order'' = (mp_ServerOrder p, True)"
    by (rule field_of_values(2) [OF _ assms(1,2)]; simp add: payload_values ext)
  have s: "strings_field (Some ?o) ''participants'' = (mp_Participants p, True)"
    "strings_field (Some ?o) ''external_phones'' = (mp_ExternalPhones p, True)"
    by (rule field_of_values(3); use phones in \<open>simp add: payload_values ext\<close>)+
  show "message_ok ?o" by (simp add: message_ok_def strs_ok_def int_ok_def strings_ok_def struct_ok_def v i s)
  show "message_fields ?o = messagePayload.truncate p"
    by (simp add: message_fields_def str_of_def int_of_field_def strings_of_def v i s messagePayload.truncate_def)
qed

definition content_ok :: "json gomap option \<Rightarrow> bool" where
  "content_ok m \<longleftrightarrow> (\<forall>ms. m = Some ms \<longrightarrow> go_value (JObj ms) = JObj ms)"

lemma created_roundtrip:
  assumes "- (2 ^ 63) \<le> mp_ServerOrder p" and "mp_ServerOrder p < 2 ^ 63" and "mp_ExternalPhones p \<noteq> Some []"
    and "content_ok (mp_Content p)"
  shows "decode_created (created_json p) = Some p"
proof -
  have m: "message_ok (created_json p)" "message_fields (created_json p) = messagePayload.truncate p"
    unfolding created_json_def by (rule message_fields_obj [OF assms(1-3)]; simp add: message_names_def payload_values)+
  have "object_field (Some (created_json p)) ''content'' = (mp_Content p, True)"
    by (rule field_of_values(4)) (use assms(4) in \<open>simp_all add: created_json_def payload_values content_ok_def\<close>)
  then show ?thesis using m
    by (simp add: decode_created_def messagePayload.defs MessageCreatedPayload.defs)
qed

lemma edited_roundtrip:
  assumes "- (2 ^ 63) \<le> mp_ServerOrder p" and "mp_ServerOrder p < 2 ^ 63" and "mp_ExternalPhones p \<noteq> Some []"
    and "content_ok (mp_Content p)"
  shows "decode_edited (edited_json p) = Some p"
proof -
  have m: "message_ok (edited_json p)" "message_fields (edited_json p) = messagePayload.truncate p"
    unfolding edited_json_def by (rule message_fields_obj [OF assms(1-3)]; simp add: message_names_def payload_values)+
  have "object_field (Some (edited_json p)) ''content'' = (mp_Content p, True)"
    by (rule field_of_values(4)) (use assms(4) in \<open>simp_all add: edited_json_def payload_values content_ok_def\<close>)
  moreover have "struct_ok (Some (edited_json p))" by (simp add: struct_ok_def edited_json_def)
  moreover have "string_field (Some (edited_json p)) ''edited_at'' = (mp_EditedAt p, True)"
    by (rule field_of_values(1)) (simp add: edited_json_def payload_values)
  ultimately show ?thesis using m
    by (simp add: decode_edited_def decode_created_def strs_ok_def str_of_def
        messagePayload.defs MessageCreatedPayload.defs MessageEditedPayload.defs)
qed

lemma deleted_roundtrip:
  assumes "- (2 ^ 63) \<le> mp_ServerOrder p" and "mp_ServerOrder p < 2 ^ 63" and "mp_ExternalPhones p \<noteq> Some []"
  shows "decode_deleted (deleted_json p) = Some p"
proof -
  have m: "message_ok (deleted_json p)" "message_fields (deleted_json p) = messagePayload.truncate p"
    unfolding deleted_json_def by (rule message_fields_obj [OF assms(1-3)]; simp add: message_names_def payload_values)+
  have "struct_ok (Some (deleted_json p))" by (simp add: struct_ok_def deleted_json_def)
  moreover have "string_field (Some (deleted_json p)) ''deleted_at'' = (mp_DeletedAt p, True)"
    by (rule field_of_values(1)) (simp add: deleted_json_def payload_values)
  ultimately show ?thesis using m
    by (simp add: decode_deleted_def strs_ok_def str_of_def
        messagePayload.defs MessageDeletedPayload.defs)
qed


lemma checkpoint_roundtrip:
  assumes "- (2 ^ 63) \<le> kp_ThroughServerOrder p" and "kp_ThroughServerOrder p < 2 ^ 63"
  shows "decode_checkpoint ''reader_user_id'' ''read_at'' (read_json p) = Some p"
    and "decode_checkpoint ''user_id'' ''delivered_at'' (delivery_json p) = Some p"
proof -
  have r: "string_field (Some (read_json p)) ''conversation_id'' = (kp_ConversationID p, True)"
    "string_field (Some (read_json p)) ''reader_user_id'' = (kp_UserID p, True)"
    "string_field (Some (read_json p)) ''read_at'' = (kp_At p, True)"
    by (rule field_of_values(1); simp add: read_json_def payload_values)+
  have d: "string_field (Some (delivery_json p)) ''conversation_id'' = (kp_ConversationID p, True)"
    "string_field (Some (delivery_json p)) ''user_id'' = (kp_UserID p, True)"
    "string_field (Some (delivery_json p)) ''delivered_at'' = (kp_At p, True)"
    by (rule field_of_values(1); simp add: delivery_json_def payload_values)+
  have n: "int_field (Some (read_json p)) ''through_server_order'' = (kp_ThroughServerOrder p, True)"
    "int_field (Some (delivery_json p)) ''through_server_order'' = (kp_ThroughServerOrder p, True)"
    by (rule field_of_values(2) [OF _ assms]; simp add: read_json_def delivery_json_def payload_values)+
  have o: "struct_ok (Some (read_json p))" "struct_ok (Some (delivery_json p))"
    by (simp_all add: struct_ok_def read_json_def delivery_json_def)
  show "decode_checkpoint ''reader_user_id'' ''read_at'' (read_json p) = Some p"
    by (simp add: decode_checkpoint_def strs_ok_def str_of_def int_ok_def int_of_field_def r n o)
  show "decode_checkpoint ''user_id'' ''delivered_at'' (delivery_json p) = Some p"
    by (simp add: decode_checkpoint_def strs_ok_def str_of_def int_ok_def int_of_field_def d n o)
qed

lemma typing_roundtrip:
  assumes "- (2 ^ 63) \<le> tp_StartedAtMS p" and "tp_StartedAtMS p < 2 ^ 63"
  shows "decode_typing (typing_json p) = Some p"
proof -
  have r: "string_field (Some (typing_json p)) ''conversation_id'' = (tp_ConversationID p, True)"
    "string_field (Some (typing_json p)) ''user_id'' = (tp_UserID p, True)"
    "string_field (Some (typing_json p)) ''device_id'' = (tp_DeviceID p, True)"
    "string_field (Some (typing_json p)) ''state'' = (tp_State p, True)"
    by (rule field_of_values(1); simp add: typing_json_def payload_values)+
  have n: "int_field (Some (typing_json p)) ''started_at_ms'' = (tp_StartedAtMS p, True)"
    by (rule field_of_values(2) [OF _ assms]) (simp add: typing_json_def payload_values)
  have o: "struct_ok (Some (typing_json p))" by (simp add: struct_ok_def typing_json_def)
  show ?thesis by (simp add: decode_typing_def strs_ok_def str_of_def int_ok_def int_of_field_def r n o)
qed

end
