(* ===== verification/ReplicationStore.thy ===== *)
theory ReplicationStore
  imports ReplicationEvents
begin

text \<open>
  The operations of the replication store (\<open>gateway/internal/replication/store.go\<close>).  The instant is the
  transaction's \<open>now()\<close>, and stands for \<open>time.Now()\<close> beside it.
\<close>

section \<open>Text columns\<close>

text \<open>PostgreSQL takes a text parameter when it is valid UTF-8 without NUL.\<close>

definition continuation :: "nat \<Rightarrow> bool" where
  "continuation b \<longleftrightarrow> 128 \<le> b \<and> b < 192"

fun utf8_bytes :: "nat list \<Rightarrow> bool" where
  "utf8_bytes [] = True"
| "utf8_bytes (a # s) =
     (if a < 128 then a \<noteq> 0 \<and> utf8_bytes s
      else case s of [] \<Rightarrow> False
      | b # t \<Rightarrow> if \<not> continuation b \<or> a < 194 then False
        else if a < 224 then utf8_bytes t
        else case t of [] \<Rightarrow> False
        | c # u \<Rightarrow> if \<not> continuation c then False
          else if a < 240 then (a = 224 \<longrightarrow> 160 \<le> b) \<and> (a = 237 \<longrightarrow> b < 160) \<and> utf8_bytes u
          else case u of [] \<Rightarrow> False
          | d # v \<Rightarrow> continuation d \<and> a < 245 \<and> (a = 240 \<longrightarrow> 144 \<le> b) \<and> (a = 244 \<longrightarrow> b < 144) \<and> utf8_bytes v)"

definition pg_text :: "string \<Rightarrow> bool" where
  "pg_text s \<longleftrightarrow> utf8_bytes (map of_char s)"

section \<open>Previews\<close>

definition trimmed_value :: "json gomap option \<Rightarrow> string \<Rightarrow> string" where
  "trimmed_value content key =
     (case as_str (map_of (case content of None \<Rightarrow> [] | Some m \<Rightarrow> m) key) of None \<Rightarrow> [] | Some t \<Rightarrow> trim_space t)"

definition raw_preview :: "json gomap option \<Rightarrow> string" where
  "raw_preview content =
     (let text = trim_space (marshal (object_json content)) in if length text > 120 then take 120 text else text)"

definition previewText :: "string \<Rightarrow> json gomap option \<Rightarrow> string" where
  "previewText contentType content =
     (let ct = trim_space contentType; v = trimmed_value content in
      if ct = ''text'' \<and> v ''text'' \<noteq> [] then v ''text''
      else if ct = ''encrypted'' then ''Encrypted message''
      else if ct = ''attachment'' then (if v ''filename'' \<noteq> [] then v ''filename'' else ''Attachment'')
      else if ct = ''link_preview'' then
        (if v ''title'' \<noteq> [] then v ''title'' else if v ''url'' \<noteq> [] then v ''url'' else ''Link preview'')
      else if ct = ''app_card'' \<and> v ''title'' \<noteq> [] then v ''title''
      else raw_preview content)"

section \<open>Inbox rows\<close>

text \<open>The statement of \<open>EmitUserEvent\<close> and \<open>insertUserEventTx\<close>: it fails when the user or the
  conversation does not exist.\<close>

definition insertUserEventTx ::
  "'e convEnv_scheme \<Rightarrow> time \<Rightarrow> string \<Rightarrow> string \<Rightarrow> string \<Rightarrow> json \<Rightarrow> 'z convTables_scheme \<Rightarrow> (userEvent \<times> 'z convTables_scheme) option" where
  "insertUserEventTx E now userID conversationID eventType payload T =
     (if \<not> is_user T userID \<or> (conversationID \<noteq> [] \<and> find_conversation T conversationID = None) then None
      else Some (\<lparr>ue_UserEventID = tb_next_user_event T, ue_Type = eventType, ue_CreatedAt = ev_rfc3339nano E now,
             ue_Payload = payload\<rparr>,
           T\<lparr>tb_inbox := tb_inbox T @ [\<lparr>ie_user_event_id = tb_next_user_event T, ie_user_id = userID,
               ie_conversation_id = null_if_empty conversationID, ie_event_type = eventType, ie_payload = payload,
               ie_created_at = now\<rparr>],
             tb_next_user_event := tb_next_user_event T + 1\<rparr>))"

definition ChannelForUser :: "string \<Rightarrow> string" where
  "ChannelForUser userID = ''user-event:user:'' @ userID"

definition EmitUserEvent ::
  "'e replEnv_scheme \<Rightarrow> time \<Rightarrow> string \<Rightarrow> string \<Rightarrow> string \<Rightarrow> json \<Rightarrow> 'z convTables_scheme
   \<Rightarrow> (userEvent \<times> (string \<times> json) list \<times> 'z convTables_scheme) option" where
  "EmitUserEvent E now userID conversationID eventType payload T =
     map_option (\<lambda>(evt, T1). (evt, if rp_redis E then [(ChannelForUser userID, event_json evt)] else [], T1))
       (insertUserEventTx E now userID conversationID eventType payload T)"

section \<open>Deliveries\<close>

type_synonym deliveries = "(string \<times> userEvent list) list"

definition add_delivery :: "string \<Rightarrow> userEvent \<Rightarrow> deliveries \<Rightarrow> deliveries" where
  "add_delivery userID evt D =
     AList.update userID ((case map_of D userID of None \<Rightarrow> [] | Some es \<Rightarrow> es) @ [evt]) D"

definition deliver ::
  "'e convEnv_scheme \<Rightarrow> time \<Rightarrow> string \<Rightarrow> string \<Rightarrow> json \<Rightarrow> string
   \<Rightarrow> 'z convTables_scheme \<times> deliveries \<Rightarrow> ('z convTables_scheme \<times> deliveries) option" where
  "deliver E now conversationID eventType payload userID s =
     map_option (\<lambda>(evt, T1). (T1, add_delivery userID evt (snd s)))
       (insertUserEventTx E now userID conversationID eventType payload (fst s))"

text \<open>A statement on the tables alone, and the two in a row.\<close>

definition on_tables ::
  "('z convTables_scheme \<Rightarrow> 'z convTables_scheme option)
   \<Rightarrow> 'z convTables_scheme \<times> deliveries \<Rightarrow> ('z convTables_scheme \<times> deliveries) option" where
  "on_tables f s = map_option (\<lambda>T1. (T1, snd s)) (f (fst s))"

definition deliver_then ::
  "'e convEnv_scheme \<Rightarrow> time \<Rightarrow> string \<Rightarrow> string \<Rightarrow> json \<Rightarrow> (string \<Rightarrow> 'z convTables_scheme \<Rightarrow> 'z convTables_scheme option)
   \<Rightarrow> string \<Rightarrow> 'z convTables_scheme \<times> deliveries \<Rightarrow> ('z convTables_scheme \<times> deliveries) option" where
  "deliver_then E now conversationID eventType payload f userID s =
     (case deliver E now conversationID eventType payload userID s of
        None \<Rightarrow> None
      | Some s1 \<Rightarrow> on_tables (f userID) s1)"

section \<open>The state of a user's conversation\<close>

definition is_state :: "string \<Rightarrow> string \<Rightarrow> stateRow \<Rightarrow> bool" where
  "is_state user conv r \<longleftrightarrow> cs_user_id r = user \<and> cs_conversation_id r = conv"

definition member_read :: "'z convTables_scheme \<Rightarrow> string \<Rightarrow> string \<Rightarrow> int option" where
  "member_read T conv user = map_option cm_last_read (find_member T conv user)"

definition member_delivered :: "'z convTables_scheme \<Rightarrow> string \<Rightarrow> string \<Rightarrow> int option" where
  "member_delivered T conv user = map_option cm_last_delivered (find_member T conv user)"

definition or_else :: "'a option \<Rightarrow> 'a \<Rightarrow> 'a" where
  "or_else x d = (case x of None \<Rightarrow> d | Some v \<Rightarrow> v)"

text \<open>The \<open>UPDATE\<close> of the upsert, and the row it inserts.\<close>

definition bump_state ::
  "'z convTables_scheme \<Rightarrow> MessageCreatedPayload \<Rightarrow> string \<Rightarrow> time \<Rightarrow> stateRow \<Rightarrow> stateRow" where
  "bump_state T p preview created r =
     r\<lparr>cs_last_message_id := Some (mp_MessageID p), cs_preview := Some preview, cs_last_message_at := Some created,
       cs_unread := (if cs_user_id r = mp_SenderUserID p then cs_unread r else cs_unread r + 1),
       cs_last_read := or_else (member_read T (mp_ConversationID p) (cs_user_id r)) (cs_last_read r),
       cs_last_delivered := or_else (member_delivered T (mp_ConversationID p) (cs_user_id r)) (cs_last_delivered r),
       cs_is_closed := False, cs_updated_at := created\<rparr>"

definition new_state ::
  "'z convTables_scheme \<Rightarrow> string \<Rightarrow> MessageCreatedPayload \<Rightarrow> string \<Rightarrow> time \<Rightarrow> stateRow" where
  "new_state T userID p preview created =
     \<lparr>cs_user_id = userID, cs_conversation_id = mp_ConversationID p, cs_last_message_id = Some (mp_MessageID p),
      cs_preview = Some preview, cs_last_message_at = Some created,
      cs_unread = (if userID = mp_SenderUserID p then 0 else 1),
      cs_last_read = or_else (member_read T (mp_ConversationID p) userID) 0,
      cs_last_delivered = or_else (member_delivered T (mp_ConversationID p) userID) 0,
      cs_is_closed = False, cs_updated_at = created\<rparr>"

definition upsertConversationStateTx ::
  "'e convEnv_scheme \<Rightarrow> MessageCreatedPayload \<Rightarrow> string \<Rightarrow> string \<Rightarrow> 'z convTables_scheme \<Rightarrow> 'z convTables_scheme option" where
  "upsertConversationStateTx E p preview userID T =
     (case ev_timestamptz E (mp_CreatedAt p) of
        None \<Rightarrow> None
      | Some created \<Rightarrow>
          if \<not> pg_text preview \<or> \<not> is_user T userID \<or> find_conversation T (mp_ConversationID p) = None
             \<or> find_message T (mp_MessageID p) = None then None
          else if list_ex (is_state userID (mp_ConversationID p)) (tb_conv_state T)
          then Some (T\<lparr>tb_conv_state := update_where (is_state userID (mp_ConversationID p))
                         (bump_state T p preview created) (tb_conv_state T)\<rparr>)
          else Some (T\<lparr>tb_conv_state := tb_conv_state T @ [new_state T userID p preview created]\<rparr>))"

definition applyMessageEditedStateTx ::
  "'e convEnv_scheme \<Rightarrow> MessageEditedPayload \<Rightarrow> string \<Rightarrow> string \<Rightarrow> 'z convTables_scheme \<Rightarrow> 'z convTables_scheme option" where
  "applyMessageEditedStateTx E p preview userID T =
     (case ev_timestamptz E (mp_EditedAt p) of
        None \<Rightarrow> None
      | Some edited \<Rightarrow>
          if \<not> pg_text preview then None
          else Some (T\<lparr>tb_conv_state := update_where (is_state userID (mp_ConversationID p))
                 (\<lambda>r. r\<lparr>cs_preview := (if cs_last_message_id r = Some (mp_MessageID p) then Some preview else cs_preview r),
                        cs_updated_at := edited\<rparr>) (tb_conv_state T)\<rparr>))"

definition deleted_unread :: "'z convTables_scheme \<Rightarrow> MessageDeletedPayload \<Rightarrow> stateRow \<Rightarrow> int" where
  "deleted_unread T p r =
     (if mp_SenderUserID p \<noteq> cs_user_id r
         \<and> or_else (member_read T (mp_ConversationID p) (cs_user_id r)) 0 < mp_ServerOrder p
      then max (cs_unread r - 1) 0 else cs_unread r)"

definition applyMessageDeletedStateTx ::
  "'e convEnv_scheme \<Rightarrow> MessageDeletedPayload \<Rightarrow> string \<Rightarrow> string \<Rightarrow> 'z convTables_scheme \<Rightarrow> 'z convTables_scheme option" where
  "applyMessageDeletedStateTx E p preview userID T =
     (case ev_timestamptz E (mp_DeletedAt p) of
        None \<Rightarrow> None
      | Some deleted \<Rightarrow>
          Some (T\<lparr>tb_conv_state := update_where (is_state userID (mp_ConversationID p))
                 (\<lambda>r. r\<lparr>cs_preview := (if cs_last_message_id r = Some (mp_MessageID p) then Some preview else cs_preview r),
                        cs_last_message_at := (if cs_last_message_id r = Some (mp_MessageID p) then Some deleted
                                               else cs_last_message_at r),
                        cs_unread := deleted_unread T p r, cs_updated_at := deleted\<rparr>) (tb_conv_state T)\<rparr>))"

section \<open>One domain event\<close>

definition conversation_members_json :: "'a messagePayload_scheme \<Rightarrow> json gomap" where
  "conversation_members_json p =
     [(''conversation_id'', JStr (mp_ConversationID p)), (''conversation_type'', JStr (mp_ConversationType p)),
      (''participants'', strings_json (mp_Participants p)), (''external_phones'', strings_json (mp_ExternalPhones p))]"

definition message_view :: "'a messagePayload_scheme \<Rightarrow> json \<Rightarrow> json gomap \<Rightarrow> json" where
  "message_view p content rest = JObj (
     [(''message_id'', JStr (mp_MessageID p)), (''conversation_id'', JStr (mp_ConversationID p)),
      (''sender_user_id'', JStr (mp_SenderUserID p)), (''sender_device_id'', JStr (mp_SenderDeviceID p)),
      (''content_type'', JStr (mp_ContentType p)), (''content'', content),
      (''client_generated_id'', JStr (mp_ClientGeneratedID p)), (''transport'', JStr (mp_Transport p)),
      (''server_order'', json_int (mp_ServerOrder p)), (''created_at'', JStr (mp_CreatedAt p)),
      (''sent_at'', JStr (mp_CreatedAt p))] @ rest)"

definition created_view :: "MessageCreatedPayload \<Rightarrow> string \<Rightarrow> json" where
  "created_view p preview = JObj (conversation_members_json p
     @ [(''preview'', JStr preview), (''closed'', JBool False), (''server_order'', json_int (mp_ServerOrder p)),
        (''message'', message_view p (object_json (mp_Content p))
            [(''status'', JStr ''SENT''), (''status_updated_at'', JStr (mp_CreatedAt p))])])"

definition edited_view :: "MessageEditedPayload \<Rightarrow> string \<Rightarrow> json" where
  "edited_view p preview = JObj (conversation_members_json p
     @ [(''preview'', JStr preview),
        (''message'', message_view p (object_json (mp_Content p))
            [(''edited_at'', JStr (mp_EditedAt p)), (''status_updated_at'', JStr (mp_EditedAt p))])])"

definition deleted_view :: "MessageDeletedPayload \<Rightarrow> string \<Rightarrow> json" where
  "deleted_view p preview = JObj (conversation_members_json p
     @ [(''preview'', JStr preview),
        (''message'', message_view p (JObj [])
            [(''deleted'', JBool True), (''deleted_at'', JStr (mp_DeletedAt p)),
             (''visibility_state'', JStr ''SOFT_DELETED''), (''status_updated_at'', JStr (mp_DeletedAt p))])])"

definition reactions_view :: "MessageReactionsPayload \<Rightarrow> json" where
  "reactions_view p = JObj [(''conversation_id'', JStr (xp_ConversationID p)),
     (''conversation_type'', JStr (xp_ConversationType p)), (''participants'', strings_json (xp_Participants p)),
     (''external_phones'', strings_json (xp_ExternalPhones p)), (''message_id'', JStr (xp_MessageID p)),
     (''server_order'', json_int (xp_ServerOrder p)), (''reactions'', counts_json (xp_Reactions p)),
     (''acted_at'', JStr (xp_ActedAt p))]"

definition effect_view :: "MessageEffectPayload \<Rightarrow> json" where
  "effect_view p = JObj [(''conversation_id'', JStr (fp_ConversationID p)), (''message_id'', JStr (fp_MessageID p)),
     (''effect_type'', JStr (fp_EffectType p)), (''triggered_by_user_id'', JStr (fp_TriggeredByUserID p)),
     (''triggered_at_ms'', json_int (fp_TriggeredAtMS p))]"

definition typing_view :: "TypingPayload \<Rightarrow> json" where
  "typing_view p = JObj [(''conversation_id'', JStr (tp_ConversationID p)), (''user_id'', JStr (tp_UserID p)),
     (''device_id'', JStr (tp_DeviceID p)), (''state'', JStr (tp_State p)), (''started_at_ms'', json_int (tp_StartedAtMS p))]"

definition receipt_view :: "string \<Rightarrow> string \<Rightarrow> string \<Rightarrow> int \<Rightarrow> string \<Rightarrow> json" where
  "receipt_view conversationID receiptKind actorUserID through at_time = JObj [(''conversation_id'', JStr conversationID),
     (''receipt_kind'', JStr receiptKind), (''actor_user_id'', JStr actorUserID), (''through_server_order'', json_int through),
     (''status_updated_at'', JStr at_time)]"

type_synonym ('e, 'z) processor =
  "'e convEnv_scheme \<Rightarrow> time \<Rightarrow> json \<Rightarrow> 'z convTables_scheme \<times> deliveries \<Rightarrow> ('z convTables_scheme \<times> deliveries) option"

definition processMessageCreated :: "('e, 'z) processor" where
  "processMessageCreated E now payload s =
     (case decode_created payload of
        None \<Rightarrow> None
      | Some p \<Rightarrow> (let preview = previewText (mp_ContentType p) (mp_Content p) in
          foldM (deliver_then E now (mp_ConversationID p) ''conversation_message_appended'' (created_view p preview)
                   (upsertConversationStateTx E p preview)) (elems (mp_Participants p)) s))"

definition processMessageEdited :: "('e, 'z) processor" where
  "processMessageEdited E now payload s =
     (case decode_edited payload of
        None \<Rightarrow> None
      | Some p \<Rightarrow> (let preview = previewText (mp_ContentType p) (mp_Content p) in
          foldM (deliver_then E now (mp_ConversationID p) ''conversation_message_edited'' (edited_view p preview)
                   (applyMessageEditedStateTx E p preview)) (elems (mp_Participants p)) s))"

definition processMessageDeleted :: "('e, 'z) processor" where
  "processMessageDeleted E now payload s =
     (case decode_deleted payload of
        None \<Rightarrow> None
      | Some p \<Rightarrow>
          foldM (deliver_then E now (mp_ConversationID p) ''conversation_message_deleted'' (deleted_view p ''Message deleted'')
                   (applyMessageDeletedStateTx E p ''Message deleted'')) (elems (mp_Participants p)) s)"

definition processMessageReactionsUpdated :: "('e, 'z) processor" where
  "processMessageReactionsUpdated E now payload s =
     (case decode_reactions payload of
        None \<Rightarrow> None
      | Some p \<Rightarrow> foldM (deliver E now (xp_ConversationID p) ''conversation_message_reactions_updated'' (reactions_view p))
                    (elems (xp_Participants p)) s)"

definition processMessageEffectTriggered :: "('e, 'z) processor" where
  "processMessageEffectTriggered E now payload s =
     (case decode_effect payload of
        None \<Rightarrow> None
      | Some p \<Rightarrow>
         (case LoadConversationMeta (fst s) (fp_ConversationID p) of
            None \<Rightarrow> None
          | Some (ty, participants, phones) \<Rightarrow>
              foldM (deliver E now (fp_ConversationID p) ''conversation_message_effect_triggered'' (effect_view p))
                participants s))"

definition processTypingEvent :: "('e, 'z) processor" where
  "processTypingEvent E now payload s =
     (case decode_typing payload of
        None \<Rightarrow> None
      | Some p \<Rightarrow>
         (case LoadConversationMeta (fst s) (tp_ConversationID p) of
            None \<Rightarrow> None
          | Some (ty, participants, phones) \<Rightarrow>
              foldM (deliver E now (tp_ConversationID p) ''conversation_typing_updated'' (typing_view p))
                (filter (\<lambda>u. u \<noteq> tp_UserID p) participants) s))"

text \<open>Who wrote something in the conversation up to an order, other than the actor: the order in which
  \<open>DISTINCT\<close> yields them is the order of their first message.\<close>

definition receipt_senders :: "'z convTables_scheme \<Rightarrow> string \<Rightarrow> string \<Rightarrow> int \<Rightarrow> string list" where
  "receipt_senders T conv actor through =
     rev (remdups (rev (map mg_sender (filter (\<lambda>m. mg_conversation_id m = conv \<and> mg_sender m \<noteq> actor
        \<and> mg_server_order m \<le> through \<and> mg_transport m \<in> {''OTT'', ''OHMF''}) (tb_messages T)))))"

definition emitReceiptUpdates ::
  "'e convEnv_scheme \<Rightarrow> time \<Rightarrow> string \<Rightarrow> string \<Rightarrow> string \<Rightarrow> int \<Rightarrow> string
   \<Rightarrow> 'z convTables_scheme \<times> deliveries \<Rightarrow> ('z convTables_scheme \<times> deliveries) option" where
  "emitReceiptUpdates E now conversationID actorUserID receiptKind through at_time s =
     foldM (deliver E now conversationID ''conversation_receipt_updated''
              (receipt_view conversationID receiptKind actorUserID through at_time))
       (receipt_senders (fst s) conversationID actorUserID through) s"

definition unread_after :: "'z convTables_scheme \<Rightarrow> string \<Rightarrow> string \<Rightarrow> int \<Rightarrow> int" where
  "unread_after T conv user through =
     int (length (filter (\<lambda>m. mg_conversation_id m = conv \<and> mg_sender m \<noteq> user \<and> mg_server_order m > through) (tb_messages T)))"

definition read_state :: "time \<Rightarrow> checkpointPayload \<Rightarrow> 'z convTables_scheme \<Rightarrow> 'z convTables_scheme" where
  "read_state now p T =
     T\<lparr>tb_conv_state := update_where (is_state (kp_UserID p) (kp_ConversationID p))
        (\<lambda>r. r\<lparr>cs_last_read := max (cs_last_read r) (kp_ThroughServerOrder p),
               cs_unread := unread_after T (kp_ConversationID p) (kp_UserID p) (kp_ThroughServerOrder p),
               cs_updated_at := now\<rparr>) (tb_conv_state T)\<rparr>"

definition processReadCheckpoint :: "('e, 'z) processor" where
  "processReadCheckpoint E now payload s =
     (case decode_checkpoint ''reader_user_id'' ''read_at'' payload of
        None \<Rightarrow> None
      | Some p \<Rightarrow> emitReceiptUpdates E now (kp_ConversationID p) (kp_UserID p) ''READ'' (kp_ThroughServerOrder p) (kp_At p)
                    (read_state now p (fst s), snd s))"

definition delivered_state :: "time \<Rightarrow> checkpointPayload \<Rightarrow> 'z convTables_scheme \<Rightarrow> 'z convTables_scheme" where
  "delivered_state now p T =
     T\<lparr>tb_conv_state := update_where (is_state (kp_UserID p) (kp_ConversationID p))
        (\<lambda>r. r\<lparr>cs_last_delivered := max (cs_last_delivered r) (kp_ThroughServerOrder p), cs_updated_at := now\<rparr>)
        (tb_conv_state T)\<rparr>"

definition processDeliveryCheckpoint :: "('e, 'z) processor" where
  "processDeliveryCheckpoint E now payload s =
     (case decode_checkpoint ''user_id'' ''delivered_at'' payload of
        None \<Rightarrow> None
      | Some p \<Rightarrow> emitReceiptUpdates E now (kp_ConversationID p) (kp_UserID p) ''DELIVERED'' (kp_ThroughServerOrder p) (kp_At p)
                    (delivered_state now p (fst s), snd s))"

text \<open>The \<open>switch\<close> of \<open>ProcessBatch\<close>: an event of another type is passed over.\<close>

definition process_event ::
  "'e convEnv_scheme \<Rightarrow> time \<Rightarrow> domainEventRow \<Rightarrow> 'z convTables_scheme \<times> deliveries \<Rightarrow> ('z convTables_scheme \<times> deliveries) option" where
  "process_event E now evt s =
     (let ty = de_event_type evt; p = de_payload evt in
      if ty = ''message_created'' then processMessageCreated E now p s
      else if ty = ''message_edited'' then processMessageEdited E now p s
      else if ty = ''message_deleted'' then processMessageDeleted E now p s
      else if ty = ''message_reactions_updated'' then processMessageReactionsUpdated E now p s
      else if ty = ''message_effect_triggered'' then processMessageEffectTriggered E now p s
      else if ty = ''read_checkpoint_advanced'' then processReadCheckpoint E now p s
      else if ty = ''delivery_checkpoint_advanced'' then processDeliveryCheckpoint E now p s
      else if ty = ''typing_started'' \<or> ty = ''typing_stopped'' then processTypingEvent E now p s
      else Some s)"

section \<open>A batch\<close>

text \<open>The messages of \<open>publishUserEvents\<close>, for the users in one of the orders of the map.\<close>

definition publish_event :: "string \<Rightarrow> userEvent \<Rightarrow> (string \<times> json) list" where
  "publish_event userID evt = (ChannelForUser userID, event_json evt)
     # (if ue_Type evt = ''conversation_receipt_updated''
        then [(''delivery:user:'' @ userID,
               (let get = (\<lambda>k. case map_of (obj_or_nil (Some (ue_Payload evt))) k of None \<Rightarrow> JNull | Some v \<Rightarrow> v) in
                JObj [(''conversation_id'', get ''conversation_id''), (''through_server_order'', get ''through_server_order''),
                      (''status'', get ''receipt_kind''), (''status_updated_at'', get ''status_updated_at'')]))]
        else [])"

definition publishUserEvents :: "replEnv \<Rightarrow> deliveries \<Rightarrow> (string \<times> json) list" where
  "publishUserEvents E D =
     (if \<not> rp_redis E then [] else concat (map (\<lambda>(u, es). concat (map (publish_event u) es)) D))"

definition pending_events :: "(int \<Rightarrow> bool) \<Rightarrow> 'z convTables_scheme \<Rightarrow> domainEventRow list" where
  "pending_events locked T =
     sort_key de_event_id (filter (\<lambda>e. de_processed_at e = None \<and> \<not> locked (de_event_id e)) (tb_domain_events T))"

definition mark_processed :: "time \<Rightarrow> int list \<Rightarrow> 'z convTables_scheme \<Rightarrow> 'z convTables_scheme" where
  "mark_processed now ids T =
     T\<lparr>tb_domain_events := update_where (\<lambda>e. de_event_id e \<in> set ids) (\<lambda>e. e\<lparr>de_processed_at := Some now\<rparr>) (tb_domain_events T)\<rparr>"

definition batch_limit :: "int \<Rightarrow> nat" where
  "batch_limit batchSize = (if batchSize \<le> 0 then 100 else nat batchSize)"

definition ProcessBatch ::
  "replEnv \<Rightarrow> time \<Rightarrow> (int \<Rightarrow> bool) \<Rightarrow> int \<Rightarrow> 'z convTables_scheme \<Rightarrow> (int \<times> (string \<times> json) list \<times> 'z convTables_scheme) option" where
  "ProcessBatch E now locked batchSize T =
     (let pending = take (batch_limit batchSize) (pending_events locked T) in
      if pending = [] then Some (0, [], T)
      else case foldM (process_event E now) pending (T, []) of
        None \<Rightarrow> None
      | Some (T1, D) \<Rightarrow>
          Some (int (length pending), publishUserEvents E D, mark_processed now (map de_event_id pending) T1))"

text \<open>One round of the worker (\<open>worker/sync_fanout.go\<close>): a failed batch leaves the tables as they were.\<close>

definition fanout_round ::
  "replEnv \<Rightarrow> time \<Rightarrow> (int \<Rightarrow> bool) \<Rightarrow> 'z convTables_scheme \<Rightarrow> (string \<times> json) list \<times> 'z convTables_scheme" where
  "fanout_round E now locked T =
     (case ProcessBatch E now locked 100 T of None \<Rightarrow> ([], T) | Some (n, pubs, T1) \<Rightarrow> (pubs, T1))"

text \<open>\<open>Start\<close> until it is stopped: the rounds, with the instant and the locks each one meets.\<close>

fun sync_fanout ::
  "replEnv \<Rightarrow> (time \<times> (int \<Rightarrow> bool)) list \<Rightarrow> 'z convTables_scheme \<Rightarrow> (string \<times> json) list \<times> 'z convTables_scheme" where
  "sync_fanout E [] T = ([], T)"
| "sync_fanout E ((now, locked) # rounds) T =
     (case fanout_round E now locked T of (pubs, T1) \<Rightarrow>
        (case sync_fanout E rounds T1 of (later, T2) \<Rightarrow> (pubs @ later, T2)))"

section \<open>Reading the inbox\<close>

definition page_limit :: "int \<Rightarrow> nat" where
  "page_limit limit = (if limit \<le> 0 then 200 else if limit > 1000 then 1000 else nat limit)"

text \<open>The loop over the rows: the page, the cursor and \<open>has_more\<close>; the row after a full page only
  sets the cursor.\<close>

fun list_rows ::
  "'e convEnv_scheme \<Rightarrow> nat \<Rightarrow> inboxRow list \<Rightarrow> userEvent list \<Rightarrow> int \<Rightarrow> (userEvent list \<times> int \<times> bool) option" where
  "list_rows E limit [] acc cursor = Some (acc, cursor, False)"
| "list_rows E limit (r # rs) acc cursor =
     (if length acc = limit then Some (acc, ie_user_event_id r, True)
      else case ie_payload r of
        JObj ms \<Rightarrow> list_rows E limit rs (acc @ [\<lparr>ue_UserEventID = ie_user_event_id r, ue_Type = ie_event_type r,
            ue_CreatedAt = ev_rfc3339nano E (ie_created_at r), ue_Payload = JObj ms\<rparr>]) (ie_user_event_id r)
      | JNull \<Rightarrow> list_rows E limit rs (acc @ [\<lparr>ue_UserEventID = ie_user_event_id r, ue_Type = ie_event_type r,
            ue_CreatedAt = ev_rfc3339nano E (ie_created_at r), ue_Payload = JNull\<rparr>]) (ie_user_event_id r)
      | _ \<Rightarrow> None)"

definition inbox_after :: "'z convTables_scheme \<Rightarrow> string \<Rightarrow> int \<Rightarrow> inboxRow list" where
  "inbox_after T userID cursor =
     sort_key ie_user_event_id (filter (\<lambda>r. ie_user_id r = userID \<and> ie_user_event_id r > cursor) (tb_inbox T))"

definition ListEvents :: "'e convEnv_scheme \<Rightarrow> string \<Rightarrow> int \<Rightarrow> int \<Rightarrow> 'z convTables_scheme \<Rightarrow> SyncResponse option" where
  "ListEvents E userID cursor limit T =
     (let n = page_limit limit in
      map_option (\<lambda>(out, next, hasMore).
          \<lparr>sy_Events = out, sy_NextCursor = (if out = [] then cursor else next), sy_HasMore = hasMore\<rparr>)
        (list_rows E n (take (n + 1) (inbox_after T userID cursor)) [] 0))"

text \<open>\<open>ParseCursor\<close>: \<open>Sscanf\<close> with \<open>%d\<close> reads a sign and digits and does not look at what follows.\<close>

definition scan_digits :: "string \<Rightarrow> string" where
  "scan_digits s = (case s of [] \<Rightarrow> []
     | c # cs \<Rightarrow> if c = CHR ''-'' \<or> c = CHR ''+'' then c # takeWhile is_digit cs else takeWhile is_digit s)"

definition ParseCursor :: "string \<Rightarrow> int option" where
  "ParseCursor raw = (let s = trim_space raw in if s = [] then Some 0 else atoi (scan_digits s))"

section \<open>Acknowledging\<close>

definition device_or_web :: "string \<Rightarrow> string" where
  "device_or_web deviceID = (if trim_space deviceID = [] then ''web'' else deviceID)"

definition find_cursor :: "'z convTables_scheme \<Rightarrow> string \<Rightarrow> string \<Rightarrow> cursorRow option" where
  "find_cursor T user device = find (\<lambda>c. uc_user_id c = user \<and> uc_device_id c = device) (tb_cursors T)"

text \<open>The upsert of a device's cursor.\<close>

definition upsert_cursor :: "time \<Rightarrow> string \<Rightarrow> string \<Rightarrow> int \<Rightarrow> (int \<Rightarrow> int) \<Rightarrow> 'z convTables_scheme \<Rightarrow> 'z convTables_scheme option" where
  "upsert_cursor now user device fresh f T =
     (case find_cursor T user device of
        Some c \<Rightarrow> Some (T\<lparr>tb_cursors := update_where (\<lambda>c. uc_user_id c = user \<and> uc_device_id c = device)
            (\<lambda>c. c\<lparr>uc_last_user_event_id := f (uc_last_user_event_id c), uc_last_seen_at := now\<rparr>) (tb_cursors T)\<rparr>)
      | None \<Rightarrow> if \<not> is_user T user then None
          else Some (T\<lparr>tb_cursors := tb_cursors T @ [\<lparr>uc_user_id = user, uc_device_id = device,
              uc_last_user_event_id = fresh, uc_last_seen_at = now\<rparr>]\<rparr>))"

definition advanceDeliveredCheckpointTx ::
  "'e convEnv_scheme \<Rightarrow> time \<Rightarrow> string \<Rightarrow> string \<times> int \<Rightarrow> 'z convTables_scheme \<Rightarrow> 'z convTables_scheme option" where
  "advanceDeliveredCheckpointTx E now userID advance T =
     (case advance of (conversationID, through) \<Rightarrow>
      case find_member T conversationID userID of
        None \<Rightarrow> None
      | Some m \<Rightarrow>
          if through \<le> cm_last_delivered m then Some T
          else AppendDomainEvent now conversationID userID ''delivery_checkpoint_advanced''
            (delivery_json \<lparr>kp_ConversationID = conversationID, kp_UserID = userID, kp_ThroughServerOrder = through,
               kp_At = ev_rfc3339nano E now\<rparr>)
            (T\<lparr>tb_members := update_where (\<lambda>m. cm_conversation_id m = conversationID \<and> cm_user_id m = userID)
               (\<lambda>m. m\<lparr>cm_last_delivered := max (cm_last_delivered m) through, cm_delivery_at := Some now\<rparr>) (tb_members T)\<rparr>))"

text \<open>\<open>COALESCE((payload->>'server_order')::bigint, 0)\<close>; \<open>None\<close> when the cast fails.\<close>

definition payload_order :: "json \<Rightarrow> int option" where
  "payload_order payload =
     (case map_of (obj_or_nil (Some payload)) ''server_order'' of
        None \<Rightarrow> Some 0 | Some JNull \<Rightarrow> Some 0 | Some (JNum s) \<Rightarrow> atoi s | Some (JStr s) \<Rightarrow> atoi (trim_space s)
      | Some _ \<Rightarrow> None)"

text \<open>The greatest order of the messages that an acknowledgement covers, by conversation; the groups come in the
  order in which the list has them.\<close>

definition acked_rows :: "'z convTables_scheme \<Rightarrow> string \<Rightarrow> int \<Rightarrow> int \<Rightarrow> inboxRow list" where
  "acked_rows T userID previous through =
     filter (\<lambda>r. ie_user_id r = userID \<and> previous < ie_user_event_id r \<and> ie_user_event_id r \<le> through
        \<and> ie_event_type r = ''conversation_message_appended'' \<and> ie_conversation_id r \<noteq> None) (tb_inbox T)"

definition row_conversation :: "inboxRow \<Rightarrow> string" where
  "row_conversation r = (case ie_conversation_id r of None \<Rightarrow> [] | Some c \<Rightarrow> c)"

definition acked_orders :: "inboxRow list \<Rightarrow> (string \<times> int) list option" where
  "acked_orders rows =
     (if list_ex (\<lambda>r. payload_order (ie_payload r) = None) rows then None
      else Some (map (\<lambda>c. (c, Max (set (map (\<lambda>r. the (payload_order (ie_payload r)))
                                   (filter (\<lambda>r. row_conversation r = c) rows)))))
                   (remdups (map row_conversation rows))))"

definition AcknowledgeCursor ::
  "'e convEnv_scheme \<Rightarrow> time \<Rightarrow> string \<Rightarrow> string \<Rightarrow> int \<Rightarrow> 'z convTables_scheme \<Rightarrow> 'z convTables_scheme option" where
  "AcknowledgeCursor E now userID deviceID through T =
     (if through \<le> 0 then Some T
      else
      (let device = device_or_web deviceID;
           previous = (case find_cursor T userID device of None \<Rightarrow> 0 | Some c \<Rightarrow> uc_last_user_event_id c)
       in if through \<le> previous then upsert_cursor now userID device previous (\<lambda>x. x) T
          else case acked_orders (acked_rows T userID previous through) of
            None \<Rightarrow> None
          | Some advances \<Rightarrow>
             (case upsert_cursor now userID device through (\<lambda>x. max x through) T of
                None \<Rightarrow> None
              | Some T1 \<Rightarrow> foldM (advanceDeliveredCheckpointTx E now userID) (filter (\<lambda>(c, n). n > 0) advances) T1)))"

definition AdvanceDeliveredCheckpoint ::
  "'e convEnv_scheme \<Rightarrow> time \<Rightarrow> string \<Rightarrow> string \<Rightarrow> string \<Rightarrow> int \<Rightarrow> 'z convTables_scheme \<Rightarrow> 'z convTables_scheme option" where
  "AdvanceDeliveredCheckpoint E now userID deviceID conversationID through T =
     (if through \<le> 0 then Some T
      else case upsert_cursor now userID (device_or_web deviceID) 0 (\<lambda>x. x) T of
        None \<Rightarrow> None
      | Some T1 \<Rightarrow> advanceDeliveredCheckpointTx E now userID (conversationID, through) T1)"

section \<open>Effects and typing\<close>

definition AppendMessageEffectEvent ::
  "'e convEnv_scheme \<Rightarrow> time \<Rightarrow> string \<Rightarrow> string \<Rightarrow> string \<Rightarrow> string \<Rightarrow> time \<Rightarrow> 'z convTables_scheme \<Rightarrow> 'z convTables_scheme option" where
  "AppendMessageEffectEvent E now conversationID actorUserID messageID effectType triggeredAt =
     AppendDomainEvent now conversationID actorUserID ''message_effect_triggered''
       (effect_json \<lparr>fp_MessageID = messageID, fp_ConversationID = conversationID, fp_EffectType = effectType,
          fp_TriggeredByUserID = actorUserID, fp_TriggeredAtMS = ev_unix_ms E triggeredAt\<rparr>)"

definition AppendTypingEvent ::
  "'e convEnv_scheme \<Rightarrow> time \<Rightarrow> string \<Rightarrow> string \<Rightarrow> string \<Rightarrow> string \<Rightarrow> time \<Rightarrow> 'z convTables_scheme \<Rightarrow> 'z convTables_scheme option" where
  "AppendTypingEvent E now conversationID actorUserID deviceID state startedAt =
     AppendDomainEvent now conversationID actorUserID
       (if equal_fold state ''typing_started'' then ''typing_started'' else ''typing_stopped'')
       (typing_json \<lparr>tp_ConversationID = conversationID, tp_UserID = actorUserID, tp_DeviceID = deviceID,
          tp_State = state, tp_StartedAtMS = ev_unix_ms E startedAt\<rparr>)"

end
