(* ===== verification/ReplicationPaging.thy ===== *)
theory ReplicationPaging
  imports ReplicationStore
begin

text \<open>
  Reading an inbox page by page.  A page that is not the last one sets its cursor to the event
  after it, which the next page leaves out: a client that follows the cursors misses one event at
  every boundary, and exactly those.
\<close>

section \<open>Pages of the inbox\<close>

definition event_of_row :: "'e convEnv_scheme \<Rightarrow> inboxRow \<Rightarrow> userEvent" where
  "event_of_row E r = \<lparr>ue_UserEventID = ie_user_event_id r, ue_Type = ie_event_type r,
     ue_CreatedAt = ev_rfc3339nano E (ie_created_at r), ue_Payload = ie_payload r\<rparr>"

definition object_row :: "inboxRow \<Rightarrow> bool" where
  "object_row r \<longleftrightarrow> (case ie_payload r of JObj ms \<Rightarrow> True | JNull \<Rightarrow> True | _ \<Rightarrow> False)"

lemma list_rows_all:
  assumes "list_all object_row rows" and "length acc \<le> n"
  shows "list_rows E n rows acc c =
    (if length acc + length rows \<le> n
     then Some (acc @ map (event_of_row E) rows, if rows = [] then c else ie_user_event_id (last rows), False)
     else Some (acc @ map (event_of_row E) (take (n - length acc) rows), ie_user_event_id (rows ! (n - length acc)), True))"
  using assms
proof (induction rows arbitrary: acc c)
  case (Cons r rs)
  show ?case
  proof (cases "length acc = n")
    case True
    then show ?thesis by simp
  next
    case False
    then have l: "length (acc @ [event_of_row E r]) \<le> n" using Cons.prems(2) by simp
    have step: "list_rows E n (r # rs) acc c = list_rows E n rs (acc @ [event_of_row E r]) (ie_user_event_id r)"
      using False Cons.prems(1) by (auto simp: object_row_def event_of_row_def split: json.splits)
    have k: "n - length acc = Suc (n - Suc (length acc))" using l by simp
    show ?thesis using Cons.IH [OF _ l, of "ie_user_event_id r"] Cons.prems(1) k by (auto simp: step simp del: list_rows.simps(2))
  qed
qed simp

lemma page_limit_pos: "0 < page_limit limit"
  by (simp add: page_limit_def)

text \<open>Rows in the order of strictly increasing ids: what lies after the cursor of a row.\<close>

lemma sort_filter_after:
  fixes k :: "'r \<Rightarrow> int"
  assumes "distinct (map k rows)" and "sort_key k (filter P rows) = xs @ x # ys"
  shows "sort_key k (filter (\<lambda>r. P r \<and> k r > k x) rows) = ys"
proof -
  have s: "sorted (map k (xs @ x # ys))" using assms(2) by (metis sorted_sort_key)
  have "distinct (map k (filter P rows))" using assms(1) by (simp add: distinct_map_filter)
  then have "distinct (map k (sort_key k (filter P rows)))"
    by (metis distinct_map distinct_sort set_sort)
  then have d: "distinct (map k (xs @ x # ys))" using assms(2) by simp
  have "sort_key k (filter (\<lambda>r. k r > k x) (filter P rows)) = filter (\<lambda>r. k r > k x) (sort_key k (filter P rows))"
    by (simp add: filter_sort)
  also have "\<dots> = filter (\<lambda>r. k r > k x) (xs @ x # ys)" by (simp add: assms(2))
  also have "\<dots> = ys" using s d by (auto simp: sorted_append filter_empty_conv not_less order_le_less intro!: filter_True)
  finally show ?thesis by (simp add: conj_commute)
qed

lemma inbox_after_row:
  assumes "distinct (map ie_user_event_id (tb_inbox T))" and "inbox_after T u c = xs @ x # ys"
  shows "inbox_after T u (ie_user_event_id x) = ys"
proof -
  have "x \<in> set (inbox_after T u c)" using assms(2) by simp
  then have "c < ie_user_event_id x" by (simp add: inbox_after_def)
  then have eq: "(\<lambda>r. ie_user_id r = u \<and> ie_user_event_id x < ie_user_event_id r)
      = (\<lambda>r. (ie_user_id r = u \<and> c < ie_user_event_id r) \<and> ie_user_event_id x < ie_user_event_id r)"
    by auto
  show ?thesis unfolding inbox_after_def eq
    by (rule sort_filter_after [OF assms(1) assms(2) [unfolded inbox_after_def]])
qed

lemma inbox_after_objects: "list_all object_row (tb_inbox T) \<Longrightarrow> list_all object_row (inbox_after T u c)"
  by (auto simp: inbox_after_def list_all_iff)

lemma ListEvents_page:
  assumes "distinct (map ie_user_event_id (tb_inbox T))" and "list_all object_row (tb_inbox T)"
    and "rows = inbox_after T u c" and "n = page_limit limit"
  shows "\<exists>resp. ListEvents E u c limit T = Some resp \<and> sy_Events resp = map (event_of_row E) (take n rows)
      \<and> (sy_HasMore resp \<longleftrightarrow> n < length rows)
      \<and> (sy_HasMore resp \<longrightarrow> inbox_after T u (sy_NextCursor resp) = drop (Suc n) rows)
      \<and> (\<not> sy_HasMore resp \<longrightarrow> inbox_after T u (sy_NextCursor resp) = [])"
proof -
  have ok: "list_all object_row (take (n + 1) rows)"
    using inbox_after_objects [OF assms(2), of u c] by (auto simp: assms(3) list_all_iff dest: in_set_takeD)
  note page = list_rows_all [OF ok, of "[]" n E 0, simplified]
  have n: "0 < n" using page_limit_pos assms(4) by simp
  show ?thesis
  proof (cases "n < length rows")
    case True
    then have "take (Suc n) rows ! n = rows ! n" "length (take (Suc n) rows) = Suc n" by simp_all
    then have "ListEvents E u c limit T = Some \<lparr>sy_Events = map (event_of_row E) (take n rows),
        sy_NextCursor = ie_user_event_id (rows ! n), sy_HasMore = True\<rparr>"
      using page True n by (auto simp: ListEvents_def Let_def assms(3,4) min_def)
    moreover have "inbox_after T u (ie_user_event_id (rows ! n)) = drop (Suc n) rows"
      using inbox_after_row [OF assms(1), of u c "take n rows" "rows ! n" "drop (Suc n) rows"] True
      by (simp add: assms(3) id_take_nth_drop [symmetric])
    ultimately show ?thesis using True by auto
  next
    case False
    then have "take (Suc n) rows = rows" "take n rows = rows" by simp_all
    then have l: "ListEvents E u c limit T = Some \<lparr>sy_Events = map (event_of_row E) rows,
        sy_NextCursor = (if rows = [] then c else ie_user_event_id (last rows)), sy_HasMore = False\<rparr>"
      using page False by (auto simp: ListEvents_def Let_def assms(3,4))
    have "inbox_after T u (if rows = [] then c else ie_user_event_id (last rows)) = []"
    proof (cases rows rule: rev_cases)
      case Nil
      then show ?thesis using assms(3) by simp
    next
      case (snoc xs x)
      then show ?thesis using inbox_after_row [OF assms(1), of u c xs x "[]"] assms(3) by simp
    qed
    then show ?thesis using l False by auto
  qed
qed

text \<open>A client that starts at a cursor and follows \<open>next_cursor\<close> while \<open>has_more\<close> holds, as
  \<open>syncFromCursor\<close> of the web client does.\<close>

fun follow_events :: "nat \<Rightarrow> 'e convEnv_scheme \<Rightarrow> string \<Rightarrow> int \<Rightarrow> int \<Rightarrow> 'z convTables_scheme \<Rightarrow> userEvent list" where
  "follow_events 0 E u c limit T = []"
| "follow_events (Suc fuel) E u c limit T =
     (case ListEvents E u c limit T of
        None \<Rightarrow> []
      | Some resp \<Rightarrow> sy_Events resp @ (if sy_HasMore resp then follow_events fuel E u (sy_NextCursor resp) limit T else []))"

lemma nths_boundaries:
  assumes "n < length rows"
  shows "nths rows {i. i mod Suc n \<noteq> n} = take n rows @ nths (drop (Suc n) rows) {i. i mod Suc n \<noteq> n}"
proof -
  have r: "rows = take n rows @ rows ! n # drop (Suc n) rows" using assms by (simp add: id_take_nth_drop [symmetric])
  have "nths rows {i. i mod Suc n \<noteq> n} = nths (take n rows) {i. i mod Suc n \<noteq> n}
      @ nths (rows ! n # drop (Suc n) rows) {j. (j + n) mod Suc n \<noteq> n}"
    using assms by (subst r) (simp add: nths_append min_def)
  moreover have "nths (take n rows) {i. i mod Suc n \<noteq> n} = take n rows" by (rule nths_all) auto
  moreover have "nths (rows ! n # drop (Suc n) rows) {j. (j + n) mod Suc n \<noteq> n}
      = nths (drop (Suc n) rows) {i. i mod Suc n \<noteq> n}"
  proof -
    have "(Suc j + n) mod Suc n = j mod Suc n" for j
      by (metis add_Suc_shift add_Suc_right mod_add_self2)
    then show ?thesis by (simp add: nths_Cons)
  qed
  ultimately show ?thesis by simp
qed

text \<open>C29. Following the cursors of the inbox yields its events in order except those at the positions
  \<open>n\<close>, \<open>2 n + 1\<close>, ... where \<open>n\<close> is the page size: each page but the last loses the event after it.\<close>

theorem page_boundary_events_lost:
  assumes "distinct (map ie_user_event_id (tb_inbox T))" and "list_all object_row (tb_inbox T)"
    and "length (inbox_after T u c) < fuel"
  shows "follow_events fuel E u c limit T
    = map (event_of_row E) (nths (inbox_after T u c) {i. i mod Suc (page_limit limit) \<noteq> page_limit limit})"
  using assms(3)
proof (induction fuel arbitrary: c)
  case (Suc fuel)
  let ?n = "page_limit limit" and ?rows = "inbox_after T u c"
  obtain resp where r: "ListEvents E u c limit T = Some resp" "sy_Events resp = map (event_of_row E) (take ?n ?rows)"
      "sy_HasMore resp \<longleftrightarrow> ?n < length ?rows"
      "sy_HasMore resp \<Longrightarrow> inbox_after T u (sy_NextCursor resp) = drop (Suc ?n) ?rows"
    using ListEvents_page [OF assms(1,2) refl refl, where u = u and c = c and limit = limit and E = E] by auto
  show ?case
  proof (cases "?n < length ?rows")
    case True
    then have "follow_events fuel E u (sy_NextCursor resp) limit T
        = map (event_of_row E) (nths (drop (Suc ?n) ?rows) {i. i mod Suc ?n \<noteq> ?n})"
      using Suc.IH [of "sy_NextCursor resp"] Suc.prems r(3,4) by simp
    then show ?thesis using r True by (simp add: nths_boundaries)
  next
    case False
    then have "nths ?rows {i. i mod Suc ?n \<noteq> ?n} = ?rows" by (intro nths_all) auto
    then show ?thesis using r False by simp
  qed
qed simp

end
