(* ===== verification/ReplicationFanout.thy ===== *)
theory ReplicationFanout
  imports ReplicationPaging
begin

text \<open>
  What \<open>ProcessBatch\<close> does, against a specification: the entries that each domain event puts into
  inboxes.  The locale \<open>event_processor\<close> is the contract of a processor; each of the code's processors is an
  instance of it, and so is the switch over them.
\<close>

section \<open>What a processor does to the tables\<close>

type_synonym inboxEntry = "string \<times> string \<times> string \<times> json"

text \<open>Everything but the inbox and the users' conversation states is left alone.\<close>

definition same_core :: "'z convTables_scheme \<Rightarrow> 'z convTables_scheme \<Rightarrow> bool" where
  "same_core T T' \<longleftrightarrow> T' = T\<lparr>tb_inbox := tb_inbox T', tb_next_user_event := tb_next_user_event T', tb_conv_state := tb_conv_state T'\<rparr>"

lemma same_core_intros [simp, intro]:
  "same_core T T" "same_core T (T\<lparr>tb_conv_state := c\<rparr>)" "same_core T (T\<lparr>tb_inbox := a, tb_next_user_event := b\<rparr>)"
  by (simp_all add: same_core_def)

lemma same_coreD:
  assumes "same_core T T'"
  shows "tb_users T' = tb_users T" "tb_conversations T' = tb_conversations T" "tb_members T' = tb_members T"
    "tb_external_phones T' = tb_external_phones T" "tb_messages T' = tb_messages T"
    "tb_domain_events T' = tb_domain_events T" "tb_next_event T' = tb_next_event T" "tb_cursors T' = tb_cursors T"
  by (subst assms [unfolded same_core_def], simp)+

lemma same_core_trans: "same_core T T1 \<Longrightarrow> same_core T1 T2 \<Longrightarrow> same_core T T2"
  unfolding same_core_def
  by (erule ssubst, erule ssubst) simp

text \<open>The rows and the deliveries that a list of entries becomes.\<close>

fun inbox_rows :: "time \<Rightarrow> int \<Rightarrow> inboxEntry list \<Rightarrow> inboxRow list" where
  "inbox_rows now i [] = []"
| "inbox_rows now i ((u, c, t, p) # xs) = \<lparr>ie_user_event_id = i, ie_user_id = u, ie_conversation_id = null_if_empty c,
     ie_event_type = t, ie_payload = p, ie_created_at = now\<rparr> # inbox_rows now (i + 1) xs"

definition deliver_rows :: "'e convEnv_scheme \<Rightarrow> inboxRow list \<Rightarrow> deliveries \<Rightarrow> deliveries" where
  "deliver_rows E rows D = fold (\<lambda>r. add_delivery (ie_user_id r) (event_of_row E r)) rows D"

lemma inbox_rows_append: "inbox_rows now i (xs @ ys) = inbox_rows now i xs @ inbox_rows now (i + int (length xs)) ys"
  by (induction now i xs rule: inbox_rows.induct) (simp_all add: algebra_simps)

lemma inbox_rows_ids: "map ie_user_event_id (inbox_rows now i xs) = map (\<lambda>k. i + int k) [0..<length xs]"
proof (induction now i xs rule: inbox_rows.induct)
  case (2 now i u c t p xs)
  have "map (\<lambda>k. i + int k) [0..<Suc (length xs)] = i # map (\<lambda>k. i + 1 + int k) [0..<length xs]"
    by (simp only: upt_conv_Cons [OF zero_less_Suc] map_Suc_upt [symmetric] list.map map_map)
      (simp add: comp_def algebra_simps)
  then show ?case using 2 by simp
qed simp

definition fan_step ::
  "'e convEnv_scheme \<Rightarrow> time \<Rightarrow> inboxEntry list \<Rightarrow> 'z convTables_scheme \<times> deliveries \<Rightarrow> 'z convTables_scheme \<times> deliveries \<Rightarrow> bool" where
  "fan_step E now xs s s' \<longleftrightarrow> same_core (fst s) (fst s')
     \<and> tb_inbox (fst s') = tb_inbox (fst s) @ inbox_rows now (tb_next_user_event (fst s)) xs
     \<and> tb_next_user_event (fst s') = tb_next_user_event (fst s) + int (length xs)
     \<and> snd s' = deliver_rows E (inbox_rows now (tb_next_user_event (fst s)) xs) (snd s)"

lemma fan_step_refl [simp]: "fan_step E now [] s s"
  by (simp add: fan_step_def deliver_rows_def)

lemma fan_step_trans: "fan_step E now xs s s1 \<Longrightarrow> fan_step E now ys s1 s2 \<Longrightarrow> fan_step E now (xs @ ys) s s2"
  by (auto simp: fan_step_def inbox_rows_append deliver_rows_def intro: same_core_trans)

lemma deliver_fans: "deliver E now c t p u s = Some s' \<Longrightarrow> fan_step E now [(u, c, t, p)] s s'"
  by (auto simp: deliver_def insertUserEventTx_def fan_step_def deliver_rows_def event_of_row_def split: if_splits)

text \<open>A statement that only touches the conversation states.\<close>

definition state_only :: "('z convTables_scheme \<Rightarrow> 'z convTables_scheme option) \<Rightarrow> bool" where
  "state_only f \<longleftrightarrow> (\<forall>T T'. f T = Some T' \<longrightarrow> T' = T\<lparr>tb_conv_state := tb_conv_state T'\<rparr>)"


lemma state_onlyD: "state_only f \<Longrightarrow> on_tables f s = Some s' \<Longrightarrow> fan_step E now [] s s'"
proof -
  assume f: "state_only f" and s': "on_tables f s = Some s'"
  then obtain T' where T': "f (fst s) = Some T'" "s' = (T', snd s)" by (auto simp: on_tables_def)
  then have "T' = (fst s)\<lparr>tb_conv_state := tb_conv_state T'\<rparr>" using f by (simp add: state_only_def)
  then obtain c where "T' = (fst s)\<lparr>tb_conv_state := c\<rparr>" by blast
  then show ?thesis using T'(2) by (simp add: fan_step_def deliver_rows_def)
qed

lemma deliver_then_fans:
  assumes "\<And>u. state_only (f u)" and "deliver_then E now c t p f u s = Some s'"
  shows "fan_step E now [(u, c, t, p)] s s'"
proof -
  obtain s1 where s1: "deliver E now c t p u s = Some s1" "on_tables (f u) s1 = Some s'"
    using assms(2) by (auto simp: deliver_then_def split: option.splits)
  show ?thesis using fan_step_trans [OF deliver_fans [OF s1(1)] state_onlyD [OF assms(1) s1(2)]] by simp
qed

lemma foldM_fans:
  assumes "\<And>x s s'. f x s = Some s' \<Longrightarrow> fan_step E now (g x) s s'" and "foldM f xs s = Some s'"
  shows "fan_step E now (concat (map g xs)) s s'"
  using assms(2)
proof (induction xs arbitrary: s)
  case (Cons x xs)
  then obtain s1 where "f x s = Some s1" "foldM f xs s1 = Some s'" by (auto split: option.splits)
  then show ?case using fan_step_trans [OF assms(1) Cons.IH] by simp
qed simp

lemma fan_out_each:
  assumes "foldM (deliver E now c t p) us s = Some s'"
  shows "fan_step E now (map (\<lambda>u. (u, c, t, p)) us) s s'"
  using foldM_fans [where g = "\<lambda>u. [(u, c, t, p)]", OF deliver_fans assms] by (simp add: comp_def)

lemma fan_out_each_then:
  assumes "\<And>u. state_only (f u)" and "foldM (deliver_then E now c t p f) us s = Some s'"
  shows "fan_step E now (map (\<lambda>u. (u, c, t, p)) us) s s'"
  using foldM_fans [where g = "\<lambda>u. [(u, c, t, p)]", OF deliver_then_fans [OF assms(1)] assms(2)] by (simp add: comp_def)

lemma state_only_branches:
  "state_only (\<lambda>T. None)" "state_only (\<lambda>T. Some (T\<lparr>tb_conv_state := c T\<rparr>))"
  "state_only f \<Longrightarrow> state_only g \<Longrightarrow> state_only (\<lambda>T. if b T then f T else g T)"
  "(\<And>v. x = Some v \<Longrightarrow> state_only (h v)) \<Longrightarrow> state_only (\<lambda>T. case x of None \<Rightarrow> None | Some v \<Rightarrow> h v T)"
  by (auto simp: state_only_def split: option.splits)

lemma state_statements:
  "state_only (upsertConversationStateTx E p preview u)" "state_only (applyMessageEditedStateTx E q preview u)"
  "state_only (applyMessageDeletedStateTx E r preview u)"
  unfolding upsertConversationStateTx_def [abs_def] applyMessageEditedStateTx_def [abs_def] applyMessageDeletedStateTx_def [abs_def]
  by (intro state_only_branches)+

section \<open>The contract of a processor\<close>

text \<open>A processor turns a payload into the inbox entries that its specification names, which depend on
  conversations, members and messages only.\<close>

locale event_processor =
  fixes process :: "'e convEnv_scheme \<Rightarrow> time \<Rightarrow> 'p \<Rightarrow> 'z convTables_scheme \<times> deliveries \<Rightarrow> ('z convTables_scheme \<times> deliveries) option"
    and spec :: "'z convTables_scheme \<Rightarrow> 'p \<Rightarrow> inboxEntry list"
  assumes fans: "process E now p s = Some s' \<Longrightarrow> fan_step E now (spec (fst s) p) s s'"
    and spec_core: "same_core T T' \<Longrightarrow> spec T' p = spec T p"
begin

lemma fans_from: "process E now p s = Some s' \<Longrightarrow> same_core T (fst s) \<Longrightarrow> fan_step E now (spec T p) s s'"
  using fans [of E now p s s'] spec_core [of T "fst s" p] by simp

lemma keeps_core: "process E now p s = Some s' \<Longrightarrow> same_core (fst s) (fst s')"
  using fans by (auto simp: fan_step_def)

text \<open>Several payloads in a row.\<close>

lemma fans_all:
  assumes "foldM (process E now) ps s = Some s'"
  shows "fan_step E now (concat (map (spec (fst s)) ps)) s s'"
proof -
  have "same_core T (fst s) \<Longrightarrow> foldM (process E now) ps s = Some s' \<Longrightarrow> fan_step E now (concat (map (spec T) ps)) s s'" for T
  proof (induction ps arbitrary: s)
    case (Cons p ps)
    then obtain s1 where s1: "process E now p s = Some s1" "foldM (process E now) ps s1 = Some s'"
      by (auto split: option.splits)
    then have "same_core T (fst s1)" using Cons.prems(1) keeps_core same_core_trans by blast
    then show ?case using fan_step_trans [OF fans_from [OF s1(1) Cons.prems(1)] Cons.IH] s1(2) by simp
  qed simp
  then show ?thesis using assms by simp
qed

end

section \<open>The processors of the code\<close>

definition to_all :: "string list \<Rightarrow> string \<Rightarrow> string \<Rightarrow> json \<Rightarrow> inboxEntry list" where
  "to_all users conv ty payload = map (\<lambda>u. (u, conv, ty, payload)) users"

definition created_entries :: "'z convTables_scheme \<Rightarrow> json \<Rightarrow> inboxEntry list" where
  "created_entries T payload = (case decode_created payload of None \<Rightarrow> [] | Some p \<Rightarrow>
     to_all (elems (mp_Participants p)) (mp_ConversationID p) ''conversation_message_appended''
       (created_view p (previewText (mp_ContentType p) (mp_Content p))))"

definition edited_entries :: "'z convTables_scheme \<Rightarrow> json \<Rightarrow> inboxEntry list" where
  "edited_entries T payload = (case decode_edited payload of None \<Rightarrow> [] | Some p \<Rightarrow>
     to_all (elems (mp_Participants p)) (mp_ConversationID p) ''conversation_message_edited''
       (edited_view p (previewText (mp_ContentType p) (mp_Content p))))"

definition deleted_entries :: "'z convTables_scheme \<Rightarrow> json \<Rightarrow> inboxEntry list" where
  "deleted_entries T payload = (case decode_deleted payload of None \<Rightarrow> [] | Some p \<Rightarrow>
     to_all (elems (mp_Participants p)) (mp_ConversationID p) ''conversation_message_deleted'' (deleted_view p ''Message deleted''))"

definition reactions_entries :: "'z convTables_scheme \<Rightarrow> json \<Rightarrow> inboxEntry list" where
  "reactions_entries T payload = (case decode_reactions payload of None \<Rightarrow> [] | Some p \<Rightarrow>
     to_all (elems (xp_Participants p)) (xp_ConversationID p) ''conversation_message_reactions_updated'' (reactions_view p))"

definition effect_entries :: "'z convTables_scheme \<Rightarrow> json \<Rightarrow> inboxEntry list" where
  "effect_entries T payload = (case decode_effect payload of None \<Rightarrow> [] | Some p \<Rightarrow>
     to_all (members_in_order T (fp_ConversationID p)) (fp_ConversationID p) ''conversation_message_effect_triggered'' (effect_view p))"

definition typing_entries :: "'z convTables_scheme \<Rightarrow> json \<Rightarrow> inboxEntry list" where
  "typing_entries T payload = (case decode_typing payload of None \<Rightarrow> [] | Some p \<Rightarrow>
     to_all (filter (\<lambda>u. u \<noteq> tp_UserID p) (members_in_order T (tp_ConversationID p))) (tp_ConversationID p)
       ''conversation_typing_updated'' (typing_view p))"

definition receipt_entries :: "'z convTables_scheme \<Rightarrow> string \<Rightarrow> checkpointPayload \<Rightarrow> inboxEntry list" where
  "receipt_entries T kind p =
     to_all (receipt_senders T (kp_ConversationID p) (kp_UserID p) (kp_ThroughServerOrder p)) (kp_ConversationID p)
       ''conversation_receipt_updated''
       (receipt_view (kp_ConversationID p) kind (kp_UserID p) (kp_ThroughServerOrder p) (kp_At p))"

definition read_entries :: "'z convTables_scheme \<Rightarrow> json \<Rightarrow> inboxEntry list" where
  "read_entries T payload = (case decode_checkpoint ''reader_user_id'' ''read_at'' payload of None \<Rightarrow> []
     | Some p \<Rightarrow> receipt_entries T ''READ'' p)"

definition delivery_entries :: "'z convTables_scheme \<Rightarrow> json \<Rightarrow> inboxEntry list" where
  "delivery_entries T payload = (case decode_checkpoint ''user_id'' ''delivered_at'' payload of None \<Rightarrow> []
     | Some p \<Rightarrow> receipt_entries T ''DELIVERED'' p)"

interpretation created: event_processor processMessageCreated created_entries
proof
  show "processMessageCreated E now p s = Some s' \<Longrightarrow> fan_step E now (created_entries (fst s) p) s s'" for E now p s s'
    by (auto simp: processMessageCreated_def created_entries_def to_all_def Let_def intro!: fan_out_each_then [OF state_statements(1)]
        split: option.splits)
qed (simp add: created_entries_def)

interpretation edited: event_processor processMessageEdited edited_entries
proof
  show "processMessageEdited E now p s = Some s' \<Longrightarrow> fan_step E now (edited_entries (fst s) p) s s'" for E now p s s'
    by (auto simp: processMessageEdited_def edited_entries_def to_all_def Let_def intro!: fan_out_each_then [OF state_statements(2)]
        split: option.splits)
qed (simp add: edited_entries_def)

interpretation deleted: event_processor processMessageDeleted deleted_entries
proof
  show "processMessageDeleted E now p s = Some s' \<Longrightarrow> fan_step E now (deleted_entries (fst s) p) s s'" for E now p s s'
    by (auto simp: processMessageDeleted_def deleted_entries_def to_all_def intro!: fan_out_each_then [OF state_statements(3)]
        split: option.splits)
qed (simp add: deleted_entries_def)

interpretation reactions: event_processor processMessageReactionsUpdated reactions_entries
proof
  show "processMessageReactionsUpdated E now p s = Some s' \<Longrightarrow> fan_step E now (reactions_entries (fst s) p) s s'" for E now p s s'
    by (auto simp: processMessageReactionsUpdated_def reactions_entries_def to_all_def intro!: fan_out_each split: option.splits)
qed (simp add: reactions_entries_def)

lemma meta_members: "LoadConversationMeta T c = Some (ty, us, phones) \<Longrightarrow> us = members_in_order T c"
  by (auto simp: LoadConversationMeta_def)

lemma members_core: "same_core T T' \<Longrightarrow> members_in_order T' c = members_in_order T c"
  by (simp add: members_in_order_def same_coreD)

interpretation effects: event_processor processMessageEffectTriggered effect_entries
proof
  show "processMessageEffectTriggered E now p s = Some s' \<Longrightarrow> fan_step E now (effect_entries (fst s) p) s s'" for E now p s s'
    by (auto simp: processMessageEffectTriggered_def effect_entries_def to_all_def dest!: meta_members intro!: fan_out_each
        split: option.splits)
qed (simp add: effect_entries_def members_core split: option.split)

interpretation typing: event_processor processTypingEvent typing_entries
proof
  show "processTypingEvent E now p s = Some s' \<Longrightarrow> fan_step E now (typing_entries (fst s) p) s s'" for E now p s s'
    by (auto simp: processTypingEvent_def typing_entries_def to_all_def dest!: meta_members intro!: fan_out_each
        split: option.splits)
qed (simp add: typing_entries_def members_core split: option.split)

lemma receipts_core: "same_core T T' \<Longrightarrow> receipt_entries T' kind p = receipt_entries T kind p"
  by (simp add: receipt_entries_def receipt_senders_def same_coreD)

lemma receipts_fan:
  assumes "emitReceiptUpdates E now (kp_ConversationID p) (kp_UserID p) kind (kp_ThroughServerOrder p) (kp_At p) (f (fst s), snd s) = Some s'"
    and "\<And>T. f T = T\<lparr>tb_conv_state := c T\<rparr>"
  shows "fan_step E now (receipt_entries (fst s) kind p) s s'"
proof -
  have core: "same_core (fst s) (f (fst s))" by (simp add: assms(2))
  have "fan_step E now (receipt_entries (f (fst s)) kind p) (f (fst s), snd s) s'"
    using assms(1) by (auto simp: emitReceiptUpdates_def receipt_entries_def to_all_def intro: fan_out_each)
  moreover have "fan_step E now [] s (f (fst s), snd s)" by (simp add: fan_step_def assms(2) deliver_rows_def)
  ultimately show ?thesis using fan_step_trans [of E now "[]"] receipts_core [OF core] by fastforce
qed

interpretation reads: event_processor processReadCheckpoint read_entries
proof
  show "processReadCheckpoint E now p s = Some s' \<Longrightarrow> fan_step E now (read_entries (fst s) p) s s'" for E now p s s'
    by (auto simp: processReadCheckpoint_def read_entries_def split: option.splits
        intro!: receipts_fan [where f = "read_state now q" for q] read_state_def)
qed (simp add: read_entries_def receipts_core split: option.split)

interpretation delivered: event_processor processDeliveryCheckpoint delivery_entries
proof
  show "processDeliveryCheckpoint E now p s = Some s' \<Longrightarrow> fan_step E now (delivery_entries (fst s) p) s s'" for E now p s s'
    by (auto simp: processDeliveryCheckpoint_def delivery_entries_def split: option.splits
        intro!: receipts_fan [where f = "delivered_state now q" for q] delivered_state_def)
qed (simp add: delivery_entries_def receipts_core split: option.split)


text \<open>The switch is a processor of events.\<close>

definition event_entries :: "'z convTables_scheme \<Rightarrow> domainEventRow \<Rightarrow> inboxEntry list" where
  "event_entries T evt =
     (let ty = de_event_type evt; p = de_payload evt in
      if ty = ''message_created'' then created_entries T p
      else if ty = ''message_edited'' then edited_entries T p
      else if ty = ''message_deleted'' then deleted_entries T p
      else if ty = ''message_reactions_updated'' then reactions_entries T p
      else if ty = ''message_effect_triggered'' then effect_entries T p
      else if ty = ''read_checkpoint_advanced'' then read_entries T p
      else if ty = ''delivery_checkpoint_advanced'' then delivery_entries T p
      else if ty = ''typing_started'' \<or> ty = ''typing_stopped'' then typing_entries T p
      else [])"

interpretation switch: event_processor process_event event_entries
proof
  show "process_event E now evt s = Some s' \<Longrightarrow> fan_step E now (event_entries (fst s) evt) s s'" for E now evt s s'
    unfolding process_event_def event_entries_def Let_def
    by (auto split: if_splits intro: created.fans edited.fans deleted.fans reactions.fans effects.fans reads.fans
        delivered.fans typing.fans)
  show "event_entries T' evt = event_entries T evt" if c: "same_core T T'" for T T' evt
    by (simp only: event_entries_def created.spec_core [OF c] edited.spec_core [OF c] deleted.spec_core [OF c]
        reactions.spec_core [OF c] effects.spec_core [OF c] reads.spec_core [OF c] delivered.spec_core [OF c]
        typing.spec_core [OF c])
qed

section \<open>Batches\<close>

lemma batch_limit_pos: "0 < batch_limit n"
  by (simp add: batch_limit_def)

lemma pending_after_mark:
  assumes "distinct (map de_event_id (tb_domain_events T))" and "tb_domain_events T1 = tb_domain_events T"
  shows "pending_events locked (mark_processed now (map de_event_id (take n (pending_events locked T))) T1)
    = drop n (pending_events locked T)"
proof -
  let ?p = "\<lambda>e. de_processed_at e = None \<and> \<not> locked (de_event_id e)"
  let ?es = "tb_domain_events T" and ?done = "set (map de_event_id (take n (pending_events locked T)))"
  have keep: "filter ?p (update_where (\<lambda>e. de_event_id e \<in> S) (\<lambda>e. e\<lparr>de_processed_at := Some now\<rparr>) es)
      = filter (\<lambda>e. ?p e \<and> de_event_id e \<notin> S) es" for S es
    by (induction es) auto
  have d: "distinct (map de_event_id (pending_events locked T))"
    using assms(1) by (simp add: pending_events_def distinct_map distinct_map_filter inj_on_def)
  have "filter (\<lambda>e. de_event_id e \<notin> ?done) (pending_events locked T) = drop n (pending_events locked T)"
  proof -
    have "filter (\<lambda>e. de_event_id e \<notin> set (map de_event_id xs)) (xs @ ys) = ys"
      if "distinct (map de_event_id (xs @ ys))" for xs ys
    proof -
      have "filter (\<lambda>e. de_event_id e \<notin> set (map de_event_id xs)) xs = []" by (auto simp: filter_empty_conv)
      moreover have "filter (\<lambda>e. de_event_id e \<notin> set (map de_event_id xs)) ys = ys"
        using that by (intro filter_True) auto
      ultimately show ?thesis by simp
    qed
    from this [of "take n (pending_events locked T)" "drop n (pending_events locked T)"] d show ?thesis by simp
  qed
  moreover have marked: "tb_domain_events (mark_processed now ids T1)
      = update_where (\<lambda>e. de_event_id e \<in> set ids) (\<lambda>e. e\<lparr>de_processed_at := Some now\<rparr>) ?es" for ids
    by (simp add: mark_processed_def assms(2))
  moreover have "pending_events locked (mark_processed now (map de_event_id (take n (pending_events locked T))) T1)
      = sort_key de_event_id (filter (\<lambda>e. ?p e \<and> de_event_id e \<notin> ?done) ?es)"
    by (subst pending_events_def) (simp only: marked keep)
  moreover have "\<dots> = filter (\<lambda>e. de_event_id e \<notin> ?done) (pending_events locked T)"
    by (simp only: pending_events_def filter_sort filter_filter)
  ultimately show ?thesis by simp
qed


text \<open>What is published for a user on his channel.\<close>

definition published_to :: "string \<Rightarrow> (string \<times> json) list \<Rightarrow> json list" where
  "published_to u pubs = map snd (filter (\<lambda>(ch, v). ch = ChannelForUser u) pubs)"

lemma published_to_append [simp]: "published_to u (xs @ ys) = published_to u xs @ published_to u ys"
  by (simp add: published_to_def)

lemma published_to_event: "published_to u (publish_event v evt) = (if u = v then [event_json evt] else [])"
  by (simp add: published_to_def publish_event_def ChannelForUser_def)

lemma published_to_events: "published_to u (concat (map (publish_event v) es)) = (if u = v then map event_json es else [])"
  by (induction es) (auto simp: published_to_event, simp_all add: published_to_def)

lemma published_deliveries:
  "distinct (map fst D) \<Longrightarrow> published_to u (concat (map (\<lambda>(u, es). concat (map (publish_event u) es)) D))
     = map event_json (case map_of D u of None \<Rightarrow> [] | Some es \<Rightarrow> es)"
proof (induction D)
  case Nil
  then show ?case by (simp add: published_to_def)
next
  case (Cons d D)
  then show ?case
    by (cases d) (auto simp: published_to_events dest: map_of_SomeD split: option.splits intro!: rev_image_eqI)
qed

lemma map_of_add_delivery:
  "map_of (add_delivery v evt D) u = (if u = v then Some ((case map_of D v of None \<Rightarrow> [] | Some es \<Rightarrow> es) @ [evt]) else map_of D u)"
  by (simp add: add_delivery_def update_conv')

lemma deliver_rows_of:
  "(case map_of (deliver_rows E rows D) u of None \<Rightarrow> [] | Some es \<Rightarrow> es)
    = (case map_of D u of None \<Rightarrow> [] | Some es \<Rightarrow> es) @ map (event_of_row E) (filter (\<lambda>r. ie_user_id r = u) rows)"
proof (induction rows arbitrary: D)
  case (Cons r rows)
  then show ?case by (auto simp: deliver_rows_def map_of_add_delivery split: option.splits)
qed (simp add: deliver_rows_def)

lemma deliver_rows_distinct: "distinct (map fst D) \<Longrightarrow> distinct (map fst (deliver_rows E rows D))"
  by (induction rows arbitrary: D) (simp_all add: deliver_rows_def add_delivery_def)

text \<open>The run of a batch that takes events.\<close>

lemma batch_run:
  assumes "ProcessBatch E now locked n T = Some (k, pubs, T')"
  defines "pending \<equiv> take (batch_limit n) (pending_events locked T)"
  obtains (none) "pending = []" "pending_events locked T = []" "k = 0" "pubs = []" "T' = T"
  | (some) T1 D where "k = int (length pending)" "pubs = publishUserEvents E D" "T' = mark_processed now (map de_event_id pending) T1"
      "same_core T T1" "tb_inbox T1 = tb_inbox T @ inbox_rows now (tb_next_user_event T) (concat (map (event_entries T) pending))"
      "D = deliver_rows E (inbox_rows now (tb_next_user_event T) (concat (map (event_entries T) pending))) []"
proof (cases "pending = []")
  case True
  moreover from this have "pending_events locked T = []"
    using batch_limit_pos [of n] by (cases "pending_events locked T") (auto simp: pending_def)
  ultimately show thesis using assms(1) by (intro none) (auto simp: ProcessBatch_def pending_def Let_def)
next
  case False
  then obtain T1 D where run: "foldM (process_event E now) pending (T, []) = Some (T1, D)"
      "k = int (length pending)" "pubs = publishUserEvents E D" "T' = mark_processed now (map de_event_id pending) T1"
    using assms(1) by (auto simp: ProcessBatch_def pending_def [symmetric] Let_def split: option.splits)
  from switch.fans_all [OF run(1)] show thesis
    by (intro some [OF run(2-4)]) (simp_all add: fan_step_def)
qed

lemma fan_out_batch:
  assumes "ProcessBatch E now locked n T = Some (k, pubs, T')" and "distinct (map de_event_id (tb_domain_events T))"
  defines "pending \<equiv> take (batch_limit n) (pending_events locked T)"
  shows "tb_inbox T' = tb_inbox T @ inbox_rows now (tb_next_user_event T) (concat (map (event_entries T) pending))"
    and "pending_events locked T' = drop (batch_limit n) (pending_events locked T)"
proof -
  show "tb_inbox T' = tb_inbox T @ inbox_rows now (tb_next_user_event T) (concat (map (event_entries T) pending))"
    using assms(1) by (rule batch_run) (auto simp: pending_def mark_processed_def)
  show "pending_events locked T' = drop (batch_limit n) (pending_events locked T)"
    using assms(1) by (rule batch_run) (simp, metis assms(2) pending_after_mark same_coreD(6))
qed

text \<open>C28. A batch that commits appends to the inboxes exactly the entries of the events it takes, in
  the order of the events and with consecutive ids; the events it took are no longer pending, and each user's channel
  gets his new rows in order.\<close>

theorem batch_fans_out_exactly:
  assumes "ProcessBatch E now locked n T = Some (k, pubs, T')" and "distinct (map de_event_id (tb_domain_events T))"
  shows "let pending = take (batch_limit n) (pending_events locked T);
             rows = inbox_rows now (tb_next_user_event T) (concat (map (event_entries T) pending))
         in k = int (length pending) \<and> tb_inbox T' = tb_inbox T @ rows
            \<and> pending_events locked T' = drop (batch_limit n) (pending_events locked T)
            \<and> (\<forall>u. published_to u pubs = (if rp_redis E
                 then map (\<lambda>r. event_json (event_of_row E r)) (filter (\<lambda>r. ie_user_id r = u) rows) else []))"
proof -
  let ?pending = "take (batch_limit n) (pending_events locked T)"
  let ?rows = "inbox_rows now (tb_next_user_event T) (concat (map (event_entries T) ?pending))"
  have "k = int (length ?pending) \<and> (\<forall>u. published_to u pubs = (if rp_redis E
      then map (\<lambda>r. event_json (event_of_row E r)) (filter (\<lambda>r. ie_user_id r = u) ?rows) else []))"
    using assms(1)
  proof (rule batch_run)
    assume "?pending = []" "k = 0" "pubs = []"
    then show ?thesis by (auto simp: published_to_def)
  next
    fix T1 D
    assume run: "k = int (length ?pending)" "pubs = publishUserEvents E D" and D: "D = deliver_rows E ?rows []"
    have "published_to u pubs = (if rp_redis E then map (\<lambda>r. event_json (event_of_row E r)) (filter (\<lambda>r. ie_user_id r = u) ?rows) else [])" for u
      using published_deliveries [OF deliver_rows_distinct, of "[]" u E ?rows] deliver_rows_of [of E ?rows "[]" u]
      by (auto simp: run(2) D publishUserEvents_def published_to_def [of u "[]"])
    then show ?thesis using run(1) by blast
  qed
  then show ?thesis using fan_out_batch [OF assms] by (simp add: Let_def)
qed

section \<open>Rounds of the worker\<close>

lemma pending_unlocked: "pending_events locked T = filter (\<lambda>e. \<not> locked (de_event_id e)) (pending_events (\<lambda>i. False) T)"
  by (simp add: pending_events_def filter_sort conj_commute)

lemma failing_round:
  assumes "pending_events (\<lambda>i. False) T = evt # rest" and "\<not> locked (de_event_id evt)"
    and "process_event E now evt (T, []) = None"
  shows "fanout_round E now locked T = ([], T)"
proof -
  have "pending_events locked T = evt # filter (\<lambda>e. \<not> locked (de_event_id e)) rest"
    using assms(1,2) by (simp add: pending_unlocked [of locked])
  then show ?thesis using assms(3) by (simp add: fanout_round_def ProcessBatch_def batch_limit_def Let_def)
qed

lemma failing_event_stops_fanout:
  assumes "pending_events (\<lambda>i. False) T = evt # rest"
    and "\<forall>(now, locked) \<in> set rounds. \<not> locked (de_event_id evt) \<and> process_event E now evt (T, []) = None"
  shows "sync_fanout E rounds T = ([], T)"
  using assms(2)
proof (induction rounds)
  case (Cons r rounds)
  then show ?case using failing_round [OF assms(1)] by (cases r) simp
qed simp

text \<open>A preview that the database does not take as text makes the whole event fail.\<close>

lemma foldM_first_fails: "xs \<noteq> [] \<Longrightarrow> f (hd xs) s = None \<Longrightarrow> foldM f xs s = None"
  by (cases xs) simp_all

lemma bad_preview_fails:
  assumes "decode_created payload = Some p" and "elems (mp_Participants p) \<noteq> []"
    and "\<not> pg_text (previewText (mp_ContentType p) (mp_Content p))"
  shows "processMessageCreated E now payload s = None"
proof -
  have "upsertConversationStateTx E p (previewText (mp_ContentType p) (mp_Content p)) u T = None" for u T
    using assms(3) by (simp add: upsertConversationStateTx_def split: option.split)
  then show ?thesis using assms(1,2)
    by (auto simp: processMessageCreated_def Let_def deliver_then_def on_tables_def intro!: foldM_first_fails split: option.split)
qed

text \<open>C30. A message whose preview is cut inside a character stops the fan-out for everybody: while its
  event is the oldest pending one, every round of the worker fails and changes nothing.\<close>

theorem cut_preview_stops_fanout:
  assumes "pending_events (\<lambda>i. False) T = evt # rest" and "de_event_type evt = ''message_created''"
    and "decode_created (de_payload evt) = Some p" and "elems (mp_Participants p) \<noteq> []"
    and "\<not> pg_text (previewText (mp_ContentType p) (mp_Content p))"
    and "\<forall>(now, locked) \<in> set rounds. \<not> locked (de_event_id evt)"
  shows "sync_fanout E rounds T = ([], T)"
  using assms bad_preview_fails [OF assms(3-5)]
  by (intro failing_event_stops_fanout) (auto simp: process_event_def)

text \<open>The worker's progress when nothing fails: a hundred events a round.\<close>

fun rounds_succeed :: "replEnv \<Rightarrow> (time \<times> (int \<Rightarrow> bool)) list \<Rightarrow> 'z convTables_scheme \<Rightarrow> bool" where
  "rounds_succeed E [] T \<longleftrightarrow> True"
| "rounds_succeed E ((now, locked) # rounds) T \<longleftrightarrow>
     ProcessBatch E now locked 100 T \<noteq> None \<and> rounds_succeed E rounds (snd (fanout_round E now locked T))"

lemma batch_domain_ids:
  assumes "ProcessBatch E now locked n T = Some (k, pubs, T')"
  shows "map de_event_id (tb_domain_events T') = map de_event_id (tb_domain_events T)"
proof (cases "take (batch_limit n) (pending_events locked T) = []")
  case True
  then show ?thesis using assms by (simp add: ProcessBatch_def Let_def)
next
  case False
  then obtain T1 D ids where "foldM (process_event E now) (take (batch_limit n) (pending_events locked T)) (T, []) = Some (T1, D)"
      "T' = mark_processed now ids T1"
    using assms by (auto simp: ProcessBatch_def Let_def split: option.splits)
  moreover have "same_core T T1" using switch.fans_all [OF calculation(1)] by (simp add: fan_step_def)
  ultimately show ?thesis by (simp add: mark_processed_def map_update_where same_coreD)
qed


end
