(* ===== verification/ReplicationAck.thy ===== *)
theory ReplicationAck
  imports ReplicationFanout
begin

text \<open>
  Acknowledging the inbox: a device's cursor and the delivery checkpoints of conversations.
\<close>

section \<open>Acknowledging\<close>

definition delivered_mono :: "'z convTables_scheme \<Rightarrow> 'z convTables_scheme \<Rightarrow> bool" where
  "delivered_mono T T' \<longleftrightarrow> (\<forall>conv user. rel_option (\<lambda>m m'. cm_last_delivered m \<le> cm_last_delivered m' \<and> cm_last_read m' = cm_last_read m)
     (find_member T conv user) (find_member T' conv user))"

lemma delivered_mono_refl [simp]: "delivered_mono T T"
  by (auto simp: delivered_mono_def intro: option.rel_refl)

lemma delivered_mono_trans: "delivered_mono T T1 \<Longrightarrow> delivered_mono T1 T2 \<Longrightarrow> delivered_mono T T2"
  unfolding delivered_mono_def
proof (intro allI)
  fix conv user
  assume a: "\<forall>conv user. rel_option (\<lambda>m m'. cm_last_delivered m \<le> cm_last_delivered m' \<and> cm_last_read m' = cm_last_read m)
     (find_member T conv user) (find_member T1 conv user)"
    "\<forall>conv user. rel_option (\<lambda>m m'. cm_last_delivered m \<le> cm_last_delivered m' \<and> cm_last_read m' = cm_last_read m)
     (find_member T1 conv user) (find_member T2 conv user)"
  from a [rule_format, of conv user]
  show "rel_option (\<lambda>m m'. cm_last_delivered m \<le> cm_last_delivered m' \<and> cm_last_read m' = cm_last_read m)
     (find_member T conv user) (find_member T2 conv user)"
    by (cases "find_member T conv user"; cases "find_member T1 conv user"; cases "find_member T2 conv user") auto
qed

lemma find_member_update:
  assumes "\<And>m. cm_conversation_id (f m) = cm_conversation_id m \<and> cm_user_id (f m) = cm_user_id m"
  shows "find_member (T\<lparr>tb_members := update_where P f (tb_members T)\<rparr>) conv user
    = map_option (\<lambda>m. if P m then f m else m) (find_member T conv user)"
  using assms by (simp add: find_member_def find_update_where)

lemma find_member_event: "AppendDomainEvent now c a ty p T = Some T' \<Longrightarrow> find_member T' conv user = find_member T conv user"
  by (auto simp: AppendDomainEvent_def find_member_def split: if_splits)

lemma find_member_keys: "find_member T conv user = Some m \<Longrightarrow> cm_conversation_id m = conv \<and> cm_user_id m = user"
  by (auto simp: find_member_def find_Some_iff)

lemma advance_step:
  assumes "advanceDeliveredCheckpointTx E now u (c, n) T = Some T'"
  shows "delivered_mono T T'" and "\<exists>m. find_member T' c u = Some m \<and> n \<le> cm_last_delivered m"
    and "tb_cursors T' = tb_cursors T"
proof -
  obtain m where m: "find_member T c u = Some m" using assms by (auto simp: advanceDeliveredCheckpointTx_def split: option.splits)
  let ?f = "\<lambda>m. m\<lparr>cm_last_delivered := max (cm_last_delivered m) n, cm_delivery_at := Some now\<rparr>"
  let ?P = "\<lambda>m. cm_conversation_id m = c \<and> cm_user_id m = u"
  let ?T1 = "T\<lparr>tb_members := update_where ?P ?f (tb_members T)\<rparr>"
  have f: "find_member ?T1 conv user = map_option (\<lambda>m. if ?P m then ?f m else m) (find_member T conv user)" for conv user
    by (rule find_member_update) simp
  have "if n \<le> cm_last_delivered m then T' = T
      else \<exists>p. AppendDomainEvent now c u ''delivery_checkpoint_advanced'' p ?T1 = Some T'"
    using assms unfolding advanceDeliveredCheckpointTx_def prod.case m option.case by (cases "n \<le> cm_last_delivered m") (simp, simp, blast)
  then consider "n \<le> cm_last_delivered m" "T' = T" | "\<exists>p. AppendDomainEvent now c u ''delivery_checkpoint_advanced'' p ?T1 = Some T'"
    by (cases "n \<le> cm_last_delivered m") simp_all
  then have "delivered_mono T T' \<and> (\<exists>m. find_member T' c u = Some m \<and> n \<le> cm_last_delivered m) \<and> tb_cursors T' = tb_cursors T"
  proof cases
    case 1
    then show ?thesis using m by simp
  next
    case 2
    then obtain p where p: "AppendDomainEvent now c u ''delivery_checkpoint_advanced'' p ?T1 = Some T'" by blast
    have find': "find_member T' conv user = map_option (\<lambda>m. if ?P m then ?f m else m) (find_member T conv user)" for conv user
      using find_member_event [OF p] f by simp
    have "tb_cursors T' = tb_cursors T" using p by (auto simp: AppendDomainEvent_def split: if_splits)
    moreover have "delivered_mono T T'"
      unfolding delivered_mono_def find'
    proof (intro allI)
      fix conv user
      show "rel_option (\<lambda>m m'. cm_last_delivered m \<le> cm_last_delivered m' \<and> cm_last_read m' = cm_last_read m)
          (find_member T conv user) (map_option (\<lambda>m. if ?P m then ?f m else m) (find_member T conv user))"
        by (cases "find_member T conv user") simp_all
    qed
    moreover have "\<exists>m. find_member T' c u = Some m \<and> n \<le> cm_last_delivered m"
      using m find_member_keys [OF m] by (auto simp: find')
    ultimately show ?thesis by blast
  qed
  then show "delivered_mono T T'" "\<exists>m. find_member T' c u = Some m \<and> n \<le> cm_last_delivered m" "tb_cursors T' = tb_cursors T"
    by blast+
qed

lemma advance_all:
  assumes "foldM (advanceDeliveredCheckpointTx E now u) advances T = Some T'"
  shows "delivered_mono T T'" and "(c, n) \<in> set advances \<Longrightarrow> \<exists>m. find_member T' c u = Some m \<and> n \<le> cm_last_delivered m"
    and "tb_cursors T' = tb_cursors T"
proof -
  have "delivered_mono T T' \<and> ((c, n) \<in> set advances \<longrightarrow> (\<exists>m. find_member T' c u = Some m \<and> n \<le> cm_last_delivered m))
      \<and> tb_cursors T' = tb_cursors T"
    using assms
  proof (induction advances arbitrary: T)
    case (Cons a advances)
    obtain d k where a: "a = (d, k)" by (cases a)
    obtain T1 where s: "advanceDeliveredCheckpointTx E now u (d, k) T = Some T1"
        "foldM (advanceDeliveredCheckpointTx E now u) advances T1 = Some T'"
      using Cons.prems a by (auto split: option.splits)
    note one = advance_step [OF s(1)] and ih = Cons.IH [OF s(2)]
    have "delivered_mono T T'" "tb_cursors T' = tb_cursors T" using one ih delivered_mono_trans by auto
    moreover have "\<exists>m. find_member T' c u = Some m \<and> n \<le> cm_last_delivered m" if "(c, n) = (d, k)"
    proof -
      have "c = d" "n = k" using that by simp_all
      then obtain m1 where m1: "find_member T1 c u = Some m1" "n \<le> cm_last_delivered m1" using one(2) by blast
      have "rel_option (\<lambda>m m'. cm_last_delivered m \<le> cm_last_delivered m' \<and> cm_last_read m' = cm_last_read m)
          (find_member T1 c u) (find_member T' c u)"
        using ih by (simp add: delivered_mono_def)
      then show ?thesis using m1 by (cases "find_member T' c u") auto
    qed
    ultimately show ?case using ih a by auto
  qed simp
  then show "delivered_mono T T'" "(c, n) \<in> set advances \<Longrightarrow> \<exists>m. find_member T' c u = Some m \<and> n \<le> cm_last_delivered m"
      "tb_cursors T' = tb_cursors T" by blast+
qed

lemma upsert_cursor_core:
  assumes "upsert_cursor now u d fresh f T = Some T'"
  shows "find_member T' c v = find_member T c v"
    and "\<exists>row. find_cursor T' u d = Some row \<and> uc_last_user_event_id row
      = (case find_cursor T u d of None \<Rightarrow> fresh | Some c \<Rightarrow> f (uc_last_user_event_id c))"
  using assms
  by (auto simp: upsert_cursor_def find_member_def find_cursor_def find_update_where find_append
      split: option.splits if_splits dest: find_sat)


text \<open>The order of one acknowledged row is covered by the group of its conversation.\<close>

lemma acked_orders_cover:
  assumes "acked_orders rows = Some advances" and "r \<in> set rows" and "payload_order (ie_payload r) = Some n"
  shows "\<exists>k. (row_conversation r, k) \<in> set advances \<and> n \<le> k"
proof -
  let ?ns = "set (map (\<lambda>r. the (payload_order (ie_payload r))) (filter (\<lambda>x. row_conversation x = row_conversation r) rows))"
  have "n \<in> ?ns" using assms(2,3) by (auto simp: image_iff intro!: bexI [of _ r])
  then have "n \<le> Max ?ns" by (intro Max_ge) simp_all
  moreover have "(row_conversation r, Max ?ns) \<in> set advances"
    using assms(1,2) by (auto simp: acked_orders_def split: if_splits)
  ultimately show ?thesis by blast
qed

definition cursor_of :: "'z convTables_scheme \<Rightarrow> string \<Rightarrow> string \<Rightarrow> int" where
  "cursor_of T user device = (case find_cursor T user device of None \<Rightarrow> 0 | Some c \<Rightarrow> uc_last_user_event_id c)"

lemma ack_cases:
  assumes "AcknowledgeCursor E now u dev through T = Some T'" and "cursor_of T u (device_or_web dev) < through" and "0 < through"
  obtains advances T1 where "acked_orders (acked_rows T u (cursor_of T u (device_or_web dev)) through) = Some advances"
    "upsert_cursor now u (device_or_web dev) through (\<lambda>x. max x through) T = Some T1"
    "foldM (advanceDeliveredCheckpointTx E now u) (filter (\<lambda>(c, n). n > 0) advances) T1 = Some T'"
  using assms unfolding AcknowledgeCursor_def cursor_of_def [symmetric] Let_def by (auto split: option.splits)


lemma advance_needs_member:
  assumes "(c, n) \<in> set advances" and "find_member T c u = None"
  shows "foldM (advanceDeliveredCheckpointTx E now u) advances T = None"
proof (rule ccontr)
  assume "foldM (advanceDeliveredCheckpointTx E now u) advances T \<noteq> None"
  then obtain T' where f: "foldM (advanceDeliveredCheckpointTx E now u) advances T = Some T'" by blast
  obtain m where "find_member T' c u = Some m" using advance_all(2) [OF f assms(1)] by blast
  moreover have "rel_option (\<lambda>m m'. cm_last_delivered m \<le> cm_last_delivered m' \<and> cm_last_read m' = cm_last_read m)
      (find_member T c u) (find_member T' c u)"
    using advance_all(1) [OF f] by (simp add: delivered_mono_def)
  ultimately show False using assms(2) by simp
qed

text \<open>A user who was removed from a conversation with a message he has not acknowledged can never
  acknowledge past that message, in any conversation.\<close>

theorem acknowledge_stuck_after_leaving:
  assumes "r \<in> set (tb_inbox T)" and "ie_user_id r = u" and "ie_event_type r = ''conversation_message_appended''"
    and "ie_conversation_id r = Some conv" and "payload_order (ie_payload r) = Some n" and "0 < n"
    and "find_member T conv u = None"
    and "cursor_of T u (device_or_web dev) < ie_user_event_id r" and "ie_user_event_id r \<le> through" and "0 < through"
  shows "AcknowledgeCursor E now u dev through T = None"
proof (rule ccontr)
  assume "AcknowledgeCursor E now u dev through T \<noteq> None"
  then obtain T' where ack: "AcknowledgeCursor E now u dev through T = Some T'" by blast
  obtain advances T1 where a: "acked_orders (acked_rows T u (cursor_of T u (device_or_web dev)) through) = Some advances"
    "upsert_cursor now u (device_or_web dev) through (\<lambda>x. max x through) T = Some T1"
    "foldM (advanceDeliveredCheckpointTx E now u) (filter (\<lambda>(c, n). n > 0) advances) T1 = Some T'"
    using ack_cases [OF ack order_less_le_trans [OF assms(8,9)] assms(10)] .
  have "r \<in> set (acked_rows T u (cursor_of T u (device_or_web dev)) through)"
    using assms by (simp add: acked_rows_def)
  from acked_orders_cover [OF a(1) this assms(5)] obtain k where k: "(conv, k) \<in> set advances" "n \<le> k"
    using assms(4) by (auto simp: row_conversation_def)
  then have "(conv, k) \<in> set (filter (\<lambda>(c, n). n > 0) advances)" using assms(6) by auto
  moreover have "find_member T1 conv u = None" using upsert_cursor_core(1) [OF a(2)] assms(7) by simp
  ultimately show False using advance_needs_member a(3) by (metis option.distinct(1))
qed

end
