(* ===== verification/ReplicationProps.thy ===== *)
theory ReplicationProps
  imports ReplicationAck
begin

text \<open>Instances of the theorems on the replication store: a conversation of two users.\<close>

section \<open>Instances\<close>

definition demo_repl_env :: replEnv where
  "demo_repl_env = \<lparr>ev_rfc3339 = (\<lambda>t. itoa (nat t)), ev_rfc3339nano = (\<lambda>t. itoa (nat t)), ev_timestamptz = atoi,
     ev_unix_ms = (\<lambda>t. t * 1000), rp_redis = True\<rparr>"

text \<open>A conversation of \<open>a\<close> and \<open>b\<close>.\<close>

definition demo_chat :: convTables where
  "demo_chat = empty_conv\<lparr>
     tb_users := [plain_user ''a'' None, plain_user ''b'' None],
     tb_conversations := [new_conversation ''c'' ''DM'' ''AUTO'' 1],
     tb_members := [new_member ''c'' ''a'' 1, new_member ''c'' ''b'' 2],
     tb_counters := [(''c'', 1)]\<rparr>"

definition demo_typing :: convTables where
  "demo_typing = demo_chat\<lparr>tb_domain_events := [\<lparr>de_event_id = 1, de_conversation_id = ''c'', de_actor_user_id = Some ''a'',
     de_event_type = ''typing_started'',
     de_payload = typing_json \<lparr>tp_ConversationID = ''c'', tp_UserID = ''a'', tp_DeviceID = [], tp_State = ''typing_started'',
        tp_StartedAtMS = 5\<rparr>,
     de_created_at = 5, de_processed_at = None\<rparr>], tb_next_event := 2\<rparr>"

lemmas demo_chat_defs = demo_chat_def empty_conv_def

lemma demo_typing_pending: "pending_events (\<lambda>i. False) demo_typing = tb_domain_events demo_typing"
  by (simp add: pending_events_def demo_typing_def)

lemma demo_batch: "\<exists>pubs T'. ProcessBatch demo_repl_env 9 (\<lambda>i. False) 100 demo_typing = Some (1, pubs, T')"
proof -
  obtain evt where e: "tb_domain_events demo_typing = [evt]" "de_event_type evt = ''typing_started''"
      "de_payload evt = typing_json \<lparr>tp_ConversationID = ''c'', tp_UserID = ''a'', tp_DeviceID = [], tp_State = ''typing_started'',
        tp_StartedAtMS = 5\<rparr>"
    by (simp add: demo_typing_def)
  have "\<exists>s. processTypingEvent demo_repl_env 9 (de_payload evt) (demo_typing, []) = Some s"
    by (simp add: processTypingEvent_def e(3) typing_roundtrip LoadConversationMeta_def find_conversation_def members_in_order_def
        demo_typing_def demo_chat_defs deliver_def insertUserEventTx_def is_user_def sort_key_def insort_key_def)
  then show ?thesis
    by (auto simp: ProcessBatch_def demo_typing_pending e process_event_def batch_limit_def Let_def)
qed

lemma batch_fans_out_exactly_witness:
  "\<exists>pubs T'. ProcessBatch demo_repl_env 9 (\<lambda>i. False) 100 demo_typing = Some (1, pubs, T')
     \<and> pending_events (\<lambda>i. False) T' = []"
proof -
  obtain pubs T' where b: "ProcessBatch demo_repl_env 9 (\<lambda>i. False) 100 demo_typing = Some (1, pubs, T')"
    using demo_batch by blast
  have "distinct (map de_event_id (tb_domain_events demo_typing))" by (simp add: demo_typing_def)
  from batch_fans_out_exactly [OF b this] b show ?thesis
    by (simp add: Let_def demo_typing_pending) (simp add: demo_typing_def batch_limit_def)
qed


definition demo_cut :: MessageCreatedPayload where
  "demo_cut = \<lparr>mp_MessageID = ''m'', mp_ConversationID = ''c'', mp_ConversationType = ''DM'', mp_SenderUserID = ''a'',
     mp_SenderDeviceID = [], mp_ContentType = ''note'', mp_ClientGeneratedID = [], mp_Transport = ''OTT'', mp_ServerOrder = 1,
     mp_CreatedAt = ''5'', mp_Participants = Some [''a'', ''b''], mp_ExternalPhones = None,
     mp_Content = Some [(''ab'', JStr (concat (replicate 60 [CHR 0xC3, CHR 0xA9])))]\<rparr>"

lemma demo_cut_preview: "\<not> pg_text (previewText (mp_ContentType demo_cut) (mp_Content demo_cut))"
  by code_simp


definition demo_cut_tables :: convTables where
  "demo_cut_tables = demo_chat\<lparr>tb_domain_events := [\<lparr>de_event_id = 1, de_conversation_id = ''c'', de_actor_user_id = Some ''a'',
     de_event_type = ''message_created'', de_payload = created_json demo_cut, de_created_at = 5, de_processed_at = None\<rparr>],
     tb_next_event := 2\<rparr>"

lemma cut_preview_stops_fanout_witness:
  "sync_fanout demo_repl_env [(9, \<lambda>i. False), (10, \<lambda>i. False)] demo_cut_tables = ([], demo_cut_tables)"
proof (rule cut_preview_stops_fanout)
  show "pending_events (\<lambda>i. False) demo_cut_tables = \<lparr>de_event_id = 1, de_conversation_id = ''c'', de_actor_user_id = Some ''a'',
     de_event_type = ''message_created'', de_payload = created_json demo_cut, de_created_at = 5, de_processed_at = None\<rparr> # []"
    by (simp add: pending_events_def demo_cut_tables_def)
  have "go_value (JObj ms) = JObj ms" if "mp_Content demo_cut = Some ms" for ms
    using that by (auto simp: demo_cut_def obj_of_members_def)
  then show "decode_created (de_payload \<lparr>de_event_id = 1, de_conversation_id = ''c'', de_actor_user_id = Some ''a'',
     de_event_type = ''message_created'', de_payload = created_json demo_cut, de_created_at = 5, de_processed_at = None\<rparr>) = Some demo_cut"
    using created_roundtrip [of demo_cut] by (simp add: content_ok_def) (simp add: demo_cut_def)
  show "elems (mp_Participants demo_cut) \<noteq> []" by (simp add: demo_cut_def)
  show "\<not> pg_text (previewText (mp_ContentType demo_cut) (mp_Content demo_cut))" by (rule demo_cut_preview)
qed simp_all

definition demo_row :: "int \<Rightarrow> string \<Rightarrow> inboxRow" where
  "demo_row i u = \<lparr>ie_user_event_id = i, ie_user_id = u, ie_conversation_id = Some ''c'',
     ie_event_type = ''conversation_message_appended'', ie_payload = JObj [(''server_order'', json_int i)], ie_created_at = 5\<rparr>"

lemma page_boundary_events_lost_witness:
  "map ue_UserEventID (follow_events 5 demo_repl_env ''a'' 0 1 (demo_chat\<lparr>tb_inbox := map (\<lambda>i. demo_row i ''a'') [1, 2, 3]\<rparr>)) = [1, 3]"
proof -
  let ?T = "demo_chat\<lparr>tb_inbox := map (\<lambda>i. demo_row i ''a'') [1, 2, 3]\<rparr>"
  have i: "inbox_after ?T ''a'' 0 = map (\<lambda>i. demo_row i ''a'') [1, 2, 3]"
    by (simp add: inbox_after_def demo_row_def sort_key_def insort_key_def)
  have "follow_events 5 demo_repl_env ''a'' 0 1 ?T = map (event_of_row demo_repl_env)
      (nths (inbox_after ?T ''a'' 0) {k. k mod Suc (page_limit 1) \<noteq> page_limit 1})"
    using page_boundary_events_lost [where T = ?T and u = "''a''" and c = 0 and fuel = 5 and E = demo_repl_env and limit = 1] i
    by (simp add: object_row_def demo_row_def)
  then show ?thesis unfolding i
    by (simp add: page_limit_def nths_Cons event_of_row_def demo_row_def)
qed


lemma acknowledge_stuck_after_leaving_witness:
  "AcknowledgeCursor demo_repl_env 9 ''b'' [] 7 (demo_chat\<lparr>tb_inbox := [demo_row 1 ''b''], tb_members := [new_member ''c'' ''a'' 1]\<rparr>) = None"
proof (rule acknowledge_stuck_after_leaving)
  show "payload_order (ie_payload (demo_row 1 ''b'')) = Some 1"
    using atoi_show_i64 [of 1] by (simp add: payload_order_def demo_row_def obj_or_nil_def json_int_def)
qed (simp_all add: demo_row_def cursor_of_def find_cursor_def demo_chat_defs find_member_def)

end
