(* ===== verification/Sync.thy ===== *)
theory Sync
  imports ReplicationProps Base64
begin

text \<open>
  Synchronisation (\<open>gateway/internal/sync/service.go\<close>, \<open>handler.go\<close>): the first version reads the
  messages table from an instant, the second the user's inbox from a cursor.  The parsing of a cursor's JSON and of
  RFC 3339, and \<open>time.UnixMilli\<close>, are given; the zero \<open>time.Time\<close> is 0.
\<close>

record syncEnv = replEnv +
  sv_unmarshal :: "string \<Rightarrow> json option"
  sv_parse_time :: "string \<Rightarrow> time option"
  sv_of_unix_ms :: "int \<Rightarrow> time"

section \<open>Cursors of the first version\<close>

record opaqueCursor =
  oc_CursorVersion :: int
  oc_LastServerOrder :: "(string \<times> int) list"
  oc_TimestampMS :: int

definition opaque_json :: "opaqueCursor \<Rightarrow> json" where
  "opaque_json c = JObj ([(''cursor_version'', json_int (oc_CursorVersion c))]
     @ (if oc_LastServerOrder c = [] then [] else [(''last_server_order'', counts_json (Some (oc_LastServerOrder c)))])
     @ [(''timestamp_ms'', json_int (oc_TimestampMS c))])"

text \<open>\<open>json.Unmarshal\<close> into it, as far as the code looks at the result.\<close>

definition opaque_timestamp :: "json \<Rightarrow> int option" where
  "opaque_timestamp v =
     (if struct_ok (Some v) \<and> int_ok v ''cursor_version'' \<and> int_ok v ''timestamp_ms''
         \<and> snd (int_map_field (Some v) ''last_server_order'')
      then Some (int_of_field v ''timestamp_ms'') else None)"

definition parseCursor :: "syncEnv \<Rightarrow> string \<Rightarrow> time" where
  "parseCursor E cursor =
     (if cursor = [] then 0
      else let opaque = (case b64_decode cursor of None \<Rightarrow> None
                 | Some b \<Rightarrow> (case sv_unmarshal E b of None \<Rightarrow> None
                    | Some v \<Rightarrow> (case opaque_timestamp v of None \<Rightarrow> None | Some ms \<Rightarrow> if ms > 0 then Some ms else None)))
           in case opaque of
                Some ms \<Rightarrow> sv_of_unix_ms E ms
              | None \<Rightarrow> (case sv_parse_time E cursor of Some t \<Rightarrow> t | None \<Rightarrow> 0))"

section \<open>IncrementalSync\<close>

definition sync_rows :: "'z convTables_scheme \<Rightarrow> time \<Rightarrow> nat \<Rightarrow> messageRow list" where
  "sync_rows T since limit = take limit (sort_key mg_created_at (filter (\<lambda>m. mg_created_at m > since) (tb_messages T)))"

definition sync_event :: "syncEnv \<Rightarrow> messageRow \<Rightarrow> json" where
  "sync_event E m = JObj [(''type'', JStr ''message.created''), (''payload'', JObj [(''message_id'', JStr (mg_id m)),
     (''conversation_id'', JStr (mg_conversation_id m)), (''sender_user_id'', JStr (mg_sender m)),
     (''content_type'', JStr (mg_content_type m)), (''content'', mg_content m), (''server_order'', json_int (mg_server_order m)),
     (''created_at'', JStr (ev_rfc3339nano E (mg_created_at m)))])]"

definition greatest_order :: "messageRow \<Rightarrow> (string \<times> int) list \<Rightarrow> (string \<times> int) list" where
  "greatest_order m orders =
     (case map_of orders (mg_conversation_id m) of
        Some cur \<Rightarrow> if mg_server_order m > cur then AList.update (mg_conversation_id m) (mg_server_order m) orders else orders
      | None \<Rightarrow> AList.update (mg_conversation_id m) (mg_server_order m) orders)"

record syncV1Response =
  s1_Events :: "json list"
  s1_NextCursor :: string

definition IncrementalSync :: "syncEnv \<Rightarrow> time \<Rightarrow> string \<Rightarrow> nat \<Rightarrow> 'z convTables_scheme \<Rightarrow> syncV1Response" where
  "IncrementalSync E now cursor limit T =
     (let parsed = parseCursor E cursor;
          since = (if parsed = 0 then now - 300 * Second else parsed);
          rows = sync_rows T since limit;
          last_at = (if rows = [] then 0 else mg_created_at (last rows))
      in \<lparr>s1_Events = map (sync_event E) rows,
          s1_NextCursor = (if last_at = 0 then []
            else b64_encode (marshal (opaque_json \<lparr>oc_CursorVersion = 1, oc_LastServerOrder = fold greatest_order rows [],
                   oc_TimestampMS = ev_unix_ms E last_at\<rparr>)))\<rparr>)"

section \<open>The second version and the handlers\<close>

text \<open>A service without a replication store answers with the empty response.\<close>

definition IncrementalSyncV2 :: "syncEnv \<Rightarrow> bool \<Rightarrow> string \<Rightarrow> string \<Rightarrow> int \<Rightarrow> 'z convTables_scheme \<Rightarrow> SyncResponse option" where
  "IncrementalSyncV2 E replicated userID cursor limit T =
     (if \<not> replicated then Some \<lparr>sy_Events = [], sy_NextCursor = 0, sy_HasMore = False\<rparr>
      else case ParseCursor cursor of
        None \<Rightarrow> None
      | Some parsed \<Rightarrow> ListEvents E userID parsed limit T)"

definition MarkDelivered ::
  "syncEnv \<Rightarrow> bool \<Rightarrow> time \<Rightarrow> string \<Rightarrow> string \<Rightarrow> string \<Rightarrow> int \<Rightarrow> 'z convTables_scheme \<Rightarrow> 'z convTables_scheme option" where
  "MarkDelivered E replicated now userID deviceID conversationID through T =
     (if \<not> replicated then Some T else AdvanceDeliveredCheckpoint E now userID deviceID conversationID through T)"

datatype syncReply = SyncFail nat string | SyncV1 syncV1Response | SyncV2 SyncResponse | SyncDone

definition limit_param :: "int \<Rightarrow> httpReq \<Rightarrow> int" where
  "limit_param fallback r =
     (let s = get_first (Query r) ''limit'' in
      if s = [] then fallback
      else case atoi s of Some l \<Rightarrow> if l > 0 \<and> l \<le> 1000 then l else fallback | None \<Rightarrow> fallback)"

definition Incremental :: "syncEnv \<Rightarrow> time \<Rightarrow> string option \<Rightarrow> httpReq \<Rightarrow> 'z convTables_scheme \<Rightarrow> syncReply" where
  "Incremental E now user r T =
     (case user of
        None \<Rightarrow> SyncFail 401 ''unauthorized''
      | Some _ \<Rightarrow> SyncV1 (IncrementalSync E now (get_first (Query r) ''cursor'') (nat (limit_param 100 r)) T))"

definition IncrementalV2 :: "syncEnv \<Rightarrow> bool \<Rightarrow> string option \<Rightarrow> httpReq \<Rightarrow> 'z convTables_scheme \<Rightarrow> syncReply" where
  "IncrementalV2 E replicated user r T =
     (case user of
        None \<Rightarrow> SyncFail 401 ''unauthorized''
      | Some userID \<Rightarrow>
         (case IncrementalSyncV2 E replicated userID (get_first (Query r) ''cursor'') (limit_param 200 r) T of
            None \<Rightarrow> SyncFail 400 ''sync_failed''
          | Some resp \<Rightarrow> SyncV2 resp))"

definition MarkDeliveredV2 ::
  "syncEnv \<Rightarrow> bool \<Rightarrow> time \<Rightarrow> string option \<Rightarrow> string \<Rightarrow> httpReq \<Rightarrow> 'z convTables_scheme \<Rightarrow> syncReply \<times> 'z convTables_scheme" where
  "MarkDeliveredV2 E replicated now user conversationID r T =
     (case user of
        None \<Rightarrow> (SyncFail 401 ''unauthorized'', T)
      | Some userID \<Rightarrow>
          if \<not> (struct_ok (Body r) \<and> snd (int_field (Body r) ''through_server_order'') \<and> snd (string_field (Body r) ''device_id''))
          then (SyncFail 400 ''invalid_request'', T)
          else case MarkDelivered E replicated now userID (fst (string_field (Body r) ''device_id'')) conversationID
                      (fst (int_field (Body r) ''through_server_order'')) T of
            None \<Rightarrow> (SyncFail 500 ''mark_delivered_failed'', T)
          | Some T1 \<Rightarrow> (SyncDone, T1))"

section \<open>The first version does not look at the user\<close>

text \<open>The first version of synchronisation answers every authenticated user alike: whoever asks
  gets the messages of all conversations, his own or not.\<close>

theorem incremental_ignores_membership:
  assumes "m \<in> set (tb_messages T)" and "now - 300 * Second < mg_created_at m"
    and "length (filter (\<lambda>m. mg_created_at m > now - 300 * Second) (tb_messages T)) \<le> 100"
    and "get_first (Query r) ''cursor'' = []" and "get_first (Query r) ''limit'' = []"
  shows "\<exists>resp. Incremental E now (Some u) r T = SyncV1 resp \<and> sync_event E m \<in> set (s1_Events resp)"
  using assms
  by (auto simp: Incremental_def IncrementalSync_def Let_def parseCursor_def limit_param_def sync_rows_def)

definition demo_sync_env :: syncEnv where
  "demo_sync_env = replEnv.extend demo_repl_env (syncEnv.fields (\<lambda>s. None) (\<lambda>s. None) (\<lambda>ms. ms * 1000000))"

lemma incremental_ignores_membership_witness:
  "\<exists>resp. Incremental demo_sync_env 100 (Some ''stranger'') \<lparr>Method = ''GET'', Path = ''/v1/sync'', Query = [], Header = [], Body = None\<rparr>
      (demo_chat\<lparr>tb_messages := [new_message ''m'' ''c'' ''a'' ''text'' JNull ''OTT'' 1 50]\<rparr>) = SyncV1 resp
     \<and> sync_event demo_sync_env (new_message ''m'' ''c'' ''a'' ''text'' JNull ''OTT'' 1 50) \<in> set (s1_Events resp)"
  by (rule incremental_ignores_membership) (simp_all add: get_first_def Second_def)

end
