(* ===== verification/MessageContent.thy ===== *)
theory MessageContent
  imports ReplicationStore Mls
begin

text \<open>
  The contents of messages (\<open>gateway/internal/messages/handler.go\<close>, \<open>lifecycle.go\<close> and the helpers of
  \<open>service.go\<close>): what a request's content must look like, when a message expires, and the states of
  its delivery.  A \<open>map[string]any\<close> is \<open>None\<close> when it is nil.  The errors of this part are plain texts.
\<close>

section \<open>Numbers and times in decoded JSON\<close>

text \<open>
  A number is a \<open>float64\<close>, kept as the text that \<open>encoding/json\<close> prints for it: an integer below \<open>10 ^ 21\<close>
  in plain digits, of which the double is the nearest one, any other number with a point or an exponent.
\<close>

fun bit_length :: "nat \<Rightarrow> nat" where
  "bit_length n = (if n = 0 then 0 else Suc (bit_length (n div 2)))"

declare bit_length.simps [simp del]

definition round_to_double :: "nat \<Rightarrow> nat" where
  "round_to_double n =
     (if n < 2 ^ 53 then n
      else let s = 2 ^ (bit_length n - 53); q = n div s; r = n mod s in
        (if 2 * r > s \<or> (2 * r = s \<and> odd q) then q + 1 else q) * s)"

definition decimal_int :: "string \<Rightarrow> int option" where
  "decimal_int s =
     (case s of [] \<Rightarrow> None
      | c # cs \<Rightarrow> if c = CHR ''-'' then map_option (\<lambda>n. - int (round_to_double n)) (unsigned_value cs)
                 else map_option (\<lambda>n. int (round_to_double n)) (unsigned_value s))"

definition fits_int64 :: "int \<Rightarrow> bool" where
  "fits_int64 i \<longleftrightarrow> - (2 ^ 63) \<le> i \<and> i < 2 ^ 63"

text \<open>\<open>messageInt64\<close>: a number without a fraction, or the text of one.  A \<open>float64\<close> out of range is
  converted to the least \<open>int64\<close>, as amd64 does, and so differs from the number.\<close>

definition messageInt64 :: "json option \<Rightarrow> int option" where
  "messageInt64 raw =
     (case raw of
        Some (JNum t) \<Rightarrow> (case decimal_int t of None \<Rightarrow> None | Some i \<Rightarrow> if fits_int64 i then Some i else None)
      | Some (JStr s) \<Rightarrow> atoi (trim_space s)
      | _ \<Rightarrow> None)"

text \<open>What the message service is given: the parser of RFC 3339 times, the rate limiter's decisions
  (\<open>None\<close> for a failing call, else whether the call may pass and the delay in nanoseconds), cryptography, the
  profile \<open>DEFAULT_SMS_HANDLER\<close> of the request, which users Redis knows to be online and whether
  the replication store, Redis and the rate limiter are there.\<close>

record msgEnv = convEnv +
  mv_parse_time :: "string \<Rightarrow> time option"
  mv_crypto :: crypto
  mv_allow :: "string \<Rightarrow> (bool \<times> int) option"
  mv_rate_limited :: bool
  mv_replicated :: bool
  mv_redis :: bool
  mv_default_sms :: bool
  mv_online :: "string \<Rightarrow> bool"

definition messageTime :: "'e msgEnv_scheme \<Rightarrow> json option \<Rightarrow> time option" where
  "messageTime E raw = (case raw of Some (JStr s) \<Rightarrow> mv_parse_time E (trim_space s) | _ \<Rightarrow> None)"

section \<open>Contents\<close>

type_synonym content = "json gomap option"

definition at_key :: "content \<Rightarrow> string \<Rightarrow> json option" where
  "at_key c key = (case c of None \<Rightarrow> None | Some m \<Rightarrow> map_of m key)"

text \<open>Reading an absent key gives the nil interface, as a null does.\<close>

definition is_nil :: "json option \<Rightarrow> bool" where
  "is_nil v \<longleftrightarrow> v = None \<or> v = Some JNull"

definition textValue :: "json option \<Rightarrow> string" where
  "textValue v = (case as_str v of None \<Rightarrow> [] | Some s \<Rightarrow> s)"

definition textField :: "json option \<Rightarrow> string" where
  "textField v = trim_space (textValue v)"

text \<open>\<open>json.Marshal\<close> and \<open>json.Unmarshal\<close> give the same values back.\<close>

definition cloneMessageContent :: "content \<Rightarrow> content" where
  "cloneMessageContent c = c"

definition SignalEncryptionScheme :: string where "SignalEncryptionScheme = ''OHMF_SIGNAL_V1''"
definition MLSEncryptionScheme :: string where "MLSEncryptionScheme = ''OHMF_MLS_V1''"

definition span_styles :: "string list" where
  "span_styles = [''bold'', ''italic'', ''underline'', ''strikethrough'', ''spoiler'', ''link'', ''mention'', ''code'', ''quote'']"

definition span_style :: "json gomap \<Rightarrow> string" where
  "span_style span = (let style = textValue (map_of span ''style'') in
     if style = [] then textValue (map_of span ''type'') else style)"

definition bad_range :: "int \<Rightarrow> int \<Rightarrow> string \<Rightarrow> bool" where
  "bad_range start end text \<longleftrightarrow> start < 0 \<or> end \<le> start \<or> end > int (length text)"

definition validate_span :: "string \<Rightarrow> json \<Rightarrow> string option" where
  "validate_span text spanRaw =
     (case as_obj (Some spanRaw) of
        None \<Rightarrow> Some ''content.spans entries must be objects''
      | Some span \<Rightarrow>
     (case messageInt64 (map_of span ''start'') of
        None \<Rightarrow> Some ''content.spans entries require start''
      | Some start \<Rightarrow>
     (case messageInt64 (map_of span ''end'') of
        None \<Rightarrow> Some ''content.spans entries require end''
      | Some end \<Rightarrow>
          if bad_range start end text then Some ''content.spans entry has invalid range''
          else if to_lower (trim_space (span_style span)) \<notin> set span_styles
          then Some ''content.spans entry has unsupported style''
          else if equal_fold (span_style span) ''link'' \<and> as_str (map_of span ''url'') = None
          then Some ''link spans require url''
          else if equal_fold (span_style span) ''mention'' \<and> as_str (map_of span ''user_id'') = None
          then Some ''mention spans require user_id''
          else None)))"

text \<open>The first error of a loop.\<close>

fun first_error :: "('a \<Rightarrow> 'e option) \<Rightarrow> 'a list \<Rightarrow> 'e option" where
  "first_error f [] = None"
| "first_error f (x # xs) = (case f x of Some e \<Rightarrow> Some e | None \<Rightarrow> first_error f xs)"

lemma first_error_None [simp]: "first_error f xs = None \<longleftrightarrow> (\<forall>x\<in>set xs. f x = None)"
  by (induction xs) (auto split: option.splits)

definition validateMessageSpans :: "json option \<Rightarrow> string \<Rightarrow> string option" where
  "validateMessageSpans raw text =
     (if is_nil raw then None
      else case as_arr raw of
        None \<Rightarrow> Some ''content.spans must be an array''
      | Some spans \<Rightarrow> first_error (validate_span text) spans)"

definition validate_mention :: "string \<Rightarrow> json \<Rightarrow> string option" where
  "validate_mention text mentionRaw =
     (case as_obj (Some mentionRaw) of
        None \<Rightarrow> Some ''content.mentions entries must be objects''
      | Some mention \<Rightarrow>
          if as_str (map_of mention ''user_id'') = None \<and> as_str (map_of mention ''id'') = None
          then Some ''content.mentions entries require user_id''
          else if (case as_str (map_of mention ''display'') of None \<Rightarrow> False | Some d \<Rightarrow> trim_space d = [])
          then Some ''content.mentions display must not be empty''
          else if map_of mention ''start'' = None then None
          else case messageInt64 (map_of mention ''start'') of
            None \<Rightarrow> Some ''content.mentions entries require start''
          | Some start \<Rightarrow>
             (case messageInt64 (map_of mention ''end'') of
                None \<Rightarrow> Some ''content.mentions entries require end''
              | Some end \<Rightarrow> if bad_range start end text then Some ''content.mentions entry has invalid range'' else None))"

definition validateMessageMentions :: "json option \<Rightarrow> string \<Rightarrow> string option" where
  "validateMessageMentions raw text =
     (if is_nil raw then None
      else case as_arr raw of
        None \<Rightarrow> Some ''content.mentions must be an array''
      | Some mentions \<Rightarrow> first_error (validate_mention text) mentions)"

section \<open>Lifecycle hints\<close>

record messageLifecycleHints =
  hi_ExpiresOnRead :: bool
  hi_ExpiresAt :: "time option"
  hi_HasExplicitExpiry :: bool

text \<open>\<open>time.Duration(secs) * time.Second\<close> wraps around in 64 bits.\<close>

definition seconds_after :: "time \<Rightarrow> int \<Rightarrow> time" where
  "seconds_after now secs = now + wrap64 (secs * Second)"

definition expires_in_hint :: "time \<Rightarrow> content \<Rightarrow> messageLifecycleHints \<Rightarrow> string + messageLifecycleHints" where
  "expires_in_hint now content hints =
     (case at_key content ''expires_in_seconds'' of
        None \<Rightarrow> Inr hints
      | Some raw \<Rightarrow>
         (case messageInt64 (Some raw) of
            None \<Rightarrow> Inl ''text messages require positive expires_in_seconds''
          | Some secs \<Rightarrow>
              if secs \<le> 0 then Inl ''text messages require positive expires_in_seconds''
              else Inr (hints\<lparr>hi_ExpiresAt := Some (seconds_after now secs), hi_HasExplicitExpiry := True\<rparr>)))"

definition expires_at_hint ::
  "'e msgEnv_scheme \<Rightarrow> time \<Rightarrow> content \<Rightarrow> messageLifecycleHints \<Rightarrow> string + messageLifecycleHints" where
  "expires_at_hint E now content hints =
     (case at_key content ''expires_at'' of
        None \<Rightarrow> Inr hints
      | Some raw \<Rightarrow>
         (case messageTime E (Some raw) of
            None \<Rightarrow> Inl ''text messages require valid expires_at''
          | Some expiry \<Rightarrow>
              if \<not> expiry > now then Inl ''text messages require future expires_at''
              else Inr (hints\<lparr>hi_ExpiresAt := (case hi_ExpiresAt hints of
                            None \<Rightarrow> Some expiry | Some t \<Rightarrow> if expiry < t then Some expiry else Some t),
                          hi_HasExplicitExpiry := True\<rparr>)))"

definition messageLifecycleHintsFromContent ::
  "'e msgEnv_scheme \<Rightarrow> time \<Rightarrow> content \<Rightarrow> string + messageLifecycleHints" where
  "messageLifecycleHintsFromContent E now content =
     (let text = textValue (at_key content ''text'') in
      if trim_space text = [] then Inl ''text messages require text''
      else case validateMessageSpans (at_key content ''spans'') text of
        Some e \<Rightarrow> Inl e
      | None \<Rightarrow>
     (case validateMessageMentions (at_key content ''mentions'') text of
        Some e \<Rightarrow> Inl e
      | None \<Rightarrow>
          try_then (expires_in_hint now content
             \<lparr>hi_ExpiresOnRead = (at_key content ''expires_on_read'' = Some (JBool True)),
              hi_ExpiresAt = None, hi_HasExplicitExpiry = False\<rparr>) (expires_at_hint E now content)))"

section \<open>What a request may send\<close>

definition isReservedContentType :: "string \<Rightarrow> bool" where
  "isReservedContentType contentType \<longleftrightarrow> contentType = ''app_card''"

definition missing_str :: "json gomap \<Rightarrow> string \<Rightarrow> bool" where
  "missing_str m key \<longleftrightarrow> as_str (map_of m key) = None"

definition validate_encryption :: "json gomap \<Rightarrow> string option" where
  "validate_encryption encryption =
     (let scheme = textValue (map_of encryption ''scheme'') in
      if scheme \<noteq> SignalEncryptionScheme \<and> scheme \<noteq> MLSEncryptionScheme
      then Some ''encrypted messages require a supported encryption scheme''
      else if missing_str encryption ''sender_user_id'' then Some ''encrypted messages require sender_user_id''
      else if missing_str encryption ''sender_device_id'' then Some ''encrypted messages require sender_device_id''
      else if missing_str encryption ''sender_signature'' then Some ''encrypted messages require sender_signature''
      else if scheme = SignalEncryptionScheme
         \<and> (case as_arr (map_of encryption ''recipients'') of None \<Rightarrow> True | Some rs \<Rightarrow> rs = [])
      then Some ''encrypted messages require recipients''
      else if scheme = MLSEncryptionScheme \<and> textField (map_of encryption ''tree_hash'') = []
      then Some ''encrypted MLS messages require tree_hash''
      else if scheme = MLSEncryptionScheme \<and> textField (map_of encryption ''epoch_secret_digest'') = []
      then Some ''encrypted MLS messages require epoch_secret_digest''
      else None)"

definition validateSendContent :: "'e msgEnv_scheme \<Rightarrow> time \<Rightarrow> string \<Rightarrow> content \<Rightarrow> string option" where
  "validateSendContent E now contentType content =
     (let ty = to_lower (trim_space contentType) in
      if ty = ''text'' then (case messageLifecycleHintsFromContent E now content of Inl e \<Rightarrow> Some e | Inr _ \<Rightarrow> None)
      else if ty = ''encrypted'' then
        (if as_str (at_key content ''ciphertext'') = None then Some ''encrypted messages require ciphertext''
         else if as_str (at_key content ''nonce'') = None then Some ''encrypted messages require nonce''
         else case as_obj (at_key content ''encryption'') of
           None \<Rightarrow> Some ''encrypted messages require encryption metadata''
         | Some encryption \<Rightarrow> validate_encryption encryption)
      else if ty = ''attachment'' \<and> as_str (at_key content ''attachment_id'') = None
      then Some ''attachment messages require attachment_id''
      else if ty = ''link_preview'' \<and> as_str (at_key content ''url'') = None then Some ''link previews require url''
      else None)"

section \<open>Delivery states\<close>

definition validTransitions :: "(string \<times> string list) list" where
  "validTransitions =
     [(''QUEUED'', [''ACCEPTED'', ''FAILED'']), (''ACCEPTED'', [''STORED'', ''FAILED'']), (''STORED'', [''PUSHED'', ''FAILED'']),
      (''PUSHED'', [''DELIVERED'', ''FAILED'']), (''DELIVERED'', [''READ'']),
      (''PENDING_LOCAL'', [''SENT_TO_MODEM'', ''FAILED_LOCAL'']), (''SENT_TO_MODEM'', [''SENT_TO_CARRIER'', ''FAILED_LOCAL'']),
      (''SENT_TO_CARRIER'', [''DELIVERED'', ''FAILED_CARRIER''])]"

definition IsValidLifecycleTransition :: "string \<Rightarrow> string \<Rightarrow> bool" where
  "IsValidLifecycleTransition from to =
     (if from = to then True
      else case map_of validTransitions from of Some allowed \<Rightarrow> to \<in> set allowed | None \<Rightarrow> False)"

definition isSupportedMessageEffectType :: "string \<Rightarrow> bool" where
  "isSupportedMessageEffectType effectType \<longleftrightarrow>
     to_lower (trim_space effectType) \<in> set [''bubble_confetti'', ''bubble_echo'', ''bubble_spotlight'', ''bubble_balloons'',
       ''bubble_love'', ''bubble_lasers'', ''screen_fireworks'', ''screen_echo'', ''screen_spotlight'']"

definition normalizeTransportForDelivery :: "string \<Rightarrow> string" where
  "normalizeTransportForDelivery transport =
     (let t = to_upper (trim_space transport) in
      if t = ''OTT'' \<or> t = ''OHMF'' then ''OHMF'' else if t = ''SMS'' then ''SMS'' else [])"

end
