(* ===== verification/MessageEnvelope.thy ===== *)
theory MessageEnvelope
  imports MessageContent
begin

text \<open>
  Encrypted messages (\<open>gateway/internal/messages/encryption_middleware.go\<close> and the envelope checks of
  \<open>service.go\<close>): the server does not decrypt; it checks that the envelope is signed by a key of the sender's device
  and addressed to exactly the devices of the conversation's members.
\<close>

section \<open>Tables and errors\<close>

record keyRow =
  dk_device_id :: string
  dk_user_id :: string
  dk_bundle_version :: string
  dk_agreement_key :: string
  dk_signing_key :: string

record deliveryRow =
  dl_message_id :: string
  dl_recipient_user :: "string option"
  dl_recipient_device :: "string option"
  dl_recipient_phone :: "string option"
  dl_transport :: string
  dl_state :: string
  dl_provider :: "string option"
  dl_submitted_at :: "time option"
  dl_updated_at :: time
  dl_failure_code :: "string option"

record carrierRow =
  ca_id :: string
  ca_thread_key :: "string option"
  ca_carrier_message_id :: "string option"
  ca_transport :: string
  ca_text :: "string option"
  ca_media :: "json option"
  ca_created_at :: time
  ca_server_message_id :: "string option"

text \<open>The tables that the message service has beside the shared ones: published keys, group trees and epochs,
  deliveries, the thread keys of conversations (conversation and value) and carrier messages.\<close>

record msgTables = convTables +
  tb_keys :: "keyRow list"
  tb_mls :: mlsTables
  tb_deliveries :: "deliveryRow list"
  tb_thread_keys :: "(string \<times> string) list"
  tb_carrier :: "carrierRow list"

text \<open>The errors of the service; \<open>MsgError\<close> has the text of an \<open>errors.New\<close> or \<open>fmt.Errorf\<close>, and
  \<open>InvalidEdit\<close> wraps one.  The texts of a failing statement and of the library's errors are not modelled.\<close>

datatype msgError = ConversationAccess | ConversationBlocked | InvalidMessageEffectType | EncryptedMessageRequired
  | EncryptedMessageInvalid | EncryptedConversationStateChanged | EncryptedEditDeviceMismatch
  | SenderDeviceRequired | SenderDeviceInvalid | MsgError string | InvalidEdit string | RateLimited string int | MsgDbError

section \<open>Envelopes\<close>

record RecipientKeyInfo =
  ri_UserID :: string
  ri_DeviceID :: string
  ri_WrappedKey :: string
  ri_WrapNonce :: string

record EncryptedMessageMetadata =
  em_Scheme :: string
  em_SenderUserID :: string
  em_SenderDeviceID :: string
  em_SenderSignature :: string
  em_ConversationEpoch :: int
  em_MLSEpoch :: int
  em_MLSTreeHash :: string
  em_EpochSecretDigest :: string
  em_Recipients :: "RecipientKeyInfo list"
  em_EpochSecretBoxes :: "RecipientKeyInfo list"
  em_Ciphertext :: string
  em_Nonce :: string

text \<open>\<open>int64(v)\<close> of a \<open>float64\<close> drops the fraction; a number below one in exponent notation is 0, one out of range
  the least \<open>int64\<close>.\<close>

definition trunc_number :: "string \<Rightarrow> int" where
  "trunc_number t =
     (if CHR ''e'' \<in> set t then (if CHR ''-'' \<in> set (dropWhile (\<lambda>c. c \<noteq> CHR ''e'') t) then 0 else - (2 ^ 63))
      else case decimal_int (before_char (CHR ''.'') t) of
        None \<Rightarrow> 0
      | Some i \<Rightarrow> if fits_int64 i then i else - (2 ^ 63))"

definition messageInt :: "json option \<Rightarrow> int \<Rightarrow> int" where
  "messageInt val fallback =
     (case val of
        Some (JNum t) \<Rightarrow> trunc_number t
      | Some (JStr s) \<Rightarrow> (case atoi (trim_space s) of Some n \<Rightarrow> n | None \<Rightarrow> fallback)
      | _ \<Rightarrow> fallback)"

definition defaultInt64 :: "int \<Rightarrow> int \<Rightarrow> int" where
  "defaultInt64 val fallback = (if val = 0 then fallback else val)"

definition recipient_summary :: "json \<Rightarrow> string" where
  "recipient_summary raw =
     (let recipient = obj_or_nil (Some raw); initialSession = obj_or_nil (map_of recipient ''initial_session'') in
      join_with '':'' [textField (map_of recipient ''user_id''), textField (map_of recipient ''device_id''),
        textField (map_of recipient ''ratchet_public_key''),
        show_i64 (messageInt (map_of recipient ''previous_chain_length'') 0),
        show_i64 (messageInt (map_of recipient ''message_number'') 0),
        textField (map_of initialSession ''sender_ephemeral_public_key''),
        show_i64 (messageInt (map_of initialSession ''signed_prekey_id'') 0),
        show_i64 (messageInt (map_of initialSession ''one_time_prekey_id'') 0)])"

definition recipientHeaderSummary :: "json list \<Rightarrow> string" where
  "recipientHeaderSummary recipients = join_with '';'' (sort (map recipient_summary recipients))"

definition encryptedEnvelopeSignaturePayload :: "string \<Rightarrow> int \<Rightarrow> string \<Rightarrow> string \<Rightarrow> json list \<Rightarrow> string" where
  "encryptedEnvelopeSignaturePayload scheme conversationEpoch nonce ciphertext recipients =
     join_with ''|'' [trim_space scheme, show_i64 (defaultInt64 conversationEpoch 1), trim_space nonce,
       trim_space ciphertext, recipientHeaderSummary recipients]"

definition mlsEnvelopeSignaturePayload ::
  "string \<Rightarrow> int \<Rightarrow> int \<Rightarrow> string \<Rightarrow> string \<Rightarrow> string \<Rightarrow> string \<Rightarrow> json list \<Rightarrow> string" where
  "mlsEnvelopeSignaturePayload scheme conversationEpoch mlsEpoch treeHash epochSecretDigest nonce ciphertext boxes =
     join_with ''|'' [trim_space scheme, show_i64 (defaultInt64 conversationEpoch 1),
       show_i64 (defaultInt64 mlsEpoch (defaultInt64 conversationEpoch 1)), trim_space treeHash,
       trim_space epochSecretDigest, trim_space nonce, trim_space ciphertext, recipientHeaderSummary boxes]"

definition owns_device :: "'z convTables_scheme \<Rightarrow> string \<Rightarrow> string \<Rightarrow> bool" where
  "owns_device T userID deviceID \<longleftrightarrow> list_ex (\<lambda>d. dv_id d = deviceID \<and> dv_user_id d = userID) (tb_devices T)"

definition recipient_entry :: "'z convTables_scheme \<Rightarrow> nat \<Rightarrow> json \<Rightarrow> msgError + RecipientKeyInfo" where
  "recipient_entry T i recipientRaw =
     (case as_obj (Some recipientRaw) of
        None \<Rightarrow> Inl (MsgError (''invalid recipient at index '' @ itoa i))
      | Some recipient \<Rightarrow>
         (let user = textValue (map_of recipient ''user_id''); device = textValue (map_of recipient ''device_id'');
              key = textValue (map_of recipient ''wrapped_key''); nonce = textValue (map_of recipient ''wrap_nonce'') in
          if user = [] \<or> device = [] then Inl (MsgError (''invalid recipient user/device ID at index '' @ itoa i))
          else if key = [] \<or> nonce = [] then Inl (MsgError (''invalid recipient encryption keys at index '' @ itoa i))
          else if \<not> owns_device T user device then Inl (MsgError (''recipient device not found: '' @ device))
          else Inr \<lparr>ri_UserID = user, ri_DeviceID = device, ri_WrappedKey = key, ri_WrapNonce = nonce\<rparr>))"

fun recipient_entries :: "'z convTables_scheme \<Rightarrow> nat \<Rightarrow> json list \<Rightarrow> msgError + RecipientKeyInfo list" where
  "recipient_entries T i [] = Inr []"
| "recipient_entries T i (r # rs) =
     try_then (recipient_entry T i r) (\<lambda>x. try_then (recipient_entries T (Suc i) rs) (\<lambda>xs. Inr (x # xs)))"

definition parseRecipientEntries :: "'z convTables_scheme \<Rightarrow> json list \<Rightarrow> msgError + RecipientKeyInfo list" where
  "parseRecipientEntries T recipientsRaw = recipient_entries T 0 recipientsRaw"

text \<open>The recipients, the epoch's boxes and the text that is signed, for either scheme.\<close>

definition envelope_parts ::
  "'z convTables_scheme \<Rightarrow> string \<Rightarrow> string \<Rightarrow> json gomap
   \<Rightarrow> msgError + RecipientKeyInfo list \<times> RecipientKeyInfo list \<times> string" where
  "envelope_parts T ciphertext nonce encryption =
     (let scheme = textValue (map_of encryption ''scheme'');
          epoch = messageInt (map_of encryption ''conversation_epoch'') 1;
          mlsEpoch = messageInt (map_of encryption ''mls_epoch'') epoch in
      if scheme = SignalEncryptionScheme then
        (case as_arr (map_of encryption ''recipients'') of
           None \<Rightarrow> Inl (MsgError ''no_recipients_specified'')
         | Some raw \<Rightarrow> if raw = [] then Inl (MsgError ''no_recipients_specified'')
             else try_then (parseRecipientEntries T raw) (\<lambda>recipients.
               Inr (recipients, [], encryptedEnvelopeSignaturePayload scheme epoch nonce ciphertext raw)))
      else
        (let treeHash = textField (map_of encryption ''tree_hash''); digest = textField (map_of encryption ''epoch_secret_digest'');
             raw = (case as_arr (map_of encryption ''epoch_secret_boxes'') of None \<Rightarrow> [] | Some bs \<Rightarrow> bs) in
         if treeHash = [] then Inl (MsgError ''missing_mls_tree_hash'')
         else if digest = [] then Inl (MsgError ''missing_mls_epoch_secret_digest'')
         else try_then (parseRecipientEntries T raw) (\<lambda>boxes.
           Inr ([], boxes, mlsEnvelopeSignaturePayload scheme epoch mlsEpoch treeHash digest nonce ciphertext raw))))"

definition signing_key :: "'z msgTables_scheme \<Rightarrow> string \<Rightarrow> string \<Rightarrow> string option" where
  "signing_key T deviceID userID =
     map_option dk_signing_key (find (\<lambda>k. dk_device_id k = deviceID \<and> dk_user_id k = userID) (tb_keys T))"

definition verified_signature :: "crypto \<Rightarrow> string \<Rightarrow> string \<Rightarrow> string \<Rightarrow> msgError + unit" where
  "verified_signature C key payload signature =
     (case VerifySignature C key payload signature of
        Inl _ \<Rightarrow> Inl (MsgError ''failed to verify signature'')
      | Inr valid \<Rightarrow> require (MsgError ''invalid_sender_signature'') valid)"

definition ProcessEncryptedMessage ::
  "crypto \<Rightarrow> 'z msgTables_scheme \<Rightarrow> string \<Rightarrow> string \<Rightarrow> content \<Rightarrow> msgError + EncryptedMessageMetadata" where
  "ProcessEncryptedMessage C T senderUserID senderDeviceID content =
     (let ciphertext = textValue (at_key content ''ciphertext''); nonce = textValue (at_key content ''nonce'') in
      try_then (require (MsgError ''invalid_ciphertext'') (ciphertext \<noteq> [])) (\<lambda>_.
      try_then (require (MsgError ''invalid_nonce'') (nonce \<noteq> [])) (\<lambda>_.
      try_then (or_error (MsgError ''missing_encryption_metadata'') (as_obj (at_key content ''encryption''))) (\<lambda>encryption.
      (let scheme = textValue (map_of encryption ''scheme''); signature = textValue (map_of encryption ''sender_signature'');
           epoch = messageInt (map_of encryption ''conversation_epoch'') 1 in
      try_then (require (MsgError ''invalid_encryption_scheme'')
                  (scheme = SignalEncryptionScheme \<or> scheme = MLSEncryptionScheme)) (\<lambda>_.
      try_then (require (MsgError ''sender_user_id_mismatch'')
                  (textValue (map_of encryption ''sender_user_id'') = senderUserID)) (\<lambda>_.
      try_then (require (MsgError ''sender_device_id_mismatch'')
                  (textValue (map_of encryption ''sender_device_id'') = senderDeviceID)) (\<lambda>_.
      try_then (or_error (MsgError ''sender_device_not_found'') (signing_key T senderDeviceID senderUserID)) (\<lambda>key.
      try_then (envelope_parts T ciphertext nonce encryption) (\<lambda>(recipients, boxes, payload).
      try_then (verified_signature C key payload signature) (\<lambda>_.
      try_then (require (MsgError ''invalid_ciphertext_encoding'') (b64_decode ciphertext \<noteq> None)) (\<lambda>_.
      try_then (require (MsgError ''invalid_nonce_encoding'') (b64_decode nonce \<noteq> None)) (\<lambda>_.
      Inr \<lparr>em_Scheme = scheme, em_SenderUserID = senderUserID, em_SenderDeviceID = senderDeviceID,
           em_SenderSignature = signature, em_ConversationEpoch = epoch,
           em_MLSEpoch = messageInt (map_of encryption ''mls_epoch'') epoch,
           em_MLSTreeHash = textField (map_of encryption ''tree_hash''),
           em_EpochSecretDigest = textField (map_of encryption ''epoch_secret_digest''),
           em_Recipients = recipients, em_EpochSecretBoxes = boxes, em_Ciphertext = ciphertext, em_Nonce = nonce\<rparr>)))))))))))))"

section \<open>The conversation's side\<close>

record conversationPolicy =
  po_ConversationType :: string
  po_EncryptionState :: string
  po_MLSEnabled :: bool

definition policy_of :: "conversationRow \<Rightarrow> conversationPolicy" where
  "policy_of c = \<lparr>po_ConversationType = cv_type c,
     po_EncryptionState = (case cv_encryption_state c of None \<Rightarrow> ''PLAINTEXT'' | Some s \<Rightarrow> s),
     po_MLSEnabled = (cv_is_mls c = Some True)\<rparr>"

definition loadConversationPolicy :: "'z convTables_scheme \<Rightarrow> string \<Rightarrow> msgError + conversationPolicy" where
  "loadConversationPolicy T conversationID =
     or_error MsgDbError (map_option policy_of (find_conversation T conversationID))"

definition encryptedOTTConversation :: "conversationPolicy \<Rightarrow> bool" where
  "encryptedOTTConversation policy \<longleftrightarrow>
     (equal_fold (trim_space (po_ConversationType policy)) ''DM'' \<or> equal_fold (trim_space (po_ConversationType policy)) ''GROUP'')
     \<and> equal_fold (trim_space (po_EncryptionState policy)) ''ENCRYPTED''"

text \<open>The rows that \<open>BuildConversationMLSTree\<close> joins.\<close>

definition membership_of :: "'z msgTables_scheme \<Rightarrow> membership" where
  "membership_of T =
     \<lparr>conversation_members = map (\<lambda>m. (cm_conversation_id m, cm_user_id m)) (tb_members T),
      member_devices = map (\<lambda>d. \<lparr>md_id = dv_id d, md_user_id = dv_user_id d, md_capabilities = dv_capabilities d\<rparr>) (tb_devices T),
      member_keys = map (\<lambda>k. \<lparr>mk_device_id = dk_device_id k, mk_user_id = dk_user_id k,
          mk_bundle_version = dk_bundle_version k, mk_agreement_key = dk_agreement_key k\<rparr>) (tb_keys T)\<rparr>"

definition loadEncryptedConversationMemberIDs :: "'z convTables_scheme \<Rightarrow> string \<Rightarrow> string list" where
  "loadEncryptedConversationMemberIDs T conversationID =
     map cm_user_id (filter (\<lambda>m. cm_conversation_id m = conversationID) (tb_members T))"

definition device_key :: "string \<Rightarrow> string \<Rightarrow> string" where
  "device_key user device = user @ '':'' @ device"

definition recipient_key :: "RecipientKeyInfo \<Rightarrow> string" where
  "recipient_key r = device_key (ri_UserID r) (ri_DeviceID r)"

text \<open>A key that comes twice is an error; else the two sets must be the same.\<close>

definition same_recipients :: "RecipientKeyInfo list \<Rightarrow> string list \<Rightarrow> msgError + unit" where
  "same_recipients recipients expected =
     (let keys = map recipient_key recipients in
      if \<not> distinct keys then Inl EncryptedMessageInvalid
      else if length keys \<noteq> length (remdups expected) then Inl EncryptedConversationStateChanged
      else if \<not> list_all (\<lambda>k. k \<in> set keys) expected then Inl EncryptedConversationStateChanged
      else if \<not> list_all (\<lambda>k. k \<in> set expected) keys then Inl EncryptedConversationStateChanged
      else Inr ())"

definition validateSignalEncryptedConversationEnvelope :: "EncryptedMessageMetadata \<Rightarrow> string list \<Rightarrow> msgError + unit" where
  "validateSignalEncryptedConversationEnvelope metadata expected = same_recipients (em_Recipients metadata) expected"

definition mls_recipients :: "RecipientKeyInfo list \<Rightarrow> string list \<Rightarrow> msgError + unit" where
  "mls_recipients boxes expected =
     (let keys = map recipient_key boxes in
      if \<not> distinct keys then Inl EncryptedMessageInvalid
      else if length keys \<noteq> length (remdups expected) then Inl EncryptedConversationStateChanged
      else if \<not> list_all (\<lambda>k. k \<in> set keys) expected then Inl EncryptedConversationStateChanged
      else Inr ())"

definition box_json :: "RecipientKeyInfo \<Rightarrow> json" where
  "box_json r = JObj [(''user_id'', JStr (ri_UserID r)), (''device_id'', JStr (ri_DeviceID r)),
     (''wrapped_key'', JStr (ri_WrappedKey r)), (''wrap_nonce'', JStr (ri_WrapNonce r))]"

definition store_boxes :: "string \<Rightarrow> int \<Rightarrow> RecipientKeyInfo list \<Rightarrow> mlsTables \<Rightarrow> mlsTables" where
  "store_boxes conversationID epoch boxes M =
     fold (\<lambda>r M. M\<lparr>session_rows := AList.update (conversationID, ri_UserID r, ri_DeviceID r, epoch)
                       (marshal (box_json r)) (session_rows M)\<rparr>) boxes M"

definition validateMLSEncryptedConversationEnvelope ::
  "crypto \<Rightarrow> string \<Rightarrow> EncryptedMessageMetadata \<Rightarrow> int \<Rightarrow> MLSRatchetTree \<Rightarrow> string list
   \<Rightarrow> 'z msgTables_scheme \<Rightarrow> msgError + 'z msgTables_scheme" where
  "validateMLSEncryptedConversationEnvelope C conversationID metadata expectedMLSEpoch tree expected T =
     (let digest = em_EpochSecretDigest metadata; boxes = em_EpochSecretBoxes metadata in
      try_then (require EncryptedConversationStateChanged (em_MLSEpoch metadata = expectedMLSEpoch)) (\<lambda>_.
      try_then (require EncryptedConversationStateChanged
                  (trim_space (em_MLSTreeHash metadata) \<noteq> [] \<and> em_MLSTreeHash metadata = ComputeTreeHash C tree)) (\<lambda>_.
      try_then (require EncryptedMessageInvalid (trim_space digest \<noteq> [])) (\<lambda>_.
      if boxes = [] then
        (if map_of (epoch_rows (tb_mls T)) (conversationID, expectedMLSEpoch) = Some digest then Inr T
         else Inl EncryptedConversationStateChanged)
      else try_then (mls_recipients boxes expected) (\<lambda>_.
        Inr (T\<lparr>tb_mls := store_boxes conversationID expectedMLSEpoch boxes
           ((tb_mls T)\<lparr>epoch_rows := AList.update (conversationID, expectedMLSEpoch) digest (epoch_rows (tb_mls T))\<rparr>)\<rparr>))))))"

definition validateEncryptedConversationEnvelope ::
  "crypto \<Rightarrow> string \<Rightarrow> EncryptedMessageMetadata \<Rightarrow> 'z msgTables_scheme \<Rightarrow> msgError + 'z msgTables_scheme" where
  "validateEncryptedConversationEnvelope C conversationID metadata T =
     try_then (or_error MsgDbError (find_conversation T conversationID)) (\<lambda>c.
     (let mlsEpoch = (case cv_mls_epoch c of None \<Rightarrow> 0 | Some e \<Rightarrow> e);
          members = loadEncryptedConversationMemberIDs T conversationID;
          tree = BuildConversationMLSTree (membership_of T) conversationID mlsEpoch;
          leaves = GetGroupMembers tree;
          expected = map (\<lambda>leaf. device_key (leaf_UserID leaf) (leaf_DeviceID leaf)) leaves in
      try_then (require EncryptedConversationStateChanged (em_ConversationEpoch metadata = cv_encryption_epoch c)) (\<lambda>_.
      try_then (require EncryptedMessageInvalid (members \<noteq> [])) (\<lambda>_.
      try_then (require EncryptedConversationStateChanged
                  (list_all (\<lambda>u. u \<in> set (map leaf_UserID leaves)) members)) (\<lambda>_.
      if po_MLSEnabled (policy_of c) then
        try_then (require EncryptedConversationStateChanged (em_Scheme metadata = MLSEncryptionScheme)) (\<lambda>_.
          validateMLSEncryptedConversationEnvelope C conversationID metadata mlsEpoch tree expected T)
      else
        try_then (require EncryptedConversationStateChanged (em_Scheme metadata = SignalEncryptionScheme)) (\<lambda>_.
          try_then (validateSignalEncryptedConversationEnvelope metadata expected) (\<lambda>_. Inr T)))))))"

section \<open>Checks that no route calls\<close>

definition ValidateEncryptionSignature :: "crypto \<Rightarrow> string \<Rightarrow> string \<Rightarrow> string \<Rightarrow> e2eeError + bool" where
  "ValidateEncryptionSignature C key ciphertext signature = VerifySignature C key ciphertext signature"

definition ComputeFingerprintForDevice :: "crypto \<Rightarrow> 'z msgTables_scheme \<Rightarrow> string \<Rightarrow> e2eeError + string" where
  "ComputeFingerprintForDevice C T deviceID =
     (case find (\<lambda>k. dk_device_id k = deviceID) (tb_keys T) of
        None \<Rightarrow> Inl NotFoundError
      | Some k \<Rightarrow> ComputeFingerprint C (dk_signing_key k))"

definition CountEncryptedMessagesInConversation :: "'z convTables_scheme \<Rightarrow> string \<Rightarrow> nat" where
  "CountEncryptedMessagesInConversation T conversationID =
     length (filter (\<lambda>m. mg_conversation_id m = conversationID \<and> mg_is_encrypted m = Some True) (tb_messages T))"

text \<open>A null state cannot be scanned into a string.\<close>

definition GetEncryptionStateForConversation :: "'z convTables_scheme \<Rightarrow> string \<Rightarrow> msgError + string" where
  "GetEncryptionStateForConversation T conversationID =
     (case find_conversation T conversationID of
        None \<Rightarrow> Inr ''PLAINTEXT''
      | Some c \<Rightarrow> or_error MsgDbError (cv_encryption_state c))"

definition UpdateEncryptionState :: "time \<Rightarrow> string \<Rightarrow> string \<Rightarrow> 'z convTables_scheme \<Rightarrow> 'z convTables_scheme" where
  "UpdateEncryptionState now conversationID state =
     update_conversation conversationID (\<lambda>c. c\<lparr>cv_encryption_state := Some state, cv_updated_at := now\<rparr>)"

definition ValidateEncryptedMessageEdit :: "'z convTables_scheme \<Rightarrow> string \<Rightarrow> string option" where
  "ValidateEncryptedMessageEdit T messageID =
     (case find_message T messageID of
        None \<Rightarrow> Some ''message_not_found''
      | Some m \<Rightarrow> (case mg_is_encrypted m of
          None \<Rightarrow> Some ''failed to check message encryption''
        | Some encrypted \<Rightarrow> if encrypted then Some ''e2ee_immutable_content'' else None))"

definition mentioned_user :: "json gomap \<Rightarrow> string" where
  "mentioned_user mention =
     (if textValue (map_of mention ''user_id'') \<noteq> [] then textValue (map_of mention ''user_id'')
      else textValue (map_of mention ''id''))"

fun validate_mentions :: "'z convTables_scheme \<Rightarrow> nat \<Rightarrow> json list \<Rightarrow> string option" where
  "validate_mentions T i [] = None"
| "validate_mentions T i (raw # rest) =
     (case as_obj (Some raw) of
        None \<Rightarrow> Some (''invalid mention at index '' @ itoa i)
      | Some mention \<Rightarrow>
          if mentioned_user mention = [] then Some (''mention at index '' @ itoa i @ '' missing user_id'')
          else if \<not> is_user T (mentioned_user mention)
          then Some (''mentioned user not found: '' @ mentioned_user mention)
          else validate_mentions T (Suc i) rest)"

definition ValidateEncryptedMentions :: "'z convTables_scheme \<Rightarrow> content \<Rightarrow> string option" where
  "ValidateEncryptedMentions T content =
     (case as_arr (at_key content ''mentions'') of None \<Rightarrow> None | Some mentions \<Rightarrow> validate_mentions T 0 mentions)"

definition ValidateMiniAppContentWithE2EE :: "string \<Rightarrow> content \<Rightarrow> bool \<Rightarrow> string option" where
  "ValidateMiniAppContentWithE2EE contentType content isEncrypted =
     (if contentType \<noteq> ''app_card'' \<and> contentType \<noteq> ''app_event'' then None
      else if \<not> isEncrypted then None
      else if textValue (at_key content ''app_id'') = [] then Some ''mini-app messages require app_id field'' else None)"

end
