(* ===== verification/MessageStore.thy ===== *)
theory MessageStore
  imports MessageEnvelope
begin

text \<open>
  What the operations of the message service (\<open>gateway/internal/messages/service.go\<close>) share: the message
  as clients see it and as the idempotency table keeps it, the queries on members, blocks and
  transports, the expiry of a message, and the notifications after a message was stored.
\<close>

section \<open>Messages\<close>

record Message =
  ms_MessageID :: string
  ms_ConversationID :: string
  ms_SenderUserID :: string
  ms_SenderDeviceID :: string
  ms_ReplyToMessageID :: string
  ms_ReplyCount :: int
  ms_ContentType :: string
  ms_Content :: content
  ms_Reactions :: "(string \<times> int) list option"
  ms_ClientGeneratedID :: string
  ms_Transport :: string
  ms_ServerOrder :: int
  ms_Status :: string
  ms_IsEncrypted :: bool
  ms_EncryptionScheme :: string
  ms_CreatedAt :: string
  ms_SentAt :: string
  ms_DeliveredAt :: string
  ms_ReadAt :: string
  ms_StatusUpdatedAt :: string
  ms_EditedAt :: string
  ms_ExpiresAt :: string
  ms_Deleted :: bool
  ms_DeletedAt :: string
  ms_VisibilityState :: string
  ms_Source :: string
  ms_PinnedAt :: string
  ms_PinnedByUserID :: string

definition empty_msg :: Message where
  "empty_msg = \<lparr>ms_MessageID = [], ms_ConversationID = [], ms_SenderUserID = [], ms_SenderDeviceID = [],
     ms_ReplyToMessageID = [], ms_ReplyCount = 0, ms_ContentType = [], ms_Content = None, ms_Reactions = None,
     ms_ClientGeneratedID = [], ms_Transport = [], ms_ServerOrder = 0, ms_Status = [], ms_IsEncrypted = False,
     ms_EncryptionScheme = [], ms_CreatedAt = [], ms_SentAt = [], ms_DeliveredAt = [], ms_ReadAt = [],
     ms_StatusUpdatedAt = [], ms_EditedAt = [], ms_ExpiresAt = [], ms_Deleted = False, ms_DeletedAt = [],
     ms_VisibilityState = [], ms_Source = [], ms_PinnedAt = [], ms_PinnedByUserID = []\<rparr>"

definition omit_false :: "string \<Rightarrow> bool \<Rightarrow> json gomap" where
  "omit_false key b = (if b then [(key, JBool True)] else [])"

definition omit_zero :: "string \<Rightarrow> int \<Rightarrow> json gomap" where
  "omit_zero key n = (if n = 0 then [] else [(key, json_int n)])"

definition omit_counts :: "string \<Rightarrow> (string \<times> int) list option \<Rightarrow> json gomap" where
  "omit_counts key m = (if elems m = [] then [] else [(key, counts_json m)])"

text \<open>\<open>json.Marshal\<close> of a message, and \<open>json.Unmarshal\<close> into one.\<close>

definition message_json :: "Message \<Rightarrow> json" where
  "message_json m = JObj (
     [(''message_id'', JStr (ms_MessageID m)), (''conversation_id'', JStr (ms_ConversationID m)),
      (''sender_user_id'', JStr (ms_SenderUserID m))]
     @ omit_empty ''sender_device_id'' (ms_SenderDeviceID m) @ omit_empty ''reply_to_message_id'' (ms_ReplyToMessageID m)
     @ omit_zero ''reply_count'' (ms_ReplyCount m)
     @ [(''content_type'', JStr (ms_ContentType m)), (''content'', object_json (ms_Content m))]
     @ omit_counts ''reactions'' (ms_Reactions m) @ omit_empty ''client_generated_id'' (ms_ClientGeneratedID m)
     @ [(''transport'', JStr (ms_Transport m)), (''server_order'', json_int (ms_ServerOrder m))]
     @ omit_empty ''status'' (ms_Status m) @ omit_false ''is_encrypted'' (ms_IsEncrypted m)
     @ omit_empty ''encryption_scheme'' (ms_EncryptionScheme m)
     @ [(''created_at'', JStr (ms_CreatedAt m))]
     @ omit_empty ''sent_at'' (ms_SentAt m) @ omit_empty ''delivered_at'' (ms_DeliveredAt m)
     @ omit_empty ''read_at'' (ms_ReadAt m) @ omit_empty ''status_updated_at'' (ms_StatusUpdatedAt m)
     @ omit_empty ''edited_at'' (ms_EditedAt m) @ omit_empty ''expires_at'' (ms_ExpiresAt m)
     @ omit_false ''deleted'' (ms_Deleted m) @ omit_empty ''deleted_at'' (ms_DeletedAt m)
     @ omit_empty ''visibility_state'' (ms_VisibilityState m) @ omit_empty ''source'' (ms_Source m)
     @ omit_empty ''pinned_at'' (ms_PinnedAt m) @ omit_empty ''pinned_by_user_id'' (ms_PinnedByUserID m))"

definition message_strings :: "string list" where
  "message_strings = [''message_id'', ''conversation_id'', ''sender_user_id'', ''sender_device_id'', ''reply_to_message_id'',
     ''content_type'', ''client_generated_id'', ''transport'', ''status'', ''encryption_scheme'', ''created_at'', ''sent_at'',
     ''delivered_at'', ''read_at'', ''status_updated_at'', ''edited_at'', ''expires_at'', ''deleted_at'',
     ''visibility_state'', ''source'', ''pinned_at'', ''pinned_by_user_id'']"

definition bool_of :: "json \<Rightarrow> string \<Rightarrow> bool" where
  "bool_of p f = fst (bool_field (Some p) f)"

definition decode_message :: "json \<Rightarrow> Message option" where
  "decode_message p =
     (if strs_ok p message_strings \<and> int_ok p ''reply_count'' \<and> int_ok p ''server_order''
         \<and> snd (bool_field (Some p) ''is_encrypted'') \<and> snd (bool_field (Some p) ''deleted'')
         \<and> snd (object_field (Some p) ''content'') \<and> snd (int_map_field (Some p) ''reactions'')
      then Some \<lparr>ms_MessageID = str_of p ''message_id'', ms_ConversationID = str_of p ''conversation_id'',
        ms_SenderUserID = str_of p ''sender_user_id'', ms_SenderDeviceID = str_of p ''sender_device_id'',
        ms_ReplyToMessageID = str_of p ''reply_to_message_id'', ms_ReplyCount = int_of_field p ''reply_count'',
        ms_ContentType = str_of p ''content_type'', ms_Content = fst (object_field (Some p) ''content''),
        ms_Reactions = fst (int_map_field (Some p) ''reactions''), ms_ClientGeneratedID = str_of p ''client_generated_id'',
        ms_Transport = str_of p ''transport'', ms_ServerOrder = int_of_field p ''server_order'',
        ms_Status = str_of p ''status'', ms_IsEncrypted = bool_of p ''is_encrypted'',
        ms_EncryptionScheme = str_of p ''encryption_scheme'', ms_CreatedAt = str_of p ''created_at'',
        ms_SentAt = str_of p ''sent_at'', ms_DeliveredAt = str_of p ''delivered_at'', ms_ReadAt = str_of p ''read_at'',
        ms_StatusUpdatedAt = str_of p ''status_updated_at'', ms_EditedAt = str_of p ''edited_at'',
        ms_ExpiresAt = str_of p ''expires_at'', ms_Deleted = bool_of p ''deleted'', ms_DeletedAt = str_of p ''deleted_at'',
        ms_VisibilityState = str_of p ''visibility_state'', ms_Source = str_of p ''source'',
        ms_PinnedAt = str_of p ''pinned_at'', ms_PinnedByUserID = str_of p ''pinned_by_user_id''\<rparr>
      else None)"

text \<open>A \<open>jsonb\<close> parameter may not contain NUL.\<close>

fun jsonb_ok :: "json \<Rightarrow> bool" where
  "jsonb_ok (JStr s) = (CHR 0x00 \<notin> set s)"
| "jsonb_ok (JArr xs) = list_all jsonb_ok xs"
| "jsonb_ok (JObj ms) = list_all (\<lambda>(k, v). CHR 0x00 \<notin> set k \<and> jsonb_ok v) ms"
| "jsonb_ok v = True"

section \<open>Transactions\<close>

text \<open>An error rolls the transaction back.\<close>

definition in_tx :: "('t \<Rightarrow> 'e + 'a \<times> 't) \<Rightarrow> 't \<Rightarrow> ('e + 'a) \<times> 't" where
  "in_tx f T = (case f T of Inl e \<Rightarrow> (Inl e, T) | Inr (x, T1) \<Rightarrow> (Inr x, T1))"

lemma in_tx_Inr: "f T = Inr (x, T1) \<Longrightarrow> in_tx f T = (Inr x, T1)"
  by (simp add: in_tx_def)

lemma in_tx_cases:
  obtains (err) e where "f T = Inl e" "in_tx f T = (Inl e, T)"
  | (good) x T1 where "f T = Inr (x, T1)" "in_tx f T = (Inr x, T1)"
  by (cases "f T") (auto simp: in_tx_def)

section \<open>Members, blocks, transports\<close>

definition hasMembership :: "'z convTables_scheme \<Rightarrow> string \<Rightarrow> string \<Rightarrow> bool" where
  "hasMembership T userID conversationID \<longleftrightarrow> find_member T conversationID userID \<noteq> None"

text \<open>Also the recipients of a message (\<open>loadRecipients\<close>).\<close>

definition loadRecipients :: "'z convTables_scheme \<Rightarrow> string \<Rightarrow> string \<Rightarrow> string list" where
  "loadRecipients T conversationID senderID =
     map cm_user_id (filter (\<lambda>m. cm_conversation_id m = conversationID \<and> cm_user_id m \<noteq> senderID) (tb_members T))"

definition checkBlockedRecipients :: "'z convTables_scheme \<Rightarrow> string \<Rightarrow> string \<Rightarrow> string option" where
  "checkBlockedRecipients T senderUserID conversationID =
     find (\<lambda>uid. (uid, senderUserID) \<in> set (tb_blocks T) \<or> (senderUserID, uid) \<in> set (tb_blocks T))
       (loadRecipients T conversationID senderUserID)"

definition senderOwnsDevice :: "'z convTables_scheme \<Rightarrow> string \<Rightarrow> string \<Rightarrow> bool" where
  "senderOwnsDevice T userID deviceID = owns_device T userID deviceID"

definition decideTransport :: "'e msgEnv_scheme \<Rightarrow> 'z convTables_scheme \<Rightarrow> string \<Rightarrow> string \<Rightarrow> msgError + string" where
  "decideTransport E T conversationID senderUserID =
     try_then (or_error MsgDbError (find_conversation T conversationID)) (\<lambda>c.
     (let policy = cv_transport_policy c in
      if policy = ''FORCE_OTT'' then Inr ''OTT''
      else if policy = ''FORCE_SMS'' then Inr ''SMS''
      else if policy = ''FORCE_MMS'' then Inr ''MMS''
      else if loadRecipients T conversationID senderUserID \<noteq> [] then Inr ''OTT''
      else if list_ex (\<lambda>(conv, phone). conv = conversationID) (tb_external_phones T) then Inr ''SMS''
      else if mv_default_sms E then Inr ''SMS'' else Inr ''OTT''))"

section \<open>Expiry and replies\<close>

definition resolveMessageExpiration ::
  "'e msgEnv_scheme \<Rightarrow> time \<Rightarrow> 'z convTables_scheme \<Rightarrow> string \<Rightarrow> string \<Rightarrow> content \<Rightarrow> msgError + time option" where
  "resolveMessageExpiration E now T conversationID contentType content =
     (if \<not> equal_fold contentType ''text'' then Inr None
      else case messageLifecycleHintsFromContent E now content of
        Inl e \<Rightarrow> Inl (MsgError e)
      | Inr hints \<Rightarrow>
         try_then (or_error MsgDbError (find_conversation T conversationID)) (\<lambda>c.
         (let retention = (case cv_retention_seconds c of None \<Rightarrow> 0 | Some n \<Rightarrow> n);
              candidates = (case hi_ExpiresAt hints of None \<Rightarrow> [] | Some t \<Rightarrow> [t])
                @ (if retention > 0 then [seconds_after now retention] else [])
                @ (case cv_expires_at c of None \<Rightarrow> [] | Some t \<Rightarrow> [t])
          in case candidates of [] \<Rightarrow> Inr None
             | t # ts \<Rightarrow> Inr (Some (foldl (\<lambda>expiry candidate. if candidate < expiry then candidate else expiry) t ts)))))"

definition expired_at :: "time \<Rightarrow> messageRow \<Rightarrow> bool" where
  "expired_at now m \<longleftrightarrow> (case mg_expires_at m of None \<Rightarrow> False | Some t \<Rightarrow> t \<le> now)"

text \<open>The message that a reply may refer to and that a reply counter counts.\<close>

definition live_message :: "time \<Rightarrow> messageRow \<Rightarrow> bool" where
  "live_message now m \<longleftrightarrow> mg_deleted_at m = None \<and> \<not> expired_at now m
     \<and> mg_visibility m \<notin> set [''SOFT_DELETED'', ''REDACTED'', ''EXPIRED'']"

definition resolveReplyTarget ::
  "time \<Rightarrow> 'z convTables_scheme \<Rightarrow> string \<Rightarrow> json gomap \<Rightarrow> msgError + string \<times> json gomap" where
  "resolveReplyTarget now T conversationID content =
     (let replyTo = textField (map_of content ''reply_to_message_id'');
          rest = filter (\<lambda>(k, v). k \<noteq> ''reply_to_message_id'') content in
      if replyTo = [] then Inr ([], rest)
      else if list_ex (\<lambda>m. mg_id m = replyTo \<and> mg_conversation_id m = conversationID \<and> live_message now m) (tb_messages T)
      then Inr (replyTo, rest) else Inl (MsgError ''reply_target_not_found''))"

section \<open>Idempotency keys\<close>

definition is_key :: "string \<Rightarrow> string \<Rightarrow> string \<Rightarrow> idempotencyRow \<Rightarrow> bool" where
  "is_key user endpoint key r \<longleftrightarrow> ik_actor r = user \<and> ik_endpoint r = endpoint \<and> ik_key r = key"

definition live_key :: "time \<Rightarrow> string \<Rightarrow> string \<Rightarrow> string \<Rightarrow> 'z convTables_scheme \<Rightarrow> idempotencyRow option" where
  "live_key now user endpoint key T = find (\<lambda>r. is_key user endpoint key r \<and> ik_expires_at r > now) (tb_idempotency T)"

text \<open>The response of the key, when it decodes.\<close>

definition cached_response :: "time \<Rightarrow> string \<Rightarrow> string \<Rightarrow> string \<Rightarrow> 'z convTables_scheme \<Rightarrow> Message option" where
  "cached_response now user endpoint key T =
     (case live_key now user endpoint key T of
        None \<Rightarrow> None
      | Some r \<Rightarrow> (case ik_payload r of None \<Rightarrow> None | Some p \<Rightarrow> decode_message p))"

definition loadIdempotency ::
  "time \<Rightarrow> string \<Rightarrow> string \<Rightarrow> string \<Rightarrow> 'z convTables_scheme \<Rightarrow> msgError + (Message \<times> int) option" where
  "loadIdempotency now user endpoint key T =
     (if \<not> pg_text key then Inl MsgDbError
      else case live_key now user endpoint key T of
        None \<Rightarrow> Inr None
      | Some r \<Rightarrow> (case ik_payload r of
          None \<Rightarrow> Inr None
        | Some p \<Rightarrow> try_then (or_error MsgDbError (decode_message p)) (\<lambda>m.
            Inr (Some (m, (case ik_status r of None \<Rightarrow> 201 | Some n \<Rightarrow> n))))))"

text \<open>\<open>ON CONFLICT\<close> replaces the response and the status only.\<close>

definition upsertIdempotency ::
  "time \<Rightarrow> string \<Rightarrow> string \<Rightarrow> string \<Rightarrow> Message \<Rightarrow> int \<Rightarrow> 'z convTables_scheme \<Rightarrow> msgError + 'z convTables_scheme" where
  "upsertIdempotency now user endpoint key msg status T =
     (let payload = message_json msg in
      if \<not> pg_text key \<or> \<not> jsonb_ok payload \<or> \<not> is_user T user then Inl MsgDbError
      else if list_ex (is_key user endpoint key) (tb_idempotency T)
      then Inr (T\<lparr>tb_idempotency := update_where (is_key user endpoint key)
                    (\<lambda>r. r\<lparr>ik_payload := Some payload, ik_status := Some status\<rparr>) (tb_idempotency T)\<rparr>)
      else Inr (T\<lparr>tb_idempotency := tb_idempotency T @ [\<lparr>ik_actor = user, ik_endpoint = endpoint, ik_key = key,
             ik_payload = Some payload, ik_status = Some status, ik_expires_at = now + 24 * 3600 * Second\<rparr>]\<rparr>))"

section \<open>Rate limits\<close>

definition rate_check :: "'e msgEnv_scheme \<Rightarrow> string \<Rightarrow> string \<Rightarrow> string \<Rightarrow> msgError + unit" where
  "rate_check E bucket subject scope =
     (if subject = [] then Inr ()
      else case mv_allow E (bucket @ subject) of
        None \<Rightarrow> Inl MsgDbError
      | Some (allowed, retry) \<Rightarrow> require (RateLimited scope retry) allowed)"

definition enforceSendRate :: "'e msgEnv_scheme \<Rightarrow> string \<Rightarrow> string \<Rightarrow> string \<Rightarrow> msgError + unit" where
  "enforceSendRate E userID conversationID ip =
     (if \<not> mv_rate_limited E then Inr ()
      else try_then (rate_check E ''rate:send:user:'' userID ''user'') (\<lambda>_.
           try_then (rate_check E ''rate:send:conversation:'' conversationID ''conversation'') (\<lambda>_.
             rate_check E ''rate:send:ip:'' ip ''ip'')))"

definition enforceSearchRate :: "'e msgEnv_scheme \<Rightarrow> string \<Rightarrow> string \<Rightarrow> msgError + unit" where
  "enforceSearchRate E userID conversationID =
     (if \<not> mv_rate_limited E then Inr ()
      else case mv_allow E (''rate:search:user:'' @ userID @ '':conv:'' @ conversationID) of
        None \<Rightarrow> Inl MsgDbError
      | Some (allowed, retry) \<Rightarrow> require (RateLimited ''search'' retry) allowed)"

section \<open>Notifications\<close>

definition publishMessageCreated :: "'e msgEnv_scheme \<Rightarrow> string list \<Rightarrow> Message \<Rightarrow> (string \<times> json) list" where
  "publishMessageCreated E recipients msg =
     (if \<not> mv_redis E then []
      else map (\<lambda>r. (''message:user:'' @ r, message_json msg)) (filter (\<lambda>r. trim_space r \<noteq> []) recipients))"

text \<open>The conditional insert of a delivery, and whether it inserted a row.\<close>

definition deliver_once :: "time \<Rightarrow> string \<Rightarrow> string \<Rightarrow> string \<Rightarrow> 'z msgTables_scheme \<Rightarrow> bool \<times> 'z msgTables_scheme" where
  "deliver_once now messageID userID transport T =
     (if list_ex (\<lambda>d. dl_message_id d = messageID \<and> dl_recipient_user d = Some userID \<and> dl_state d = ''DELIVERED'')
           (tb_deliveries T)
      then (False, T)
      else (True, T\<lparr>tb_deliveries := tb_deliveries T @ [\<lparr>dl_message_id = messageID, dl_recipient_user = Some userID,
             dl_recipient_device = None, dl_recipient_phone = None, dl_transport = transport, dl_state = ''DELIVERED'',
             dl_provider = None, dl_submitted_at = Some now, dl_updated_at = now, dl_failure_code = None\<rparr>]\<rparr>))"

definition receipt_json :: "'e msgEnv_scheme \<Rightarrow> time \<Rightarrow> string \<Rightarrow> Message \<Rightarrow> json" where
  "receipt_json E now recipientID msg = JObj ([(''sender_user_id'', JStr (ms_SenderUserID msg))]
     @ omit_empty ''recipient_user_id'' recipientID @ omit_empty ''message_id'' (ms_MessageID msg)
     @ [(''conversation_id'', JStr (ms_ConversationID msg))] @ omit_zero ''server_order'' (ms_ServerOrder msg)
     @ [(''status'', JStr ''DELIVERED''), (''status_updated_at'', JStr (ev_rfc3339nano E now))])"

fun publish_deliveries ::
  "'e msgEnv_scheme \<Rightarrow> time \<Rightarrow> string list \<Rightarrow> Message \<Rightarrow> 'z msgTables_scheme \<Rightarrow> (string \<times> json) list \<times> 'z msgTables_scheme" where
  "publish_deliveries E now [] msg T = ([], T)"
| "publish_deliveries E now (r # rs) msg T =
     (if trim_space r = [] \<or> \<not> mv_online E (''presence:user:'' @ trim_space r) then publish_deliveries E now rs msg T
      else case deliver_once now (ms_MessageID msg) (trim_space r) (ms_Transport msg) T of
        (inserted, T1) \<Rightarrow>
          (case publish_deliveries E now rs msg T1 of (pubs, T2) \<Rightarrow>
             (if inserted then (''delivery:user:'' @ ms_SenderUserID msg, receipt_json E now (trim_space r) msg) # pubs
              else pubs, T2)))"

definition publishOnlineDeliveryUpdates ::
  "'e msgEnv_scheme \<Rightarrow> time \<Rightarrow> string list \<Rightarrow> Message \<Rightarrow> 'z msgTables_scheme \<Rightarrow> (string \<times> json) list \<times> 'z msgTables_scheme" where
  "publishOnlineDeliveryUpdates E now recipients msg T =
     (if \<not> mv_redis E \<or> normalizeTransportForDelivery (ms_Transport msg) \<noteq> ''OHMF'' then ([], T)
      else publish_deliveries E now recipients msg T)"

section \<open>Conversations with a phone number\<close>

definition hasPublishedSignalBundle :: "'z msgTables_scheme \<Rightarrow> string \<Rightarrow> bool" where
  "hasPublishedSignalBundle T userID \<longleftrightarrow>
     list_ex (\<lambda>k. dk_user_id k = userID \<and> dk_bundle_version k = ''OHMF_SIGNAL_V1''
        \<and> list_ex (\<lambda>d. dv_id d = dk_device_id k \<and> ''E2EE_OTT_V2'' \<in> set (dv_capabilities d)) (tb_devices T)) (tb_keys T)"

definition add_conversation :: "conversationRow \<Rightarrow> memberRow list \<Rightarrow> 'z convTables_scheme \<Rightarrow> 'z convTables_scheme option" where
  "add_conversation c members T =
     (if find_conversation T (cv_id c) \<noteq> None \<or> map_of (tb_counters T) (cv_id c) \<noteq> None
        \<or> \<not> list_all (\<lambda>m. is_user T (cm_user_id m)) members then None
      else Some (T\<lparr>tb_conversations := tb_conversations T @ [c], tb_counters := tb_counters T @ [(cv_id c, 1)],
                   tb_members := tb_members T @ members\<rparr>))"

text \<open>\<open>ORDER BY ... DESC\<close>.\<close>

definition sort_desc :: "('a \<Rightarrow> 'k :: linorder) \<Rightarrow> 'a list \<Rightarrow> 'a list" where
  "sort_desc key xs = rev (sort_key key (rev xs))"

lemma set_sort_desc [simp]: "set (sort_desc key xs) = set xs"
  by (simp add: sort_desc_def)

text \<open>The conversation without external members that both users are in, the one updated last.\<close>

definition shared_conversations :: "'z convTables_scheme \<Rightarrow> string \<Rightarrow> string \<Rightarrow> conversationRow list" where
  "shared_conversations T userID targetUserID =
     sort_desc cv_updated_at (filter (\<lambda>c. find_member T (cv_id c) userID \<noteq> None
        \<and> find_member T (cv_id c) targetUserID \<noteq> None
        \<and> \<not> list_ex (\<lambda>(conv, phone). conv = cv_id c) (tb_external_phones T)) (tb_conversations T))"

definition phone_conversation :: "'z convTables_scheme \<Rightarrow> string \<Rightarrow> string \<Rightarrow> conversationRow option" where
  "phone_conversation T userID phoneE164 =
     find (\<lambda>c. cv_type c = ''PHONE_DM'' \<and> find_member T (cv_id c) userID \<noteq> None
        \<and> (cv_id c, phoneE164) \<in> set (tb_external_phones T)) (tb_conversations T)"

definition registered_target :: "'z msgTables_scheme \<Rightarrow> string \<Rightarrow> string \<Rightarrow> string option" where
  "registered_target T userID phoneE164 =
     (case find (\<lambda>u. u_phone u = Some phoneE164) (tb_users T) of
        None \<Rightarrow> None
      | Some u \<Rightarrow> if u_id u \<noteq> userID \<and> hasPublishedSignalBundle T (u_id u) then Some (u_id u) else None)"

definition findOrCreatePhoneConversation ::
  "time \<Rightarrow> string \<Rightarrow> string \<Rightarrow> string \<Rightarrow> 'z msgTables_scheme \<Rightarrow> msgError + string \<times> 'z msgTables_scheme" where
  "findOrCreatePhoneConversation now newID userID phoneE164 T =
     (if \<not> pg_text phoneE164 then Inl MsgDbError
      else case registered_target T userID phoneE164 of
        Some target \<Rightarrow>
         (case shared_conversations T userID target of
            c # _ \<Rightarrow> Inr (cv_id c, T)
          | [] \<Rightarrow> try_then (or_error MsgDbError (add_conversation (new_conversation newID ''DM'' ''AUTO'' now)
                    [new_member newID userID now, new_member newID target now] T)) (\<lambda>T1. Inr (newID, T1)))
      | None \<Rightarrow>
         (case phone_conversation T userID phoneE164 of
            Some c \<Rightarrow> Inr (cv_id c, T)
          | None \<Rightarrow> try_then (or_error MsgDbError (add_conversation (new_conversation newID ''PHONE_DM'' ''FORCE_SMS'' now)
                      [new_member newID userID now] T)) (\<lambda>T1.
                    Inr (newID, T1\<lparr>tb_external_phones := tb_external_phones T1 @ [(newID, phoneE164)]\<rparr>))))"

end
