(* ===== verification/MessageSend.thy ===== *)
theory MessageSend
  imports MessageStore
begin

text \<open>
  Sending messages (\<open>gateway/internal/messages/service.go\<close> and \<open>async.go\<close>).  Each send is one transaction:
  the checks, the conversation's counter, the message, the idempotency key and the domain event; what follows the
  commit is published or stored on its own.  The ids of new rows, which the database draws, are arguments.
\<close>

section \<open>One transaction\<close>

definition created_payload :: "Message \<Rightarrow> string \<times> string list \<times> string list \<Rightarrow> MessageCreatedPayload" where
  "created_payload m meta =
     \<lparr>mp_MessageID = ms_MessageID m, mp_ConversationID = ms_ConversationID m, mp_ConversationType = fst meta,
      mp_SenderUserID = ms_SenderUserID m, mp_SenderDeviceID = ms_SenderDeviceID m, mp_ContentType = ms_ContentType m,
      mp_ClientGeneratedID = ms_ClientGeneratedID m, mp_Transport = ms_Transport m, mp_ServerOrder = ms_ServerOrder m,
      mp_CreatedAt = ms_CreatedAt m, mp_Participants = clone_slice (fst (snd meta)),
      mp_ExternalPhones = clone_slice (snd (snd meta)), mp_Content = ms_Content m\<rparr>"

text \<open>The domain event of a stored message, when there is a replication store.\<close>

definition append_created ::
  "'e msgEnv_scheme \<Rightarrow> time \<Rightarrow> string \<Rightarrow> Message \<Rightarrow> 'z convTables_scheme \<Rightarrow> msgError + 'z convTables_scheme" where
  "append_created E now userID m T =
     (if \<not> mv_replicated E then Inr T
      else try_then (or_error MsgDbError (LoadConversationMeta T (ms_ConversationID m))) (\<lambda>meta.
           or_error MsgDbError (AppendDomainEvent now (ms_ConversationID m) userID ''message_created''
             (created_json (created_payload m meta)) T)))"

text \<open>The message as the client gets it.\<close>

definition sent_message ::
  "'e msgEnv_scheme \<Rightarrow> time \<Rightarrow> messageRow \<Rightarrow> string \<Rightarrow> string \<Rightarrow> string \<Rightarrow> json gomap \<Rightarrow> string \<Rightarrow> Message" where
  "sent_message E now row senderDeviceID replyTo clientGeneratedID stored source =
     empty_msg\<lparr>ms_MessageID := mg_id row, ms_ConversationID := mg_conversation_id row, ms_SenderUserID := mg_sender row,
       ms_SenderDeviceID := senderDeviceID, ms_ReplyToMessageID := replyTo, ms_ContentType := mg_content_type row,
       ms_Content := Some stored, ms_ClientGeneratedID := clientGeneratedID, ms_Transport := mg_transport row,
       ms_ServerOrder := mg_server_order row, ms_Status := ''SENT'',
       ms_IsEncrypted := (mg_is_encrypted row = Some True),
       ms_EncryptionScheme := (case mg_encryption_scheme row of None \<Rightarrow> [] | Some s \<Rightarrow> s),
       ms_CreatedAt := ev_rfc3339 E now, ms_SentAt := ev_rfc3339 E now, ms_StatusUpdatedAt := ev_rfc3339 E now,
       ms_ExpiresAt := (case mg_expires_at row of None \<Rightarrow> [] | Some t \<Rightarrow> ev_rfc3339nano E t), ms_Source := source\<rparr>"

text \<open>The insert, the conversation's last message, the idempotency key and the domain event.\<close>

definition store_message ::
  "'e msgEnv_scheme \<Rightarrow> time \<Rightarrow> messageRow \<Rightarrow> Message \<Rightarrow> string \<Rightarrow> string
   \<Rightarrow> 'z convTables_scheme \<Rightarrow> msgError + 'z convTables_scheme" where
  "store_message E now row msg endpoint idemKey T =
     try_then (require MsgDbError (jsonb_ok (mg_content row) \<and> pg_text (mg_content_type row)
        \<and> pg_text (ms_ClientGeneratedID msg))) (\<lambda>_.
     try_then (or_error MsgDbError (insert_message row T)) (\<lambda>T1.
     try_then (upsertIdempotency now (mg_sender row) endpoint idemKey msg 201
        (update_conversation (mg_conversation_id row)
          (\<lambda>c. c\<lparr>cv_last_message_id := Some (mg_id row), cv_updated_at := now\<rparr>) T1)) (\<lambda>T2.
     append_created E now (mg_sender row) msg T2)))"

definition sender_device_ok :: "'z convTables_scheme \<Rightarrow> string \<Rightarrow> string \<Rightarrow> msgError + unit" where
  "sender_device_ok T userID senderDeviceID =
     try_then (require SenderDeviceRequired (trim_space senderDeviceID \<noteq> [])) (\<lambda>_.
       require SenderDeviceInvalid (senderOwnsDevice T userID senderDeviceID))"

text \<open>The envelope of an encrypted message: its scheme, and the tables with the epoch's keys.\<close>

definition check_envelope ::
  "'e msgEnv_scheme \<Rightarrow> string \<Rightarrow> string \<Rightarrow> string \<Rightarrow> json gomap \<Rightarrow> 'z msgTables_scheme \<Rightarrow> msgError + string \<times> 'z msgTables_scheme" where
  "check_envelope E userID senderDeviceID conversationID stored T =
     try_then (ProcessEncryptedMessage (mv_crypto E) T userID senderDeviceID (Some stored)) (\<lambda>metadata.
     try_then (validateEncryptedConversationEnvelope (mv_crypto E) conversationID metadata T) (\<lambda>T1.
       Inr (em_Scheme metadata, T1)))"

definition envelope_or_plain ::
  "'e msgEnv_scheme \<Rightarrow> string \<Rightarrow> string \<Rightarrow> string \<Rightarrow> string \<Rightarrow> json gomap \<Rightarrow> 'z msgTables_scheme
   \<Rightarrow> msgError + string \<times> 'z msgTables_scheme" where
  "envelope_or_plain E contentType userID senderDeviceID conversationID stored T =
     (if equal_fold contentType ''encrypted'' then check_envelope E userID senderDeviceID conversationID stored T
      else Inr ([], T))"

definition stored_content :: "content \<Rightarrow> json gomap" where
  "stored_content content = (case cloneMessageContent content of None \<Rightarrow> [] | Some m \<Rightarrow> m)"

record sendRequest =
  rq_user :: string
  rq_device :: string
  rq_conversation :: string
  rq_key :: string
  rq_content_type :: string
  rq_content :: content
  rq_client_id :: string

definition message_row ::
  "time \<Rightarrow> string \<Rightarrow> sendRequest \<Rightarrow> string \<Rightarrow> json gomap \<Rightarrow> string \<Rightarrow> int \<Rightarrow> time option \<Rightarrow> string option \<Rightarrow> bool \<Rightarrow> messageRow" where
  "message_row now newID q replyTo stored transport order expires scheme encrypted =
     (new_message newID (rq_conversation q) (rq_user q) (rq_content_type q) (JObj stored) transport order now)
       \<lparr>mg_sender_device := null_if_empty (rq_device q), mg_reply_to := null_if_empty replyTo,
        mg_client_generated_id := Some (rq_client_id q), mg_expires_at := expires,
        mg_is_encrypted := Some encrypted, mg_encryption_scheme := scheme\<rparr>"

text \<open>The rest of the transaction once the policy of the conversation is known.\<close>

definition send_fresh ::
  "'e msgEnv_scheme \<Rightarrow> time \<Rightarrow> string \<Rightarrow> sendRequest \<Rightarrow> string \<Rightarrow> string \<Rightarrow> conversationPolicy \<Rightarrow> 'z msgTables_scheme
   \<Rightarrow> msgError + Message \<times> 'z msgTables_scheme" where
  "send_fresh E now newID q endpoint source policy T =
     (let ct = rq_content_type q; conv = rq_conversation q; sealed = encryptedOTTConversation policy in
      try_then (if ct = ''encrypted'' \<or> sealed then sender_device_ok T (rq_user q) (rq_device q) else Inr ()) (\<lambda>_.
      try_then (require EncryptedMessageRequired (\<not> (sealed \<and> ct \<noteq> ''encrypted''))) (\<lambda>_.
      try_then (or_error MsgDbError (next_server_order conv T)) (\<lambda>(order, T1).
      try_then (resolveMessageExpiration E now T1 conv ct (rq_content q)) (\<lambda>expires.
      try_then (resolveReplyTarget now T1 conv (stored_content (rq_content q))) (\<lambda>(replyTo, stored).
      try_then (decideTransport E T1 conv (rq_user q)) (\<lambda>transport.
      try_then (require EncryptedMessageInvalid (\<not> (sealed \<and> transport \<noteq> ''OTT''))) (\<lambda>_.
      try_then (require EncryptedMessageInvalid (\<not> (ct = ''encrypted'' \<and> \<not> sealed))) (\<lambda>_.
      try_then (envelope_or_plain E ct (rq_user q) (rq_device q) conv stored T1) (\<lambda>(scheme, T2).
      (let row = message_row now newID q replyTo stored transport order expires (Some scheme) (equal_fold ct ''encrypted'');
           msg = sent_message E now row (rq_device q) replyTo (rq_client_id q) stored source in
       try_then (store_message E now row msg endpoint (rq_key q) T2) (\<lambda>T3. Inr (msg, T3)))))))))))))"

text \<open>The message and, when it is new, its recipients.\<close>

definition sendSyncWithEndpoint ::
  "'e msgEnv_scheme \<Rightarrow> time \<Rightarrow> string \<Rightarrow> sendRequest \<Rightarrow> string \<Rightarrow> string \<Rightarrow> 'z msgTables_scheme
   \<Rightarrow> msgError + (Message \<times> string list option) \<times> 'z msgTables_scheme" where
  "sendSyncWithEndpoint E now newID q endpoint source T =
     (let conv = rq_conversation q in
      try_then (require ConversationAccess (hasMembership T (rq_user q) conv)) (\<lambda>_.
      try_then (require ConversationBlocked (checkBlockedRecipients T (rq_user q) conv = None)) (\<lambda>_.
      try_then (require MsgDbError (pg_text (rq_key q))) (\<lambda>_.
      case cached_response now (rq_user q) endpoint (rq_key q) T of
        Some m \<Rightarrow> Inr ((m, None), T)
      | None \<Rightarrow>
          try_then (loadConversationPolicy T conv) (\<lambda>policy.
          try_then (send_fresh E now newID q endpoint source policy T) (\<lambda>(msg, T1).
            Inr ((msg, Some (loadRecipients T1 conv (rq_user q))), T1)))))))"

text \<open>What follows the commit.\<close>

definition after_send ::
  "'e msgEnv_scheme \<Rightarrow> time \<Rightarrow> (msgError + Message \<times> string list option) \<times> 'z msgTables_scheme
   \<Rightarrow> (msgError + Message) \<times> (string \<times> json) list \<times> 'z msgTables_scheme" where
  "after_send E now r =
     (case r of
        (Inl e, T) \<Rightarrow> (Inl e, [], T)
      | (Inr (msg, None), T) \<Rightarrow> (Inr msg, [], T)
      | (Inr (msg, Some recipients), T) \<Rightarrow>
          (case publishOnlineDeliveryUpdates E now recipients msg T of (pubs, T1) \<Rightarrow>
             (Inr msg, publishMessageCreated E recipients msg @ pubs, T1)))"

definition sendSync ::
  "'e msgEnv_scheme \<Rightarrow> time \<Rightarrow> string \<Rightarrow> sendRequest \<Rightarrow> 'z msgTables_scheme
   \<Rightarrow> (msgError + Message) \<times> (string \<times> json) list \<times> 'z msgTables_scheme" where
  "sendSync E now newID q T = after_send E now (in_tx (sendSyncWithEndpoint E now newID q ''/v1/messages'' []) T)"

section \<open>To a phone number\<close>

definition phone_fresh ::
  "'e msgEnv_scheme \<Rightarrow> time \<Rightarrow> string \<Rightarrow> sendRequest \<Rightarrow> 'z msgTables_scheme \<Rightarrow> msgError + Message \<times> 'z msgTables_scheme" where
  "phone_fresh E now newID q T =
     (let conv = rq_conversation q; ct = rq_content_type q in
      try_then (or_error MsgDbError (next_server_order conv T)) (\<lambda>(order, T1).
      try_then (resolveMessageExpiration E now T1 conv ct (rq_content q)) (\<lambda>expires.
      try_then (resolveReplyTarget now T1 conv (stored_content (rq_content q))) (\<lambda>(replyTo, stored).
      (let row = message_row now newID q replyTo stored ''SMS'' order expires None False;
           msg = sent_message E now row (rq_device q) replyTo (rq_client_id q) stored [] in
       try_then (store_message E now row msg ''/v1/messages/phone'' (rq_key q) T1) (\<lambda>T2. Inr (msg, T2)))))))"

definition sendToPhoneTx ::
  "'e msgEnv_scheme \<Rightarrow> time \<Rightarrow> string \<Rightarrow> string \<Rightarrow> sendRequest \<Rightarrow> string \<Rightarrow> 'z msgTables_scheme
   \<Rightarrow> msgError + (Message \<times> string list option) \<times> 'z msgTables_scheme" where
  "sendToPhoneTx E now newConvID newID q0 phoneE164 T0 =
     try_then (findOrCreatePhoneConversation now newConvID (rq_user q0) phoneE164 T0) (\<lambda>(conv, T).
     (let q = q0\<lparr>rq_conversation := conv\<rparr> in
      try_then (require ConversationBlocked (checkBlockedRecipients T (rq_user q) conv = None)) (\<lambda>_.
      try_then (require EncryptedMessageInvalid (rq_content_type q \<noteq> ''encrypted'')) (\<lambda>_.
      try_then (require MsgDbError (pg_text (rq_key q))) (\<lambda>_.
      case cached_response now (rq_user q) ''/v1/messages/phone'' (rq_key q) T of
        Some m \<Rightarrow> Inr ((m, None), T)
      | None \<Rightarrow> try_then (phone_fresh E now newID q T) (\<lambda>(msg, T1).
          Inr ((msg, Some (loadRecipients T1 conv (rq_user q))), T1)))))))"

text \<open>A message to a phone is announced, but its delivery is not recorded.\<close>

definition sendToPhoneSync ::
  "'e msgEnv_scheme \<Rightarrow> time \<Rightarrow> string \<Rightarrow> string \<Rightarrow> sendRequest \<Rightarrow> string \<Rightarrow> 'z msgTables_scheme
   \<Rightarrow> (msgError + Message) \<times> (string \<times> json) list \<times> 'z msgTables_scheme" where
  "sendToPhoneSync E now newConvID newID q phoneE164 T =
     (case in_tx (sendToPhoneTx E now newConvID newID q phoneE164) T of
        (Inl e, T1) \<Rightarrow> (Inl e, [], T1)
      | (Inr (msg, None), T1) \<Rightarrow> (Inr msg, [], T1)
      | (Inr (msg, Some recipients), T1) \<Rightarrow> (Inr msg, publishMessageCreated E recipients msg, T1))"

section \<open>Through Kafka\<close>

record PersistedAck =
  ak_MessageID :: string
  ak_ConversationID :: string
  ak_ServerOrder :: int
  ak_Status :: string
  ak_Transport :: string
  ak_PersistedAtMS :: int

text \<open>What the pipeline does for one request: the ids it draws, the printed time of the event, whether the publication
  succeeds, the acknowledgement it waits for (\<open>None\<close> for an error, \<open>Some None\<close> when the wait times out) and
  the wait in milliseconds.\<close>

record asyncRun =
  ar_message_id :: string
  ar_sent_at :: string
  ar_published :: bool
  ar_ack :: "PersistedAck option option"
  ar_unix_milli :: "int \<Rightarrow> string"
  ar_timeout_ms :: int

record SendResult =
  sr_Message :: Message
  sr_Queued :: bool
  sr_AckTimeoutMS :: int

definition direct_result :: "Message \<Rightarrow> SendResult" where
  "direct_result m = \<lparr>sr_Message = m, sr_Queued = False, sr_AckTimeoutMS = 0\<rparr>"

definition queued_result :: "asyncRun \<Rightarrow> Message \<Rightarrow> SendResult" where
  "queued_result A m = \<lparr>sr_Message = m, sr_Queued = True, sr_AckTimeoutMS = ar_timeout_ms A\<rparr>"

definition ProvisionalMessage :: "asyncRun \<Rightarrow> sendRequest \<Rightarrow> string \<Rightarrow> Message" where
  "ProvisionalMessage A q transportIntent =
     empty_msg\<lparr>ms_MessageID := ar_message_id A, ms_ConversationID := rq_conversation q, ms_SenderUserID := rq_user q,
       ms_ContentType := rq_content_type q, ms_Content := rq_content q, ms_Transport := transportIntent,
       ms_ClientGeneratedID := rq_client_id q, ms_ServerOrder := 0, ms_Status := ''QUEUED'',
       ms_CreatedAt := ar_sent_at A\<rparr>"

definition acked_message :: "asyncRun \<Rightarrow> sendRequest \<Rightarrow> PersistedAck \<Rightarrow> Message" where
  "acked_message A q ack =
     empty_msg\<lparr>ms_MessageID := ak_MessageID ack, ms_ConversationID := ak_ConversationID ack, ms_SenderUserID := rq_user q,
       ms_ContentType := rq_content_type q, ms_Content := rq_content q, ms_ClientGeneratedID := rq_client_id q,
       ms_Transport := ak_Transport ack, ms_ServerOrder := ak_ServerOrder ack, ms_Status := ak_Status ack,
       ms_CreatedAt := ar_unix_milli A (ak_PersistedAtMS ack)\<rparr>"

definition sendAsync ::
  "time \<Rightarrow> asyncRun \<Rightarrow> sendRequest \<Rightarrow> string \<Rightarrow> string \<Rightarrow> 'z msgTables_scheme \<Rightarrow> (msgError + SendResult) \<times> 'z msgTables_scheme" where
  "sendAsync now A q transportIntent endpoint T =
     (let conv = rq_conversation q; provisional = ProvisionalMessage A q transportIntent in
      if \<not> hasMembership T (rq_user q) conv then (Inl ConversationAccess, T)
      else if checkBlockedRecipients T (rq_user q) conv \<noteq> None then (Inl ConversationBlocked, T)
      else case loadIdempotency now (rq_user q) endpoint (rq_key q) T of
        Inl e \<Rightarrow> (Inl e, T)
      | Inr (Some (m, status)) \<Rightarrow> (Inr (if status = 202 then queued_result A m else direct_result m), T)
      | Inr None \<Rightarrow>
         (case upsertIdempotency now (rq_user q) endpoint (rq_key q) provisional 202 T of
            Inl e \<Rightarrow> (Inl e, T)
          | Inr T1 \<Rightarrow>
              if \<not> ar_published A then (Inl MsgDbError, T1)
              else (case ar_ack A of
                  None \<Rightarrow> (Inl MsgDbError, T1)
                | Some None \<Rightarrow> (Inr (queued_result A provisional), T1)
                | Some (Some ack) \<Rightarrow>
                   (let msg = acked_message A q ack in
                    case upsertIdempotency now (rq_user q) endpoint (rq_key q) msg 201 T1 of
                      Inl e \<Rightarrow> (Inl e, T1)
                    | Inr T2 \<Rightarrow> (Inr (direct_result msg), T2)))))"

section \<open>Send and SendToPhone\<close>

text \<open>\<open>A\<close> is given when \<open>useKafkaSend\<close> is set and the pipeline is there.\<close>

definition text_hints_ok :: "'e msgEnv_scheme \<Rightarrow> time \<Rightarrow> sendRequest \<Rightarrow> msgError + unit" where
  "text_hints_ok E now q =
     (if equal_fold (rq_content_type q) ''text''
      then (case messageLifecycleHintsFromContent E now (rq_content q) of Inl e \<Rightarrow> Inl (MsgError e) | Inr _ \<Rightarrow> Inr ())
      else Inr ())"

definition Send ::
  "'e msgEnv_scheme \<Rightarrow> time \<Rightarrow> asyncRun option \<Rightarrow> string \<Rightarrow> sendRequest \<Rightarrow> string \<Rightarrow> 'z msgTables_scheme
   \<Rightarrow> (msgError + SendResult) \<times> (string \<times> json) list \<times> 'z msgTables_scheme" where
  "Send E now A newID q ip T =
     (case try_then (text_hints_ok E now q) (\<lambda>_. enforceSendRate E (rq_user q) (rq_conversation q) ip) of
        Inl e \<Rightarrow> (Inl e, [], T)
      | Inr _ \<Rightarrow>
         (case A of
            Some A \<Rightarrow> (case sendAsync now A q ''OHMF'' ''/v1/messages'' T of (r, T1) \<Rightarrow> (r, [], T1))
          | None \<Rightarrow> (case sendSync E now newID q T of
              (Inl e, pubs, T1) \<Rightarrow> (Inl e, pubs, T1)
            | (Inr msg, pubs, T1) \<Rightarrow> (Inr (direct_result msg), pubs, T1))))"

definition SendToPhone ::
  "'e msgEnv_scheme \<Rightarrow> time \<Rightarrow> asyncRun option \<Rightarrow> string \<Rightarrow> string \<Rightarrow> sendRequest \<Rightarrow> string \<Rightarrow> string \<Rightarrow> 'z msgTables_scheme
   \<Rightarrow> (msgError + SendResult) \<times> (string \<times> json) list \<times> 'z msgTables_scheme" where
  "SendToPhone E now A newConvID newID q phoneE164 ip T =
     (case text_hints_ok E now q of
        Inl e \<Rightarrow> (Inl e, [], T)
      | Inr _ \<Rightarrow>
     (case in_tx (findOrCreatePhoneConversation now newConvID (rq_user q) phoneE164) T of
        (Inl e, T1) \<Rightarrow> (Inl e, [], T1)
      | (Inr conv, T1) \<Rightarrow>
         (case enforceSendRate E (rq_user q) conv ip of
            Inl e \<Rightarrow> (Inl e, [], T1)
          | Inr _ \<Rightarrow>
             (case A of
                Some A \<Rightarrow> (case sendAsync now A (q\<lparr>rq_conversation := conv\<rparr>) ''SMS'' ''/v1/messages/phone'' T1 of
                   (r, T2) \<Rightarrow> (r, [], T2))
              | None \<Rightarrow> (case sendToPhoneSync E now newConvID newID q phoneE164 T1 of
                  (Inl e, pubs, T2) \<Rightarrow> (Inl e, pubs, T2)
                | (Inr msg, pubs, T2) \<Rightarrow> (Inr (direct_result msg), pubs, T2))))))"

end
