(* ===== verification/MessageOps.thy ===== *)
theory MessageOps
  imports MessageSend
begin

text \<open>
  The operations on stored messages (\<open>gateway/internal/messages/service.go\<close>): redaction, deletion, edits,
  pins, reactions, effects, read marks and deliveries.  Each is one transaction.
\<close>

section \<open>Shared steps\<close>

definition update_message :: "string \<Rightarrow> (messageRow \<Rightarrow> messageRow) \<Rightarrow> 'z convTables_scheme \<Rightarrow> 'z convTables_scheme" where
  "update_message mid f T = T\<lparr>tb_messages := update_where (\<lambda>m. mg_id m = mid) f (tb_messages T)\<rparr>"

text \<open>A nil-checked domain event with the conversation's metadata.\<close>

definition append_with_meta ::
  "'e msgEnv_scheme \<Rightarrow> time \<Rightarrow> string \<Rightarrow> string \<Rightarrow> string \<Rightarrow> (string \<times> string list \<times> string list \<Rightarrow> json)
   \<Rightarrow> 'z convTables_scheme \<Rightarrow> msgError + 'z convTables_scheme" where
  "append_with_meta E now conv actor eventType payload T =
     (if \<not> mv_replicated E then Inr T
      else try_then (or_error MsgDbError (LoadConversationMeta T conv)) (\<lambda>meta.
           or_error MsgDbError (AppendDomainEvent now conv actor eventType (payload meta) T)))"

definition append_effect ::
  "'e msgEnv_scheme \<Rightarrow> time \<Rightarrow> string \<Rightarrow> string \<Rightarrow> string \<Rightarrow> string \<Rightarrow> 'z convTables_scheme \<Rightarrow> msgError + 'z convTables_scheme" where
  "append_effect E now conv actor mid effectType T =
     (if \<not> mv_replicated E then Inr T
      else or_error MsgDbError (AppendMessageEffectEvent E now conv actor mid effectType now T))"

text \<open>The operator \<open>->>\<close>, for the values that the code asks for.\<close>

definition json_text :: "json option \<Rightarrow> string option" where
  "json_text v =
     (case v of None \<Rightarrow> None | Some JNull \<Rightarrow> None | Some (JStr s) \<Rightarrow> Some s | Some j \<Rightarrow> Some (marshal j))"

definition max_time :: "time list \<Rightarrow> time option" where
  "max_time ts = (case ts of [] \<Rightarrow> None | t # us \<Rightarrow> Some (foldl max t us))"

text \<open>When the message was delivered to someone beside the user, by the checkpoints in the domain log, whose
  payloads have an integer; and when someone beside him read it.\<close>

definition checkpoint_through :: "json \<Rightarrow> int" where
  "checkpoint_through payload =
     (case map_of (obj_or_nil (Some payload)) ''through_server_order'' of
        Some (JNum s) \<Rightarrow> (case atoi s of None \<Rightarrow> 0 | Some n \<Rightarrow> n) | _ \<Rightarrow> 0)"

definition delivered_meta :: "'z convTables_scheme \<Rightarrow> string \<Rightarrow> string \<Rightarrow> int \<Rightarrow> time option" where
  "delivered_meta T user conv order =
     max_time (map de_created_at (filter (\<lambda>e. de_conversation_id e = conv \<and> de_event_type e = ''delivery_checkpoint_advanced''
        \<and> checkpoint_through (de_payload e) \<ge> order
        \<and> or_else (json_text (map_of (obj_or_nil (Some (de_payload e))) ''user_id'')) [] \<noteq> user) (tb_domain_events T)))"

definition read_meta :: "'z convTables_scheme \<Rightarrow> string \<Rightarrow> string \<Rightarrow> int \<Rightarrow> time option" where
  "read_meta T user conv order =
     max_time (concat (map (\<lambda>m. case cm_last_read_at m of None \<Rightarrow> [] | Some t \<Rightarrow> [t])
        (filter (\<lambda>m. cm_conversation_id m = conv \<and> cm_user_id m \<noteq> user \<and> cm_last_read m \<ge> order) (tb_members T))))"

section \<open>Redaction and deletion\<close>

definition own_message :: "'z convTables_scheme \<Rightarrow> string \<Rightarrow> string \<Rightarrow> msgError + messageRow" where
  "own_message T actorUserID messageID =
     try_then (or_error (MsgError ''message_not_found'') (find_message T messageID)) (\<lambda>m.
     try_then (require (MsgError ''forbidden'') (mg_sender m = actorUserID)) (\<lambda>_. Inr m))"

definition Redact :: "time \<Rightarrow> string \<Rightarrow> string \<Rightarrow> 'z convTables_scheme \<Rightarrow> msgError + unit \<times> 'z convTables_scheme" where
  "Redact now actorUserID messageID T =
     try_then (own_message T actorUserID messageID) (\<lambda>m.
       Inr ((), touch_conversation now (mg_conversation_id m)
         (update_message messageID (\<lambda>r. r\<lparr>mg_content := JObj [], mg_redacted_at := Some now, mg_visibility := ''REDACTED''\<rparr>) T)))"

definition message_payload :: "'e msgEnv_scheme \<Rightarrow> messageRow \<Rightarrow> string \<Rightarrow> string \<times> string list \<times> string list \<Rightarrow> messagePayload" where
  "message_payload E m device meta =
     \<lparr>mp_MessageID = mg_id m, mp_ConversationID = mg_conversation_id m, mp_ConversationType = fst meta,
      mp_SenderUserID = mg_sender m, mp_SenderDeviceID = device, mp_ContentType = mg_content_type m,
      mp_ClientGeneratedID = or_else (mg_client_generated_id m) [], mp_Transport = mg_transport m,
      mp_ServerOrder = mg_server_order m, mp_CreatedAt = ev_rfc3339nano E (mg_created_at m),
      mp_Participants = clone_slice (fst (snd meta)), mp_ExternalPhones = clone_slice (snd (snd meta))\<rparr>"

definition delete_payload :: "'e msgEnv_scheme \<Rightarrow> time \<Rightarrow> messageRow \<Rightarrow> string \<times> string list \<times> string list \<Rightarrow> MessageDeletedPayload" where
  "delete_payload E now m meta =
     messagePayload.extend (message_payload E m (or_else (mg_sender_device m) []) meta)
       (MessageDeletedPayload.fields (ev_rfc3339nano E now))"

definition delete_row :: "time \<Rightarrow> messageRow \<Rightarrow> messageRow" where
  "delete_row now r = r\<lparr>mg_content := JObj [], mg_redacted_at := Some now, mg_deleted_at := Some now,
     mg_visibility := ''SOFT_DELETED''\<rparr>"

text \<open>The result is the attachments that were removed, for the envelope that is published afterwards.\<close>

definition DeleteMessage ::
  "'e msgEnv_scheme \<Rightarrow> time \<Rightarrow> string \<Rightarrow> string \<Rightarrow> 'z convTables_scheme \<Rightarrow> msgError + string list \<times> 'z convTables_scheme" where
  "DeleteMessage E now actorUserID messageID T =
     try_then (own_message T actorUserID messageID) (\<lambda>m.
     (let T1 = update_message messageID (delete_row now) T;
          attachments = map fst (filter (\<lambda>(a, mid). mid = Some messageID) (tb_attachments T1));
          T2 = T1\<lparr>tb_attachments := filter (\<lambda>(a, mid). mid \<noteq> Some messageID) (tb_attachments T1)\<rparr>;
          T3 = touch_conversation now (mg_conversation_id m) T2 in
      try_then (append_with_meta E now (mg_conversation_id m) actorUserID ''message_deleted''
                  (\<lambda>meta. deleted_json (delete_payload E now m meta)) T3) (\<lambda>T4. Inr (attachments, T4))))"

text \<open>The payload of that envelope: \<open>%q\<close> prints a slice with blanks between its elements.\<close>

definition deletion_payload :: "string \<Rightarrow> string list \<Rightarrow> string" where
  "deletion_payload messageID attachments =
     ''{'' @ quote_json ''message_id'' @ '':'' @ [CHR 0x22] @ messageID @ [CHR 0x22] @ '','' @ quote_json ''attachments''
     @ '':['' @ join_with '' '' (map quote_json attachments) @ '']}''"

section \<open>Edits\<close>

definition encryptionSenderDeviceID :: "content \<Rightarrow> string" where
  "encryptionSenderDeviceID content =
     textField (map_of (obj_or_nil (at_key content ''encryption'')) ''sender_device_id'')"

definition parseStoredMessageContent :: "json \<Rightarrow> content" where
  "parseStoredMessageContent stored = as_obj (Some stored)"

definition message_editable :: "time \<Rightarrow> messageRow \<Rightarrow> bool" where
  "message_editable now m \<longleftrightarrow> mg_deleted_at m = None \<and> \<not> expired_at now m"

text \<open>The originating device of an encrypted message and the scheme of its new envelope.\<close>

definition edit_envelope ::
  "'e msgEnv_scheme \<Rightarrow> string \<Rightarrow> string \<Rightarrow> messageRow \<Rightarrow> json gomap \<Rightarrow> 'z msgTables_scheme
   \<Rightarrow> msgError + (string \<times> string) \<times> 'z msgTables_scheme" where
  "edit_envelope E actorUserID actorDeviceID m stored T =
     (let row_device = trim_space (or_else (mg_sender_device m) []);
          origin = (if row_device = [] then encryptionSenderDeviceID (parseStoredMessageContent (mg_content m)) else row_device);
          current = trim_space actorDeviceID in
      try_then (require EncryptedMessageInvalid (origin \<noteq> [])) (\<lambda>_.
      try_then (require SenderDeviceRequired (current \<noteq> [])) (\<lambda>_.
      try_then (require SenderDeviceInvalid (senderOwnsDevice T actorUserID current)) (\<lambda>_.
      try_then (require EncryptedEditDeviceMismatch (current = origin)) (\<lambda>_.
      try_then (case ProcessEncryptedMessage (mv_crypto E) T actorUserID current (Some stored) of
                  Inl e \<Rightarrow> Inl (InvalidEdit (case e of MsgError t \<Rightarrow> t | _ \<Rightarrow> []))
                | Inr metadata \<Rightarrow> Inr metadata) (\<lambda>metadata.
      try_then (validateEncryptedConversationEnvelope (mv_crypto E) (mg_conversation_id m) metadata T) (\<lambda>T1.
        Inr ((origin, em_Scheme metadata), T1))))))))"

definition edit_row :: "time \<Rightarrow> json gomap \<Rightarrow> string \<Rightarrow> string \<Rightarrow> messageRow \<Rightarrow> messageRow" where
  "edit_row now stored device scheme r =
     (let sealed = (mg_content_type r = ''encrypted'') in
      r\<lparr>mg_content := JObj stored, mg_edited_at := Some now,
        mg_sender_device := (if sealed \<and> mg_sender_device r = None then null_if_empty device else mg_sender_device r),
        mg_is_encrypted := (if sealed then Some True else mg_is_encrypted r),
        mg_encryption_scheme := (if sealed then null_if_empty scheme else mg_encryption_scheme r)\<rparr>)"

definition edit_payload ::
  "'e msgEnv_scheme \<Rightarrow> time \<Rightarrow> messageRow \<Rightarrow> string \<Rightarrow> json gomap \<Rightarrow> string \<times> string list \<times> string list \<Rightarrow> MessageEditedPayload" where
  "edit_payload E now m device stored meta =
     MessageCreatedPayload.extend (messagePayload.extend (message_payload E m device meta)
         (MessageCreatedPayload.fields (Some stored)))
       (MessageEditedPayload.fields (ev_rfc3339nano E now))"

definition edit_record ::
  "'z convTables_scheme \<Rightarrow> time \<Rightarrow> string \<Rightarrow> messageRow \<Rightarrow> json gomap \<Rightarrow> editRow" where
  "edit_record T now actorUserID m stored =
     \<lparr>ed_message_id = mg_id m, ed_conversation_id = mg_conversation_id m, ed_edited_by = actorUserID,
      ed_previous_content = mg_content m, ed_new_content = JObj stored, ed_sent_at = Some (mg_created_at m),
      ed_delivered_at = delivered_meta T actorUserID (mg_conversation_id m) (mg_server_order m),
      ed_read_at = read_meta T actorUserID (mg_conversation_id m) (mg_server_order m), ed_edited_at = now\<rparr>"

definition EditMessage ::
  "'e msgEnv_scheme \<Rightarrow> time \<Rightarrow> string \<Rightarrow> string \<Rightarrow> string \<Rightarrow> content \<Rightarrow> 'z msgTables_scheme
   \<Rightarrow> msgError + unit \<times> 'z msgTables_scheme" where
  "EditMessage E now actorUserID actorDeviceID messageID content T =
     try_then (own_message T actorUserID messageID) (\<lambda>m.
     (let ct = mg_content_type m; stored = stored_content content; conv = mg_conversation_id m in
      try_then (require (MsgError ''message_not_editable'') (message_editable now m)) (\<lambda>_.
      try_then (require (MsgError ''message_not_editable'') (ct = ''text'' \<or> ct = ''encrypted'')) (\<lambda>_.
      try_then (case validateSendContent E now ct (Some stored) of Some e \<Rightarrow> Inl (InvalidEdit e) | None \<Rightarrow> Inr ()) (\<lambda>_.
      try_then (if ct = ''encrypted'' then edit_envelope E actorUserID actorDeviceID m stored T
                else Inr ((or_else (mg_sender_device m) [], []), T)) (\<lambda>((device, scheme), T1).
      try_then (require MsgDbError (jsonb_ok (JObj stored))) (\<lambda>_.
      (let T2 = touch_conversation now conv (update_message messageID (edit_row now stored (trim_space device) scheme) T1);
           T3 = T2\<lparr>tb_edits := tb_edits T2 @ [edit_record T now actorUserID m stored]\<rparr> in
       try_then (append_with_meta E now conv actorUserID ''message_edited''
                   (\<lambda>meta. edited_json (edit_payload E now m device stored meta)) T3) (\<lambda>T4. Inr ((), T4))))))))))"

section \<open>Pins and effects\<close>

definition is_pin :: "string \<Rightarrow> bool" where
  "is_pin effect \<longleftrightarrow> effect = ''PINNED'' \<or> effect = ''UNPINNED''"

text \<open>The newest pin state; rows that tie are in the order of their ids.\<close>

definition latestPinState :: "'z convTables_scheme \<Rightarrow> string \<Rightarrow> string \<Rightarrow> string" where
  "latestPinState T messageID conv =
     (case rev (sort_key ef_at (filter (\<lambda>e. ef_message_id e = messageID \<and> ef_conversation_id e = conv \<and> is_pin (ef_type e))
              (tb_effects T))) of
        [] \<Rightarrow> [] | e # _ \<Rightarrow> ef_type e)"

definition insert_effect :: "time \<Rightarrow> string \<Rightarrow> string \<Rightarrow> string \<Rightarrow> string \<Rightarrow> 'z convTables_scheme \<Rightarrow> 'z convTables_scheme" where
  "insert_effect now mid conv user ty T =
     T\<lparr>tb_effects := tb_effects T @ [\<lparr>ef_message_id = mid, ef_conversation_id = conv, ef_user_id = user, ef_type = ty, ef_at = now\<rparr>]\<rparr>"

definition pinnable :: "time \<Rightarrow> messageRow \<Rightarrow> bool" where
  "pinnable now m \<longleftrightarrow> mg_deleted_at m = None \<and> \<not> equal_fold (mg_visibility m) ''SOFT_DELETED''
     \<and> \<not> equal_fold (mg_visibility m) ''REDACTED'' \<and> \<not> expired_at now m"

definition SetMessagePinned ::
  "'e msgEnv_scheme \<Rightarrow> time \<Rightarrow> string \<Rightarrow> string \<Rightarrow> bool \<Rightarrow> 'z convTables_scheme \<Rightarrow> msgError + unit \<times> 'z convTables_scheme" where
  "SetMessagePinned E now actorUserID messageID pinned T =
     try_then (or_error (MsgError ''message_not_found'') (find_message T messageID)) (\<lambda>m.
     (let conv = mg_conversation_id m in
      try_then (require (MsgError ''message_not_pinnable'') (pinnable now m)) (\<lambda>_.
      try_then (require ConversationAccess (hasMembership T actorUserID conv)) (\<lambda>_.
      (let state = latestPinState T messageID conv; ty = (if pinned then ''PINNED'' else ''UNPINNED'') in
       if pinned = (state = ''PINNED'') then Inr ((), T)
       else try_then (append_effect E now conv actorUserID messageID ty
                        (touch_conversation now conv (insert_effect now messageID conv actorUserID ty T))) (\<lambda>T1. Inr ((), T1)))))))"

definition TriggerEffect ::
  "'e msgEnv_scheme \<Rightarrow> time \<Rightarrow> string \<Rightarrow> string \<Rightarrow> string \<Rightarrow> 'z convTables_scheme \<Rightarrow> msgError + unit \<times> 'z convTables_scheme" where
  "TriggerEffect E now actorUserID messageID effectType T =
     try_then (require InvalidMessageEffectType (isSupportedMessageEffectType effectType)) (\<lambda>_.
     try_then (or_error (MsgError ''message_not_found'') (find_message T messageID)) (\<lambda>m.
     (let conv = mg_conversation_id m in
      try_then (require ConversationAccess (hasMembership T actorUserID conv)) (\<lambda>_.
      try_then (or_error MsgDbError (find_conversation T conv)) (\<lambda>c.
      try_then (require (MsgError ''effects_disabled'') (cv_allow_effects c \<noteq> Some False)) (\<lambda>_.
      try_then (append_effect E now conv actorUserID messageID effectType
                  (insert_effect now messageID conv actorUserID effectType T)) (\<lambda>T1. Inr ((), T1))))))))"

section \<open>Reactions\<close>

definition listReactions :: "'z convTables_scheme \<Rightarrow> string \<Rightarrow> (string \<times> int) list" where
  "listReactions T messageID =
     (let es = map rx_emoji (filter (\<lambda>r. rx_message_id r = messageID) (tb_reactions T)) in
      map (\<lambda>e. (e, int (count_list es e))) (remdups es))"

definition reaction_payload ::
  "'e msgEnv_scheme \<Rightarrow> time \<Rightarrow> messageRow \<Rightarrow> (string \<times> int) list \<Rightarrow> string \<times> string list \<times> string list \<Rightarrow> MessageReactionsPayload" where
  "reaction_payload E now m reactions meta =
     \<lparr>xp_MessageID = mg_id m, xp_ConversationID = mg_conversation_id m, xp_ConversationType = fst meta,
      xp_ServerOrder = mg_server_order m, xp_Participants = clone_slice (fst (snd meta)),
      xp_ExternalPhones = clone_slice (snd (snd meta)), xp_Reactions = Some reactions, xp_ActedAt = ev_rfc3339nano E now\<rparr>"

definition reaction_event :: "'z convTables_scheme \<Rightarrow> time \<Rightarrow> string \<Rightarrow> messageRow \<Rightarrow> string \<Rightarrow> string \<Rightarrow> reactionEventRow" where
  "reaction_event T now user m emoji action =
     \<lparr>re_message_id = mg_id m, re_conversation_id = mg_conversation_id m, re_acted_by = user, re_emoji = emoji,
      re_action = action, re_sent_at = Some (mg_created_at m),
      re_delivered_at = delivered_meta T user (mg_conversation_id m) (mg_server_order m),
      re_read_at = read_meta T user (mg_conversation_id m) (mg_server_order m), re_acted_at = now\<rparr>"

text \<open>The history row and the domain event of a change.\<close>

definition reaction_changed ::
  "'e msgEnv_scheme \<Rightarrow> time \<Rightarrow> string \<Rightarrow> messageRow \<Rightarrow> string \<Rightarrow> string \<Rightarrow> 'z convTables_scheme
   \<Rightarrow> msgError + unit \<times> 'z convTables_scheme" where
  "reaction_changed E now user m emoji action T =
     (let T1 = T\<lparr>tb_reaction_events := tb_reaction_events T @ [reaction_event T now user m emoji action]\<rparr> in
      try_then (append_with_meta E now (mg_conversation_id m) user ''message_reactions_updated''
                  (\<lambda>meta. reactions_json (reaction_payload E now m (listReactions T1 (mg_id m)) meta)) T1) (\<lambda>T2. Inr ((), T2)))"

definition is_reaction :: "string \<Rightarrow> string \<Rightarrow> string \<Rightarrow> reactionRow \<Rightarrow> bool" where
  "is_reaction mid user emoji r \<longleftrightarrow> rx_message_id r = mid \<and> rx_user_id r = user \<and> rx_emoji r = emoji"

definition reaction_target ::
  "'z convTables_scheme \<Rightarrow> string \<Rightarrow> string \<Rightarrow> string \<Rightarrow> msgError + messageRow" where
  "reaction_target T actorUserID messageID emoji =
     try_then (or_error MsgDbError (find_message T messageID)) (\<lambda>m.
     try_then (require MsgDbError (find_conversation T (mg_conversation_id m) \<noteq> None)) (\<lambda>_.
     try_then (require ConversationAccess (hasMembership T actorUserID (mg_conversation_id m))) (\<lambda>_.
     try_then (require MsgDbError (pg_text emoji)) (\<lambda>_. Inr m))))"

definition AddReaction ::
  "'e msgEnv_scheme \<Rightarrow> time \<Rightarrow> string \<Rightarrow> string \<Rightarrow> string \<Rightarrow> 'z convTables_scheme \<Rightarrow> msgError + unit \<times> 'z convTables_scheme" where
  "AddReaction E now actorUserID messageID emoji T =
     try_then (reaction_target T actorUserID messageID emoji) (\<lambda>m.
       if list_ex (is_reaction messageID actorUserID emoji) (tb_reactions T) then Inr ((), T)
       else reaction_changed E now actorUserID m emoji ''added''
         (T\<lparr>tb_reactions := tb_reactions T @ [\<lparr>rx_message_id = messageID, rx_user_id = actorUserID, rx_emoji = emoji\<rparr>]\<rparr>))"

definition RemoveReaction ::
  "'e msgEnv_scheme \<Rightarrow> time \<Rightarrow> string \<Rightarrow> string \<Rightarrow> string \<Rightarrow> 'z convTables_scheme \<Rightarrow> msgError + unit \<times> 'z convTables_scheme" where
  "RemoveReaction E now actorUserID messageID emoji T =
     try_then (reaction_target T actorUserID messageID emoji) (\<lambda>m.
       if \<not> list_ex (is_reaction messageID actorUserID emoji) (tb_reactions T) then Inr ((), T)
       else reaction_changed E now actorUserID m emoji ''removed''
         (T\<lparr>tb_reactions := filter (\<lambda>r. \<not> is_reaction messageID actorUserID emoji r) (tb_reactions T)\<rparr>))"

section \<open>Read marks\<close>

definition read_member :: "time \<Rightarrow> int \<Rightarrow> memberRow \<Rightarrow> memberRow" where
  "read_member now through m =
     m\<lparr>cm_last_read := max (cm_last_read m) through,
       cm_last_read_at := (if through > cm_last_read m then Some now else cm_last_read_at m),
       cm_read_at := Some now\<rparr>"

definition new_receipts :: "'z convTables_scheme \<Rightarrow> time \<Rightarrow> string \<Rightarrow> string \<Rightarrow> int \<Rightarrow> receiptRow list" where
  "new_receipts T now reader conv through =
     map (\<lambda>m. \<lparr>rr_message_id = mg_id m, rr_reader = reader, rr_read_at = now\<rparr>)
       (filter (\<lambda>m. mg_conversation_id m = conv \<and> mg_server_order m \<le> through \<and> mg_sender m \<noteq> reader
          \<and> \<not> list_ex (\<lambda>r. rr_message_id r = mg_id m \<and> rr_reader r = reader) (tb_receipts T)) (tb_messages T))"

definition expires_on_read :: "string \<Rightarrow> string \<Rightarrow> int \<Rightarrow> messageRow \<Rightarrow> bool" where
  "expires_on_read reader conv through m \<longleftrightarrow> mg_conversation_id m = conv \<and> mg_server_order m \<le> through
     \<and> mg_sender m \<noteq> reader \<and> json_text (map_of (obj_or_nil (Some (mg_content m))) ''expires_on_read'') = Some ''true''
     \<and> mg_deleted_at m = None \<and> mg_visibility m \<noteq> ''SOFT_DELETED'' \<and> mg_visibility m \<noteq> ''REDACTED''"

definition expire_row :: "time \<Rightarrow> messageRow \<Rightarrow> messageRow" where
  "expire_row now r = r\<lparr>mg_expires_at := (case mg_expires_at r of
       None \<Rightarrow> Some now | Some t \<Rightarrow> if t > now then Some now else Some t)\<rparr>"

definition MarkRead ::
  "'e msgEnv_scheme \<Rightarrow> time \<Rightarrow> string \<Rightarrow> string \<Rightarrow> int \<Rightarrow> 'z convTables_scheme \<Rightarrow> msgError + unit \<times> 'z convTables_scheme" where
  "MarkRead E now actor conv through T =
     (if through \<le> 0 then Inr ((), T)
      else if \<not> hasMembership T actor conv then Inl ConversationAccess
      else
      (let T1 = T\<lparr>tb_members := update_where (\<lambda>m. cm_conversation_id m = conv \<and> cm_user_id m = actor)
                    (read_member now through) (tb_members T)\<rparr>;
           T2 = T1\<lparr>tb_receipts := tb_receipts T1 @ new_receipts T1 now actor conv through\<rparr>;
           T3 = T2\<lparr>tb_messages := update_where (expires_on_read actor conv through) (expire_row now) (tb_messages T2)\<rparr>;
           T4 = touch_conversation now conv T3 in
       if \<not> mv_replicated E then Inr ((), T4)
       else try_then (or_error MsgDbError (AppendDomainEvent now conv actor ''read_checkpoint_advanced''
              (read_json \<lparr>kp_ConversationID = conv, kp_UserID = actor, kp_ThroughServerOrder = through,
                          kp_At = ev_rfc3339nano E now\<rparr>) T4)) (\<lambda>T5. Inr ((), T5))))"

section \<open>Deliveries\<close>

record DeliveryRecord =
  dr_RecipientUserID :: string
  dr_RecipientDeviceID :: string
  dr_RecipientPhone :: string
  dr_Transport :: string
  dr_State :: string
  dr_Provider :: string
  dr_SubmittedAt :: string
  dr_UpdatedAt :: string
  dr_FailureCode :: string

definition RecordDelivery ::
  "'e msgEnv_scheme \<Rightarrow> time \<Rightarrow> string \<Rightarrow> DeliveryRecord \<Rightarrow> 'z msgTables_scheme \<Rightarrow> msgError + unit \<times> 'z msgTables_scheme" where
  "RecordDelivery E now messageID d T =
     (let submitted = (if dr_SubmittedAt d = [] then Some None else map_option Some (ev_timestamptz E (dr_SubmittedAt d))) in
      if find_message T messageID = None \<or> submitted = None
         \<or> \<not> list_all pg_text [dr_RecipientPhone d, dr_Transport d, dr_State d, dr_Provider d, dr_FailureCode d]
      then Inl MsgDbError
      else Inr ((), T\<lparr>tb_deliveries := tb_deliveries T @ [\<lparr>dl_message_id = messageID,
             dl_recipient_user = null_if_empty (dr_RecipientUserID d), dl_recipient_device = null_if_empty (dr_RecipientDeviceID d),
             dl_recipient_phone = null_if_empty (dr_RecipientPhone d), dl_transport = dr_Transport d, dl_state = dr_State d,
             dl_provider = null_if_empty (dr_Provider d), dl_submitted_at = the submitted, dl_updated_at = now,
             dl_failure_code = null_if_empty (dr_FailureCode d)\<rparr>]\<rparr>))"

text \<open>A null phone, provider or failure code cannot be scanned into a string.\<close>

definition scan_delivery :: "'e msgEnv_scheme \<Rightarrow> deliveryRow \<Rightarrow> DeliveryRecord option" where
  "scan_delivery E d =
     (case (dl_recipient_phone d, dl_provider d, dl_failure_code d) of
        (Some phone, Some provider, Some code) \<Rightarrow> Some \<lparr>dr_RecipientUserID = or_else (dl_recipient_user d) [],
          dr_RecipientDeviceID = or_else (dl_recipient_device d) [], dr_RecipientPhone = phone, dr_Transport = dl_transport d,
          dr_State = dl_state d, dr_Provider = provider,
          dr_SubmittedAt = (case dl_submitted_at d of None \<Rightarrow> [] | Some t \<Rightarrow> ev_rfc3339 E t),
          dr_UpdatedAt = ev_rfc3339 E (dl_updated_at d), dr_FailureCode = code\<rparr>
      | _ \<Rightarrow> None)"

fun scan_all :: "('r \<Rightarrow> 'x option) \<Rightarrow> 'r list \<Rightarrow> 'x list option" where
  "scan_all f [] = Some []"
| "scan_all f (r # rs) = (case f r of None \<Rightarrow> None | Some x \<Rightarrow> map_option (\<lambda>xs. x # xs) (scan_all f rs))"

definition ListDeliveries :: "'e msgEnv_scheme \<Rightarrow> string \<Rightarrow> 'z msgTables_scheme \<Rightarrow> msgError + DeliveryRecord list" where
  "ListDeliveries E messageID T =
     or_error MsgDbError (scan_all (scan_delivery E)
       (sort_key dl_updated_at (filter (\<lambda>d. dl_message_id d = messageID) (tb_deliveries T))))"

definition pending_deliveries :: "'z msgTables_scheme \<Rightarrow> string \<Rightarrow> messageRow list" where
  "pending_deliveries T user =
     sort_key mg_created_at (filter (\<lambda>m. find_member T (mg_conversation_id m) user \<noteq> None \<and> mg_sender m \<noteq> user
        \<and> (mg_transport m = ''OTT'' \<or> mg_transport m = ''OHMF'')
        \<and> \<not> list_ex (\<lambda>d. dl_message_id d = mg_id m \<and> dl_recipient_user d = Some user \<and> dl_state d = ''DELIVERED'')
              (tb_deliveries T)) (tb_messages T))"

definition delivered_event :: "'e msgEnv_scheme \<Rightarrow> time \<Rightarrow> string \<Rightarrow> messageRow \<Rightarrow> json" where
  "delivered_event E now user m = JObj [(''sender_user_id'', JStr (mg_sender m)), (''recipient_user_id'', JStr user),
     (''message_id'', JStr (mg_id m)), (''conversation_id'', JStr (mg_conversation_id m)),
     (''server_order'', json_int (mg_server_order m)), (''status'', JStr ''DELIVERED''),
     (''status_updated_at'', JStr (ev_rfc3339nano E now))]"

fun deliver_all ::
  "'e msgEnv_scheme \<Rightarrow> time \<Rightarrow> string \<Rightarrow> messageRow list \<Rightarrow> 'z msgTables_scheme \<Rightarrow> json list \<times> 'z msgTables_scheme" where
  "deliver_all E now user [] T = ([], T)"
| "deliver_all E now user (m # ms) T =
     (case deliver_once now (mg_id m) user (mg_transport m) T of (inserted, T1) \<Rightarrow>
        (case deliver_all E now user ms T1 of (events, T2) \<Rightarrow>
           (if inserted then delivered_event E now user m # events else events, T2)))"

definition DeliverPendingToUser ::
  "'e msgEnv_scheme \<Rightarrow> time \<Rightarrow> string \<Rightarrow> 'z msgTables_scheme \<Rightarrow> json list \<times> 'z msgTables_scheme" where
  "DeliverPendingToUser E now user T = deliver_all E now user (pending_deliveries T user) T"

end
