(* ===== verification/MessageViews.thy ===== *)
theory MessageViews
  imports MessageOps
begin

text \<open>
  Reading messages (\<open>gateway/internal/messages/service.go\<close>): the list of a conversation, the timeline that
  mixes in carrier messages, replies, pins, histories and read states, and forwarding, which reads a
  message and sends it again.
\<close>

section \<open>One message\<close>

definition hidden_message :: "time \<Rightarrow> messageRow \<Rightarrow> bool" where
  "hidden_message now m \<longleftrightarrow> mg_deleted_at m \<noteq> None \<or> mg_visibility m \<in> set [''SOFT_DELETED'', ''REDACTED''] \<or> expired_at now m"

definition view_content :: "time \<Rightarrow> messageRow \<Rightarrow> content" where
  "view_content now m = (if hidden_message now m then Some [] else as_obj (Some (mg_content m)))"

definition view_visibility :: "time \<Rightarrow> messageRow \<Rightarrow> string" where
  "view_visibility now m =
     (if mg_deleted_at m \<noteq> None then mg_visibility m else if expired_at now m then ''EXPIRED'' else mg_visibility m)"

definition reply_count :: "'z convTables_scheme \<Rightarrow> time \<Rightarrow> string \<Rightarrow> int" where
  "reply_count T now mid = int (length (filter (\<lambda>m. mg_reply_to m = Some mid \<and> live_message now m) (tb_messages T)))"

definition applyMessageLifecycle :: "'e msgEnv_scheme \<Rightarrow> time \<Rightarrow> messageRow \<Rightarrow> Message \<Rightarrow> Message" where
  "applyMessageLifecycle E now row m0 =
     (let m = (case mg_expires_at row of None \<Rightarrow> m0 | Some t \<Rightarrow> m0\<lparr>ms_ExpiresAt := ev_rfc3339nano E t\<rparr>) in
      case mg_deleted_at row of
        Some t \<Rightarrow> m\<lparr>ms_Deleted := True, ms_DeletedAt := ev_rfc3339nano E t, ms_Content := Some []\<rparr>
      | None \<Rightarrow>
          if expired_at now row
          then m\<lparr>ms_Deleted := True, ms_DeletedAt := (case mg_expires_at row of None \<Rightarrow> [] | Some t \<Rightarrow> ev_rfc3339nano E t),
                 ms_VisibilityState := ''EXPIRED'', ms_Content := Some []\<rparr>
          else if ms_VisibilityState m = ''SOFT_DELETED'' \<or> ms_VisibilityState m = ''REDACTED''
          then m\<lparr>ms_Deleted := True, ms_Content := Some []\<rparr>
          else m)"

text \<open>The columns that every list reads.\<close>

definition row_view :: "'e msgEnv_scheme \<Rightarrow> time \<Rightarrow> 'z convTables_scheme \<Rightarrow> string \<Rightarrow> messageRow \<Rightarrow> Message" where
  "row_view E now T visibility m =
     empty_msg\<lparr>ms_MessageID := mg_id m, ms_ConversationID := mg_conversation_id m, ms_SenderUserID := mg_sender m,
       ms_SenderDeviceID := or_else (mg_sender_device m) [], ms_ReplyToMessageID := or_else (mg_reply_to m) [],
       ms_ReplyCount := reply_count T now (mg_id m), ms_ContentType := mg_content_type m,
       ms_Content := view_content now m, ms_ClientGeneratedID := or_else (mg_client_generated_id m) [],
       ms_Transport := mg_transport m, ms_ServerOrder := mg_server_order m, ms_CreatedAt := ev_rfc3339 E (mg_created_at m),
       ms_EditedAt := (case mg_edited_at m of None \<Rightarrow> [] | Some t \<Rightarrow> ev_rfc3339 E t), ms_VisibilityState := visibility\<rparr>"

definition plain_view :: "'e msgEnv_scheme \<Rightarrow> time \<Rightarrow> 'z convTables_scheme \<Rightarrow> string \<Rightarrow> string \<Rightarrow> messageRow \<Rightarrow> Message" where
  "plain_view E now T visibility source m =
     applyMessageLifecycle E now m ((row_view E now T visibility m)\<lparr>ms_Source := source\<rparr>)"

definition delivery_status :: "'z convTables_scheme \<Rightarrow> string \<Rightarrow> messageRow \<Rightarrow> string" where
  "delivery_status T actor m =
     (let ott = (mg_transport m = ''OTT'' \<or> mg_transport m = ''OHMF'') in
      if mg_sender m \<noteq> actor then []
      else if ott \<and> read_meta T actor (mg_conversation_id m) (mg_server_order m) \<noteq> None then ''READ''
      else if ott \<and> delivered_meta T actor (mg_conversation_id m) (mg_server_order m) \<noteq> None then ''DELIVERED''
      else ''SENT'')"

text \<open>The view with reactions and the state of delivery (\<open>List\<close> and \<open>loadMessageViewByID\<close>).\<close>

definition full_view :: "'e msgEnv_scheme \<Rightarrow> time \<Rightarrow> 'z convTables_scheme \<Rightarrow> string \<Rightarrow> messageRow \<Rightarrow> Message" where
  "full_view E now T actor m =
     (let status = delivery_status T actor m; created = ev_rfc3339 E (mg_created_at m);
          print = (\<lambda>t. case t of None \<Rightarrow> [] | Some t \<Rightarrow> ev_rfc3339 E t);
          delivered = print (delivered_meta T actor (mg_conversation_id m) (mg_server_order m));
          read = print (read_meta T actor (mg_conversation_id m) (mg_server_order m));
          v = applyMessageLifecycle E now m ((row_view E now T (view_visibility now m) m)
                \<lparr>ms_Reactions := Some (listReactions T (mg_id m)), ms_Status := status, ms_SentAt := created,
                 ms_DeliveredAt := delivered, ms_ReadAt := read\<rparr>)
      in v\<lparr>ms_StatusUpdatedAt := (if status = ''READ'' then read else if status = ''DELIVERED'' then delivered
                                  else if status = ''SENT'' then created else [])\<rparr>)"

definition loadMessageViewByID ::
  "'e msgEnv_scheme \<Rightarrow> time \<Rightarrow> 'z convTables_scheme \<Rightarrow> string \<Rightarrow> string \<Rightarrow> msgError + Message" where
  "loadMessageViewByID E now T actorUserID messageID =
     try_then (or_error (MsgError ''message_not_found'') (find_message T messageID)) (\<lambda>m.
     try_then (require ConversationAccess (hasMembership T actorUserID (mg_conversation_id m))) (\<lambda>_.
       Inr (full_view E now T actorUserID m)))"

section \<open>Lists\<close>

definition conversation_rows :: "'z convTables_scheme \<Rightarrow> string \<Rightarrow> messageRow list" where
  "conversation_rows T conv = sort_key mg_server_order (filter (\<lambda>m. mg_conversation_id m = conv) (tb_messages T))"

definition conversationHasTombstones :: "'z convTables_scheme \<Rightarrow> string \<Rightarrow> bool" where
  "conversationHasTombstones T conv \<longleftrightarrow> list_ex (\<lambda>m. mg_conversation_id m = conv
     \<and> (mg_deleted_at m \<noteq> None \<or> mg_visibility m = ''SOFT_DELETED'')) (tb_messages T)"

text \<open>\<open>cassandra\<close> is what the Cassandra store answers, when reads go there and it answers.\<close>

definition MessageList ::
  "'e msgEnv_scheme \<Rightarrow> time \<Rightarrow> Message list option \<Rightarrow> 'z convTables_scheme \<Rightarrow> string \<Rightarrow> string \<Rightarrow> msgError + Message list" where
  "MessageList E now cassandra T actor conv =
     try_then (require ConversationAccess (hasMembership T actor conv)) (\<lambda>_.
       case (if conversationHasTombstones T conv then None else cassandra) of
         Some (m # ms) \<Rightarrow> Inr (m # ms)
       | _ \<Rightarrow> Inr (map (full_view E now T actor) (take 100 (conversation_rows T conv))))"

definition unified_limit :: "int \<Rightarrow> nat" where
  "unified_limit limit = (if limit \<le> 0 \<or> limit > 500 then 100 else nat limit)"

text \<open>A null key, carrier id or text of a carrier message cannot be scanned into a string.\<close>

definition scan_carrier :: "'e msgEnv_scheme \<Rightarrow> string \<Rightarrow> carrierRow \<Rightarrow> Message option" where
  "scan_carrier E conv c =
     (case (ca_thread_key c, ca_carrier_message_id c, ca_text c) of
        (Some _, Some _, Some text) \<Rightarrow> Some (empty_msg\<lparr>ms_MessageID := ca_id c, ms_ConversationID := conv,
          ms_ContentType := ''media'',
          ms_Content := Some ((if text \<noteq> [] then [(''text'', JStr text)] else [])
             @ (case ca_media c of None \<Rightarrow> [] | Some j \<Rightarrow> [(''media'', j)])),
          ms_Transport := ca_transport c, ms_CreatedAt := ev_rfc3339 E (ca_created_at c), ms_Source := ''CARRIER''\<rparr>)
      | _ \<Rightarrow> None)"

definition carrier_rows :: "'z msgTables_scheme \<Rightarrow> string \<Rightarrow> string list \<Rightarrow> nat \<Rightarrow> carrierRow list" where
  "carrier_rows T conv messageIDs limit =
     (let keys = map snd (filter (\<lambda>(c, k). c = conv) (tb_thread_keys T)) in
      take limit (sort_key ca_created_at (filter (\<lambda>c.
        (case ca_thread_key c of None \<Rightarrow> False | Some k \<Rightarrow> k \<in> set keys)
        \<or> (case ca_server_message_id c of None \<Rightarrow> False | Some mid \<Rightarrow> mid \<in> set messageIDs)) (tb_carrier T))))"

definition parsed_created :: "'e msgEnv_scheme \<Rightarrow> Message \<Rightarrow> time" where
  "parsed_created E m = or_else (mv_parse_time E (ms_CreatedAt m)) 0"

definition ListUnified ::
  "'e msgEnv_scheme \<Rightarrow> time \<Rightarrow> 'z msgTables_scheme \<Rightarrow> string \<Rightarrow> string \<Rightarrow> int \<Rightarrow> msgError + Message list" where
  "ListUnified E now T actor conv limit0 =
     try_then (require ConversationAccess (hasMembership T actor conv)) (\<lambda>_.
     (let limit = unified_limit limit0; rows = take limit (conversation_rows T conv);
          items = map (\<lambda>m. plain_view E now T (mg_visibility m) ''SERVER'' m) rows in
      try_then (or_error MsgDbError (scan_all (scan_carrier E conv) (carrier_rows T conv (map mg_id rows) limit))) (\<lambda>carrier.
        Inr (take limit (sort_key (parsed_created E) (items @ carrier))))))"

definition ListReplies ::
  "'e msgEnv_scheme \<Rightarrow> time \<Rightarrow> 'z convTables_scheme \<Rightarrow> string \<Rightarrow> string \<Rightarrow> msgError + Message list" where
  "ListReplies E now T actorUserID messageID =
     try_then (loadMessageViewByID E now T actorUserID messageID) (\<lambda>parent.
       Inr (map (\<lambda>m. plain_view E now T (view_visibility now m) [] m)
         (filter (\<lambda>m. mg_reply_to m = Some messageID) (conversation_rows T (ms_ConversationID parent)))))"

text \<open>The newest pin or unpin of each message, in the order of the messages' ids.\<close>

definition pin_states :: "'z convTables_scheme \<Rightarrow> string \<Rightarrow> effectRow list" where
  "pin_states T conv =
     (let rows = filter (\<lambda>e. ef_conversation_id e = conv \<and> is_pin (ef_type e)) (tb_effects T) in
      map (\<lambda>mid. hd (rev (sort_key ef_at (filter (\<lambda>e. ef_message_id e = mid) rows))))
        (sort (remdups (map ef_message_id rows))))"

definition pinned_view :: "'e msgEnv_scheme \<Rightarrow> time \<Rightarrow> 'z convTables_scheme \<Rightarrow> string \<Rightarrow> effectRow \<Rightarrow> Message list" where
  "pinned_view E now T actorUserID pin =
     (case loadMessageViewByID E now T actorUserID (ef_message_id pin) of
        Inl _ \<Rightarrow> []
      | Inr msg \<Rightarrow> if ms_Deleted msg \<or> equal_fold (ms_VisibilityState msg) ''EXPIRED'' then []
          else [msg\<lparr>ms_PinnedAt := ev_rfc3339nano E (ef_at pin), ms_PinnedByUserID := ef_user_id pin\<rparr>])"

text \<open>The newest pin first; pins of one instant in the order of the conversation.\<close>

definition ListPinnedMessages ::
  "'e msgEnv_scheme \<Rightarrow> time \<Rightarrow> 'z convTables_scheme \<Rightarrow> string \<Rightarrow> string \<Rightarrow> msgError + Message list" where
  "ListPinnedMessages E now T actorUserID conv =
     try_then (require ConversationAccess (hasMembership T actorUserID conv)) (\<lambda>_.
       Inr (sort_key (\<lambda>m. (- or_else (mv_parse_time E (ms_PinnedAt m)) 0, ms_ServerOrder m))
         (concat (map (pinned_view E now T actorUserID)
            (filter (\<lambda>e. ef_type e = ''PINNED'') (pin_states T conv))))))"

section \<open>Histories\<close>

record EditRecord =
  er_EditedAt :: string
  er_SentAt :: string
  er_DeliveredAt :: string
  er_ReadAt :: string
  er_PreviousContent :: content
  er_NewContent :: content
  er_EditedBy :: string

definition scan_object :: "json \<Rightarrow> content option" where
  "scan_object j = (case j of JObj m \<Rightarrow> Some (Some m) | JNull \<Rightarrow> Some None | _ \<Rightarrow> None)"

definition print_time :: "'e msgEnv_scheme \<Rightarrow> time option \<Rightarrow> string" where
  "print_time E t = (case t of None \<Rightarrow> [] | Some t \<Rightarrow> ev_rfc3339nano E t)"

definition first_of :: "'a option \<Rightarrow> 'a option \<Rightarrow> 'a option" where
  "first_of x y = (case x of None \<Rightarrow> y | Some _ \<Rightarrow> x)"

definition scan_edit :: "'e msgEnv_scheme \<Rightarrow> 'z convTables_scheme \<Rightarrow> messageRow \<Rightarrow> editRow \<Rightarrow> EditRecord option" where
  "scan_edit E T m e =
     (case (scan_object (ed_previous_content e), scan_object (ed_new_content e)) of
        (Some previous, Some new) \<Rightarrow> Some
          \<lparr>er_EditedAt = ev_rfc3339nano E (ed_edited_at e),
           er_SentAt = print_time E (first_of (ed_sent_at e) (Some (mg_created_at m))),
           er_DeliveredAt = print_time E (first_of (ed_delivered_at e)
              (delivered_meta T (mg_sender m) (mg_conversation_id m) (mg_server_order m))),
           er_ReadAt = print_time E (first_of (ed_read_at e)
              (read_meta T (mg_sender m) (mg_conversation_id m) (mg_server_order m))),
           er_PreviousContent = previous, er_NewContent = new, er_EditedBy = ed_edited_by e\<rparr>
      | _ \<Rightarrow> None)"

definition GetMessageEditHistory ::
  "'e msgEnv_scheme \<Rightarrow> 'z convTables_scheme \<Rightarrow> string \<Rightarrow> string \<Rightarrow> msgError + EditRecord list" where
  "GetMessageEditHistory E T actorUserID messageID =
     try_then (or_error (MsgError ''message_not_found'') (find_message T messageID)) (\<lambda>m.
     try_then (require ConversationAccess (hasMembership T actorUserID (mg_conversation_id m))) (\<lambda>_.
       or_error MsgDbError (scan_all (scan_edit E T m)
         (sort_desc ed_edited_at (filter (\<lambda>e. ed_message_id e = messageID) (tb_edits T))))))"

record ReactionHistoryRecord =
  rh_ActedAt :: string
  rh_SentAt :: string
  rh_DeliveredAt :: string
  rh_ReadAt :: string
  rh_Emoji :: string
  rh_Action :: string
  rh_ActedBy :: string

definition reaction_history_record :: "'e msgEnv_scheme \<Rightarrow> reactionEventRow \<Rightarrow> ReactionHistoryRecord" where
  "reaction_history_record E r =
     \<lparr>rh_ActedAt = ev_rfc3339nano E (re_acted_at r), rh_SentAt = print_time E (re_sent_at r),
      rh_DeliveredAt = print_time E (re_delivered_at r), rh_ReadAt = print_time E (re_read_at r),
      rh_Emoji = re_emoji r, rh_Action = re_action r, rh_ActedBy = re_acted_by r\<rparr>"

definition GetMessageReactionHistory ::
  "'e msgEnv_scheme \<Rightarrow> 'z convTables_scheme \<Rightarrow> string \<Rightarrow> string \<Rightarrow> msgError + ReactionHistoryRecord list" where
  "GetMessageReactionHistory E T actorUserID messageID =
     try_then (or_error (MsgError ''message_not_found'') (find_message T messageID)) (\<lambda>m.
     try_then (require ConversationAccess (hasMembership T actorUserID (mg_conversation_id m))) (\<lambda>_.
       Inr (map (reaction_history_record E)
         (rev (sort_key re_acted_at (filter (\<lambda>r. re_message_id r = messageID) (tb_reaction_events T)))))))"

text \<open>The read state of every member: who read last comes first, nulls last.\<close>

record memberStatus =
  st_UserID :: string
  st_Phone :: string
  st_LastRead :: int
  st_LastDelivered :: int
  st_ReadAt :: "string option"
  st_DeliveryAt :: "string option"

definition nulls_last :: "time option \<Rightarrow> int \<times> int" where
  "nulls_last t = (case t of None \<Rightarrow> (0, 0) | Some t \<Rightarrow> (1, t))"

definition scan_status :: "'e msgEnv_scheme \<Rightarrow> 'z convTables_scheme \<Rightarrow> memberRow \<Rightarrow> memberStatus option" where
  "scan_status E T m =
     (case find (\<lambda>u. u_id u = cm_user_id m) (tb_users T) of
        None \<Rightarrow> None
      | Some u \<Rightarrow> map_option (\<lambda>phone. \<lparr>st_UserID = cm_user_id m, st_Phone = phone, st_LastRead = cm_last_read m,
            st_LastDelivered = cm_last_delivered m, st_ReadAt = map_option (ev_rfc3339 E) (cm_read_at m),
            st_DeliveryAt = map_option (ev_rfc3339 E) (cm_delivery_at m)\<rparr>) (u_phone u))"

definition GetConversationReadStatus ::
  "'e msgEnv_scheme \<Rightarrow> 'z convTables_scheme \<Rightarrow> string \<Rightarrow> string \<Rightarrow> msgError + memberStatus list" where
  "GetConversationReadStatus E T userID conv =
     try_then (require ConversationAccess (hasMembership T userID conv)) (\<lambda>_.
       or_error MsgDbError (scan_all (scan_status E T)
         (sort_desc (\<lambda>m. (nulls_last (cm_read_at m), nulls_last (cm_delivery_at m)))
           (filter (\<lambda>m. cm_conversation_id m = conv \<and> is_user T (cm_user_id m)) (tb_members T)))))"

section \<open>Forwarding\<close>

definition forwarded_content :: "Message \<Rightarrow> json gomap" where
  "forwarded_content m =
     AList.update ''forwarded_from'' (JObj
       [(''message_id'', JStr (ms_MessageID m)), (''conversation_id'', JStr (ms_ConversationID m)),
        (''sender_user_id'', JStr (ms_SenderUserID m)), (''content_type'', JStr (ms_ContentType m)),
        (''server_order'', json_int (ms_ServerOrder m)), (''created_at'', JStr (ms_CreatedAt m)),
        (''visibility_state'', JStr (ms_VisibilityState m)), (''client_generated'', JStr (ms_ClientGeneratedID m))])
       (filter (\<lambda>(k, v). k \<noteq> ''reply_to_message_id'') (stored_content (ms_Content m)))"

definition ForwardMessage ::
  "'e msgEnv_scheme \<Rightarrow> time \<Rightarrow> string \<Rightarrow> sendRequest \<Rightarrow> string \<Rightarrow> string \<Rightarrow> 'z msgTables_scheme
   \<Rightarrow> (msgError + SendResult) \<times> (string \<times> json) list \<times> 'z msgTables_scheme" where
  "ForwardMessage E now newID q sourceMessageID ip T =
     (case loadMessageViewByID E now T (rq_user q) sourceMessageID of
        Inl e \<Rightarrow> (Inl e, [], T)
      | Inr source \<Rightarrow>
          if ms_ConversationID source = [] then (Inl (MsgError ''message_not_found''), [], T)
          else if ms_Deleted source \<or> equal_fold (ms_VisibilityState source) ''SOFT_DELETED''
             \<or> equal_fold (ms_VisibilityState source) ''REDACTED''
          then (Inl (MsgError ''message_not_forwardable''), [], T)
          else case enforceSendRate E (rq_user q) (rq_conversation q) ip of
            Inl e \<Rightarrow> (Inl e, [], T)
          | Inr _ \<Rightarrow>
             (case after_send E now (in_tx (sendSyncWithEndpoint E now newID
                      (q\<lparr>rq_content_type := ms_ContentType source, rq_content := Some (forwarded_content source)\<rparr>)
                      ''/v1/messages/forward'' ''FORWARDED'') T) of
                (Inl e, pubs, T1) \<Rightarrow> (Inl e, pubs, T1)
              | (Inr msg, pubs, T1) \<Rightarrow> (Inr (direct_result msg), pubs, T1)))"

end
