(* ===== verification/MessageRows.thy ===== *)
theory MessageRows
  imports MessageViews
begin

text \<open>
  What the operations of the message service do to the rows of messages and to the counters of the
  conversations: a relation between the tables before and after, and that every way of sending keeps it.
\<close>

section \<open>What a request may do to messages\<close>

text \<open>What never changes of a stored message: its id, conversation, sender, reply target, type, client id, transport,
  order and time.\<close>

definition fixed_part :: "messageRow \<Rightarrow> messageRow" where
  "fixed_part m = m\<lparr>mg_sender_device := None, mg_content := JNull, mg_redacted_at := None, mg_deleted_at := None,
     mg_edited_at := None, mg_visibility := [], mg_expires_at := None, mg_is_encrypted := None, mg_encryption_scheme := None\<rparr>"

definition row_step :: "string set \<Rightarrow> messageRow \<Rightarrow> messageRow \<Rightarrow> bool" where
  "row_step U m m' \<longleftrightarrow> fixed_part m' = fixed_part m
     \<and> (mg_content m' \<noteq> mg_content m \<longrightarrow> mg_sender m \<in> U)
     \<and> (mg_deleted_at m \<noteq> None \<longrightarrow> mg_deleted_at m' \<noteq> None)
     \<and> (mg_deleted_at m' \<noteq> None \<longrightarrow> mg_content m' = JObj [] \<or> (mg_deleted_at m \<noteq> None \<and> mg_content m' = mg_content m))"

definition orders_of :: "'z convTables_scheme \<Rightarrow> string \<Rightarrow> int list" where
  "orders_of T conv = map mg_server_order (filter (\<lambda>m. mg_conversation_id m = conv) (tb_messages T))"

text \<open>The counter is the next order, and the orders are all those before it; a deleted message is empty.\<close>

definition orders_ok :: "int option \<Rightarrow> int list \<Rightarrow> bool" where
  "orders_ok counter orders \<longleftrightarrow> (case counter of None \<Rightarrow> orders = [] | Some n \<Rightarrow> 1 \<le> n \<and> orders = [1..n - 1])"

definition messages_wf :: "'z convTables_scheme \<Rightarrow> bool" where
  "messages_wf T \<longleftrightarrow> distinct (map mg_id (tb_messages T))
     \<and> (\<forall>m \<in> set (tb_messages T). mg_deleted_at m \<noteq> None \<longrightarrow> mg_content m = JObj [])
     \<and> (\<forall>conv. orders_ok (map_of (tb_counters T) conv) (orders_of T conv))"

text \<open>The rows are changed in place, and new ones come at the end.\<close>

definition rows_grown :: "string set \<Rightarrow> messageRow list \<Rightarrow> messageRow list \<Rightarrow> bool" where
  "rows_grown U xs ys \<longleftrightarrow> (\<exists>ms new. ys = ms @ new \<and> list_all2 (row_step U) xs ms \<and> mg_sender ` set new \<subseteq> U)"

definition history :: "string set \<Rightarrow> 'z convTables_scheme \<Rightarrow> 'z convTables_scheme \<Rightarrow> bool" where
  "history U T T1 \<longleftrightarrow> (messages_wf T \<longrightarrow> messages_wf T1) \<and> rows_grown U (tb_messages T) (tb_messages T1)"

lemma fixed_part_simps:
  assumes "fixed_part m' = fixed_part m"
  shows "mg_id m' = mg_id m" "mg_conversation_id m' = mg_conversation_id m" "mg_sender m' = mg_sender m"
    "mg_server_order m' = mg_server_order m" "mg_created_at m' = mg_created_at m" "mg_content_type m' = mg_content_type m"
    "mg_transport m' = mg_transport m"
proof -
  have "k (fixed_part m') = k (fixed_part m)" for k :: "messageRow \<Rightarrow> 'a" by (simp add: assms)
  from this [of mg_id] this [of mg_conversation_id] this [of mg_sender] this [of mg_server_order] this [of mg_created_at]
    this [of mg_content_type] this [of mg_transport]
  show "mg_id m' = mg_id m" "mg_conversation_id m' = mg_conversation_id m" "mg_sender m' = mg_sender m"
    "mg_server_order m' = mg_server_order m" "mg_created_at m' = mg_created_at m" "mg_content_type m' = mg_content_type m"
    "mg_transport m' = mg_transport m"
    by (simp_all add: fixed_part_def)
qed

lemma row_step_refl [simp]: "row_step U m m"
  by (simp add: row_step_def)

lemma row_step_trans: "row_step U m m1 \<Longrightarrow> row_step U m1 m2 \<Longrightarrow> row_step U m m2"
  using fixed_part_simps(3) [of m1 m] by (auto simp: row_step_def)

lemma row_step_mono: "row_step U m m' \<Longrightarrow> U \<subseteq> V \<Longrightarrow> row_step V m m'"
  by (auto simp: row_step_def)

lemma rows_same: "list_all2 (row_step U) xs ys \<Longrightarrow> rows_grown U xs ys"
  unfolding rows_grown_def by (rule exI [where x = ys], rule exI [where x = "[]"]) simp

lemma rows_grown_refl [simp]: "rows_grown U xs xs"
  by (simp add: rows_same list.rel_refl)

lemma rows_grown_append: "mg_sender row \<in> U \<Longrightarrow> rows_grown U xs (xs @ [row])"
  unfolding rows_grown_def by (rule exI [where x = xs], rule exI [where x = "[row]"]) (simp add: list.rel_refl)

lemma rows_grown_trans:
  assumes "rows_grown U xs ys" and "rows_grown U ys zs"
  shows "rows_grown U xs zs"
proof -
  obtain ms new where a: "ys = ms @ new" "list_all2 (row_step U) xs ms" "mg_sender ` set new \<subseteq> U"
    using assms(1) by (auto simp: rows_grown_def)
  obtain ms2 new2 where b: "zs = ms2 @ new2" "list_all2 (row_step U) ys ms2" "mg_sender ` set new2 \<subseteq> U"
    using assms(2) by (auto simp: rows_grown_def)
  from b(2) obtain us vs where c: "ms2 = us @ vs" "list_all2 (row_step U) ms us" "list_all2 (row_step U) new vs"
    unfolding a(1) by (auto simp: list_all2_append1)
  have "map mg_sender vs = map mg_sender new"
    using c(3) by (induction rule: list_all2_induct) (auto simp: row_step_def dest: fixed_part_simps)
  then have "mg_sender ` set vs \<subseteq> U" using a(3) by (metis set_map)
  moreover have "list_all2 (row_step U) xs us"
    by (rule list_all2_trans [OF _ a(2) c(2)]) (rule row_step_trans)
  ultimately show ?thesis unfolding rows_grown_def using b(1,3) c(1)
    by (intro exI [where x = us] exI [where x = "vs @ new2"]) auto
qed

lemma history_refl [simp]: "history U T T"
  by (simp add: history_def)

lemma history_trans: "history U T T1 \<Longrightarrow> history U T1 T2 \<Longrightarrow> history U T T2"
  by (auto simp: history_def intro: rows_grown_trans)

lemma history_mono: "history U T T1 \<Longrightarrow> U \<subseteq> V \<Longrightarrow> history V T T1"
  unfolding history_def rows_grown_def by (blast intro: list_all2_mono row_step_mono)

section \<open>Three kinds of steps\<close>

definition same_messages :: "'z convTables_scheme \<Rightarrow> 'z convTables_scheme \<Rightarrow> bool" where
  "same_messages T T1 \<longleftrightarrow> tb_messages T1 = tb_messages T \<and> tb_counters T1 = tb_counters T"

lemma same_messages_refl [simp]: "same_messages T T"
  by (simp add: same_messages_def)

lemma same_messages_trans: "same_messages T T1 \<Longrightarrow> same_messages T1 T2 \<Longrightarrow> same_messages T T2"
  by (simp add: same_messages_def)

lemma same_messages_history: "same_messages T T1 \<Longrightarrow> history U T T1"
  by (simp add: history_def same_messages_def messages_wf_def orders_of_def)

lemma orders_of_rows:
  assumes "list_all2 (row_step U) (tb_messages T) (tb_messages T1)"
  shows "orders_of T1 conv = orders_of T conv" "map mg_id (tb_messages T1) = map mg_id (tb_messages T)"
proof -
  have "list_all2 (row_step U) ms ms1 \<Longrightarrow>
    map mg_server_order (filter (\<lambda>m. mg_conversation_id m = conv) ms1) = map mg_server_order (filter (\<lambda>m. mg_conversation_id m = conv) ms)
    \<and> map mg_id ms1 = map mg_id ms" for ms ms1
    by (induction rule: list_all2_induct) (auto simp: row_step_def dest: fixed_part_simps)
  from this [OF assms] show "orders_of T1 conv = orders_of T conv" "map mg_id (tb_messages T1) = map mg_id (tb_messages T)"
    by (simp_all add: orders_of_def)
qed

lemma deleted_rows:
  assumes "list_all2 (row_step U) ms ms1" and "\<forall>m \<in> set ms. mg_deleted_at m \<noteq> None \<longrightarrow> mg_content m = JObj []"
  shows "\<forall>m \<in> set ms1. mg_deleted_at m \<noteq> None \<longrightarrow> mg_content m = JObj []"
  using assms by (induction rule: list_all2_induct) (auto simp: row_step_def)

lemma rows_history:
  assumes "list_all2 (row_step U) (tb_messages T) (tb_messages T1)" and "tb_counters T1 = tb_counters T"
  shows "history U T T1"
  using deleted_rows [OF assms(1)]
  by (simp add: history_def messages_wf_def assms(2) orders_of_rows [OF assms(1)] rows_same [OF assms(1)])

lemma update_where_history:
  assumes "\<And>m. m \<in> set (tb_messages T) \<Longrightarrow> P m \<Longrightarrow> row_step U m (f m)"
  shows "history U T (T\<lparr>tb_messages := update_where P f (tb_messages T)\<rparr>)"
proof (rule rows_history)
  have "(\<And>m. m \<in> set ms \<Longrightarrow> P m \<Longrightarrow> row_step U m (f m)) \<Longrightarrow> list_all2 (row_step U) ms (update_where P f ms)" for ms
    by (induction ms) auto
  from this [OF assms] show "list_all2 (row_step U) (tb_messages T) (tb_messages (T\<lparr>tb_messages := update_where P f (tb_messages T)\<rparr>))"
    by simp
qed simp

text \<open>A new conversation has a counter and no messages.\<close>

lemma new_counter_history:
  assumes "tb_messages T1 = tb_messages T" and "tb_counters T1 = tb_counters T @ [(conv, 1)]" and "map_of (tb_counters T) conv = None"
  shows "history U T T1"
proof -
  have "orders_of T1 c = orders_of T c" for c by (simp add: orders_of_def assms(1))
  moreover have "orders_ok (map_of (tb_counters T) c) os \<Longrightarrow> orders_ok (map_of (tb_counters T1) c) os" for c os
    using assms(2,3) by (auto simp: orders_ok_def map_add_def split: option.splits)
  ultimately have "messages_wf T \<Longrightarrow> messages_wf T1"
    using assms(1) by (simp add: messages_wf_def)
  then show ?thesis by (simp add: history_def assms(1))
qed

text \<open>A stored message takes the counter's value.\<close>

lemma stored_history:
  assumes "tb_messages T1 = tb_messages T @ [row]" and "mg_id row \<notin> mg_id ` set (tb_messages T)" and "mg_sender row \<in> U"
    and "mg_deleted_at row = None" and "map_of (tb_counters T) (mg_conversation_id row) = Some (mg_server_order row)"
    and "tb_counters T1 = AList.update (mg_conversation_id row) (mg_server_order row + 1) (tb_counters T)"
  shows "history U T T1"
proof -
  let ?conv = "mg_conversation_id row"
  have "messages_wf T1" if wf: "messages_wf T"
  proof -
    have n: "1 \<le> mg_server_order row" "orders_of T ?conv = [1..mg_server_order row - 1]"
      using wf assms(5) by (auto simp: messages_wf_def orders_ok_def dest: spec [where x = ?conv])
    have "orders_of T1 ?conv = [1..mg_server_order row]"
      using n upto_rec2 [of 1 "mg_server_order row"] by (simp add: orders_of_def assms(1))
    moreover have "orders_of T1 c = orders_of T c" if "c \<noteq> ?conv" for c using that by (simp add: orders_of_def assms(1))
    ultimately have "orders_ok (map_of (tb_counters T1) c) (orders_of T1 c)" for c
      using wf n(1) by (cases "c = ?conv") (simp_all add: messages_wf_def orders_ok_def assms(6) update_conv')
    then show ?thesis using wf assms(2,4) by (simp add: messages_wf_def assms(1))
  qed
  then show ?thesis by (simp add: history_def assms(1,3) rows_grown_append)
qed

section \<open>Statements beside the messages\<close>

lemma same_messages_updates [simp]:
  "same_messages T (T\<lparr>tb_edits := x1\<rparr>)" "same_messages T (T\<lparr>tb_attachments := x2\<rparr>)"
  "same_messages T (T\<lparr>tb_reactions := x3\<rparr>)" "same_messages T (T\<lparr>tb_reaction_events := x4\<rparr>)"
  "same_messages T (T\<lparr>tb_effects := x5\<rparr>)" "same_messages T (T\<lparr>tb_receipts := x6\<rparr>)"
  "same_messages T (T\<lparr>tb_members := x7\<rparr>)" "same_messages T (T\<lparr>tb_idempotency := x8\<rparr>)"
  "same_messages T (T\<lparr>tb_conversations := x9\<rparr>)" "same_messages T (touch_conversation now conv T)"
  "same_messages T (update_conversation conv f T)" "same_messages T (insert_effect now mid conv user ty T)"
  by (simp_all add: same_messages_def touch_conversation_def update_conversation_def insert_effect_def)

lemma same_messages_keys [simp]:
  fixes T :: "'z msgTables_scheme"
  shows "same_messages T (T\<lparr>tb_mls := x\<rparr>)" "same_messages T (T\<lparr>tb_deliveries := y\<rparr>)"
  by (simp_all add: same_messages_def)

lemma AppendDomainEvent_same: "AppendDomainEvent now conv actor ty p T = Some T1 \<Longrightarrow> same_messages T T1"
  by (auto simp: AppendDomainEvent_def same_messages_def split: if_splits)

lemma append_with_meta_same: "append_with_meta E now conv actor ty payload T = Inr T1 \<Longrightarrow> same_messages T T1"
  by (auto simp: append_with_meta_def AppendDomainEvent_same split: if_splits)

lemma append_effect_same: "append_effect E now conv actor mid ty T = Inr T1 \<Longrightarrow> same_messages T T1"
  by (auto simp: append_effect_def AppendMessageEffectEvent_def AppendDomainEvent_same split: if_splits option.splits)

lemma append_created_same: "append_created E now user m T = Inr T1 \<Longrightarrow> same_messages T T1"
  by (auto simp: append_created_def AppendDomainEvent_same split: if_splits)

lemma upsertIdempotency_same: "upsertIdempotency now user endpoint key m n T = Inr T1 \<Longrightarrow> same_messages T T1"
  by (auto simp: upsertIdempotency_def Let_def split: if_splits)

lemma mls_envelope_same:
  "validateMLSEncryptedConversationEnvelope C conv metadata epoch tree expected T = Inr T1 \<Longrightarrow> same_messages T T1"
  by (auto simp: validateMLSEncryptedConversationEnvelope_def Let_def split: if_splits)

lemma envelope_Inr:
  assumes "validateEncryptedConversationEnvelope C conv metadata T = Inr T1"
  obtains c where "find_conversation T conv = Some c" "em_ConversationEpoch metadata = cv_encryption_epoch c"
    "po_MLSEnabled (policy_of c) \<Longrightarrow> em_Scheme metadata = MLSEncryptionScheme
       \<and> validateMLSEncryptedConversationEnvelope C conv metadata (or_else (cv_mls_epoch c) 0)
           (BuildConversationMLSTree (membership_of T) conv (or_else (cv_mls_epoch c) 0))
           (map (\<lambda>leaf. device_key (leaf_UserID leaf) (leaf_DeviceID leaf))
             (GetGroupMembers (BuildConversationMLSTree (membership_of T) conv (or_else (cv_mls_epoch c) 0)))) T = Inr T1"
    "\<not> po_MLSEnabled (policy_of c) \<Longrightarrow> em_Scheme metadata = SignalEncryptionScheme \<and> T1 = T
       \<and> validateSignalEncryptedConversationEnvelope metadata
           (map (\<lambda>leaf. device_key (leaf_UserID leaf) (leaf_DeviceID leaf))
             (GetGroupMembers (BuildConversationMLSTree (membership_of T) conv (or_else (cv_mls_epoch c) 0)))) = Inr ()"
proof -
  obtain c where c: "find_conversation T conv = Some c"
    using assms by (auto simp: validateEncryptedConversationEnvelope_def)
  have e: "(case cv_mls_epoch c of None \<Rightarrow> 0 | Some e \<Rightarrow> e) = or_else (cv_mls_epoch c) 0" by (simp add: or_else_def split: option.splits)
  show thesis
  proof (cases "po_MLSEnabled (policy_of c)")
    case True
    then show ?thesis
      using assms by (intro that [OF c]) (simp_all only: validateEncryptedConversationEnvelope_def c e Let_def or_error_simps
        try_then_simps try_then_Inr require_Inr if_True, auto)
  next
    case False
    then show ?thesis
      using assms by (intro that [OF c]) (simp_all only: validateEncryptedConversationEnvelope_def c e Let_def or_error_simps
        try_then_simps try_then_Inr require_Inr if_False, auto)
  qed
qed

lemma envelope_same: "validateEncryptedConversationEnvelope C conv metadata T = Inr T1 \<Longrightarrow> same_messages T T1"
  by (erule envelope_Inr) (metis mls_envelope_same same_messages_refl)

lemma envelope_or_plain_same: "envelope_or_plain E ct user device conv stored T = Inr (scheme, T1) \<Longrightarrow> same_messages T T1"
  by (auto simp: envelope_or_plain_def check_envelope_def envelope_same split: if_splits)

lemma deliver_once_same: "deliver_once now mid user transport T = (inserted, T1) \<Longrightarrow> same_messages T T1"
  by (auto simp: deliver_once_def split: if_splits)

lemma publish_deliveries_same: "publish_deliveries E now rs msg T = (pubs, T1) \<Longrightarrow> same_messages T T1"
proof (induction rs arbitrary: T pubs T1)
  case (Cons r rs)
  then show ?case
    by (fastforce split: if_splits prod.splits dest: deliver_once_same intro: same_messages_trans)
qed simp

lemma publishOnlineDeliveryUpdates_same: "publishOnlineDeliveryUpdates E now rs msg T = (pubs, T1) \<Longrightarrow> same_messages T T1"
  by (auto simp: publishOnlineDeliveryUpdates_def dest: publish_deliveries_same split: if_splits)

lemma deliver_all_same: "deliver_all E now user ms T = (events, T1) \<Longrightarrow> same_messages T T1"
proof (induction ms arbitrary: T events T1)
  case (Cons m ms)
  then show ?case
    by (fastforce split: if_splits prod.splits dest: deliver_once_same intro: same_messages_trans)
qed simp

section \<open>Sending\<close>

lemma next_server_order_Some:
  "next_server_order conv T = Some (n, T1) \<longleftrightarrow> map_of (tb_counters T) conv = Some n
     \<and> T1 = T\<lparr>tb_counters := AList.update conv (n + 1) (tb_counters T)\<rparr>"
  by (auto simp: next_server_order_def)

lemma insert_message_Some:
  "insert_message m T = Some T1 \<Longrightarrow> T1 = T\<lparr>tb_messages := tb_messages T @ [m]\<rparr> \<and> mg_id m \<notin> mg_id ` set (tb_messages T)"
  by (auto simp: insert_message_def list_ex_iff split: if_splits)

lemma store_message_Inr:
  assumes "store_message E now row msg endpoint key T = Inr T1"
  shows "tb_messages T1 = tb_messages T @ [row]" "tb_counters T1 = tb_counters T" "mg_id row \<notin> mg_id ` set (tb_messages T)"
proof -
  obtain Ta Tb where a: "insert_message row T = Some Ta"
    and b: "upsertIdempotency now (mg_sender row) endpoint key msg 201 (update_conversation (mg_conversation_id row)
          (\<lambda>c. c\<lparr>cv_last_message_id := Some (mg_id row), cv_updated_at := now\<rparr>) Ta) = Inr Tb"
    and c: "append_created E now (mg_sender row) msg Tb = Inr T1"
    using assms by (auto simp: store_message_def)
  from insert_message_Some [OF a] upsertIdempotency_same [OF b] append_created_same [OF c]
  show "tb_messages T1 = tb_messages T @ [row]" "tb_counters T1 = tb_counters T" "mg_id row \<notin> mg_id ` set (tb_messages T)"
    by (auto simp: same_messages_def update_conversation_def)
qed

lemma message_row_simps [simp]:
  "mg_id (message_row now newID q r st tr n x sch b) = newID" "mg_sender (message_row now newID q r st tr n x sch b) = rq_user q"
  "mg_conversation_id (message_row now newID q r st tr n x sch b) = rq_conversation q"
  "mg_server_order (message_row now newID q r st tr n x sch b) = n"
  "mg_content (message_row now newID q r st tr n x sch b) = JObj st"
  "mg_transport (message_row now newID q r st tr n x sch b) = tr"
  "mg_content_type (message_row now newID q r st tr n x sch b) = rq_content_type q"
  "mg_is_encrypted (message_row now newID q r st tr n x sch b) = Some b"
  "mg_encryption_scheme (message_row now newID q r st tr n x sch b) = sch"
  "mg_expires_at (message_row now newID q r st tr n x sch b) = x"
  "mg_deleted_at (message_row now newID q r st tr n x sch b) = None"
  by (simp_all add: message_row_def)

text \<open>What a successful send went through.\<close>

lemma send_fresh_Inr:
  assumes "send_fresh E now newID q endpoint source policy T = Inr (msg, T3)"
  obtains order T1 expires replyTo stored transport scheme T2 row where
    "map_of (tb_counters T) (rq_conversation q) = Some order"
    "T1 = T\<lparr>tb_counters := AList.update (rq_conversation q) (order + 1) (tb_counters T)\<rparr>"
    "encryptedOTTConversation policy = (rq_content_type q = ''encrypted'')"
    "rq_content_type q = ''encrypted'' \<Longrightarrow> sender_device_ok T (rq_user q) (rq_device q) = Inr ()"
    "rq_content_type q = ''encrypted'' \<Longrightarrow> transport = ''OTT''"
    "resolveMessageExpiration E now T1 (rq_conversation q) (rq_content_type q) (rq_content q) = Inr expires"
    "resolveReplyTarget now T1 (rq_conversation q) (stored_content (rq_content q)) = Inr (replyTo, stored)"
    "decideTransport E T1 (rq_conversation q) (rq_user q) = Inr transport"
    "envelope_or_plain E (rq_content_type q) (rq_user q) (rq_device q) (rq_conversation q) stored T1 = Inr (scheme, T2)"
    "row = message_row now newID q replyTo stored transport order expires (Some scheme) (equal_fold (rq_content_type q) ''encrypted'')"
    "msg = sent_message E now row (rq_device q) replyTo (rq_client_id q) stored source"
    "store_message E now row msg endpoint (rq_key q) T2 = Inr T3"
proof -
  show thesis
    using assms
    by (auto simp: send_fresh_def Let_def next_server_order_Some split: prod.splits if_splits intro!: that)
qed

lemma send_fresh_history:
  assumes "send_fresh E now newID q endpoint source policy T = Inr (msg, T3)"
  shows "history {rq_user q} T T3"
  using assms
proof (rule send_fresh_Inr)
  fix order T1 expires replyTo stored transport scheme T2 row
  assume n: "map_of (tb_counters T) (rq_conversation q) = Some order"
    and T1: "T1 = T\<lparr>tb_counters := AList.update (rq_conversation q) (order + 1) (tb_counters T)\<rparr>"
    and e: "envelope_or_plain E (rq_content_type q) (rq_user q) (rq_device q) (rq_conversation q) stored T1 = Inr (scheme, T2)"
    and row: "row = message_row now newID q replyTo stored transport order expires (Some scheme) (equal_fold (rq_content_type q) ''encrypted'')"
    and st: "store_message E now row msg endpoint (rq_key q) T2 = Inr T3"
  show ?thesis
    by (rule stored_history [where row = row])
      (use n T1 row store_message_Inr [OF st] envelope_or_plain_same [OF e] in \<open>simp_all add: same_messages_def\<close>)
qed

text \<open>A transaction that keeps the history when it commits keeps it.\<close>

lemma in_tx_history:
  assumes "\<And>x T1. f T = Inr (x, T1) \<Longrightarrow> history U T T1"
  shows "history U T (snd (in_tx f T))"
  by (cases rule: in_tx_cases [of f T]) (simp_all add: assms)

lemma sendSyncWithEndpoint_history:
  "sendSyncWithEndpoint E now newID q endpoint source T = Inr (r, T1) \<Longrightarrow> history {rq_user q} T T1"
  by (auto simp: sendSyncWithEndpoint_def Let_def dest: send_fresh_history split: option.splits prod.splits)

lemma after_send_history: "history U T (snd r) \<Longrightarrow> history U T (snd (snd (after_send E now r)))"
  by (auto simp: after_send_def split: prod.splits sum.splits option.splits
      dest!: publishOnlineDeliveryUpdates_same intro: history_trans [OF _ same_messages_history])

lemma phone_fresh_history:
  assumes "phone_fresh E now newID q T = Inr (msg, T2)"
  shows "history {rq_user q} T T2"
proof -
  obtain order T1 expires replyTo stored where n: "next_server_order (rq_conversation q) T = Some (order, T1)"
    and st: "store_message E now (message_row now newID q replyTo stored ''SMS'' order expires None False)
        (sent_message E now (message_row now newID q replyTo stored ''SMS'' order expires None False) (rq_device q) replyTo
          (rq_client_id q) stored []) ''/v1/messages/phone'' (rq_key q) T1 = Inr T2"
    using assms by (auto simp: phone_fresh_def Let_def split: prod.splits)
  show ?thesis
    by (rule stored_history [where row = "message_row now newID q replyTo stored ''SMS'' order expires None False"])
      (use n store_message_Inr [OF st] in \<open>simp_all add: next_server_order_Some\<close>)
qed

lemma findOrCreate_history:
  assumes "findOrCreatePhoneConversation now newID user phone T = Inr (conv, T1)"
  shows "history U T T1"
proof -
  have add: "history U T Tb" if "add_conversation c members T = Some Ta" "tb_messages Tb = tb_messages Ta" "tb_counters Tb = tb_counters Ta"
    for c members Ta Tb
    using that by (intro new_counter_history [where conv = "cv_id c"]) (auto simp: add_conversation_def split: if_splits)
  show ?thesis
    using assms by (auto simp: findOrCreatePhoneConversation_def split: if_splits option.splits list.splits intro!: add)
qed

lemma sendToPhoneTx_history:
  "sendToPhoneTx E now newConvID newID q phone T = Inr (r, T1) \<Longrightarrow> history {rq_user q} T T1"
  by (auto simp: sendToPhoneTx_def Let_def split: prod.splits option.splits
      dest!: phone_fresh_history findOrCreate_history [where U = "{rq_user q}"] intro: history_trans)

lemma sendToPhoneSync_history: "history {rq_user q} T (snd (snd (sendToPhoneSync E now newConvID newID q phone T)))"
proof -
  have "history {rq_user q} T (snd (in_tx (sendToPhoneTx E now newConvID newID q phone) T))"
    by (rule in_tx_history) (erule sendToPhoneTx_history)
  then show ?thesis by (auto simp: sendToPhoneSync_def split: prod.splits sum.splits option.splits)
qed

lemma sendAsync_same: "same_messages T (snd (sendAsync now A q intent endpoint T))"
proof -
  have u: "same_messages T T2" if "upsertIdempotency now user endpoint key m n T = Inr T1"
    "upsertIdempotency now user endpoint key m' n' T1 = Inr T2" for user key m m' n n' T1 T2
    using that by (blast intro: same_messages_trans upsertIdempotency_same)
  show ?thesis
    by (auto simp: sendAsync_def Let_def split: option.splits sum.splits intro: upsertIdempotency_same u)
qed

lemma Send_history: "history {rq_user q} T (snd (snd (Send E now A newID q ip T)))"
proof -
  have "history {rq_user q} T (snd (snd (sendSync E now newID q T)))"
    unfolding sendSync_def by (intro after_send_history in_tx_history) (erule sendSyncWithEndpoint_history)
  moreover have "history {rq_user q} T (snd (sendAsync now A q ''OHMF'' ''/v1/messages'' T))" for A
    by (rule same_messages_history [OF sendAsync_same])
  ultimately show ?thesis
    by (auto simp: Send_def split: option.splits sum.splits prod.splits) (metis snd_conv)+
qed

lemma SendToPhone_history: "history {rq_user q} T (snd (snd (SendToPhone E now A newConvID newID q phone ip T)))"
proof -
  have f: "history {rq_user q} T T1" if "in_tx (findOrCreatePhoneConversation now newConvID (rq_user q) phone) T = (r, T1)" for r T1
  proof -
    have "history {rq_user q} T (snd (in_tx (findOrCreatePhoneConversation now newConvID (rq_user q) phone) T))"
      by (rule in_tx_history) (erule findOrCreate_history)
    then show ?thesis by (simp add: that)
  qed
  have s: "history {rq_user q} T1 T2" if "sendToPhoneSync E now newConvID newID q phone T1 = (r, pubs, T2)" for r pubs T1 T2
    using sendToPhoneSync_history [of q T1 E now newConvID newID phone] that by simp
  have a: "history {rq_user q} T1 T2" if "sendAsync now A (q\<lparr>rq_conversation := conv\<rparr>) ''SMS'' ''/v1/messages/phone'' T1 = (r, T2)"
    for A conv r T1 T2
    using same_messages_history [OF sendAsync_same, of "{rq_user q}" T1 now A "q\<lparr>rq_conversation := conv\<rparr>"] that by (metis snd_conv)
  show ?thesis
    by (auto simp: SendToPhone_def split: option.splits sum.splits prod.splits dest: f s a intro: history_trans)
qed

lemma ForwardMessage_history: "history {rq_user q} T (snd (snd (ForwardMessage E now newID q mid ip T)))"
proof -
  have s: "history {rq_user q} T T1" if "after_send E now (in_tx (sendSyncWithEndpoint E now newID
      (q\<lparr>rq_content_type := ct, rq_content := content\<rparr>) ''/v1/messages/forward'' ''FORWARDED'') T) = (r, pubs, T1)" for ct content r pubs T1
  proof -
    let ?q = "q\<lparr>rq_content_type := ct, rq_content := content\<rparr>"
    have "history {rq_user ?q} T (snd (snd (after_send E now (in_tx (sendSyncWithEndpoint E now newID ?q
        ''/v1/messages/forward'' ''FORWARDED'') T))))"
      by (intro after_send_history in_tx_history) (erule sendSyncWithEndpoint_history)
    then show ?thesis by (simp add: that)
  qed
  show ?thesis
    by (auto simp: ForwardMessage_def split: option.splits sum.splits prod.splits intro: s)
qed

end
