(* ===== verification/MessageSearch.thy ===== *)
theory MessageSearch
  imports MessageViews
begin

text \<open>
  Searching messages (\<open>gateway/internal/messages/search.go\<close> and \<open>SearchMessages\<close> of \<open>service.go\<close>): the
  normal form of a query, and the statement that is built from the options.  The full-text operators
  of PostgreSQL are given; whether it accepts the statement at all depends on its parameters only.
\<close>

section \<open>Queries\<close>

definition stopwords :: "string list" where
  "stopwords = [''a'', ''an'', ''and'', ''are'', ''as'', ''at'', ''be'', ''by'', ''for'', ''from'', ''in'', ''is'',
     ''of'', ''on'', ''or'', ''the'', ''to'', ''with'', ''i'', ''me'', ''my'', ''we'', ''you'', ''he'', ''she'', ''they'',
     ''this'', ''that'', ''what'', ''which'', ''who'', ''where'', ''when'', ''why'', ''how'', ''all'', ''each'', ''every'',
     ''both'', ''few'', ''more'', ''most'', ''some'', ''such'', ''no'', ''nor'', ''not'', ''only'', ''same'', ''so'', ''than'',
     ''too'', ''very'', ''just'', ''but'', ''can'', ''will'', ''do'', ''have'', ''has'', ''had'', ''does'', ''did'', ''could'',
     ''would'', ''should'', ''may'', ''might'', ''must'', ''shall'', ''ought'']"

record SearchQuery =
  sq_Original :: string
  sq_Normalized :: string
  sq_Tokens :: "string list"
  sq_HasOperators :: bool
  sq_Operators :: "string list"
  sq_PhraseQueries :: "string list"
  sq_QueryLength :: nat
  sq_IsEmpty :: bool
  sq_IsAllStopwords :: bool

definition isExplicitBooleanOperator :: "string \<Rightarrow> bool" where
  "isExplicitBooleanOperator token \<longleftrightarrow>
     trim_space token \<in> set [''AND'', ''OR'', ''NOT'', ''&'', ''|'', ''!'', ''-'']"

definition normalizeText :: "string \<Rightarrow> string" where
  "normalizeText text = join_with '' '' (split_fields (trim_space (to_lower text)))"

text \<open>The loop over the characters: quoted phrases and the rest.\<close>

fun extract_loop :: "bool \<Rightarrow> bool \<Rightarrow> string \<Rightarrow> string \<Rightarrow> string list \<Rightarrow> string \<Rightarrow> string list \<times> string" where
  "extract_loop inQuote escaped cur rest phrases [] = (phrases, if inQuote then rest @ cur else rest)"
| "extract_loop inQuote escaped cur rest phrases (c # cs) =
     (if escaped then extract_loop inQuote False (if inQuote then cur @ [c] else cur) rest phrases cs
      else if c = CHR 0x5C then extract_loop inQuote True cur rest phrases cs
      else if c = CHR 0x22 then
        (if inQuote then extract_loop False False [] rest
           (if trim_space cur \<noteq> [] then phrases @ [trim_space cur] else phrases) cs
         else extract_loop True False cur rest phrases cs)
      else if inQuote then extract_loop True False (cur @ [c]) rest phrases cs
      else extract_loop False False cur (rest @ [c]) phrases cs)"

definition extractPhrases :: "string \<Rightarrow> string list \<times> string" where
  "extractPhrases q = extract_loop False False [] [] [] q"

text \<open>The tokens of the query with the words they came from.\<close>

definition token_pairs :: "string \<Rightarrow> (string \<times> string) list" where
  "token_pairs remaining =
     (let originals = split_fields (trim_space remaining); tokens = split_fields (normalizeText remaining) in
      map (\<lambda>(idx, token). (if idx < length originals then originals ! idx else token, token)) (enumerate 0 tokens))"

definition NormalizeQuery :: "string \<Rightarrow> SearchQuery" where
  "NormalizeQuery q =
     (if trim_space q = [] then \<lparr>sq_Original = q, sq_Normalized = [], sq_Tokens = [], sq_HasOperators = False,
        sq_Operators = [], sq_PhraseQueries = [], sq_QueryLength = 0, sq_IsEmpty = True, sq_IsAllStopwords = False\<rparr>
      else
      (let (phrases, remaining) = extractPhrases q; pairs = token_pairs remaining;
           operators = filter (\<lambda>(orig, token). isExplicitBooleanOperator orig) pairs;
           lexical = map snd (filter (\<lambda>(orig, token). \<not> isExplicitBooleanOperator orig \<and> token \<noteq> []) pairs);
           tokens = filter (\<lambda>t. t \<notin> set stopwords) lexical
       in \<lparr>sq_Original = q, sq_Normalized = normalizeText remaining, sq_Tokens = tokens,
           sq_HasOperators = (operators \<noteq> []), sq_Operators = remdups (map (\<lambda>(orig, token). to_upper (trim_space orig)) operators),
           sq_PhraseQueries = phrases, sq_QueryLength = length q, sq_IsEmpty = False,
           sq_IsAllStopwords = (lexical \<noteq> [] \<and> tokens = [] \<and> phrases = [])\<rparr>))"

definition ValidateSearchQuality :: "SearchQuery \<Rightarrow> bool \<times> string" where
  "ValidateSearchQuality sq =
     (if sq_IsEmpty sq then (False, ''query is empty'')
      else if sq_Tokens sq = [] \<and> sq_PhraseQueries sq = [] then (False, ''query contains only operators'')
      else if sq_IsAllStopwords sq \<and> sq_PhraseQueries sq = [] then (False, ''query contains only common stop words'')
      else if sq_QueryLength sq > 500 then (False, ''query is too long (max 500 characters)'')
      else if length (sq_Tokens sq) = 1 \<and> length (hd (sq_Tokens sq)) = 1
      then (True, ''single character queries may return many results'')
      else (True, []))"

definition GetFirstToken :: "SearchQuery \<Rightarrow> string" where
  "GetFirstToken sq = (case sq_Tokens sq of t # _ \<Rightarrow> t | [] \<Rightarrow> (case sq_PhraseQueries sq of p # _ \<Rightarrow> p | [] \<Rightarrow> []))"

definition GetAllTokensJoined :: "SearchQuery \<Rightarrow> string" where
  "GetAllTokensJoined sq = (if sq_Tokens sq \<noteq> [] then join_with '' '' (sq_Tokens sq) else sq_Normalized sq)"

definition TruncateForDB :: "nat \<Rightarrow> SearchQuery \<Rightarrow> string" where
  "TruncateForDB maxLen sq = (if length (sq_Normalized sq) \<le> maxLen then sq_Normalized sq else take maxLen (sq_Normalized sq))"

definition ContainsOperator :: "SearchQuery \<Rightarrow> string \<Rightarrow> bool" where
  "ContainsOperator sq op \<longleftrightarrow> to_upper op \<in> set (sq_Operators sq)"

text \<open>\<open>unicode.IsLetter\<close> on ASCII.\<close>

definition is_letter :: "char \<Rightarrow> bool" where
  "is_letter c \<longleftrightarrow> is_upper c \<or> is_lower c"

definition isCoreVowel :: "char \<Rightarrow> bool" where
  "isCoreVowel c \<longleftrightarrow> c \<in> set ''aeiou''"

definition IsLikelyTypo :: "string \<Rightarrow> bool" where
  "IsLikelyTypo token =
     (let normalized = to_lower (trim_space token);
          vowels = length (filter isCoreVowel normalized);
          consonants = length (filter (\<lambda>c. \<not> isCoreVowel c \<and> c \<noteq> CHR ''y'' \<and> is_letter c) normalized)
      in if length token < 3 \<or> normalized = [] then False
         else if vowels = 0 then consonants \<ge> 5 \<and> CHR ''y'' \<notin> set normalized
         else consonants \<ge> 5 \<and> consonants > vowels * 3)"

section \<open>The statement\<close>

text \<open>A piece of SQL: text, a string constant, or a numbered parameter used as a value of a type.  The pieces spell
  the statements up to white space and comments.\<close>

datatype paramType = PText | PUuid | PTime | PBigint
datatype sqlPiece = Sql string | Lit string | Par nat paramType

definition piece_text :: "sqlPiece \<Rightarrow> string" where
  "piece_text p = (case p of Sql s \<Rightarrow> s | Lit s \<Rightarrow> [CHR 0x27] @ s @ [CHR 0x27] | Par n ty \<Rightarrow> CHR ''$'' # itoa n)"

definition sql_text :: "sqlPiece list \<Rightarrow> string" where
  "sql_text ps = concat (map piece_text ps)"

definition sql_params :: "sqlPiece list \<Rightarrow> (nat \<times> paramType) list" where
  "sql_params ps = concat (map (\<lambda>p. case p of Par n ty \<Rightarrow> [(n, ty)] | _ \<Rightarrow> []) ps)"

text \<open>\<open>unaccent(lower(COALESCE(m.content->>'text', '')))\<close>, and \<open>unaccent(lower($n))\<close>.\<close>

definition body_text :: "sqlPiece list" where
  "body_text = [Sql ''unaccent(lower(COALESCE(m.content->>'', Lit ''text'', Sql '', '', Lit [], Sql '')))'']"

definition lowered :: "nat \<Rightarrow> sqlPiece list" where
  "lowered n = [Sql ''unaccent(lower('', Par n PText, Sql ''))'']"

definition english :: "nat \<Rightarrow> sqlPiece list" where
  "english n = [Sql ''plainto_tsquery('', Lit ''english'', Sql '', '', Par n PText, Sql '')'']"

definition buildSearchCondition :: "string \<Rightarrow> nat \<Rightarrow> sqlPiece list" where
  "buildSearchCondition searchMode n =
     (if searchMode = ''fuzzy'' then
        [Sql ''(m.search_text_normalized % ''] @ lowered n @ [Sql '' OR m.search_vector_en @@ ''] @ english n @ [Sql '')'']
      else if searchMode = ''exact'' then
        [Sql ''(''] @ body_text @ [Sql '' = ''] @ lowered n @ [Sql '')'']
      else
        [Sql ''(m.search_vector @@ websearch_to_tsquery('', Lit ''simple'', Sql '', '', Par n PText,
         Sql '') OR m.search_vector_en @@ ''] @ english n @ [Sql '' OR ''] @ body_text
        @ [Sql '' ILIKE '', Lit ''%'', Sql '' || ''] @ lowered n @ [Sql '' || '', Lit ''%'',
           Sql '' OR m.content->>'', Lit ''attachment_id'', Sql '' ILIKE '', Lit ''%'', Sql '' || '', Par n PText,
           Sql '' || '', Lit ''%'', Sql '')''])"

definition buildOrderBy :: "string \<Rightarrow> nat \<Rightarrow> sqlPiece list" where
  "buildOrderBy sortBy n =
     (if sortBy = ''recency'' then
        [Sql ''m.created_at DESC, ts_rank_cd(m.search_vector_en, ''] @ english n @ [Sql '') DESC, m.server_order DESC'']
      else
        [Sql ''(ts_rank_cd(m.search_vector_en, ''] @ english n @ [Sql '') * COALESCE(m.search_rank_base, 1.0)) DESC, CASE WHEN '']
        @ body_text @ [Sql '' = ''] @ lowered n @ [Sql '' THEN 3 WHEN ''] @ body_text @ [Sql '' LIKE ''] @ lowered n
        @ [Sql '' || '', Lit ''%'', Sql '' THEN 2.5 WHEN ''] @ body_text @ [Sql '' LIKE '', Lit ''%'', Sql '' || ''] @ lowered n
        @ [Sql '' || '', Lit ''%'', Sql '' THEN 2 ELSE 0 END DESC, CASE WHEN m.search_vector_en @@ ''] @ english n
        @ [Sql '' THEN 1 ELSE 0 END DESC, CASE WHEN m.search_text_normalized IS NOT NULL THEN similarity(m.search_text_normalized, '']
        @ lowered n @ [Sql '') ELSE 0 END DESC, m.created_at DESC, m.server_order DESC''])"

record SearchOptions =
  so_SenderUserID :: string
  so_ContentType :: string
  so_After :: "time option"
  so_Before :: "time option"
  so_SearchMode :: string
  so_MatchType :: string
  so_SortBy :: string
  so_ExactMatch :: bool
  so_IncludeEdits :: bool

text \<open>The optional filters: each takes the next parameter.\<close>

definition add_filter :: "bool \<Rightarrow> string \<Rightarrow> paramType \<Rightarrow> nat \<times> sqlPiece list \<Rightarrow> nat \<times> sqlPiece list" where
  "add_filter used text ty s =
     (case s of (n, ps) \<Rightarrow> if used then (Suc n, ps @ [Sql ('' AND '' @ text), Par (Suc n) ty, Sql (if ty = PUuid then ''::uuid'' else [])]) else (n, ps))"

definition search_filters :: "SearchOptions \<Rightarrow> nat \<times> sqlPiece list \<Rightarrow> nat \<times> sqlPiece list" where
  "search_filters opts s =
     add_filter (so_Before opts \<noteq> None) ''m.created_at <= '' PTime
     (add_filter (so_After opts \<noteq> None) ''m.created_at >= '' PTime
     (add_filter (trim_space (so_ContentType opts) \<noteq> []) ''m.content_type = '' PText
     (add_filter (trim_space (so_SenderUserID opts) \<noteq> []) ''m.sender_user_id = '' PUuid s)))"

text \<open>The arguments are the conversation, the query, those of the filters and the limit; the pieces are the
  \<open>WHERE\<close>, \<open>ORDER BY\<close> and \<open>LIMIT\<close> clauses, the rest of the statement has no parameters.\<close>

definition scope_clause :: "sqlPiece list" where
  "scope_clause = [Sql ''m.conversation_id = '', Par 1 PUuid,
     Sql ''::uuid AND m.deleted_at IS NULL AND (m.expires_at IS NULL OR m.expires_at > now()) AND m.visibility_state != '',
     Lit ''SOFT_DELETED'', Sql '' AND ('']"

definition search_statement :: "SearchOptions \<Rightarrow> nat \<times> sqlPiece list" where
  "search_statement opts =
     (let base = scope_clause @ buildSearchCondition (so_SearchMode opts) (2 + 1) @ [Sql '')''];
          (n, filters) = search_filters opts (2, []);
          args = n + 1
      in (args, base @ filters @ [Sql '' ORDER BY ''] @ buildOrderBy (so_SortBy opts) (args - 1)
            @ [Sql '' LIMIT '', Par args PBigint]))"

text \<open>
  PostgreSQL determines the type of a parameter from its uses, and fails when a parameter of the
  statement is not used, or when \<open>LIMIT\<close> takes one that was used as a text before.
\<close>

definition statement_accepted :: "nat \<times> sqlPiece list \<Rightarrow> bool" where
  "statement_accepted s =
     (case s of (args, ps) \<Rightarrow>
        list_all (\<lambda>n. n \<in> set (map fst (sql_params ps))) [1..<args + 1]
        \<and> \<not> list_ex (\<lambda>(n, ty). ty = PBigint \<and> (n, PText) \<in> set (sql_params ps)) (sql_params ps))"

definition default_options :: "SearchOptions \<Rightarrow> SearchOptions" where
  "default_options opts =
     opts\<lparr>so_SearchMode := (if so_SearchMode opts = [] then ''standard'' else so_SearchMode opts),
          so_MatchType := (if so_MatchType opts = [] then ''any'' else so_MatchType opts),
          so_SortBy := (if so_SortBy opts = [] then ''relevance'' else so_SortBy opts)\<rparr>"

text \<open>\<open>found\<close> is what the database finds for the statement, the arguments and the limit.\<close>

definition SearchMessages ::
  "'e msgEnv_scheme \<Rightarrow> time \<Rightarrow> (sqlPiece list \<Rightarrow> string list \<Rightarrow> nat \<Rightarrow> messageRow list) \<Rightarrow> 'z convTables_scheme
   \<Rightarrow> string \<Rightarrow> string \<Rightarrow> string \<Rightarrow> int \<Rightarrow> SearchOptions \<Rightarrow> msgError + Message list" where
  "SearchMessages E now found T userID conv query limit0 opts0 =
     (if query = [] then Inr []
      else if length query < 2 then Inl (MsgError ''query too short'')
      else
      (let limit = (if limit0 \<le> 0 \<or> limit0 > 100 then 50 else nat limit0) in
       try_then (enforceSearchRate E userID conv) (\<lambda>_.
       try_then (require ConversationAccess (hasMembership T userID conv)) (\<lambda>_.
       (let sq = NormalizeQuery query in
        if \<not> fst (ValidateSearchQuality sq) then Inr []
        else
        (let opts = default_options opts0; statement = search_statement opts in
         if \<not> statement_accepted statement then Inl MsgDbError
         else Inr (map (\<lambda>m. plain_view E now T (mg_visibility m) ''SERVER'' m)
                (found (snd statement) [conv, TruncateForDB 500 sq] limit))))))))"

section \<open>No search succeeds\<close>

text \<open>The condition numbers its parameter as the third, which is the first filter's or the limit, and nothing else uses the
  second when there is a filter.\<close>

lemma piece_params:
  "sql_params [] = []" "sql_params (Sql s # ps) = sql_params ps" "sql_params (Lit s # ps) = sql_params ps"
  "sql_params (Par n ty # ps) = (n, ty) # sql_params ps" "sql_params (ps @ qs) = sql_params ps @ sql_params qs"
  by (simp_all add: sql_params_def)

lemmas fragment_params = piece_params body_text_def lowered_def english_def

lemma search_condition_params: "set (sql_params (buildSearchCondition mode n)) = {(n, PText)}"
  by (auto simp: buildSearchCondition_def fragment_params)

lemma order_params: "set (sql_params (buildOrderBy by n)) = {(n, PText)}"
  by (auto simp: buildOrderBy_def fragment_params)

lemma search_filters_fresh:
  assumes "search_filters opts (2, []) = (n, ps)"
  shows "2 \<le> n" "2 \<notin> fst ` set (sql_params ps)"
  using assms by (auto simp: search_filters_def add_filter_def piece_params split: if_splits)

lemma statement_rejected: "\<not> statement_accepted (search_statement opts)"
proof -
  obtain n ps where f: "search_filters opts (2, []) = (n, ps)" by fastforce
  note fresh = search_filters_fresh [OF f]
  have params: "set (sql_params (snd (search_statement opts)))
      = {(1, PUuid), (3, PText), (n, PText), (n + 1, PBigint)} \<union> set (sql_params ps)"
    by (auto simp: search_statement_def f scope_clause_def piece_params search_condition_params order_params)
  have args: "fst (search_statement opts) = n + 1" by (simp add: search_statement_def f)
  have split: "statement_accepted s \<longleftrightarrow>
      (\<forall>k \<in> {1..<fst s + 1}. k \<in> fst ` set (sql_params (snd s)))
      \<and> \<not> (\<exists>k. (k, PBigint) \<in> set (sql_params (snd s)) \<and> (k, PText) \<in> set (sql_params (snd s)))" for s
    by (cases s) (auto simp: statement_accepted_def list_all_iff list_ex_iff)
  show ?thesis
  proof (cases "n = 2")
    case True
    then show ?thesis unfolding split params by auto
  next
    case False
    then have "2 \<notin> fst ` set (sql_params (snd (search_statement opts)))" using fresh unfolding params by auto
    moreover have "2 \<in> {1..<fst (search_statement opts) + 1}" using fresh(1) by (simp add: args)
    ultimately show ?thesis unfolding split by blast
  qed
qed

end
