(* ===== verification/MessageHandlers.thy ===== *)
theory MessageHandlers
  imports MessageSearch
begin

text \<open>
  The HTTP handlers of the message service (\<open>gateway/internal/messages/handler.go\<close>).  A handler is given the
  call (user and device of the token, the id in the path, the request) and the tables, and yields its
  reply, what is published, and the tables.
\<close>

section \<open>Calls and replies\<close>

record msgCall =
  mc_user :: "string option"
  mc_device :: string
  mc_id :: string
  mc_ip :: string
  mc_now :: time
  mc_new_id :: string
  mc_new_conversation :: string
  mc_async :: "asyncRun option"
  mc_req :: httpReq

text \<open>\<open>MsgTwice\<close> is a reply whose body has two documents; the status is that of the first.\<close>

datatype msgReply =
    MsgFail nat string string
  | MsgLimited string int int
  | MsgTwice msgReply msgReply
  | MsgNoContent
  | MsgSent nat "json gomap"
  | MsgItems "Message list"
  | MsgEdits "EditRecord list"
  | MsgHistory "ReactionHistoryRecord list"
  | MsgDeliveries "DeliveryRecord list"
  | MsgReactions string "(string \<times> int) list"
  | MsgReadStatus "memberStatus list"
  | MsgSearch "Message list" string

type_synonym 'z msgAnswer = "msgReply \<times> (string \<times> json) list \<times> 'z msgTables_scheme"

definition error_text :: "msgError \<Rightarrow> string" where
  "error_text e = (case e of
      ConversationAccess \<Rightarrow> ''conversation_access_denied'' | ConversationBlocked \<Rightarrow> ''conversation_blocked''
    | InvalidMessageEffectType \<Rightarrow> ''invalid_message_effect_type'' | EncryptedMessageRequired \<Rightarrow> ''encrypted_message_required''
    | EncryptedMessageInvalid \<Rightarrow> ''encrypted_message_invalid''
    | EncryptedConversationStateChanged \<Rightarrow> ''encrypted_conversation_state_changed''
    | EncryptedEditDeviceMismatch \<Rightarrow> ''encrypted_edit_requires_origin_device''
    | SenderDeviceRequired \<Rightarrow> ''sender_device_required'' | SenderDeviceInvalid \<Rightarrow> ''sender_device_invalid''
    | MsgError t \<Rightarrow> t | InvalidEdit t \<Rightarrow> t | RateLimited scope retry \<Rightarrow> ''rate_limited'' | MsgDbError \<Rightarrow> [])"

definition bad_request :: "string \<Rightarrow> msgReply" where
  "bad_request message = MsgFail 400 ''invalid_request'' message"

definition missing_auth :: msgReply where
  "missing_auth = MsgFail 401 ''unauthorized'' ''missing auth''"

definition retryAfterOrDefault :: "int \<Rightarrow> int" where
  "retryAfterOrDefault v = (if v \<le> 0 then 1000 else v div 1000000)"

definition scopeLimit :: "string \<Rightarrow> int" where
  "scopeLimit scope = (if scope = ''user'' then 60 else if scope = ''conversation'' then 500 else if scope = ''ip'' then 240 else 0)"

definition limited :: "string \<Rightarrow> int \<Rightarrow> msgReply" where
  "limited scope retry = MsgLimited scope (scopeLimit scope) (retryAfterOrDefault retry)"

definition state_changed :: msgReply where
  "state_changed = MsgFail 409 ''encrypted_conversation_state_changed'' (error_text EncryptedConversationStateChanged)"

definition invalid_encrypted :: "msgError \<Rightarrow> msgReply" where
  "invalid_encrypted e = MsgFail 409 ''invalid_encrypted_message'' (error_text e)"

text \<open>A nonempty id in the path and a user.\<close>

definition with_id :: "msgCall \<Rightarrow> string \<Rightarrow> 'z msgTables_scheme \<Rightarrow> (string \<Rightarrow> 'z msgAnswer) \<Rightarrow> 'z msgAnswer" where
  "with_id c what T f =
     (case mc_user c of
        None \<Rightarrow> (missing_auth, [], T)
      | Some userID \<Rightarrow> if mc_id c = [] then (bad_request what, [], T) else f userID)"

definition read_answer :: "'z msgTables_scheme \<Rightarrow> msgReply \<Rightarrow> 'z msgAnswer" where
  "read_answer T r = (r, [], T)"

text \<open>A transaction that answers without content.\<close>

definition done_answer ::
  "(msgError \<Rightarrow> msgReply) \<Rightarrow> ('z msgTables_scheme \<Rightarrow> msgError + 'a \<times> 'z msgTables_scheme) \<Rightarrow> 'z msgTables_scheme \<Rightarrow> 'z msgAnswer" where
  "done_answer failed f T =
     (case in_tx f T of (Inl e, T1) \<Rightarrow> (failed e, [], T1) | (Inr _, T1) \<Rightarrow> (MsgNoContent, [], T1))"

section \<open>Sending\<close>

definition send_error :: "msgError \<Rightarrow> msgReply" where
  "send_error e = (case e of
      ConversationAccess \<Rightarrow> MsgFail 403 ''forbidden'' (error_text e)
    | ConversationBlocked \<Rightarrow> MsgFail 403 ''blocked'' ''conversation is blocked''
    | EncryptedConversationStateChanged \<Rightarrow> state_changed
    | EncryptedMessageRequired \<Rightarrow> invalid_encrypted e | EncryptedMessageInvalid \<Rightarrow> invalid_encrypted e
    | SenderDeviceRequired \<Rightarrow> invalid_encrypted e | SenderDeviceInvalid \<Rightarrow> invalid_encrypted e
    | RateLimited scope retry \<Rightarrow> limited scope retry
    | _ \<Rightarrow> if e = MsgError ''reply_target_not_found''
           then MsgFail 409 ''reply_target_not_found'' ''reply target is unavailable''
           else MsgFail 500 ''send_failed'' (error_text e))"

definition phone_error :: "msgError \<Rightarrow> msgReply" where
  "phone_error e = (case e of
      ConversationBlocked \<Rightarrow> MsgFail 403 ''blocked'' ''conversation is blocked''
    | EncryptedConversationStateChanged \<Rightarrow> state_changed
    | EncryptedMessageInvalid \<Rightarrow> invalid_encrypted e
    | SenderDeviceRequired \<Rightarrow> invalid_encrypted e | SenderDeviceInvalid \<Rightarrow> invalid_encrypted e
    | RateLimited scope retry \<Rightarrow> limited scope retry
    | _ \<Rightarrow> if e = MsgError ''reply_target_not_found''
           then MsgFail 409 ''reply_target_not_found'' ''reply target is unavailable''
           else MsgFail 500 ''send_phone_failed'' (error_text e))"

definition api_transport :: "string \<Rightarrow> string \<Rightarrow> string" where
  "api_transport blank transport = (if transport = ''OTT'' then ''OHMF'' else if transport = [] then blank else transport)"

definition api_status :: "string \<Rightarrow> string" where
  "api_status status = (if status = [] then ''SENT'' else status)"

definition send_response :: "bool \<Rightarrow> string \<Rightarrow> SendResult \<Rightarrow> json gomap" where
  "send_response with_conversation blank result =
     (let m = sr_Message result in
      [(''message_id'', JStr (ms_MessageID m))]
      @ (if with_conversation then [(''conversation_id'', JStr (ms_ConversationID m))] else [])
      @ [(''server_order'', json_int (ms_ServerOrder m)), (''transport'', JStr (api_transport blank (ms_Transport m))),
         (''status'', JStr (api_status (ms_Status m))), (''queued'', JBool (sr_Queued result))]
      @ (if sr_Queued result then [(''ack_timeout_ms'', json_int (sr_AckTimeoutMS result))] else []))"

text \<open>A reply target beside the content is put into the content.\<close>

definition content_with_reply :: "json gomap \<Rightarrow> string \<Rightarrow> json gomap" where
  "content_with_reply content replyTo =
     (if trim_space replyTo = [] then content else AList.update ''reply_to_message_id'' (JStr (trim_space replyTo)) content)"

definition send_answer ::
  "(msgError \<Rightarrow> msgReply) \<Rightarrow> bool \<Rightarrow> string \<Rightarrow> (msgError + SendResult) \<times> (string \<times> json) list \<times> 'z msgTables_scheme \<Rightarrow> 'z msgAnswer" where
  "send_answer failed with_conversation blank r =
     (case r of
        (Inl e, pubs, T) \<Rightarrow> (failed e, pubs, T)
      | (Inr result, pubs, T) \<Rightarrow>
          (MsgSent (if sr_Queued result then 202 else 201) (send_response with_conversation blank result), pubs, T))"

definition request_of :: "msgCall \<Rightarrow> string \<Rightarrow> string \<Rightarrow> string \<Rightarrow> string \<Rightarrow> content \<Rightarrow> string \<Rightarrow> sendRequest" where
  "request_of c userID conv key ct content client =
     \<lparr>rq_user = userID, rq_device = mc_device c, rq_conversation = conv, rq_key = key, rq_content_type = ct,
      rq_content = content, rq_client_id = client\<rparr>"

definition Send_handler :: "'e msgEnv_scheme \<Rightarrow> msgCall \<Rightarrow> 'z msgTables_scheme \<Rightarrow> 'z msgAnswer" where
  "Send_handler E c T =
     (case mc_user c of
        None \<Rightarrow> (missing_auth, [], T)
      | Some userID \<Rightarrow>
      (let (good, vals) = decode_strings (Body (mc_req c)) [''conversation_id'', ''idempotency_key'', ''content_type'',
               ''client_generated_id'', ''reply_to_message_id''];
           (content, content_good) = object_field (Body (mc_req c)) ''content'' in
       if \<not> good \<or> \<not> content_good then (bad_request ''invalid body'', [], T)
       else if vals ! 1 = [] then (bad_request ''idempotency_key required'', [], T)
       else if vals ! 0 = [] then (bad_request ''conversation_id required'', [], T)
       else if vals ! 2 = [] then (bad_request ''content_type required'', [], T)
       else if isReservedContentType (vals ! 2) then (bad_request ''content_type is server-authored only'', [], T)
       else case content of
         None \<Rightarrow> (bad_request ''content required'', [], T)
       | Some m \<Rightarrow>
         (let m1 = content_with_reply m (vals ! 4) in
          case validateSendContent E (mc_now c) (vals ! 2) (Some m1) of
            Some e \<Rightarrow> (bad_request e, [], T)
          | None \<Rightarrow> send_answer send_error False ''OHMF'' (Send E (mc_now c) (mc_async c) (mc_new_id c)
              (request_of c userID (vals ! 0) (vals ! 1) (vals ! 2) (Some m1) (vals ! 3)) (mc_ip c) T))))"

definition SendToPhone_handler :: "'e msgEnv_scheme \<Rightarrow> msgCall \<Rightarrow> 'z msgTables_scheme \<Rightarrow> 'z msgAnswer" where
  "SendToPhone_handler E c T =
     (case mc_user c of
        None \<Rightarrow> (missing_auth, [], T)
      | Some userID \<Rightarrow>
      (let (good, vals) = decode_strings (Body (mc_req c)) [''phone_e164'', ''idempotency_key'', ''content_type'',
               ''client_generated_id'', ''reply_to_message_id''];
           (content, content_good) = object_field (Body (mc_req c)) ''content'' in
       if \<not> good \<or> \<not> content_good then (bad_request ''invalid body'', [], T)
       else if vals ! 0 = [] \<or> vals ! 1 = [] then (bad_request ''phone_e164 and idempotency_key required'', [], T)
       else if vals ! 2 = [] then (bad_request ''content_type required'', [], T)
       else if isReservedContentType (vals ! 2) then (bad_request ''content_type is server-authored only'', [], T)
       else case content of
         None \<Rightarrow> (bad_request ''content required'', [], T)
       | Some m \<Rightarrow>
         (let m1 = content_with_reply m (vals ! 4) in
          case validateSendContent E (mc_now c) (vals ! 2) (Some m1) of
            Some e \<Rightarrow> (bad_request e, [], T)
          | None \<Rightarrow> send_answer phone_error True ''SMS'' (SendToPhone E (mc_now c) (mc_async c) (mc_new_conversation c) (mc_new_id c)
              (request_of c userID [] (vals ! 1) (vals ! 2) (Some m1) (vals ! 3)) (vals ! 0) (mc_ip c) T))))"

text \<open>After the conflict of a changed conversation state the handler goes on and writes a second error.\<close>

definition forward_error :: "msgError \<Rightarrow> msgReply" where
  "forward_error e = (case e of
      ConversationAccess \<Rightarrow> MsgFail 403 ''forbidden'' (error_text e)
    | ConversationBlocked \<Rightarrow> MsgFail 403 ''blocked'' ''conversation is blocked''
    | EncryptedConversationStateChanged \<Rightarrow> MsgTwice state_changed (MsgFail 500 ''forward_failed'' (error_text e))
    | EncryptedMessageRequired \<Rightarrow> invalid_encrypted e | EncryptedMessageInvalid \<Rightarrow> invalid_encrypted e
    | SenderDeviceRequired \<Rightarrow> invalid_encrypted e | SenderDeviceInvalid \<Rightarrow> invalid_encrypted e
    | RateLimited scope retry \<Rightarrow> limited scope retry
    | _ \<Rightarrow> if e = MsgError ''message_not_found'' then MsgFail 404 ''not_found'' ''message not found''
           else if e = MsgError ''message_not_forwardable''
           then MsgFail 409 ''message_not_forwardable'' ''message cannot be forwarded''
           else MsgFail 500 ''forward_failed'' (error_text e))"

definition Forward :: "'e msgEnv_scheme \<Rightarrow> msgCall \<Rightarrow> 'z msgTables_scheme \<Rightarrow> 'z msgAnswer" where
  "Forward E c T =
     with_id c ''message id required'' T (\<lambda>userID.
      (let (good, vals) = decode_strings (Body (mc_req c)) [''conversation_id'', ''idempotency_key'', ''client_generated_id''] in
       if \<not> good then (bad_request ''invalid body'', [], T)
       else if vals ! 0 = [] then (bad_request ''conversation_id required'', [], T)
       else if vals ! 1 = [] then (bad_request ''idempotency_key required'', [], T)
       else case ForwardMessage E (mc_now c) (mc_new_id c) (request_of c userID (vals ! 0) (vals ! 1) [] None (vals ! 2))
                   (mc_id c) (mc_ip c) T of
         (Inl e, pubs, T1) \<Rightarrow> (forward_error e, pubs, T1)
       | (Inr result, pubs, T1) \<Rightarrow> (MsgSent 201 (send_response True ''OHMF'' result
            @ omit_empty ''source'' (ms_Source (sr_Message result))), pubs, T1)))"

section \<open>Changing messages\<close>

definition own_error :: "string \<Rightarrow> string \<Rightarrow> msgError \<Rightarrow> msgReply" where
  "own_error denied failed e =
     (if e = MsgError ''forbidden'' then MsgFail 403 ''forbidden'' denied
      else if e = MsgError ''message_not_found'' then MsgFail 404 ''not_found'' ''message not found''
      else MsgFail 500 failed (error_text e))"

definition Redact_handler :: "msgCall \<Rightarrow> 'z msgTables_scheme \<Rightarrow> 'z msgAnswer" where
  "Redact_handler c T = with_id c ''message id required'' T (\<lambda>userID.
     done_answer (own_error ''not allowed to redact'' ''redact_failed'') (Redact (mc_now c) userID (mc_id c)) T)"

definition Delete_handler :: "'e msgEnv_scheme \<Rightarrow> msgCall \<Rightarrow> 'z msgTables_scheme \<Rightarrow> 'z msgAnswer" where
  "Delete_handler E c T = with_id c ''message id required'' T (\<lambda>userID.
     done_answer (own_error ''not allowed to delete'' ''delete_failed'') (DeleteMessage E (mc_now c) userID (mc_id c)) T)"

definition edit_error :: "msgError \<Rightarrow> msgReply" where
  "edit_error e = (case e of
      InvalidEdit t \<Rightarrow>
       (if t = ''forbidden'' then MsgFail 403 ''forbidden'' ''not allowed to edit''
        else if t = ''message_not_found'' then MsgFail 404 ''not_found'' ''message not found''
        else if t = ''message_not_editable'' then MsgFail 409 ''message_not_editable'' ''message cannot be edited''
        else bad_request t)
    | EncryptedConversationStateChanged \<Rightarrow> state_changed
    | EncryptedMessageInvalid \<Rightarrow> invalid_encrypted e
    | SenderDeviceRequired \<Rightarrow> invalid_encrypted e | SenderDeviceInvalid \<Rightarrow> invalid_encrypted e
    | EncryptedEditDeviceMismatch \<Rightarrow>
        MsgFail 409 ''e2ee_edit_requires_origin_device'' ''encrypted messages must be edited from the originating device''
    | _ \<Rightarrow> if e = MsgError ''message_not_editable'' then MsgFail 409 ''message_not_editable'' ''message cannot be edited''
           else own_error ''not allowed to edit'' ''edit_failed'' e)"

definition Edit_handler :: "'e msgEnv_scheme \<Rightarrow> msgCall \<Rightarrow> 'z msgTables_scheme \<Rightarrow> 'z msgAnswer" where
  "Edit_handler E c T = with_id c ''message id required'' T (\<lambda>userID.
     (let body = Body (mc_req c); (content, good) = object_field body ''content'' in
      if \<not> struct_ok body \<or> \<not> good then (bad_request ''invalid body'', [], T)
      else if content = None then (bad_request ''content required'', [], T)
      else done_answer edit_error (EditMessage E (mc_now c) userID (mc_device c) (mc_id c) content) T))"

definition pin_error :: "string \<Rightarrow> string \<Rightarrow> msgError \<Rightarrow> msgReply" where
  "pin_error refused failed e =
     (if e = MsgError ''message_not_found'' then MsgFail 404 ''not_found'' ''message not found''
      else if e = MsgError ''message_not_pinnable'' then MsgFail 409 ''message_not_pinnable'' refused
      else if e = ConversationAccess then MsgFail 403 ''forbidden'' ''not a member''
      else MsgFail 500 failed (error_text e))"

definition Pin :: "'e msgEnv_scheme \<Rightarrow> msgCall \<Rightarrow> 'z msgTables_scheme \<Rightarrow> 'z msgAnswer" where
  "Pin E c T = with_id c ''message id required'' T (\<lambda>userID.
     done_answer (pin_error ''message cannot be pinned'' ''pin_failed'') (SetMessagePinned E (mc_now c) userID (mc_id c) True) T)"

definition Unpin :: "'e msgEnv_scheme \<Rightarrow> msgCall \<Rightarrow> 'z msgTables_scheme \<Rightarrow> 'z msgAnswer" where
  "Unpin E c T = with_id c ''message id required'' T (\<lambda>userID.
     done_answer (pin_error ''message cannot be unpinned'' ''unpin_failed'') (SetMessagePinned E (mc_now c) userID (mc_id c) False) T)"

definition effect_error :: "msgError \<Rightarrow> msgReply" where
  "effect_error e =
     (if e = ConversationAccess then MsgFail 403 ''forbidden'' ''not a member''
      else if e = MsgError ''effects_disabled'' then MsgFail 409 ''effects_disabled'' ''effects not enabled''
      else if e = MsgError ''message_not_found'' then MsgFail 404 ''not_found'' ''message not found''
      else if e = InvalidMessageEffectType then bad_request (error_text e)
      else MsgFail 500 ''effect_failed'' (error_text e))"

definition TriggerEffect_handler :: "'e msgEnv_scheme \<Rightarrow> msgCall \<Rightarrow> 'z msgTables_scheme \<Rightarrow> 'z msgAnswer" where
  "TriggerEffect_handler E c T = with_id c ''message id required'' T (\<lambda>userID.
     (let (good, vals) = decode_strings (Body (mc_req c)) [''effect_type''] in
      if \<not> good then (bad_request ''invalid body'', [], T)
      else if vals ! 0 = [] then (bad_request ''effect_type required'', [], T)
      else if \<not> isSupportedMessageEffectType (vals ! 0) then (bad_request ''unsupported effect_type'', [], T)
      else done_answer effect_error (TriggerEffect E (mc_now c) userID (mc_id c) (vals ! 0)) T))"

definition reaction_handler ::
  "string \<Rightarrow> (string \<Rightarrow> string \<Rightarrow> 'z msgTables_scheme \<Rightarrow> msgError + unit \<times> 'z msgTables_scheme)
   \<Rightarrow> msgCall \<Rightarrow> 'z msgTables_scheme \<Rightarrow> 'z msgAnswer" where
  "reaction_handler failed f c T = with_id c ''message id required'' T (\<lambda>userID.
     (let (good, vals) = decode_strings (Body (mc_req c)) [''emoji''] in
      if \<not> good then (bad_request ''invalid body'', [], T)
      else if vals ! 0 = [] then (bad_request ''emoji required'', [], T)
      else case in_tx (f userID (vals ! 0)) T of
        (Inl e, T1) \<Rightarrow> (if e = ConversationAccess then MsgFail 403 ''forbidden'' ''not a member''
                       else MsgFail 500 failed (error_text e), [], T1)
      | (Inr _, T1) \<Rightarrow> (MsgReactions (mc_id c) (listReactions T1 (mc_id c)), [], T1)))"

definition AddReaction_handler :: "'e msgEnv_scheme \<Rightarrow> msgCall \<Rightarrow> 'z msgTables_scheme \<Rightarrow> 'z msgAnswer" where
  "AddReaction_handler E c T =
     reaction_handler ''add_reaction_failed'' (\<lambda>userID emoji. AddReaction E (mc_now c) userID (mc_id c) emoji) c T"

definition RemoveReaction_handler :: "'e msgEnv_scheme \<Rightarrow> msgCall \<Rightarrow> 'z msgTables_scheme \<Rightarrow> 'z msgAnswer" where
  "RemoveReaction_handler E c T =
     reaction_handler ''remove_reaction_failed'' (\<lambda>userID emoji. RemoveReaction E (mc_now c) userID (mc_id c) emoji) c T"

definition MarkRead_handler :: "'e msgEnv_scheme \<Rightarrow> msgCall \<Rightarrow> 'z msgTables_scheme \<Rightarrow> 'z msgAnswer" where
  "MarkRead_handler E c T =
     (case mc_user c of
        None \<Rightarrow> (missing_auth, [], T)
      | Some userID \<Rightarrow>
      (let body = Body (mc_req c); (through, good) = int_field body ''through_server_order'' in
       if \<not> struct_ok body \<or> \<not> good then (bad_request ''invalid body'', [], T)
       else done_answer (\<lambda>e. if e = ConversationAccess then MsgFail 403 ''forbidden'' (error_text e)
                             else MsgFail 500 ''mark_read_failed'' (error_text e))
              (MarkRead E (mc_now c) userID (mc_id c) through) T))"

text \<open>Any authenticated user may post a delivery.\<close>

definition RecordDelivery_handler :: "'e msgEnv_scheme \<Rightarrow> msgCall \<Rightarrow> 'z msgTables_scheme \<Rightarrow> 'z msgAnswer" where
  "RecordDelivery_handler E c T = with_id c ''message id required'' T (\<lambda>userID.
     (let (good, vals) = decode_strings (Body (mc_req c)) [''recipient_user_id'', ''recipient_device_id'',
             ''recipient_phone_e164'', ''transport'', ''state'', ''provider'', ''submitted_at'', ''failure_code''] in
      if \<not> good then (bad_request ''invalid body'', [], T)
      else done_answer (\<lambda>e. MsgFail 500 ''record_failed'' (error_text e))
             (RecordDelivery E (mc_now c) (mc_id c) \<lparr>dr_RecipientUserID = vals ! 0, dr_RecipientDeviceID = vals ! 1,
                dr_RecipientPhone = vals ! 2, dr_Transport = vals ! 3, dr_State = vals ! 4, dr_Provider = vals ! 5,
                dr_SubmittedAt = vals ! 6, dr_UpdatedAt = [], dr_FailureCode = vals ! 7\<rparr>) T))"

section \<open>Reading\<close>

definition list_error :: "string \<Rightarrow> msgError \<Rightarrow> msgReply" where
  "list_error failed e =
     (if e = ConversationAccess then MsgFail 403 ''forbidden'' ''not a member''
      else if e = MsgError ''message_not_found'' then MsgFail 404 ''not_found'' ''message not found''
      else MsgFail 500 failed (error_text e))"

definition access_error :: "msgError \<Rightarrow> msgReply" where
  "access_error e = (if e = ConversationAccess then MsgFail 403 ''forbidden'' (error_text e)
                     else MsgFail 500 ''list_failed'' (error_text e))"

definition answer_of :: "(msgError \<Rightarrow> msgReply) \<Rightarrow> ('a \<Rightarrow> msgReply) \<Rightarrow> msgError + 'a \<Rightarrow> msgReply" where
  "answer_of failed f r = (case r of Inl e \<Rightarrow> failed e | Inr x \<Rightarrow> f x)"

definition List_handler :: "'e msgEnv_scheme \<Rightarrow> Message list option \<Rightarrow> msgCall \<Rightarrow> 'z msgTables_scheme \<Rightarrow> msgReply" where
  "List_handler E cassandra c T =
     (case mc_user c of
        None \<Rightarrow> missing_auth
      | Some userID \<Rightarrow> answer_of access_error MsgItems (MessageList E (mc_now c) cassandra T userID (mc_id c)))"

definition Timeline :: "'e msgEnv_scheme \<Rightarrow> msgCall \<Rightarrow> 'z msgTables_scheme \<Rightarrow> msgReply" where
  "Timeline E c T =
     (case mc_user c of
        None \<Rightarrow> missing_auth
      | Some userID \<Rightarrow>
         (let limit = (case atoi (get_first (Query (mc_req c)) ''limit'') of
                None \<Rightarrow> 100 | Some v \<Rightarrow> if v > 0 \<and> v \<le> 500 then v else 100) in
          answer_of access_error MsgItems (ListUnified E (mc_now c) T userID (mc_id c) limit)))"

definition need_id :: "msgCall \<Rightarrow> string \<Rightarrow> (string \<Rightarrow> msgReply) \<Rightarrow> msgReply" where
  "need_id c what f =
     (case mc_user c of None \<Rightarrow> missing_auth | Some userID \<Rightarrow> if mc_id c = [] then bad_request what else f userID)"

text \<open>The check on the message's conversation that two handlers make themselves.\<close>

definition message_member :: "msgCall \<Rightarrow> 'z convTables_scheme \<Rightarrow> string \<Rightarrow> msgReply \<Rightarrow> msgReply" where
  "message_member c T userID r =
     (case find_message T (mc_id c) of
        None \<Rightarrow> MsgFail 404 ''not_found'' ''message not found''
      | Some m \<Rightarrow> if \<not> hasMembership T userID (mg_conversation_id m) then MsgFail 403 ''forbidden'' ''not a member'' else r)"

definition ListDeliveries_handler :: "'e msgEnv_scheme \<Rightarrow> msgCall \<Rightarrow> 'z msgTables_scheme \<Rightarrow> msgReply" where
  "ListDeliveries_handler E c T = need_id c ''message id required'' (\<lambda>userID.
     message_member c T userID (answer_of (\<lambda>e. MsgFail 500 ''list_failed'' (error_text e)) MsgDeliveries (ListDeliveries E (mc_id c) T)))"

definition ListReactionsAggregated :: "msgCall \<Rightarrow> 'z convTables_scheme \<Rightarrow> msgReply" where
  "ListReactionsAggregated c T = need_id c ''message id required'' (\<lambda>userID.
     message_member c T userID (MsgReactions (mc_id c) (listReactions T (mc_id c))))"

definition GetEditHistory :: "'e msgEnv_scheme \<Rightarrow> msgCall \<Rightarrow> 'z convTables_scheme \<Rightarrow> msgReply" where
  "GetEditHistory E c T = need_id c ''message id required'' (\<lambda>userID.
     answer_of (list_error ''list_failed'') MsgEdits (GetMessageEditHistory E T userID (mc_id c)))"

definition GetReactionHistory :: "'e msgEnv_scheme \<Rightarrow> msgCall \<Rightarrow> 'z convTables_scheme \<Rightarrow> msgReply" where
  "GetReactionHistory E c T = need_id c ''message id required'' (\<lambda>userID.
     answer_of (list_error ''list_failed'') MsgHistory (GetMessageReactionHistory E T userID (mc_id c)))"

definition GetReadStatus :: "'e msgEnv_scheme \<Rightarrow> msgCall \<Rightarrow> 'z convTables_scheme \<Rightarrow> msgReply" where
  "GetReadStatus E c T = need_id c ''conversation id required'' (\<lambda>userID.
     answer_of (\<lambda>e. if e = ConversationAccess then MsgFail 403 ''forbidden'' ''not a member''
                    else MsgFail 500 ''read_status_failed'' (error_text e)) MsgReadStatus
       (GetConversationReadStatus E T userID (mc_id c)))"

definition ListPinned :: "'e msgEnv_scheme \<Rightarrow> msgCall \<Rightarrow> 'z convTables_scheme \<Rightarrow> msgReply" where
  "ListPinned E c T = need_id c ''conversation id required'' (\<lambda>userID.
     answer_of (list_error ''list_failed'') MsgItems (ListPinnedMessages E (mc_now c) T userID (mc_id c)))"

definition GetReplies :: "'e msgEnv_scheme \<Rightarrow> msgCall \<Rightarrow> 'z convTables_scheme \<Rightarrow> msgReply" where
  "GetReplies E c T = need_id c ''message id required'' (\<lambda>userID.
     answer_of (list_error ''list_failed'') MsgItems (ListReplies E (mc_now c) T userID (mc_id c)))"

definition allowed_value :: "string \<Rightarrow> string list \<Rightarrow> bool" where
  "allowed_value v vs \<longleftrightarrow> v = [] \<or> v \<in> set vs"

definition Search_handler ::
  "'e msgEnv_scheme \<Rightarrow> (sqlPiece list \<Rightarrow> string list \<Rightarrow> nat \<Rightarrow> messageRow list) \<Rightarrow> msgCall \<Rightarrow> 'z convTables_scheme \<Rightarrow> msgReply" where
  "Search_handler E found c T = need_id c ''conversation id required'' (\<lambda>userID.
     (let get = get_first (Query (mc_req c)); q = get ''q'';
          resultLimit = (case atoi (get ''limit'') of None \<Rightarrow> 50 | Some v \<Rightarrow> if v > 0 \<and> v \<le> 100 then v else 50);
          mode = get ''search_mode''; ty = get ''match_type''; by = get ''sort_by'';
          after = trim_space (get ''after''); before = trim_space (get ''before'') in
      if q = [] then bad_request ''query parameter required''
      else if \<not> allowed_value mode [''standard'', ''fuzzy'', ''exact'']
      then bad_request ''search_mode must be one of: standard, fuzzy, exact''
      else if \<not> allowed_value ty [''any'', ''all''] then bad_request ''match_type must be one of: any, all''
      else if \<not> allowed_value by [''relevance'', ''recency''] then bad_request ''sort_by must be one of: relevance, recency''
      else if after \<noteq> [] \<and> mv_parse_time E after = None then bad_request ''after must be RFC3339''
      else if before \<noteq> [] \<and> mv_parse_time E before = None then bad_request ''before must be RFC3339''
      else answer_of (\<lambda>e. case e of ConversationAccess \<Rightarrow> MsgFail 403 ''forbidden'' ''not a member''
                    | RateLimited scope retry \<Rightarrow> limited scope retry
                    | _ \<Rightarrow> MsgFail 500 ''search_failed'' (error_text e))
             (\<lambda>items. MsgSearch items q)
             (SearchMessages E (mc_now c) found T userID (mc_id c) q resultLimit
                \<lparr>so_SenderUserID = get ''sender_user_id'', so_ContentType = get ''content_type'',
                 so_After = (if after = [] then None else mv_parse_time E after),
                 so_Before = (if before = [] then None else mv_parse_time E before),
                 so_SearchMode = mode, so_MatchType = ty, so_SortBy = by, so_ExactMatch = (get ''exact_match'' = ''true''),
                 so_IncludeEdits = (get ''include_edits'' = ''true'')\<rparr>)))"

end
