(* ===== verification/MessageHistory.thy ===== *)
theory MessageHistory
  imports MessageRows MessageHandlers
begin

text \<open>
  The messages of a conversation over any run of requests: every handler keeps the relation of
  \<open>MessageRows\<close>, and so does a run, by the locale \<open>request_run\<close>.
\<close>

section \<open>Requests\<close>

datatype msgRoute = PostMessage | PostPhoneMessage | PostForward | PostRedact | DeleteRoute | PatchMessage | PostPin
  | DeletePin | PostEffect | PostReaction | DeleteReaction | PostRead | PostDelivery | UserConnected

text \<open>The tables after a request that may change them.\<close>

definition msg_request :: "'e msgEnv_scheme \<Rightarrow> msgRoute \<times> msgCall \<Rightarrow> 'z msgTables_scheme \<Rightarrow> 'z msgTables_scheme" where
  "msg_request E rc T =
     (case rc of (r, c) \<Rightarrow>
      (case r of
         UserConnected \<Rightarrow> (case mc_user c of None \<Rightarrow> T | Some u \<Rightarrow> snd (DeliverPendingToUser E (mc_now c) u T))
       | _ \<Rightarrow> snd (snd (case r of
           PostMessage \<Rightarrow> Send_handler E c T
         | PostPhoneMessage \<Rightarrow> SendToPhone_handler E c T
         | PostForward \<Rightarrow> Forward E c T
         | PostRedact \<Rightarrow> Redact_handler c T
         | DeleteRoute \<Rightarrow> Delete_handler E c T
         | PatchMessage \<Rightarrow> Edit_handler E c T
         | PostPin \<Rightarrow> Pin E c T
         | DeletePin \<Rightarrow> Unpin E c T
         | PostEffect \<Rightarrow> TriggerEffect_handler E c T
         | PostReaction \<Rightarrow> AddReaction_handler E c T
         | DeleteReaction \<Rightarrow> RemoveReaction_handler E c T
         | PostRead \<Rightarrow> MarkRead_handler E c T
         | _ \<Rightarrow> RecordDelivery_handler E c T))))"

section \<open>Operations on stored messages\<close>

lemma own_message_Inr [simp]: "own_message T u mid = Inr m \<longleftrightarrow> find_message T mid = Some m \<and> mg_sender m = u"
  by (auto simp: own_message_def)

lemma find_messageD: "find_message T mid = Some m \<Longrightarrow> m \<in> set (tb_messages T) \<and> mg_id m = mid"
  by (auto simp: find_message_def find_Some_iff)

text \<open>An update of the message with an id, which is the only one.\<close>

lemma distinct_id_unique:
  assumes "messages_wf T" and "find_message T mid = Some m" and "r \<in> set (tb_messages T)" and "mg_id r = mid"
  shows "r = m"
  using assms find_messageD [OF assms(2)] by (auto simp: messages_wf_def distinct_map inj_on_def)

lemma update_message_history:
  assumes "find_message T mid = Some m" and "messages_wf T"
    and "row_step U m (f m)"
  shows "history U T (update_message mid f T)"
  unfolding update_message_def
  by (rule update_where_history) (use distinct_id_unique [OF assms(2,1)] assms(3) in auto)

text \<open>Everything below is about well-formed tables.\<close>

definition wf_history :: "string set \<Rightarrow> 'z convTables_scheme \<Rightarrow> 'z convTables_scheme \<Rightarrow> bool" where
  "wf_history U T T1 \<longleftrightarrow> (messages_wf T \<longrightarrow> history U T T1)"

lemma wf_history_refl [simp]: "wf_history U T T"
  by (simp add: wf_history_def)

lemma wf_history_trans: "wf_history U T T1 \<Longrightarrow> wf_history U T1 T2 \<Longrightarrow> wf_history U T T2"
  by (auto simp: wf_history_def history_def intro: rows_grown_trans)

lemma wf_history_same: "wf_history U T T1 \<Longrightarrow> same_messages T1 T2 \<Longrightarrow> wf_history U T T2"
  by (auto simp: wf_history_def intro: history_trans same_messages_history)

lemma wf_history_of: "history U T T1 \<Longrightarrow> wf_history U T T1"
  by (simp add: wf_history_def)

lemma in_tx_wf_history: "(\<And>x T1. f T = Inr (x, T1) \<Longrightarrow> wf_history U T T1) \<Longrightarrow> wf_history U T (snd (in_tx f T))"
  by (cases rule: in_tx_cases [of f T]) simp_all

lemma update_message_wf:
  "find_message T mid = Some m \<Longrightarrow> row_step U m (f m) \<Longrightarrow> wf_history U T (update_message mid f T)"
  by (simp add: wf_history_def update_message_history)

lemma Redact_history:
  assumes "Redact now u mid T = Inr (x, T1)"
  shows "wf_history {u} T T1"
proof -
  let ?f = "\<lambda>r. r\<lparr>mg_content := JObj [], mg_redacted_at := Some now, mg_visibility := ''REDACTED''\<rparr>"
  obtain m where m: "find_message T mid = Some m" "mg_sender m = u"
    and T1: "T1 = touch_conversation now (mg_conversation_id m) (update_message mid ?f T)"
    using assms by (auto simp: Redact_def)
  have "wf_history {u} T (update_message mid ?f T)"
    by (rule update_message_wf [OF m(1)]) (simp add: row_step_def fixed_part_def m(2))
  then show ?thesis unfolding T1 by (rule wf_history_same) simp
qed

lemma DeleteMessage_history:
  assumes "DeleteMessage E now u mid T = Inr (x, T1)"
  shows "wf_history {u} T T1"
proof -
  obtain m where m: "find_message T mid = Some m" "mg_sender m = u"
    and a: "append_with_meta E now (mg_conversation_id m) u ''message_deleted'' (\<lambda>meta. deleted_json (delete_payload E now m meta))
      (touch_conversation now (mg_conversation_id m) (update_message mid (delete_row now) T
         \<lparr>tb_attachments := filter (\<lambda>(a, i). i \<noteq> Some mid) (tb_attachments (update_message mid (delete_row now) T))\<rparr>)) = Inr T1"
    using assms by (auto simp: DeleteMessage_def Let_def)
  have "wf_history {u} T (update_message mid (delete_row now) T)"
    by (rule update_message_wf [OF m(1)]) (simp add: row_step_def fixed_part_def delete_row_def m(2))
  moreover have "same_messages (update_message mid (delete_row now) T) T1"
    using append_with_meta_same [OF a] by (simp add: same_messages_def touch_conversation_def update_conversation_def)
  ultimately show ?thesis by (rule wf_history_same)
qed

lemma EditMessage_history:
  assumes "EditMessage E now u device mid content T = Inr (x, T1)"
  shows "wf_history {u} T T1"
proof -
  obtain m dev scheme Ta where m: "find_message T mid = Some m" "mg_sender m = u" "message_editable now m"
    and e: "(if mg_content_type m = ''encrypted'' then edit_envelope E u device m (stored_content content) T
                else Inr ((or_else (mg_sender_device m) [], []), T)) = Inr ((dev, scheme), Ta)"
    and a: "append_with_meta E now (mg_conversation_id m) u ''message_edited''
        (\<lambda>meta. edited_json (edit_payload E now m dev (stored_content content) meta))
        ((touch_conversation now (mg_conversation_id m) (update_message mid (edit_row now (stored_content content) (trim_space dev) scheme) Ta))
           \<lparr>tb_edits := tb_edits Ta @ [edit_record T now u m (stored_content content)]\<rparr>) = Inr T1"
    using assms by (auto simp: EditMessage_def Let_def update_message_def touch_conversation_def update_conversation_def)
  have s: "same_messages T Ta"
    using e by (auto simp: edit_envelope_def Let_def envelope_same split: if_splits)
  then have "find_message Ta mid = Some m" using m(1) by (simp add: same_messages_def find_message_def)
  then have "wf_history {u} Ta (update_message mid (edit_row now (stored_content content) (trim_space dev) scheme) Ta)"
    by (rule update_message_wf)
      (use m(2,3) in \<open>simp add: row_step_def fixed_part_def edit_row_def Let_def message_editable_def\<close>)
  moreover have "wf_history {u} T Ta" by (rule wf_history_same [OF wf_history_refl s])
  moreover have "same_messages (update_message mid (edit_row now (stored_content content) (trim_space dev) scheme) Ta) T1"
    using append_with_meta_same [OF a] by (simp add: same_messages_def touch_conversation_def update_conversation_def)
  ultimately show ?thesis by (blast intro: wf_history_trans wf_history_same)
qed

lemma SetMessagePinned_same: "SetMessagePinned E now u mid pinned T = Inr (x, T1) \<Longrightarrow> same_messages T T1"
  by (auto simp: SetMessagePinned_def Let_def split: if_splits dest!: append_effect_same intro: same_messages_trans
      [of T "insert_effect now mid conv u ty T" for conv ty, OF same_messages_updates(12) same_messages_trans
        [OF same_messages_updates(10)]])

lemma TriggerEffect_same: "TriggerEffect E now u mid ty T = Inr (x, T1) \<Longrightarrow> same_messages T T1"
  by (auto simp: TriggerEffect_def Let_def dest!: append_effect_same intro: same_messages_trans [OF same_messages_updates(12)])

lemma reaction_changed_same: "reaction_changed E now u m emoji action T = Inr (x, T1) \<Longrightarrow> same_messages T T1"
  by (auto simp: reaction_changed_def Let_def dest!: append_with_meta_same intro: same_messages_trans [OF same_messages_updates(4)])

lemma AddReaction_same: "AddReaction E now u mid emoji T = Inr (x, T1) \<Longrightarrow> same_messages T T1"
  by (auto simp: AddReaction_def split: if_splits dest!: reaction_changed_same intro: same_messages_trans [OF same_messages_updates(3)])

lemma RemoveReaction_same: "RemoveReaction E now u mid emoji T = Inr (x, T1) \<Longrightarrow> same_messages T T1"
  by (auto simp: RemoveReaction_def split: if_splits dest!: reaction_changed_same intro: same_messages_trans [OF same_messages_updates(3)])

lemma MarkRead_history:
  assumes "MarkRead E now u conv through T = Inr (x, T1)"
  shows "wf_history U T T1"
proof -
  let ?ms = "update_where (expires_on_read u conv through) (expire_row now) (tb_messages T)"
  have e: "history U T (T\<lparr>tb_messages := ?ms\<rparr>)"
    by (rule update_where_history) (simp add: row_step_def fixed_part_def expire_row_def)
  have "T1 = T \<or> (tb_messages T1 = ?ms \<and> tb_counters T1 = tb_counters T)"
    using assms by (auto simp: MarkRead_def Let_def same_messages_def touch_conversation_def update_conversation_def
        dest!: AppendDomainEvent_same split: if_splits)
  then show ?thesis
  proof
    assume "tb_messages T1 = ?ms \<and> tb_counters T1 = tb_counters T"
    then have "same_messages (T\<lparr>tb_messages := ?ms\<rparr>) T1" by (simp add: same_messages_def)
    then show ?thesis by (rule wf_history_same [OF wf_history_of [OF e]])
  qed simp
qed

lemma RecordDelivery_same: "RecordDelivery E now mid d T = Inr (x, T1) \<Longrightarrow> same_messages T T1"
  by (auto simp: RecordDelivery_def Let_def split: if_splits)

section \<open>Handlers\<close>

definition caller :: "msgCall \<Rightarrow> string set" where
  "caller c = (case mc_user c of None \<Rightarrow> {} | Some u \<Rightarrow> {u})"

text \<open>The tables of an answer.\<close>

definition answers :: "msgCall \<Rightarrow> 'z msgTables_scheme \<Rightarrow> 'z msgAnswer \<Rightarrow> bool" where
  "answers c T a \<longleftrightarrow> wf_history (caller c) T (snd (snd a))"

lemma with_id_answers:
  assumes "\<And>u. mc_user c = Some u \<Longrightarrow> wf_history {u} T (snd (snd (f u)))"
  shows "answers c T (with_id c what T f)"
  using assms by (auto simp: answers_def with_id_def caller_def split: option.splits)

lemma done_answer_tables: "snd (snd (done_answer failed f T)) = snd (in_tx f T)"
  by (auto simp: done_answer_def split: prod.splits sum.splits)

lemma done_answers:
  assumes "\<And>x T1. f T = Inr (x, T1) \<Longrightarrow> wf_history {u} T T1"
  shows "wf_history {u} T (snd (snd (done_answer failed f T)))"
  unfolding done_answer_tables by (rule in_tx_wf_history) (rule assms)

lemma Send_answers: "answers c T (Send_handler E c T)"
proof -
  have "wf_history {u} T (snd (snd (send_answer send_error b blank (Send E now A newID (request_of c u conv key ct m cl) ip T))))"
    for u b blank now A newID conv key ct m cl ip
    using Send_history [of "request_of c u conv key ct m cl" T E now A newID ip]
    by (auto simp: send_answer_def request_of_def split: prod.splits sum.splits intro: wf_history_of)
  then show ?thesis by (auto simp: answers_def Send_handler_def caller_def Let_def split: option.splits prod.splits)
qed

lemma SendToPhone_answers: "answers c T (SendToPhone_handler E c T)"
proof -
  have "wf_history {u} T (snd (snd (send_answer phone_error b blank
      (SendToPhone E now A newConvID newID (request_of c u conv key ct m cl) phone ip T))))"
    for u b blank now A newConvID newID conv key ct m cl ip phone
    using SendToPhone_history [of "request_of c u conv key ct m cl" T E now A newConvID newID phone ip]
    by (auto simp: send_answer_def request_of_def split: prod.splits sum.splits intro: wf_history_of)
  then show ?thesis by (auto simp: answers_def SendToPhone_handler_def caller_def Let_def split: option.splits prod.splits)
qed

lemma Forward_answers: "answers c T (Forward E c T)"
proof -
  have f: "wf_history {u} T T1" if "ForwardMessage E now newID (request_of c u conv key ct m cl) mid ip T = (r, pubs, T1)"
    for u now newID conv key ct m cl mid ip r pubs T1
    using ForwardMessage_history [of "request_of c u conv key ct m cl" T E now newID mid ip] that
    by (simp add: request_of_def wf_history_of)
  show ?thesis unfolding Forward_def
    by (rule with_id_answers) (auto simp: Let_def split: prod.splits sum.splits intro: f)
qed

lemma reaction_answers:
  assumes "\<And>u emoji x T1. f u emoji T = Inr (x, T1) \<Longrightarrow> same_messages T T1"
  shows "answers c T (reaction_handler failed f c T)"
proof -
  have "wf_history {u} T (snd (in_tx (f u emoji) T))" for u emoji
    by (rule in_tx_wf_history) (auto intro: wf_history_of same_messages_history assms)
  then show ?thesis unfolding reaction_handler_def
    by (intro with_id_answers) (auto simp: Let_def split: prod.splits sum.splits, (metis snd_conv)+)
qed

lemma done_with_id:
  assumes "\<And>u x T1. f u T = Inr (x, T1) \<Longrightarrow> wf_history {u} T T1"
  shows "answers c T (with_id c what T (\<lambda>u. done_answer failed (f u) T))"
  by (intro with_id_answers done_answers) (rule assms)

lemma Redact_answers: "answers c T (Redact_handler c T)"
  unfolding Redact_handler_def by (rule done_with_id) (rule Redact_history)

lemma Delete_answers: "answers c T (Delete_handler E c T)"
  unfolding Delete_handler_def by (rule done_with_id) (rule DeleteMessage_history)

lemma Edit_answers: "answers c T (Edit_handler E c T)"
proof -
  have "wf_history {u} T (snd (snd (done_answer edit_error (EditMessage E now u d mid content) T)))" for u now d mid content
    by (rule done_answers) (rule EditMessage_history)
  then show ?thesis unfolding Edit_handler_def
    by (intro with_id_answers) (auto simp: Let_def split: prod.splits)
qed

lemma wf_same: "same_messages T T1 \<Longrightarrow> wf_history U T T1"
  by (intro wf_history_of same_messages_history)

lemma Pin_answers: "answers c T (Pin E c T)" "answers c T (Unpin E c T)"
  unfolding Pin_def Unpin_def by (intro done_with_id wf_same; erule SetMessagePinned_same)+

lemma TriggerEffect_answers: "answers c T (TriggerEffect_handler E c T)"
proof -
  have "wf_history {u} T (snd (snd (done_answer effect_error (TriggerEffect E now u mid ty) T)))" for u now mid ty
    by (intro done_answers wf_same) (rule TriggerEffect_same)
  then show ?thesis unfolding TriggerEffect_handler_def
    by (intro with_id_answers) (auto simp: Let_def split: prod.splits)
qed

lemma reactions_answer: "answers c T (AddReaction_handler E c T)" "answers c T (RemoveReaction_handler E c T)"
  unfolding AddReaction_handler_def RemoveReaction_handler_def
  by (rule reaction_answers, erule AddReaction_same RemoveReaction_same)+

lemma MarkRead_answers: "answers c T (MarkRead_handler E c T)"
proof -
  have "wf_history {u} T (snd (snd (done_answer failed (MarkRead E now u conv through) T)))" for failed u now conv through
    by (intro done_answers) (rule MarkRead_history)
  then show ?thesis
    by (auto simp: answers_def MarkRead_handler_def caller_def Let_def split: option.splits prod.splits)
qed

lemma RecordDelivery_answers: "answers c T (RecordDelivery_handler E c T)"
proof -
  have "wf_history {u} T (snd (snd (done_answer failed (RecordDelivery E now mid d) T)))" for failed u now mid d
    by (intro done_answers wf_same) (rule RecordDelivery_same)
  then show ?thesis unfolding RecordDelivery_handler_def
    by (intro with_id_answers) (auto simp: Let_def split: prod.splits)
qed

lemmas handler_answers = Send_answers SendToPhone_answers Forward_answers Redact_answers Delete_answers Edit_answers
  Pin_answers TriggerEffect_answers reactions_answer MarkRead_answers RecordDelivery_answers

lemma msg_request_history: "wf_history (caller (snd rc)) T (msg_request E rc T)"
proof -
  obtain r c where rc: "rc = (r, c)" by fastforce
  have "wf_history U T (snd (DeliverPendingToUser E now u T))" for U now u
    unfolding DeliverPendingToUser_def by (metis deliver_all_same prod.collapse wf_same)
  then show ?thesis using handler_answers [where c = c and T = T]
    by (cases r) (auto simp: msg_request_def rc answers_def split: option.splits)
qed

section \<open>Runs\<close>

text \<open>A relation that every request keeps for its caller is kept by a run for all its callers.\<close>

locale request_run =
  fixes step :: "'r \<Rightarrow> 's \<Rightarrow> 's"
    and user :: "'r \<Rightarrow> string set"
    and rel :: "string set \<Rightarrow> 's \<Rightarrow> 's \<Rightarrow> bool"
  assumes rel_refl: "rel U s s"
    and rel_trans: "rel U s t \<Longrightarrow> rel U t u \<Longrightarrow> rel U s u"
    and rel_mono: "rel U s t \<Longrightarrow> U \<subseteq> V \<Longrightarrow> rel V s t"
    and step_rel: "rel (user r) s (step r s)"
begin

lemma run_rel: "rel (\<Union> (user ` set rs)) s (foldl (\<lambda>s r. step r s) s rs)"
proof (induction rs arbitrary: s)
  case Nil
  then show ?case by (simp add: rel_refl)
next
  case (Cons r rs)
  have "rel (\<Union> (user ` set (r # rs))) s (step r s)"
    by (rule rel_mono [OF step_rel]) auto
  moreover have "rel (\<Union> (user ` set (r # rs))) (step r s) (foldl (\<lambda>s r. step r s) (step r s) rs)"
    by (rule rel_mono [OF Cons.IH]) auto
  ultimately show ?case using rel_trans by fastforce
qed

lemma run_append: "foldl (\<lambda>s r. step r s) s (rs @ qs) = foldl (\<lambda>s r. step r s) (foldl (\<lambda>s r. step r s) s rs) qs"
  by simp

end

definition run_requests :: "'e msgEnv_scheme \<Rightarrow> (msgRoute \<times> msgCall) list \<Rightarrow> 'z msgTables_scheme \<Rightarrow> 'z msgTables_scheme" where
  "run_requests E rs T = foldl (\<lambda>T rc. msg_request E rc T) T rs"

interpretation msg_run: request_run "msg_request E" "caller \<circ> snd" wf_history
proof
  show "wf_history U s t \<Longrightarrow> U \<subseteq> V \<Longrightarrow> wf_history V s t" for U V and s t :: "'z msgTables_scheme"
    by (auto simp: wf_history_def intro: history_mono)
qed (simp, erule (1) wf_history_trans, simp only: comp_apply msg_request_history)

lemma run_history: "messages_wf T \<Longrightarrow> history (\<Union> ((caller \<circ> snd) ` set rs)) T (run_requests E rs T)"
  using msg_run.run_rel [of rs T E] by (simp add: run_requests_def wf_history_def)

end
