(* ===== verification/MessageProps.thy ===== *)
theory MessageProps
  imports MessageHistory RatchetProps
begin

text \<open>
  Properties of the message service: over any run of requests the orders of a conversation stay without
  gaps and only the sender changes a message; what lists and histories show; retries, searches and deliveries.
\<close>

section \<open>A small instance\<close>

definition demo_msg_env :: msgEnv where
  "demo_msg_env = \<lparr>ev_rfc3339 = (\<lambda>t. itoa (nat t)), ev_rfc3339nano = (\<lambda>t. itoa (nat t)), ev_timestamptz = atoi,
     ev_unix_ms = (\<lambda>t. t div 1000000), mv_parse_time = atoi, mv_crypto = toy_crypto, mv_allow = (\<lambda>k. Some (True, 0)),
     mv_rate_limited = False, mv_replicated = False, mv_redis = False, mv_default_sms = False, mv_online = (\<lambda>u. False)\<rparr>"

text \<open>A conversation of \<open>a\<close>, \<open>b\<close> and \<open>d\<close>.\<close>

definition demo_msgs :: msgTables where
  "demo_msgs = \<lparr>
     tb_users = [plain_user ''a'' None, plain_user ''b'' (Some ''5''),
       plain_user ''d'' None],
     tb_devices = [], tb_conversations = [new_conversation ''c'' ''GROUP'' ''AUTO'' 1],
     tb_members = [new_member ''c'' ''a'' 1, new_member ''c'' ''b'' 2, new_member ''c'' ''d'' 3],
     tb_counters = [(''c'', 1)], tb_external_phones = [], tb_blocks = [], tb_messages = [], tb_attachments = [], tb_edits = [],
     tb_reactions = [], tb_reaction_events = [], tb_effects = [], tb_receipts = [], tb_idempotency = [], tb_domain_events = [],
     tb_next_event = 1, tb_inbox = [], tb_next_user_event = 1, tb_conv_state = [], tb_cursors = [], tb_keys = [],
     tb_mls = \<lparr>leaf_rows = [], tree_rows = [], epoch_rows = [], session_rows = [], change_rows = []\<rparr>, tb_deliveries = [], tb_thread_keys = [], tb_carrier = []\<rparr>"

definition demo_msg_call :: "string \<Rightarrow> string \<Rightarrow> time \<Rightarrow> json gomap \<Rightarrow> msgCall" where
  "demo_msg_call user mid now members = \<lparr>mc_user = Some user, mc_device = [], mc_id = mid, mc_ip = [], mc_now = now, mc_new_id = mid,
     mc_new_conversation = ''n'', mc_async = None, mc_req = \<lparr>Method = ''POST'', Path = [], Query = [], Header = [], Body = Some (JObj members)\<rparr>\<rparr>"

text \<open>After a message of \<open>a\<close>, which \<open>b\<close> and then \<open>a\<close> ask to delete.\<close>

definition demo_sent :: msgTables where
  "demo_sent = demo_msgs\<lparr>tb_counters := [(''c'', 2)],
     tb_messages := [new_message ''m1'' ''c'' ''a'' ''text'' (JObj [(''text'', JStr ''hi'')]) ''OTT'' 1 5]\<rparr>"

definition demo_deletes :: "(msgRoute \<times> msgCall) list" where
  "demo_deletes = [(DeleteRoute, demo_msg_call ''b'' ''m1'' 7 []), (DeleteRoute, demo_msg_call ''a'' ''m1'' 8 [])]"

lemma demo_sent_wf: "messages_wf demo_sent"
  by (simp add: messages_wf_def orders_ok_def orders_of_def demo_msgs_def demo_sent_def)

lemma demo_deletes_rows: "map (\<lambda>m. (mg_id m, mg_server_order m, mg_deleted_at m, mg_content m))
    (tb_messages (run_requests demo_msg_env demo_deletes demo_sent)) = [(''m1'', 1, Some 8, JObj [])]"
  by code_simp

section \<open>Runs\<close>

lemma history_rows:
  assumes "history U T T1" and "i < length (tb_messages T)"
  shows "i < length (tb_messages T1)" "row_step U (tb_messages T ! i) (tb_messages T1 ! i)"
  using assms by (auto simp: history_def rows_grown_def list_all2_conv_all_nth nth_append)

lemma history_fixed: "history U T T1 \<Longrightarrow> map fixed_part (take (length (tb_messages T)) (tb_messages T1)) = map fixed_part (tb_messages T)"
  by (auto simp: history_def rows_grown_def row_step_def list_all2_conv_all_nth intro!: nth_equalityI)

lemma history_new: "history U T T1 \<Longrightarrow> mg_sender ` set (drop (length (tb_messages T)) (tb_messages T1)) \<subseteq> U"
  by (auto simp: history_def rows_grown_def dest!: list_all2_lengthD)

definition callers :: "(msgRoute \<times> msgCall) list \<Rightarrow> string set" where
  "callers rs = \<Union> ((caller \<circ> snd) ` set rs)"

lemma in_callers: "u \<in> callers rs \<longleftrightarrow> (\<exists>r c. (r, c) \<in> set rs \<and> mc_user c = Some u)"
  by (force simp: callers_def caller_def split: option.splits)

text \<open>C1. Over any run of requests, the orders of each conversation stay the numbers before its counter, ids stay
  distinct, and every message keeps its place, its id, conversation, sender, type, reply target, transport, order and
  time.\<close>

theorem orders_stay_gapless:
  assumes "messages_wf T"
  shows "messages_wf (run_requests E rs T)
    \<and> map fixed_part (take (length (tb_messages T)) (tb_messages (run_requests E rs T))) = map fixed_part (tb_messages T)"
  using run_history [OF assms, of rs E] assms by (simp add: history_fixed) (simp add: history_def)

text \<open>C2. The contents of a message change in a run only when its sender makes a request, a deleted message stays
  deleted and empty, and every new message is from someone who made a request.\<close>

theorem only_sender_changes:
  assumes "messages_wf T" and "i < length (tb_messages T)"
  shows "let m = tb_messages T ! i; T1 = run_requests E rs T; m' = tb_messages T1 ! i in
      (mg_content m' = mg_content m \<or> (\<exists>r c. (r, c) \<in> set rs \<and> mc_user c = Some (mg_sender m)))
      \<and> (mg_deleted_at m = None \<or> (mg_deleted_at m' \<noteq> None \<and> mg_content m' = JObj []))
      \<and> mg_sender ` set (drop (length (tb_messages T)) (tb_messages T1)) \<subseteq> {u. \<exists>r c. (r, c) \<in> set rs \<and> mc_user c = Some u}"
proof -
  let ?T1 = "run_requests E rs T"
  have h: "history (callers rs) T ?T1" using run_history [OF assms(1), of rs E] by (simp add: callers_def)
  note row = history_rows [OF h assms(2)]
  have "mg_content (tb_messages ?T1 ! i) = JObj []" if "mg_deleted_at (tb_messages T ! i) \<noteq> None"
    using row(2) that assms by (auto simp: row_step_def messages_wf_def)
  then show ?thesis
    using row(2) history_new [OF h] by (auto simp: Let_def row_step_def in_callers)
qed

theorem orders_stay_gapless_witness:
  "messages_wf (run_requests demo_msg_env demo_deletes demo_sent)
   \<and> map mg_deleted_at (tb_messages (run_requests demo_msg_env demo_deletes demo_sent)) = [Some 8]"
  using orders_stay_gapless [OF demo_sent_wf, of demo_msg_env demo_deletes]
    arg_cong [where f = "map (fst \<circ> snd \<circ> snd)", OF demo_deletes_rows]
  by (simp add: comp_def)

theorem only_sender_changes_witness:
  "mg_content (tb_messages (run_requests demo_msg_env demo_deletes demo_sent) ! 0) = JObj []
   \<and> mg_content (tb_messages demo_sent ! 0) \<noteq> JObj [] \<and> (\<exists>r c. (r, c) \<in> set demo_deletes \<and> mc_user c = Some ''a'')"
proof -
  have "tb_messages (run_requests demo_msg_env demo_deletes demo_sent) \<noteq> []"
    using arg_cong [where f = length, OF demo_deletes_rows] by auto
  then have "mg_content (tb_messages (run_requests demo_msg_env demo_deletes demo_sent) ! 0) = JObj []"
    using arg_cong [where f = hd, OF demo_deletes_rows] by (simp add: hd_map hd_conv_nth)
  moreover have "mg_content (tb_messages demo_sent ! 0) \<noteq> JObj []" "mg_sender (tb_messages demo_sent ! 0) = ''a''"
    by (simp_all add: demo_sent_def)
  ultimately show ?thesis
    using only_sender_changes [OF demo_sent_wf, of 0 demo_msg_env demo_deletes] by (simp add: Let_def demo_sent_def)
qed

section \<open>Lists\<close>

lemma sort_key_sorted: "sorted (map f xs) \<Longrightarrow> sort_key f xs = xs"
  by (induction xs) (auto simp: insort_is_Cons)

lemma conversation_rows_in_order:
  assumes "messages_wf T"
  shows "conversation_rows T conv = filter (\<lambda>m. mg_conversation_id m = conv) (tb_messages T)"
proof -
  have "sorted (orders_of T conv)"
    using assms by (auto simp: messages_wf_def orders_ok_def dest: spec [where x = conv] split: option.splits)
  then show ?thesis unfolding conversation_rows_def orders_of_def by (rule sort_key_sorted)
qed

lemma applyMessageLifecycle_keeps:
  "ms_MessageID (applyMessageLifecycle E now row m) = ms_MessageID m"
  "ms_ServerOrder (applyMessageLifecycle E now row m) = ms_ServerOrder m"
  by (simp_all add: applyMessageLifecycle_def Let_def split: option.split)

lemma full_view_simps [simp]:
  "ms_MessageID (full_view E now T u m) = mg_id m" "ms_ServerOrder (full_view E now T u m) = mg_server_order m"
  by (simp_all add: full_view_def Let_def applyMessageLifecycle_keeps row_view_def)


section \<open>Histories\<close>

lemma scan_all_Some: "list_all (\<lambda>x. f x \<noteq> None) xs \<Longrightarrow> scan_all f xs = Some (map (\<lambda>x. the (f x)) xs)"
  by (induction xs) auto

lemma view_hidden:
  assumes "hidden_message now m"
  shows "ms_Content (full_view E now T u m) = Some []"
  using assms by (auto simp: full_view_def Let_def applyMessageLifecycle_def row_view_def view_content_def split: option.splits)

lemma find_message_cong: "tb_messages V = tb_messages W \<Longrightarrow> find_message V mid = find_message W mid"
  by (simp add: find_message_def)

lemma find_message_update:
  "(\<And>m. mg_id (f m) = mg_id m) \<Longrightarrow> find_message (update_message mid f T) mid = map_option f (find_message T mid)"
  by (auto simp: find_message_def update_message_def find_update_where find_Some_iff split: option.splits intro!: option.map_cong)

text \<open>The domain event of an operation is the last change of its transaction.\<close>

definition log_only :: "'z convTables_scheme \<Rightarrow> 'z convTables_scheme \<Rightarrow> bool" where
  "log_only T T1 \<longleftrightarrow> T1 = T\<lparr>tb_domain_events := tb_domain_events T1, tb_next_event := tb_next_event T1\<rparr>"

lemma log_onlyD:
  assumes "log_only T T1"
  shows "tb_messages T1 = tb_messages T" "tb_edits T1 = tb_edits T" "tb_members T1 = tb_members T"
    "tb_conversations T1 = tb_conversations T" "tb_idempotency T1 = tb_idempotency T" "tb_counters T1 = tb_counters T"
    "tb_users T1 = tb_users T" "tb_blocks T1 = tb_blocks T" "tb_external_phones T1 = tb_external_phones T"
    "tb_inbox T1 = tb_inbox T" "tb_conv_state T1 = tb_conv_state T"
  by (subst assms [unfolded log_only_def], simp)+

lemma append_with_meta_log: "append_with_meta E now conv actor ty payload T = Inr T1 \<Longrightarrow> log_only T T1"
  by (auto simp: append_with_meta_def AppendDomainEvent_def log_only_def split: if_splits)

lemma DeleteMessage_effect:
  assumes "DeleteMessage E now u mid T = Inr (x, T1)"
  shows "tb_messages T1 = tb_messages (update_message mid (delete_row now) T)" "tb_edits T1 = tb_edits T" "tb_members T1 = tb_members T"
proof -
  obtain m where "append_with_meta E now (mg_conversation_id m) u ''message_deleted'' (\<lambda>meta. deleted_json (delete_payload E now m meta))
      (touch_conversation now (mg_conversation_id m) (update_message mid (delete_row now) T
         \<lparr>tb_attachments := filter (\<lambda>(a, i). i \<noteq> Some mid) (tb_attachments (update_message mid (delete_row now) T))\<rparr>)) = Inr T1"
    using assms by (auto simp: DeleteMessage_def Let_def)
  from log_onlyD [OF append_with_meta_log [OF this]]
  show "tb_messages T1 = tb_messages (update_message mid (delete_row now) T)" "tb_edits T1 = tb_edits T" "tb_members T1 = tb_members T"
    by (simp_all add: touch_conversation_def update_conversation_def update_message_def)
qed

lemma envelope_tables:
  "validateEncryptedConversationEnvelope C conv metadata T = Inr T1 \<Longrightarrow> T1 = T\<lparr>tb_mls := tb_mls T1\<rparr>"
proof (erule envelope_Inr)
  fix c
  assume "po_MLSEnabled (policy_of c) \<Longrightarrow> em_Scheme metadata = MLSEncryptionScheme
       \<and> validateMLSEncryptedConversationEnvelope C conv metadata (or_else (cv_mls_epoch c) 0)
           (BuildConversationMLSTree (membership_of T) conv (or_else (cv_mls_epoch c) 0))
           (map (\<lambda>leaf. device_key (leaf_UserID leaf) (leaf_DeviceID leaf))
             (GetGroupMembers (BuildConversationMLSTree (membership_of T) conv (or_else (cv_mls_epoch c) 0)))) T = Inr T1"
    and "\<not> po_MLSEnabled (policy_of c) \<Longrightarrow> em_Scheme metadata = SignalEncryptionScheme \<and> T1 = T
       \<and> validateSignalEncryptedConversationEnvelope metadata
           (map (\<lambda>leaf. device_key (leaf_UserID leaf) (leaf_DeviceID leaf))
             (GetGroupMembers (BuildConversationMLSTree (membership_of T) conv (or_else (cv_mls_epoch c) 0)))) = Inr ()"
  then show ?thesis
    by (cases "po_MLSEnabled (policy_of c)") (auto simp: validateMLSEncryptedConversationEnvelope_def Let_def split: if_splits)
qed

lemma EditMessage_effect:
  assumes "EditMessage E now u device mid content T = Inr (x, T1)" and "find_message T mid = Some m"
  obtains dev scheme where
    "tb_messages T1 = tb_messages (update_message mid (edit_row now (stored_content content) dev scheme) T)"
    "tb_edits T1 = tb_edits T @ [edit_record T now u m (stored_content content)]" "tb_members T1 = tb_members T" "mg_sender m = u"
proof -
  obtain dev scheme Ta where m: "mg_sender m = u"
    and e: "(if mg_content_type m = ''encrypted'' then edit_envelope E u device m (stored_content content) T
                else Inr ((or_else (mg_sender_device m) [], []), T)) = Inr ((dev, scheme), Ta)"
    and a: "append_with_meta E now (mg_conversation_id m) u ''message_edited''
        (\<lambda>meta. edited_json (edit_payload E now m dev (stored_content content) meta))
        ((touch_conversation now (mg_conversation_id m) (update_message mid (edit_row now (stored_content content) (trim_space dev) scheme) Ta))
           \<lparr>tb_edits := tb_edits Ta @ [edit_record T now u m (stored_content content)]\<rparr>) = Inr T1"
    using assms by (auto simp: EditMessage_def Let_def update_message_def touch_conversation_def update_conversation_def)
  have "Ta = T\<lparr>tb_mls := tb_mls Ta\<rparr>"
    using e by (auto simp: edit_envelope_def Let_def dest: envelope_tables split: if_splits)
  then obtain M where "Ta = T\<lparr>tb_mls := M\<rparr>" by blast
  with log_onlyD [OF append_with_meta_log [OF a]] m show thesis
    by (intro that [where dev = "trim_space dev" and scheme = scheme]) (simp_all add: touch_conversation_def update_conversation_def update_message_def)
qed

text \<open>C37. What a deleted message said stays readable: after an edit and a deletion the list shows an empty message, but
  every member of the conversation gets both versions from the edit history.\<close>

theorem edit_history_keeps_deleted:
  assumes "EditMessage E now u device mid content T = Inr (x, T1)" and "DeleteMessage E now1 u mid T1 = Inr (attachments, T2)"
    and "find_message T mid = Some m" and "mg_content m = JObj old"
    and "list_all (\<lambda>e. scan_object (ed_previous_content e) \<noteq> None \<and> scan_object (ed_new_content e) \<noteq> None) (tb_edits T)"
    and "hasMembership T actor (mg_conversation_id m)"
  shows "\<exists>m2 edits e. find_message T2 mid = Some m2 \<and> ms_Content (full_view E now2 T2 actor m2) = Some []
     \<and> GetMessageEditHistory E T2 actor mid = Inr edits \<and> e \<in> set edits
     \<and> er_PreviousContent e = Some old \<and> er_NewContent e = Some (stored_content content)"
proof -
  obtain dev scheme where T1: "tb_messages T1 = tb_messages (update_message mid (edit_row now (stored_content content) dev scheme) T)"
    "tb_edits T1 = tb_edits T @ [edit_record T now u m (stored_content content)]" "tb_members T1 = tb_members T"
    by (rule EditMessage_effect [OF assms(1,3)])
  note T2 = DeleteMessage_effect [OF assms(2)]
  let ?m1 = "edit_row now (stored_content content) dev scheme m" and ?e = "edit_record T now u m (stored_content content)"
  let ?m2 = "delete_row now1 ?m1"
  have "find_message T1 mid = Some ?m1"
    using find_message_cong [OF T1(1), of mid] by (simp add: find_message_update edit_row_def Let_def assms(3))
  then have m2: "find_message T2 mid = Some ?m2"
    using find_message_cong [OF T2(1), of mid] by (simp add: find_message_update delete_row_def)
  have conv: "mg_conversation_id ?m2 = mg_conversation_id m" by (simp add: delete_row_def edit_row_def Let_def)
  let ?es = "sort_desc ed_edited_at (filter (\<lambda>e. ed_message_id e = mid) (tb_edits T2))"
  have "list_all (\<lambda>e. scan_edit E T2 ?m2 e \<noteq> None) ?es"
    using assms(5) by (auto simp: list_all_iff T2(2) T1(2) scan_edit_def edit_record_def assms(4) scan_object_def split: option.split)
  then have h: "GetMessageEditHistory E T2 actor mid = Inr (map (\<lambda>e. the (scan_edit E T2 ?m2 e)) ?es)"
    using assms(6) scan_all_Some by (simp add: GetMessageEditHistory_def m2 conv hasMembership_def find_member_def T2(3) T1(3))
  have "?e \<in> set ?es" using find_messageD [OF assms(3)] by (simp add: T2(2) T1(2) edit_record_def)
  moreover have "er_PreviousContent (the (scan_edit E T2 ?m2 ?e)) = Some old"
    "er_NewContent (the (scan_edit E T2 ?m2 ?e)) = Some (stored_content content)"
    by (simp_all add: scan_edit_def edit_record_def assms(4) scan_object_def)
  moreover have "ms_Content (full_view E now2 T2 actor ?m2) = Some []"
    by (rule view_hidden) (simp add: hidden_message_def delete_row_def)
  ultimately show ?thesis using m2 h by fastforce
qed

end
