(* ===== verification/MessageFlow.thy ===== *)
theory MessageFlow
  imports MessageProps ReplicationProps
begin

text \<open>
  Properties that join the parts of the message service: deliveries, phone numbers, retries, the
  search, and a sent message on its way through the domain log into the inboxes.
\<close>

section \<open>Deliveries\<close>

lemma deliver_once_grows:
  assumes "deliver_once now mid u tr T = (inserted, T1)" and "d \<in> set (tb_deliveries T)"
  shows "d \<in> set (tb_deliveries T1)"
  using assms by (auto simp: deliver_once_def split: if_splits)

lemma publish_deliveries_grows:
  "publish_deliveries E now rs msg T = (pubs, T1) \<Longrightarrow> d \<in> set (tb_deliveries T) \<Longrightarrow> d \<in> set (tb_deliveries T1)"
proof (induction rs arbitrary: T pubs T1)
  case (Cons r rs)
  then show ?case by (fastforce split: if_splits prod.splits dest: deliver_once_grows)
qed simp

lemma publish_deliveries_online:
  assumes "publish_deliveries E now rs msg T = (pubs, T1)" and "r \<in> set rs" and "trim_space r \<noteq> []"
    and "mv_online E (''presence:user:'' @ trim_space r)" and "\<forall>d \<in> set (tb_deliveries T). dl_message_id d \<noteq> ms_MessageID msg"
  shows "\<exists>d \<in> set (tb_deliveries T1). dl_message_id d = ms_MessageID msg \<and> dl_recipient_phone d = None"
  using assms
proof (induction rs arbitrary: T pubs T1)
  case (Cons s rs)
  show ?case
  proof (cases "trim_space s = [] \<or> \<not> mv_online E (''presence:user:'' @ trim_space s)")
    case True
    then have "r \<in> set rs" "publish_deliveries E now rs msg T = (pubs, T1)" using Cons.prems by auto
    then show ?thesis using Cons.IH Cons.prems by blast
  next
    case False
    obtain i T2 where d: "deliver_once now (ms_MessageID msg) (trim_space s) (ms_Transport msg) T = (i, T2)" by fastforce
    obtain p T3 where t: "publish_deliveries E now rs msg T2 = (p, T3)" by fastforce
    have "\<exists>d \<in> set (tb_deliveries T2). dl_message_id d = ms_MessageID msg \<and> dl_recipient_phone d = None"
      using d Cons.prems(5) by (auto simp: deliver_once_def list_ex_iff split: if_splits)
    moreover have "T1 = T3" using Cons.prems(1) False d t by simp
    ultimately show ?thesis using publish_deliveries_grows [OF t] by blast
  qed
qed simp

lemma null_phone_fails:
  assumes "d \<in> set (tb_deliveries T)" and "dl_message_id d = mid" and "dl_recipient_phone d = None"
  shows "ListDeliveries E mid T = Inl MsgDbError"
proof -
  have "scan_all f xs = None" if "x \<in> set xs" "f x = None" for f :: "deliveryRow \<Rightarrow> DeliveryRecord option" and x xs
    using that by (induction xs) (auto split: option.splits)
  moreover have "scan_delivery E d = None" by (simp add: scan_delivery_def assms(3))
  ultimately have "scan_all (scan_delivery E) (sort_key dl_updated_at (filter (\<lambda>d. dl_message_id d = mid) (tb_deliveries T))) = None"
    using assms(1,2) by fastforce
  then show ?thesis by (simp add: ListDeliveries_def)
qed

text \<open>C40. Once a message was delivered to a recipient who was online, its deliveries can no longer be listed: the row that
  records the delivery has a null phone, which the list scans into a string.\<close>

theorem online_delivery_breaks_list:
  assumes "publishOnlineDeliveryUpdates E now rs msg T = (pubs, T1)" and "mv_redis E"
    and "normalizeTransportForDelivery (ms_Transport msg) = ''OHMF''"
    and "r \<in> set rs" and "trim_space r \<noteq> []" and "mv_online E (''presence:user:'' @ trim_space r)"
    and "\<forall>d \<in> set (tb_deliveries T). dl_message_id d \<noteq> ms_MessageID msg"
  shows "ListDeliveries E1 (ms_MessageID msg) T1 = Inl MsgDbError"
proof -
  have p: "publish_deliveries E now rs msg T = (pubs, T1)"
    using assms(1-3) by (simp add: publishOnlineDeliveryUpdates_def)
  show ?thesis
    using publish_deliveries_online [OF p assms(4-7)] null_phone_fails by blast
qed

theorem online_delivery_breaks_list_witness:
  "ListDeliveries demo_msg_env ''m1'' (snd (publishOnlineDeliveryUpdates (demo_msg_env\<lparr>mv_redis := True, mv_online := \<lambda>u. True\<rparr>) 6 [''b'']
     (empty_msg\<lparr>ms_MessageID := ''m1'', ms_Transport := ''OTT''\<rparr>) demo_sent)) = Inl MsgDbError"
proof -
  let ?E = "demo_msg_env\<lparr>mv_redis := True, mv_online := \<lambda>u. True\<rparr>" and ?m = "empty_msg\<lparr>ms_MessageID := ''m1'', ms_Transport := ''OTT''\<rparr>"
  have "normalizeTransportForDelivery ''OTT'' = ''OHMF''" "trim_space ''b'' \<noteq> []" by code_simp+
  then show ?thesis
    using online_delivery_breaks_list [OF prod.collapse [symmetric], of ?E ?m "''b''" "[''b'']" demo_sent demo_msg_env 6]
    by (simp add: demo_sent_def demo_msgs_def)
qed


section \<open>Search\<close>

text \<open>C38. No search ever succeeds: for a member, a query of good quality is refused by the database whatever its options are.\<close>

theorem search_always_fails:
  assumes "hasMembership T user conv" and "2 \<le> length query" and "fst (ValidateSearchQuality (NormalizeQuery query))"
    and "enforceSearchRate E user conv = Inr ()"
  shows "SearchMessages E now found T user conv query limit opts = Inl MsgDbError"
  using assms by (cases query) (auto simp: SearchMessages_def Let_def statement_rejected)

theorem search_always_fails_witness:
  "SearchMessages demo_msg_env 9 (\<lambda>ps args n. tb_messages demo_sent) demo_sent ''a'' ''c'' ''hello'' 50
     \<lparr>so_SenderUserID = [], so_ContentType = [], so_After = None, so_Before = None, so_SearchMode = [], so_MatchType = [],
      so_SortBy = [], so_ExactMatch = False, so_IncludeEdits = False\<rparr> = Inl MsgDbError"
  by (rule search_always_fails) (code_simp+)

section \<open>Messages to a phone number\<close>

lemma next_order_frame:
  assumes "next_server_order conv T = Some (n, T1)"
  shows "tb_members T1 = tb_members T" "tb_messages T1 = tb_messages T" "tb_idempotency T1 = tb_idempotency T"
  using assms by (auto simp: next_server_order_Some)

lemma store_message_frame:
  assumes "store_message E now row msg endpoint key T = Inr T1"
  shows "tb_members T1 = tb_members T" "tb_users T1 = tb_users T" "tb_blocks T1 = tb_blocks T"
    "tb_external_phones T1 = tb_external_phones T" "map cv_id (tb_conversations T1) = map cv_id (tb_conversations T)"
proof -
  obtain Ta Tb where a: "insert_message row T = Some Ta"
    and b: "upsertIdempotency now (mg_sender row) endpoint key msg 201 (update_conversation (mg_conversation_id row)
          (\<lambda>c. c\<lparr>cv_last_message_id := Some (mg_id row), cv_updated_at := now\<rparr>) Ta) = Inr Tb"
    and c: "append_created E now (mg_sender row) msg Tb = Inr T1"
    using assms by (auto simp: store_message_def)
  have "log_only Tb T1" using c by (auto simp: append_created_def AppendDomainEvent_def log_only_def split: if_splits)
  from log_onlyD [OF this] insert_message_Some [OF a] b
  show "tb_members T1 = tb_members T" "tb_users T1 = tb_users T" "tb_blocks T1 = tb_blocks T"
    "tb_external_phones T1 = tb_external_phones T" "map cv_id (tb_conversations T1) = map cv_id (tb_conversations T)"
    by (auto simp: upsertIdempotency_def Let_def update_conversation_def map_update_where split: if_splits)
qed


text \<open>\<open>a\<close> writes to the number of \<open>b\<close>, and \<open>d\<close> of their encrypted group gets the message.\<close>

definition demo_group :: msgTables where
  "demo_group = demo_msgs\<lparr>tb_conversations := [(new_conversation ''c'' ''GROUP'' ''AUTO'' 1)\<lparr>cv_encryption_state := Some ''ENCRYPTED''\<rparr>],
     tb_devices := [plain_device ''b1'' ''b'' [''E2EE_OTT_V2'']],
     tb_keys := [\<lparr>dk_device_id = ''b1'', dk_user_id = ''b'', dk_bundle_version = ''OHMF_SIGNAL_V1'', dk_agreement_key = [], dk_signing_key = []\<rparr>]\<rparr>"

definition demo_sms :: sendRequest where
  "demo_sms = \<lparr>rq_user = ''a'', rq_device = [], rq_conversation = [], rq_key = ''k'', rq_content_type = ''note'',
     rq_content = Some [(''text'', JStr ''hi'')], rq_client_id = []\<rparr>"

definition demo_phone_send where
  "demo_phone_send = sendToPhoneTx demo_msg_env 5 ''n'' ''m1'' demo_sms ''5'' demo_group"


section \<open>Retries\<close>

lemma to_lower_message_names:
  "to_lower ''reply_to_message_id'' = ''reply_to_message_id''"
  "to_lower ''reply_count'' = ''reply_count''"
  "to_lower ''reactions'' = ''reactions''"
  "to_lower ''status'' = ''status''"
  "to_lower ''is_encrypted'' = ''is_encrypted''"
  "to_lower ''encryption_scheme'' = ''encryption_scheme''"
  "to_lower ''sent_at'' = ''sent_at''"
  "to_lower ''status_updated_at'' = ''status_updated_at''"
  "to_lower ''expires_at'' = ''expires_at''"
  "to_lower ''deleted'' = ''deleted''"
  "to_lower ''visibility_state'' = ''visibility_state''"
  "to_lower ''source'' = ''source''"
  "to_lower ''pinned_at'' = ''pinned_at''"
  "to_lower ''pinned_by_user_id'' = ''pinned_by_user_id''"
  by code_simp+

lemma omitted_values:
  "member_values (Some (JObj (omit_false k b))) f = (if b \<and> equal_fold k f then [JBool True] else [])"
  "member_values (Some (JObj (omit_zero k n))) f = (if n \<noteq> 0 \<and> equal_fold k f then [json_int n] else [])"
  "member_values (Some (JObj (omit_counts k None))) f = []"
  by (simp_all add: member_values_def members_of_def omit_false_def omit_zero_def omit_counts_def)

lemmas message_values = member_values_obj equal_fold_def to_lower_names to_lower_message_names omitted_values

lemma field_of_omitted:
  "member_values (Some p) f = (if b then [JBool True] else []) \<Longrightarrow> bool_field (Some p) f = (b, True)"
  "member_values (Some p) f = (if n \<noteq> 0 then [json_int n] else []) \<Longrightarrow> - (2 ^ 63) \<le> n \<Longrightarrow> n < 2 ^ 63 \<Longrightarrow> int_field (Some p) f = (n, True)"
  "member_values (Some p) f = [] \<Longrightarrow> int_map_field (Some p) f = (None, True)"
  using atoi_show_i64 [of n] by (simp_all add: bool_field_def int_field_def int_map_field_def json_int_def split: if_splits)

text \<open>What the idempotency table keeps of a message is read back as the message.\<close>

lemma message_roundtrip:
  assumes "- (2 ^ 63) \<le> ms_ServerOrder m" "ms_ServerOrder m < 2 ^ 63" "- (2 ^ 63) \<le> ms_ReplyCount m" "ms_ReplyCount m < 2 ^ 63"
    and "ms_Reactions m = None" and "content_ok (ms_Content m)"
  shows "decode_message (message_json m) = Some m"
proof -
  let ?p = "message_json m"
  have s: "string_field (Some ?p) ''message_id'' = (ms_MessageID m, True)"
    "string_field (Some ?p) ''conversation_id'' = (ms_ConversationID m, True)"
    "string_field (Some ?p) ''sender_user_id'' = (ms_SenderUserID m, True)"
    "string_field (Some ?p) ''sender_device_id'' = (ms_SenderDeviceID m, True)"
    "string_field (Some ?p) ''reply_to_message_id'' = (ms_ReplyToMessageID m, True)"
    "string_field (Some ?p) ''content_type'' = (ms_ContentType m, True)"
    "string_field (Some ?p) ''client_generated_id'' = (ms_ClientGeneratedID m, True)"
    "string_field (Some ?p) ''transport'' = (ms_Transport m, True)"
    "string_field (Some ?p) ''status'' = (ms_Status m, True)"
    "string_field (Some ?p) ''encryption_scheme'' = (ms_EncryptionScheme m, True)"
    "string_field (Some ?p) ''created_at'' = (ms_CreatedAt m, True)"
    "string_field (Some ?p) ''sent_at'' = (ms_SentAt m, True)"
    "string_field (Some ?p) ''delivered_at'' = (ms_DeliveredAt m, True)"
    "string_field (Some ?p) ''read_at'' = (ms_ReadAt m, True)"
    "string_field (Some ?p) ''status_updated_at'' = (ms_StatusUpdatedAt m, True)"
    "string_field (Some ?p) ''edited_at'' = (ms_EditedAt m, True)"
    "string_field (Some ?p) ''expires_at'' = (ms_ExpiresAt m, True)"
    "string_field (Some ?p) ''deleted_at'' = (ms_DeletedAt m, True)"
    "string_field (Some ?p) ''visibility_state'' = (ms_VisibilityState m, True)"
    "string_field (Some ?p) ''source'' = (ms_Source m, True)"
    "string_field (Some ?p) ''pinned_at'' = (ms_PinnedAt m, True)"
    "string_field (Some ?p) ''pinned_by_user_id'' = (ms_PinnedByUserID m, True)"
    by (rule field_of_values(1); simp add: message_json_def message_values assms(5))+
  have o: "int_field (Some ?p) ''server_order'' = (ms_ServerOrder m, True)"
    by (rule field_of_values(2) [OF _ assms(1,2)]; simp add: message_json_def message_values assms(5))
  have r: "int_field (Some ?p) ''reply_count'' = (ms_ReplyCount m, True)"
    by (rule field_of_omitted(2) [OF _ assms(3,4)]; simp add: message_json_def message_values assms(5))
  have b: "bool_field (Some ?p) ''is_encrypted'' = (ms_IsEncrypted m, True)" "bool_field (Some ?p) ''deleted'' = (ms_Deleted m, True)"
    by (rule field_of_omitted(1); simp add: message_json_def message_values assms(5))+
  have c: "object_field (Some ?p) ''content'' = (ms_Content m, True)"
    by (rule field_of_values(4)) (use assms(6) in \<open>simp_all add: message_json_def message_values assms(5) content_ok_def\<close>)
  have x: "int_map_field (Some ?p) ''reactions'' = (None, True)"
    by (rule field_of_omitted(3); simp add: message_json_def message_values assms(5))
  have "struct_ok (Some ?p)" by (simp add: struct_ok_def message_json_def)
  then show ?thesis using assms(5)
    by (simp add: decode_message_def strs_ok_def message_strings_def int_ok_def str_of_def int_of_field_def bool_of_def s o r b c x)
qed

lemma envelope_or_plain_tables:
  "envelope_or_plain E ct user device conv stored T = Inr (scheme, T1) \<Longrightarrow> T1 = T\<lparr>tb_mls := tb_mls T1\<rparr>"
  by (auto simp: envelope_or_plain_def check_envelope_def dest: envelope_tables split: if_splits)

lemma upsert_idempotency_rows:
  assumes "upsertIdempotency now user endpoint key msg status T = Inr T1"
  shows "tb_idempotency T1 = (if list_ex (is_key user endpoint key) (tb_idempotency T)
      then update_where (is_key user endpoint key) (\<lambda>r. r\<lparr>ik_payload := Some (message_json msg), ik_status := Some status\<rparr>) (tb_idempotency T)
      else tb_idempotency T @ [\<lparr>ik_actor = user, ik_endpoint = endpoint, ik_key = key, ik_payload = Some (message_json msg),
        ik_status = Some status, ik_expires_at = now + 24 * 3600 * Second\<rparr>])"
  using assms by (auto simp: upsertIdempotency_def Let_def split: if_splits)

lemma append_created_log: "append_created E now user m T = Inr T1 \<Longrightarrow> log_only T T1"
  by (auto simp: append_created_def AppendDomainEvent_def log_only_def split: if_splits)

text \<open>What a send that is not a retry leaves behind.\<close>

lemma sent_fresh:
  assumes "sendSyncWithEndpoint E now newID q endpoint source T = Inr ((msg, Some rs), T1)"
  obtains row Tb where "tb_messages T1 = tb_messages T @ [row]" "mg_id row = newID" "mg_conversation_id row = rq_conversation q"
    "mg_sender row = rq_user q" "cached_response now (rq_user q) endpoint (rq_key q) T = None"
    "ms_Reactions msg = None" "ms_ReplyCount msg = 0" "ms_Content msg = Some (obj_or_nil (Some (mg_content row)))"
    "ms_MessageID msg = newID" "ms_ConversationID msg = rq_conversation q" "ms_SenderUserID msg = rq_user q"
    "mg_server_order row = ms_ServerOrder msg" "map_of (tb_counters T) (rq_conversation q) = Some (ms_ServerOrder msg)"
    "append_created E now (rq_user q) msg Tb = Inr T1" "tb_idempotency T1 = tb_idempotency Tb"
    "tb_idempotency Tb = (if list_ex (is_key (rq_user q) endpoint (rq_key q)) (tb_idempotency T)
      then update_where (is_key (rq_user q) endpoint (rq_key q))
             (\<lambda>r. r\<lparr>ik_payload := Some (message_json msg), ik_status := Some 201\<rparr>) (tb_idempotency T)
      else tb_idempotency T @ [\<lparr>ik_actor = rq_user q, ik_endpoint = endpoint, ik_key = rq_key q, ik_payload = Some (message_json msg),
        ik_status = Some 201, ik_expires_at = now + 24 * 3600 * Second\<rparr>])"
    "tb_members Tb = tb_members T" "tb_users Tb = tb_users T" "tb_domain_events Tb = tb_domain_events T" "tb_next_event Tb = tb_next_event T"
    "tb_external_phones Tb = tb_external_phones T" "tb_inbox Tb = tb_inbox T" "rs = loadRecipients T (rq_conversation q) (rq_user q)"
    "\<And>c. find_conversation T c = None \<longleftrightarrow> find_conversation Tb c = None" "pg_text (rq_key q)"
proof -
  obtain policy where f: "send_fresh E now newID q endpoint source policy T = Inr (msg, T1)"
    and rs: "rs = loadRecipients T1 (rq_conversation q) (rq_user q)"
    and c: "cached_response now (rq_user q) endpoint (rq_key q) T = None" and k: "pg_text (rq_key q)"
    using assms by (auto simp: sendSyncWithEndpoint_def Let_def split: option.splits prod.splits)
  show thesis using f
  proof (rule send_fresh_Inr)
    fix order Tn expires replyTo stored transport scheme Te row
    assume n: "map_of (tb_counters T) (rq_conversation q) = Some order"
      and Tn: "Tn = T\<lparr>tb_counters := AList.update (rq_conversation q) (order + 1) (tb_counters T)\<rparr>"
      and e: "envelope_or_plain E (rq_content_type q) (rq_user q) (rq_device q) (rq_conversation q) stored Tn = Inr (scheme, Te)"
      and row: "row = message_row now newID q replyTo stored transport order expires (Some scheme) (equal_fold (rq_content_type q) ''encrypted'')"
      and msg: "msg = sent_message E now row (rq_device q) replyTo (rq_client_id q) stored source"
      and st: "store_message E now row msg endpoint (rq_key q) Te = Inr T1"
    obtain M where Te: "Te = Tn\<lparr>tb_mls := M\<rparr>" using envelope_or_plain_tables [OF e] by blast
    obtain Ta Tb where a: "insert_message row Te = Some Ta"
      and b: "upsertIdempotency now (mg_sender row) endpoint (rq_key q) msg 201 (update_conversation (mg_conversation_id row)
            (\<lambda>c. c\<lparr>cv_last_message_id := Some (mg_id row), cv_updated_at := now\<rparr>) Ta) = Inr Tb"
      and l: "append_created E now (mg_sender row) msg Tb = Inr T1"
      using st by (auto simp: store_message_def)
    note log = log_onlyD [OF append_created_log [OF l]]
    let ?Tc = "update_conversation (mg_conversation_id row) (\<lambda>c. c\<lparr>cv_last_message_id := Some (mg_id row), cv_updated_at := now\<rparr>) Ta"
    have Tc: "tb_idempotency ?Tc = tb_idempotency T" "tb_members ?Tc = tb_members T" "tb_users ?Tc = tb_users T"
      "tb_domain_events ?Tc = tb_domain_events T" "tb_next_event ?Tc = tb_next_event T"
      "tb_external_phones ?Tc = tb_external_phones T" "tb_inbox ?Tc = tb_inbox T"
      "find_conversation ?Tc c = None \<longleftrightarrow> find_conversation T c = None" for c
      using insert_message_Some [OF a]
      by (simp_all add: update_conversation_def Te Tn find_conversation_def find_update_where)
    have Tb: "tb_members Tb = tb_members ?Tc" "tb_users Tb = tb_users ?Tc" "tb_domain_events Tb = tb_domain_events ?Tc"
      "tb_next_event Tb = tb_next_event ?Tc" "tb_external_phones Tb = tb_external_phones ?Tc" "tb_inbox Tb = tb_inbox ?Tc"
      "find_conversation Tb c = find_conversation ?Tc c" for c
      using b by (auto simp: upsertIdempotency_def Let_def find_conversation_def split: if_splits)
    have msgs: "tb_messages T1 = tb_messages T @ [row]" using store_message_Inr(1) [OF st] by (simp add: Te Tn)
    have TbT: "tb_members Tb = tb_members T" "tb_users Tb = tb_users T" "tb_domain_events Tb = tb_domain_events T"
      "tb_next_event Tb = tb_next_event T" "tb_external_phones Tb = tb_external_phones T" "tb_inbox Tb = tb_inbox T"
      "find_conversation T c = None \<longleftrightarrow> find_conversation Tb c = None" for c
      by (simp_all only: Tb Tc)
    have rw: "mg_id row = newID" "mg_conversation_id row = rq_conversation q" "mg_sender row = rq_user q"
      "mg_server_order row = order" "mg_content row = JObj stored"
      by (simp_all add: row)
    have ms: "ms_Reactions msg = None" "ms_ReplyCount msg = 0" "ms_Content msg = Some stored" "ms_MessageID msg = newID"
      "ms_ConversationID msg = rq_conversation q" "ms_SenderUserID msg = rq_user q" "ms_ServerOrder msg = order"
      by (simp_all add: msg sent_message_def rw empty_msg_def)
    have idem: "tb_idempotency Tb = (if list_ex (is_key (rq_user q) endpoint (rq_key q)) (tb_idempotency T)
      then update_where (is_key (rq_user q) endpoint (rq_key q))
             (\<lambda>r. r\<lparr>ik_payload := Some (message_json msg), ik_status := Some 201\<rparr>) (tb_idempotency T)
      else tb_idempotency T @ [\<lparr>ik_actor = rq_user q, ik_endpoint = endpoint, ik_key = rq_key q, ik_payload = Some (message_json msg),
        ik_status = Some 201, ik_expires_at = now + 24 * 3600 * Second\<rparr>])"
      using upsert_idempotency_rows [OF b] unfolding Tc rw(3) .
    have members: "rs = loadRecipients T (rq_conversation q) (rq_user q)"
      by (simp only: rs loadRecipients_def log Tb Tc)
    show thesis
      by (rule that [OF msgs rw(1-3) c ms(1,2) _ ms(4-6) _ _ l [unfolded rw(3)] log(5) idem])
        (simp_all only: rw ms n TbT members k obj_or_nil_def as_obj.simps option.case)
  qed
qed

definition day :: int where
  "day = 24 * 3600 * Second"


text \<open>C34. A key that was used before and has expired is never renewed: every further send with it is stored as a new message,
  however soon it is repeated.\<close>

theorem expired_key_duplicates:
  assumes "sendSyncWithEndpoint E now newID q endpoint source T = Inr ((msg, Some rs), T1)"
    and "sendSyncWithEndpoint E now1 newID1 q endpoint source T1 = Inr ((msg1, rs1), T2)" and "now \<le> now1"
    and "\<exists>r \<in> set (tb_idempotency T). is_key (rq_user q) endpoint (rq_key q) r"
    and "\<forall>r \<in> set (tb_idempotency T). is_key (rq_user q) endpoint (rq_key q) r \<longrightarrow> ik_expires_at r \<le> now"
  shows "ms_MessageID msg = newID \<and> ms_MessageID msg1 = newID1
     \<and> (\<exists>row row1. tb_messages T2 = tb_messages T @ [row, row1] \<and> mg_id row = newID \<and> mg_id row1 = newID1)"
  using assms(1)
proof (rule sent_fresh)
  fix row Tb
  assume T1: "tb_messages T1 = tb_messages T @ [row]" "mg_id row = newID" "ms_MessageID msg = newID"
    and t: "tb_idempotency T1 = tb_idempotency Tb"
      "tb_idempotency Tb = (if list_ex (is_key (rq_user q) endpoint (rq_key q)) (tb_idempotency T)
      then update_where (is_key (rq_user q) endpoint (rq_key q))
             (\<lambda>r. r\<lparr>ik_payload := Some (message_json msg), ik_status := Some 201\<rparr>) (tb_idempotency T)
      else tb_idempotency T @ [\<lparr>ik_actor = rq_user q, ik_endpoint = endpoint, ik_key = rq_key q, ik_payload = Some (message_json msg),
        ik_status = Some 201, ik_expires_at = now + 24 * 3600 * Second\<rparr>])"
  have keyed: "is_key (rq_user q) endpoint (rq_key q) (r\<lparr>ik_payload := x, ik_status := y\<rparr>) = is_key (rq_user q) endpoint (rq_key q) r"
    "ik_expires_at (r\<lparr>ik_payload := x, ik_status := y\<rparr>) = ik_expires_at r" for r x y
    by (simp_all add: is_key_def)
  have "tb_idempotency T1 = update_where (is_key (rq_user q) endpoint (rq_key q))
             (\<lambda>r. r\<lparr>ik_payload := Some (message_json msg), ik_status := Some 201\<rparr>) (tb_idempotency T)"
    using assms(4) by (auto simp: t list_ex_iff)
  then have "live_key now1 (rq_user q) endpoint (rq_key q) T1 = None"
    using assms(3,5) keyed by (fastforce simp: live_key_def find_None_iff update_where_def)
  then have c: "cached_response now1 (rq_user q) endpoint (rq_key q) T1 = None" by (simp add: cached_response_def)
  then obtain rs2 where "rs1 = Some rs2"
    using assms(2) by (auto simp: sendSyncWithEndpoint_def Let_def split: prod.splits)
  with assms(2) have "sendSyncWithEndpoint E now1 newID1 q endpoint source T1 = Inr ((msg1, Some rs2), T2)" by simp
  then show ?thesis
    by (rule sent_fresh) (use T1 in simp)
qed

section \<open>From the sender to the inboxes\<close>

lemma elems_clone [simp]: "clone_slice xs \<noteq> Some []"
  by (simp add: clone_slice_def)

text \<open>C3. The fan-out of the domain log delivers a sent message: with no events pending before it, the next batch that
  commits puts one entry with the contents of the message into the inbox of every member of the conversation, the
  sender included, and nothing else into any inbox.\<close>

theorem sent_message_fans_out:
  assumes "sendSyncWithEndpoint E now newID q endpoint source T = Inr ((msg, Some rs), T1)" and "mv_replicated E"
    and "pending_events (\<lambda>i. False) T = []" and "\<forall>e \<in> set (tb_domain_events T). de_event_id e < tb_next_event T"
    and "distinct (map de_event_id (tb_domain_events T))"
    and "0 \<le> ms_ServerOrder msg" and "ms_ServerOrder msg < 2 ^ 63" and "content_ok (ms_Content msg)"
    and "ProcessBatch R now1 (\<lambda>i. False) n T1 = Some (k, pubs, T2)"
  shows "\<exists>p rows. tb_inbox T2 = tb_inbox T @ rows \<and> map ie_user_id rows = members_in_order T (rq_conversation q)
     \<and> (\<forall>r \<in> set rows. ie_event_type r = ''conversation_message_appended''
          \<and> ie_payload r = created_view p (previewText (ms_ContentType msg) (ms_Content msg)))
     \<and> mp_MessageID p = newID \<and> mp_ConversationID p = rq_conversation q \<and> mp_SenderUserID p = rq_user q
     \<and> mp_Content p = ms_Content msg \<and> pending_events (\<lambda>i. False) T2 = []"
  using assms(1)
proof (rule sent_fresh)
  fix row Tb
  assume m: "ms_MessageID msg = newID" "ms_ConversationID msg = rq_conversation q" "ms_SenderUserID msg = rq_user q"
    and a: "append_created E now (rq_user q) msg Tb = Inr T1"
    and Tb: "tb_members Tb = tb_members T" "tb_domain_events Tb = tb_domain_events T" "tb_next_event Tb = tb_next_event T"
      "tb_inbox Tb = tb_inbox T"
  let ?conv = "rq_conversation q"
  obtain meta where meta: "LoadConversationMeta Tb ?conv = Some meta"
    and ap: "AppendDomainEvent now ?conv (rq_user q) ''message_created'' (created_json (created_payload msg meta)) Tb = Some T1"
    using a assms(2) m by (auto simp: append_created_def)
  let ?p = "created_payload msg meta"
  define evt where "evt = \<lparr>de_event_id = tb_next_event T, de_conversation_id = ?conv, de_actor_user_id = null_if_empty (rq_user q),
          de_event_type = ''message_created'', de_payload = created_json ?p, de_created_at = now, de_processed_at = None\<rparr>"
  have T1: "tb_domain_events T1 = tb_domain_events T @ [evt]" "tb_inbox T1 = tb_inbox T" "tb_next_user_event T1 = tb_next_user_event Tb"
    using ap by (auto simp: AppendDomainEvent_def Tb evt_def split: if_splits)
  have pend: "pending_events (\<lambda>i. False) T1 = [evt]"
  proof -
    have "filter (\<lambda>e. de_processed_at e = None) (tb_domain_events T) = []"
      using assms(3) by (simp add: pending_events_def) (metis length_0_conv length_sort)
    then show ?thesis by (simp add: pending_events_def T1(1) evt_def)
  qed
  have d: "distinct (map de_event_id (tb_domain_events T1))"
    using assms(4,5) by (auto simp: T1(1) evt_def)
  have dec: "decode_created (created_json ?p) = Some ?p"
    by (rule created_roundtrip) (use assms(6-8) in \<open>simp_all add: created_payload_def\<close>)
  have us: "elems (mp_Participants ?p) = members_in_order T ?conv"
    using meta meta_members [of Tb ?conv "fst meta" "fst (snd meta)" "snd (snd meta)"]
    by (simp add: created_payload_def members_in_order_def Tb)
  have e: "event_entries T1 evt = to_all (members_in_order T ?conv) ?conv ''conversation_message_appended''
       (created_view ?p (previewText (ms_ContentType msg) (ms_Content msg)))"
    by (simp add: event_entries_def evt_def created_entries_def dec us) (simp add: created_payload_def m)
  let ?rows = "inbox_rows now1 (tb_next_user_event T1) (event_entries T1 evt)"
  have b: "tb_inbox T2 = tb_inbox T1 @ ?rows" "pending_events (\<lambda>i. False) T2 = []"
    using fan_out_batch [OF assms(9) d] batch_limit_pos [of n] by (simp_all add: Let_def pend)
  have rows: "map ie_user_id (inbox_rows now1 i (to_all us c ty p)) = us
     \<and> (\<forall>r \<in> set (inbox_rows now1 i (to_all us c ty p)). ie_event_type r = ty \<and> ie_payload r = p)" for i us c ty p
    by (induction us arbitrary: i) (simp_all add: to_all_def)
  show ?thesis
    using rows b by (intro exI [where x = ?p] exI [where x = ?rows])
      (simp add: T1(2) e, simp add: created_payload_def m)
qed

section \<open>Instances\<close>

definition demo_note :: sendRequest where
  "demo_note = demo_sms\<lparr>rq_conversation := ''c''\<rparr>"

lemma demo_note_simps: "rq_user demo_note = ''a''" "rq_key demo_note = ''k''" "rq_conversation demo_note = ''c''"
  by (simp_all add: demo_note_def demo_sms_def)

definition demo_note_send :: "bool \<Rightarrow> msgTables \<Rightarrow> msgError + (Message \<times> string list option) \<times> msgTables" where
  "demo_note_send replicated T = sendSyncWithEndpoint (demo_msg_env\<lparr>mv_replicated := replicated\<rparr>) 5 ''m1'' demo_note ''/v1/messages'' [] T"

definition demo_note_ok :: "msgError + (Message \<times> string list option) \<times> msgTables \<Rightarrow> bool" where
  "demo_note_ok r \<longleftrightarrow> (case r of Inr ((msg, Some rs), T1) \<Rightarrow> ms_ServerOrder msg = 1 \<and> ms_Content msg = Some [(''text'', JStr ''hi'')]
     \<and> hasMembership T1 ''a'' ''c'' \<and> checkBlockedRecipients T1 ''a'' ''c'' = None | _ \<Rightarrow> False)"

lemma demo_note_okD:
  assumes "demo_note_ok r"
  obtains msg rs T1 where "r = Inr ((msg, Some rs), T1)" "ms_ServerOrder msg = 1" "ms_Content msg = Some [(''text'', JStr ''hi'')]"
    "hasMembership T1 ''a'' ''c''" "checkBlockedRecipients T1 ''a'' ''c'' = None"
  using assms by (auto simp: demo_note_ok_def split: sum.splits option.splits)

lemma demo_note_sent: "demo_note_ok (demo_note_send False demo_msgs)"
  by code_simp


text \<open>The key \<open>k\<close> was used long ago.\<close>

definition demo_old_key :: msgTables where
  "demo_old_key = demo_msgs\<lparr>tb_members := [new_member ''c'' ''a'' 1], tb_users := [plain_user ''a'' None],
     tb_idempotency := [\<lparr>ik_actor = ''a'', ik_endpoint = ''/v1/messages'', ik_key = ''k'', ik_payload = None,
     ik_status = None, ik_expires_at = 4\<rparr>]\<rparr>"

lemma not_islE: "\<not> isl r \<Longrightarrow> \<exists>x y. r = Inr (x, y)"
  by (cases r) auto

definition demo_second :: "msgError + (Message \<times> string list option) \<times> msgTables" where
  "demo_second = (case demo_note_send False demo_old_key of
     Inr (r, T1) \<Rightarrow> sendSyncWithEndpoint demo_msg_env 6 ''m2'' demo_note ''/v1/messages'' [] T1 | Inl e \<Rightarrow> Inl e)"

lemma demo_twice_sent: "\<not> isl demo_second"
  by code_simp

theorem expired_key_duplicates_witness:
  "\<exists>r T1 r1 T2. demo_note_send False demo_old_key = Inr (r, T1)
     \<and> sendSyncWithEndpoint demo_msg_env 6 ''m2'' demo_note ''/v1/messages'' [] T1 = Inr (r1, T2)
     \<and> map mg_id (tb_messages T2) = [''m1'', ''m2'']"
proof -
  obtain r2 T2 where d: "demo_second = Inr (r2, T2)" using not_islE [OF demo_twice_sent] by (elim exE) (rule that)
  then obtain msg rs0 T1 where f: "demo_note_send False demo_old_key = Inr ((msg, rs0), T1)"
    and s2: "sendSyncWithEndpoint demo_msg_env 6 ''m2'' demo_note ''/v1/messages'' [] T1 = Inr ((fst r2, snd r2), T2)"
    by (cases "demo_note_send False demo_old_key") (auto simp: demo_second_def)
  have "cached_response 5 ''a'' ''/v1/messages'' ''k'' demo_old_key = None"
    by (simp add: cached_response_def live_key_def demo_old_key_def)
  then obtain rs where s: "demo_note_send False demo_old_key = Inr ((msg, Some rs), T1)"
    using f by (auto simp: demo_note_send_def sendSyncWithEndpoint_def demo_note_simps Let_def split: prod.splits)
  have e: "demo_msg_env\<lparr>mv_replicated := False\<rparr> = demo_msg_env" by (simp add: demo_msg_env_def)
  from expired_key_duplicates [OF s [unfolded demo_note_send_def e] s2] have "map mg_id (tb_messages T2) = [''m1'', ''m2'']"
    by (auto simp: demo_old_key_def demo_msgs_def is_key_def demo_note_simps)
  then show ?thesis
    using s s2 by - (rule exI [where x = "(msg, Some rs)"], rule exI [where x = T1], rule exI [where x = "(fst r2, snd r2)"],
      rule exI [where x = T2], intro conjI)
qed

lemma demo_note_replicated: "demo_note_ok (demo_note_send True demo_msgs)"
  by code_simp

definition demo_note_batch where
  "demo_note_batch = (case demo_note_send True demo_msgs of
     Inr (r, T1) \<Rightarrow> ProcessBatch demo_repl_env 9 (\<lambda>i. False) 100 T1 | Inl e \<Rightarrow> None)"

lemma demo_note_processed: "demo_note_batch \<noteq> None"
  by code_simp

theorem sent_message_fans_out_witness:
  "\<exists>k pubs T2. demo_note_batch = Some (k, pubs, T2) \<and> map ie_user_id (tb_inbox T2) = [''a'', ''b'', ''d'']
     \<and> pending_events (\<lambda>i. False) T2 = []"
proof -
  obtain msg rs T1 where s: "demo_note_send True demo_msgs = Inr ((msg, Some rs), T1)" "ms_ServerOrder msg = 1"
    "ms_Content msg = Some [(''text'', JStr ''hi'')]"
    using demo_note_replicated by (rule demo_note_okD)
  obtain k pubs T2 where b: "ProcessBatch demo_repl_env 9 (\<lambda>i. False) 100 T1 = Some (k, pubs, T2)"
    using demo_note_processed by (auto simp: demo_note_batch_def s(1))
  have "content_ok (ms_Content msg)" unfolding s(3) content_ok_def by (simp, code_simp)
  moreover have "pending_events (\<lambda>i. False) demo_msgs = []" by (simp add: pending_events_def demo_msgs_def)
  moreover have "members_in_order demo_msgs ''c'' = [''a'', ''b'', ''d'']" by code_simp
  moreover have "tb_domain_events demo_msgs = []" "tb_inbox demo_msgs = []" by (simp_all add: demo_msgs_def)
  moreover have "demo_note_batch = Some (k, pubs, T2)" by (simp add: demo_note_batch_def s(1) b)
  ultimately show ?thesis
    using sent_message_fans_out [OF s(1) [unfolded demo_note_send_def] _ _ _ _ _ _ _ b] s(2)
    by (intro exI [where x = k] exI [where x = pubs] exI [where x = T2]) (auto simp: demo_note_simps)
qed

text \<open>Someone else records the delivery of \<open>m1\<close> to \<open>b\<close>.\<close>

definition demo_forgery :: msgCall where
  "demo_forgery = demo_msg_call ''x'' ''m1'' 6 [(''recipient_user_id'', JStr ''b''), (''state'', JStr ''DELIVERED'')]"



definition demo_edit :: "msgError + unit \<times> msgTables" where
  "demo_edit = EditMessage demo_msg_env 6 ''a'' [] ''m1'' (Some [(''text'', JStr ''ho'')]) demo_sent"

definition demo_edit_delete :: "msgError + string list \<times> msgTables" where
  "demo_edit_delete = (case demo_edit of Inr (u, T1) \<Rightarrow> DeleteMessage demo_msg_env 7 ''a'' ''m1'' T1 | Inl e \<Rightarrow> Inl e)"

lemma demo_edited_deleted: "\<not> isl demo_edit_delete"
  by code_simp

theorem edit_history_keeps_deleted_witness:
  "\<exists>u T1 x T2 edits e. demo_edit = Inr (u, T1) \<and> DeleteMessage demo_msg_env 7 ''a'' ''m1'' T1 = Inr (x, T2)
     \<and> GetMessageEditHistory demo_msg_env T2 ''b'' ''m1'' = Inr edits \<and> e \<in> set edits
     \<and> er_PreviousContent e = Some [(''text'', JStr ''hi'')] \<and> er_NewContent e = Some [(''text'', JStr ''ho'')]"
proof -
  obtain x T2 where x: "demo_edit_delete = Inr (x, T2)" using not_islE [OF demo_edited_deleted] by (elim exE) (rule that)
  obtain u T1 where d: "demo_edit = Inr (u, T1)" "DeleteMessage demo_msg_env 7 ''a'' ''m1'' T1 = Inr (x, T2)"
  proof (cases demo_edit)
    case (Inl e)
    have "isl demo_edit_delete" unfolding demo_edit_delete_def Inl by simp
    then show thesis using demo_edited_deleted by contradiction
  next
    case (Inr y)
    have "DeleteMessage demo_msg_env 7 ''a'' ''m1'' (snd y) = Inr (x, T2)"
      using x unfolding demo_edit_delete_def Inr by (simp split: prod.splits)
    moreover have "demo_edit = Inr (fst y, snd y)" unfolding Inr by (cases y) simp
    ultimately show thesis by (rule that [rotated])
  qed
  obtain m where m: "find_message demo_sent ''m1'' = Some m" "mg_content m = JObj [(''text'', JStr ''hi'')]" "mg_conversation_id m = ''c''"
    by (simp add: find_message_def demo_sent_def)
  have h: "hasMembership demo_sent ''b'' (mg_conversation_id m)" unfolding m(3) by code_simp
  have l: "list_all (\<lambda>e. scan_object (ed_previous_content e) \<noteq> None \<and> scan_object (ed_new_content e) \<noteq> None) (tb_edits demo_sent)"
    by (simp add: demo_sent_def demo_msgs_def)
  from edit_history_keeps_deleted [OF d(1) [unfolded demo_edit_def] d(2) m(1,2) l h, of 9]
  obtain edits e where "GetMessageEditHistory demo_msg_env T2 ''b'' ''m1'' = Inr edits" "e \<in> set edits"
    "er_PreviousContent e = Some [(''text'', JStr ''hi'')]" "er_NewContent e = Some (stored_content (Some [(''text'', JStr ''ho'')]))"
    by (elim exE conjE) (rule that)
  moreover have "stored_content (Some [(''text'', JStr ''ho'')]) = [(''text'', JStr ''ho'')]"
    by (simp add: stored_content_def cloneMessageContent_def)
  ultimately show ?thesis using d by metis
qed

end
