(* ===== verification/MessageSealed.thy ===== *)
theory MessageSealed
  imports MessageProps
begin

text \<open>
  Encrypted conversations: what the server guarantees of a message that it stores in one.
\<close>

text \<open>The devices of a conversation's members that can take part in encryption.\<close>

definition device_keys :: "'z msgTables_scheme \<Rightarrow> string \<Rightarrow> conversationRow \<Rightarrow> string list" where
  "device_keys T conv c = map (\<lambda>leaf. device_key (leaf_UserID leaf) (leaf_DeviceID leaf))
     (GetGroupMembers (BuildConversationMLSTree (membership_of T) conv (or_else (cv_mls_epoch c) 0)))"

lemma process_Inr:
  assumes "ProcessEncryptedMessage C T user device content = Inr md"
  obtains key payload where "signing_key T device user = Some key"
    "VerifySignature C key payload (em_SenderSignature md) = Inr True" "em_SenderUserID md = user" "em_SenderDeviceID md = device"
    "em_Ciphertext md = textValue (at_key content ''ciphertext'')" "em_Ciphertext md \<noteq> []"
proof -
  have v: "VerifySignature C key payload s = Inr True" if "verified_signature C key payload s = Inr u" for key payload s u
    using that by (auto simp: verified_signature_def split: sum.splits)
  show thesis
    using assms by (auto simp: ProcessEncryptedMessage_def Let_def split: prod.splits dest: v intro!: that)
qed

lemma same_recipients_Inr:
  "same_recipients rs expected = Inr () \<Longrightarrow> distinct (map recipient_key rs) \<and> set (map recipient_key rs) = set expected"
  by (auto simp: same_recipients_def Let_def list_all_iff split: if_splits)


text \<open>A conversation of \<open>a\<close> and \<open>b\<close> with a device each.\<close>

definition demo_signing_key :: string where
  "demo_signing_key = replicate 43 (CHR ''A'') @ ''=''"

definition demo_sealed :: msgTables where
  "demo_sealed = demo_msgs\<lparr>tb_conversations := [(new_conversation ''c'' ''DM'' ''AUTO'' 1)\<lparr>cv_encryption_state := Some ''ENCRYPTED'', cv_encryption_epoch := 1\<rparr>],
     tb_members := [new_member ''c'' ''a'' 1, new_member ''c'' ''b'' 2],
     tb_devices := [plain_device ''a1'' ''a'' [''E2EE_OTT_V2''],
       plain_device ''b1'' ''b'' [''E2EE_OTT_V2'']],
     tb_keys := [\<lparr>dk_device_id = ''a1'', dk_user_id = ''a'', dk_bundle_version = ''OHMF_SIGNAL_V1'', dk_agreement_key = [], dk_signing_key = demo_signing_key\<rparr>,
       \<lparr>dk_device_id = ''b1'', dk_user_id = ''b'', dk_bundle_version = ''OHMF_SIGNAL_V1'', dk_agreement_key = [], dk_signing_key = demo_signing_key\<rparr>]\<rparr>"

definition demo_recipient :: "string \<Rightarrow> string \<Rightarrow> json" where
  "demo_recipient user device = JObj [(''user_id'', JStr user), (''device_id'', JStr device), (''wrapped_key'', JStr ''w''), (''wrap_nonce'', JStr ''n'')]"

definition demo_envelope :: sendRequest where
  "demo_envelope = \<lparr>rq_user = ''a'', rq_device = ''a1'', rq_conversation = ''c'', rq_key = ''k'', rq_content_type = ''encrypted'',
     rq_content = Some [(''ciphertext'', JStr ''AAAA''), (''nonce'', JStr ''AAAA''), (''encryption'', JObj [(''scheme'', JStr ''OHMF_SIGNAL_V1''),
       (''sender_user_id'', JStr ''a''), (''sender_device_id'', JStr ''a1''), (''sender_signature'', JStr ''AAAA''),
       (''recipients'', JArr [demo_recipient ''a'' ''a1'', demo_recipient ''b'' ''b1''])])],
     rq_client_id = []\<rparr>"

definition demo_sealed_send where
  "demo_sealed_send = sendSyncWithEndpoint demo_msg_env 5 ''m1'' demo_envelope ''/v1/messages'' [] demo_sealed"


lemma d0: "find_conversation demo_sealed (rq_conversation demo_envelope) = Some (hd (tb_conversations demo_sealed))"
    by (simp add: find_conversation_def demo_sealed_def demo_envelope_def)
lemma d1: "device_keys demo_sealed ''c'' (hd (tb_conversations demo_sealed)) = [''a:a1'', ''b:b1'']" by code_simp

definition demo_sealed1 :: msgTables where
  "demo_sealed1 = demo_sealed\<lparr>tb_counters := [(''c'', 2)]\<rparr>"

definition demo_content :: "json gomap" where
  "demo_content = stored_content (rq_content demo_envelope)"

lemma demo_signature: "VerifySignature toy_crypto demo_signing_key payload ''AAAA'' = Inr True"
  by code_simp

lemma demo_entries:
  "recipient_entry demo_sealed1 i (demo_recipient ''a'' ''a1'')
     = Inr \<lparr>ri_UserID = ''a'', ri_DeviceID = ''a1'', ri_WrappedKey = ''w'', ri_WrapNonce = ''n''\<rparr>"
  "recipient_entry demo_sealed1 i (demo_recipient ''b'' ''b1'')
     = Inr \<lparr>ri_UserID = ''b'', ri_DeviceID = ''b1'', ri_WrappedKey = ''w'', ri_WrapNonce = ''n''\<rparr>"
  unfolding recipient_entry_def demo_recipient_def by (simp_all add: textValue_def owns_device_def demo_sealed1_def demo_sealed_def)

lemma demo_parsed: "parseRecipientEntries demo_sealed1 [demo_recipient ''a'' ''a1'', demo_recipient ''b'' ''b1'']
    = Inr [\<lparr>ri_UserID = ''a'', ri_DeviceID = ''a1'', ri_WrappedKey = ''w'', ri_WrapNonce = ''n''\<rparr>,
           \<lparr>ri_UserID = ''b'', ri_DeviceID = ''b1'', ri_WrappedKey = ''w'', ri_WrapNonce = ''n''\<rparr>]"
  by (simp add: parseRecipientEntries_def demo_entries)

lemma demo_device_facts:
  "signing_key demo_sealed1 ''a1'' ''a'' = Some demo_signing_key" "messageInt None n = n"
  "\<exists>y. b64_decode ''AAAA'' = Some y"
proof -
  show "signing_key demo_sealed1 ''a1'' ''a'' = Some demo_signing_key" "messageInt None n = n"
    by (simp_all add: signing_key_def demo_sealed1_def demo_sealed_def messageInt_def)
  have "b64_decode ''AAAA'' \<noteq> None" by code_simp
  then show "\<exists>y. b64_decode ''AAAA'' = Some y" by simp
qed

lemma demo_processed: "\<exists>md. ProcessEncryptedMessage toy_crypto demo_sealed1 ''a'' ''a1'' (Some demo_content) = Inr md
     \<and> em_Scheme md = ''OHMF_SIGNAL_V1'' \<and> em_ConversationEpoch md = 1 \<and> map recipient_key (em_Recipients md) = [''a:a1'', ''b:b1'']"
  using demo_device_facts(3)
  by (auto simp: ProcessEncryptedMessage_def demo_content_def demo_envelope_def stored_content_def cloneMessageContent_def
      Let_def textValue_def at_key_def envelope_parts_def SignalEncryptionScheme_def MLSEncryptionScheme_def demo_parsed
      demo_device_facts verified_signature_def demo_signature recipient_key_def device_key_def)

lemma demo_devices: "device_keys demo_sealed1 ''c'' (hd (tb_conversations demo_sealed)) = [''a:a1'', ''b:b1'']"
  by code_simp

lemma demo_validated:
  assumes "em_Scheme md = ''OHMF_SIGNAL_V1''" and "em_ConversationEpoch md = 1"
    and "map recipient_key (em_Recipients md) = [''a:a1'', ''b:b1'']"
  shows "validateEncryptedConversationEnvelope toy_crypto ''c'' md demo_sealed1 = Inr demo_sealed1"
proof -
  let ?c = "hd (tb_conversations demo_sealed)"
  have c: "find_conversation demo_sealed1 ''c'' = Some ?c" "cv_encryption_epoch ?c = 1" "\<not> po_MLSEnabled (policy_of ?c)"
    "cv_mls_epoch ?c = Some 0"
    by (simp_all add: find_conversation_def demo_sealed1_def demo_sealed_def policy_of_def new_conversation_def)
  have m: "loadEncryptedConversationMemberIDs demo_sealed1 ''c'' = [''a'', ''b'']"
    by (simp add: loadEncryptedConversationMemberIDs_def demo_sealed1_def demo_sealed_def)
  have leaves: "map leaf_UserID (GetGroupMembers (BuildConversationMLSTree (membership_of demo_sealed1) ''c'' 0)) = [''a'', ''b'']"
    by code_simp
  have s: "same_recipients (em_Recipients md) [''a:a1'', ''b:b1''] = Inr ()"
    by (simp add: same_recipients_def assms(3) Let_def)
  have "map (\<lambda>leaf. device_key (leaf_UserID leaf) (leaf_DeviceID leaf))
      (GetGroupMembers (BuildConversationMLSTree (membership_of demo_sealed1) ''c'' 0)) = [''a:a1'', ''b:b1'']"
    using demo_devices by (simp add: device_keys_def c(4) or_else_def)
  moreover have "list_all (\<lambda>u. u \<in> set (map leaf_UserID (GetGroupMembers (BuildConversationMLSTree (membership_of demo_sealed1) ''c'' 0)))) [''a'', ''b'']"
    unfolding leaves by simp
  ultimately show ?thesis
    by (simp only: validateEncryptedConversationEnvelope_def c m assms(1,2) Let_def SignalEncryptionScheme_def
        validateSignalEncryptedConversationEnvelope_def s or_error_simps try_then_simps require_simps option.case if_False
        list.distinct simp_thms)
qed

lemma demo_sealed_sent: "\<exists>msg T1. demo_sealed_send = Inr ((msg, Some [''b'']), T1)"
proof -
  let ?c = "hd (tb_conversations demo_sealed)"
  obtain md where md: "ProcessEncryptedMessage toy_crypto demo_sealed1 ''a'' ''a1'' (Some demo_content) = Inr md"
    "em_Scheme md = ''OHMF_SIGNAL_V1''" "em_ConversationEpoch md = 1" "map recipient_key (em_Recipients md) = [''a:a1'', ''b:b1'']"
    using demo_processed by (elim exE conjE) (rule that)
  have q: "rq_user demo_envelope = ''a''" "rq_device demo_envelope = ''a1''" "rq_conversation demo_envelope = ''c''"
    "rq_key demo_envelope = ''k''" "rq_content_type demo_envelope = ''encrypted''" "stored_content (rq_content demo_envelope) = demo_content"
    by (simp_all only: demo_envelope_def demo_content_def sendRequest.simps)
  have pre: "hasMembership demo_sealed ''a'' ''c''" "checkBlockedRecipients demo_sealed ''a'' ''c'' = None" "pg_text ''k''"
    "cached_response 5 ''a'' ''/v1/messages'' ''k'' demo_sealed = None" "sender_device_ok demo_sealed ''a'' ''a1'' = Inr ()"
    "encryptedOTTConversation (policy_of ?c)"
  proof -
    show "hasMembership demo_sealed ''a'' ''c''" "checkBlockedRecipients demo_sealed ''a'' ''c'' = None"
      "cached_response 5 ''a'' ''/v1/messages'' ''k'' demo_sealed = None"
      by (simp_all add: hasMembership_def find_member_def checkBlockedRecipients_def loadRecipients_def cached_response_def
          live_key_def demo_sealed_def demo_msgs_def)
    have "trim_space ''a1'' \<noteq> []" by code_simp
    then show "sender_device_ok demo_sealed ''a'' ''a1'' = Inr ()"
      by (simp add: sender_device_ok_def senderOwnsDevice_def owns_device_def demo_sealed_def)
    show "pg_text ''k''" "encryptedOTTConversation (policy_of ?c)" by code_simp+
  qed
  have p: "loadConversationPolicy demo_sealed ''c'' = Inr (policy_of ?c)"
    by (simp add: loadConversationPolicy_def find_conversation_def demo_sealed_def)
  have n: "next_server_order ''c'' demo_sealed = Some (1, demo_sealed1)"
    by (simp add: next_server_order_def demo_sealed1_def demo_sealed_def demo_msgs_def)
  have x: "resolveMessageExpiration demo_msg_env 5 demo_sealed1 ''c'' ''encrypted'' (rq_content demo_envelope) = Inr None"
  proof -
    have "\<not> equal_fold ''encrypted'' ''text''" by code_simp
    then show ?thesis by (simp add: resolveMessageExpiration_def)
  qed
  have r: "resolveReplyTarget 5 demo_sealed1 ''c'' demo_content = Inr ([], demo_content)"
    by (simp add: resolveReplyTarget_def textField_def textValue_def demo_content_def demo_envelope_def stored_content_def cloneMessageContent_def Let_def)
  have t: "decideTransport demo_msg_env demo_sealed1 ''c'' ''a'' = Inr ''OTT''"
    by (simp add: decideTransport_def find_conversation_def loadRecipients_def demo_sealed1_def demo_sealed_def new_conversation_def Let_def)
  have e: "envelope_or_plain demo_msg_env ''encrypted'' ''a'' ''a1'' ''c'' demo_content demo_sealed1 = Inr (''OHMF_SIGNAL_V1'', demo_sealed1)"
    using md by (simp add: envelope_or_plain_def check_envelope_def demo_msg_env_def demo_validated)
  have d: "senderOwnsDevice demo_sealed ''a'' ''a1''" by (simp add: senderOwnsDevice_def owns_device_def demo_sealed_def)
  let ?row = "message_row 5 ''m1'' demo_envelope [] demo_content ''OTT'' 1 None (Some ''OHMF_SIGNAL_V1'') True"
  let ?msg = "sent_message demo_msg_env 5 ?row ''a1'' [] (rq_client_id demo_envelope) demo_content []"
  have st: "\<exists>T3. store_message demo_msg_env 5 ?row ?msg ''/v1/messages'' ''k'' demo_sealed1 = Inr T3 \<and> tb_members T3 = tb_members demo_sealed"
  proof -
    have j: "jsonb_ok (mg_content ?row)" "jsonb_ok (message_json ?msg)" "pg_text (mg_content_type ?row)" "pg_text (ms_ClientGeneratedID ?msg)"
      by code_simp+
    have i: "insert_message ?row demo_sealed1 = Some (demo_sealed1\<lparr>tb_messages := [?row]\<rparr>)"
      by (simp add: insert_message_def find_conversation_def is_user_def q demo_sealed1_def demo_sealed_def demo_msgs_def
          message_row_def null_if_empty_def)
    have u: "is_user (update_conversation cid f (demo_sealed1\<lparr>tb_messages := x\<rparr>)) ''a''" for cid f x
      by (simp add: is_user_def update_conversation_def demo_sealed1_def demo_sealed_def demo_msgs_def)
    have t: "tb_idempotency (update_conversation cid f (demo_sealed1\<lparr>tb_messages := x\<rparr>)) = []"
      "tb_members (update_conversation cid f (demo_sealed1\<lparr>tb_messages := x\<rparr>)) = tb_members demo_sealed" for cid f x
      by (simp_all add: update_conversation_def demo_sealed1_def demo_sealed_def demo_msgs_def)
    have r: "\<not> mv_replicated demo_msg_env" by (simp add: demo_msg_env_def)
    show ?thesis
      unfolding store_message_def upsertIdempotency_def append_created_def
      using j pre(3) by (simp only: i u t q r Let_def message_row_simps) (simp add: t u)
  qed
  have rs: "loadRecipients T3 ''c'' ''a'' = [''b'']" if "tb_members T3 = tb_members demo_sealed" for T3 :: msgTables
    by (simp add: loadRecipients_def that) (simp add: demo_sealed_def)
  show ?thesis
    using st by (auto simp: demo_sealed_send_def sendSyncWithEndpoint_def send_fresh_def q pre p n x r t e d Let_def rs)
qed


end
