(* ===== verification/Phone.thy ===== *)
theory Phone
  imports Http
begin

text \<open>
  Phone numbers (\<open>gateway/internal/phone/normalize.go\<close>): Go's reading of a string as runes, the
  decimal digits of Unicode 15 (\<open>unicode.IsDigit\<close>), and \<open>NormalizeE164\<close>.
\<close>

section \<open>Runes\<close>

definition cont_byte :: "nat \<Rightarrow> bool" where
  "cont_byte b \<longleftrightarrow> 128 \<le> b \<and> b < 192"

text \<open>The rune of two, three or four bytes, when they encode one.\<close>

definition rune2 :: "nat \<Rightarrow> nat \<Rightarrow> nat option" where
  "rune2 a b = (if 194 \<le> a \<and> a < 224 \<and> cont_byte b then Some ((a - 192) * 64 + (b - 128)) else None)"

definition rune3 :: "nat \<Rightarrow> nat \<Rightarrow> nat \<Rightarrow> nat option" where
  "rune3 a b c =
     (if 224 \<le> a \<and> a < 240 \<and> cont_byte b \<and> cont_byte c \<and> (a = 224 \<longrightarrow> 160 \<le> b) \<and> (a = 237 \<longrightarrow> b < 160)
      then Some ((a - 224) * 4096 + (b - 128) * 64 + (c - 128)) else None)"

definition rune4 :: "nat \<Rightarrow> nat \<Rightarrow> nat \<Rightarrow> nat \<Rightarrow> nat option" where
  "rune4 a b c d =
     (if 240 \<le> a \<and> a < 245 \<and> cont_byte b \<and> cont_byte c \<and> cont_byte d \<and> (a = 240 \<longrightarrow> 144 \<le> b) \<and> (a = 244 \<longrightarrow> b < 144)
      then Some ((a - 240) * 262144 + (b - 128) * 4096 + (c - 128) * 64 + (d - 128)) else None)"

text \<open>The bytes of a string, zero behind its end, which is part of no longer encoding.\<close>

definition byte_at :: "string \<Rightarrow> nat \<Rightarrow> nat" where
  "byte_at s i = (if i < length s then of_char (s ! i) else 0)"

text \<open>The first rune of a nonempty string and its width; a byte that starts none is U+FFFD.\<close>

definition first_rune :: "string \<Rightarrow> nat \<times> nat" where
  "first_rune s =
     (let a = byte_at s 0; b = byte_at s 1; c = byte_at s 2; d = byte_at s 3 in
      if a < 128 then (a, 1)
      else case rune2 a b of Some r \<Rightarrow> (r, 2)
      | None \<Rightarrow> (case rune3 a b c of Some r \<Rightarrow> (r, 3)
      | None \<Rightarrow> (case rune4 a b c d of Some r \<Rightarrow> (r, 4)
      | None \<Rightarrow> (65533, 1))))"

lemma first_rune_width: "0 < snd (first_rune s)"
  unfolding first_rune_def Let_def by (simp split: option.split)

text \<open>\<open>for i, r := range s\<close>.\<close>

function go_runes :: "string \<Rightarrow> (nat \<times> string) list" where
  "go_runes s = (if s = [] then []
     else (fst (first_rune s), take (snd (first_rune s)) s) # go_runes (drop (snd (first_rune s)) s))"
  by pat_completeness auto
termination
  by (relation "measure length") (simp_all add: first_rune_width)

declare go_runes.simps [simp del]

lemma go_runes_Nil [simp]: "go_runes [] = []"
  by (simp add: go_runes.simps)

section \<open>Numbers\<close>

text \<open>The first of each ten digits of the category Nd.\<close>

definition digit_zeros :: "nat list" where
  "digit_zeros = [48, 1632, 1776, 1984, 2406, 2534, 2662, 2790, 2918, 3046, 3174, 3302, 3430, 3558, 3664, 3792, 3872, 4160,
     4240, 6112, 6160, 6470, 6608, 6784, 6800, 6992, 7088, 7232, 7248, 42528, 43216, 43264, 43472, 43504, 43600, 44016, 65296,
     66720, 68912, 69734, 69872, 69942, 70096, 70384, 70736, 70864, 71248, 71360, 71472, 71904, 72016, 72784, 73040, 73120,
     73552, 92768, 92864, 93008, 120782, 120792, 120802, 120812, 120822, 123200, 123632, 124144, 125264, 130032]"

definition is_digit_rune :: "nat \<Rightarrow> bool" where
  "is_digit_rune r \<longleftrightarrow> list_ex (\<lambda>z. z \<le> r \<and> r < z + 10) digit_zeros"

text \<open>The loop over the runes; \<open>None\<close> is the early return.\<close>

fun phone_runes :: "bool \<Rightarrow> (nat \<times> string) list \<Rightarrow> string option" where
  "phone_runes first [] = Some []"
| "phone_runes first ((r, bytes) # rest) =
     (if (r = 43 \<and> first) \<or> is_digit_rune r then map_option ((@) bytes) (phone_runes False rest)
      else if r \<in> {32, 45, 40, 41, 46} then phone_runes False rest
      else None)"

text \<open>The checks behind the loop: sign, length, first digit, digits.\<close>

definition checked_number :: "string \<Rightarrow> string" where
  "checked_number normalized =
     (if \<not> has_prefix normalized ''+'' then []
      else let digits = drop 1 normalized in
        if length digits < 8 \<or> length digits > 15 then []
        else if digits ! 0 = CHR ''0'' then []
        else if list_all (is_digit_rune \<circ> fst) (go_runes digits) then normalized
        else [])"

definition NormalizeE164 :: "string \<Rightarrow> string" where
  "NormalizeE164 v =
     (let raw = trim_space v;
          raw' = (if has_prefix raw ''00'' then ''+'' @ trim_prefix raw ''00'' else raw)
      in if raw = [] then []
         else case phone_runes True (go_runes raw') of None \<Rightarrow> [] | Some normalized \<Rightarrow> checked_number normalized)"

section \<open>Normal forms\<close>

lemma go_runes_concat: "concat (map snd (go_runes s)) = s"
  by (induction s rule: go_runes.induct) (subst go_runes.simps, simp)

lemma not_digit_runes:
  "\<not> is_digit_rune 65533" "r < 48 \<Longrightarrow> \<not> is_digit_rune r"
  by (simp_all add: is_digit_rune_def digit_zeros_def)

lemma rune_bytes:
  "rune2 a b = Some r \<Longrightarrow> 128 \<le> b" "rune3 a b c = Some r \<Longrightarrow> 128 \<le> b \<and> 128 \<le> c"
  "rune4 a b c d = Some r \<Longrightarrow> 128 \<le> b \<and> 128 \<le> c \<and> 128 \<le> d"
  by (auto simp: rune2_def rune3_def rune4_def cont_byte_def split: if_splits)

text \<open>No byte of a digit is a space.\<close>

lemma digit_bytes_high:
  assumes "is_digit_rune (fst (first_rune s))" and "i < snd (first_rune s)"
  shows "48 \<le> byte_at s i"
proof -
  have r: "fst (first_rune s) \<noteq> 65533" "48 \<le> fst (first_rune s)"
    using assms(1) not_digit_runes by (metis, metis not_less)
  let ?a = "byte_at s 0" and ?b = "byte_at s 1" and ?c = "byte_at s 2" and ?d = "byte_at s 3"
  consider (one) "?a < 128"
    | (two) r where "\<not> ?a < 128" "rune2 ?a ?b = Some r"
    | (three) r where "\<not> ?a < 128" "rune2 ?a ?b = None" "rune3 ?a ?b ?c = Some r"
    | (four) r where "\<not> ?a < 128" "rune2 ?a ?b = None" "rune3 ?a ?b ?c = None" "rune4 ?a ?b ?c ?d = Some r"
    | (none) "\<not> ?a < 128" "rune2 ?a ?b = None" "rune3 ?a ?b ?c = None" "rune4 ?a ?b ?c ?d = None"
    by (cases "rune2 ?a ?b"; cases "rune3 ?a ?b ?c"; cases "rune4 ?a ?b ?c ?d") auto
  then show ?thesis
  proof cases
    case one
    then have "first_rune s = (?a, 1)" by (simp add: first_rune_def)
    then show ?thesis using assms(2) r by simp
  next
    case two
    then have "first_rune s = (r, 2)" by (simp add: first_rune_def)
    then have "i = 0 \<or> i = 1" using assms(2) by auto
    then show ?thesis using two rune_bytes(1) [OF two(2)] by auto
  next
    case three
    then have "first_rune s = (r, 3)" by (simp add: first_rune_def)
    then have "i = 0 \<or> i = 1 \<or> i = 2" using assms(2) by auto
    then show ?thesis using three rune_bytes(2) [OF three(3)] by auto
  next
    case four
    then have "first_rune s = (r, 4)" by (simp add: first_rune_def)
    then have "i = 0 \<or> i = 1 \<or> i = 2 \<or> i = 3" using assms(2) by auto
    then show ?thesis using four rune_bytes(3) [OF four(4)] by auto
  next
    case none
    then have "first_rune s = (65533, 1)" by (simp add: first_rune_def)
    then show ?thesis using r by simp
  qed
qed

lemma digit_bytes:
  assumes "is_digit_rune (fst (first_rune s))" and "c \<in> set (take (snd (first_rune s)) s)"
  shows "\<not> is_space c"
proof -
  obtain i where i: "i < snd (first_rune s)" "i < length s" "c = s ! i"
    using assms(2) by (auto simp: in_set_conv_nth)
  then have "48 \<le> (of_char c :: nat)" using digit_bytes_high [OF assms(1) i(1)] by (simp add: byte_at_def)
  then show ?thesis by (auto simp: is_space_def)
qed

lemma digits_no_space:
  "list_all (is_digit_rune \<circ> fst) (go_runes s) \<Longrightarrow> c \<in> set s \<Longrightarrow> \<not> is_space c"
proof (induction s rule: go_runes.induct)
  case (1 s)
  have ne: "s \<noteq> []" using 1(3) by auto
  have h: "is_digit_rune (fst (first_rune s))" "list_all (is_digit_rune \<circ> fst) (go_runes (drop (snd (first_rune s)) s))"
    using 1(2) ne by (simp_all add: go_runes.simps [of s] comp_def)
  have "c \<in> set (take (snd (first_rune s)) s) \<or> c \<in> set (drop (snd (first_rune s)) s)"
    using 1(3) by (metis Un_iff append_take_drop_id set_append)
  then show ?case using digit_bytes [OF h(1)] 1(1) [OF ne h(2)] by blast
qed

lemma phone_runes_all: "list_all (is_digit_rune \<circ> fst) xs \<Longrightarrow> phone_runes first xs = Some (concat (map snd xs))"
  by (induction xs arbitrary: first) auto

lemma go_runes_plus: "go_runes (CHR ''+'' # s) = (43, ''+'') # go_runes s"
  by (simp add: go_runes.simps [of "CHR ''+'' # s"] first_rune_def byte_at_def)

text \<open>What a nonempty result looks like.\<close>

lemma checked_number_shape:
  assumes "checked_number n \<noteq> []"
  obtains digits where "checked_number n = CHR ''+'' # digits" "8 \<le> length digits" "length digits \<le> 15"
    "digits ! 0 \<noteq> CHR ''0''" "list_all (is_digit_rune \<circ> fst) (go_runes digits)"
proof -
  have n: "checked_number n = n" "has_prefix n ''+''" "8 \<le> length (drop 1 n)" "length (drop 1 n) \<le> 15"
      "drop 1 n ! 0 \<noteq> CHR ''0''" "list_all (is_digit_rune \<circ> fst) (go_runes (drop 1 n))"
    using assms by (simp_all add: checked_number_def Let_def split: if_splits)
  then obtain digits where "n = CHR ''+'' # digits" by (cases n) (auto simp: has_prefix_def)
  then show thesis using that n by simp
qed

lemma NormalizeE164_checked: "NormalizeE164 v = [] \<or> (\<exists>n. NormalizeE164 v = checked_number n)"
proof -
  have "(if b then [] else case X of None \<Rightarrow> [] | Some n \<Rightarrow> checked_number n) = []
      \<or> (\<exists>n. (if b then [] else case X of None \<Rightarrow> [] | Some n \<Rightarrow> checked_number n) = checked_number n)" for b X
    by (cases b; cases X) auto
  then show ?thesis unfolding NormalizeE164_def Let_def .
qed

lemma trim_space_id: "\<forall>c\<in>set s. \<not> is_space c \<Longrightarrow> trim_space s = s"
  by (metis (no_types, lifting) dropWhile_eq_self_iff hd_in_set rev_rev_ident set_rev trim_space_def)

lemma normal_number:
  assumes "8 \<le> length digits" "length digits \<le> 15" "digits ! 0 \<noteq> CHR ''0''" "list_all (is_digit_rune \<circ> fst) (go_runes digits)"
  shows "NormalizeE164 (CHR ''+'' # digits) = CHR ''+'' # digits"
proof -
  have "trim_space (CHR ''+'' # digits) = CHR ''+'' # digits"
    by (rule trim_space_id) (use digits_no_space [OF assms(4)] in \<open>auto simp: is_space_def\<close>)
  moreover have "phone_runes True (go_runes (CHR ''+'' # digits)) = Some (CHR ''+'' # digits)"
    using phone_runes_all [OF assms(4)] by (simp add: go_runes_plus go_runes_concat)
  ultimately show ?thesis
    using assms by (simp add: NormalizeE164_def checked_number_def has_prefix_def Let_def)
qed

lemma NormalizeE164_idem: "NormalizeE164 (NormalizeE164 v) = NormalizeE164 v"
proof (cases "NormalizeE164 v = []")
  case True
  then show ?thesis by (simp add: NormalizeE164_def)
next
  case False
  then obtain n where n: "NormalizeE164 v = checked_number n" using NormalizeE164_checked by blast
  then have "checked_number n \<noteq> []" using False by simp
  then show ?thesis unfolding n by (rule checked_number_shape) (simp add: normal_number)
qed

text \<open>Any decimal digits will do, and it is bytes that are counted: four Arabic digits are a number.\<close>

lemma go_runes_two:
  "rune2 (of_char c) (of_char d) = Some r \<Longrightarrow> go_runes (c # d # s) = (r, [c, d]) # go_runes s"
  by (simp add: go_runes.simps [of "c # d # s"] first_rune_def byte_at_def rune2_def split: if_splits)

lemma other_digits_accepted:
  "NormalizeE164 (CHR ''+'' # map char_of [217, 161, 217, 162, 217, 163, 217, 164 :: nat]) \<noteq> []"
proof -
  let ?s = "map char_of [217, 161, 217, 162, 217, 163, 217, 164 :: nat]"
  have "list_all (is_digit_rune \<circ> fst) (go_runes ?s)"
    by (simp add: go_runes_two rune2_def cont_byte_def is_digit_rune_def digit_zeros_def of_char_of)
  moreover have "?s ! 0 \<noteq> CHR ''0''" by (simp add: char_of_def)
  ultimately show ?thesis using normal_number [of ?s] by simp
qed

end
