(* ===== verification/Spec2Isabelle.thy ===== *)
theory Spec2Isabelle
  imports RegistryReview RegistryStoreProps PublisherKeyProps AppsHandlerProps RelayProps SessionProps TrustProps GroupProps MiniappProps Sync
    MessageFlow MessageSealed Phone
begin

text \<open>
  A verification development for the messaging platform under \<open>src/ohmf\<close>: the apps service
  (\<open>services/apps\<close>) and the gateway (\<open>services/gateway/internal\<close>, paths below are relative to
  it).  The two are Go programs over PostgreSQL.  The definitions are shallow translations of the Go
  functions and of the SQL statements they execute; the theorems are about those definitions.

  \<^bold>\<open>How the code is represented.\<close>  Go strings are byte strings and become \<open>string\<close>; a struct becomes a
  \<open>record\<close>, a table a list of row records in insertion order, with the constraints of the migrations as
  guards of the insert (\<open>ConversationTables\<close>, \<open>RegistryStore\<close>).  A handler is a function of an environment
  (the clock, the oracle functions below), of the tables and of the request; its result is a sum of an error
  and a value, paired with the tables afterwards.  A transaction that returns an error gives back the tables
  it started from; an \<open>Exec\<close> outside a transaction keeps its effect.  Random identifiers and tokens are
  arguments, so a theorem over a run quantifies over them and asks for their freshness where the code relies
  on it.  Integers that come from counters of the database keep their width where it matters: the indices of
  the ratchet are \<open>64 word\<close> (\<open>wrap64\<close>), serial and int4 columns refuse what does not fit.  Times are
  nanoseconds as \<open>int\<close>.

  \<^bold>\<open>The parts and how they interact.\<close>
  The apps service keeps the catalogue of mini-apps and their releases; the gateway reads it over HTTP.  The
  gateway's services share one database: messages are written by the message service together with a row of
  the domain event log, the fan-out worker turns rows of that log into entries of the inboxes of the members,
  and clients read their inboxes page by page and acknowledge them.  End-to-end encryption happens at the
  clients; the gateway has the cryptographic routines, the stored keys and the checks of what it stores.

  \<^item> \<open>Prelude\<close>, \<open>Json\<close>, \<open>Url\<close>, \<open>Base64\<close>, \<open>Http\<close>: strings, maps and errors; what the sources use of
    \<open>encoding/json\<close>, \<open>net/url\<close>, \<open>encoding/base64\<close> and \<open>net/http\<close>.  \<open>Phone\<close>: \<open>phone/normalize.go\<close>, whose results are
    its fixed points.
  \<^item> Apps registry (\<open>registry.go\<close>, \<open>handlers.go\<close>).  \<open>Versions\<close> (\<open>versionGreater\<close>), \<open>Manifest\<close>,
    \<open>Registry\<close> (the state \<open>registryState\<close>, the pointers to the latest releases), \<open>RegistryOps\<close> (the closures
    that the handlers give to \<open>mutateState\<close>), \<open>RegistryStore\<close> (the file and the tables behind
    \<open>loadState\<close> and \<open>mutateState\<close>), \<open>Catalog\<close>, \<open>PublisherKeys\<close>, \<open>AppsHandlers\<close> (every route).
    \<open>RegistrySteps\<close> states the abstract machine: one labelled step per request that changes state.
    \<open>RegistryProps\<close>, \<open>RegistryReview\<close>, \<open>RegistryPersist\<close>, \<open>RegistryStoreProps\<close>, \<open>PublisherKeyProps\<close>
    and \<open>AppsHandlerProps\<close> hold the invariant of the reachable states, ownership, immutability, consent, review,
    the round trip through the tables, revocation, and that the HTTP service refines the machine.  The locale \<open>latest_choice\<close>
    is the choice of a latest release, by version and by publication.  The locale
    \<open>registry_backend\<close> is the contract between \<open>mutateState\<close> and its store; it is interpreted by the
    tables (\<open>db\<close>) and by the file (\<open>disk\<close>).
  \<^item> Relay (\<open>relay/handler.go\<close>, \<open>worker/relay_retry.go\<close>).  \<open>Relay\<close> has the jobs and their handlers, \<open>RelayProps\<close>
    who may accept and finish a job and what never changes about it.
  \<^item> Encryption (\<open>e2ee\<close>).  \<open>Crypto\<close> (\<open>crypto.go\<close>: agreement, wrapping, contents), \<open>Ratchet\<close>
    (\<open>double_ratchet.go\<close> and the session manager), \<open>Trust\<close> (\<open>trust_state.go\<close>, \<open>handler.go\<close>), \<open>Mls\<close>
    (\<open>mls.go\<close>) and \<open>GroupCrypto\<close> (\<open>group_encryption.go\<close>), with \<open>RatchetProps\<close>, \<open>SessionProps\<close>,
    \<open>TrustProps\<close> and \<open>GroupProps\<close>.
  \<^item> Mini-apps (\<open>miniapp\<close>, \<open>config/origins.go\<close>).  \<open>MiniappManifest\<close>, \<open>Origins\<close>, \<open>MiniappSessions\<close> (tables
    and session rows), \<open>MiniappService\<close> (\<open>service.go\<close>), \<open>MiniappShare\<close> (\<open>share.go\<close>), \<open>MiniappHandlers\<close>
    (\<open>handler.go\<close>); \<open>MiniappInvariant\<close> and \<open>MiniappProps\<close>.
  \<^item> \<open>SecurityAudit\<close> (\<open>securityaudit/audit.go\<close>): the hash chain of the audit log, over any number of targets.
  \<^item> Replication (\<open>replication/store.go\<close>, \<open>worker/sync_fanout.go\<close>, \<open>sync\<close>).  \<open>ConversationTables\<close> (the shared
    tables), \<open>ReplicationEvents\<close> (payloads and their JSON), \<open>ReplicationStore\<close> (every operation),
    \<open>ReplicationPaging\<close>, \<open>ReplicationFanout\<close> (the round as a fold of one event processor, locale
    \<open>event_processor\<close>, interpreted by the eight processors and by their switch), \<open>ReplicationAck\<close>,
    \<open>ReplicationProps\<close>, \<open>Sync\<close>.
  \<^item> Messages (\<open>messages\<close>).  \<open>MessageContent\<close> (validation of contents), \<open>MessageEnvelope\<close>
    (\<open>encryption_middleware.go\<close>), \<open>MessageStore\<close> (the tables and helpers), \<open>MessageSend\<close> (sending, forwarding,
    phone numbers), \<open>MessageOps\<close> (redacting, editing, deleting, reactions, effects, deliveries),
    \<open>MessageViews\<close> (lists, threads, timelines, pins), \<open>MessageSearch\<close> (\<open>search.go\<close>), \<open>MessageHandlers\<close>
    (\<open>handler.go\<close>).  \<open>MessageRows\<close> is the specification: a relation between the tables before and
    after a request, which every operation keeps; \<open>MessageHistory\<close> proves consequences over runs in
    the locale \<open>request_run\<close>, interpreted by the run of all requests.  \<open>MessageProps\<close>,
    \<open>MessageFlow\<close> and \<open>MessageSealed\<close> have the properties.

  \<^bold>\<open>What is shown.\<close>
  Invariants over any run of requests: the registry's well-formedness, the identity of relay jobs, the history
  of mini-app sessions and their event log, the gapless orders of a conversation.  Safety: installs are
  approved and consented, releases do not change, a revoked key stays revoked, strangers see approved releases, relay
  jobs are accepted once and by an authorized device, a device is verified only by its fingerprint, message contents change
  only by their sender, a message of an encrypted conversation is addressed to exactly the members' devices.
  Refinement: the HTTP service stays inside the abstract registry, and a round of the fan-out worker appends
  to each inbox the list that \<open>event_entries\<close> of its events specifies.  Round trips: the registry's tables, the ratchet.
  The composition of the message service with the replication store: a message that was sent appears once in
  every member's inbox after the next rounds.
  Some theorems state what the code does where it departs from what it means to do: a page boundary of the
  inbox loses an event, a preview that is cut inside a character stops the fan-out, group messages cannot be
  decrypted, no search succeeds, a list ends at the hundredth message.  They are about the same
  definitions as the others.

  \<^bold>\<open>Bounds and fuel.\<close>
  A receive of the ratchet derives keys in a loop of at most 10001 rounds, the limit in the code with its own overflow.
  Clients that follow cursors (\<open>follow_pages\<close>, \<open>follow_events\<close>, polling a mini-app session) and the worker loop carry
  fuel; the theorems give an amount that suffices, a number of pages or of rounds computed from the length of what is read,
  so they are not restricted to runs that end.  The limits of the code are as written: pages of the inbox at most
  1000, a batch of 100 events, lists of 100 and timelines of 500 messages, idempotency keys of 24 hours, previews of
  120 bytes.  Everything else is structural recursion.

  \<^bold>\<open>Parameters.\<close>
  What is not under \<open>src\<close> is an argument: SHA-256, AES-GCM, X25519 and HKDF (laws in \<open>crypto_laws\<close>, which a
  concrete instance satisfies in \<open>RatchetProps\<close>), the checks of RSA and Ed25519 signatures, collision freedom where a claim
  needs it, how PostgreSQL prints \<open>jsonb\<close> and the spelling of numbers, how it reads and prints times, the query on the
  status of a release (whose columns no migration defines), the full-text match, the answers of Kafka, of the
  Cassandra store and of the rate limiter, and who is online according to Redis.  Each claim with a hypothesis on
  one has a witness with a concrete function in its place.

  \<^bold>\<open>Not modelled.\<close>
  The libsignal stores of \<open>e2ee\<close> (reached by no route; they call an SQL function that no migration
  defines).  Conversations, accounts, devices, device keys, discovery, contacts and carrier messages: their tables
  appear here as far as the modelled services read them, their handlers do not.  Realtime connections, media,
  notifications, the stream processors and the rate limiter, which are I/O around Redis, Kafka, files and push
  services.  HTTP plumbing, configuration, generated database access, entry points, declarations without operations and
  the clients in JavaScript and Kotlin.  Of the message service: \<open>cassandra_store.go\<close>, the building of Kafka
  envelopes in \<open>envelope.go\<close>, and functions nothing calls (\<open>ValidateEncryptedAttachments\<close>,
  \<open>HandleDeviceRevocationE2EE\<close>, \<open>HandleAccountDeletionE2EE\<close>, \<open>removeSpecialChars\<close>,
  \<open>LogEncryptionEvent\<close>).  Concurrency is that of serialized transactions: each request runs alone, which row
  locks and unique constraints ensure for the rows a request writes.
\<close>

end
